(* ===== verification/Go_Prelude.thy ===== *)
theory Go_Prelude
  imports Main "HOL-Library.Char_ord" "HOL-Library.List_Lexorder" "HOL-Library.Sublist"
begin

text \<open>
  The vocabulary that every component of the planner shares: Go's error values, the
  shape of a Go call that changes state and may fail, Go maps with string keys, and the
  functions of the packages \<open>strings\<close>, \<open>strconv\<close>, \<open>sort\<close> and \<open>encoding/base64\<close> the
  sources use. A Go \<open>string\<close> and a Go \<open>[]byte\<close> are both the type \<open>string\<close> (a list of
  bytes), ordered bytewise as Go orders them.
\<close>

named_theorems go_defs
  \<open>definitions that are unfolded to run a piece of the model\<close>

named_theorems go_str
  \<open>equations of the string functions\<close>

section \<open>Error values\<close>

text \<open>
  \<open>ErrWaiting\<close> and \<open>ErrIgnore\<close> are the two error types of
  \<open>pkg/capr/planner/errors.go\<close>, \<open>ErrSkip\<close> is \<open>generic.ErrSkip\<close> (requeue without an
  error), \<open>ErrNotFound\<close> an API error for which \<open>apierrors.IsNotFound\<close> holds,
  \<open>ErrConflict\<close> one for which \<open>apierrors.IsConflict\<close> holds and \<open>ErrOther\<close> any other
  error value. \<open>ErrWrap\<close> is an error with a cause, as \<open>errors.Wrap\<close> and \<open>%w\<close> make it.
  \<open>GoPanic\<close> is a runtime panic: it is no error value of the source, it stands for a call
  that does not return, so every test of an error lets it pass unchanged.
\<close>

datatype go_error =
    ErrWaiting string
  | ErrIgnore string
  | ErrSkip
  | ErrNotFound string
  | ErrConflict string
  | ErrOther string
  | ErrWrap string go_error
  | GoPanic string

type_synonym err = "go_error option"

fun Error :: "go_error \<Rightarrow> string" where
  "Error (ErrWaiting s) = s"
| "Error (ErrIgnore s) = s"
| "Error ErrSkip = ''skip processing''"
| "Error (ErrNotFound s) = s"
| "Error (ErrConflict s) = s"
| "Error (ErrOther s) = s"
| "Error (ErrWrap s e) = s @ '': '' @ Error e"
| "Error (GoPanic s) = s"

fun is_NotFound :: "go_error \<Rightarrow> bool" where
  "is_NotFound (ErrNotFound _) = True"
| "is_NotFound (ErrWrap _ e) = is_NotFound e"
| "is_NotFound _ = False"

fun is_ErrSkip :: "go_error \<Rightarrow> bool" where
  "is_ErrSkip ErrSkip = True"
| "is_ErrSkip (ErrWrap _ e) = is_ErrSkip e"
| "is_ErrSkip _ = False"

fun is_panic :: "go_error \<Rightarrow> bool" where
  "is_panic (GoPanic _) = True"
| "is_panic (ErrWrap _ e) = is_panic e"
| "is_panic _ = False"

text \<open>\<open>errors.Is\<close> and \<open>errors.As\<close> are false on the nil error.\<close>

definition err_is :: "(go_error \<Rightarrow> bool) \<Rightarrow> err \<Rightarrow> bool" where
  "err_is P e = (case e of None \<Rightarrow> False | Some x \<Rightarrow> P x)"

lemma err_is_simps [simp]: "err_is P None = False" "err_is P (Some x) = P x"
  by (simp_all add: err_is_def)

section \<open>Calls that change state and may fail\<close>

text \<open>
  \<open>x, err := f(); if err != nil { return err }\<close> is \<open>bindE f (\<lambda>x. \<dots>)\<close>. What the call
  changed before it failed stays changed, as in the source.
\<close>

type_synonym ('s, 'a) go = "'s \<Rightarrow> (go_error + 'a) \<times> 's"

definition retE :: "'a \<Rightarrow> ('s, 'a) go" where
  "retE x s = (Inr x, s)"

definition raiseE :: "go_error \<Rightarrow> ('s, 'a) go" where
  "raiseE e s = (Inl e, s)"

definition bindE :: "('s, 'a) go \<Rightarrow> ('a \<Rightarrow> ('s, 'b) go) \<Rightarrow> ('s, 'b) go" where
  "bindE f k s = (case f s of (Inl e, s') \<Rightarrow> (Inl e, s') | (Inr x, s') \<Rightarrow> k x s')"

text \<open>Go reads the state without a call.\<close>

definition readE :: "('s \<Rightarrow> 'a) \<Rightarrow> ('s, 'a) go" where
  "readE f s = (Inr (f s), s)"

definition writeE :: "('s \<Rightarrow> 's) \<Rightarrow> ('s, unit) go" where
  "writeE f s = (Inr (), f s)"

text \<open>\<open>err := f()\<close> with the error kept for a later test.\<close>

definition tryE :: "('s, 'a) go \<Rightarrow> ('s, go_error + 'a) go" where
  "tryE f s = (case f s of (r, s') \<Rightarrow> (Inr r, s'))"

definition liftE :: "go_error + 'a \<Rightarrow> ('s, 'a) go" where
  "liftE r s = (r, s)"

lemma retE_apply [simp]: "retE x s = (Inr x, s)"
  by (simp add: retE_def)

lemma raiseE_apply [simp]: "raiseE e s = (Inl e, s)"
  by (simp add: raiseE_def)

lemma readE_apply [simp]: "readE f s = (Inr (f s), s)"
  by (simp add: readE_def)

lemma writeE_apply [simp]: "writeE f s = (Inr (), f s)"
  by (simp add: writeE_def)

lemma liftE_apply [simp]: "liftE r s = (r, s)"
  by (simp add: liftE_def)

lemma bindE_retE [simp]: "bindE (retE x) k = k x"
  by (rule ext) (simp add: bindE_def)

lemma bindE_raiseE [simp]: "bindE (raiseE e) k = raiseE e"
  by (rule ext) (simp add: bindE_def)

lemma bindE_readE [simp]: "bindE (readE f) k s = k (f s) s"
  by (simp add: bindE_def)

lemma bindE_writeE [simp]: "bindE (writeE f) k s = k () (f s)"
  by (simp add: bindE_def)

lemma bindE_liftE_Inr [simp]: "bindE (liftE (Inr x)) k = k x"
  by (rule ext) (simp add: bindE_def)

lemma bindE_liftE_Inl [simp]: "bindE (liftE (Inl e)) k = raiseE e"
  by (rule ext) (simp add: bindE_def)

lemma bindE_Inr: "f s = (Inr x, s') \<Longrightarrow> bindE f k s = k x s'"
  by (simp add: bindE_def)

lemma bindE_Inl: "f s = (Inl e, s') \<Longrightarrow> bindE f k s = (Inl e, s')"
  by (simp add: bindE_def)

lemma bindE_eq_Inr_iff:
  "bindE f k s = (Inr y, t) \<longleftrightarrow> (\<exists>x s'. f s = (Inr x, s') \<and> k x s' = (Inr y, t))"
  by (auto simp: bindE_def split: prod.splits sum.splits)

lemma bindE_eq_Inl_iff:
  "bindE f k s = (Inl e, t) \<longleftrightarrow>
     f s = (Inl e, t) \<or> (\<exists>x s'. f s = (Inr x, s') \<and> k x s' = (Inl e, t))"
  by (auto simp: bindE_def split: prod.splits sum.splits)

lemma bindE_assoc: "bindE (bindE f g) h = bindE f (\<lambda>x. bindE (g x) h)"
  by (rule ext) (auto simp: bindE_def split: prod.splits sum.splits)

lemma tryE_Inr: "f s = (r, s') \<Longrightarrow> bindE (tryE f) k s = k r s'"
  by (simp add: bindE_def tryE_def)

text \<open>The same sequencing for a call that reads no state.\<close>

definition sbind :: "go_error + 'a \<Rightarrow> ('a \<Rightarrow> go_error + 'b) \<Rightarrow> go_error + 'b" where
  "sbind x k = (case x of Inl e \<Rightarrow> Inl e | Inr a \<Rightarrow> k a)"

lemma sbind_simps [simp]: "sbind (Inl e) k = Inl e" "sbind (Inr a) k = k a"
  by (simp_all add: sbind_def)

lemma sbind_eq_Inr_iff: "sbind x k = Inr b \<longleftrightarrow> (\<exists>a. x = Inr a \<and> k a = Inr b)"
  by (cases x) auto

text \<open>A relation between the states before and after a call, on every outcome.\<close>

definition stepsE :: "('s \<Rightarrow> 's \<Rightarrow> bool) \<Rightarrow> ('s, 'a) go \<Rightarrow> bool" where
  "stepsE R f \<longleftrightarrow> (\<forall>s. R s (snd (f s)))"

lemma stepsE_ret: "reflp R \<Longrightarrow> stepsE R (retE x)"
  by (simp add: stepsE_def reflpD)

lemma stepsE_raise: "reflp R \<Longrightarrow> stepsE R (raiseE e)"
  by (simp add: stepsE_def reflpD)

lemma stepsE_lift: "reflp R \<Longrightarrow> stepsE R (liftE r)"
  by (simp add: stepsE_def reflpD)

lemma stepsE_read: "reflp R \<Longrightarrow> stepsE R (readE f)"
  by (simp add: stepsE_def reflpD)

lemma stepsE_bind:
  assumes "transp R" "stepsE R f" "\<And>x. stepsE R (k x)"
  shows "stepsE R (bindE f k)"
  unfolding stepsE_def
proof
  fix s
  have fs: "R s (snd (f s))" using assms(2) by (simp add: stepsE_def)
  show "R s (snd (bindE f k s))"
  proof (cases "f s")
    case (Pair r s')
    show ?thesis
    proof (cases r)
      case (Inl e)
      with Pair fs show ?thesis by (simp add: bindE_def)
    next
      case (Inr x)
      have "R s' (snd (k x s'))" using assms(3) by (simp add: stepsE_def)
      with Pair Inr fs assms(1) show ?thesis
        by (auto simp: bindE_def dest: transpD)
    qed
  qed
qed

lemma stepsE_try: "stepsE R f \<Longrightarrow> stepsE R (tryE f)"
  by (auto simp: stepsE_def tryE_def split: prod.splits)
     (metis snd_conv)

section \<open>Go maps\<close>

text \<open>
  \<open>m[k]\<close> on a \<open>map[string]string\<close> is the zero value \<open>""\<close> when the key is absent; writing
  is function update. A map that the code iterates over, or compares, is an association
  list kept in the order of its keys, which is the order \<open>encoding/json\<close> writes it in.
\<close>

type_synonym smap = "string \<Rightarrow> string option"

definition gets :: "smap \<Rightarrow> string \<Rightarrow> string" where
  "gets m k = (case m k of None \<Rightarrow> '''' | Some v \<Rightarrow> v)"

lemma gets_upd [simp]: "gets (m(k \<mapsto> v)) k' = (if k' = k then v else gets m k')"
  by (simp add: gets_def)

lemma gets_del [simp]: "gets (m(k := None)) k' = (if k' = k then '''' else gets m k')"
  by (simp add: gets_def)

lemma gets_empty [simp]: "gets Map.empty k = ''''"
  by (simp add: gets_def)

lemma gets_SomeI: "m k = Some v \<Longrightarrow> gets m k = v"
  by (simp add: gets_def)

lemma gets_nonempty_dom: "gets m k \<noteq> '''' \<Longrightarrow> m k = Some (gets m k)"
  by (simp add: gets_def split: option.splits)

text \<open>
  The values of \<open>interface{}\<close> the sources build or get from \<open>encoding/json\<close>: a JSON number
  keeps the text that \<open>%v\<close> prints for it, \<open>JArr\<close> is \<open>[]interface{}\<close> and \<open>JStrs\<close> is
  \<open>[]string\<close>.
\<close>

datatype json =
    JNull
  | JBool bool
  | JInt int
  | JNum string
  | JStr string
  | JArr "json list"
  | JStrs "string list"
  | JObj "(string \<times> json) list"

fun gm_put :: "string \<Rightarrow> 'a \<Rightarrow> (string \<times> 'a) list \<Rightarrow> (string \<times> 'a) list" where
  "gm_put k v [] = [(k, v)]"
| "gm_put k v ((k', v') # xs) =
     (if k = k' then (k, v) # xs
      else if k < k' then (k, v) # (k', v') # xs
      else (k', v') # gm_put k v xs)"

definition gm_del :: "string \<Rightarrow> (string \<times> 'a) list \<Rightarrow> (string \<times> 'a) list" where
  "gm_del k xs = filter (\<lambda>(k', _). k' \<noteq> k) xs"

lemma map_of_gm_put [simp]: "map_of (gm_put k v xs) = (map_of xs)(k \<mapsto> v)"
  by (induction k v xs rule: gm_put.induct) (auto simp: fun_eq_iff)

lemma map_of_gm_del [simp]: "map_of (gm_del k xs) = (map_of xs)(k := None)"
  by (induction xs) (auto simp: gm_del_def fun_eq_iff)

lemma set_keys_gm_put [simp]: "fst ` set (gm_put k v xs) = insert k (fst ` set xs)"
  by (induction k v xs rule: gm_put.induct) auto

lemma sorted_gm_put: "sorted_wrt (<) (map fst xs) \<Longrightarrow> sorted_wrt (<) (map fst (gm_put k v xs))"
proof (induction k v xs rule: gm_put.induct)
  case (2 k v k' v' xs)
  then show ?case
    using set_keys_gm_put [of k v xs] by (auto simp: image_iff)
qed simp

section \<open>strings\<close>

definition HasPrefix :: "string \<Rightarrow> string \<Rightarrow> bool" where
  "HasPrefix s p = (take (length p) s = p)"

definition HasSuffix :: "string \<Rightarrow> string \<Rightarrow> bool" where
  "HasSuffix s p = (length p \<le> length s \<and> drop (length s - length p) s = p)"

definition TrimPrefix :: "string \<Rightarrow> string \<Rightarrow> string" where
  "TrimPrefix s p = (if HasPrefix s p then drop (length p) s else s)"

definition TrimSuffix :: "string \<Rightarrow> string \<Rightarrow> string" where
  "TrimSuffix s p = (if HasSuffix s p then take (length s - length p) s else s)"

fun Contains :: "string \<Rightarrow> string \<Rightarrow> bool" where
  "Contains [] p = (p = [])"
| "Contains (c # s) p = (HasPrefix (c # s) p \<or> Contains s p)"

text \<open>\<open>strings.Cut(s, sep)\<close> for a non-empty separator: before and after the first one.\<close>

fun Cut :: "string \<Rightarrow> string \<Rightarrow> (string \<times> string) option" where
  "Cut [] sep = (if sep = [] then Some ([], []) else None)"
| "Cut (c # s) sep =
     (if HasPrefix (c # s) sep then Some ([], drop (length sep) (c # s))
      else map_option (\<lambda>(a, b). (c # a, b)) (Cut s sep))"

text \<open>
  \<open>strings.Split(s, sep)\<close> for a one- or more-byte separator: the pieces between the
  separators, always at least one.
\<close>

function Split :: "string \<Rightarrow> string \<Rightarrow> string list" where
  "Split s sep =
     (case Cut s sep of
        None \<Rightarrow> [s]
      | Some (a, b) \<Rightarrow> if sep = [] then [s] else a # Split b sep)"
  by pat_completeness auto

lemma Cut_Some: "Cut s sep = Some (a, b) \<Longrightarrow> s = a @ sep @ b"
proof (induction s sep arbitrary: a b rule: Cut.induct)
  case (2 c s sep)
  show ?case
  proof (cases "HasPrefix (c # s) sep")
    case True
    then have "c # s = sep @ drop (length sep) (c # s)"
      by (metis HasPrefix_def append_take_drop_id)
    with 2 True show ?thesis by auto
  next
    case False
    with 2 show ?thesis by auto
  qed
qed (auto split: if_splits)

termination Split
  by (relation "measure (\<lambda>(s, sep). length s)") (auto dest!: Cut_Some)

declare Split.simps [simp del]

lemma Split_nonempty [simp]: "Split s sep \<noteq> []"
  by (subst Split.simps) (simp split: option.splits)

fun Join :: "string list \<Rightarrow> string \<Rightarrow> string" where
  "Join [] sep = ''''"
| "Join [x] sep = x"
| "Join (x # y # ys) sep = x @ sep @ Join (y # ys) sep"

lemma Join_Split: "Join (Split s sep) sep = s"
proof (induction s sep rule: Split.induct)
  case (1 s sep)
  show ?case
  proof (cases "Cut s sep")
    case None
    then show ?thesis by (simp add: Split.simps [of s])
  next
    case (Some ab)
    obtain a b where ab: "ab = (a, b)" by (cases ab)
    show ?thesis
    proof (cases "sep = []")
      case True
      with Some ab show ?thesis by (simp add: Split.simps [of s])
    next
      case False
      from 1 Some ab False have IH: "Join (Split b sep) sep = b" by auto
      have "Split s sep = a # Split b sep"
        using Some ab False by (simp add: Split.simps [of s])
      moreover obtain y ys where "Split b sep = y # ys"
        by (cases "Split b sep") auto
      ultimately show ?thesis using IH Cut_Some Some ab by fastforce
    qed
  qed
qed

lemma HasPrefix_append [simp]: "HasPrefix (p @ s) p"
  by (simp add: HasPrefix_def)

lemma HasPrefix_Nil [simp]: "HasPrefix s []"
  by (simp add: HasPrefix_def)

lemma HasPrefix_iff: "HasPrefix s p \<longleftrightarrow> (\<exists>t. s = p @ t)"
  by (metis HasPrefix_def append_take_drop_id append_eq_conv_conj)

lemma HasSuffix_iff: "HasSuffix s p \<longleftrightarrow> (\<exists>t. s = t @ p)"
proof
  assume "HasSuffix s p"
  then have "s = take (length s - length p) s @ p"
    by (metis HasSuffix_def append_take_drop_id)
  then show "\<exists>t. s = t @ p" ..
next
  assume "\<exists>t. s = t @ p"
  then show "HasSuffix s p" by (auto simp: HasSuffix_def)
qed

lemma Contains_iff: "Contains s p \<longleftrightarrow> (\<exists>a b. s = a @ p @ b)"
proof (induction s)
  case Nil
  show ?case by auto
next
  case (Cons c s)
  show ?case
  proof
    assume "Contains (c # s) p"
    then consider t where "c # s = p @ t" | a b where "s = a @ p @ b"
      using Cons.IH by (auto simp: HasPrefix_iff)
    then show "\<exists>a b. c # s = a @ p @ b"
    proof cases
      case (1 t)
      then have "c # s = [] @ p @ t" by simp
      then show ?thesis by blast
    next
      case (2 a b)
      then have "c # s = (c # a) @ p @ b" by simp
      then show ?thesis by blast
    qed
  next
    assume "\<exists>a b. c # s = a @ p @ b"
    then obtain a b where ab: "c # s = a @ p @ b" by blast
    show "Contains (c # s) p"
    proof (cases a)
      case Nil
      with ab have "HasPrefix (c # s) p" by (simp add: HasPrefix_def)
      then show ?thesis by simp
    next
      case (Cons x xs)
      with ab Cons.IH show ?thesis by auto
    qed
  qed
qed

lemma TrimPrefix_append [simp]: "TrimPrefix (p @ s) p = s"
  by (simp add: TrimPrefix_def)

lemma Cut_None_iff: "sep \<noteq> [] \<Longrightarrow> Cut s sep = None \<longleftrightarrow> \<not> Contains s sep"
  by (induction s) (auto simp: HasPrefix_def)

lemma Cut_single: "c \<notin> set a \<Longrightarrow> Cut (a @ c # b) [c] = Some (a, b)"
  by (induction a) (auto simp: HasPrefix_def)

text \<open>
  \<open>strings.SplitN(s, sep, 2)\<close> returns two pieces exactly when \<open>sep\<close> occurs.
\<close>

definition SplitN2 :: "string \<Rightarrow> string \<Rightarrow> string list" where
  "SplitN2 s sep = (case Cut s sep of None \<Rightarrow> [s] | Some (a, b) \<Rightarrow> [a, b])"

function ReplaceAll :: "string \<Rightarrow> string \<Rightarrow> string \<Rightarrow> string" where
  "ReplaceAll s old new =
     (case Cut s old of
        None \<Rightarrow> s
      | Some (a, b) \<Rightarrow> if old = [] then s else a @ new @ ReplaceAll b old new)"
  by pat_completeness auto
termination
  by (relation "measure (\<lambda>(s, old, new). length s)") (auto dest!: Cut_Some)

declare ReplaceAll.simps [simp del]

definition to_lower_char :: "char \<Rightarrow> char" where
  "to_lower_char c = (if (65::nat) \<le> of_char c \<and> of_char c \<le> (90::nat) then char_of (of_char c + 32 :: nat) else c)"

definition to_upper_char :: "char \<Rightarrow> char" where
  "to_upper_char c = (if (97::nat) \<le> of_char c \<and> of_char c \<le> (122::nat) then char_of (of_char c - 32 :: nat) else c)"

text \<open>The sources only change the case of ASCII text.\<close>

definition ToLower :: "string \<Rightarrow> string" where
  "ToLower = map to_lower_char"

definition ToUpper :: "string \<Rightarrow> string" where
  "ToUpper = map to_upper_char"

definition count_char :: "char \<Rightarrow> string \<Rightarrow> nat" where
  "count_char c s = length (filter (\<lambda>d. d = c) s)"

end
