(* ===== verification/Go_Strconv.thy ===== *)
theory Go_Strconv
  imports Go_Prelude
begin

text \<open>
  The parts of Go's \<open>strconv\<close> and \<open>encoding/base64\<close> packages that the planner uses:
  \<open>Itoa\<close>/\<open>FormatInt\<close>, \<open>Atoi\<close> with its 64-bit range check, and the standard base64
  alphabet with padding. The round trips are the facts the plan secret rests on: a
  number written with \<open>Itoa\<close> is read back by \<open>Atoi\<close>, a file's content survives base64.
\<close>

section \<open>strconv.Itoa and strconv.Atoi\<close>

definition digit :: "nat \<Rightarrow> char" where
  "digit d = char_of (48 + d)"

fun dec :: "nat \<Rightarrow> string" where
  "dec n = (if n < 10 then [digit n] else dec (n div 10) @ [digit (n mod 10)])"

declare dec.simps [simp del]

definition Itoa :: "int \<Rightarrow> string" where
  "Itoa i = (if i < 0 then CHR ''-'' # dec (nat (- i)) else dec (nat i))"

definition digit_val :: "char \<Rightarrow> nat option" where
  "digit_val c = (let n = of_char c in if 48 \<le> n \<and> n \<le> (57::nat) then Some (n - 48) else None)"

fun undec :: "nat \<Rightarrow> string \<Rightarrow> nat option" where
  "undec acc [] = Some acc"
| "undec acc (c # cs) =
     (case digit_val c of None \<Rightarrow> None | Some d \<Rightarrow> undec (10 * acc + d) cs)"

definition undec1 :: "string \<Rightarrow> nat option" where
  "undec1 s = (if s = [] then None else undec 0 s)"

definition int64_min :: int where "int64_min = - (2 ^ 63)"
definition int64_max :: int where "int64_max = 2 ^ 63 - 1"

definition in_int64 :: "int \<Rightarrow> bool" where
  "in_int64 i \<longleftrightarrow> int64_min \<le> i \<and> i \<le> int64_max"

text \<open>
  \<open>strconv.Atoi\<close>: an optional sign, then at least one decimal digit and nothing else, and
  the value in the range of a 64-bit \<open>int\<close>; anything else is an error.
\<close>

definition Atoi :: "string \<Rightarrow> go_error + int" where
  "Atoi s =
     (let (neg, ds) = (case s of
            [] \<Rightarrow> (False, [])
          | c # cs \<Rightarrow> if c = CHR ''-'' then (True, cs)
                      else if c = CHR ''+'' then (False, cs) else (False, s))
      in case undec1 ds of
           None \<Rightarrow> Inl (ErrOther (''strconv.Atoi: parsing \"'' @ s @ ''\": invalid syntax''))
         | Some n \<Rightarrow>
             (let i = (if neg then - int n else int n)
              in if in_int64 i then Inr i
                 else Inl (ErrOther (''strconv.Atoi: parsing \"'' @ s @ ''\": value out of range''))))"

lemma digit_val_digit: "d < 10 \<Longrightarrow> digit_val (digit d) = Some d"
  by (simp add: digit_val_def digit_def)

lemma digit_not_sign: "d < 10 \<Longrightarrow> digit d \<noteq> CHR ''-'' \<and> digit d \<noteq> CHR ''+''"
proof -
  assume d: "d < 10"
  then have "of_char (digit d) = 48 + d" by (simp add: digit_def)
  then show ?thesis by auto
qed

lemma dec_nonempty [simp]: "dec n \<noteq> []"
  by (subst dec.simps) simp

lemma undec_append: "undec a (s @ t) = (case undec a s of None \<Rightarrow> None | Some b \<Rightarrow> undec b t)"
  by (induction s arbitrary: a) (auto split: option.splits)

lemma undec_dec: "undec 0 (dec n) = Some n"
proof (induction n rule: dec.induct)
  case (1 n)
  show ?case
  proof (cases "n < 10")
    case True
    then show ?thesis by (simp add: dec.simps [of n] digit_val_digit)
  next
    case False
    with 1 have "undec 0 (dec (n div 10)) = Some (n div 10)" by simp
    with False show ?thesis
      by (simp add: dec.simps [of n] undec_append digit_val_digit)
  qed
qed

lemma hd_dec: "hd (dec n) \<noteq> CHR ''-'' \<and> hd (dec n) \<noteq> CHR ''+''"
proof (induction n rule: dec.induct)
  case (1 n)
  show ?case
  proof (cases "n < 10")
    case True
    then show ?thesis by (simp add: dec.simps [of n] digit_not_sign)
  next
    case False
    with 1 show ?thesis by (simp add: dec.simps [of n])
  qed
qed

lemma Atoi_Itoa: "in_int64 i \<Longrightarrow> Atoi (Itoa i) = Inr i"
proof (cases "i < 0")
  case True
  assume "in_int64 i"
  with True show ?thesis
    by (simp add: Atoi_def Itoa_def undec1_def undec_dec)
next
  case False
  assume i: "in_int64 i"
  obtain c cs where c: "dec (nat i) = c # cs" by (cases "dec (nat i)") auto
  with hd_dec [of "nat i"] have "c \<noteq> CHR ''-''" "c \<noteq> CHR ''+''" by auto
  with False i c undec_dec [of "nat i"] show ?thesis
    by (simp add: Atoi_def Itoa_def undec1_def)
qed

lemma Itoa_nonempty [simp]: "Itoa i \<noteq> []"
  by (simp add: Itoa_def)

lemma Itoa_inj: "in_int64 i \<Longrightarrow> in_int64 j \<Longrightarrow> Itoa i = Itoa j \<Longrightarrow> i = j"
  by (metis Atoi_Itoa sum.inject(2))

lemma Atoi_range: "Atoi s = Inr i \<Longrightarrow> in_int64 i"
  by (auto simp: Atoi_def Let_def split: list.splits option.splits if_splits prod.splits)

section \<open>encoding/base64, the standard encoding\<close>

definition b64_char :: "nat \<Rightarrow> char" where
  "b64_char n =
     (if n < 26 then char_of (65 + n)
      else if n < 52 then char_of (71 + n)
      else if n < 62 then char_of (n - 4)
      else if n = 62 then CHR ''+'' else CHR ''/'')"

definition b64_val :: "char \<Rightarrow> nat option" where
  "b64_val c =
     (let n = (of_char c :: nat) in
      if 65 \<le> n \<and> n \<le> 90 then Some (n - 65)
      else if 97 \<le> n \<and> n \<le> 122 then Some (n - 71)
      else if 48 \<le> n \<and> n \<le> 57 then Some (n + 4)
      else if n = 43 then Some 62
      else if n = 47 then Some 63
      else None)"

fun b64_encode :: "string \<Rightarrow> string" where
  "b64_encode [] = []"
| "b64_encode [a] =
     (let n = of_char a * 65536
      in [b64_char (n div 262144), b64_char (n div 4096 mod 64), CHR ''='', CHR ''=''])"
| "b64_encode [a, b] =
     (let n = of_char a * 65536 + of_char b * 256
      in [b64_char (n div 262144), b64_char (n div 4096 mod 64), b64_char (n div 64 mod 64), CHR ''=''])"
| "b64_encode (a # b # c # s) =
     (let n = of_char a * 65536 + of_char b * 256 + of_char c
      in b64_char (n div 262144) # b64_char (n div 4096 mod 64)
         # b64_char (n div 64 mod 64) # b64_char (n mod 64) # b64_encode s)"

text \<open>
  For evaluation the six bits of a digit select it from the alphabet, so that encoding does no
  arithmetic.
\<close>

definition b64_bits :: "bool \<Rightarrow> bool \<Rightarrow> bool \<Rightarrow> bool \<Rightarrow> bool \<Rightarrow> bool \<Rightarrow> char" where
  "b64_bits b5 b4 b3 b2 b1 b0 =
     b64_char (32 * of_bool b5 + 16 * of_bool b4 + 8 * of_bool b3 + 4 * of_bool b2 + 2 * of_bool b1 + of_bool b0)"

lemma b64_bits_code [code]:
  "b64_bits b5 b4 b3 b2 b1 b0 =
  (if b5 then (if b4 then (if b3 then
        (if b2 then (if b1 then (if b0 then CHR ''/'' else CHR ''+'') else (if b0 then CHR ''9'' else CHR ''8'')) else (if b1 then (if b0 then CHR ''7'' else CHR ''6'') else (if b0 then CHR ''5'' else CHR ''4'')))
      else
        (if b2 then (if b1 then (if b0 then CHR ''3'' else CHR ''2'') else (if b0 then CHR ''1'' else CHR ''0'')) else (if b1 then (if b0 then CHR ''z'' else CHR ''y'') else (if b0 then CHR ''x'' else CHR ''w''))))
    else (if b3 then
        (if b2 then (if b1 then (if b0 then CHR ''v'' else CHR ''u'') else (if b0 then CHR ''t'' else CHR ''s'')) else (if b1 then (if b0 then CHR ''r'' else CHR ''q'') else (if b0 then CHR ''p'' else CHR ''o'')))
      else
        (if b2 then (if b1 then (if b0 then CHR ''n'' else CHR ''m'') else (if b0 then CHR ''l'' else CHR ''k'')) else (if b1 then (if b0 then CHR ''j'' else CHR ''i'') else (if b0 then CHR ''h'' else CHR ''g'')))))
   else (if b4 then (if b3 then
        (if b2 then (if b1 then (if b0 then CHR ''f'' else CHR ''e'') else (if b0 then CHR ''d'' else CHR ''c'')) else (if b1 then (if b0 then CHR ''b'' else CHR ''a'') else (if b0 then CHR ''Z'' else CHR ''Y'')))
      else
        (if b2 then (if b1 then (if b0 then CHR ''X'' else CHR ''W'') else (if b0 then CHR ''V'' else CHR ''U'')) else (if b1 then (if b0 then CHR ''T'' else CHR ''S'') else (if b0 then CHR ''R'' else CHR ''Q''))))
    else (if b3 then
        (if b2 then (if b1 then (if b0 then CHR ''P'' else CHR ''O'') else (if b0 then CHR ''N'' else CHR ''M'')) else (if b1 then (if b0 then CHR ''L'' else CHR ''K'') else (if b0 then CHR ''J'' else CHR ''I'')))
      else
        (if b2 then (if b1 then (if b0 then CHR ''H'' else CHR ''G'') else (if b0 then CHR ''F'' else CHR ''E'')) else (if b1 then (if b0 then CHR ''D'' else CHR ''C'') else (if b0 then CHR ''B'' else CHR ''A''))))))"
  by (cases b5; cases b4; cases b3; cases b2; cases b1; cases b0) (simp_all add: b64_bits_def b64_char_def char_of_def bit_simps)

lemma b64_digits:
  assumes "n = x * 262144 + y * 4096 + z * 64 + (u::nat)" "x < 64" "y < 64" "z < 64" "u < 64"
  shows "n div 262144 = x" "n div 4096 mod 64 = y" "n div 64 mod 64 = z" "n mod 64 = u"
proof -
  show "n div 262144 = x" using assms by (intro div_nat_eqI) auto
  have "n div 4096 = x * 64 + y" using assms by (intro div_nat_eqI) auto
  then show "n div 4096 mod 64 = y" using assms by simp
  have "n div 64 = z + (x * 64 + y) * 64" using assms by (intro div_nat_eqI) auto
  then show "n div 64 mod 64 = z" using assms(4) by (simp only: mod_mult_self1 mod_less)
  have "n = u + (x * 4096 + y * 64 + z) * 64" using assms(1) by simp
  then show "n mod 64 = u" using assms(5) by (simp only: mod_mult_self1 mod_less)
qed

definition bits6 :: "bool \<Rightarrow> bool \<Rightarrow> bool \<Rightarrow> bool \<Rightarrow> bool \<Rightarrow> bool \<Rightarrow> nat" where
  "bits6 b5 b4 b3 b2 b1 b0 = 32 * of_bool b5 + 16 * of_bool b4 + 8 * of_bool b3 + 4 * of_bool b2 + 2 * of_bool b1 + of_bool b0"

lemma bits6_bound: "bits6 b5 b4 b3 b2 b1 b0 < 64"
  by (cases b5; cases b4; cases b3; cases b2; cases b1; cases b0) (simp_all add: bits6_def)

lemma b64_bits_char: "b64_bits b5 b4 b3 b2 b1 b0 = b64_char (bits6 b5 b4 b3 b2 b1 b0)"
  by (simp add: b64_bits_def bits6_def)

lemma b64_group:
  "of_char (Char a0 a1 a2 a3 a4 a5 a6 a7) * 65536 + of_char (Char b0 b1 b2 b3 b4 b5 b6 b7) * 256 +
     of_char (Char c0 c1 c2 c3 c4 c5 c6 c7) =
   bits6 a7 a6 a5 a4 a3 a2 * 262144 + bits6 a1 a0 b7 b6 b5 b4 * 4096 + bits6 b3 b2 b1 b0 c7 c6 * 64 +
     bits6 c5 c4 c3 c2 c1 c0"
  by (simp add: bits6_def of_char_Char algebra_simps)

lemma zero_char: "of_char (Char False False False False False False False False) = (0::nat)"
  by (simp add: of_char_Char)

lemmas b64_group_digits =
  b64_digits [OF b64_group bits6_bound bits6_bound bits6_bound bits6_bound]

lemma b64_encode_code [code]:
  "b64_encode [] = []"
  "b64_encode [Char a0 a1 a2 a3 a4 a5 a6 a7] =
     [b64_bits a7 a6 a5 a4 a3 a2, b64_bits a1 a0 False False False False, CHR ''='', CHR ''='']"
  "b64_encode [Char a0 a1 a2 a3 a4 a5 a6 a7, Char b0 b1 b2 b3 b4 b5 b6 b7] =
     [b64_bits a7 a6 a5 a4 a3 a2, b64_bits a1 a0 b7 b6 b5 b4, b64_bits b3 b2 b1 b0 False False, CHR ''='']"
  "b64_encode (Char a0 a1 a2 a3 a4 a5 a6 a7 # Char b0 b1 b2 b3 b4 b5 b6 b7 # Char c0 c1 c2 c3 c4 c5 c6 c7 # s) =
     b64_bits a7 a6 a5 a4 a3 a2 # b64_bits a1 a0 b7 b6 b5 b4 # b64_bits b3 b2 b1 b0 c7 c6 # b64_bits c5 c4 c3 c2 c1 c0 #
     b64_encode s"
  using b64_group_digits [of a0 a1 a2 a3 a4 a5 a6 a7 b0 b1 b2 b3 b4 b5 b6 b7 c0 c1 c2 c3 c4 c5 c6 c7]
    b64_group_digits [of a0 a1 a2 a3 a4 a5 a6 a7 b0 b1 b2 b3 b4 b5 b6 b7 False False False False False False False False]
    b64_group_digits [of a0 a1 a2 a3 a4 a5 a6 a7 False False False False False False False False
      False False False False False False False False]
  by (simp_all only: b64_encode.simps Let_def b64_bits_char zero_char mult_0 add_0_right)

text \<open>
  The decoder reads groups of four; padding may stand only at the end of the last group,
  and the unused low bits before it are not checked. Line breaks are skipped.
\<close>

fun b64_groups :: "string \<Rightarrow> string option" where
  "b64_groups [] = Some []"
| "b64_groups [w, x, y, z] =
     (case (b64_val w, b64_val x) of
        (Some p, Some q) \<Rightarrow>
          (if y = CHR ''='' then
             (if z = CHR ''='' then Some [char_of ((p * 64 + q) div 16)] else None)
           else case b64_val y of
             None \<Rightarrow> None
           | Some r \<Rightarrow>
             (if z = CHR ''='' then
                (let n = (p * 4096 + q * 64 + r) div 4
                 in Some [char_of (n div 256), char_of (n mod 256)])
              else case b64_val z of
                None \<Rightarrow> None
              | Some t \<Rightarrow>
                (let n = p * 262144 + q * 4096 + r * 64 + t
                 in Some [char_of (n div 65536), char_of (n div 256 mod 256), char_of (n mod 256)])))
      | _ \<Rightarrow> None)"
| "b64_groups (w # x # y # z # s) =
     (case (b64_val w, b64_val x, b64_val y, b64_val z) of
        (Some p, Some q, Some r, Some t) \<Rightarrow>
          (let n = p * 262144 + q * 4096 + r * 64 + t
           in map_option (\<lambda>u. char_of (n div 65536) # char_of (n div 256 mod 256) # char_of (n mod 256) # u)
                (b64_groups s))
      | _ \<Rightarrow> None)"
| "b64_groups _ = None"

definition b64_decode :: "string \<Rightarrow> go_error + string" where
  "b64_decode s =
     (case b64_groups (filter (\<lambda>c. c \<noteq> CHR 0x0A \<and> c \<noteq> CHR 0x0D) s) of
        None \<Rightarrow> Inl (ErrOther ''illegal base64 data'')
      | Some t \<Rightarrow> Inr t)"

lemma b64_val_char: "n < 64 \<Longrightarrow> b64_val (b64_char n) = Some n"
  by (auto simp: b64_val_def b64_char_def Let_def)

lemma b64_val_pad: "b64_val CHR ''='' = None"
  by (simp add: b64_val_def)

lemma b64_char_not_pad: "n < 64 \<Longrightarrow> b64_char n \<noteq> CHR ''=''"
  using b64_val_char [of n] b64_val_pad by auto

lemma of_char_less [simp]: "(of_char c :: nat) < 256"
proof -
  have "(of_char c :: nat) mod 256 < 256" by (rule mod_less_divisor) simp
  then show ?thesis by simp
qed

lemma char_of_modI: "n mod 256 = (of_char b :: nat) \<Longrightarrow> char_of n = b"
  by (rule of_char_eqI [where 'a = nat]) simp

lemma b64_groups_full:
  assumes "b64_val w = Some p" "b64_val x = Some q" "b64_val y = Some r" "b64_val z = Some t"
  shows "b64_groups (w # x # y # z # s) =
    (let n = p * 262144 + q * 4096 + r * 64 + t
     in map_option (\<lambda>u. char_of (n div 65536) # char_of (n div 256 mod 256) # char_of (n mod 256) # u)
          (b64_groups s))"
proof -
  have "y \<noteq> CHR ''=''" "z \<noteq> CHR ''=''" using assms b64_val_pad by auto
  with assms show ?thesis by (cases s) (simp_all add: Let_def)
qed

lemma b64_recombine:
  "(n div 262144) * 262144 + (n div 4096 mod 64) * 4096 + (n div 64 mod 64) * 64 + n mod 64 = (n::nat)"
proof -
  have "n div 4096 = n div 262144 * 64 + n div 4096 mod 64"
    using div_mult_mod_eq [of "n div 4096" 64] div_mult2_eq [of n 4096 64] by simp
  moreover have "n div 64 = n div 4096 * 64 + n div 64 mod 64"
    using div_mult_mod_eq [of "n div 64" 64] div_mult2_eq [of n 64 64] by simp
  moreover have "n = n div 64 * 64 + n mod 64"
    by simp
  ultimately show ?thesis by linarith
qed

lemma b64_triple:
  assumes "a < 256" "b < 256" "c < (256::nat)"
  defines "n \<equiv> a * 65536 + b * 256 + c"
  shows "n < 16777216" "n div 65536 = a" "n div 256 mod 256 = b" "n mod 256 = c"
proof -
  have n: "n = c + 256 * (a * 256 + b)" by (simp add: n_def)
  show "n < 16777216" "n div 65536 = a" using assms by simp_all
  show "n mod 256 = c"
    using assms(3) mod_mult_self2 [of c 256 "a * 256 + b"] unfolding n by (simp only: mod_less)
  have "n div 256 = b + 256 * a" using assms(3) unfolding n by simp
  then show "n div 256 mod 256 = b" using assms(2) by simp
qed

lemma b64_groups_encode: "b64_groups (b64_encode s) = Some s"
proof (induction s rule: b64_encode.induct)
  case (2 a)
  define n where "n = (of_char a :: nat)"
  define m where "m = n * 65536"
  have n: "n < 256" by (simp add: n_def)
  then have "m div 262144 < 64" by (simp add: m_def)
  moreover have "m div 262144 * 64 + m div 4096 mod 64 = m div 4096"
    using div_mult_mod_eq [of "m div 4096" 64] div_mult2_eq [of m 4096 64] by simp
  moreover have "m div 4096 div 16 = n"
    using div_mult2_eq [of m 4096 16] by (simp add: m_def)
  ultimately show ?case
    by (simp add: Let_def b64_val_char n_def [symmetric] m_def [symmetric]) (simp add: n_def)
next
  case (3 a b)
  define n where "n = (of_char a * 65536 + of_char b * 256 :: nat)"
  note tr = b64_triple [of "of_char a" "of_char b" 0, simplified, folded n_def]
  have p: "n div 262144 < 64" using tr(1) by simp
  have "n div 262144 * 4096 + n div 4096 mod 64 * 64 + n div 64 mod 64 = n div 64"
    using b64_recombine [of n] div_mult_mod_eq [of n 64] by linarith
  moreover have "n div 64 div 4 = n div 256"
    using div_mult2_eq [of n 64 4] by simp
  moreover have "n div 256 div 256 = of_char a"
    using div_mult2_eq [of n 256 256] b64_triple(2) [of "of_char a" "of_char b" 0]
    by (simp add: n_def)
  moreover have "char_of (n div 256) = b"
    using b64_triple(3) [of "of_char a" "of_char b" 0] unfolding n_def
    by (intro char_of_modI) simp
  ultimately show ?case
    using p by (simp add: Let_def b64_val_char b64_char_not_pad n_def [symmetric])
next
  case (4 a b c s)
  define n where "n = (of_char a * 65536 + of_char b * 256 + of_char c :: nat)"
  note tr = b64_triple [of "of_char a" "of_char b" "of_char c", simplified, folded n_def]
  have p: "n div 262144 < 64" using tr(1) by simp
  show ?case
    using p 4 tr(2) tr(3,4) [THEN char_of_modI] b64_recombine [of n]
    by (simp add: Let_def n_def [symmetric] b64_groups_full b64_val_char)
qed simp

lemma b64_char_not_break: "b64_char n \<noteq> CHR 0x0A \<and> b64_char n \<noteq> CHR 0x0D"
proof -
  have "of_char (b64_char n) \<noteq> (10::nat) \<and> of_char (b64_char n) \<noteq> (13::nat)"
    by (auto simp: b64_char_def)
  then show ?thesis by auto
qed

lemma b64_encode_no_breaks:
  "filter (\<lambda>c. c \<noteq> CHR 0x0A \<and> c \<noteq> CHR 0x0D) (b64_encode s) = b64_encode s"
  by (induction s rule: b64_encode.induct) (simp_all add: Let_def b64_char_not_break)

lemma b64_decode_encode: "b64_decode (b64_encode s) = Inr s"
  by (simp add: b64_decode_def b64_encode_no_breaks b64_groups_encode)

lemma b64_encode_inj: "b64_encode s = b64_encode t \<longleftrightarrow> s = t"
  by (metis b64_decode_encode sum.inject(2))

section \<open>fmt and path/filepath\<close>

text \<open>\<open>fmt.Sprintf("%v", v)\<close>.\<close>

fun fmt_v :: "json \<Rightarrow> string" where
  "fmt_v JNull = ''<nil>''"
| "fmt_v (JBool b) = (if b then ''true'' else ''false'')"
| "fmt_v (JInt i) = Itoa i"
| "fmt_v (JNum s) = s"
| "fmt_v (JStr s) = s"
| "fmt_v (JStrs ss) = ''['' @ Join ss '' '' @ '']''"
| "fmt_v (JArr vs) = ''['' @ Join (map fmt_v vs) '' '' @ '']''"
| "fmt_v (JObj kvs) = ''map['' @ Join (map (\<lambda>(k, v). k @ '':'' @ fmt_v v) kvs) '' '' @ '']''"

text \<open>
  The formats the planner applies to strings: \<open>%s\<close> and \<open>%v\<close> take an argument, \<open>%%\<close> is a
  percent sign, another verb is an error text, and so are a missing and a surplus argument.
  No format of the sources has flags, a width or a precision.
\<close>

fun Sprintf :: "string \<Rightarrow> string list \<Rightarrow> string" where
  "Sprintf [] args =
     (if args = [] then '''' else ''%!(EXTRA '' @ Join (map (\<lambda>a. ''string='' @ a) args) '', '' @ '')'')"
| "Sprintf [c] args = (if c = CHR ''%'' then ''%!(NOVERB)'' @ Sprintf [] args else c # Sprintf [] args)"
| "Sprintf (c # v # s) args =
     (if c \<noteq> CHR ''%'' then c # Sprintf (v # s) args
      else if v = CHR ''%'' then CHR ''%'' # Sprintf s args
      else (case args of
              [] \<Rightarrow> ''%!'' @ [v] @ ''(MISSING)'' @ Sprintf s []
            | a # as \<Rightarrow>
                (if v = CHR ''s'' \<or> v = CHR ''v'' then a else ''%!'' @ [v] @ ''(string='' @ a @ '')'') @ Sprintf s as))"

text \<open>\<open>filepath.Clean\<close> and \<open>filepath.Dir\<close> on Unix.\<close>

fun clean_components :: "bool \<Rightarrow> string list \<Rightarrow> string list \<Rightarrow> string list" where
  "clean_components rooted stack [] = rev stack"
| "clean_components rooted stack (c # cs) =
     (if c = '''' \<or> c = ''.'' then clean_components rooted stack cs
      else if c = ''..'' then
        (case stack of
           [] \<Rightarrow> clean_components rooted (if rooted then [] else [''..'']) cs
         | t # ts \<Rightarrow> if t = ''..'' then clean_components rooted (''..'' # stack) cs
                    else clean_components rooted ts cs)
      else clean_components rooted (c # stack) cs)"

definition Clean :: "string \<Rightarrow> string" where
  "Clean p =
     (let rooted = HasPrefix p ''/'';
          body = Join (clean_components rooted [] (Split p ''/'')) ''/'' in
      if rooted then ''/'' @ body else if body = '''' then ''.'' else body)"

definition Dir :: "string \<Rightarrow> string" where
  "Dir p = Clean (rev (dropWhile (\<lambda>c. c \<noteq> CHR ''/'') (rev p)))"

end
