(* ===== verification/Capr_Types.thy ===== *)
theory Capr_Types
  imports Go_Strconv
begin

text \<open>
  The data of the planner: the plan types of
  \<open>pkg/apis/rke.cattle.io/v1/plan\<close> (node plans, plan entries' metadata, probes), the
  parts of the control-plane object of \<open>pkg/apis/rke.cattle.io/v1\<close> that the planner reads
  and writes, the Kubernetes objects it handles (secrets, CAPI machines), and the label
  and annotation names of \<open>pkg/capr/common.go\<close>. A nil-able pointer is an option; a field
  no planner code reads is left out of its record.
\<close>

section \<open>Labels, annotations and other names\<close>

definition ControlPlaneRoleLabel :: string where "ControlPlaneRoleLabel = ''rke.cattle.io/control-plane-role''"
definition EtcdRoleLabel :: string where "EtcdRoleLabel = ''rke.cattle.io/etcd-role''"
definition WorkerRoleLabel :: string where "WorkerRoleLabel = ''rke.cattle.io/worker-role''"
definition InitNodeLabel :: string where "InitNodeLabel = ''rke.cattle.io/init-node''"
definition InitNodeMachineIDLabel :: string where "InitNodeMachineIDLabel = ''rke.cattle.io/init-node-machine-id''"
definition MachineIDLabel :: string where "MachineIDLabel = ''rke.cattle.io/machine-id''"
definition MachineNameLabel :: string where "MachineNameLabel = ''rke.cattle.io/machine-name''"
definition MachineUIDLabel :: string where "MachineUIDLabel = ''rke.cattle.io/machine''"
definition NodeNameLabel :: string where "NodeNameLabel = ''rke.cattle.io/node-name''"
definition RoleLabel :: string where "RoleLabel = ''rke.cattle.io/service-account-role''"
definition PlanSecret :: string where "PlanSecret = ''rke.cattle.io/plan-secret-name''"
definition CattleOSLabel :: string where "CattleOSLabel = ''cattle.io/os''"

definition DrainAnnotation :: string where "DrainAnnotation = ''rke.cattle.io/drain-options''"
definition DrainDoneAnnotation :: string where "DrainDoneAnnotation = ''rke.cattle.io/drain-done''"
definition DrainErrorAnnotation :: string where "DrainErrorAnnotation = ''rke.cattle.io/drain-error''"
definition UnCordonAnnotation :: string where "UnCordonAnnotation = ''rke.cattle.io/uncordon''"
definition PreDrainAnnotation :: string where "PreDrainAnnotation = ''rke.cattle.io/pre-drain''"
definition PostDrainAnnotation :: string where "PostDrainAnnotation = ''rke.cattle.io/post-drain''"
definition JoinURLAutosetDisabled :: string where "JoinURLAutosetDisabled = ''rke.cattle.io/join-url-autoset-disabled''"
definition JoinURLAnnotation :: string where "JoinURLAnnotation = ''rke.cattle.io/join-url''"
definition JoinedToAnnotation :: string where "JoinedToAnnotation = ''rke.cattle.io/joined-to''"
definition PlanUpdatedTimeAnnotation :: string where "PlanUpdatedTimeAnnotation = ''rke.cattle.io/plan-last-updated''"
definition PlanProbesPassedAnnotation :: string where "PlanProbesPassedAnnotation = ''rke.cattle.io/plan-probes-passed''"
definition TaintsAnnotation :: string where "TaintsAnnotation = ''rke.cattle.io/taints''"
definition LabelsAnnotation :: string where "LabelsAnnotation = ''rke.cattle.io/labels''"
definition AddressAnnotation :: string where "AddressAnnotation = ''rke.cattle.io/address''"
definition InternalAddressAnnotation :: string where "InternalAddressAnnotation = ''rke.cattle.io/internal-address''"
definition ForceRemoveEtcdAnnotation :: string where "ForceRemoveEtcdAnnotation = ''rke.cattle.io/etcd-force-remove''"
definition AuthorizedObjectAnnotation :: string where "AuthorizedObjectAnnotation = ''rke.cattle.io/object-authorized-for-clusters''"
definition ClusterSpecAnnotation :: string where "ClusterSpecAnnotation = ''rke.cattle.io/cluster-spec''"

definition SecretTypeMachinePlan :: string where "SecretTypeMachinePlan = ''rke.cattle.io/machine-plan''"
definition SecretTypeClusterState :: string where "SecretTypeClusterState = ''rke.cattle.io/cluster-state''"
definition JoinServerImplausible :: string where "JoinServerImplausible = ''implausible''"
definition WindowsMachineOS :: string where "WindowsMachineOS = ''windows''"
definition RuntimeK3S :: string where "RuntimeK3S = ''k3s''"
definition RuntimeRKE2 :: string where "RuntimeRKE2 = ''rke2''"
definition RolePlan :: string where "RolePlan = ''plan''"

lemmas key_defs [go_defs] =
  ControlPlaneRoleLabel_def EtcdRoleLabel_def WorkerRoleLabel_def InitNodeLabel_def
  InitNodeMachineIDLabel_def MachineIDLabel_def MachineNameLabel_def MachineUIDLabel_def
  NodeNameLabel_def RoleLabel_def PlanSecret_def CattleOSLabel_def
  DrainAnnotation_def DrainDoneAnnotation_def DrainErrorAnnotation_def UnCordonAnnotation_def
  PreDrainAnnotation_def PostDrainAnnotation_def JoinURLAutosetDisabled_def
  JoinURLAnnotation_def JoinedToAnnotation_def PlanUpdatedTimeAnnotation_def
  PlanProbesPassedAnnotation_def TaintsAnnotation_def LabelsAnnotation_def
  AddressAnnotation_def InternalAddressAnnotation_def ForceRemoveEtcdAnnotation_def
  AuthorizedObjectAnnotation_def ClusterSpecAnnotation_def
  SecretTypeMachinePlan_def SecretTypeClusterState_def JoinServerImplausible_def
  WindowsMachineOS_def RuntimeK3S_def RuntimeRKE2_def RolePlan_def

text \<open>The labels of a machine plan, and the annotations of one, are pairwise different.\<close>

lemma label_neq [simp]:
  "EtcdRoleLabel \<noteq> InitNodeLabel" "InitNodeLabel \<noteq> EtcdRoleLabel"
  "ControlPlaneRoleLabel \<noteq> InitNodeLabel" "InitNodeLabel \<noteq> ControlPlaneRoleLabel"
  "WorkerRoleLabel \<noteq> InitNodeLabel" "InitNodeLabel \<noteq> WorkerRoleLabel"
  "MachineIDLabel \<noteq> InitNodeLabel" "InitNodeLabel \<noteq> MachineIDLabel"
  "CattleOSLabel \<noteq> InitNodeLabel" "InitNodeLabel \<noteq> CattleOSLabel"
  "EtcdRoleLabel \<noteq> ControlPlaneRoleLabel" "ControlPlaneRoleLabel \<noteq> EtcdRoleLabel"
  "EtcdRoleLabel \<noteq> WorkerRoleLabel" "WorkerRoleLabel \<noteq> EtcdRoleLabel"
  "ControlPlaneRoleLabel \<noteq> WorkerRoleLabel" "WorkerRoleLabel \<noteq> ControlPlaneRoleLabel"
  by (simp_all add: key_defs)

lemma annotation_neq [simp]:
  "JoinURLAnnotation \<noteq> JoinedToAnnotation" "JoinedToAnnotation \<noteq> JoinURLAnnotation"
  "JoinedToAnnotation \<noteq> PlanUpdatedTimeAnnotation" "PlanUpdatedTimeAnnotation \<noteq> JoinedToAnnotation"
  "JoinedToAnnotation \<noteq> PlanProbesPassedAnnotation" "PlanProbesPassedAnnotation \<noteq> JoinedToAnnotation"
  "JoinURLAnnotation \<noteq> PlanUpdatedTimeAnnotation" "PlanUpdatedTimeAnnotation \<noteq> JoinURLAnnotation"
  "JoinURLAnnotation \<noteq> PlanProbesPassedAnnotation" "PlanProbesPassedAnnotation \<noteq> JoinURLAnnotation"
  "PlanUpdatedTimeAnnotation \<noteq> PlanProbesPassedAnnotation"
  "PlanProbesPassedAnnotation \<noteq> PlanUpdatedTimeAnnotation"
  "DrainAnnotation \<noteq> DrainDoneAnnotation" "DrainDoneAnnotation \<noteq> DrainAnnotation"
  "DrainAnnotation \<noteq> DrainErrorAnnotation" "DrainErrorAnnotation \<noteq> DrainAnnotation"
  "DrainAnnotation \<noteq> UnCordonAnnotation" "UnCordonAnnotation \<noteq> DrainAnnotation"
  "UnCordonAnnotation \<noteq> DrainErrorAnnotation" "DrainErrorAnnotation \<noteq> UnCordonAnnotation"
  "InitNodeLabel \<noteq> JoinedToAnnotation" "JoinedToAnnotation \<noteq> InitNodeLabel"
  "InitNodeLabel \<noteq> PlanUpdatedTimeAnnotation" "InitNodeLabel \<noteq> PlanProbesPassedAnnotation"
  by (simp_all add: key_defs)

section \<open>Plans\<close>

record metadata =
  md_Labels :: smap
  md_Annotations :: smap

record probe_status =
  ps_Healthy :: bool
  ps_SuccessCount :: int
  ps_FailureCount :: int

record plan_file =
  f_Content :: string
  f_Path :: string
  f_Permissions :: string
  f_Dynamic :: bool
  f_Minor :: bool

record one_time_instruction =
  i_Name :: string
  i_Image :: string
  i_Env :: "string list"
  i_Args :: "string list"
  i_Command :: string
  i_SaveOutput :: bool

record periodic_instruction =
  pi_Name :: string
  pi_Image :: string
  pi_Env :: "string list"
  pi_Args :: "string list"
  pi_Command :: string
  pi_PeriodSeconds :: int

record periodic_output =
  po_Name :: string
  po_Stdout :: string
  po_Stderr :: string
  po_ExitCode :: int
  po_LastSuccessfulRunTime :: string

record http_get_action =
  hg_URL :: string
  hg_Insecure :: bool
  hg_ClientCert :: string
  hg_ClientKey :: string
  hg_CACert :: string

record probe =
  pr_Name :: string
  pr_InitialDelaySeconds :: int
  pr_TimeoutSeconds :: int
  pr_SuccessThreshold :: int
  pr_FailureThreshold :: int
  pr_HTTPGetAction :: http_get_action

record node_plan =
  np_Files :: "plan_file list"
  np_Instructions :: "one_time_instruction list"
  np_PeriodicInstructions :: "periodic_instruction list"
  np_Error :: string
  np_Probes :: "(string \<times> probe) list"

record node =
  n_Plan :: node_plan
  n_AppliedPlan :: "node_plan option"
  n_JoinedTo :: string
  n_Output :: smap
  n_PeriodicOutput :: "string \<Rightarrow> periodic_output option"
  n_Failed :: bool
  n_InSync :: bool
  n_Healthy :: bool
  n_PlanDataExists :: bool
  n_ProbeStatus :: "(string \<times> probe_status) list"
  n_ProbesUsable :: bool

record plan_secret =
  tk_ServerToken :: string
  tk_AgentToken :: string

definition empty_plan :: node_plan where
  "empty_plan = \<lparr>np_Files = [], np_Instructions = [], np_PeriodicInstructions = [],
     np_Error = '''', np_Probes = []\<rparr>"

definition empty_instruction :: one_time_instruction where
  "empty_instruction = \<lparr>i_Name = '''', i_Image = '''', i_Env = [], i_Args = [],
     i_Command = '''', i_SaveOutput = False\<rparr>"

definition empty_periodic :: periodic_instruction where
  "empty_periodic = \<lparr>pi_Name = '''', pi_Image = '''', pi_Env = [], pi_Args = [],
     pi_Command = '''', pi_PeriodSeconds = 0\<rparr>"

definition empty_file :: plan_file where
  "empty_file = \<lparr>f_Content = '''', f_Path = '''', f_Permissions = '''',
     f_Dynamic = False, f_Minor = False\<rparr>"

section \<open>Kubernetes objects\<close>

record cond =
  cd_Type :: string
  cd_Status :: string
  cd_Reason :: string
  cd_Message :: string

text \<open>
  The planner reaches the condition list of an object only through the methods of
  wrangler's \<open>condition.Cond\<close>, which is library code: the six accessors are a parameter.
\<close>

record cond_api =
  c_GetStatus :: "string \<Rightarrow> cond list \<Rightarrow> string"
  c_GetReason :: "string \<Rightarrow> cond list \<Rightarrow> string"
  c_GetMessage :: "string \<Rightarrow> cond list \<Rightarrow> string"
  c_SetStatus :: "string \<Rightarrow> string \<Rightarrow> cond list \<Rightarrow> cond list"
  c_SetReason :: "string \<Rightarrow> string \<Rightarrow> cond list \<Rightarrow> cond list"
  c_SetMessage :: "string \<Rightarrow> string \<Rightarrow> cond list \<Rightarrow> cond list"

definition c_IsTrue :: "cond_api \<Rightarrow> string \<Rightarrow> cond list \<Rightarrow> bool" where
  "c_IsTrue A t cs \<longleftrightarrow> c_GetStatus A t cs = ''True''"

definition c_IsFalse :: "cond_api \<Rightarrow> string \<Rightarrow> cond list \<Rightarrow> bool" where
  "c_IsFalse A t cs \<longleftrightarrow> c_GetStatus A t cs = ''False''"

definition c_IsUnknown :: "cond_api \<Rightarrow> string \<Rightarrow> cond list \<Rightarrow> bool" where
  "c_IsUnknown A t cs \<longleftrightarrow> c_GetStatus A t cs = ''Unknown''"

definition c_True :: "cond_api \<Rightarrow> string \<Rightarrow> cond list \<Rightarrow> cond list" where
  "c_True A t cs = c_SetStatus A t ''True'' cs"

definition c_False :: "cond_api \<Rightarrow> string \<Rightarrow> cond list \<Rightarrow> cond list" where
  "c_False A t cs = c_SetStatus A t ''False'' cs"

text \<open>
  What the planner relies on: a status that was set is read back, and setting one condition
  leaves the others alone. Setting the reason or the message of a condition keeps its status;
  for a condition that is not there yet the accessors may create one of status \<open>Unknown\<close>.
\<close>

definition keeps_status :: "cond_api \<Rightarrow> string \<Rightarrow> cond list \<Rightarrow> cond list \<Rightarrow> bool" where
  "keeps_status A t' cs cs' \<longleftrightarrow>
     (\<forall>t. c_GetStatus A t cs' = c_GetStatus A t cs \<or>
        t = t' \<and> c_GetStatus A t cs = '''' \<and> c_GetStatus A t cs' = ''Unknown'')"

definition conditions_laws :: "cond_api \<Rightarrow> bool" where
  "conditions_laws A \<longleftrightarrow>
     (\<forall>t t' v cs. c_GetStatus A t (c_SetStatus A t' v cs) = (if t = t' then v else c_GetStatus A t cs)) \<and>
     (\<forall>t' v cs. keeps_status A t' cs (c_SetReason A t' v cs)) \<and>
     (\<forall>t' v cs. keeps_status A t' cs (c_SetMessage A t' v cs))"

lemma status_kept:
  "conditions_laws A \<Longrightarrow> c_GetStatus A t cs \<noteq> '''' \<Longrightarrow> c_GetStatus A t (c_SetReason A t' v cs) = c_GetStatus A t cs"
  "conditions_laws A \<Longrightarrow> c_GetStatus A t cs \<noteq> '''' \<Longrightarrow> c_GetStatus A t (c_SetMessage A t' v cs) = c_GetStatus A t cs"
  unfolding conditions_laws_def keeps_status_def by blast+

lemma IsTrue_True: "conditions_laws A \<Longrightarrow> c_IsTrue A t (c_True A t' cs) \<longleftrightarrow> t = t' \<or> c_IsTrue A t cs"
  by (auto simp: c_IsTrue_def c_True_def conditions_laws_def)

lemma IsTrue_False: "conditions_laws A \<Longrightarrow> c_IsTrue A t (c_False A t' cs) \<longleftrightarrow> t \<noteq> t' \<and> c_IsTrue A t cs"
  by (auto simp: c_IsTrue_def c_False_def conditions_laws_def)

lemma IsTrue_frame:
  "conditions_laws A \<Longrightarrow> c_IsTrue A t (c_SetReason A t' v cs) = c_IsTrue A t cs"
  "conditions_laws A \<Longrightarrow> c_IsTrue A t (c_SetMessage A t' v cs) = c_IsTrue A t cs"
proof -
  have "keeps_status A t' cs cs' \<Longrightarrow> c_IsTrue A t cs' = c_IsTrue A t cs" for cs'
    by (drule keeps_status_def [THEN iffD1, rule_format, of _ _ _ _ t]) (auto simp: c_IsTrue_def)
  then show "conditions_laws A \<Longrightarrow> c_IsTrue A t (c_SetReason A t' v cs) = c_IsTrue A t cs"
    "conditions_laws A \<Longrightarrow> c_IsTrue A t (c_SetMessage A t' v cs) = c_IsTrue A t cs"
    by (simp_all add: conditions_laws_def)
qed

text \<open>
  A concrete instance of these accessors on the list itself: a condition that is not in
  the list has the empty status, reason and message.
\<close>

definition cond_of :: "string \<Rightarrow> cond list \<Rightarrow> cond option" where
  "cond_of t cs = find (\<lambda>c. cd_Type c = t) cs"

definition cond_status :: "string \<Rightarrow> cond list \<Rightarrow> string" where
  "cond_status t cs = (case cond_of t cs of None \<Rightarrow> '''' | Some c \<Rightarrow> cd_Status c)"

definition cond_reason :: "string \<Rightarrow> cond list \<Rightarrow> string" where
  "cond_reason t cs = (case cond_of t cs of None \<Rightarrow> '''' | Some c \<Rightarrow> cd_Reason c)"

definition cond_message :: "string \<Rightarrow> cond list \<Rightarrow> string" where
  "cond_message t cs = (case cond_of t cs of None \<Rightarrow> '''' | Some c \<Rightarrow> cd_Message c)"

fun set_cond :: "cond \<Rightarrow> cond list \<Rightarrow> cond list" where
  "set_cond c [] = [c]"
| "set_cond c (d # ds) = (if cd_Type d = cd_Type c then c # ds else d # set_cond c ds)"

definition set_cond_status :: "string \<Rightarrow> string \<Rightarrow> cond list \<Rightarrow> cond list" where
  "set_cond_status t v cs =
     set_cond \<lparr>cd_Type = t, cd_Status = v, cd_Reason = cond_reason t cs,
                cd_Message = cond_message t cs\<rparr> cs"

definition set_cond_reason :: "string \<Rightarrow> string \<Rightarrow> cond list \<Rightarrow> cond list" where
  "set_cond_reason t v cs =
     set_cond \<lparr>cd_Type = t, cd_Status = cond_status t cs, cd_Reason = v,
                cd_Message = cond_message t cs\<rparr> cs"

definition set_cond_message :: "string \<Rightarrow> string \<Rightarrow> cond list \<Rightarrow> cond list" where
  "set_cond_message t v cs =
     set_cond \<lparr>cd_Type = t, cd_Status = cond_status t cs, cd_Reason = cond_reason t cs,
                cd_Message = v\<rparr> cs"

lemma cond_of_set_cond [simp]:
  "cond_of t (set_cond c cs) = (if t = cd_Type c then Some c else cond_of t cs)"
  by (induction c cs rule: set_cond.induct) (auto simp: cond_of_def)

lemma cond_status_set [simp]:
  "cond_status t (set_cond_status t' v cs) = (if t = t' then v else cond_status t cs)"
  "cond_status t (set_cond_reason t' v cs) = cond_status t cs"
  "cond_status t (set_cond_message t' v cs) = cond_status t cs"
  by (simp_all add: cond_status_def set_cond_status_def set_cond_reason_def set_cond_message_def)

definition list_conditions :: cond_api where
  "list_conditions = \<lparr>c_GetStatus = cond_status, c_GetReason = cond_reason,
     c_GetMessage = cond_message, c_SetStatus = set_cond_status, c_SetReason = set_cond_reason,
     c_SetMessage = set_cond_message\<rparr>"

lemma list_conditions_laws [simp]: "conditions_laws list_conditions"
  by (simp add: conditions_laws_def keeps_status_def list_conditions_def)

record objref =
  or_APIVersion :: string
  or_Kind :: string
  or_Namespace :: string
  or_Name :: string

record owner_ref =
  ow_APIVersion :: string
  ow_Kind :: string
  ow_Name :: string
  ow_Controller :: bool

record machine =
  m_Name :: string
  m_Namespace :: string
  m_UID :: string
  m_Labels :: smap
  m_Annotations :: smap
  m_DeletionTimestamp :: "string option"
  m_ConfigRef :: "objref option"
  m_InfrastructureRef :: objref
  m_NodeRef :: "string option"
  m_KubeletVersion :: "string option"
  m_Addresses :: "(string \<times> string) list"
  m_Phase :: string
  m_FailureReason :: "string option"
  m_Conditions :: "cond list"

record secret =
  s_Namespace :: string
  s_Name :: string
  s_Type :: string
  s_Labels :: smap
  s_Annotations :: smap
  s_Data :: smap

record capi_cluster =
  cc_Namespace :: string
  cc_Name :: string
  cc_UID :: string
  cc_Labels :: smap
  cc_Annotations :: smap
  cc_Paused :: bool
  cc_ControlPlaneRef :: "objref option"
  cc_InfrastructureReady :: bool
  cc_Conditions :: "cond list"
  cc_DeletionTimestamp :: "string option"

record plan =
  p_Nodes :: "string \<Rightarrow> node option"
  p_Machines :: "(string \<times> machine) list"
  p_Metadata :: "string \<Rightarrow> metadata option"

section \<open>The control plane object\<close>

datatype ETCDSnapshotPhase =
    SnapNone
  | SnapStarted
  | SnapShutdown
  | SnapRestore
  | SnapPostRestorePodCleanup
  | SnapInitialRestartCluster
  | SnapPostRestoreNodeCleanup
  | SnapRestartCluster
  | SnapFinished
  | SnapFailed
  | SnapOther string

datatype RotateEncryptionKeysPhase =
    KeysNone
  | KeysPrepare
  | KeysPostPrepareRestart
  | KeysRotate
  | KeysPostRotateRestart
  | KeysReencrypt
  | KeysPostReencryptRestart
  | KeysDone
  | KeysFailed
  | KeysOther string

fun keys_phase_string :: "RotateEncryptionKeysPhase \<Rightarrow> string" where
  "keys_phase_string KeysNone = ''''"
| "keys_phase_string KeysPrepare = ''Prepare''"
| "keys_phase_string KeysPostPrepareRestart = ''PostPrepareRestart''"
| "keys_phase_string KeysRotate = ''Rotate''"
| "keys_phase_string KeysPostRotateRestart = ''PostRotateRestart''"
| "keys_phase_string KeysReencrypt = ''Reencrypt''"
| "keys_phase_string KeysPostReencryptRestart = ''PostReencryptRestart''"
| "keys_phase_string KeysDone = ''Done''"
| "keys_phase_string KeysFailed = ''Failed''"
| "keys_phase_string (KeysOther s) = s"

record ETCDSnapshotS3 =
  s3_Endpoint :: string
  s3_EndpointCA :: string
  s3_SkipSSLVerify :: bool
  s3_Bucket :: string
  s3_Region :: string
  s3_CloudCredentialName :: string
  s3_Folder :: string

record ETCDSnapshotCreate =
  sc_Generation :: int

record ETCDSnapshotRestore =
  sr_Name :: string
  sr_Generation :: int
  sr_RestoreRKEConfig :: string

record ETCDSnapshot =
  es_Namespace :: string
  es_Name :: string
  es_Labels :: smap
  es_FileName :: string
  es_FileMetadata :: string
  es_S3 :: "ETCDSnapshotS3 option"

record ETCD =
  etcd_DisableSnapshots :: bool
  etcd_SnapshotScheduleCron :: string
  etcd_SnapshotRetention :: int
  etcd_S3 :: "ETCDSnapshotS3 option"

record RotateEncryptionKeys =
  rk_Generation :: int

record RotateCertificates =
  rc_Generation :: int
  rc_Services :: "string list"

record DrainOptions =
  dr_Enabled :: bool
  dr_Force :: bool
  dr_IgnoreDaemonSets :: "bool option"
  dr_IgnoreErrors :: bool
  dr_DeleteEmptyDirData :: bool
  dr_DisableEviction :: bool
  dr_GracePeriod :: int
  dr_Timeout :: int
  dr_SkipWaitForDeleteTimeoutSeconds :: int
  dr_PreDrainHooks :: "string list"
  dr_PostDrainHooks :: "string list"

definition no_drain :: DrainOptions where
  "no_drain = \<lparr>dr_Enabled = False, dr_Force = False, dr_IgnoreDaemonSets = None,
     dr_IgnoreErrors = False, dr_DeleteEmptyDirData = False, dr_DisableEviction = False,
     dr_GracePeriod = 0, dr_Timeout = 0, dr_SkipWaitForDeleteTimeoutSeconds = 0,
     dr_PreDrainHooks = [], dr_PostDrainHooks = []\<rparr>"

record ClusterUpgradeStrategy =
  us_ControlPlaneConcurrency :: string
  us_ControlPlaneDrainOptions :: DrainOptions
  us_WorkerConcurrency :: string
  us_WorkerDrainOptions :: DrainOptions

record KeyToPath =
  kp_Key :: string
  kp_Path :: string
  kp_Dynamic :: bool
  kp_Permissions :: string
  kp_Hash :: string

record K8sObjectFileSource =
  kf_Name :: string
  kf_Items :: "KeyToPath list"
  kf_DefaultPermissions :: string

record ProvisioningFileSource =
  fs_Secret :: K8sObjectFileSource
  fs_ConfigMap :: K8sObjectFileSource

text \<open>A label selector is opaque: it is only handed to the Kubernetes library.\<close>

record RKEProvisioningFiles =
  pf_Selector :: "string option"
  pf_FileSources :: "ProvisioningFileSource list"

record RKESystemConfig =
  sys_Selector :: "string option"
  sys_Config :: "(string \<times> json) list"

record RegistryConfig =
  rg_AuthConfigSecretName :: string
  rg_TLSSecretName :: string
  rg_CABundle :: string
  rg_InsecureSkipVerify :: bool

record Registry =
  reg_Mirrors :: json
  reg_Configs :: "(string \<times> RegistryConfig) list"

record RKEControlPlaneSpec =
  sp_UpgradeStrategy :: ClusterUpgradeStrategy
  sp_AdditionalManifest :: string
  sp_ETCD :: "ETCD option"
  sp_StackPreference :: "string option"
  sp_ProvisionGeneration :: int
  sp_AgentEnvVars :: "(string \<times> string) list"
  sp_LocalClusterAuthEndpointEnabled :: bool
  sp_ETCDSnapshotCreate :: "ETCDSnapshotCreate option"
  sp_ETCDSnapshotRestore :: "ETCDSnapshotRestore option"
  sp_RotateCertificates :: "RotateCertificates option"
  sp_RotateEncryptionKeys :: "RotateEncryptionKeys option"
  sp_KubernetesVersion :: string
  sp_ClusterName :: string
  sp_ManagementClusterName :: string
  sp_UnmanagedConfig :: bool
  sp_MachineGlobalConfig :: "(string \<times> json) list"
  sp_MachineSelectorConfig :: "RKESystemConfig list"
  sp_MachineSelectorFiles :: "RKEProvisioningFiles list"
  sp_ChartValues :: "(string \<times> json) list"
  sp_Registries :: "Registry option"

record RKEControlPlaneStatus =
  st_Conditions :: "cond list"
  st_Ready :: bool
  st_CertificateRotationGeneration :: int
  st_RotateEncryptionKeys :: "RotateEncryptionKeys option"
  st_RotateEncryptionKeysPhase :: RotateEncryptionKeysPhase
  st_RotateEncryptionKeysLeader :: string
  st_ETCDSnapshotRestore :: "ETCDSnapshotRestore option"
  st_ETCDSnapshotRestorePhase :: ETCDSnapshotPhase
  st_ETCDSnapshotCreate :: "ETCDSnapshotCreate option"
  st_ETCDSnapshotCreatePhase :: ETCDSnapshotPhase
  st_ConfigGeneration :: int
  st_Initialized :: bool
  st_AgentConnected :: bool

record RKEControlPlane =
  cp_Namespace :: string
  cp_Name :: string
  cp_UID :: string
  cp_Labels :: smap
  cp_Annotations :: smap
  cp_OwnerReferences :: "owner_ref list"
  cp_Spec :: RKEControlPlaneSpec
  cp_Status :: RKEControlPlaneStatus

end
