(* ===== verification/Capr_Common.thy ===== *)
theory Capr_Common
  imports Capr_Types
begin

text \<open>
  The shared helpers of \<open>pkg/capr/common.go\<close>: the runtime of a Kubernetes version, the
  ownership checks of plan service accounts, copying plan metadata into secrets, bounded
  names, and the compressed encoding of cluster specs. Library code the helpers call is a
  field of the record \<open>libs\<close>: wrangler's \<open>name.SafeConcatName\<close> and \<open>condition.Cond\<close>,
  its \<open>kv.Split\<close> and \<open>kv.RSplit\<close>, \<open>metav1.GetControllerOf\<close>, the release data of the channel
  server, SHA-256, gzip.
\<close>

record object_meta =
  om_Namespace :: string
  om_Name :: string
  om_Labels :: smap
  om_OwnerReferences :: "owner_ref list"
  om_Conditions :: "cond list"

record release =
  rel_FeatureVersions :: smap
  rel_AgentArgs :: smap
  rel_ServerArgs :: smap

record libs =
  lib_sha256_hex :: "string \<Rightarrow> string"
  lib_SafeConcatName :: "string list \<Rightarrow> string"
  lib_Cond :: cond_api
  lib_GetControllerOf :: "owner_ref list \<Rightarrow> owner_ref option"
  lib_GetReleaseConfig :: "string \<Rightarrow> string \<Rightarrow> release"
  lib_gzip :: "string \<Rightarrow> go_error + string"
  lib_gunzip :: "string \<Rightarrow> go_error + string"
  lib_kv_Split :: "string \<Rightarrow> string \<Rightarrow> string \<times> string"
  lib_kv_RSplit :: "string \<Rightarrow> string \<Rightarrow> string \<times> string"

section \<open>The runtime of a Kubernetes version\<close>

definition WindowsCheck :: "string \<Rightarrow> bool" where
  "WindowsCheck driver \<longleftrightarrow> driver = ''vmwarevsphere''"

definition GetRuntime :: "string \<Rightarrow> string" where
  "GetRuntime kubernetesVersion =
     (if Contains kubernetesVersion RuntimeK3S then RuntimeK3S else RuntimeRKE2)"

definition GetKubectlAndKubeconfigPaths :: "string \<Rightarrow> string \<times> string" where
  "GetKubectlAndKubeconfigPaths kubernetesVersion =
     (let r = GetRuntime kubernetesVersion in
      if r = RuntimeK3S then (''/usr/local/bin/kubectl'', ''/etc/rancher/k3s/k3s.yaml'')
      else if r = RuntimeRKE2 then (''/var/lib/rancher/rke2/bin/kubectl'', ''/etc/rancher/rke2/rke2.yaml'')
      else ('''', ''''))"

definition GetRuntimeCommand :: "string \<Rightarrow> string" where
  "GetRuntimeCommand kubernetesVersion = ToLower (GetRuntime kubernetesVersion)"

definition GetRuntimeServerUnit :: "string \<Rightarrow> string" where
  "GetRuntimeServerUnit kubernetesVersion =
     (if GetRuntime kubernetesVersion = RuntimeK3S then RuntimeK3S
      else RuntimeRKE2 @ ''-server'')"

definition GetRuntimeAgentUnit :: "string \<Rightarrow> string" where
  "GetRuntimeAgentUnit kubernetesVersion = GetRuntimeCommand kubernetesVersion @ ''-agent''"

definition GetRuntimeEnv :: "string \<Rightarrow> string" where
  "GetRuntimeEnv kubernetesVersion = ToUpper (GetRuntime kubernetesVersion)"

definition GetRuntimeSupervisorPort :: "string \<Rightarrow> int" where
  "GetRuntimeSupervisorPort kubernetesVersion =
     (if GetRuntime kubernetesVersion = RuntimeRKE2 then 9345 else 6443)"

definition GetKDMReleaseData :: "'z libs_scheme \<Rightarrow> RKEControlPlane option \<Rightarrow> release option" where
  "GetKDMReleaseData E controlPlane =
     (case controlPlane of
        None \<Rightarrow> None
      | Some cp \<Rightarrow>
          let v = sp_KubernetesVersion (cp_Spec cp) in
          if v = '''' then None else Some (lib_GetReleaseConfig E (GetRuntime v) v))"

definition GetFeatureVersion ::
  "'z libs_scheme \<Rightarrow> RKEControlPlane option \<Rightarrow> string \<Rightarrow> go_error + string" where
  "GetFeatureVersion E controlPlane featureKey =
     (case controlPlane of
        None \<Rightarrow> Inl (ErrOther ''error retrieving feature version as controlPlane was nil'')
      | Some cp \<Rightarrow>
          (case GetKDMReleaseData E controlPlane of
             None \<Rightarrow> Inl (ErrOther (''KDM release data was nil for controlplane '' @
                       cp_Namespace cp @ ''/'' @ cp_Name cp))
           | Some release \<Rightarrow>
               let version = gets (rel_FeatureVersions release) featureKey in
               Inr (if version = '''' then ''0.0.0'' else version)))"

text \<open>\<open>Spec.Networking\<close> nil and an empty \<open>StackPreference\<close> both leave the default.\<close>

definition GetLoopbackAddress :: "RKEControlPlane \<Rightarrow> string" where
  "GetLoopbackAddress controlPlane =
     (let stackPreference =
            (case sp_StackPreference (cp_Spec controlPlane) of
               None \<Rightarrow> ''ipv4''
             | Some p \<Rightarrow> if p \<noteq> '''' then p else ''ipv4'') in
      if stackPreference = ''ipv6'' then ''[::1]''
      else if stackPreference = ''dual'' then ''localhost''
      else ''127.0.0.1'')"

lemma GetRuntime_cases: "GetRuntime v = RuntimeK3S \<or> GetRuntime v = RuntimeRKE2"
  by (simp add: GetRuntime_def)

lemma runtime_neq [simp]: "RuntimeK3S \<noteq> RuntimeRKE2" "RuntimeRKE2 \<noteq> RuntimeK3S"
  by (simp_all add: key_defs)

section \<open>Owners and service accounts\<close>

definition GetMachineByOwner ::
  "(string \<Rightarrow> string \<Rightarrow> go_error + 'm) \<Rightarrow> object_meta \<Rightarrow> go_error + 'm" where
  "GetMachineByOwner machineCacheGet obj =
     (case find (\<lambda>ow. ow_APIVersion ow = ''cluster.x-k8s.io/v1beta1'' \<and> ow_Kind ow = ''Machine'')
             (om_OwnerReferences obj) of
        Some o' \<Rightarrow> machineCacheGet (om_Namespace obj) (ow_Name o')
      | None \<Rightarrow> Inl (ErrOther ''no machine owner ref''))"

definition GetOwnerFromGVK ::
  "'z libs_scheme \<Rightarrow> string \<Rightarrow> string \<Rightarrow> object_meta option \<Rightarrow> go_error + owner_ref \<times> string" where
  "GetOwnerFromGVK E groupVersion kind obj =
     (case obj of
        None \<Rightarrow> Inl (ErrOther ''cannot get capi cluster for nil object'')
      | Some om \<Rightarrow>
          (case lib_GetControllerOf E (om_OwnerReferences om) of
             None \<Rightarrow> Inl (ErrOther ''no matching controller owner ref'')
           | Some ref \<Rightarrow>
               if ow_Kind ref \<noteq> kind \<or> ow_APIVersion ref \<noteq> groupVersion
               then Inl (ErrOther ''no matching controller owner ref'')
               else Inr (ref, om_Namespace om)))"

text \<open>The owner of an object by kind; the cache's lookup is an argument.\<close>

definition GetOwnerCAPICluster ::
  "'z libs_scheme \<Rightarrow> (string \<Rightarrow> string \<Rightarrow> go_error + 'c) \<Rightarrow> object_meta option \<Rightarrow> go_error + 'c" where
  "GetOwnerCAPICluster E get obj =
     sbind (GetOwnerFromGVK E ''cluster.x-k8s.io/v1beta1'' ''Cluster'' obj) (\<lambda>(ref, namespace). get namespace (ow_Name ref))"

definition GetOwnerCAPIMachine ::
  "'z libs_scheme \<Rightarrow> (string \<Rightarrow> string \<Rightarrow> go_error + 'm) \<Rightarrow> object_meta option \<Rightarrow> go_error + 'm" where
  "GetOwnerCAPIMachine E get obj =
     sbind (GetOwnerFromGVK E ''cluster.x-k8s.io/v1beta1'' ''Machine'' obj) (\<lambda>(ref, namespace). get namespace (ow_Name ref))"

definition GetOwnerCAPIMachineSet ::
  "'z libs_scheme \<Rightarrow> (string \<Rightarrow> string \<Rightarrow> go_error + 'm) \<Rightarrow> object_meta option \<Rightarrow> go_error + 'm" where
  "GetOwnerCAPIMachineSet E get obj =
     sbind (GetOwnerFromGVK E ''cluster.x-k8s.io/v1beta1'' ''MachineSet'' obj) (\<lambda>(ref, namespace). get namespace (ow_Name ref))"

text \<open>\<open>IsOwnedByMachine\<close>: the outer loop stops at the first lookup that fails.\<close>

fun IsOwnedByMachine_loop ::
  "(string \<Rightarrow> string \<Rightarrow> go_error + object_meta) \<Rightarrow> string \<Rightarrow> string \<Rightarrow> owner_ref list \<Rightarrow> go_error + bool" where
  "IsOwnedByMachine_loop bootstrapGet machineName ns [] = Inr False"
| "IsOwnedByMachine_loop bootstrapGet machineName ns (owner # owners) =
     (if ow_Kind owner = ''RKEBootstrap'' then
        (case bootstrapGet ns (ow_Name owner) of
           Inl e \<Rightarrow> Inl e
         | Inr bootstrap \<Rightarrow>
             if \<exists>o' \<in> set (om_OwnerReferences bootstrap). ow_Kind o' = ''Machine'' \<and> ow_Name o' = machineName
             then Inr True
             else IsOwnedByMachine_loop bootstrapGet machineName ns owners)
      else IsOwnedByMachine_loop bootstrapGet machineName ns owners)"

definition IsOwnedByMachine ::
  "(string \<Rightarrow> string \<Rightarrow> go_error + object_meta) \<Rightarrow> string \<Rightarrow> object_meta \<Rightarrow> go_error + bool" where
  "IsOwnedByMachine bootstrapGet machineName sa =
     IsOwnedByMachine_loop bootstrapGet machineName (om_Namespace sa) (om_OwnerReferences sa)"

definition sa_id :: "object_meta \<Rightarrow> string" where
  "sa_id sa = ''planSA '' @ om_Namespace sa @ ''/'' @ om_Name sa"

definition PlanSACheck ::
  "(string \<Rightarrow> string \<Rightarrow> go_error + object_meta) \<Rightarrow> string \<Rightarrow> object_meta option \<Rightarrow> err" where
  "PlanSACheck bootstrapGet machineName planSA =
     (case planSA of
        None \<Rightarrow> Some (ErrOther (''planSA was nil during planSA check for machineName '' @ machineName))
      | Some sa \<Rightarrow>
          if machineName = '''' then Some (ErrOther (sa_id sa @ '' compared machine name was blank''))
          else if gets (om_Labels sa) MachineNameLabel \<noteq> machineName \<or>
                  gets (om_Labels sa) RoleLabel \<noteq> RolePlan \<or>
                  gets (om_Labels sa) PlanSecret = ''''
          then Some (ErrOther (sa_id sa @ '' does not have correct labels''))
          else
            (case IsOwnedByMachine bootstrapGet machineName sa of
               Inl e \<Rightarrow> Some e
             | Inr foundParent \<Rightarrow>
                 if foundParent then None
                 else Some (ErrOther (sa_id sa @ '' no parent found for planSA, was not owned by machine '' @ machineName))))"

definition GetPlanSecretName :: "object_meta option \<Rightarrow> go_error + string" where
  "GetPlanSecretName planSA =
     (case planSA of
        None \<Rightarrow> Inl (ErrOther ''planSA was nil'')
      | Some sa \<Rightarrow>
          if gets (om_Labels sa) PlanSecret = ''''
          then Inl (ErrOther (sa_id sa @ '' plan secret label was not set''))
          else Inr (gets (om_Labels sa) PlanSecret))"

definition MachineStateSecretName :: "'z libs_scheme \<Rightarrow> string \<Rightarrow> string" where
  "MachineStateSecretName E machineName = lib_SafeConcatName E [machineName, ''machine'', ''state'']"

definition PlanSecretFromBootstrapName :: "'z libs_scheme \<Rightarrow> string \<Rightarrow> string" where
  "PlanSecretFromBootstrapName E bootstrapName = lib_SafeConcatName E [bootstrapName, ''machine'', ''plan'']"

section \<open>Removal status\<close>

text \<open>
  \<open>DoRemoveAndUpdateStatus\<close> changes the object's conditions, calls \<open>doRemove\<close> and may
  enqueue the object again; \<open>Removed.SetError\<close> is a method of the condition library.
\<close>

definition DoRemoveAndUpdateStatus ::
  "'z libs_scheme \<Rightarrow> (string \<Rightarrow> go_error \<Rightarrow> cond list \<Rightarrow> cond list) \<Rightarrow>
   go_error + string \<Rightarrow> cond list \<Rightarrow> err \<times> cond list \<times> bool" where
  "DoRemoveAndUpdateStatus E setError doRemove cs =
     (let A = lib_Cond E;
          cs1 = (if \<not> c_IsTrue A ''Provisioned'' cs \<or> \<not> c_IsTrue A ''Waiting'' cs \<or>
                    \<not> c_IsTrue A ''Pending'' cs \<or> \<not> c_IsTrue A ''Updated'' cs
                 then c_SetStatus A ''Updated'' ''True'' (c_SetStatus A ''Pending'' ''True''
                        (c_SetStatus A ''Waiting'' ''True'' (c_SetStatus A ''Provisioned'' ''True'' cs)))
                 else cs) in
      case doRemove of
        Inl e \<Rightarrow> if is_ErrSkip e then (Some e, cs1, False) else (Some e, setError ''Removed'' e cs1, False)
      | Inr message \<Rightarrow>
          if message = '''' then
            (None, c_SetMessage A ''Removed'' '''' (c_SetReason A ''Removed'' ''''
                     (c_SetStatus A ''Removed'' ''True'' cs1)), False)
          else
            (Some ErrSkip, c_SetMessage A ''Removed'' message (c_SetReason A ''Removed'' ''Waiting''
                     (c_SetStatus A ''Removed'' ''Unknown'' cs1)), True))"

definition GetMachineDeletionStatus :: "machine list \<Rightarrow> go_error + string" where
  "GetMachineDeletionStatus machines =
     (case sort_key m_Name machines of
        [] \<Rightarrow> Inr ''''
      | m # _ \<Rightarrow>
          if m_FailureReason m = Some ''DeleteError''
          then Inl (ErrOther (''error deleting machine ['' @ m_Name m @ ''], machine must be deleted manually''))
          else Inr (''waiting for machine ['' @ m_Name m @ ''] to delete''))"

text \<open>The machine lists of the cache are parameters: the labels are selected by the cache.\<close>

definition GetMachineFromNode ::
  "go_error + machine list \<Rightarrow> string \<Rightarrow> bool \<times> machine option \<times> err" where
  "GetMachineFromNode listed nodeName =
     (case listed of
        Inl e \<Rightarrow> (False, None, Some e)
      | Inr machines \<Rightarrow>
          (case find (\<lambda>m. m_NodeRef m = Some nodeName) machines of
             Some m \<Rightarrow> (True, Some m, None)
           | None \<Rightarrow> (True, None, Some (ErrOther (''unable to find node '' @ nodeName @ '' in machines'')))))"

definition GetMachineByID ::
  "go_error + machine list \<Rightarrow> string \<Rightarrow> string \<Rightarrow> bool \<times> machine option \<times> err" where
  "GetMachineByID listed machineID clusterName =
     (case listed of
        Inl e \<Rightarrow> (False, None, Some e)
      | Inr machines \<Rightarrow>
          if length machines > 1 then (False, None, None)
          else (case machines of
                  [m] \<Rightarrow> (True, Some m, None)
                | _ \<Rightarrow> (True, None, Some (ErrOther (''unable to find machine by ID '' @ machineID @
                          '' for cluster '' @ clusterName)))))"

section \<open>Plan metadata\<close>

text \<open>The regular expression of \<open>labelAnnotationMatch\<close> anchors at the start: three prefixes.\<close>

definition labelAnnotationMatch :: "string \<Rightarrow> bool" where
  "labelAnnotationMatch k \<longleftrightarrow>
     HasPrefix k ''rke.cattle.io/'' \<or> HasPrefix k ''cluster.x-k8s.io/'' \<or>
     HasPrefix k ''machine.cluster.x-k8s.io/''"

definition CopyMapWithExcludes :: "smap \<Rightarrow> smap \<Rightarrow> string list \<Rightarrow> smap" where
  "CopyMapWithExcludes destination source excludes =
     (\<lambda>k. case source k of
            None \<Rightarrow> destination k
          | Some v \<Rightarrow> if \<not> labelAnnotationMatch k then destination k
                      else if k \<notin> set excludes then Some v else destination k)"

definition CopyMap :: "smap \<Rightarrow> smap \<Rightarrow> smap" where
  "CopyMap destination source = CopyMapWithExcludes destination source []"

definition CopyPlanMetadataToSecret :: "secret \<Rightarrow> metadata option \<Rightarrow> secret" where
  "CopyPlanMetadataToSecret sec md =
     (case md of
        None \<Rightarrow> sec
      | Some m \<Rightarrow> sec\<lparr>s_Labels := CopyMap (s_Labels sec) (md_Labels m),
                       s_Annotations := CopyMap (s_Annotations sec) (md_Annotations m)\<rparr>)"

definition SortedKeys :: "(string \<times> 'a) list \<Rightarrow> string list" where
  "SortedKeys m = sort (map fst m)"

lemma planner_keys_match [simp]:
  "labelAnnotationMatch InitNodeLabel" "labelAnnotationMatch JoinedToAnnotation"
  "labelAnnotationMatch JoinURLAnnotation" "labelAnnotationMatch PlanUpdatedTimeAnnotation"
  "labelAnnotationMatch PlanProbesPassedAnnotation" "labelAnnotationMatch EtcdRoleLabel"
  "labelAnnotationMatch ControlPlaneRoleLabel" "labelAnnotationMatch WorkerRoleLabel"
  "labelAnnotationMatch DrainAnnotation" "labelAnnotationMatch UnCordonAnnotation"
  by (simp_all add: labelAnnotationMatch_def HasPrefix_def key_defs)

lemma CopyMap_apply:
  "CopyMap d s k = (if labelAnnotationMatch k \<and> s k \<noteq> None then s k else d k)"
  by (auto simp: CopyMap_def CopyMapWithExcludes_def split: option.splits)

lemma CopyPlanMetadataToSecret_frame [simp]:
  "s_Data (CopyPlanMetadataToSecret sec md) = s_Data sec"
  "s_Type (CopyPlanMetadataToSecret sec md) = s_Type sec"
  "s_Name (CopyPlanMetadataToSecret sec md) = s_Name sec"
  "s_Namespace (CopyPlanMetadataToSecret sec md) = s_Namespace sec"
  by (simp_all add: CopyPlanMetadataToSecret_def split: option.splits)

section \<open>Bounded names\<close>

definition lower_alnum :: "char \<Rightarrow> bool" where
  "lower_alnum c \<longleftrightarrow> (CHR ''a'' \<le> c \<and> c \<le> CHR ''z'') \<or> (CHR ''0'' \<le> c \<and> c \<le> CHR ''9'')"

text \<open>
  \<open>SafeConcatName\<close> slices its input: a slice bound below zero is a runtime panic, here
  \<open>GoPanic\<close>.
\<close>

definition slice_to :: "string \<Rightarrow> int \<Rightarrow> go_error + string" where
  "slice_to s n = (if n < 0 \<or> int (length s) < n then Inl (GoPanic ''slice bounds out of range'')
                   else Inr (take (nat n) s))"

definition SafeConcatName :: "'z libs_scheme \<Rightarrow> int \<Rightarrow> string list \<Rightarrow> go_error + string" where
  "SafeConcatName E maxLength name =
     (let hashLength = 6; fullPath = Join name ''-'' in
      if int (length fullPath) \<le> maxLength then Inr fullPath
      else if maxLength = 0 then Inr ''''
      else if maxLength \<le> 5 then slice_to fullPath maxLength
      else
        let digest = lib_sha256_hex E fullPath;
            trailingCharacterIndex = (if maxLength - (hashLength + 1) < 0 then 0 else maxLength - (hashLength + 1));
            c = fullPath ! nat trailingCharacterIndex in
        if lower_alnum c then
          (case slice_to fullPath (maxLength - hashLength) of
             Inl e \<Rightarrow> Inl e
           | Inr remainingString \<Rightarrow>
               (case slice_to digest (hashLength - 1) of
                  Inl e \<Rightarrow> Inl e
                | Inr hash \<Rightarrow>
                    if remainingString = '''' then Inr hash
                    else Inr (remainingString @ ''-'' @ hash)))
        else
          (case slice_to fullPath (maxLength - (hashLength + 1)) of
             Inl e \<Rightarrow> Inl e
           | Inr pre \<Rightarrow>
               (case slice_to digest hashLength of
                  Inl e \<Rightarrow> Inl e
                | Inr hash \<Rightarrow> Inr (pre @ ''-'' @ hash))))"

section \<open>Compressed values\<close>

text \<open>\<open>json.Marshal\<close> and \<open>json.Unmarshal\<close> of the value's type are the codec parameters.\<close>

definition CompressInterface ::
  "'z libs_scheme \<Rightarrow> ('v \<Rightarrow> go_error + string) \<Rightarrow> 'v \<Rightarrow> go_error + string" where
  "CompressInterface E marshal v =
     (case marshal v of
        Inl e \<Rightarrow> Inl e
      | Inr marshalledCluster \<Rightarrow>
          (case lib_gzip E marshalledCluster of
             Inl e \<Rightarrow> Inl e
           | Inr b \<Rightarrow> Inr (b64_encode b)))"

definition DecompressInterface ::
  "'z libs_scheme \<Rightarrow> (string \<Rightarrow> go_error + 'v) \<Rightarrow> string \<Rightarrow> go_error + 'v" where
  "DecompressInterface E unmarshal inputb64 =
     (if inputb64 = '''' then Inl (ErrOther ''empty base64 input'')
      else (case b64_decode inputb64 of
              Inl e \<Rightarrow> Inl (ErrOther (''error base64.DecodeString: '' @ Error e))
            | Inr decodedGzip \<Rightarrow>
                (case lib_gunzip E decodedGzip of
                   Inl e \<Rightarrow> Inl e
                 | Inr csBytes \<Rightarrow> unmarshal csBytes)))"

definition DecompressClusterSpec ::
  "'z libs_scheme \<Rightarrow> (string \<Rightarrow> go_error + 'v) \<Rightarrow> string \<Rightarrow> go_error + 'v" where
  "DecompressClusterSpec E unmarshal inputb64 = DecompressInterface E unmarshal inputb64"

definition ParseSnapshotClusterSpecOrError ::
  "'z libs_scheme \<Rightarrow> (string \<Rightarrow> go_error + smap) \<Rightarrow> (string \<Rightarrow> go_error + 'v) \<Rightarrow>
   ETCDSnapshot option \<Rightarrow> go_error + 'v" where
  "ParseSnapshotClusterSpecOrError E unmarshalMap unmarshal snapshot =
     (case snapshot of
        None \<Rightarrow> Inl (ErrOther ''snapshot was nil'')
      | Some sn \<Rightarrow>
          let missing = Inl (ErrOther ''unable to find and decode snapshot ClusterSpec for snapshot'') in
          if es_FileMetadata sn \<noteq> '''' then
            (case b64_decode (es_FileMetadata sn) of
               Inl e \<Rightarrow> Inl e
             | Inr b \<Rightarrow>
                 (case unmarshalMap b of
                    Inl e \<Rightarrow> Inl e
                  | Inr md \<Rightarrow>
                      (case md ''provisioning-cluster-spec'' of
                         Some v \<Rightarrow> DecompressClusterSpec E unmarshal v
                       | None \<Rightarrow> missing)))
          else missing)"

section \<open>Properties\<close>

text \<open>What the callers rely on from the library: a hexadecimal SHA-256 digest has 64 digits.\<close>

definition sha256_hex_length :: "'z libs_scheme \<Rightarrow> bool" where
  "sha256_hex_length E \<longleftrightarrow> (\<forall>x. length (lib_sha256_hex E x) = 64)"

lemma slice_to_Inr: "slice_to s n = Inr t \<longleftrightarrow> 0 \<le> n \<and> n \<le> int (length s) \<and> t = take (nat n) s"
  by (auto simp: slice_to_def)

lemma slice_to_ok: "0 \<le> n \<Longrightarrow> n \<le> int (length s) \<Longrightarrow> slice_to s n = Inr (take (nat n) s)"
  by (simp add: slice_to_def)

lemma SafeConcatName_le:
  assumes "sha256_hex_length E" "0 \<le> maxLength" "SafeConcatName E maxLength name = Inr s"
  shows "int (length s) \<le> maxLength"
  using assms
  by (auto simp: SafeConcatName_def Let_def slice_to_Inr sha256_hex_length_def
      split: if_splits sum.splits)

lemma SafeConcatName_short:
  "int (length (Join name ''-'')) \<le> maxLength \<Longrightarrow> SafeConcatName E maxLength name = Inr (Join name ''-'')"
  by (simp add: SafeConcatName_def)

lemma SafeConcatName_no_panic:
  assumes "sha256_hex_length E" "0 \<le> maxLength" "maxLength \<noteq> 6"
  shows "\<exists>s. SafeConcatName E maxLength name = Inr s"
proof -
  have digest: "slice_to (lib_sha256_hex E x) 5 = Inr (take 5 (lib_sha256_hex E x))"
               "slice_to (lib_sha256_hex E x) 6 = Inr (take 6 (lib_sha256_hex E x))" for x
    using assms(1) by (simp_all add: sha256_hex_length_def slice_to_def)
  consider "int (length (Join name ''-'')) \<le> maxLength" | "maxLength < int (length (Join name ''-''))" "maxLength \<le> 5"
    | "maxLength < int (length (Join name ''-''))" "7 \<le> maxLength"
    using assms(3) by linarith
  then show ?thesis
  proof cases
    case 1
    then show ?thesis by (simp add: SafeConcatName_def)
  next
    case 2
    with assms(2) show ?thesis by (simp add: SafeConcatName_def Let_def slice_to_ok)
  next
    case 3
    then show ?thesis by (simp add: SafeConcatName_def Let_def slice_to_ok digest)
  qed
qed

text \<open>
  \<open>SafeConcatName\<close> keeps its bound: for a non-negative maximum other than 6 it returns a
  name of at most that length, a name that already fits is returned unchanged, and the
  bound also holds for every name returned at maximum 6.
\<close>

theorem SafeConcatName_bounded:
  assumes "sha256_hex_length E" and "0 \<le> maxLength"
  shows "(maxLength \<noteq> 6 \<longrightarrow> (\<exists>s. SafeConcatName E maxLength name = Inr s)) \<and>
         (\<forall>s. SafeConcatName E maxLength name = Inr s \<longrightarrow> int (length s) \<le> maxLength) \<and>
         (int (length (Join name ''-'')) \<le> maxLength \<longrightarrow> SafeConcatName E maxLength name = Inr (Join name ''-''))"
  using SafeConcatName_le [OF assms] SafeConcatName_no_panic [OF assms] SafeConcatName_short
  by blast

definition demo_libs :: libs where
  "demo_libs = \<lparr>lib_sha256_hex = (\<lambda>_. replicate 64 (CHR ''0'')), lib_SafeConcatName = (\<lambda>xs. Join xs ''-''),
     lib_Cond = list_conditions, lib_GetControllerOf = find ow_Controller,
     lib_GetReleaseConfig = (\<lambda>_ _. \<lparr>rel_FeatureVersions = Map.empty, rel_AgentArgs = Map.empty,
        rel_ServerArgs = Map.empty\<rparr>),
     lib_gzip = (\<lambda>s. Inr (CHR ''z'' # s)),
     lib_gunzip = (\<lambda>s. if s = [] then Inl (ErrOther ''EOF'') else Inr (tl s)),
     lib_kv_Split = (\<lambda>s sep. case Cut s sep of None \<Rightarrow> (s, '''') | Some ab \<Rightarrow> ab),
     lib_kv_RSplit = (\<lambda>s sep. case rev (Split s sep) of
         [] \<Rightarrow> ('''', s) | [x] \<Rightarrow> ('''', x) | x # xs \<Rightarrow> (Join (rev xs) sep, x))\<rparr>"

lemma demo_libs_sha256 [simp]: "sha256_hex_length demo_libs"
  by (simp add: sha256_hex_length_def demo_libs_def)

theorem SafeConcatName_bounded_witness:
  "SafeConcatName demo_libs 8 [''cluster'', ''pool''] = Inr ''cl-00000'' \<and>
   int (length ''cl-00000'') \<le> 8"
proof -
  have run: "SafeConcatName demo_libs 8 [''cluster'', ''pool''] = Inr ''cl-00000''"
    by code_simp
  from SafeConcatName_bounded [of demo_libs 8 "[''cluster'', ''pool'']"] run
  show ?thesis by simp
qed

text \<open>
  At maximum 6 a longer name whose first character is not a lower-case letter or digit
  makes \<open>SafeConcatName\<close> panic: the second slice bound is \<open>6 - 7\<close>.
\<close>

theorem SafeConcatName_panics_at_6:
  assumes "6 < length (Join name ''-'')" and "\<not> lower_alnum (Join name ''-'' ! 0)"
  shows "\<exists>msg. SafeConcatName E 6 name = Inl (GoPanic msg)"
  using assms by (simp add: SafeConcatName_def slice_to_def)

theorem SafeConcatName_panics_at_6_witness:
  "\<exists>msg. SafeConcatName demo_libs 6 [''Cluster'', ''a''] = Inl (GoPanic msg)"
  by (rule SafeConcatName_panics_at_6) (simp_all add: lower_alnum_def less_eq_char_def)

text \<open>
  Copying plan metadata into a secret writes exactly the labels and annotations under
  the three Rancher and Cluster API prefixes, keeps every other key of the secret, and
  never removes a key.
\<close>

theorem CopyPlanMetadataToSecret_exact:
  "s_Labels (CopyPlanMetadataToSecret sec (Some m)) k =
     (if labelAnnotationMatch k \<and> k \<in> dom (md_Labels m) then md_Labels m k else s_Labels sec k) \<and>
   s_Annotations (CopyPlanMetadataToSecret sec (Some m)) k =
     (if labelAnnotationMatch k \<and> k \<in> dom (md_Annotations m) then md_Annotations m k else s_Annotations sec k) \<and>
   dom (s_Labels sec) \<subseteq> dom (s_Labels (CopyPlanMetadataToSecret sec (Some m))) \<and>
   s_Data (CopyPlanMetadataToSecret sec (Some m)) = s_Data sec"
  by (auto simp: CopyPlanMetadataToSecret_def CopyMap_apply dom_def)

text \<open>
  Decompressing what \<open>CompressInterface\<close> wrote gives the value back, when gzip and the
  value's JSON encoding are inverted by their decoders and a gzip stream is never empty.
\<close>

theorem Decompress_Compress:
  assumes gz: "\<And>x y. lib_gzip E x = Inr y \<Longrightarrow> y \<noteq> [] \<and> lib_gunzip E y = Inr x"
    and js: "\<And>v x. marshal v = Inr x \<Longrightarrow> unmarshal x = Inr v"
    and c: "CompressInterface E marshal v = Inr s"
  shows "DecompressInterface E unmarshal s = Inr v"
proof -
  obtain x y where x: "marshal v = Inr x" and y: "lib_gzip E x = Inr y" and s: "s = b64_encode y"
    using c by (auto simp: CompressInterface_def split: sum.splits)
  have "b64_encode y \<noteq> b64_encode []"
    using gz [OF y] b64_encode_inj [of y "[]"] by blast
  then show ?thesis
    using gz [OF y] js [OF x] s by (simp add: DecompressInterface_def b64_decode_encode)
qed

theorem Decompress_Compress_witness:
  "DecompressInterface demo_libs (Inr :: string \<Rightarrow> go_error + string) (b64_encode ''zspec'') = Inr ''spec''"
  by (rule Decompress_Compress [where marshal = Inr and v = "''spec''"])
     (auto simp: demo_libs_def CompressInterface_def)

lemma IsOwnedByMachine_TrueD:
  "IsOwnedByMachine_loop get mn ns os = Inr True \<Longrightarrow>
     \<exists>ow \<in> set os. ow_Kind ow = ''RKEBootstrap'' \<and>
       (\<exists>b. get ns (ow_Name ow) = Inr b \<and>
         (\<exists>r \<in> set (om_OwnerReferences b). ow_Kind r = ''Machine'' \<and> ow_Name r = mn))"
  by (induction get mn ns os rule: IsOwnedByMachine_loop.induct)
     (auto split: if_splits sum.splits)

text \<open>
  A plan service account that passes \<open>PlanSACheck\<close> for a machine carries the labels of
  that machine's plan account, and one of its owners is an \<open>RKEBootstrap\<close> object that is
  itself owned by the machine.
\<close>

theorem PlanSACheck_sound:
  assumes "PlanSACheck get mn planSA = None"
  shows "\<exists>sa. planSA = Some sa \<and> gets (om_Labels sa) MachineNameLabel = mn \<and>
           gets (om_Labels sa) RoleLabel = RolePlan \<and>
           (\<exists>secretName. GetPlanSecretName planSA = Inr secretName) \<and>
           (\<exists>ow \<in> set (om_OwnerReferences sa). ow_Kind ow = ''RKEBootstrap'' \<and>
             (\<exists>b. get (om_Namespace sa) (ow_Name ow) = Inr b \<and>
               (\<exists>r \<in> set (om_OwnerReferences b). ow_Kind r = ''Machine'' \<and> ow_Name r = mn)))"
  using assms
  by (auto simp: PlanSACheck_def IsOwnedByMachine_def GetPlanSecretName_def
      dest!: IsOwnedByMachine_TrueD split: option.splits if_splits sum.splits)

definition demo_sa :: object_meta where
  "demo_sa = \<lparr>om_Namespace = ''fleet-default'', om_Name = ''sa'',
     om_Labels = [MachineNameLabel \<mapsto> ''m1'', RoleLabel \<mapsto> ''plan'', PlanSecret \<mapsto> ''m1-plan''],
     om_OwnerReferences = [\<lparr>ow_APIVersion = ''rke.cattle.io/v1'', ow_Kind = ''RKEBootstrap'',
       ow_Name = ''b1'', ow_Controller = True\<rparr>], om_Conditions = []\<rparr>"

definition demo_bootstrap :: object_meta where
  "demo_bootstrap = \<lparr>om_Namespace = ''fleet-default'', om_Name = ''b1'', om_Labels = Map.empty,
     om_OwnerReferences = [\<lparr>ow_APIVersion = ''cluster.x-k8s.io/v1beta1'', ow_Kind = ''Machine'',
       ow_Name = ''m1'', ow_Controller = True\<rparr>], om_Conditions = []\<rparr>"

theorem PlanSACheck_sound_witness:
  "PlanSACheck (\<lambda>_ _. Inr demo_bootstrap) ''m1'' (Some demo_sa) = None \<and>
   GetPlanSecretName (Some demo_sa) = Inr ''m1-plan''"
proof -
  have ok: "PlanSACheck (\<lambda>_ _. Inr demo_bootstrap) ''m1'' (Some demo_sa) = None"
    by (simp add: PlanSACheck_def IsOwnedByMachine_def demo_sa_def demo_bootstrap_def key_defs gets_def)
  from PlanSACheck_sound [OF ok] show ?thesis
    using ok by (auto simp: GetPlanSecretName_def demo_sa_def gets_def split: if_splits)
qed

end
