(* ===== verification/Plan_Entry.thy ===== *)
theory Plan_Entry
  imports Capr_Common "HOL-Library.Multiset"
begin

text \<open>
  Plan entries and role filters (\<open>planner/planentry.go\<close>), the planner's error types
  (\<open>planner/errors.go\<close>) and its message helpers (\<open>planner/messages.go\<close>).
\<close>

section \<open>Errors\<close>

fun IsErrWaiting :: "go_error \<Rightarrow> bool" where
  "IsErrWaiting (ErrWaiting _) = True"
| "IsErrWaiting (ErrWrap _ e) = IsErrWaiting e"
| "IsErrWaiting _ = False"

fun IsErrIgnore :: "go_error \<Rightarrow> bool" where
  "IsErrIgnore (ErrIgnore _) = True"
| "IsErrIgnore (ErrWrap _ e) = IsErrIgnore e"
| "IsErrIgnore _ = False"

definition ignoreErrors :: "err \<Rightarrow> err \<Rightarrow> err \<times> err" where
  "ignoreErrors firstIgnoreError err =
     (case err of
        None \<Rightarrow> (firstIgnoreError, None)
      | Some e \<Rightarrow>
          if IsErrIgnore e then
            (case firstIgnoreError of
               None \<Rightarrow> (Some e, None)
             | Some f \<Rightarrow> (Some f, None))
          else (firstIgnoreError, Some e))"

section \<open>Messages\<close>

definition atMostThree :: "string list \<Rightarrow> string" where
  "atMostThree names =
     (let sorted = sort names in
      if length sorted > 3
      then Join (take 3 sorted) '','' @ '' and '' @ Itoa (int (length sorted) - 3) @ '' more''
      else Join sorted '','')"

definition detailedMessage :: "string list \<Rightarrow> (string \<Rightarrow> string list option) \<Rightarrow> string" where
  "detailedMessage machines messages =
     (case machines of
        [m] \<Rightarrow> (case messages m of
                  None \<Rightarrow> ''''
                | Some message \<Rightarrow> if message \<noteq> [] then '': '' @ Join message '', '' else '''')
      | _ \<Rightarrow> '''')"

definition removeReconciledCondition :: "machine option \<Rightarrow> machine option" where
  "removeReconciledCondition machine =
     (case machine of
        None \<Rightarrow> None
      | Some m \<Rightarrow>
          let conds = filter (\<lambda>c. cd_Type c \<noteq> ''Reconciled'') (m_Conditions m) in
          if length conds = length (m_Conditions m) then Some m
          else Some (m\<lparr>m_Conditions := conds\<rparr>))"

section \<open>Plan entries\<close>

record planEntry =
  pe_Machine :: machine
  pe_Plan :: "node option"
  pe_Metadata :: "metadata option"

type_synonym roleFilter = "planEntry \<Rightarrow> bool"

definition entry_label :: "planEntry \<Rightarrow> string \<Rightarrow> string" where
  "entry_label entry k = (case pe_Metadata entry of None \<Rightarrow> '''' | Some md \<Rightarrow> gets (md_Labels md) k)"

definition entry_annotation :: "planEntry \<Rightarrow> string \<Rightarrow> string" where
  "entry_annotation entry k = (case pe_Metadata entry of None \<Rightarrow> '''' | Some md \<Rightarrow> gets (md_Annotations md) k)"

definition plan_entry :: "plan \<Rightarrow> string \<times> machine \<Rightarrow> planEntry" where
  "plan_entry p km = \<lparr>pe_Machine = snd km, pe_Plan = p_Nodes p (fst km), pe_Metadata = p_Metadata p (fst km)\<rparr>"

text \<open>
  The loop over \<open>p.Machines\<close>; reading the annotations of an entry without metadata is a
  nil dereference.
\<close>

fun validate_annotation_loop :: "planEntry list \<Rightarrow> roleFilter \<Rightarrow> string \<Rightarrow> string \<Rightarrow> go_error + bool" where
  "validate_annotation_loop [] validation annotation value' = Inr False"
| "validate_annotation_loop (entry # es) validation annotation value' =
     (if \<not> validation entry then validate_annotation_loop es validation annotation value'
      else (case pe_Metadata entry of
              None \<Rightarrow> Inl (GoPanic ''nil metadata'')
            | Some md \<Rightarrow>
                if gets (md_Annotations md) annotation = value' then Inr True
                else validate_annotation_loop es validation annotation value'))"

definition collectAndValidateAnnotationValue ::
  "plan \<Rightarrow> roleFilter \<Rightarrow> string \<Rightarrow> string \<Rightarrow> go_error + bool" where
  "collectAndValidateAnnotationValue p validation annotation value' =
     validate_annotation_loop (map (plan_entry p) (p_Machines p)) validation annotation value'"

definition entry_name :: "planEntry \<Rightarrow> string" where
  "entry_name e = m_Name (pe_Machine e)"

definition collect :: "plan \<Rightarrow> roleFilter \<Rightarrow> planEntry list" where
  "collect p include =
     sort_key entry_name (filter include (map (plan_entry p) (p_Machines p)))"

definition isEtcd :: roleFilter where
  "isEtcd entry \<longleftrightarrow> entry_label entry EtcdRoleLabel = ''true''"

definition isInitNode :: roleFilter where
  "isInitNode entry \<longleftrightarrow> entry_label entry InitNodeLabel = ''true''"

definition isDeleting :: roleFilter where
  "isDeleting entry \<longleftrightarrow> m_DeletionTimestamp (pe_Machine entry) \<noteq> None"

definition isNotDeleting :: roleFilter where
  "isNotDeleting entry \<longleftrightarrow> \<not> isDeleting entry"

definition isControlPlane :: roleFilter where
  "isControlPlane entry \<longleftrightarrow> entry_label entry ControlPlaneRoleLabel = ''true''"

definition isInitNodeOrDeleting :: roleFilter where
  "isInitNodeOrDeleting entry \<longleftrightarrow> isInitNode entry \<or> isDeleting entry"

definition IsOnlyEtcd :: roleFilter where
  "IsOnlyEtcd entry \<longleftrightarrow> isEtcd entry \<and> \<not> isControlPlane entry"

definition IsEtcdOnlyInitNode :: roleFilter where
  "IsEtcdOnlyInitNode entry \<longleftrightarrow> isInitNode entry \<and> IsOnlyEtcd entry"

definition isNotInitNodeOrIsDeleting :: roleFilter where
  "isNotInitNodeOrIsDeleting entry \<longleftrightarrow> \<not> isInitNode entry \<or> isDeleting entry"

definition isNotDeletingAndControlPlaneOrInitNode :: roleFilter where
  "isNotDeletingAndControlPlaneOrInitNode entry \<longleftrightarrow>
     \<not> isDeleting entry \<and> (isControlPlane entry \<or> isInitNode entry)"

definition isFailed :: roleFilter where
  "isFailed entry \<longleftrightarrow> m_Phase (pe_Machine entry) = ''Failed''"

definition canBeInitNode :: "'z libs_scheme \<Rightarrow> roleFilter" where
  "canBeInitNode E entry \<longleftrightarrow>
     isEtcd entry \<and> \<not> isDeleting entry \<and> \<not> isFailed entry \<and>
     c_IsTrue (lib_Cond E) ''InfrastructureReady'' (m_Conditions (pe_Machine entry))"

definition isControlPlaneAndNotInitNode :: roleFilter where
  "isControlPlaneAndNotInitNode entry \<longleftrightarrow> isControlPlane entry \<and> \<not> isInitNode entry"

definition isControlPlaneEtcd :: roleFilter where
  "isControlPlaneEtcd entry \<longleftrightarrow> isControlPlane entry \<or> isEtcd entry"

definition isOnlyControlPlane :: roleFilter where
  "isOnlyControlPlane entry \<longleftrightarrow> \<not> isEtcd entry \<and> isControlPlane entry"

definition isWorker :: roleFilter where
  "isWorker entry \<longleftrightarrow> entry_label entry WorkerRoleLabel = ''true''"

definition noRole :: roleFilter where
  "noRole entry \<longleftrightarrow> \<not> isEtcd entry \<and> \<not> isControlPlane entry \<and> \<not> isWorker entry"

definition anyRole :: roleFilter where
  "anyRole entry \<longleftrightarrow> \<not> noRole entry"

definition windows :: roleFilter where
  "windows entry \<longleftrightarrow>
     (case pe_Metadata entry of
        None \<Rightarrow> False
      | Some md \<Rightarrow> (case md_Labels md CattleOSLabel of
                      Some v \<Rightarrow> v = WindowsMachineOS
                    | None \<Rightarrow> False))"

definition anyRoleWithoutWindows :: roleFilter where
  "anyRoleWithoutWindows entry \<longleftrightarrow> \<not> noRole entry \<and> \<not> windows entry"

definition isOnlyWorker :: roleFilter where
  "isOnlyWorker entry \<longleftrightarrow> \<not> isEtcd entry \<and> \<not> isControlPlane entry \<and> isWorker entry"

definition anyPlanDataExists :: roleFilter where
  "anyPlanDataExists entry \<longleftrightarrow>
     (case pe_Plan entry of None \<Rightarrow> False | Some n \<Rightarrow> n_PlanDataExists n)"

definition validJoinURL :: "plan \<Rightarrow> string \<Rightarrow> go_error + bool" where
  "validJoinURL p joinURL =
     collectAndValidateAnnotationValue p isNotDeletingAndControlPlaneOrInitNode JoinURLAnnotation joinURL"

definition hasJoinURL :: roleFilter where
  "hasJoinURL entry \<longleftrightarrow> pe_Metadata entry \<noteq> None \<and> entry_annotation entry JoinURLAnnotation \<noteq> ''''"

definition hasJoinedTo :: roleFilter where
  "hasJoinedTo entry \<longleftrightarrow> pe_Metadata entry \<noteq> None \<and> entry_annotation entry JoinedToAnnotation \<noteq> ''''"

definition roleAnd :: "roleFilter \<Rightarrow> roleFilter \<Rightarrow> roleFilter" where
  "roleAnd r1 r2 = (\<lambda>entry. r1 entry \<and> r2 entry)"

definition roleOr :: "roleFilter \<Rightarrow> roleFilter \<Rightarrow> roleFilter" where
  "roleOr r1 r2 = (\<lambda>entry. r1 entry \<or> r2 entry)"

definition roleNot :: "roleFilter \<Rightarrow> roleFilter" where
  "roleNot r1 = (\<lambda>entry. \<not> r1 entry)"

lemmas role_defs [go_defs] =
  isEtcd_def isInitNode_def isDeleting_def isNotDeleting_def isControlPlane_def
  isInitNodeOrDeleting_def IsOnlyEtcd_def IsEtcdOnlyInitNode_def isNotInitNodeOrIsDeleting_def
  isNotDeletingAndControlPlaneOrInitNode_def isFailed_def canBeInitNode_def
  isControlPlaneAndNotInitNode_def isControlPlaneEtcd_def isOnlyControlPlane_def isWorker_def
  noRole_def anyRole_def windows_def anyRoleWithoutWindows_def isOnlyWorker_def
  anyPlanDataExists_def hasJoinURL_def hasJoinedTo_def roleAnd_def roleOr_def roleNot_def

section \<open>Facts on entries\<close>

text \<open>A plan is well formed when its machines are keyed by their own, distinct names.\<close>

definition plan_ok :: "plan \<Rightarrow> bool" where
  "plan_ok p \<longleftrightarrow> distinct (map fst (p_Machines p)) \<and> (\<forall>(k, m) \<in> set (p_Machines p). m_Name m = k)"

lemma entry_name_plan_entry: "plan_ok p \<Longrightarrow> km \<in> set (p_Machines p) \<Longrightarrow> entry_name (plan_entry p km) = fst km"
  by (auto simp: plan_ok_def entry_name_def plan_entry_def)

lemma set_collect: "set (collect p f) = {e. f e \<and> (\<exists>km \<in> set (p_Machines p). e = plan_entry p km)}"
  by (auto simp: collect_def)

lemma collect_in: "e \<in> set (collect p f) \<Longrightarrow> f e"
  by (simp add: set_collect)

lemma sorted_collect: "sorted (map entry_name (collect p f))"
  by (simp add: collect_def)

lemma map_entry_name: "plan_ok p \<Longrightarrow> map entry_name (map (plan_entry p) (p_Machines p)) = map fst (p_Machines p)"
  by (simp add: entry_name_plan_entry)

lemma distinct_collect: "plan_ok p \<Longrightarrow> distinct (map entry_name (collect p f))"
proof -
  assume ok: "plan_ok p"
  have "distinct (map entry_name (filter f (map (plan_entry p) (p_Machines p))))"
    using ok map_entry_name [OF ok] by (metis distinct_map_filter plan_ok_def)
  then show ?thesis
    unfolding collect_def distinct_map by simp
qed

lemma strictly_sorted_collect:
  "plan_ok p \<Longrightarrow> sorted_wrt (<) (map entry_name (collect p f))"
  using strict_sorted_iff distinct_collect sorted_collect by blast

lemma collect_mono_length:
  "(\<And>e. f e \<Longrightarrow> g e) \<Longrightarrow> length (collect p f) \<le> length (collect p g)"
proof -
  assume fg: "\<And>e. f e \<Longrightarrow> g e"
  have "length (filter f xs) \<le> length (filter g xs)" for xs
    by (induction xs) (auto dest: fg)
  from this [of "map (plan_entry p) (p_Machines p)"] show ?thesis
    by (simp only: collect_def length_sort)
qed

lemma collect_empty_iff: "collect p f = [] \<longleftrightarrow> (\<forall>km \<in> set (p_Machines p). \<not> f (plan_entry p km))"
proof -
  have "collect p f = [] \<longleftrightarrow> set (collect p f) = {}" by simp
  then show ?thesis by (simp only: set_collect) auto
qed

lemma sort_key_unique:
  assumes "mset xs = mset ys" "distinct (map k xs)"
  shows "sort_key k xs = sort_key k ys"
proof (rule properties_for_sort_key)
  show "mset (sort_key k ys) = mset xs" using assms(1) by simp
  show "sorted (map k (sort_key k ys))" by simp
  fix x assume "x \<in> set (sort_key k ys)"
  have "set xs = set ys" using assms(1) by (metis set_mset_mset)
  have "distinct (map k (sort_key k ys))"
    using assms by (metis distinct_map mset_eq_imp_distinct_iff mset_sort set_sort \<open>set xs = set ys\<close>)
  have one: "filter (\<lambda>y. k x = k y) zs = [x]" if "distinct (map k zs)" "x \<in> set zs" for zs
    using that by (induction zs) (auto simp: filter_empty_conv rev_image_eqI)
  show "filter (\<lambda>y. k x = k y) (sort_key k ys) = filter (\<lambda>y. k x = k y) xs"
    using one [of "sort_key k ys"] one [of xs] assms(2) \<open>distinct (map k (sort_key k ys))\<close>
      \<open>x \<in> set (sort_key k ys)\<close> \<open>set xs = set ys\<close> by simp
qed

lemma validate_annotation_loop_eq:
  assumes "\<And>e. e \<in> set es \<Longrightarrow> f e \<Longrightarrow> pe_Metadata e \<noteq> None"
  shows "validate_annotation_loop es f a v = Inr (\<exists>e \<in> set es. f e \<and> entry_annotation e a = v)"
  using assms
proof (induction es)
  case (Cons e es)
  have "f e \<Longrightarrow> pe_Metadata e \<noteq> None" using Cons.prems by simp
  with Cons show ?case by (cases "pe_Metadata e") (auto simp: entry_annotation_def)
qed simp

lemma role_has_metadata:
  "isEtcd e \<Longrightarrow> pe_Metadata e \<noteq> None" "isControlPlane e \<Longrightarrow> pe_Metadata e \<noteq> None"
  "isWorker e \<Longrightarrow> pe_Metadata e \<noteq> None" "isInitNode e \<Longrightarrow> pe_Metadata e \<noteq> None"
  "anyRole e \<Longrightarrow> pe_Metadata e \<noteq> None" "isNotDeletingAndControlPlaneOrInitNode e \<Longrightarrow> pe_Metadata e \<noteq> None"
  by (auto simp: role_defs entry_label_def split: option.splits)

text \<open>A join URL is advertised by a live control-plane or init node.\<close>

definition advertised :: "plan \<Rightarrow> string \<Rightarrow> bool" where
  "advertised p u \<longleftrightarrow>
     (\<exists>km \<in> set (p_Machines p). isNotDeletingAndControlPlaneOrInitNode (plan_entry p km) \<and>
        entry_annotation (plan_entry p km) JoinURLAnnotation = u)"

lemma validJoinURL_eq: "validJoinURL p u = Inr (advertised p u)"
  unfolding validJoinURL_def collectAndValidateAnnotationValue_def advertised_def
  by (subst validate_annotation_loop_eq) (auto dest: role_has_metadata)

section \<open>Properties\<close>

text \<open>
  \<open>collect\<close> returns exactly the machines that pass the filter, each with its own node and
  metadata, once, in strictly ascending order of machine name.
\<close>

theorem collect_exact:
  assumes "plan_ok p"
  shows "sorted_wrt (<) (map entry_name (collect p f)) \<and>
         (\<forall>e. e \<in> set (collect p f) \<longleftrightarrow>
            f e \<and> (\<exists>m. (m_Name m, m) \<in> set (p_Machines p) \<and>
              e = \<lparr>pe_Machine = m, pe_Plan = p_Nodes p (m_Name m), pe_Metadata = p_Metadata p (m_Name m)\<rparr>))"
proof -
  have key: "km \<in> set (p_Machines p) \<Longrightarrow> km = (m_Name (snd km), snd km)" for km
    using assms by (cases km) (auto simp: plan_ok_def)
  have "(\<exists>km \<in> set (p_Machines p). e = plan_entry p km) \<longleftrightarrow>
        (\<exists>m. (m_Name m, m) \<in> set (p_Machines p) \<and> e = plan_entry p (m_Name m, m))" for e
    using key by (metis snd_conv)
  then show ?thesis
    using strictly_sorted_collect [OF assms] by (simp add: set_collect plan_entry_def)
qed

definition demo_machine :: "string \<Rightarrow> machine" where
  "demo_machine n = \<lparr>m_Name = n, m_Namespace = ''fleet-default'', m_UID = n, m_Labels = Map.empty,
     m_Annotations = Map.empty, m_DeletionTimestamp = None,
     m_ConfigRef = Some \<lparr>or_APIVersion = ''rke.cattle.io/v1'', or_Kind = ''RKEBootstrap'',
       or_Namespace = ''fleet-default'', or_Name = n\<rparr>,
     m_InfrastructureRef = \<lparr>or_APIVersion = ''rke-machine.cattle.io/v1'', or_Kind = ''Custom'',
       or_Namespace = ''fleet-default'', or_Name = n\<rparr>,
     m_NodeRef = Some n, m_KubeletVersion = Some ''v1.27.6+rke2r1'', m_Addresses = [], m_Phase = ''Running'',
     m_FailureReason = None,
     m_Conditions = [\<lparr>cd_Type = ''InfrastructureReady'', cd_Status = ''True'', cd_Reason = '''', cd_Message = ''''\<rparr>]\<rparr>"

definition demo_metadata :: metadata where
  "demo_metadata = \<lparr>md_Labels = [EtcdRoleLabel \<mapsto> ''true'', ControlPlaneRoleLabel \<mapsto> ''true''],
     md_Annotations = [JoinURLAnnotation \<mapsto> ''https://a:9345'']\<rparr>"

definition demo_plan :: plan where
  "demo_plan = \<lparr>p_Nodes = Map.empty, p_Machines = [(''b'', demo_machine ''b''), (''a'', demo_machine ''a'')],
     p_Metadata = [''a'' \<mapsto> demo_metadata, ''b'' \<mapsto> demo_metadata]\<rparr>"

lemma demo_plan_ok [simp]: "plan_ok demo_plan"
  by (simp add: plan_ok_def demo_plan_def demo_machine_def)

theorem collect_exact_witness:
  "map entry_name (collect demo_plan isEtcd) = [''a'', ''b''] \<and>
   sorted_wrt (<) (map entry_name (collect demo_plan isEtcd))"
proof -
  have "map entry_name (collect demo_plan isEtcd) = [''a'', ''b'']" by code_simp
  with collect_exact [OF demo_plan_ok, of isEtcd] show ?thesis by blast
qed

text \<open>
  What \<open>collect\<close> returns does not depend on the order in which Go iterates over the map
  of machines.
\<close>

theorem collect_order_irrelevant:
  assumes "plan_ok p" and "mset machines = mset (p_Machines p)"
  shows "collect (p\<lparr>p_Machines := machines\<rparr>) f = collect p f"
proof -
  have "plan_entry (p\<lparr>p_Machines := machines\<rparr>) = plan_entry p"
    by (simp add: plan_entry_def fun_eq_iff)
  then show ?thesis
    unfolding collect_def
    using assms map_entry_name [OF assms(1)]
    by (intro sort_key_unique [symmetric])
       (auto simp: mset_filter plan_ok_def simp del: map_map intro: distinct_map_filter)
qed

theorem collect_order_irrelevant_witness:
  "collect (demo_plan\<lparr>p_Machines := rev (p_Machines demo_plan)\<rparr>) isEtcd = collect demo_plan isEtcd"
  by (rule collect_order_irrelevant) simp_all

text \<open>
  \<open>validJoinURL\<close> never dereferences missing metadata, and it accepts a URL exactly when
  some machine that is not being deleted and is a control-plane or init node advertises it.
\<close>

theorem validJoinURL_correct:
  "validJoinURL p u =
     Inr (\<exists>km \<in> set (p_Machines p). isNotDeletingAndControlPlaneOrInitNode (plan_entry p km) \<and>
            entry_annotation (plan_entry p km) JoinURLAnnotation = u)"
  by (simp add: validJoinURL_eq advertised_def)

end
