(* ===== verification/Plan_Store.thy ===== *)
theory Plan_Store
  imports Plan_Entry
begin

text \<open>
  The plan store (\<open>planner/store.go\<close>): a node's plan and its feedback live in the data of
  one Kubernetes secret per machine. The secret client, the machine cache, the clock and
  the JSON codecs are fields of \<open>store_env\<close>, over an abstract type of worlds. An operation
  that changes a plan entry returns the error, the entry as it is then, and the world:
  the entry's metadata stays changed when a later call fails, as in the source.
\<close>

record 'w store_env = libs +
  e_SecretGet :: "string \<Rightarrow> string \<Rightarrow> 'w \<Rightarrow> go_error + secret"
  e_SecretUpdate :: "secret \<Rightarrow> ('w, secret) go"
  e_MachineList :: "string \<Rightarrow> string \<Rightarrow> 'w \<Rightarrow> go_error + machine list"
  e_Now :: "'w \<Rightarrow> string"
  e_MarshalPlan :: "node_plan \<Rightarrow> go_error + string"
  e_UnmarshalPlan :: "string \<Rightarrow> go_error + node_plan"
  e_UnmarshalProbes :: "string \<Rightarrow> go_error + (string \<times> probe_status) list"
  e_UnmarshalOutput :: "string \<Rightarrow> go_error + smap"
  e_UnmarshalPeriodic :: "string \<Rightarrow> go_error + (string \<Rightarrow> periodic_output option)"
  e_UnmarshalConfig :: "string \<Rightarrow> go_error + (string \<Rightarrow> json option)"
  e_UnmarshalDBInfo :: "string \<Rightarrow> go_error + (string \<times> string list) list"
  e_DeepEqualPlan :: "node_plan \<Rightarrow> node_plan \<Rightarrow> bool"
  e_ParseIP :: "string \<Rightarrow> bool"
  e_URLHostname :: "string \<Rightarrow> go_error + string"

definition NoAgentPlanStatusMessage :: string where
  "NoAgentPlanStatusMessage = ''waiting for agent to check in and apply initial plan''"

definition WaitingPlanStatusMessage :: string where
  "WaitingPlanStatusMessage = ''waiting for plan to be applied''"

definition FailedPlanStatusMessage :: string where
  "FailedPlanStatusMessage = ''failure while applying plan''"

section \<open>Status messages\<close>

definition isRKEBootstrap :: "machine \<Rightarrow> bool" where
  "isRKEBootstrap machine \<longleftrightarrow>
     (case m_ConfigRef machine of None \<Rightarrow> False | Some ref \<Rightarrow> or_Kind ref = ''RKEBootstrap'')"

definition onlyRKE :: "machine list \<Rightarrow> machine list" where
  "onlyRKE machines = filter isRKEBootstrap machines"

definition noPlanMessage :: "planEntry \<Rightarrow> string" where
  "noPlanMessage entry =
     (if isEtcd entry then ''waiting for bootstrap etcd to be available''
      else if isControlPlane entry then ''waiting for etcd to be available''
      else ''waiting for control plane to be available'')"

definition probesMessage :: "node \<Rightarrow> string" where
  "probesMessage plan =
     ''waiting for probes: '' @
     Join (sort (map fst (filter (\<lambda>(name, probe). \<not> ps_Healthy probe) (n_ProbeStatus plan)))) '', ''"

definition getPlanStatusReasonMessage :: "planEntry \<Rightarrow> string" where
  "getPlanStatusReasonMessage entry =
     (case pe_Plan entry of
        None \<Rightarrow> noPlanMessage entry
      | Some pl \<Rightarrow>
          if length (np_Instructions (n_Plan pl)) = 0 then noPlanMessage entry
          else if n_AppliedPlan pl = None then NoAgentPlanStatusMessage
          else if np_Error (n_Plan pl) \<noteq> '''' then np_Error (n_Plan pl)
          else if \<not> n_Healthy pl then probesMessage pl
          else if n_InSync pl then ''''
          else if n_Failed pl then FailedPlanStatusMessage
          else WaitingPlanStatusMessage)"

section \<open>Reading a plan secret\<close>

definition PlanHash :: "'z libs_scheme \<Rightarrow> string \<Rightarrow> string" where
  "PlanHash E plan = lib_sha256_hex E plan"

definition ParseProbeStatuses ::
  "('w, 'z) store_env_scheme \<Rightarrow> string \<Rightarrow> go_error + (string \<times> probe_status) list \<times> bool" where
  "ParseProbeStatuses E probeStatuses =
     (if length probeStatuses = 0 then Inl (ErrOther ''probe status length was 0'')
      else (case e_UnmarshalProbes E probeStatuses of
              Inl e \<Rightarrow> Inl e
            | Inr probeStatusMap \<Rightarrow>
                Inr (probeStatusMap, list_all (\<lambda>(_, status). ps_Healthy status) probeStatusMap)))"

text \<open>The failure state: \<open>Failed\<close> of the node, from the counters and the checksum.\<close>

definition secret_failed :: "'z libs_scheme \<Rightarrow> smap \<Rightarrow> go_error + bool" where
  "secret_failed E d =
     (if length (gets d ''failure-count'') > 0 \<and> PlanHash E (gets d ''plan'') = gets d ''failed-checksum'' then
        sbind (Atoi (gets d ''failure-count'')) (\<lambda>failureCount.
          if failureCount > 0 then
            let rawFailureThreshold = gets d ''failure-threshold'' in
            if length rawFailureThreshold > 0 then
              sbind (Atoi rawFailureThreshold) (\<lambda>failureThreshold.
                Inr (\<not> (failureCount < failureThreshold \<or> failureThreshold = -1)))
            else Inr True
          else Inr False)
      else Inr False)"

text \<open>\<open>JoinedTo\<close> of a node without the annotation: the \<open>server\<close> of its rendered config file.\<close>

fun joined_to_from_files ::
  "('w, 'z) store_env_scheme \<Rightarrow> plan_file list \<Rightarrow> go_error + string" where
  "joined_to_from_files E [] = Inr ''''"
| "joined_to_from_files E (v # vs) =
     (if Contains (f_Path v) ''/etc/rancher/'' \<and> Contains (f_Path v) ''/config.yaml.d/50-rancher.yaml'' then
        sbind (b64_decode (f_Content v)) (\<lambda>cfr.
        sbind (e_UnmarshalConfig E cfr) (\<lambda>cf.
          case cf ''server'' of
            None \<Rightarrow> Inr ''''
          | Some (JStr server) \<Rightarrow> Inr server
          | Some _ \<Rightarrow> Inl (GoPanic ''interface conversion: interface {} is not string'')))
      else joined_to_from_files E vs)"

definition secret_probes ::
  "('w, 'z) store_env_scheme \<Rightarrow> smap \<Rightarrow> go_error + (string \<times> probe_status) list \<times> bool" where
  "secret_probes E d =
     (let probes = gets d ''probe-statuses'' in
      if length probes > 0 then ParseProbeStatuses E probes else Inr ([], True))"

definition secret_applied_plan :: "('w, 'z) store_env_scheme \<Rightarrow> smap \<Rightarrow> go_error + node_plan option" where
  "secret_applied_plan E d =
     (let appliedPlanData = gets d ''appliedPlan'' in
      if length appliedPlanData > 0
      then sbind (e_UnmarshalPlan E appliedPlanData) (\<lambda>newPlan. Inr (Some newPlan)) else Inr None)"

definition secret_joined_to :: "('w, 'z) store_env_scheme \<Rightarrow> smap \<Rightarrow> plan_file list \<Rightarrow> go_error + string" where
  "secret_joined_to E annotations files =
     (case annotations JoinedToAnnotation of
        Some joinedTo \<Rightarrow> Inr joinedTo
      | None \<Rightarrow> joined_to_from_files E files)"

definition secret_output :: "('w, 'z) store_env_scheme \<Rightarrow> smap \<Rightarrow> go_error + smap" where
  "secret_output E d =
     (let output = gets d ''applied-output'' in
      if length output > 0 then sbind (lib_gunzip E output) (e_UnmarshalOutput E) else Inr Map.empty)"

definition secret_periodic_output ::
  "('w, 'z) store_env_scheme \<Rightarrow> smap \<Rightarrow> go_error + (string \<Rightarrow> periodic_output option)" where
  "secret_periodic_output E d =
     (let appliedPeriodicOutput = gets d ''applied-periodic-output'' in
      if length appliedPeriodicOutput > 0
      then sbind (lib_gunzip E appliedPeriodicOutput) (e_UnmarshalPeriodic E) else Inr Map.empty)"

definition SecretToNode ::
  "('w, 'z) store_env_scheme \<Rightarrow> secret option \<Rightarrow> go_error + node option" where
  "SecretToNode E secret =
     (case secret of
        None \<Rightarrow> Inl (ErrOther ''unable to convert secret to node plan, secret was nil'')
      | Some sec \<Rightarrow>
          if s_Type sec \<noteq> SecretTypeMachinePlan
          then Inl (ErrOther (''secret '' @ s_Namespace sec @ ''/'' @ s_Name sec @ '' was not type '' @ SecretTypeMachinePlan))
          else
            let d = s_Data sec; planData = gets d ''plan'' in
            sbind (secret_failed E d) (\<lambda>failed.
            sbind (secret_probes E d) (\<lambda>probes.
            if length planData > 0 then
              sbind (e_UnmarshalPlan E planData) (\<lambda>newPlan.
              sbind (secret_applied_plan E d) (\<lambda>appliedPlan.
              sbind (secret_joined_to E (s_Annotations sec) (np_Files newPlan)) (\<lambda>joinedTo.
              sbind (secret_output E d) (\<lambda>output.
              sbind (secret_periodic_output E d) (\<lambda>periodic.
              Inr (Some \<lparr>n_Plan = newPlan, n_AppliedPlan = appliedPlan, n_JoinedTo = joinedTo,
                         n_Output = output, n_PeriodicOutput = periodic, n_Failed = failed,
                         n_InSync = (planData = gets d ''appliedPlan''), n_Healthy = snd probes,
                         n_PlanDataExists = True, n_ProbeStatus = fst probes,
                         n_ProbesUsable = (gets (s_Annotations sec) PlanProbesPassedAnnotation \<noteq> '''')\<rparr>))))))
            else Inr None)))"

text \<open>
  \<open>getPlanSecretFromMachine\<close>; the API server returns the object of the asked name.
\<close>

definition getPlanSecretFromMachine ::
  "('w, 'z) store_env_scheme \<Rightarrow> machine option \<Rightarrow> 'w \<Rightarrow> go_error + secret" where
  "getPlanSecretFromMachine E machine w =
     (case machine of
        None \<Rightarrow> Inl (ErrOther ''machine was nil'')
      | Some m \<Rightarrow>
          let mid = ''machine '' @ m_Namespace m @ ''/'' @ m_Name m in
          if \<not> isRKEBootstrap m then Inl (ErrOther (mid @ '' is not using RKEBootstrap''))
          else (case m_ConfigRef m of
                  None \<Rightarrow> Inl (ErrOther (mid @ '' bootstrap configref was nil''))
                | Some ref \<Rightarrow>
                    if or_Name ref = '''' then Inl (ErrOther (mid @ '' bootstrap configref name was empty''))
                    else sbind (e_SecretGet E (m_Namespace m) (PlanSecretFromBootstrapName E (or_Name ref)) w) (\<lambda>sec.
                      if s_Type sec \<noteq> SecretTypeMachinePlan
                      then Inl (ErrOther (''retrieved secret '' @ s_Namespace sec @ ''/'' @ s_Name sec @ '' type '' @
                             s_Type sec @ '' did not match expected type '' @ SecretTypeMachinePlan))
                      else Inr sec)))"

fun getPlanSecrets ::
  "('w, 'z) store_env_scheme \<Rightarrow> machine list \<Rightarrow> 'w \<Rightarrow> go_error + (string \<times> secret) list" where
  "getPlanSecrets E [] w = Inr []"
| "getPlanSecrets E (m # ms) w =
     (case getPlanSecretFromMachine E (Some m) w of
        Inl e \<Rightarrow> if is_NotFound e then getPlanSecrets E ms w else Inl e
      | Inr sec \<Rightarrow> sbind (getPlanSecrets E ms w) (\<lambda>rest. Inr ((m_Name m, sec) # rest)))"

section \<open>Writing a plan secret\<close>

text \<open>The annotations \<open>UpdatePlan\<close> leaves on the entry, given the clock.\<close>

definition updated_annotations :: "smap \<Rightarrow> string \<Rightarrow> string \<Rightarrow> smap" where
  "updated_annotations a joinedTo now =
     (let a1 = (if joinedTo \<noteq> '''' then
                  if joinedTo = ''-'' \<or> gets a InitNodeLabel = ''true'' then a(JoinedToAnnotation \<mapsto> '''')
                  else a(JoinedToAnnotation \<mapsto> joinedTo)
                else a);
          a2 = (if gets a1 InitNodeLabel = ''true'' then a1(JoinedToAnnotation \<mapsto> '''') else a1) in
      a2(PlanUpdatedTimeAnnotation \<mapsto> now, PlanProbesPassedAnnotation \<mapsto> ''''))"

text \<open>The data \<open>UpdatePlan\<close> writes.\<close>

definition threshold_put :: "string \<Rightarrow> int \<Rightarrow> smap \<Rightarrow> smap" where
  "threshold_put k n d = (if n > 0 \<or> n = -1 then d(k \<mapsto> Itoa n) else d(k := None))"

definition updated_data :: "smap \<Rightarrow> string \<Rightarrow> int \<Rightarrow> int \<Rightarrow> smap" where
  "updated_data d data maxFailures failureThreshold =
     threshold_put ''failure-threshold'' failureThreshold
       (threshold_put ''max-failures'' maxFailures
         ((d(''probe-statuses'' := None))(''plan'' \<mapsto> data)))"

definition write_plan_secret ::
  "('w, 'z) store_env_scheme \<Rightarrow> secret \<Rightarrow> planEntry \<Rightarrow> 'w \<Rightarrow> err \<times> planEntry \<times> 'w" where
  "write_plan_secret E sec entry w =
     (case e_SecretUpdate E sec w of
        (Inl e, w') \<Rightarrow> (Some e, entry, w')
      | (Inr updatedSecret, w') \<Rightarrow>
          (case SecretToNode E (Some updatedSecret) of
             Inl e \<Rightarrow> (Some e, entry, w')
           | Inr newNode \<Rightarrow> (None, entry\<lparr>pe_Plan := newNode\<rparr>, w')))"

definition UpdatePlan ::
  "('w, 'z) store_env_scheme \<Rightarrow> planEntry \<Rightarrow> node_plan \<Rightarrow> string \<Rightarrow> int \<Rightarrow> int \<Rightarrow> 'w \<Rightarrow>
   err \<times> planEntry \<times> 'w" where
  "UpdatePlan E entry newNodePlan joinedTo maxFailures failureThreshold w =
     (if maxFailures < failureThreshold \<and> failureThreshold \<noteq> -1 \<and> maxFailures \<noteq> -1
      then (Some (ErrOther (''failureThreshold ('' @ Itoa failureThreshold @
              '') cannot be greater than maxFailures ('' @ Itoa maxFailures @ '')'')), entry, w)
      else (case getPlanSecretFromMachine E (Some (pe_Machine entry)) w of
              Inl e \<Rightarrow> (Some e, entry, w)
            | Inr sec \<Rightarrow>
                (case e_MarshalPlan E newNodePlan of
                   Inl e \<Rightarrow> (Some e, entry, w)
                 | Inr data \<Rightarrow>
                     (case pe_Metadata entry of
                        None \<Rightarrow> (Some (GoPanic ''nil metadata''), entry, w)
                      | Some md \<Rightarrow>
                          let md' = md\<lparr>md_Annotations := updated_annotations (md_Annotations md) joinedTo (e_Now E w)\<rparr>;
                              sec' = CopyPlanMetadataToSecret sec (Some md');
                              sec'' = sec'\<lparr>s_Data := updated_data (s_Data sec') data maxFailures failureThreshold\<rparr> in
                          write_plan_secret E sec'' (entry\<lparr>pe_Metadata := Some md'\<rparr>) w))))"

definition updatePlanSecretLabelsAndAnnotations ::
  "('w, 'z) store_env_scheme \<Rightarrow> planEntry \<Rightarrow> 'w \<Rightarrow> err \<times> planEntry \<times> 'w" where
  "updatePlanSecretLabelsAndAnnotations E entry w =
     (case getPlanSecretFromMachine E (Some (pe_Machine entry)) w of
        Inl e \<Rightarrow> (Some e, entry, w)
      | Inr sec \<Rightarrow> write_plan_secret E (CopyPlanMetadataToSecret sec (pe_Metadata entry)) entry w)"

definition removePlanSecretLabel ::
  "('w, 'z) store_env_scheme \<Rightarrow> planEntry \<Rightarrow> string \<Rightarrow> 'w \<Rightarrow> err \<times> planEntry \<times> 'w" where
  "removePlanSecretLabel E entry key w =
     (case getPlanSecretFromMachine E (Some (pe_Machine entry)) w of
        Inl e \<Rightarrow> (Some e, entry, w)
      | Inr sec \<Rightarrow>
          if s_Labels sec key = None then (None, entry, w)
          else
            let sec' = sec\<lparr>s_Labels := (s_Labels sec)(key := None)\<rparr> in
            (case write_plan_secret E sec' entry w of
               (Some e, entry', w') \<Rightarrow> (Some e, entry', w')
             | (None, entry', w') \<Rightarrow>
                 (case pe_Metadata entry' of
                    None \<Rightarrow> (Some (GoPanic ''nil metadata''), entry', w')
                  | Some md \<Rightarrow>
                      (None, entry'\<lparr>pe_Metadata := Some (md\<lparr>md_Labels := s_Labels sec'\<rparr>)\<rparr>, w'))))"

definition assignAndCheckPlan ::
  "('w, 'z) store_env_scheme \<Rightarrow> string \<Rightarrow> planEntry \<Rightarrow> node_plan \<Rightarrow> string \<Rightarrow> int \<Rightarrow> int \<Rightarrow> 'w \<Rightarrow>
   err \<times> planEntry \<times> 'w" where
  "assignAndCheckPlan E msg entry newPlan joinedTo failureThreshold maxRetries w =
     (let assign =
        (case UpdatePlan E entry newPlan joinedTo failureThreshold maxRetries w of
           (Some e, entry', w') \<Rightarrow> (Some e, entry', w')
         | (None, entry', w') \<Rightarrow> (Some (ErrWaiting (''starting '' @ msg)), entry', w')) in
      case pe_Plan entry of
        None \<Rightarrow> assign
      | Some pl \<Rightarrow>
          if \<not> e_DeepEqualPlan E (n_Plan pl) newPlan then assign
          else if n_Failed pl then (Some (ErrOther (''operation '' @ msg @ '' failed'')), entry, w)
          else if \<not> n_InSync pl then (Some (ErrWaiting (''waiting for '' @ msg)), entry, w)
          else if \<not> n_Healthy pl then (Some (ErrWaiting (''waiting for '' @ msg @ '' probes'')), entry, w)
          else (None, entry, w))"

section \<open>Join URLs\<close>

definition joinURLFromAddress :: "('w, 'z) store_env_scheme \<Rightarrow> string \<Rightarrow> int \<Rightarrow> string" where
  "joinURLFromAddress E address port =
     (let address' =
        (if e_ParseIP E address \<and> count_char (CHR '':'') address \<ge> 2 then
           if \<not> HasPrefix address ''['' \<and> \<not> HasSuffix address '']'' then ''['' @ address @ '']'' else address
         else address) in
      ''https://'' @ address' @ '':'' @ Itoa port)"

text \<open>
  The lines a \<open>bufio.Scanner\<close> yields: a trailing carriage return is dropped, no empty last
  line, and nothing after a line that does not fit its buffer of 64 KiB.
\<close>

definition newline :: string where
  "newline = [CHR 0x0A]"

definition scan_lines :: "string \<Rightarrow> string list" where
  "scan_lines s =
     (let ls = Split s newline;
          ls' = (if last ls = '''' then butlast ls else ls) in
      map (\<lambda>l. TrimSuffix l [CHR 0x0D]) (takeWhile (\<lambda>l. length l \<le> 65535) ls'))"

definition is_space :: "char \<Rightarrow> bool" where
  "is_space c \<longleftrightarrow> c \<in> {CHR 0x09, CHR 0x0A, CHR 0x0B, CHR 0x0C, CHR 0x0D, CHR 0x20}"

definition TrimSpace :: "string \<Rightarrow> string" where
  "TrimSpace s = rev (dropWhile is_space (rev (dropWhile is_space s)))"

definition no_periodic_output :: periodic_output where
  "no_periodic_output = \<lparr>po_Name = '''', po_Stdout = '''', po_Stderr = '''', po_ExitCode = 0,
     po_LastSuccessfulRunTime = ''''\<rparr>"

definition periodic_output_of :: "node \<Rightarrow> string \<Rightarrow> periodic_output" where
  "periodic_output_of pl k = (case n_PeriodicOutput pl k of None \<Rightarrow> no_periodic_output | Some po \<Rightarrow> po)"

definition captureAddressInstructionName :: string where
  "captureAddressInstructionName = ''capture-address''"

definition etcdNameInstructionName :: string where
  "etcdNameInstructionName = ''etcd-name''"

definition getJoinURLFromOutput ::
  "('w, 'z) store_env_scheme \<Rightarrow> planEntry \<Rightarrow> capi_cluster \<Rightarrow> RKEControlPlane option \<Rightarrow> go_error + string" where
  "getJoinURLFromOutput E entry capiCluster rkeControlPlane =
     (case (pe_Plan entry, rkeControlPlane) of
        (Some pl, Some cp) \<Rightarrow>
          if \<not> IsEtcdOnlyInitNode entry \<or> cc_ControlPlaneRef capiCluster = None then Inr ''''
          else
            let ca = periodic_output_of pl captureAddressInstructionName;
                etcdNameOutput = periodic_output_of pl etcdNameInstructionName in
            if po_ExitCode ca \<noteq> 0 \<or> po_LastSuccessfulRunTime ca = '''' then Inr ''''
            else if po_ExitCode etcdNameOutput \<noteq> 0 \<or> po_LastSuccessfulRunTime etcdNameOutput = '''' then Inr ''''
            else
              let name = TrimSpace (po_Stdout etcdNameOutput) in
              (case find (\<lambda>line. HasPrefix line ''{'') (scan_lines (po_Stdout ca)) of
                 None \<Rightarrow> Inr ''''
               | Some str \<Rightarrow>
                   sbind (e_UnmarshalDBInfo E str) (\<lambda>members.
                   case find (\<lambda>(n, urls). n = name) members of
                     None \<Rightarrow> Inr ''''
                   | Some (n, urls) \<Rightarrow>
                       (case urls of
                          [] \<Rightarrow> Inl (GoPanic ''index out of range'')
                        | u # _ \<Rightarrow>
                            sbind (e_URLHostname E u) (\<lambda>host.
                              Inr (joinURLFromAddress E host
                                     (GetRuntimeSupervisorPort (sp_KubernetesVersion (cp_Spec cp))))))))
      | _ \<Rightarrow> Inr '''')"

fun machine_address :: "(string \<times> string) list \<Rightarrow> string \<Rightarrow> string" where
  "machine_address [] address = address"
| "machine_address ((ty, a) # as) address =
     machine_address as
       (if ty = ''InternalIP'' then a
        else if ty = ''ExternalIP'' then (if address = '''' then a else address)
        else address)"

definition store_join_url ::
  "('w, 'z) store_env_scheme \<Rightarrow> planEntry \<Rightarrow> metadata \<Rightarrow> string \<Rightarrow> 'w \<Rightarrow> err \<times> planEntry \<times> 'w" where
  "store_join_url E entry md joinURL w =
     (if joinURL \<noteq> '''' \<and> gets (md_Annotations md) JoinURLAnnotation \<noteq> joinURL then
        let entry' = entry\<lparr>pe_Metadata := Some (md\<lparr>md_Annotations := (md_Annotations md)(JoinURLAnnotation \<mapsto> joinURL)\<rparr>)\<rparr> in
        (case updatePlanSecretLabelsAndAnnotations E entry' w of
           (Some e, entry'', w') \<Rightarrow> (Some e, entry'', w')
         | (None, entry'', w') \<Rightarrow> (Some ErrSkip, entry'', w'))
      else (None, entry, w))"

definition setMachineJoinURL ::
  "('w, 'z) store_env_scheme \<Rightarrow> planEntry \<Rightarrow> capi_cluster \<Rightarrow> RKEControlPlane \<Rightarrow> 'w \<Rightarrow> err \<times> planEntry \<times> 'w" where
  "setMachineJoinURL E entry capiCluster controlPlane w =
     (case pe_Metadata entry of
        None \<Rightarrow> (Some (GoPanic ''nil metadata''), entry, w)
      | Some md \<Rightarrow>
          if md_Annotations md JoinURLAutosetDisabled \<noteq> None then (None, entry, w)
          else if IsEtcdOnlyInitNode entry then
            (case getJoinURLFromOutput E entry capiCluster (Some controlPlane) of
               Inl e \<Rightarrow> (Some e, entry, w)
             | Inr joinURL \<Rightarrow> if joinURL = '''' then (None, entry, w) else store_join_url E entry md joinURL w)
          else if m_KubeletVersion (pe_Machine entry) = None then (None, entry, w)
          else store_join_url E entry md
                 (joinURLFromAddress E (machine_address (m_Addresses (pe_Machine entry)) '''')
                    (GetRuntimeSupervisorPort (sp_KubernetesVersion (cp_Spec controlPlane)))) w)"

section \<open>Loading the plan\<close>

text \<open>
  The loop over the secrets; Go visits the map in any order, the model in the order of
  the machine list. The map of machines is built first.
\<close>

fun load_secrets ::
  "('w, 'z) store_env_scheme \<Rightarrow> capi_cluster \<Rightarrow> RKEControlPlane \<Rightarrow> (string \<times> secret) list \<Rightarrow> plan \<Rightarrow> bool \<Rightarrow>
   'w \<Rightarrow> (go_error + plan) \<times> bool \<times> 'w" where
  "load_secrets E cluster rkeControlPlane [] result anyPlanDelivered w = (Inr result, anyPlanDelivered, w)"
| "load_secrets E cluster rkeControlPlane ((machineName, sec) # secrets) result anyPlanDelivered w =
     (let md = \<lparr>md_Labels = s_Labels sec, md_Annotations = s_Annotations sec\<rparr>;
          result1 = result\<lparr>p_Metadata := (p_Metadata result)(machineName \<mapsto> md)\<rparr> in
      case SecretToNode E (Some sec) of
        Inl e \<Rightarrow> (Inl e, anyPlanDelivered, w)
      | Inr None \<Rightarrow> load_secrets E cluster rkeControlPlane secrets result1 anyPlanDelivered w
      | Inr (Some node) \<Rightarrow>
          let delivered = (anyPlanDelivered \<or> n_PlanDataExists node) in
          (case map_of (p_Machines result1) machineName of
             None \<Rightarrow> (Inl (GoPanic ''nil machine''), delivered, w)
           | Some m \<Rightarrow>
               (case setMachineJoinURL E \<lparr>pe_Machine = m, pe_Plan = Some node, pe_Metadata = Some md\<rparr> cluster rkeControlPlane w of
                  (Some e, _, w') \<Rightarrow> (Inl e, delivered, w')
                | (None, entry, w') \<Rightarrow>
                    load_secrets E cluster rkeControlPlane secrets
                      (result1\<lparr>p_Nodes := (p_Nodes result1)(machineName \<mapsto> node),
                               p_Metadata := (p_Metadata result1)(machineName := pe_Metadata entry)\<rparr>)
                      delivered w')))"

definition Load ::
  "('w, 'z) store_env_scheme \<Rightarrow> capi_cluster \<Rightarrow> RKEControlPlane \<Rightarrow> 'w \<Rightarrow> (go_error + plan) \<times> bool \<times> 'w" where
  "Load E cluster rkeControlPlane w =
     (case e_MachineList E (cc_Namespace cluster) (cc_Name cluster) w of
        Inl e \<Rightarrow> (Inl e, False, w)
      | Inr listed \<Rightarrow>
          let machines = onlyRKE listed in
          (case getPlanSecrets E machines w of
             Inl e \<Rightarrow> (Inl e, False, w)
           | Inr secrets \<Rightarrow>
               load_secrets E cluster rkeControlPlane secrets
                 \<lparr>p_Nodes = Map.empty, p_Machines = map (\<lambda>m. (m_Name m, m)) machines, p_Metadata = Map.empty\<rparr>
                 False w))"

section \<open>Entries inside a plan\<close>

text \<open>
  An entry that was collected from a plan shares its metadata object with the plan. The
  planner's state is the world and the plan of the pass; an operation on an entry is run
  by \<open>on_entry\<close>, which also writes the entry's metadata back to the plan.
\<close>

record 'w pstate =
  world :: 'w
  cplan :: plan

definition put_entry :: "planEntry \<Rightarrow> plan \<Rightarrow> plan" where
  "put_entry e p = p\<lparr>p_Metadata := (p_Metadata p)(entry_name e := pe_Metadata e)\<rparr>"

definition on_entry ::
  "(planEntry \<Rightarrow> 'w \<Rightarrow> 'r \<times> planEntry \<times> 'w) \<Rightarrow> planEntry \<Rightarrow> 'w pstate \<Rightarrow> 'r \<times> planEntry \<times> 'w pstate" where
  "on_entry op e s =
     (case op e (world s) of
        (r, e', w') \<Rightarrow> (r, e', \<lparr>world = w', cplan = put_entry e' (cplan s)\<rparr>))"

definition in_plan :: "plan \<Rightarrow> planEntry \<Rightarrow> bool" where
  "in_plan p e \<longleftrightarrow> p_Metadata p (entry_name e) = pe_Metadata e"

definition labels_of :: "planEntry \<Rightarrow> smap option" where
  "labels_of e = map_option md_Labels (pe_Metadata e)"

definition label_filter :: "roleFilter \<Rightarrow> bool" where
  "label_filter f \<longleftrightarrow> (\<forall>e e'. pe_Machine e = pe_Machine e' \<longrightarrow> labels_of e = labels_of e' \<longrightarrow> f e = f e')"

lemma on_entryD:
  "on_entry op e s = (r, e', s') \<Longrightarrow> op e (world s) = (r, e', world s') \<and> cplan s' = put_entry e' (cplan s)"
  by (auto simp: on_entry_def split: prod.splits)

lemma put_entry_same: "in_plan p e \<Longrightarrow> put_entry e p = p"
  by (simp add: put_entry_def in_plan_def fun_upd_idem)

lemma on_entry_noop:
  "on_entry op e s = (r, e', s') \<Longrightarrow> e' = e \<Longrightarrow> world s' = world s \<Longrightarrow> in_plan (cplan s) e \<Longrightarrow> s' = s"
  using on_entryD [of op e s r e' s'] by (cases s, cases s') (simp add: put_entry_same)

lemma in_plan_collect: "plan_ok p \<Longrightarrow> e \<in> set (collect p f) \<Longrightarrow> in_plan p e"
  by (auto simp: set_collect in_plan_def entry_name_plan_entry) (simp add: plan_entry_def)

lemma entry_label_cong: "labels_of e = labels_of e' \<Longrightarrow> entry_label e k = entry_label e' k"
  by (auto simp: labels_of_def entry_label_def split: option.splits)

lemma label_filterD:
  "label_filter f \<Longrightarrow> pe_Machine e = pe_Machine e' \<Longrightarrow> labels_of e = labels_of e' \<Longrightarrow> f e = f e'"
  unfolding label_filter_def by blast

lemma label_filters [simp]:
  "label_filter isEtcd" "label_filter isControlPlane" "label_filter isWorker" "label_filter isInitNode"
  by (metis (full_types) label_filter_def isEtcd_def entry_label_cong)
     (metis (full_types) label_filter_def isControlPlane_def isWorker_def isInitNode_def entry_label_cong)+

lemma label_filter_compose [simp]:
  "label_filter f \<Longrightarrow> label_filter g \<Longrightarrow> label_filter (roleAnd f g)"
  "label_filter f \<Longrightarrow> label_filter g \<Longrightarrow> label_filter (roleOr f g)"
  "label_filter f \<Longrightarrow> label_filter (roleNot f)"
  by (unfold label_filter_def roleAnd_def roleOr_def roleNot_def, metis, metis, metis)

locale entry_op =
  fixes op :: "planEntry \<Rightarrow> 'w \<Rightarrow> 'r \<times> planEntry \<times> 'w"
  assumes op_machine: "op e w = (r, e', w') \<Longrightarrow> pe_Machine e' = pe_Machine e"
    and op_metadata: "op e w = (r, e', w') \<Longrightarrow> pe_Metadata e' = None \<longleftrightarrow> pe_Metadata e = None"
begin

lemma op_name: "op e w = (r, e', w') \<Longrightarrow> entry_name e' = entry_name e"
  by (simp add: entry_name_def op_machine)

lemma on_entry_machines:
  "on_entry op e s = (r, e', s') \<Longrightarrow> p_Machines (cplan s') = p_Machines (cplan s)"
  by (auto simp: on_entry_def put_entry_def split: prod.splits)

lemma on_entry_plan_ok:
  "on_entry op e s = (r, e', s') \<Longrightarrow> plan_ok (cplan s) \<Longrightarrow> plan_ok (cplan s')"
  by (simp add: plan_ok_def on_entry_machines)

lemma on_entry_in_plan: "on_entry op e s = (r, e', s') \<Longrightarrow> in_plan (cplan s') e'"
  by (auto simp: on_entry_def put_entry_def in_plan_def split: prod.splits)

lemma on_entry_others:
  "on_entry op e s = (r, e', s') \<Longrightarrow> n \<noteq> entry_name e \<Longrightarrow> p_Metadata (cplan s') n = p_Metadata (cplan s) n"
  by (auto simp: on_entry_def put_entry_def op_name split: prod.splits)

end

text \<open>An operation that keeps the labels keeps every role.\<close>

locale role_keeping_op = entry_op +
  assumes op_labels: "op e w = (r, e', w') \<Longrightarrow> labels_of e' = labels_of e"
begin

lemma keeps_filter: "op e w = (r, e', w') \<Longrightarrow> label_filter f \<Longrightarrow> f e' = f e"
  using label_filterD [OF _ op_machine op_labels] by blast

lemma on_entry_labels:
  assumes "on_entry op e s = (r, e', s')" "in_plan (cplan s) e"
  shows "map_option md_Labels (p_Metadata (cplan s') n) = map_option md_Labels (p_Metadata (cplan s) n)"
proof (cases "n = entry_name e")
  case True
  from assms(1) have "op e (world s) = (r, e', world s')" "p_Metadata (cplan s') (entry_name e') = pe_Metadata e'"
    by (auto simp: on_entry_def put_entry_def split: prod.splits)
  with True assms(2) show ?thesis
    using op_labels op_name by (metis in_plan_def labels_of_def)
next
  case False
  with on_entry_others [OF assms(1)] show ?thesis by simp
qed

lemma on_entry_same_roles:
  assumes "on_entry op e s = (r, e', s')" "in_plan (cplan s) e" "label_filter f"
  shows "map entry_name (collect (cplan s') f) = map entry_name (collect (cplan s) f)"
proof -
  have eq: "f (plan_entry (cplan s') km) = f (plan_entry (cplan s) km)" for km
    using on_entry_labels [OF assms(1,2)]
    by (intro label_filterD [OF assms(3)]) (simp_all add: plan_entry_def labels_of_def)
  have name: "entry_name (plan_entry q km) = m_Name (snd km)" for q km
    by (simp add: entry_name_def plan_entry_def)
  have "map entry_name (filter f (map (plan_entry (cplan s')) ms))
      = map entry_name (filter f (map (plan_entry (cplan s)) ms))" for ms
    by (induction ms) (simp_all add: eq name)
  moreover have "map entry_name (sort_key entry_name xs) = sort (map entry_name xs)" for xs
    by (rule properties_for_sort [symmetric]) simp_all
  ultimately show ?thesis
    by (simp only: collect_def on_entry_machines [OF assms(1)])
qed

end

lemma write_plan_secret_entry:
  "write_plan_secret E sec e w = (r, e', w') \<Longrightarrow> pe_Machine e' = pe_Machine e \<and> pe_Metadata e' = pe_Metadata e"
  by (auto simp: write_plan_secret_def split: prod.splits sum.splits)

lemma UpdatePlan_entry:
  "UpdatePlan E e np j mf ft w = (r, e', w') \<Longrightarrow>
     pe_Machine e' = pe_Machine e \<and> labels_of e' = labels_of e \<and> (pe_Metadata e' = None) = (pe_Metadata e = None)"
  by (auto simp: UpdatePlan_def labels_of_def Let_def
      dest!: write_plan_secret_entry split: if_splits sum.splits option.splits)

interpretation UpdatePlan: role_keeping_op "\<lambda>e. UpdatePlan E e np j mf ft" for E np j mf ft
  by unfold_locales (auto dest: UpdatePlan_entry)

lemma updateSecret_entry:
  "updatePlanSecretLabelsAndAnnotations E e w = (r, e', w') \<Longrightarrow>
     pe_Machine e' = pe_Machine e \<and> pe_Metadata e' = pe_Metadata e"
  by (auto simp: updatePlanSecretLabelsAndAnnotations_def dest!: write_plan_secret_entry split: sum.splits)

interpretation updateSecret: role_keeping_op "updatePlanSecretLabelsAndAnnotations E" for E
  by unfold_locales (auto simp: labels_of_def dest!: updateSecret_entry)

interpretation removeLabel: entry_op "\<lambda>e. removePlanSecretLabel E e key" for E key
  by unfold_locales
     (auto simp: removePlanSecretLabel_def Let_def
       dest!: write_plan_secret_entry split: sum.splits if_splits prod.splits option.splits)

lemma assignAndCheckPlan_entry:
  "assignAndCheckPlan E msg e np j ft mr w = (r, e', w') \<Longrightarrow>
     pe_Machine e' = pe_Machine e \<and> labels_of e' = labels_of e \<and> (pe_Metadata e' = None) = (pe_Metadata e = None)"
  by (auto simp: assignAndCheckPlan_def Let_def
      dest!: UpdatePlan_entry split: if_splits prod.splits option.splits)

interpretation assign: role_keeping_op "\<lambda>e. assignAndCheckPlan E msg e np j ft mr" for E msg np j ft mr
  by unfold_locales (auto dest: assignAndCheckPlan_entry)

lemma store_join_url_entry:
  "store_join_url E e md u w = (r, e', w') \<Longrightarrow> pe_Metadata e = Some md \<Longrightarrow>
     pe_Machine e' = pe_Machine e \<and> labels_of e' = labels_of e \<and> pe_Metadata e' \<noteq> None"
  by (auto simp: store_join_url_def labels_of_def
      dest!: updateSecret_entry
      split: if_splits prod.splits option.splits)

interpretation joinURL: role_keeping_op "\<lambda>e. setMachineJoinURL E e c cp" for E c cp
  by unfold_locales
     (auto simp: setMachineJoinURL_def dest!: store_join_url_entry
       split: option.splits if_splits sum.splits)

end
