(* ===== verification/Plan_Store_Correct.thy ===== *)
theory Plan_Store_Correct
  imports Plan_Store
begin

text \<open>
  What the plan store guarantees: what a plan update writes, when a plan counts as failed,
  when an assignment is done, that a loaded plan mirrors the machine secrets, and that no
  store operation changes a machine's roles. The laws the proofs need of the Kubernetes
  client and of the JSON codec are the named predicates below.
\<close>

section \<open>Laws of the environment\<close>

text \<open>The API server returns the object it stored.\<close>

definition update_echoes :: "('w, 'z) store_env_scheme \<Rightarrow> bool" where
  "update_echoes E \<longleftrightarrow>
     (\<forall>sec w u w'. e_SecretUpdate E sec w = (Inr u, w') \<longrightarrow>
        s_Data u = s_Data sec \<and> s_Type u = s_Type sec \<and> s_Labels u = s_Labels sec \<and>
        s_Annotations u = s_Annotations sec)"

text \<open>A plan's JSON encoding is not empty and decodes to the plan.\<close>

definition plan_codec :: "('w, 'z) store_env_scheme \<Rightarrow> bool" where
  "plan_codec E \<longleftrightarrow> (\<forall>p d. e_MarshalPlan E p = Inr d \<longrightarrow> d \<noteq> '''' \<and> e_UnmarshalPlan E d = Inr p)"

section \<open>A concrete environment\<close>

text \<open>
  A world that is one map of secrets: the client reads and writes the map, a plan is
  encoded by its error text only. It makes the laws hold on the plans of that form and is
  used to run the operations on concrete inputs.
\<close>

type_synonym demo_world = "string \<Rightarrow> secret option"

definition demo_decode :: "string \<Rightarrow> go_error + node_plan" where
  "demo_decode s = (case s of c # t \<Rightarrow> Inr (empty_plan\<lparr>np_Error := t\<rparr>) | [] \<Rightarrow> Inl (ErrOther ''unexpected end of JSON input''))"

definition demo_store :: "demo_world store_env" where
  "demo_store = libs.extend demo_libs
     \<lparr>e_SecretGet = (\<lambda>ns n w. case w n of None \<Rightarrow> Inl (ErrNotFound n) | Some s \<Rightarrow> Inr s),
      e_SecretUpdate = (\<lambda>s w. (Inr s, w(s_Name s \<mapsto> s))),
      e_MachineList = (\<lambda>_ _ _. Inr [demo_machine ''a'', demo_machine ''b'']),
      e_Now = (\<lambda>_. ''2024-01-01T00:00:00Z''),
      e_MarshalPlan = (\<lambda>p. if p = empty_plan\<lparr>np_Error := np_Error p\<rparr> then Inr (CHR ''p'' # np_Error p)
                           else Inl (ErrOther ''unsupported'')),
      e_UnmarshalPlan = demo_decode,
      e_UnmarshalProbes = (\<lambda>_. Inr []), e_UnmarshalOutput = (\<lambda>_. Inr Map.empty),
      e_UnmarshalPeriodic = (\<lambda>_. Inr Map.empty), e_UnmarshalConfig = (\<lambda>_. Inr Map.empty),
      e_UnmarshalDBInfo = (\<lambda>_. Inr []), e_DeepEqualPlan = (\<lambda>a b. a = b),
      e_ParseIP = (\<lambda>_. False), e_URLHostname = (\<lambda>u. Inr u)\<rparr>"

lemma demo_update_echoes [simp]: "update_echoes demo_store"
  by (simp add: update_echoes_def demo_store_def libs.defs store_env.defs)

lemma demo_plan_codec [simp]: "plan_codec demo_store"
  by (auto simp: plan_codec_def demo_store_def demo_decode_def libs.defs split: if_splits)

lemma demo_store_simps:
  "e_SecretUpdate demo_store s w = (Inr s, w(s_Name s \<mapsto> s))"
  "e_MarshalPlan demo_store p = (if p = empty_plan\<lparr>np_Error := np_Error p\<rparr> then Inr (CHR ''p'' # np_Error p)
                                 else Inl (ErrOther ''unsupported''))"
  "e_DeepEqualPlan demo_store a b = (a = b)"
  by (simp_all add: demo_store_def libs.defs)

definition demo_secret :: "string \<Rightarrow> secret" where
  "demo_secret n = \<lparr>s_Namespace = ''fleet-default'', s_Name = n @ ''-machine-plan'', s_Type = SecretTypeMachinePlan,
     s_Labels = [EtcdRoleLabel \<mapsto> ''true'', ControlPlaneRoleLabel \<mapsto> ''true''], s_Annotations = Map.empty,
     s_Data = [''plan'' \<mapsto> ''pold'', ''appliedPlan'' \<mapsto> ''pold'', ''probe-statuses'' \<mapsto> ''x'']\<rparr>"

definition demo_world0 :: demo_world where
  "demo_world0 = [''a-machine-plan'' \<mapsto> demo_secret ''a'', ''b-machine-plan'' \<mapsto> demo_secret ''b'']"

definition demo_entry :: planEntry where
  "demo_entry = plan_entry demo_plan (''a'', demo_machine ''a'')"

section \<open>Reading and writing\<close>

lemma write_plan_secret_ok:
  "write_plan_secret E sec e w = (None, e', w') \<longleftrightarrow>
     (\<exists>u n. e_SecretUpdate E sec w = (Inr u, w') \<and> SecretToNode E (Some u) = Inr n \<and> e' = e\<lparr>pe_Plan := n\<rparr>)"
  by (auto simp: write_plan_secret_def split: prod.splits sum.splits)

lemma UpdatePlan_ok:
  assumes "UpdatePlan E e np j mf ft w = (None, e', w')"
  obtains sec data md u n where
    "\<not> (mf < ft \<and> ft \<noteq> -1 \<and> mf \<noteq> -1)"
    "getPlanSecretFromMachine E (Some (pe_Machine e)) w = Inr sec" "e_MarshalPlan E np = Inr data"
    "pe_Metadata e = Some md"
    "e_SecretUpdate E
       ((CopyPlanMetadataToSecret sec (Some (md\<lparr>md_Annotations := updated_annotations (md_Annotations md) j (e_Now E w)\<rparr>)))
          \<lparr>s_Data := updated_data (s_Data sec) data mf ft\<rparr>) w = (Inr u, w')"
    "SecretToNode E (Some u) = Inr n"
    "e' = e\<lparr>pe_Plan := n, pe_Metadata := Some (md\<lparr>md_Annotations := updated_annotations (md_Annotations md) j (e_Now E w)\<rparr>)\<rparr>"
  using assms
  by (auto simp: UpdatePlan_def Let_def write_plan_secret_ok split: if_splits sum.splits option.splits)

lemma updated_data_keys:
  "updated_data d data mf ft ''plan'' = Some data"
  "updated_data d data mf ft ''probe-statuses'' = None"
  "updated_data d data mf ft ''max-failures'' = (if mf > 0 \<or> mf = -1 then Some (Itoa mf) else None)"
  "updated_data d data mf ft ''failure-threshold'' = (if ft > 0 \<or> ft = -1 then Some (Itoa ft) else None)"
  "k \<notin> {''plan'', ''probe-statuses'', ''max-failures'', ''failure-threshold''} \<Longrightarrow>
     updated_data d data mf ft k = d k"
  by (auto simp: updated_data_def threshold_put_def)

lemma UpdatePlan_stored:
  assumes "UpdatePlan E e np j mf ft w = (None, e', w')" "update_echoes E"
  shows "\<exists>data u d. e_MarshalPlan E np = Inr data \<and> SecretToNode E (Some u) = Inr (pe_Plan e') \<and>
           s_Data u = updated_data d data mf ft"
proof (rule UpdatePlan_ok [OF assms(1)])
  fix sec data md u n
  assume enc: "e_MarshalPlan E np = Inr data" and node: "SecretToNode E (Some u) = Inr n"
    and put: "e_SecretUpdate E
       ((CopyPlanMetadataToSecret sec (Some (md\<lparr>md_Annotations := updated_annotations (md_Annotations md) j (e_Now E w)\<rparr>)))
          \<lparr>s_Data := updated_data (s_Data sec) data mf ft\<rparr>) w = (Inr u, w')"
    and e': "e' = e\<lparr>pe_Plan := n, pe_Metadata := Some (md\<lparr>md_Annotations := updated_annotations (md_Annotations md) j (e_Now E w)\<rparr>)\<rparr>"
  have "s_Data u = updated_data (s_Data sec) data mf ft"
    using assms(2) [unfolded update_echoes_def, rule_format, OF put] by simp
  then show ?thesis using enc node e' by auto
qed

lemma updated_annotations_keys:
  "updated_annotations a j now PlanUpdatedTimeAnnotation = Some now"
  "updated_annotations a j now PlanProbesPassedAnnotation = Some ''''"
  "j \<noteq> '''' \<Longrightarrow> j \<noteq> ''-'' \<Longrightarrow> gets a InitNodeLabel \<noteq> ''true'' \<Longrightarrow>
     updated_annotations a j now JoinedToAnnotation = Some j"
  "j = ''-'' \<Longrightarrow> updated_annotations a j now JoinedToAnnotation = Some ''''"
  by (simp_all add: updated_annotations_def Let_def)

lemma Copied_annotation:
  "labelAnnotationMatch k \<Longrightarrow> md_Annotations m k = Some v \<Longrightarrow>
     s_Annotations (CopyPlanMetadataToSecret sec (Some m)) k = Some v"
  by (simp add: CopyPlanMetadataToSecret_def CopyMap_apply)

text \<open>What the node of a secret records, field by field.\<close>

lemma SecretToNode_SomeD:
  assumes "SecretToNode E (Some sec) = Inr (Some n)"
  shows "s_Type sec = SecretTypeMachinePlan"
    and "secret_failed E (s_Data sec) = Inr (n_Failed n)"
    and "gets (s_Data sec) ''plan'' \<noteq> ''''"
    and "e_UnmarshalPlan E (gets (s_Data sec) ''plan'') = Inr (n_Plan n)"
    and "n_InSync n \<longleftrightarrow> gets (s_Data sec) ''plan'' = gets (s_Data sec) ''appliedPlan''"
    and "n_PlanDataExists n"
    and "gets (s_Data sec) ''probe-statuses'' = '''' \<Longrightarrow> n_Healthy n \<and> n_ProbeStatus n = []"
    and "n_ProbesUsable n \<longleftrightarrow> gets (s_Annotations sec) PlanProbesPassedAnnotation \<noteq> ''''"
    and "s_Annotations sec JoinedToAnnotation = Some j \<Longrightarrow> n_JoinedTo n = j"
  using assms
  by (auto simp: SecretToNode_def Let_def sbind_eq_Inr_iff secret_probes_def secret_joined_to_def
      split: if_splits)

lemma SecretToNode_NoneD:
  assumes "SecretToNode E (Some sec) = Inr None"
  shows "gets (s_Data sec) ''plan'' = ''''"
  using assms by (auto simp: SecretToNode_def Let_def sbind_eq_Inr_iff split: if_splits)

lemma secret_failed_True_iff:
  "secret_failed E d = Inr True \<longleftrightarrow>
     PlanHash E (gets d ''plan'') = gets d ''failed-checksum'' \<and> gets d ''failure-count'' \<noteq> '''' \<and>
     (\<exists>c. Atoi (gets d ''failure-count'') = Inr c \<and> c > 0 \<and>
        (gets d ''failure-threshold'' = '''' \<or>
         (\<exists>t. Atoi (gets d ''failure-threshold'') = Inr t \<and> t \<le> c \<and> t \<noteq> -1)))"
  by (auto simp: secret_failed_def Let_def sbind_eq_Inr_iff split: if_splits)

section \<open>Properties\<close>

lemma UpdatePlan_written:
  assumes "UpdatePlan E e np j mf ft w = (None, e', w')"
  shows "\<exists>sec data sec' u.
     getPlanSecretFromMachine E (Some (pe_Machine e)) w = Inr sec \<and> e_MarshalPlan E np = Inr data \<and>
     e_SecretUpdate E sec' w = (Inr u, w') \<and> SecretToNode E (Some u) = Inr (pe_Plan e') \<and>
     s_Data sec' = (\<lambda>k. if k = ''plan'' then Some data else if k = ''probe-statuses'' then None
       else if k = ''max-failures'' then (if mf > 0 \<or> mf = -1 then Some (Itoa mf) else None)
       else if k = ''failure-threshold'' then (if ft > 0 \<or> ft = -1 then Some (Itoa ft) else None)
       else s_Data sec k) \<and>
     s_Annotations sec' PlanUpdatedTimeAnnotation = Some (e_Now E w) \<and>
     s_Annotations sec' PlanProbesPassedAnnotation = Some '''' \<and>
     (j \<noteq> '''' \<and> j \<noteq> ''-'' \<and> entry_annotation e InitNodeLabel \<noteq> ''true'' \<longrightarrow> s_Annotations sec' JoinedToAnnotation = Some j) \<and>
     (j = ''-'' \<longrightarrow> s_Annotations sec' JoinedToAnnotation = Some '''') \<and>
     (ft \<le> mf \<or> ft = -1 \<or> mf = -1)"
proof -
  from UpdatePlan_ok [OF assms] obtain sec data md u n where
    limits: "\<not> (mf < ft \<and> ft \<noteq> -1 \<and> mf \<noteq> -1)" and
    get: "getPlanSecretFromMachine E (Some (pe_Machine e)) w = Inr sec" and
    enc: "e_MarshalPlan E np = Inr data" and md: "pe_Metadata e = Some md" and
    put: "e_SecretUpdate E
       ((CopyPlanMetadataToSecret sec (Some (md\<lparr>md_Annotations := updated_annotations (md_Annotations md) j (e_Now E w)\<rparr>)))
          \<lparr>s_Data := updated_data (s_Data sec) data mf ft\<rparr>) w = (Inr u, w')"
       (is "e_SecretUpdate E ?sec' w = _") and
    node: "SecretToNode E (Some u) = Inr n" and
    e': "e' = e\<lparr>pe_Plan := n, pe_Metadata := Some (md\<lparr>md_Annotations := updated_annotations (md_Annotations md) j (e_Now E w)\<rparr>)\<rparr>" .
  have data: "s_Data ?sec' = (\<lambda>k. if k = ''plan'' then Some data else if k = ''probe-statuses'' then None
       else if k = ''max-failures'' then (if mf > 0 \<or> mf = -1 then Some (Itoa mf) else None)
       else if k = ''failure-threshold'' then (if ft > 0 \<or> ft = -1 then Some (Itoa ft) else None)
       else s_Data sec k)"
    by (rule ext) (simp add: updated_data_keys)
  have init: "entry_annotation e InitNodeLabel = gets (md_Annotations md) InitNodeLabel"
    by (simp add: entry_annotation_def md)
  have anns: "s_Annotations ?sec' PlanUpdatedTimeAnnotation = Some (e_Now E w)"
     "s_Annotations ?sec' PlanProbesPassedAnnotation = Some ''''"
     "j \<noteq> '''' \<and> j \<noteq> ''-'' \<and> entry_annotation e InitNodeLabel \<noteq> ''true'' \<longrightarrow> s_Annotations ?sec' JoinedToAnnotation = Some j"
     "j = ''-'' \<longrightarrow> s_Annotations ?sec' JoinedToAnnotation = Some ''''"
    by (auto simp: Copied_annotation updated_annotations_keys init)
  have "ft \<le> mf \<or> ft = -1 \<or> mf = -1" using limits by auto
  then show ?thesis
    using get enc put node e' data anns by (intro exI [of _ sec] exI [of _ data] exI [of _ ?sec'] exI [of _ u]) simp
qed

text \<open>
  What a successful \<open>UpdatePlan\<close> writes: one update of the machine's plan secret that
  carries the encoded plan, has no probe statuses, states each failure limit exactly when it
  is positive or -1, leaves every other data key alone, and stamps the update time, the
  cleared probe annotation and the requested join server; the entry's plan is then the node
  of the stored secret. A failure threshold above the maximum number of failures is never
  accepted.
\<close>

theorem UpdatePlan_writes:
  assumes "UpdatePlan E e np j mf ft w = (None, e', w')"
  shows "\<exists>sec data sec' u.
     getPlanSecretFromMachine E (Some (pe_Machine e)) w = Inr sec \<and> e_MarshalPlan E np = Inr data \<and>
     e_SecretUpdate E sec' w = (Inr u, w') \<and> SecretToNode E (Some u) = Inr (pe_Plan e') \<and>
     s_Data sec' = (\<lambda>k. if k = ''plan'' then Some data else if k = ''probe-statuses'' then None
       else if k = ''max-failures'' then (if mf > 0 \<or> mf = -1 then Some (Itoa mf) else None)
       else if k = ''failure-threshold'' then (if ft > 0 \<or> ft = -1 then Some (Itoa ft) else None)
       else s_Data sec k) \<and>
     s_Annotations sec' PlanUpdatedTimeAnnotation = Some (e_Now E w) \<and>
     s_Annotations sec' PlanProbesPassedAnnotation = Some '''' \<and>
     (j \<noteq> '''' \<and> j \<noteq> ''-'' \<and> entry_annotation e InitNodeLabel \<noteq> ''true'' \<longrightarrow> s_Annotations sec' JoinedToAnnotation = Some j) \<and>
     (j = ''-'' \<longrightarrow> s_Annotations sec' JoinedToAnnotation = Some '''') \<and>
     (ft \<le> mf \<or> ft = -1 \<or> mf = -1)"
  by (rule UpdatePlan_written [OF assms])

definition demo_new_plan :: node_plan where
  "demo_new_plan = empty_plan\<lparr>np_Error := ''new''\<rparr>"

theorem UpdatePlan_writes_witness:
  "fst (UpdatePlan demo_store demo_entry demo_new_plan ''https://b:9345'' 5 5 demo_world0) = None \<and>
   (\<exists>sec'. snd (snd (UpdatePlan demo_store demo_entry demo_new_plan ''https://b:9345'' 5 5 demo_world0)) =
             demo_world0(s_Name sec' \<mapsto> sec') \<and>
           s_Data sec' ''plan'' = Some ''pnew'' \<and> s_Data sec' ''failure-threshold'' = Some (Itoa 5))"
proof -
  have ok: "fst (UpdatePlan demo_store demo_entry demo_new_plan ''https://b:9345'' 5 5 demo_world0) = None"
    by code_simp
  then obtain e' w' where run: "UpdatePlan demo_store demo_entry demo_new_plan ''https://b:9345'' 5 5 demo_world0 = (None, e', w')"
    by (metis fst_conv surj_pair)
  have enc: "e_MarshalPlan demo_store demo_new_plan = Inr ''pnew''"
    by (simp add: demo_store_simps demo_new_plan_def)
  from UpdatePlan_writes [OF run] obtain data sec' u where
    "e_MarshalPlan demo_store demo_new_plan = Inr data" "e_SecretUpdate demo_store sec' demo_world0 = (Inr u, w')"
    "s_Data sec' ''plan'' = Some data" "s_Data sec' ''failure-threshold'' = Some (Itoa 5)"
    by (elim exE conjE) simp
  then have "w' = demo_world0(s_Name sec' \<mapsto> sec') \<and> s_Data sec' ''plan'' = Some ''pnew'' \<and>
    s_Data sec' ''failure-threshold'' = Some (Itoa 5)"
    by (auto simp: enc demo_store_simps(1))
  then show ?thesis using run by auto
qed

lemma SecretToNode_failed:
  assumes "SecretToNode E (Some sec) = Inr (Some n)"
  shows "n_Failed n \<longleftrightarrow>
     PlanHash E (gets (s_Data sec) ''plan'') = gets (s_Data sec) ''failed-checksum'' \<and>
     gets (s_Data sec) ''failure-count'' \<noteq> '''' \<and>
     (\<exists>c. Atoi (gets (s_Data sec) ''failure-count'') = Inr c \<and> c > 0 \<and>
        (gets (s_Data sec) ''failure-threshold'' = '''' \<or>
         (\<exists>t. Atoi (gets (s_Data sec) ''failure-threshold'') = Inr t \<and> t \<le> c \<and> t \<noteq> -1)))"
  using SecretToNode_SomeD(2) [OF assms] secret_failed_True_iff [of E "s_Data sec"] by simp

text \<open>
  A node counts as failed exactly when the recorded failures belong to its current plan
  (the checksum matches), there is at least one, and they reach the failure threshold; no
  threshold means one failure, and a threshold of -1 means the plan never fails.
\<close>

theorem SecretToNode_Failed_iff:
  assumes "SecretToNode E (Some sec) = Inr (Some n)"
  shows "n_Failed n \<longleftrightarrow>
     PlanHash E (gets (s_Data sec) ''plan'') = gets (s_Data sec) ''failed-checksum'' \<and>
     gets (s_Data sec) ''failure-count'' \<noteq> '''' \<and>
     (\<exists>c. Atoi (gets (s_Data sec) ''failure-count'') = Inr c \<and> c > 0 \<and>
        (gets (s_Data sec) ''failure-threshold'' = '''' \<or>
         (\<exists>t. Atoi (gets (s_Data sec) ''failure-threshold'') = Inr t \<and> t \<le> c \<and> t \<noteq> -1)))"
  by (rule SecretToNode_failed [OF assms])

definition demo_failed_secret :: secret where
  "demo_failed_secret = (demo_secret ''a'')\<lparr>s_Data := (s_Data (demo_secret ''a''))
     (''failure-count'' \<mapsto> ''3'', ''failed-checksum'' \<mapsto> replicate 64 (CHR ''0''), ''failure-threshold'' \<mapsto> ''2'')\<rparr>"

theorem SecretToNode_Failed_iff_witness:
  "\<exists>n. SecretToNode demo_store (Some demo_failed_secret) = Inr (Some n) \<and> n_Failed n"
proof -
  have "(case SecretToNode demo_store (Some demo_failed_secret) of Inr (Some n) \<Rightarrow> True | _ \<Rightarrow> False)"
    by code_simp
  then obtain n where n: "SecretToNode demo_store (Some demo_failed_secret) = Inr (Some n)"
    by (auto split: sum.splits option.splits)
  have "Atoi ''3'' = Inr 3" "Atoi ''2'' = Inr 2"
    by code_simp+
  then show ?thesis
    using n SecretToNode_Failed_iff [OF n]
    by (simp add: demo_failed_secret_def PlanHash_def demo_store_def demo_libs_def libs.defs)
qed

text \<open>The system agent reports failures of the plan with this checksum.\<close>

definition agent_reports_failures :: "secret \<Rightarrow> int \<Rightarrow> string \<Rightarrow> secret" where
  "agent_reports_failures u c h = u\<lparr>s_Data := (s_Data u)(''failure-count'' \<mapsto> Itoa c, ''failed-checksum'' \<mapsto> h)\<rparr>"

text \<open>
  The failure threshold given to \<open>UpdatePlan\<close> is the one a later read applies: when the
  agent reports \<open>c\<close> failures of the stored plan, the node is failed exactly when \<open>c\<close> is
  positive, the threshold is not -1, and \<open>c\<close> has reached it (a threshold of zero or less
  other than -1 fails on the first failure).
\<close>

theorem UpdatePlan_threshold_honoured:
  assumes upd: "UpdatePlan E e np j mf ft w = (None, e', w')"
    and echo: "update_echoes E" and ft: "in_int64 ft"
  shows "\<exists>u data. e_MarshalPlan E np = Inr data \<and> SecretToNode E (Some u) = Inr (pe_Plan e') \<and>
     (\<forall>c n. in_int64 c \<and> SecretToNode E (Some (agent_reports_failures u c (PlanHash E data))) = Inr (Some n) \<longrightarrow>
        (n_Failed n \<longleftrightarrow> c > 0 \<and> ft \<noteq> -1 \<and> ft \<le> c))"
proof -
  from UpdatePlan_stored [OF upd echo] obtain data u d where
    enc: "e_MarshalPlan E np = Inr data" and node: "SecretToNode E (Some u) = Inr (pe_Plan e')" and
    d: "s_Data u = updated_data d data mf ft" by blast
  have "n_Failed n' \<longleftrightarrow> c > 0 \<and> ft \<noteq> -1 \<and> ft \<le> c"
    if c: "in_int64 c" and n': "SecretToNode E (Some (agent_reports_failures u c (PlanHash E data))) = Inr (Some n')" for c n'
    using SecretToNode_failed [OF n'] c ft
    by (auto simp: agent_reports_failures_def d updated_data_keys gets_def Atoi_Itoa)
  with enc node show ?thesis by blast
qed

theorem UpdatePlan_threshold_honoured_witness:
  "\<exists>e' w' u data. UpdatePlan demo_store demo_entry demo_new_plan '''' 5 3 demo_world0 = (None, e', w') \<and>
     SecretToNode demo_store (Some u) = Inr (pe_Plan e') \<and>
     (\<forall>c n. in_int64 c \<and> SecretToNode demo_store (Some (agent_reports_failures u c (PlanHash demo_store data))) = Inr (Some n) \<longrightarrow>
        (n_Failed n \<longleftrightarrow> c > 0 \<and> 3 \<noteq> (-1::int) \<and> 3 \<le> c))"
proof -
  have "fst (UpdatePlan demo_store demo_entry demo_new_plan '''' 5 3 demo_world0) = None"
    by code_simp
  then obtain e' w' where "UpdatePlan demo_store demo_entry demo_new_plan '''' 5 3 demo_world0 = (None, e', w')"
    by (metis fst_conv surj_pair)
  moreover have "in_int64 3" by code_simp
  ultimately show ?thesis
    using UpdatePlan_threshold_honoured [OF _ demo_update_echoes] by blast
qed

text \<open>
  \<open>assignAndCheckPlan\<close> reports success exactly when the entry already has this plan and
  the plan has not failed, is in sync with what the agent applied and passes its probes; it
  then writes nothing. Otherwise it returns an error.
\<close>

theorem assignAndCheckPlan_done_iff:
  "fst (assignAndCheckPlan E msg e np j ft mr w) = None \<longleftrightarrow>
     (\<exists>pl. pe_Plan e = Some pl \<and> e_DeepEqualPlan E (n_Plan pl) np \<and> \<not> n_Failed pl \<and> n_InSync pl \<and> n_Healthy pl \<and>
        assignAndCheckPlan E msg e np j ft mr w = (None, e, w))"
  by (auto simp: assignAndCheckPlan_def Let_def split: option.splits prod.splits if_splits)

text \<open>
  A plan is assigned once: after a successful assignment the entry's plan is the one
  asked for, and assigning it again writes nothing, whatever it reports.
\<close>

theorem assigned_once:
  assumes upd: "UpdatePlan E e np j ft mr w = (None, e', w')"
    and laws: "update_echoes E" "plan_codec E" "\<forall>p. e_DeepEqualPlan E p p"
  shows "\<exists>pl. pe_Plan e' = Some pl \<and> n_Plan pl = np \<and>
           snd (assignAndCheckPlan E msg e' np j' ft' mr' w'') = (e', w'')"
proof -
  from UpdatePlan_stored [OF upd laws(1)] obtain data u d where
    enc: "e_MarshalPlan E np = Inr data" and node: "SecretToNode E (Some u) = Inr (pe_Plan e')" and
    d: "s_Data u = updated_data d data ft mr" by blast
  have "gets (s_Data u) ''plan'' = data"
    by (simp add: d updated_data_keys gets_def)
  moreover have "data \<noteq> ''''" "e_UnmarshalPlan E data = Inr np"
    using laws(2) enc by (auto simp: plan_codec_def)
  ultimately obtain pl where "pe_Plan e' = Some pl" "n_Plan pl = np"
    using node SecretToNode_NoneD SecretToNode_SomeD(4) by (cases "pe_Plan e'") fastforce+
  then show ?thesis
    using laws(3) by (auto simp: assignAndCheckPlan_def Let_def)
qed

theorem assigned_once_witness:
  "\<exists>e' pl. fst (snd (UpdatePlan demo_store demo_entry demo_new_plan '''' 5 5 demo_world0)) = e' \<and>
     pe_Plan e' = Some pl \<and> n_Plan pl = demo_new_plan \<and>
     snd (assignAndCheckPlan demo_store ''m'' e' demo_new_plan '''' 5 5 demo_world0) = (e', demo_world0)"
proof -
  have "fst (UpdatePlan demo_store demo_entry demo_new_plan '''' 5 5 demo_world0) = None"
    by code_simp
  then obtain e' w' where run: "UpdatePlan demo_store demo_entry demo_new_plan '''' 5 5 demo_world0 = (None, e', w')"
    by (metis fst_conv surj_pair)
  have "\<forall>p. e_DeepEqualPlan demo_store p p" by (simp add: demo_store_simps)
  from assigned_once [OF run demo_update_echoes demo_plan_codec this] run show ?thesis by auto
qed

text \<open>
  \<open>assignAndCheckPlan\<close> hands its two limits to \<open>UpdatePlan\<close> in the other order: the
  argument named \<open>failureThreshold\<close> is stored as the maximum number of failures and the one
  named \<open>maxRetries\<close> as the failure threshold.
\<close>

theorem assignAndCheckPlan_limits_swapped:
  assumes "pe_Plan e = None" and "assignAndCheckPlan E msg e np j failureThreshold maxRetries w = (r, e', w')"
    and "pe_Plan e' \<noteq> None"
  shows "\<exists>sec' u. e_SecretUpdate E sec' w = (Inr u, w') \<and>
     s_Data sec' ''max-failures'' =
       (if failureThreshold > 0 \<or> failureThreshold = -1 then Some (Itoa failureThreshold) else None) \<and>
     s_Data sec' ''failure-threshold'' =
       (if maxRetries > 0 \<or> maxRetries = -1 then Some (Itoa maxRetries) else None)"
proof -
  have "UpdatePlan E e np j failureThreshold maxRetries w = (r0, e', w') \<Longrightarrow> r0 = None" for r0
    using assms(1,3)
    by (auto simp: UpdatePlan_def write_plan_secret_def Let_def
        split: if_splits sum.splits option.splits prod.splits)
  then have "UpdatePlan E e np j failureThreshold maxRetries w = (None, e', w')"
    using assms(1,2)
    by (auto simp: assignAndCheckPlan_def Let_def split: prod.splits option.splits)
  from UpdatePlan_written [OF this] show ?thesis
    by (elim exE conjE) (intro exI conjI, assumption, simp, simp)
qed

theorem assignAndCheckPlan_limits_swapped_witness:
  "\<exists>sec' u. e_SecretUpdate demo_store sec' demo_world0 =
       (Inr u, snd (snd (assignAndCheckPlan demo_store ''m'' demo_entry demo_new_plan '''' 1 (-1) demo_world0))) \<and>
     s_Data sec' ''max-failures'' = Some (Itoa 1) \<and> s_Data sec' ''failure-threshold'' = Some (Itoa (-1))"
proof -
  obtain r e' w' where run: "assignAndCheckPlan demo_store ''m'' demo_entry demo_new_plan '''' 1 (-1) demo_world0 = (r, e', w')"
    by (metis surj_pair)
  have "(case assignAndCheckPlan demo_store ''m'' demo_entry demo_new_plan '''' 1 (-1) demo_world0 of
           (r, e', w') \<Rightarrow> pe_Plan e' \<noteq> None)"
    by code_simp
  with run have "pe_Plan e' \<noteq> None" by simp
  from assignAndCheckPlan_limits_swapped [OF _ run this] show ?thesis
    unfolding run by (simp add: demo_entry_def plan_entry_def demo_plan_def)
qed

text \<open>
  Writing a plan never changes which machines hold a role: every filter that depends
  only on a machine and its labels collects the same machines before and after, whether
  the write succeeds or fails.
\<close>

theorem UpdatePlan_keeps_roles:
  assumes "plan_ok (cplan s)" and "e \<in> set (collect (cplan s) g)" and "label_filter f"
    and "on_entry (\<lambda>e. UpdatePlan E e np j mf ft) e s = (r, e', s')"
  shows "map entry_name (collect (cplan s') f) = map entry_name (collect (cplan s) f) \<and> plan_ok (cplan s')"
  using UpdatePlan.on_entry_same_roles [OF assms(4) in_plan_collect [OF assms(1,2)] assms(3)]
    UpdatePlan.on_entry_plan_ok [OF assms(4,1)] by blast

theorem UpdatePlan_keeps_roles_witness:
  "map entry_name (collect (cplan (snd (snd (on_entry (\<lambda>e. UpdatePlan demo_store e demo_new_plan '''' 5 5) demo_entry
      \<lparr>world = demo_world0, cplan = demo_plan\<rparr>)))) isEtcd) = [''a'', ''b'']"
proof -
  obtain r e' s' where run: "on_entry (\<lambda>e. UpdatePlan demo_store e demo_new_plan '''' 5 5) demo_entry
      \<lparr>world = demo_world0, cplan = demo_plan\<rparr> = (r, e', s')"
    by (metis surj_pair)
  have mem: "demo_entry \<in> set (collect (cplan \<lparr>world = demo_world0, cplan = demo_plan\<rparr>) (\<lambda>_. True))"
    by (simp add: set_collect demo_entry_def demo_plan_def)
  have "map entry_name (collect demo_plan isEtcd) = [''a'', ''b'']" by code_simp
  with UpdatePlan_keeps_roles [OF _ mem _ run] show ?thesis by (simp add: run)
qed

section \<open>Loading\<close>

lemma setMachineJoinURL_None:
  "setMachineJoinURL E e c cp w = (None, e', w') \<Longrightarrow> e' = e \<and> w' = w"
  by (auto simp: setMachineJoinURL_def store_join_url_def Let_def
      split: option.splits if_splits sum.splits prod.splits)

definition secret_metadata :: "secret \<Rightarrow> metadata" where
  "secret_metadata sec = \<lparr>md_Labels = s_Labels sec, md_Annotations = s_Annotations sec\<rparr>"

definition load_one :: "('w, 'z) store_env_scheme \<Rightarrow> string \<times> secret \<Rightarrow> plan \<Rightarrow> plan" where
  "load_one E = (\<lambda>(n, sec) p. p
     \<lparr>p_Metadata := (p_Metadata p)(n \<mapsto> secret_metadata sec),
      p_Nodes := (case SecretToNode E (Some sec) of Inr (Some nd) \<Rightarrow> (p_Nodes p)(n \<mapsto> nd) | _ \<Rightarrow> p_Nodes p)\<rparr>)"

lemma load_secrets_ok:
  "load_secrets E c cp secs res d w = (Inr p, d', w') \<Longrightarrow>
     w' = w \<and> p = fold (load_one E) secs res \<and> (\<forall>(n, sec) \<in> set secs. \<exists>node. SecretToNode E (Some sec) = Inr node) \<and>
     (d' \<longleftrightarrow> d \<or> (\<exists>(n, sec) \<in> set secs. \<exists>nd. SecretToNode E (Some sec) = Inr (Some nd)))"
proof (induction secs arbitrary: res d w)
  case Nil
  then show ?case by simp
next
  case (Cons ns secs)
  obtain n sec where ns: "ns = (n, sec)" by (cases ns)
  let ?res1 = "res\<lparr>p_Metadata := (p_Metadata res)(n \<mapsto> secret_metadata sec)\<rparr>"
  from Cons.prems obtain node where node: "SecretToNode E (Some sec) = Inr node"
    by (auto simp: ns Let_def split: sum.splits)
  show ?case
  proof (cases node)
    case None
    have one: "load_one E ns res = ?res1" by (simp add: load_one_def ns node None)
    have "load_secrets E c cp secs ?res1 d w = (Inr p, d', w')"
      using Cons.prems node None by (simp add: ns Let_def secret_metadata_def)
    from Cons.IH [OF this] show ?thesis by (auto simp: ns node None one [unfolded ns])
  next
    case (Some nd)
    have pde: "n_PlanDataExists nd" using SecretToNode_SomeD(6) node Some by blast
    have one: "load_one E ns res = res\<lparr>p_Nodes := (p_Nodes res)(n \<mapsto> nd),
        p_Metadata := (p_Metadata res)(n \<mapsto> secret_metadata sec)\<rparr>"
      by (simp add: load_one_def ns node Some)
    have "load_secrets E c cp secs (load_one E ns res) True w = (Inr p, d', w')"
      using Cons.prems node Some pde
      by (auto simp: ns Let_def one [unfolded ns] secret_metadata_def
          dest!: setMachineJoinURL_None split: option.splits prod.splits)
    from Cons.IH [OF this] show ?thesis by (auto simp: ns node Some)
  qed
qed

lemma load_one_select:
  "p_Metadata (load_one E (n, sec) p) = (p_Metadata p)(n \<mapsto> secret_metadata sec)"
  "p_Nodes (load_one E (n, sec) p) =
     (case SecretToNode E (Some sec) of Inr (Some nd) \<Rightarrow> (p_Nodes p)(n \<mapsto> nd) | _ \<Rightarrow> p_Nodes p)"
  "p_Machines (load_one E (n, sec) p) = p_Machines p"
  by (simp_all add: load_one_def)

lemma fold_load_machines: "p_Machines (fold (load_one E) secs res) = p_Machines res"
  by (induction secs arbitrary: res) (auto simp: load_one_def split: prod.splits sum.splits option.splits)

lemma fold_load_other:
  "n \<notin> fst ` set secs \<Longrightarrow> p_Metadata (fold (load_one E) secs res) n = p_Metadata res n \<and>
     p_Nodes (fold (load_one E) secs res) n = p_Nodes res n"
  by (induction secs arbitrary: res) (auto simp: load_one_def split: sum.splits option.splits)

lemma fold_load_in:
  assumes "distinct (map fst secs)" "(n, sec) \<in> set secs"
  shows "p_Metadata (fold (load_one E) secs res) n = Some (secret_metadata sec)"
    and "SecretToNode E (Some sec) = Inr (Some nd) \<Longrightarrow> p_Nodes (fold (load_one E) secs res) n = Some nd"
    and "SecretToNode E (Some sec) = Inr None \<Longrightarrow> p_Nodes res n = None \<Longrightarrow> p_Nodes (fold (load_one E) secs res) n = None"
proof -
  from assms obtain xs ys where secs: "secs = xs @ (n, sec) # ys" "n \<notin> fst ` set xs" "n \<notin> fst ` set ys"
    by (auto simp: in_set_conv_decomp)
  show "p_Metadata (fold (load_one E) secs res) n = Some (secret_metadata sec)"
    and "SecretToNode E (Some sec) = Inr (Some nd) \<Longrightarrow> p_Nodes (fold (load_one E) secs res) n = Some nd"
    and "SecretToNode E (Some sec) = Inr None \<Longrightarrow> p_Nodes res n = None \<Longrightarrow> p_Nodes (fold (load_one E) secs res) n = None"
    by (simp_all add: secs fold_load_other [OF secs(3)] fold_load_other [OF secs(2)] load_one_select)
qed

lemma getPlanSecrets_ok:
  "getPlanSecrets E ms w = Inr secs \<Longrightarrow> distinct (map m_Name ms) \<Longrightarrow>
     distinct (map fst secs) \<and>
     (\<forall>n sec. (n, sec) \<in> set secs \<longleftrightarrow> (\<exists>m \<in> set ms. m_Name m = n \<and> getPlanSecretFromMachine E (Some m) w = Inr sec))"
proof (induction ms arbitrary: secs)
  case (Cons m ms)
  show ?case
  proof (cases "getPlanSecretFromMachine E (Some m) w")
    case (Inl e)
    with Cons show ?thesis by (auto split: if_splits)
  next
    case (Inr sec)
    with Cons.prems obtain rest where rest: "getPlanSecrets E ms w = Inr rest" "secs = (m_Name m, sec) # rest"
      by (auto simp: sbind_eq_Inr_iff)
    note IH = Cons.IH [OF rest(1)]
    have ms: "distinct (map m_Name ms)" "m_Name m \<notin> m_Name ` set ms" using Cons.prems(2) by auto
    have mem: "ns \<in> set rest \<longleftrightarrow> (\<exists>m \<in> set ms. m_Name m = fst ns \<and> getPlanSecretFromMachine E (Some m) w = Inr (snd ns))" for ns
      using IH [OF ms(1)] by (cases ns) simp
    have "m_Name m \<notin> fst ` set rest" using ms(2) mem by (metis (no_types, lifting) image_iff)
    then show ?thesis using IH [OF ms(1)] unfolding rest(2) using Inr by auto
  qed
qed simp

text \<open>
  C39. A plan that \<open>Load\<close> returns mirrors the cluster and loading it wrote nothing: its
  machines are the RKE-bootstrapped machines of the cluster, keyed by name; a machine has
  metadata exactly when its plan secret was read, namely the secret's labels and
  annotations; its node is the decoded secret; and the delivered flag says whether any
  secret holds a plan.
\<close>

theorem Load_mirrors_secrets:
  assumes "Load E c cp w = (Inr p, delivered, w')" and "e_MachineList E (cc_Namespace c) (cc_Name c) w = Inr ms"
    and "distinct (map m_Name ms)"
  shows "w' = w \<and> plan_ok p \<and> map snd (p_Machines p) = filter isRKEBootstrap ms \<and>
    (\<forall>m sec. m \<in> set ms \<and> isRKEBootstrap m \<and> getPlanSecretFromMachine E (Some m) w = Inr sec \<longrightarrow>
       p_Metadata p (m_Name m) = Some \<lparr>md_Labels = s_Labels sec, md_Annotations = s_Annotations sec\<rparr> \<and>
       SecretToNode E (Some sec) = Inr (p_Nodes p (m_Name m))) \<and>
    (\<forall>n. p_Metadata p n \<noteq> None \<longrightarrow> (\<exists>m \<in> set ms. m_Name m = n \<and> isRKEBootstrap m)) \<and>
    (delivered \<longleftrightarrow> (\<exists>n. p_Nodes p n \<noteq> None))"
proof -
  let ?ms = "onlyRKE ms"
  let ?res = "\<lparr>p_Nodes = Map.empty, p_Machines = map (\<lambda>m. (m_Name m, m)) ?ms, p_Metadata = Map.empty\<rparr>"
  from assms(1,2) obtain secs where secs: "getPlanSecrets E ?ms w = Inr secs"
    and load: "load_secrets E c cp secs ?res False w = (Inr p, delivered, w')"
    by (auto simp: Load_def Let_def split: sum.splits)
  have dist: "distinct (map m_Name ?ms)" using assms(3) by (simp add: onlyRKE_def distinct_map_filter)
  note sec = getPlanSecrets_ok [OF secs dist]
  note ld = load_secrets_ok [OF load]
  have machines: "p_Machines p = map (\<lambda>m. (m_Name m, m)) ?ms" using ld by (simp add: fold_load_machines)
  then have ok: "plan_ok p" "map snd (p_Machines p) = filter isRKEBootstrap ms"
    using dist by (auto simp: plan_ok_def o_def onlyRKE_def)
  have inn: "p_Metadata p (m_Name m) = Some (secret_metadata se) \<and> SecretToNode E (Some se) = Inr (p_Nodes p (m_Name m))"
    if "m \<in> set ms" "isRKEBootstrap m" "getPlanSecretFromMachine E (Some m) w = Inr se" for m se
  proof -
    have mem: "(m_Name m, se) \<in> set secs" using sec that by (auto simp: onlyRKE_def)
    obtain node where node: "SecretToNode E (Some se) = Inr node" using ld mem by blast
    with ld fold_load_in [OF conjunct1 [OF sec] mem, where E = E and res = ?res] show ?thesis by (cases node) auto
  qed
  have dom: "\<exists>m \<in> set ms. m_Name m = n \<and> isRKEBootstrap m" if "p_Metadata p n \<noteq> None \<or> p_Nodes p n \<noteq> None" for n
  proof -
    have "n \<in> fst ` set secs" using fold_load_other [of n secs E ?res] ld that by (metis plan.select_convs(1,3))
    then show ?thesis using sec by (auto simp: onlyRKE_def)
  qed
  have "delivered \<longleftrightarrow> (\<exists>n. p_Nodes p n \<noteq> None)"
  proof
    assume delivered
    then obtain n se nd where mem: "(n, se) \<in> set secs" and "SecretToNode E (Some se) = Inr (Some nd)"
      using ld by auto
    then show "\<exists>n. p_Nodes p n \<noteq> None"
      using ld fold_load_in(2) [OF conjunct1 [OF sec] mem, where E = E and res = ?res] by blast
  next
    assume "\<exists>n. p_Nodes p n \<noteq> None"
    then obtain n where n: "p_Nodes p n \<noteq> None" ..
    then have "n \<in> fst ` set secs" using fold_load_other [of n secs E ?res] ld by (metis plan.select_convs(1))
    then obtain se where mem: "(n, se) \<in> set secs" by auto
    obtain node where node: "SecretToNode E (Some se) = Inr node" using ld mem by blast
    with n ld fold_load_in(3) [OF conjunct1 [OF sec] mem, where E = E and res = ?res] have "node \<noteq> None"
      by (cases node) auto
    then show delivered using ld mem node by fastforce
  qed
  then show ?thesis using ld ok inn dom by (auto simp: secret_metadata_def)
qed

definition demo_cluster :: capi_cluster where
  "demo_cluster = \<lparr>cc_Namespace = ''fleet-default'', cc_Name = ''c'', cc_UID = ''u'', cc_Labels = Map.empty,
     cc_Annotations = Map.empty, cc_Paused = False, cc_ControlPlaneRef = None, cc_InfrastructureReady = True,
     cc_Conditions = [], cc_DeletionTimestamp = None\<rparr>"

definition demo_spec :: RKEControlPlaneSpec where
  "demo_spec = \<lparr>sp_UpgradeStrategy = \<lparr>us_ControlPlaneConcurrency = ''1'', us_ControlPlaneDrainOptions = no_drain,
       us_WorkerConcurrency = ''10%'', us_WorkerDrainOptions = no_drain\<rparr>,
     sp_AdditionalManifest = '''', sp_ETCD = None, sp_StackPreference = None, sp_ProvisionGeneration = 0,
     sp_AgentEnvVars = [], sp_LocalClusterAuthEndpointEnabled = False, sp_ETCDSnapshotCreate = None,
     sp_ETCDSnapshotRestore = None, sp_RotateCertificates = None, sp_RotateEncryptionKeys = None,
     sp_KubernetesVersion = ''v1.27.6+rke2r1'', sp_ClusterName = ''c'', sp_ManagementClusterName = ''c-m'',
     sp_UnmanagedConfig = False, sp_MachineGlobalConfig = [], sp_MachineSelectorConfig = [],
     sp_MachineSelectorFiles = [], sp_ChartValues = [], sp_Registries = None\<rparr>"

definition demo_status :: RKEControlPlaneStatus where
  "demo_status = \<lparr>st_Conditions = [], st_Ready = True, st_CertificateRotationGeneration = 0,
     st_RotateEncryptionKeys = None, st_RotateEncryptionKeysPhase = KeysNone, st_RotateEncryptionKeysLeader = '''',
     st_ETCDSnapshotRestore = None, st_ETCDSnapshotRestorePhase = SnapNone, st_ETCDSnapshotCreate = None,
     st_ETCDSnapshotCreatePhase = SnapNone, st_ConfigGeneration = 0, st_Initialized = True, st_AgentConnected = True\<rparr>"

definition demo_cp :: RKEControlPlane where
  "demo_cp = \<lparr>cp_Namespace = ''fleet-default'', cp_Name = ''c'', cp_UID = ''u'', cp_Labels = Map.empty,
     cp_Annotations = Map.empty,
     cp_OwnerReferences = [\<lparr>ow_APIVersion = ''cluster.x-k8s.io/v1beta1'', ow_Kind = ''Cluster'', ow_Name = ''c'', ow_Controller = True\<rparr>],
     cp_Spec = demo_spec, cp_Status = demo_status\<rparr>"

definition demo_world1 :: demo_world where
  "demo_world1 = [''a-machine-plan'' \<mapsto> (demo_secret ''a'')\<lparr>s_Annotations := [JoinURLAutosetDisabled \<mapsto> ''true'']\<rparr>]"

theorem Load_mirrors_secrets_witness:
  "\<exists>p. Load demo_store demo_cluster demo_cp demo_world1 = (Inr p, True, demo_world1) \<and> plan_ok p \<and>
     map snd (p_Machines p) = [demo_machine ''a'', demo_machine ''b'']"
proof -
  have "(case Load demo_store demo_cluster demo_cp demo_world1 of (Inr _, d, _) \<Rightarrow> d | _ \<Rightarrow> False)"
    by code_simp
  then obtain p w' where run: "Load demo_store demo_cluster demo_cp demo_world1 = (Inr p, True, w')"
    by (auto split: prod.splits sum.splits)
  have ms: "e_MachineList demo_store (cc_Namespace demo_cluster) (cc_Name demo_cluster) demo_world1 =
      Inr [demo_machine ''a'', demo_machine ''b'']"
    by (simp add: demo_store_def libs.defs)
  have "distinct (map m_Name [demo_machine ''a'', demo_machine ''b''])"
    "filter isRKEBootstrap [demo_machine ''a'', demo_machine ''b''] = [demo_machine ''a'', demo_machine ''b'']"
    by (simp_all add: demo_machine_def isRKEBootstrap_def)
  with Load_mirrors_secrets [OF run ms] run show ?thesis by auto
qed

end
