(* ===== verification/Planner_Args.thy ===== *)
theory Planner_Args
  imports Plan_Store_Correct
begin

text \<open>
  Component arguments of the rendered node configuration: searching and extending an
  argument value of unknown type, the certificate-directory and secure-port arguments of
  the controller manager and the scheduler, pruning of empty values
  (\<open>planner/planner.go\<close>, lines 693 to 845) and the filter of user configuration against the
  release's known arguments (\<open>planner/filter.go\<close>).
\<close>

type_synonym config = "(string \<times> json) list"

text \<open>\<open>config[k]\<close> on a missing key is the nil interface.\<close>

definition cfg_get :: "config \<Rightarrow> string \<Rightarrow> json" where
  "cfg_get c k = (case map_of c k of None \<Rightarrow> JNull | Some v \<Rightarrow> v)"

section \<open>Arguments\<close>

definition splitArgKeyVal :: "string \<Rightarrow> string \<Rightarrow> string \<times> string" where
  "splitArgKeyVal val delim = (case SplitN2 val delim of [a, b] \<Rightarrow> (a, b) | _ \<Rightarrow> ('''', ''''))"

fun arg_loop :: "string list \<Rightarrow> string \<Rightarrow> string \<Rightarrow> string" where
  "arg_loop [] searchArg delim = ''''"
| "arg_loop (v # vs) searchArg delim =
     (case splitArgKeyVal v delim of
        (argKey, argVal) \<Rightarrow> if argKey = searchArg then argVal else arg_loop vs searchArg delim)"

definition convertInterfaceSliceToStringSlice :: "json list \<Rightarrow> string list" where
  "convertInterfaceSliceToStringSlice input = map fmt_v input"

definition getArgValue :: "json \<Rightarrow> string \<Rightarrow> string \<Rightarrow> string" where
  "getArgValue arg searchArg delim =
     (case arg of
        JArr xs \<Rightarrow> arg_loop (convertInterfaceSliceToStringSlice xs) searchArg delim
      | JStrs xs \<Rightarrow> arg_loop xs searchArg delim
      | JStr s \<Rightarrow>
          (case splitArgKeyVal s delim of
             (argKey, argVal) \<Rightarrow> if argKey = searchArg then argVal else '''')
      | _ \<Rightarrow> '''')"

definition appendToInterface :: "json \<Rightarrow> string \<Rightarrow> string list" where
  "appendToInterface input elem =
     (case input of
        JArr xs \<Rightarrow> convertInterfaceSliceToStringSlice xs @ [elem]
      | JStrs xs \<Rightarrow> xs @ [elem]
      | JStr s \<Rightarrow> [s, elem]
      | _ \<Rightarrow> [elem])"

definition convertInterfaceToStringSlice :: "json \<Rightarrow> string list" where
  "convertInterfaceToStringSlice input =
     (case input of
        JArr xs \<Rightarrow> convertInterfaceSliceToStringSlice xs
      | JStrs xs \<Rightarrow> xs
      | JStr s \<Rightarrow> [s]
      | _ \<Rightarrow> [])"

definition SecurePortArgument :: string where "SecurePortArgument = ''secure-port''"
definition CertDirArgument :: string where "CertDirArgument = ''cert-dir''"
definition TLSCertFileArgument :: string where "TLSCertFileArgument = ''tls-cert-file''"

text \<open>
  A directory template is a text with one \<open>%s\<close>, which the runtime replaces.
\<close>

definition renderArgAndMount ::
  "json \<Rightarrow> json \<Rightarrow> string \<Rightarrow> string \<Rightarrow> string \<Rightarrow> string list \<times> string list" where
  "renderArgAndMount existingArg existingMount runtime defaultSecurePort defaultCertDir =
     (let retArg = convertInterfaceToStringSlice existingArg;
          retMount = convertInterfaceToStringSlice existingMount;
          renderedCertDir = Sprintf defaultCertDir [runtime];
          tlsCF = getArgValue (JStrs retArg) TLSCertFileArgument ''='';
          certDir = getArgValue (JStrs retArg) CertDirArgument ''='';
          sPA = getArgValue (JStrs retArg) SecurePortArgument ''='';
          dir = (if retArg \<noteq> [] then
                   if tlsCF = '''' then (if certDir \<noteq> '''' then certDir else renderedCertDir)
                   else Dir tlsCF
                 else renderedCertDir);
          certDirMount = dir @ '':'' @ dir;
          certDirArg = (if retArg \<noteq> [] \<and> (tlsCF \<noteq> '''' \<or> certDir \<noteq> '''') then ''''
                        else CertDirArgument @ ''='' @ renderedCertDir);
          securePortArg = (if retArg \<noteq> [] \<and> sPA \<noteq> '''' then ''''
                           else SecurePortArgument @ ''='' @ defaultSecurePort);
          retArg1 = (if certDirArg \<noteq> '''' then appendToInterface existingArg certDirArg else retArg);
          retArg2 = (if securePortArg \<noteq> '''' then appendToInterface (JStrs retArg1) securePortArg else retArg1);
          retMount1 = (if runtime = RuntimeRKE2 then appendToInterface existingMount certDirMount else retMount) in
      (retArg2, retMount1))"

section \<open>Pruning and filtering\<close>

fun empty_value :: "json \<Rightarrow> bool" where
  "empty_value JNull = True"
| "empty_value (JStr s) = (s = '''')"
| "empty_value (JArr xs) = (xs = [])"
| "empty_value (JStrs xs) = (xs = [])"
| "empty_value _ = False"

definition PruneEmpty :: "config \<Rightarrow> config" where
  "PruneEmpty config = filter (\<lambda>(k, v). \<not> empty_value v) config"

text \<open>
  \<open>release.AgentArgs\<close> and \<open>release.ServerArgs\<close> map an argument to its schema field, of which
  the filter uses the type. \<open>convert.ToBool\<close> is library code.
\<close>

definition filterField ::
  "(json \<Rightarrow> bool) \<Rightarrow> bool \<Rightarrow> string \<Rightarrow> json \<Rightarrow> release \<Rightarrow> json option" where
  "filterField toBool isServer k v release =
     (if v = JNull then None
      else
        (case (case rel_AgentArgs release k of
                 Some t \<Rightarrow> Some t
               | None \<Rightarrow> if isServer then rel_ServerArgs release k else None) of
           None \<Rightarrow> None
         | Some fieldType \<Rightarrow>
             (case v of
                JStr _ \<Rightarrow> Some (if fieldType = ''boolean'' then JBool (toBool v) else v)
              | JBool _ \<Rightarrow> Some (if fieldType = ''boolean'' then JBool (toBool v) else v)
              | JArr _ \<Rightarrow> Some (if fieldType = ''boolean'' then JBool (toBool v) else v)
              | _ \<Rightarrow> None)))"

definition filterConfigData ::
  "'z libs_scheme \<Rightarrow> (json \<Rightarrow> bool) \<Rightarrow> config \<Rightarrow> RKEControlPlane \<Rightarrow> planEntry \<Rightarrow> config" where
  "filterConfigData E toBool config controlPlane entry =
     (let isServer = (isControlPlane entry \<or> isEtcd entry) in
      case GetKDMReleaseData E (Some controlPlane) of
        None \<Rightarrow> config
      | Some release \<Rightarrow>
          List.map_filter (\<lambda>(k, v). map_option (Pair k) (filterField toBool isServer k v release)) config)"

section \<open>Facts\<close>

lemma appendToInterface_eq: "appendToInterface v e = convertInterfaceToStringSlice v @ [e]"
  by (simp add: appendToInterface_def convertInterfaceToStringSlice_def split: json.splits)

lemma getArgValue_JStrs: "getArgValue (JStrs xs) k d = arg_loop xs k d"
  by (simp add: getArgValue_def)

lemma arg_loop_append:
  "arg_loop (xs @ ys) k d = (if \<exists>x \<in> set xs. fst (splitArgKeyVal x d) = k then arg_loop xs k d else arg_loop ys k d)"
  by (induction xs) (auto split: prod.splits)

lemma splitArgKeyVal_pair: "CHR ''='' \<notin> set k \<Longrightarrow> splitArgKeyVal (k @ ''='' @ v) ''='' = (k, v)"
  using Cut_single [of "CHR ''=''" k v] by (simp add: splitArgKeyVal_def SplitN2_def)

lemma arg_loop_absent: "\<forall>x \<in> set xs. fst (splitArgKeyVal x d) \<noteq> k \<Longrightarrow> arg_loop xs k d = ''''"
  by (induction xs) (auto split: prod.splits)

lemma arg_keys_neq [simp]:
  "SecurePortArgument \<noteq> CertDirArgument" "CertDirArgument \<noteq> SecurePortArgument"
  "TLSCertFileArgument \<noteq> CertDirArgument" "TLSCertFileArgument \<noteq> SecurePortArgument"
  "CertDirArgument \<noteq> TLSCertFileArgument" "SecurePortArgument \<noteq> TLSCertFileArgument"
  by (simp_all add: SecurePortArgument_def CertDirArgument_def TLSCertFileArgument_def)

lemma split_rendered [simp]:
  "splitArgKeyVal (SecurePortArgument @ CHR ''='' # v) ''='' = (SecurePortArgument, v)"
  "splitArgKeyVal (CertDirArgument @ CHR ''='' # v) ''='' = (CertDirArgument, v)"
  using splitArgKeyVal_pair [of SecurePortArgument v] splitArgKeyVal_pair [of CertDirArgument v]
  by (simp_all add: SecurePortArgument_def CertDirArgument_def)

lemma arg_nonempty [simp]: "SecurePortArgument \<noteq> []" "CertDirArgument \<noteq> []"
  by (simp_all add: SecurePortArgument_def CertDirArgument_def)

text \<open>What \<open>renderArgAndMount\<close> adds to the user's arguments.\<close>

lemma renderArgAndMount_args:
  "fst (renderArgAndMount ex m rt port dirT) =
     (let user = convertInterfaceToStringSlice ex;
          noCert = (arg_loop user TLSCertFileArgument ''='' = '''' \<and> arg_loop user CertDirArgument ''='' = '''');
          noPort = (arg_loop user SecurePortArgument ''='' = '''') in
      user @ (if noCert then [CertDirArgument @ ''='' @ Sprintf dirT [rt]] else [])
           @ (if noPort then [SecurePortArgument @ ''='' @ port] else []))"
  by (auto simp: renderArgAndMount_def Let_def appendToInterface_eq getArgValue_JStrs)
     (simp_all add: convertInterfaceToStringSlice_def)

lemma map_of_map_filter:
  assumes "distinct (map fst xs)"
  shows "map_of (List.map_filter (\<lambda>(k, v). map_option (Pair k) (g k v)) xs) k = Option.bind (map_of xs k) (g k)"
  using assms
proof (induction xs)
  case (Cons x xs)
  obtain a v where x: "x = (a, v)" by (cases x)
  have "map_of xs k = None" if "k = a"
    using Cons.prems that x by (simp add: map_of_eq_None_iff)
  with Cons x show ?case by (auto simp: map_filter_simps split: option.splits)
qed (simp add: map_filter_simps)

section \<open>Properties\<close>

text \<open>
  The controller-manager and scheduler arguments the planner renders keep every argument
  the user gave, in order, and only append defaults the user did not set: the secure port
  that results is the user's whenever the user set one, else the default, and the same
  holds for the certificate file.
\<close>

theorem renderArgAndMount_keeps_user_args:
  "(\<exists>added. fst (renderArgAndMount ex m rt port dirT) = convertInterfaceToStringSlice ex @ added \<and> length added \<le> 2) \<and>
   getArgValue (JStrs (fst (renderArgAndMount ex m rt port dirT))) SecurePortArgument ''='' =
     (if \<exists>a \<in> set (convertInterfaceToStringSlice ex). fst (splitArgKeyVal a ''='') = SecurePortArgument
      then getArgValue (JStrs (convertInterfaceToStringSlice ex)) SecurePortArgument ''='' else port) \<and>
   getArgValue (JStrs (fst (renderArgAndMount ex m rt port dirT))) TLSCertFileArgument ''='' =
     getArgValue (JStrs (convertInterfaceToStringSlice ex)) TLSCertFileArgument ''=''"
  by (auto simp: renderArgAndMount_args Let_def getArgValue_JStrs arg_loop_append arg_loop_absent)

text \<open>
  Filtering user configuration keeps a setting exactly when it is not nil, the release
  knows the argument for this kind of node, and the value is a string, a boolean or a list;
  agents never receive an argument only servers know.
\<close>

theorem filterConfigData_keys:
  assumes "GetKDMReleaseData E (Some cp) = Some release" and "distinct (map fst config)"
  shows "map_of (filterConfigData E toBool config cp e) k =
     (case map_of config k of
        None \<Rightarrow> None
      | Some v \<Rightarrow>
          if (rel_AgentArgs release k \<noteq> None \<or> isControlPlaneEtcd e \<and> rel_ServerArgs release k \<noteq> None) \<and>
             ((\<exists>s. v = JStr s) \<or> (\<exists>b. v = JBool b) \<or> (\<exists>xs. v = JArr xs))
          then filterField toBool (isControlPlaneEtcd e) k v release
          else None)"
proof -
  have "filterField toBool srv k v release = None" if
    "\<not> ((rel_AgentArgs release k \<noteq> None \<or> srv \<and> rel_ServerArgs release k \<noteq> None) \<and>
        ((\<exists>s. v = JStr s) \<or> (\<exists>b. v = JBool b) \<or> (\<exists>xs. v = JArr xs)))" for srv v
    using that by (auto simp: filterField_def split: option.splits json.splits)
  then show ?thesis
    using assms by (auto simp: filterConfigData_def map_of_map_filter isControlPlaneEtcd_def split: option.splits)
qed

definition demo_kdm :: libs where
  "demo_kdm = demo_libs\<lparr>lib_GetReleaseConfig := (\<lambda>_ _. \<lparr>rel_FeatureVersions = Map.empty,
     rel_AgentArgs = [''debug'' \<mapsto> ''boolean''], rel_ServerArgs = [''cni'' \<mapsto> ''string'']\<rparr>)\<rparr>"

theorem filterConfigData_keys_witness:
  "map_of (filterConfigData demo_kdm (\<lambda>_. True) [(''cni'', JStr ''calico''), (''x'', JStr ''y'')] demo_cp demo_entry) ''cni'' =
     Some (JStr ''calico'')"
proof -
  have "GetKDMReleaseData demo_kdm (Some demo_cp) = Some (lib_GetReleaseConfig demo_kdm '''' '''')"
    by (simp add: GetKDMReleaseData_def demo_cp_def demo_spec_def demo_kdm_def)
  moreover have "isControlPlaneEtcd demo_entry" by code_simp
  ultimately show ?thesis
    using filterConfigData_keys [of demo_kdm demo_cp _ "[(''cni'', JStr ''calico''), (''x'', JStr ''y'')]" "\<lambda>_. True" demo_entry "''cni''"]
    by (simp add: demo_kdm_def filterField_def)
qed

end
