(* ===== verification/S3_Args.thy ===== *)
theory S3_Args
  imports Planner_Args
begin

text \<open>
  The environment of plan rendering and the arguments for etcd snapshots in S3
  (\<open>planner/s3args.go\<close>), with the path of a rendered configuration file
  (\<open>configFile\<close> of \<open>planner/config.go\<close>).
\<close>

record configmap =
  cm_Name :: string
  cm_Annotations :: smap
  cm_Data :: smap

record taint =
  ta_Key :: string
  ta_Value :: string
  ta_Effect :: string

text \<open>
  Caches, converters of the norman and wrangler libraries (\<open>convert\<close>, \<open>values\<close>, \<open>data\<close>,
  \<open>yaml\<close>, \<open>name.Hex\<close>), label selectors, the retrieval functions the planner is created
  with, and the JSON encoders of the rendered values.
\<close>

record 'w config_env = "'w store_env" +
  k_SecretCacheGet :: "string \<Rightarrow> string \<Rightarrow> 'w \<Rightarrow> go_error + secret"
  k_ConfigMapGet :: "string \<Rightarrow> string \<Rightarrow> 'w \<Rightarrow> go_error + configmap"
  k_CredentialGet :: "string \<Rightarrow> string \<Rightarrow> 'w \<Rightarrow> go_error + (string \<times> string) list"
  k_NameHex :: "string \<Rightarrow> int \<Rightarrow> string"
  k_SHA256 :: "string \<Rightarrow> string"
  k_ToString :: "json \<Rightarrow> string"
  k_ToStringSlice :: "json \<Rightarrow> string list"
  k_ToBool :: "json \<Rightarrow> bool"
  k_ToMap :: "json \<Rightarrow> config option"
  k_PutValue :: "config \<Rightarrow> string \<Rightarrow> string list \<Rightarrow> config"
  k_GetValueN :: "config \<Rightarrow> string list \<Rightarrow> json"
  k_SelectorMatches :: "string \<Rightarrow> smap \<Rightarrow> go_error + bool"
  k_SystemDefaultRegistry :: string
  k_ImageResolver :: "string \<Rightarrow> RKEControlPlane \<Rightarrow> string"
  k_SystemAgentImage :: string
  k_ExtractConfigJSON :: "string \<Rightarrow> go_error + config"
  k_MarshalJSON :: "json \<Rightarrow> go_error + string"
  k_MarshalIndent :: "config \<Rightarrow> go_error + string"
  k_UnmarshalStringMap :: "string \<Rightarrow> go_error + (string \<times> string) list"
  k_UnmarshalTaints :: "string \<Rightarrow> go_error + taint list"
  k_TaintToString :: "taint \<Rightarrow> string"
  k_ChartYaml :: "(string \<times> string) list \<Rightarrow> go_error + string"
  k_RegistrationTokens :: "string \<Rightarrow> 'w \<Rightarrow> go_error + (string \<times> string) list"
  k_ManagementCluster :: "string \<Rightarrow> 'w \<Rightarrow> go_error + string"
  k_ForCluster :: "string \<Rightarrow> string \<Rightarrow> taint list \<Rightarrow> 'w \<Rightarrow> go_error + string"

section \<open>Operations\<close>

definition privateRegistryArg :: string where "privateRegistryArg = ''private-registry''"

definition runtime_of :: "RKEControlPlane \<Rightarrow> string" where
  "runtime_of controlPlane = GetRuntime (sp_KubernetesVersion (cp_Spec controlPlane))"

definition configFile :: "RKEControlPlane \<Rightarrow> string \<Rightarrow> string" where
  "configFile controlPlane filename =
     (if filename = privateRegistryArg
      then ''/etc/rancher/'' @ runtime_of controlPlane @ ''/registries.yaml''
      else ''/var/lib/rancher/'' @ runtime_of controlPlane @ ''/etc/config-files/'' @ filename)"

definition first :: "string \<Rightarrow> string \<Rightarrow> string" where
  "first one two = (if one = '''' then two else one)"

definition S3Enabled :: "ETCDSnapshotS3 option \<Rightarrow> bool" where
  "S3Enabled s3 =
     (case s3 of
        None \<Rightarrow> False
      | Some s \<Rightarrow> s3_Bucket s \<noteq> '''' \<or> s3_Endpoint s \<noteq> '''' \<or> s3_Folder s \<noteq> '''' \<or>
                  s3_CloudCredentialName s \<noteq> '''' \<or> s3_Region s \<noteq> '''')"

record s3Credential =
  cr_AccessKey :: string
  cr_SecretKey :: string
  cr_Region :: string
  cr_Endpoint :: string
  cr_EndpointCA :: string
  cr_SkipSSLVerify :: bool
  cr_Bucket :: string
  cr_Folder :: string

definition no_credential :: s3Credential where
  "no_credential = \<lparr>cr_AccessKey = '''', cr_SecretKey = '''', cr_Region = '''', cr_Endpoint = '''',
     cr_EndpointCA = '''', cr_SkipSSLVerify = False, cr_Bucket = '''', cr_Folder = ''''\<rparr>"

text \<open>The keys of the secret lose their prefix up to the last dash; a later key wins.\<close>

fun strip_keys :: "'z libs_scheme \<Rightarrow> (string \<times> string) list \<Rightarrow> smap \<Rightarrow> smap" where
  "strip_keys E [] data = data"
| "strip_keys E ((k, v) # kvs) data = strip_keys E kvs (data(snd (lib_kv_RSplit E k ''-'') \<mapsto> v))"

text \<open>
  The credential is a secret of the cluster's namespace, or of the global one when the name
  says so; \<open>k_CredentialGet\<close> is the cache's lookup with the data in the order the code visits it.
\<close>

definition GetCloudCredentialSecret ::
  "('w, 'z) config_env_scheme \<Rightarrow> string \<Rightarrow> string \<Rightarrow> 'w \<Rightarrow> go_error + (string \<times> string) list" where
  "GetCloudCredentialSecret E ns name w =
     (case lib_kv_Split E name '':'' of
        (globalNS, globalName) \<Rightarrow>
          if globalName \<noteq> '''' \<and> globalNS = ''cattle-global-data'' then k_CredentialGet E globalNS globalName w
          else k_CredentialGet E ns name w)"

definition getS3Credential ::
  "('w, 'z) config_env_scheme \<Rightarrow> string \<Rightarrow> string \<Rightarrow> 'w \<Rightarrow> go_error + s3Credential" where
  "getS3Credential E namespace name w =
     (if name = '''' then Inr no_credential
      else
        (case GetCloudCredentialSecret E namespace name w of
           Inl e \<Rightarrow> Inl (ErrWrap ''failed to lookup etcdSnapshotCloudCredentialName'' e)
         | Inr secretData \<Rightarrow>
             let data = strip_keys E secretData Map.empty in
             Inr \<lparr>cr_AccessKey = gets data ''accessKey'', cr_SecretKey = gets data ''secretKey'',
                  cr_Region = gets data ''defaultRegion'', cr_Endpoint = gets data ''defaultEndpoint'',
                  cr_EndpointCA = gets data ''defaultEndpointCA'',
                  cr_SkipSSLVerify = (gets data ''defaultSkipSSLVerify'' = ''true''),
                  cr_Bucket = gets data ''defaultBucket'', cr_Folder = gets data ''defaultFolder''\<rparr>))"

text \<open>Content that is not base64 is encoded.\<close>

definition ensure_b64 :: "string \<Rightarrow> string" where
  "ensure_b64 v = (case b64_decode v of Inl _ \<Rightarrow> b64_encode v | Inr _ \<Rightarrow> v)"

definition s3CAName :: "('w, 'z) config_env_scheme \<Rightarrow> string \<Rightarrow> string" where
  "s3CAName E v = ''s3-endpoint-ca-'' @ k_NameHex E v 5 @ ''.crt''"

definition plain_file :: "string \<Rightarrow> string \<Rightarrow> plan_file" where
  "plain_file content path = empty_file\<lparr>f_Content := content, f_Path := path\<rparr>"

definition generateEndpointCAFileIfPathMatches ::
  "('w, 'z) config_env_scheme \<Rightarrow> RKEControlPlane \<Rightarrow> string \<Rightarrow> string \<Rightarrow> plan_file option" where
  "generateEndpointCAFileIfPathMatches E controlPlane existingEndpointCAPath endpointCA =
     (let filePath = configFile controlPlane (s3CAName E endpointCA) in
      if existingEndpointCAPath = filePath then Some (plain_file (ensure_b64 endpointCA) filePath)
      else None)"

definition opt_list :: "'a option \<Rightarrow> 'a list" where
  "opt_list x = (case x of None \<Rightarrow> [] | Some v \<Rightarrow> [v])"

text \<open>The endpoint CA: its argument and files.\<close>

definition s3_endpoint_ca ::
  "('w, 'z) config_env_scheme \<Rightarrow> ETCDSnapshotS3 \<Rightarrow> s3Credential \<Rightarrow> RKEControlPlane \<Rightarrow> string \<Rightarrow> string list \<times> plan_file list" where
  "s3_endpoint_ca E s3 s3Cred controlPlane pfx =
     (let v = first (s3_EndpointCA s3) (cr_EndpointCA s3Cred);
          arg = (\<lambda>path. ''--'' @ pfx @ ''s3-endpoint-ca='' @ path);
          specCA = (case sp_ETCD (cp_Spec controlPlane) of
                      None \<Rightarrow> ''''
                    | Some et \<Rightarrow> (case etcd_S3 et of None \<Rightarrow> '''' | Some s \<Rightarrow> s3_EndpointCA s)) in
      if v = '''' then ([], [])
      else if v = s3_EndpointCA s3 \<and> HasSuffix v ''.crt'' then
        ([arg v],
         if cr_EndpointCA s3Cred \<noteq> ''''
         then opt_list (generateEndpointCAFileIfPathMatches E controlPlane v (cr_EndpointCA s3Cred))
         else if specCA \<noteq> '''' then opt_list (generateEndpointCAFileIfPathMatches E controlPlane v specCA)
         else [])
      else
        let v' = ensure_b64 v; filePath = configFile controlPlane (s3CAName E v') in
        ([arg filePath], [plain_file v' filePath]))"

definition s3_arg :: "string \<Rightarrow> string \<Rightarrow> string \<Rightarrow> string list" where
  "s3_arg pfx k v = (if v \<noteq> '''' then [''--'' @ pfx @ k @ ''='' @ v] else [])"

text \<open>All arguments but the final switch, in the order of the source.\<close>

definition s3_args ::
  "('w, 'z) config_env_scheme \<Rightarrow> ETCDSnapshotS3 \<Rightarrow> s3Credential \<Rightarrow> RKEControlPlane \<Rightarrow> string \<Rightarrow> bool \<Rightarrow> string list" where
  "s3_args E s3 s3Cred controlPlane pfx secretKeyInEnv =
     s3_arg pfx ''s3-bucket'' (first (s3_Bucket s3) (cr_Bucket s3Cred)) @
     s3_arg pfx ''s3-access-key'' (cr_AccessKey s3Cred) @
     (if secretKeyInEnv then [] else s3_arg pfx ''s3-secret-key'' (cr_SecretKey s3Cred)) @
     s3_arg pfx ''s3-region'' (first (s3_Region s3) (cr_Region s3Cred)) @
     s3_arg pfx ''s3-folder'' (first (s3_Folder s3) (cr_Folder s3Cred)) @
     s3_arg pfx ''s3-endpoint'' (first (s3_Endpoint s3) (cr_Endpoint s3Cred)) @
     (if s3_SkipSSLVerify s3 \<or> cr_SkipSSLVerify s3Cred then [''--'' @ pfx @ ''s3-skip-ssl-verify''] else []) @
     fst (s3_endpoint_ca E s3 s3Cred controlPlane pfx)"

definition ToArgs ::
  "('w, 'z) config_env_scheme \<Rightarrow> ETCDSnapshotS3 option \<Rightarrow> RKEControlPlane \<Rightarrow> string \<Rightarrow> bool \<Rightarrow> 'w \<Rightarrow>
   go_error + (string list \<times> string list \<times> plan_file list)" where
  "ToArgs E s3opt controlPlane pfx secretKeyInEnv w =
     (case s3opt of
        None \<Rightarrow> Inr ([], [], [])
      | Some s3 \<Rightarrow>
          if \<not> S3Enabled s3opt then Inr ([], [], [])
          else
            let specCred = (case sp_ETCD (cp_Spec controlPlane) of
                              None \<Rightarrow> ''''
                            | Some et \<Rightarrow> (case etcd_S3 et of None \<Rightarrow> '''' | Some s \<Rightarrow> s3_CloudCredentialName s));
                credName = (if s3_CloudCredentialName s3 = '''' then specCred else s3_CloudCredentialName s3) in
            sbind (getS3Credential E (cp_Namespace controlPlane) credName w) (\<lambda>s3Cred.
              let args = s3_args E s3 s3Cred controlPlane pfx secretKeyInEnv;
                  env = (if cr_SecretKey s3Cred \<noteq> '''' \<and> secretKeyInEnv
                         then [''AWS_SECRET_ACCESS_KEY='' @ cr_SecretKey s3Cred] else []) in
              Inr (if args \<noteq> [] then args @ [''--'' @ pfx @ ''s3''] else args, env,
                   snd (s3_endpoint_ca E s3 s3Cred controlPlane pfx))))"

section \<open>Facts\<close>

definition public_arg :: "string \<Rightarrow> string \<Rightarrow> bool" where
  "public_arg pfx a \<longleftrightarrow> (\<exists>r. a = ''--'' @ pfx @ r \<and> \<not> HasPrefix r ''s3-secret-key'')"

lemma public_arg_not_secret: "public_arg pfx a \<Longrightarrow> \<not> HasPrefix a (''--'' @ pfx @ ''s3-secret-key'')"
  by (auto simp: public_arg_def HasPrefix_iff)

lemma s3_arg_public:
  "\<not> HasPrefix (k @ ''='' @ v) ''s3-secret-key'' \<Longrightarrow> a \<in> set (s3_arg pfx k v) \<Longrightarrow> public_arg pfx a"
  by (auto simp: s3_arg_def public_arg_def split: if_splits)

lemma s3_endpoint_ca_public:
  "a \<in> set (fst (s3_endpoint_ca E s3 cr cp pfx)) \<Longrightarrow> public_arg pfx a"
  by (auto simp: s3_endpoint_ca_def Let_def public_arg_def HasPrefix_def split: if_splits)

lemma s3_args_public:
  assumes "a \<in> set (s3_args E s3 cr cp pfx True)"
  shows "public_arg pfx a"
proof -
  have "public_arg pfx (''--'' @ pfx @ ''s3-skip-ssl-verify'')"
    by (auto simp: public_arg_def HasPrefix_def)
  then show ?thesis
    using assms s3_endpoint_ca_public [of a E s3 cr cp pfx]
      s3_arg_public [of "''s3-bucket''"] s3_arg_public [of "''s3-access-key''"] s3_arg_public [of "''s3-region''"]
      s3_arg_public [of "''s3-folder''"] s3_arg_public [of "''s3-endpoint''"]
    by (auto simp: s3_args_def HasPrefix_def split: if_splits)
qed

section \<open>Properties\<close>

text \<open>
  With the secret key asked for in the environment, no S3 argument carries it: no argument
  is a \<open>s3-secret-key\<close> argument, and the environment holds at most the one variable with
  the key.
\<close>

theorem ToArgs_secret_not_in_args:
  assumes "ToArgs E s3 cp pfx True w = Inr (args, env, files)"
  shows "(\<forall>a \<in> set args. \<not> HasPrefix a (''--'' @ pfx @ ''s3-secret-key'')) \<and>
         (env = [] \<or> (\<exists>key. env = [''AWS_SECRET_ACCESS_KEY='' @ key]))"
proof -
  have "public_arg pfx (''--'' @ pfx @ ''s3'')" by (auto simp: public_arg_def HasPrefix_def)
  then have "\<forall>a \<in> set args. public_arg pfx a"
    using assms s3_args_public
    by (auto simp: ToArgs_def Let_def sbind_eq_Inr_iff split: option.splits if_splits)
  moreover have "env = [] \<or> (\<exists>key. env = [''AWS_SECRET_ACCESS_KEY='' @ key])"
    using assms by (auto simp: ToArgs_def Let_def sbind_eq_Inr_iff split: option.splits if_splits)
  ultimately show ?thesis using public_arg_not_secret by blast
qed

definition demo_config :: "demo_world config_env" where
  "demo_config = store_env.extend demo_store
     \<lparr>k_SecretCacheGet = (\<lambda>ns n w. case w n of None \<Rightarrow> Inl (ErrNotFound n) | Some s \<Rightarrow> Inr s),
      k_ConfigMapGet = (\<lambda>ns n w. Inl (ErrNotFound n)),
      k_CredentialGet = (\<lambda>ns n w. Inr [(''amazonec2credentialConfig-secretKey'', ''s3cr3t''), (''accessKey'', ''ak'')]),
      k_NameHex = (\<lambda>s n. s), k_SHA256 = (\<lambda>s. s), k_ToString = fmt_v, k_ToStringSlice = convertInterfaceToStringSlice,
      k_ToBool = (\<lambda>v. v = JBool True), k_ToMap = (\<lambda>v. case v of JObj c \<Rightarrow> Some c | _ \<Rightarrow> None),
      k_PutValue = (\<lambda>c v ks. gm_put (Join ks ''.'') (JStr v) c),
      k_GetValueN = (\<lambda>c ks. cfg_get c (last ks)), k_SelectorMatches = (\<lambda>_ _. Inr True),
      k_SystemDefaultRegistry = '''', k_ImageResolver = (\<lambda>i _. i), k_SystemAgentImage = ''rancher/system-agent-installer-'',
      k_ExtractConfigJSON = (\<lambda>_. Inr []), k_MarshalJSON = (\<lambda>v. Inr (fmt_v v)),
      k_MarshalIndent = (\<lambda>c. Inr (fmt_v (JObj c))), k_UnmarshalStringMap = (\<lambda>_. Inr []),
      k_UnmarshalTaints = (\<lambda>_. Inr []), k_TaintToString = ta_Key, k_ChartYaml = (\<lambda>cs. Inr (Join (map fst cs) '','')),
      k_RegistrationTokens = (\<lambda>_ _. Inr [(''t'', ''token'')]), k_ManagementCluster = (\<lambda>n _. Inr n),
      k_ForCluster = (\<lambda>c t _ _. Inr (c @ t))\<rparr>"

definition demo_s3 :: ETCDSnapshotS3 where
  "demo_s3 = \<lparr>s3_Endpoint = ''s3.local'', s3_EndpointCA = '''', s3_SkipSSLVerify = False, s3_Bucket = ''b'',
     s3_Region = '''', s3_CloudCredentialName = ''cred'', s3_Folder = ''''\<rparr>"

theorem ToArgs_secret_not_in_args_witness:
  "\<exists>args files. ToArgs demo_config (Some demo_s3) demo_cp ''etcd-'' True demo_world0 =
     Inr (args, [''AWS_SECRET_ACCESS_KEY=s3cr3t''], files) \<and>
     (\<forall>a \<in> set args. \<not> HasPrefix a (''--'' @ ''etcd-'' @ ''s3-secret-key''))"
proof -
  have "(case ToArgs demo_config (Some demo_s3) demo_cp ''etcd-'' True demo_world0 of
           Inr (args, env, files) \<Rightarrow> env = [''AWS_SECRET_ACCESS_KEY=s3cr3t''] | _ \<Rightarrow> False)"
    by code_simp
  then obtain args files where run: "ToArgs demo_config (Some demo_s3) demo_cp ''etcd-'' True demo_world0 =
      Inr (args, [''AWS_SECRET_ACCESS_KEY=s3cr3t''], files)"
    by (auto split: sum.splits)
  from ToArgs_secret_not_in_args [OF run] run show ?thesis by blast
qed

text \<open>
  The file of a plain (not base64) endpoint CA is never found again: its path is named
  after the hash of the encoded certificate when it is written, but a snapshot that refers
  to that path is matched against the hash of the certificate as given, so unless the two
  hashes collide no CA file is delivered.
\<close>

theorem endpointCA_path_mismatch:
  assumes "b64_decode ca = Inl err" and "k_NameHex E (b64_encode ca) 5 \<noteq> k_NameHex E ca 5"
    and "s3_EndpointCA s3 = ca" and "ca \<noteq> ''''" and "\<not> HasSuffix ca ''.crt''"
    and "s3_endpoint_ca E s3 cred cp pfx = (args, [f])"
  shows "generateEndpointCAFileIfPathMatches E cp (f_Path f) ca = None"
  using assms
  by (auto simp: s3_endpoint_ca_def Let_def first_def ensure_b64_def plain_file_def empty_file_def
      generateEndpointCAFileIfPathMatches_def configFile_def s3CAName_def privateRegistryArg_def)

definition demo_s3_ca :: ETCDSnapshotS3 where
  "demo_s3_ca = demo_s3\<lparr>s3_EndpointCA := ''--CERT--''\<rparr>"

theorem endpointCA_path_mismatch_witness:
  "\<exists>args f. s3_endpoint_ca demo_config demo_s3_ca no_credential demo_cp ''etcd-'' = (args, [f]) \<and>
     generateEndpointCAFileIfPathMatches demo_config demo_cp (f_Path f) ''--CERT--'' = None"
proof -
  have "(case b64_decode ''--CERT--'' of Inl _ \<Rightarrow> True | Inr _ \<Rightarrow> False)" by code_simp
  then obtain err where bad: "b64_decode ''--CERT--'' = Inl err" by (auto split: sum.splits)
  then have hash: "k_NameHex demo_config (b64_encode ''--CERT--'') 5 \<noteq> k_NameHex demo_config ''--CERT--'' 5"
    using b64_decode_encode [of "''--CERT--''"] by (auto simp: demo_config_def store_env.defs)
  have ca: "s3_EndpointCA demo_s3_ca = ''--CERT--''" "\<not> HasSuffix ''--CERT--'' ''.crt''"
    by (simp_all add: demo_s3_ca_def HasSuffix_def)
  have "\<exists>args f. s3_endpoint_ca demo_config demo_s3_ca no_credential demo_cp ''etcd-'' = (args, [f])"
    using ca by (simp add: s3_endpoint_ca_def Let_def first_def)
  then obtain args f where run: "s3_endpoint_ca demo_config demo_s3_ca no_credential demo_cp ''etcd-'' = (args, [f])"
    by blast
  from endpointCA_path_mismatch [OF bad hash ca(1) _ ca(2) run] run show ?thesis by simp
qed

end
