(* ===== verification/Node_Config.thy ===== *)
theory Node_Config
  imports S3_Args
begin

text \<open>
  Rendering of a node's configuration files: \<open>planner/config.go\<close>, \<open>registry.go\<close>,
  \<open>manifests.go\<close>, \<open>agent.go\<close>, \<open>defaultplan.go\<close> and \<open>getTaints\<close> of \<open>planner.go\<close>. A Go
  \<open>map[string]interface{}\<close> is an association list in key order; a function that fills the
  map it is given returns the new map. The entries these functions get were collected by a
  role filter, so their metadata is present (\<open>role_has_metadata\<close>).
\<close>

abbreviation cfg_put :: "string \<Rightarrow> json \<Rightarrow> config \<Rightarrow> config" where
  "cfg_put \<equiv> gm_put"

definition add_files :: "plan_file list \<Rightarrow> node_plan \<Rightarrow> node_plan" where
  "add_files fs np = np\<lparr>np_Files := np_Files np @ fs\<rparr>"

section \<open>Registries\<close>

record registries =
  registriesFileRaw :: string
  certificateFiles :: "plan_file list"

definition no_registries :: registries where
  "no_registries = \<lparr>registriesFileRaw = '''', certificateFiles = []\<rparr>"

definition toFile :: "string \<Rightarrow> string \<Rightarrow> string \<Rightarrow> plan_file" where
  "toFile runtime path content = plain_file (b64_encode content) (''/var/lib/rancher/'' @ runtime @ ''/etc/'' @ path)"

text \<open>The files of one registry's TLS material: client certificate and key, then the CA.\<close>

definition registry_tls ::
  "('w, 'z) config_env_scheme \<Rightarrow> string \<Rightarrow> string \<Rightarrow> string \<Rightarrow> RegistryConfig \<Rightarrow> 'w \<Rightarrow>
   go_error + (plan_file option \<times> plan_file option \<times> plan_file option)" where
  "registry_tls E runtime namespace registryName config w =
     sbind
       (if rg_TLSSecretName config \<noteq> '''' then
          sbind (k_SecretCacheGet E namespace (rg_TLSSecretName config) w) (\<lambda>sec.
            if s_Type sec \<noteq> ''kubernetes.io/tls''
            then Inl (ErrOther (''secret ['' @ rg_TLSSecretName config @ ''] must be of type [kubernetes.io/tls]''))
            else
              Inr (if length (gets (s_Data sec) ''tls.crt'') \<noteq> 0
                   then Some (toFile runtime (''tls/registries/'' @ registryName @ ''/tls.crt'') (gets (s_Data sec) ''tls.crt'')) else None,
                   if length (gets (s_Data sec) ''tls.key'') \<noteq> 0
                   then Some (toFile runtime (''tls/registries/'' @ registryName @ ''/tls.key'') (gets (s_Data sec) ''tls.key'')) else None))
        else Inr (None, None))
       (\<lambda>(cert, key).
          Inr (cert, key,
               if length (rg_CABundle config) > 0
               then Some (toFile runtime (''tls/registries/'' @ registryName @ ''/ca.crt'') (rg_CABundle config)) else None))"

definition registry_auth ::
  "('w, 'z) config_env_scheme \<Rightarrow> string \<Rightarrow> RegistryConfig \<Rightarrow> 'w \<Rightarrow> go_error + json" where
  "registry_auth E namespace config w =
     (if rg_AuthConfigSecretName config \<noteq> '''' then
        sbind (k_SecretCacheGet E namespace (rg_AuthConfigSecretName config) w) (\<lambda>sec.
          if s_Type sec \<noteq> ''rke.cattle.io/auth-config'' \<and> s_Type sec \<noteq> ''kubernetes.io/basic-auth''
          then Inl (ErrOther (''secret ['' @ rg_AuthConfigSecretName config @
                 ''] must be of type [rke.cattle.io/auth-config] or [kubernetes.io/basic-auth]''))
          else Inr (JObj [(''username'', JStr (gets (s_Data sec) ''username'')),
                          (''password'', JStr (gets (s_Data sec) ''password'')),
                          (''auth'', JStr (gets (s_Data sec) ''auth'')),
                          (''identity_token'', JStr (gets (s_Data sec) ''identityToken''))]))
      else Inr JNull)"

definition file_path_json :: "plan_file option \<Rightarrow> json" where
  "file_path_json f = JStr (case f of None \<Rightarrow> '''' | Some g \<Rightarrow> f_Path g)"

fun registry_configs ::
  "('w, 'z) config_env_scheme \<Rightarrow> string \<Rightarrow> string \<Rightarrow> (string \<times> RegistryConfig) list \<Rightarrow> 'w \<Rightarrow>
   go_error + ((string \<times> json) list \<times> plan_file list)" where
  "registry_configs E runtime namespace [] w = Inr ([], [])"
| "registry_configs E runtime namespace ((registryName, config) # rest) w =
     sbind (registry_tls E runtime namespace registryName config w) (\<lambda>(cert, key, ca).
     sbind (registry_auth E namespace config w) (\<lambda>auth.
     sbind (registry_configs E runtime namespace rest w) (\<lambda>(configs, files).
       let tls = (if rg_InsecureSkipVerify config \<or> rg_TLSSecretName config \<noteq> '''' \<or> length (rg_CABundle config) > 0
                  then JObj [(''ca_file'', file_path_json ca), (''cert_file'', file_path_json cert),
                             (''key_file'', file_path_json key),
                             (''insecure_skip_verify'', JBool (rg_InsecureSkipVerify config))]
                  else JNull) in
       Inr ((registryName, JObj [(''auth'', auth), (''tls'', tls)]) # configs,
            opt_list cert @ opt_list key @ opt_list ca @ files))))"

definition renderRegistries ::
  "('w, 'z) config_env_scheme \<Rightarrow> string \<Rightarrow> string \<Rightarrow> Registry \<Rightarrow> 'w \<Rightarrow> go_error + registries" where
  "renderRegistries E runtime namespace registry w =
     sbind (registry_configs E runtime namespace (reg_Configs registry) w) (\<lambda>(configs, files).
     sbind (k_MarshalJSON E (JObj [(''configs'', JObj configs), (''mirrors'', reg_Mirrors registry)])) (\<lambda>raw.
       Inr \<lparr>registriesFileRaw = raw, certificateFiles = sort_key f_Path files\<rparr>))"

definition commonNodePlan ::
  "('w, 'z) config_env_scheme \<Rightarrow> RKEControlPlane \<Rightarrow> node_plan \<Rightarrow> 'w \<Rightarrow> go_error + (node_plan \<times> registries)" where
  "commonNodePlan E controlPlane np w =
     (case sp_Registries (cp_Spec controlPlane) of
        None \<Rightarrow> Inr (np, no_registries)
      | Some registry \<Rightarrow>
          sbind (renderRegistries E (runtime_of controlPlane) (cp_Namespace controlPlane) registry w) (\<lambda>reg.
            Inr (add_files (certificateFiles reg)
                  (add_files [(plain_file (b64_encode (registriesFileRaw reg)) ''/etc/rancher/agent/registries.yaml'')
                                \<lparr>f_Dynamic := True\<rparr>] np), reg)))"

section \<open>Manifests\<close>

definition getTaints ::
  "('w, 'z) config_env_scheme \<Rightarrow> planEntry \<Rightarrow> RKEControlPlane \<Rightarrow> go_error + taint list" where
  "getTaints E entry cp =
     (let data = entry_annotation entry TaintsAnnotation in
      sbind (if data \<noteq> '''' then k_UnmarshalTaints E data else Inr []) (\<lambda>result.
        Inr (if \<not> isWorker entry then
               result @
               (if isEtcd entry \<and> (runtime_of cp \<noteq> RuntimeK3S \<or> \<not> isControlPlane entry)
                then [\<lparr>ta_Key = ''node-role.kubernetes.io/etcd'', ta_Value = '''', ta_Effect = ''NoExecute''\<rparr>] else []) @
               (if isControlPlane entry
                then [\<lparr>ta_Key = ''node-role.kubernetes.io/control-plane'', ta_Value = '''', ta_Effect = ''NoSchedule''\<rparr>] else [])
             else result)))"

text \<open>The tokens are sorted by name; the first one's token is used.\<close>

definition generateClusterAgentManifest ::
  "('w, 'z) config_env_scheme \<Rightarrow> RKEControlPlane \<Rightarrow> planEntry \<Rightarrow> 'w \<Rightarrow> go_error + string" where
  "generateClusterAgentManifest E controlPlane entry w =
     (let mcn = sp_ManagementClusterName (cp_Spec controlPlane) in
      if mcn = ''local'' then Inr ''''
      else
        sbind (k_RegistrationTokens E mcn w) (\<lambda>tokens.
          case sort_key fst tokens of
            [] \<Rightarrow> Inl (ErrOther ''no cluster registration token found'')
          | (_, token) # _ \<Rightarrow>
              sbind (k_ManagementCluster E mcn w) (\<lambda>mgmtCluster.
              sbind (getTaints E entry controlPlane) (\<lambda>taints.
                k_ForCluster E mgmtCluster token taints w))))"

definition manifest_file :: "string \<Rightarrow> string \<Rightarrow> bool \<Rightarrow> plan_file" where
  "manifest_file content path minor = (plain_file (b64_encode content) path)\<lparr>f_Dynamic := True, f_Minor := minor\<rparr>"

definition getClusterAgentManifestFile ::
  "('w, 'z) config_env_scheme \<Rightarrow> RKEControlPlane \<Rightarrow> string \<Rightarrow> planEntry \<Rightarrow> 'w \<Rightarrow> go_error + plan_file" where
  "getClusterAgentManifestFile E controlPlane runtime entry w =
     sbind (generateClusterAgentManifest E controlPlane entry w) (\<lambda>data.
       Inr (manifest_file data (''/var/lib/rancher/'' @ runtime @ ''/server/manifests/rancher/cluster-agent.yaml'') True))"

definition getAddons :: "RKEControlPlane \<Rightarrow> string \<Rightarrow> plan_file" where
  "getAddons controlPlane runtime =
     manifest_file (sp_AdditionalManifest (cp_Spec controlPlane))
       (''/var/lib/rancher/'' @ runtime @ ''/server/manifests/rancher/addons.yaml'') False"

definition EtcdSnapshotExtraMetadata :: "string \<Rightarrow> string \<Rightarrow> string \<Rightarrow> string \<Rightarrow> string" where
  "EtcdSnapshotExtraMetadata name namespace key v =
     newline @ ''apiVersion: v1'' @ newline @ ''kind: ConfigMap'' @ newline @ ''metadata:'' @ newline @
     ''  name: '' @ name @ ''-etcd-snapshot-extra-metadata'' @ newline @ ''  namespace: '' @ namespace @ newline @
     ''data:'' @ newline @ ''  '' @ key @ '': '' @ v @ newline"

definition getEtcdSnapshotExtraMetadata :: "RKEControlPlane \<Rightarrow> string \<Rightarrow> plan_file option" where
  "getEtcdSnapshotExtraMetadata controlPlane runtime =
     (case cp_Annotations controlPlane ClusterSpecAnnotation of
        None \<Rightarrow> None
      | Some v \<Rightarrow>
          Some (manifest_file (EtcdSnapshotExtraMetadata runtime ''kube-system'' ''provisioning-cluster-spec'' v)
            (''/var/lib/rancher/'' @ runtime @ ''/server/manifests/rancher/'' @ runtime @
             ''-etcd-snapshot-extra-metadata.yaml'') True))"

definition getControlPlaneManifests ::
  "('w, 'z) config_env_scheme \<Rightarrow> RKEControlPlane \<Rightarrow> planEntry \<Rightarrow> 'w \<Rightarrow> go_error + plan_file list" where
  "getControlPlaneManifests E controlPlane entry w =
     (if \<not> isControlPlane entry then Inr []
      else
        sbind (getClusterAgentManifestFile E controlPlane (runtime_of controlPlane) entry w) (\<lambda>clusterAgent.
          Inr ([clusterAgent] @ opt_list (getEtcdSnapshotExtraMetadata controlPlane (runtime_of controlPlane)) @
               [getAddons controlPlane (runtime_of controlPlane)])))"

definition addManifests ::
  "('w, 'z) config_env_scheme \<Rightarrow> node_plan \<Rightarrow> RKEControlPlane \<Rightarrow> planEntry \<Rightarrow> 'w \<Rightarrow> go_error + node_plan" where
  "addManifests E nodePlan controlPlane entry w =
     sbind (getControlPlaneManifests E controlPlane entry w) (\<lambda>files. Inr (add_files files nodePlan))"

section \<open>The configuration map\<close>

text \<open>An argument without a value is a switch.\<close>

definition put_arg :: "'z libs_scheme \<Rightarrow> config \<Rightarrow> string \<Rightarrow> config" where
  "put_arg E config arg =
     (case lib_kv_Split E arg ''='' of
        (k, v) \<Rightarrow> cfg_put (TrimPrefix k ''--'') (if v = '''' then JBool True else JStr v) config)"

definition addETCD ::
  "('w, 'z) config_env_scheme \<Rightarrow> config \<Rightarrow> RKEControlPlane \<Rightarrow> planEntry \<Rightarrow> bool \<Rightarrow> 'w \<Rightarrow> go_error + (config \<times> plan_file list)" where
  "addETCD E config controlPlane entry renderS3 w =
     (case sp_ETCD (cp_Spec controlPlane) of
        None \<Rightarrow> Inr (config, [])
      | Some et \<Rightarrow>
          if \<not> isEtcd entry then Inr (config, [])
          else
            let c1 = (if etcd_DisableSnapshots et then cfg_put ''etcd-disable-snapshots'' (JBool True) config else config);
                c2 = (if etcd_SnapshotRetention et > 0
                      then cfg_put ''etcd-snapshot-retention'' (JInt (etcd_SnapshotRetention et)) c1 else c1);
                c3 = (if etcd_SnapshotScheduleCron et \<noteq> ''''
                      then cfg_put ''etcd-snapshot-schedule-cron'' (JStr (etcd_SnapshotScheduleCron et)) c2 else c2) in
            if renderS3 then
              sbind (ToArgs E (etcd_S3 et) controlPlane ''etcd-'' False w) (\<lambda>(args, _, files).
                Inr (foldl (put_arg E) c3 args, files))
            else Inr (c3, []))"

definition addDefaults :: "config \<Rightarrow> RKEControlPlane \<Rightarrow> config" where
  "addDefaults config controlPlane =
     (if runtime_of controlPlane = RuntimeRKE2 then cfg_put ''cni'' (JStr ''calico'') config else config)"

definition put_all :: "config \<Rightarrow> config \<Rightarrow> config" where
  "put_all data config = foldl (\<lambda>c (k, v). cfg_put k v c) config data"

fun add_selector_configs ::
  "('w, 'z) config_env_scheme \<Rightarrow> RKESystemConfig list \<Rightarrow> planEntry \<Rightarrow> config \<Rightarrow> go_error + config" where
  "add_selector_configs E [] entry config = Inr config"
| "add_selector_configs E (opts # rest) entry config =
     sbind (case sys_Selector opts of
              None \<Rightarrow> Inr True
            | Some sel \<Rightarrow> k_SelectorMatches E sel (m_Labels (pe_Machine entry))) (\<lambda>matches.
       add_selector_configs E rest entry (if matches then put_all (sys_Config opts) config else config))"

definition addUserConfig ::
  "('w, 'z) config_env_scheme \<Rightarrow> config \<Rightarrow> RKEControlPlane \<Rightarrow> planEntry \<Rightarrow> go_error + config" where
  "addUserConfig E config controlPlane entry =
     sbind (add_selector_configs E (sp_MachineSelectorConfig (cp_Spec controlPlane)) entry
              (put_all (sp_MachineGlobalConfig (cp_Spec controlPlane)) config)) (\<lambda>c.
       Inr (filterConfigData E (k_ToBool E) c controlPlane entry))"

text \<open>The registry of the cluster's configuration, else the global setting.\<close>

fun selector_registry :: "RKESystemConfig list \<Rightarrow> string option" where
  "selector_registry [] = None"
| "selector_registry (config # rest) =
     (case (sys_Selector config, map_of (sys_Config config) ''system-default-registry'') of
        (None, Some (JStr registry)) \<Rightarrow> Some registry
      | _ \<Rightarrow> selector_registry rest)"

definition getPrivateRepoURL :: "('w, 'z) config_env_scheme \<Rightarrow> config \<Rightarrow> RKESystemConfig list \<Rightarrow> string" where
  "getPrivateRepoURL E machineGlobalConfig machineSelectorConfig =
     (case map_of machineGlobalConfig ''system-default-registry'' of
        Some (JStr v) \<Rightarrow> v
      | _ \<Rightarrow> (case selector_registry machineSelectorConfig of Some r \<Rightarrow> r | None \<Rightarrow> k_SystemDefaultRegistry E))"

definition GetPrivateRepoURLFromControlPlane :: "('w, 'z) config_env_scheme \<Rightarrow> RKEControlPlane \<Rightarrow> string" where
  "GetPrivateRepoURLFromControlPlane E cp =
     getPrivateRepoURL E (sp_MachineGlobalConfig (cp_Spec cp)) (sp_MachineSelectorConfig (cp_Spec cp))"

definition KubeControllerManagerArg :: string where "KubeControllerManagerArg = ''kube-controller-manager-arg''"
definition KubeControllerManagerExtraMount :: string where "KubeControllerManagerExtraMount = ''kube-controller-manager-extra-mount''"
definition DefaultKubeControllerManagerCertDir :: string where "DefaultKubeControllerManagerCertDir = ''/var/lib/rancher/%s/server/tls/kube-controller-manager''"
definition DefaultKubeControllerManagerDefaultSecurePort :: string where "DefaultKubeControllerManagerDefaultSecurePort = ''10257''"
definition DefaultKubeControllerManagerCert :: string where "DefaultKubeControllerManagerCert = ''kube-controller-manager.crt''"
definition KubeSchedulerArg :: string where "KubeSchedulerArg = ''kube-scheduler-arg''"
definition KubeSchedulerExtraMount :: string where "KubeSchedulerExtraMount = ''kube-scheduler-extra-mount''"
definition DefaultKubeSchedulerCertDir :: string where "DefaultKubeSchedulerCertDir = ''/var/lib/rancher/%s/server/tls/kube-scheduler''"
definition DefaultKubeSchedulerDefaultSecurePort :: string where "DefaultKubeSchedulerDefaultSecurePort = ''10259''"
definition DefaultKubeSchedulerCert :: string where "DefaultKubeSchedulerCert = ''kube-scheduler.crt''"

definition put_component ::
  "string \<Rightarrow> string \<Rightarrow> string \<Rightarrow> string \<Rightarrow> string \<Rightarrow> config \<Rightarrow> config" where
  "put_component argKey mountKey runtime port certDir config =
     (case renderArgAndMount (cfg_get config argKey) (cfg_get config mountKey) runtime port certDir of
        (certDirArg, certDirMount) \<Rightarrow>
          let c = cfg_put argKey (JStrs certDirArg) config in
          if runtime = RuntimeRKE2 then cfg_put mountKey (JStrs certDirMount) c else c)"

definition addRoleConfig ::
  "('w, 'z) config_env_scheme \<Rightarrow> config \<Rightarrow> RKEControlPlane \<Rightarrow> planEntry \<Rightarrow> string \<Rightarrow> config \<times> string" where
  "addRoleConfig E config controlPlane entry joinServer0 =
     (let runtime = runtime_of controlPlane;
          annotated = (case pe_Metadata entry of None \<Rightarrow> None | Some md \<Rightarrow> md_Annotations md JoinedToAnnotation) in
      if \<not> isInitNode entry \<and> joinServer0 = '''' \<and> annotated = None then (config, JoinServerImplausible)
      else
        let joinServer = (if isInitNode entry then ''-''
                          else if joinServer0 = '''' then (case annotated of None \<Rightarrow> '''' | Some j \<Rightarrow> j) else joinServer0);
            c1 = (if isInitNode entry \<and> runtime = RuntimeK3S then cfg_put ''cluster-init'' (JBool True) config else config);
            c2 = (if joinServer \<noteq> '''' \<and> joinServer \<noteq> ''-'' then cfg_put ''server'' (JStr joinServer) c1 else c1);
            c3 = (if IsOnlyEtcd entry
                  then cfg_put ''disable-controller-manager'' (JBool True)
                         (cfg_put ''disable-apiserver'' (JBool True) (cfg_put ''disable-scheduler'' (JBool True) c2))
                  else if isOnlyControlPlane entry then cfg_put ''disable-etcd'' (JBool True) c2
                  else c2);
            pr = GetPrivateRepoURLFromControlPlane E controlPlane;
            c4 = (if pr \<noteq> '''' \<and> \<not> isOnlyWorker entry then cfg_put ''system-default-registry'' (JStr pr) c3 else c3);
            c5 = (if isControlPlane entry
                  then put_component KubeSchedulerArg KubeSchedulerExtraMount runtime
                         DefaultKubeSchedulerDefaultSecurePort DefaultKubeSchedulerCertDir
                         (put_component KubeControllerManagerArg KubeControllerManagerExtraMount runtime
                           DefaultKubeControllerManagerDefaultSecurePort DefaultKubeControllerManagerCertDir c4)
                  else c4);
            nodeName = entry_label entry NodeNameLabel;
            c6 = (if nodeName \<noteq> '''' then cfg_put ''node-name'' (JStr nodeName) c5 else c5) in
        (c6, joinServer))"

definition authnWebhookFile :: "RKEControlPlane \<Rightarrow> string" where
  "authnWebhookFile controlPlane = ''/var/lib/rancher/'' @ runtime_of controlPlane @ ''/kube-api-authn-webhook.yaml''"

definition addLocalClusterAuthenticationEndpointConfig ::
  "('w, 'z) config_env_scheme \<Rightarrow> config \<Rightarrow> RKEControlPlane \<Rightarrow> planEntry \<Rightarrow> config" where
  "addLocalClusterAuthenticationEndpointConfig E config controlPlane entry =
     (if isOnlyWorker entry \<or> \<not> sp_LocalClusterAuthEndpointEnabled (cp_Spec controlPlane) then config
      else cfg_put ''kube-apiserver-arg''
             (JStrs (k_ToStringSlice E (cfg_get config ''kube-apiserver-arg'') @
                     [''authentication-token-webhook-config-file='' @ authnWebhookFile controlPlane])) config)"

definition AuthnWebhook :: "string \<Rightarrow> string" where
  "AuthnWebhook loopbackAddress =
     newline @ ''apiVersion: v1'' @ newline @ ''kind: Config'' @ newline @ ''clusters:'' @ newline @
     ''- name: Default'' @ newline @ ''  cluster:'' @ newline @ ''    insecure-skip-tls-verify: true'' @ newline @
     ''    server: http://'' @ loopbackAddress @ '':6440/v1/authenticate'' @ newline @ ''users:'' @ newline @
     ''- name: Default'' @ newline @ ''  user:'' @ newline @ ''    insecure-skip-tls-verify: true'' @ newline @
     ''current-context: webhook'' @ newline @ ''contexts:'' @ newline @ ''- name: webhook'' @ newline @
     ''  context:'' @ newline @ ''    user: Default'' @ newline @ ''    cluster: Default'' @ newline"

definition addLocalClusterAuthenticationEndpointFile ::
  "node_plan \<Rightarrow> RKEControlPlane \<Rightarrow> planEntry \<Rightarrow> node_plan" where
  "addLocalClusterAuthenticationEndpointFile nodePlan controlPlane entry =
     (if isOnlyWorker entry \<or> \<not> sp_LocalClusterAuthEndpointEnabled (cp_Spec controlPlane) then nodePlan
      else add_files [plain_file (b64_encode (AuthnWebhook (GetLoopbackAddress controlPlane)))
                        (authnWebhookFile controlPlane)] nodePlan)"

definition addOtherFiles :: "node_plan \<Rightarrow> RKEControlPlane \<Rightarrow> planEntry \<Rightarrow> go_error + node_plan" where
  "addOtherFiles nodePlan controlPlane entry = Inr (addLocalClusterAuthenticationEndpointFile nodePlan controlPlane entry)"

definition isVSphereProvider ::
  "('w, 'z) config_env_scheme \<Rightarrow> RKEControlPlane \<Rightarrow> planEntry \<Rightarrow> go_error + bool" where
  "isVSphereProvider E controlPlane entry =
     sbind (addUserConfig E [] controlPlane entry) (\<lambda>data. Inr (cfg_get data ''cloud-provider-name'' = JStr ''rancher-vsphere''))"

definition addVSphereCharts ::
  "('w, 'z) config_env_scheme \<Rightarrow> RKEControlPlane \<Rightarrow> planEntry \<Rightarrow> go_error + config" where
  "addVSphereCharts E controlPlane entry =
     sbind (isVSphereProvider E controlPlane entry) (\<lambda>isVSphere.
       let values = sp_ChartValues (cp_Spec controlPlane) in
       Inr (if isVSphere \<and> cfg_get values ''rancher-vsphere-csi'' = JNull
            then cfg_put ''rancher-vsphere-csi'' (JObj []) values else values))"

text \<open>
  \<open>data.PutValue\<close> writes the cluster id into the chart's values in place; every pass writes the
  same id, so the values are kept as they are given.
\<close>

fun chart_configs ::
  "('w, 'z) config_env_scheme \<Rightarrow> RKEControlPlane \<Rightarrow> config \<Rightarrow> string list \<Rightarrow> go_error + (string \<times> string) list" where
  "chart_configs E controlPlane chartValues [] = Inr []"
| "chart_configs E controlPlane chartValues (chart # charts) =
     (let valuesMap = (case k_ToMap E (cfg_get chartValues chart) of None \<Rightarrow> [] | Some m \<Rightarrow> m);
          valuesMap' = k_PutValue E valuesMap (sp_ManagementClusterName (cp_Spec controlPlane)) [''global'', ''cattle'', ''clusterId''] in
      sbind (k_MarshalJSON E (JObj valuesMap')) (\<lambda>data.
      sbind (chart_configs E controlPlane chartValues charts) (\<lambda>rest. Inr ((chart, data) # rest))))"

definition addChartConfigs ::
  "('w, 'z) config_env_scheme \<Rightarrow> node_plan \<Rightarrow> RKEControlPlane \<Rightarrow> planEntry \<Rightarrow> go_error + node_plan" where
  "addChartConfigs E nodePlan controlPlane entry =
     (if isOnlyWorker entry then Inr nodePlan
      else
        sbind (addVSphereCharts E controlPlane entry) (\<lambda>chartValues.
        sbind (chart_configs E controlPlane chartValues (SortedKeys chartValues)) (\<lambda>chartConfigs.
        sbind (k_ChartYaml E chartConfigs) (\<lambda>contents.
          Inr (add_files [manifest_file contents
                 (''/var/lib/rancher/'' @ runtime_of controlPlane @ ''/server/manifests/rancher/managed-chart-config.yaml'') False]
               nodePlan)))))"

definition addToken :: "config \<Rightarrow> planEntry \<Rightarrow> plan_secret \<Rightarrow> config" where
  "addToken config entry tokensSecret =
     (if tk_ServerToken tokensSecret = '''' then config
      else if isOnlyWorker entry then cfg_put ''token'' (JStr (tk_AgentToken tokensSecret)) config
      else cfg_put ''agent-token'' (JStr (tk_AgentToken tokensSecret))
             (cfg_put ''token'' (JStr (tk_ServerToken tokensSecret)) config))"

text \<open>The addresses of a machine: annotations first, then the driver configuration.\<close>

definition machine_addresses ::
  "('w, 'z) config_env_scheme \<Rightarrow> planEntry \<Rightarrow> 'w \<Rightarrow> go_error + (string \<times> string)" where
  "machine_addresses E entry w =
     (let internalIPAddress = entry_annotation entry InternalAddressAnnotation;
          ipAddress = entry_annotation entry AddressAnnotation;
          m = pe_Machine entry; ref = m_InfrastructureRef m;
          mid = m_Namespace m @ ''/'' @ m_Name m;
          waiting = Inl (ErrIgnore (''waiting for machine '' @ mid @ '' driver config to be saved'')) in
      if or_APIVersion ref = ''rke-machine.cattle.io/v1'' \<and> (internalIPAddress = '''' \<or> ipAddress = '''') then
        (case k_SecretCacheGet E (or_Namespace ref) (MachineStateSecretName E (or_Name ref)) w of
           Inl e \<Rightarrow> if is_NotFound e then waiting
                     else Inl (ErrWrap (''error getting machine state secret for machine '' @ mid) e)
         | Inr sec \<Rightarrow>
             if length (gets (s_Data sec) ''extractedConfig'') = 0 then waiting
             else
               (case k_ExtractConfigJSON E (b64_encode (gets (s_Data sec) ''extractedConfig'')) of
                  Inl e \<Rightarrow> Inl (ErrWrap (''error getting machine state JSON for machine '' @ mid) e)
                | Inr driverConfig \<Rightarrow>
                    if length driverConfig = 0 then Inl (ErrOther (''error getting machine state JSON for machine '' @ mid @ '': %!w(<nil>)''))
                    else Inr (if ipAddress = '''' then k_ToString E (k_GetValueN E driverConfig [''Driver'', ''IPAddress'']) else ipAddress,
                              if internalIPAddress = '''' then k_ToString E (k_GetValueN E driverConfig [''Driver'', ''PrivateIPAddress''])
                              else internalIPAddress)))
      else Inr (ipAddress, internalIPAddress))"

definition addAddresses ::
  "('w, 'z) config_env_scheme \<Rightarrow> config \<Rightarrow> planEntry \<Rightarrow> 'w \<Rightarrow> go_error + config" where
  "addAddresses E config entry w =
     sbind (machine_addresses E entry w) (\<lambda>(ipAddress, internalIPAddress).
       let addressProvided = (entry_annotation entry AddressAnnotation \<noteq> '''');
           setNodeExternalIP = (ipAddress \<noteq> '''' \<and> internalIPAddress \<noteq> '''' \<and> ipAddress \<noteq> internalIPAddress);
           append = (\<lambda>k v c. cfg_put k (JStrs (k_ToStringSlice E (cfg_get c k) @ [v])) c);
           c1 = (if setNodeExternalIP \<and> \<not> isOnlyWorker entry
                 then append ''tls-san'' ipAddress (cfg_put ''advertise-address'' (JStr internalIPAddress) config) else config);
           c2 = (if internalIPAddress \<noteq> '''' then append ''node-ip'' internalIPAddress c1 else c1);
           c3 = (if k_ToString E (cfg_get c2 ''cloud-provider-name'') = '''' \<and> (addressProvided \<or> setNodeExternalIP)
                 then append ''node-external-ip'' ipAddress c2 else c2) in
       Inr c3)"

definition addLabels ::
  "('w, 'z) config_env_scheme \<Rightarrow> config \<Rightarrow> planEntry \<Rightarrow> go_error + config" where
  "addLabels E config entry =
     (let data = entry_annotation entry LabelsAnnotation in
      sbind (if data \<noteq> '''' then k_UnmarshalStringMap E data else Inr []) (\<lambda>labelMap.
        let labels = sort (map (\<lambda>(k, v). k @ ''='' @ v) labelMap @ [MachineUIDLabel @ ''='' @ m_UID (pe_Machine entry)]) in
        Inr (cfg_put ''node-label'' (JStrs labels) config)))"

definition addTaints ::
  "('w, 'z) config_env_scheme \<Rightarrow> config \<Rightarrow> planEntry \<Rightarrow> RKEControlPlane \<Rightarrow> go_error + config" where
  "addTaints E config entry cp =
     sbind (getTaints E entry cp) (\<lambda>taints.
       Inr (cfg_put ''node-taint''
              (JStrs (sort (map (k_TaintToString E) (filter (\<lambda>t. ta_Key t \<noteq> '''') taints)))) config))"

section \<open>Files from secrets and config maps\<close>

text \<open>The annotations of the object are an option: none for the nil object.\<close>

definition clusterObjectAuthorized :: "smap option \<Rightarrow> string \<Rightarrow> string \<Rightarrow> bool \<times> bool" where
  "clusterObjectAuthorized obj annotation clusterName =
     (case obj of
        None \<Rightarrow> (False, False)
      | Some annotations \<Rightarrow>
          if annotation = '''' \<or> clusterName = '''' then (False, False)
          else
            let authorizedClusters = Split (gets annotations annotation) '','';
                annotationValueFound = (length authorizedClusters > 0) in
            (List.member authorizedClusters clusterName, annotationValueFound))"

definition quoted :: "string \<Rightarrow> string" where
  "quoted s = [CHR 0x27] @ s @ [CHR 0x27]"

definition retrieveClusterAuthorizedSecret :: "secret \<Rightarrow> string \<Rightarrow> go_error + string" where
  "retrieveClusterAuthorizedSecret sec clusterName =
     (case clusterObjectAuthorized (Some (s_Annotations sec)) ''v2prov-secret-authorized-for-cluster'' clusterName of
        (authorized, ownerFound) \<Rightarrow>
          if \<not> ownerFound \<or> \<not> authorized
          then Inl (ErrOther (''the secret '' @ quoted (''secret://'' @ s_Namespace sec @ '':'' @ s_Name sec) @
                 '' provided within the cloud-provider-config does not belong to cluster '' @ quoted clusterName))
          else (case s_Data sec ''credential'' of
                  None \<Rightarrow> Inl (ErrOther (''the cloud-provider-config specified a secret, but no config could be found within the secret '' @
                            quoted (''secret://'' @ s_Namespace sec @ '':'' @ s_Name sec)))
                | Some secretContent \<Rightarrow> Inr secretContent))"

definition checkForSecretFormat :: "string \<Rightarrow> string \<Rightarrow> bool \<times> string \<times> string \<times> err" where
  "checkForSecretFormat secretFieldName configValue =
     (if HasPrefix configValue ''secret://'' then
        (case Split (ReplaceAll configValue ''secret://'' '''') '':'' of
           [ns, n] \<Rightarrow>
             if ns = '''' \<or> n = ''''
             then (True, '''', '''', Some (ErrOther (''provided value for '' @ secretFieldName @
                    '' secret is malformed, must be of the format secret://namespace:name'')))
             else (True, ns, n, None)
         | _ \<Rightarrow> (True, '''', '''', Some (ErrOther (''provided value for '' @ secretFieldName @
                    '' secret is malformed, must be of the format secret://namespace:name''))))
      else (False, '''', '''', None))"

text \<open>The items of one source: each file's content is checked against its hash, if one is given.\<close>

fun render_items ::
  "('w, 'z) config_env_scheme \<Rightarrow> string \<Rightarrow> string \<Rightarrow> smap \<Rightarrow> string \<Rightarrow> KeyToPath list \<Rightarrow> go_error + plan_file list" where
  "render_items E kind name data defaultPermissions [] = Inr []"
| "render_items E kind name data defaultPermissions (v # vs) =
     (let content = gets data (kp_Key v);
          file' = (plain_file (b64_encode content) (kp_Path v))
                    \<lparr>f_Dynamic := kp_Dynamic v,
                     f_Permissions := (if kp_Permissions v \<noteq> '''' then kp_Permissions v else defaultPermissions)\<rparr> in
      if kp_Hash v \<noteq> '''' \<and> kp_Hash v \<noteq> b64_encode (k_SHA256 E content)
      then Inl (ErrOther (kind @ '' '' @ name @ '' does not cotain the expected content''))
      else sbind (render_items E kind name data defaultPermissions vs) (\<lambda>rest. Inr (file' # rest)))"

definition not_authorized :: "RKEControlPlane \<Rightarrow> string \<Rightarrow> string \<Rightarrow> go_error" where
  "not_authorized cp kind name =
     ErrOther (''error rendering files: cluster '' @ cp_Namespace cp @ ''/'' @ cp_Name cp @ '' was not authorized to access '' @
       kind @ '' '' @ cp_Namespace cp @ ''/'' @ name)"

definition render_secret_source ::
  "('w, 'z) config_env_scheme \<Rightarrow> RKEControlPlane \<Rightarrow> K8sObjectFileSource \<Rightarrow> 'w \<Rightarrow> go_error + plan_file list" where
  "render_secret_source E cp src w =
     (if kf_Name src = '''' then Inr []
      else
        (case k_SecretCacheGet E (cp_Namespace cp) (kf_Name src) w of
           Inl e \<Rightarrow> Inl (ErrOther (''error retrieving secret '' @ cp_Namespace cp @ ''/'' @ kf_Name src @
                     '' while rendering files: '' @ Error e))
         | Inr sec \<Rightarrow>
             (case clusterObjectAuthorized (Some (s_Annotations sec)) AuthorizedObjectAnnotation (cp_Name cp) of
                (authorized, found) \<Rightarrow>
                  if authorized \<and> found
                  then render_items E ''secret'' (s_Name sec) (s_Data sec) (kf_DefaultPermissions src) (kf_Items src)
                  else Inl (not_authorized cp ''secret'' (kf_Name src)))))"

definition render_configmap_source ::
  "('w, 'z) config_env_scheme \<Rightarrow> RKEControlPlane \<Rightarrow> K8sObjectFileSource \<Rightarrow> 'w \<Rightarrow> go_error + plan_file list" where
  "render_configmap_source E cp src w =
     (if kf_Name src = '''' then Inr []
      else
        (case k_ConfigMapGet E (cp_Namespace cp) (kf_Name src) w of
           Inl e \<Rightarrow> Inl (ErrOther (''error retrieving configmap '' @ cp_Namespace cp @ ''/'' @ kf_Name src @
                     '' while rendering files: '' @ Error e))
         | Inr cm \<Rightarrow>
             (case clusterObjectAuthorized (Some (cm_Annotations cm)) AuthorizedObjectAnnotation (cp_Name cp) of
                (authorized, found) \<Rightarrow>
                  if authorized \<and> found
                  then render_items E ''configmap'' (cm_Name cm) (cm_Data cm) (kf_DefaultPermissions src) (kf_Items src)
                  else Inl (not_authorized cp ''configmap'' (kf_Name src)))))"

fun render_sources ::
  "('w, 'z) config_env_scheme \<Rightarrow> RKEControlPlane \<Rightarrow> ProvisioningFileSource list \<Rightarrow> 'w \<Rightarrow> go_error + plan_file list" where
  "render_sources E cp [] w = Inr []"
| "render_sources E cp (fs # rest) w =
     (if kf_Name (fs_Secret fs) \<noteq> '''' \<and> kf_Name (fs_ConfigMap fs) \<noteq> ''''
      then Inl (ErrOther (''secret '' @ cp_Namespace cp @ ''/'' @ kf_Name (fs_Secret fs) @ '' and configmap '' @
             cp_Namespace cp @ ''/'' @ kf_Name (fs_ConfigMap fs) @
             '' cannot both be defined at the same time for files, use separate entries''))
      else
        sbind (render_secret_source E cp (fs_Secret fs) w) (\<lambda>a.
        sbind (render_configmap_source E cp (fs_ConfigMap fs) w) (\<lambda>b.
        sbind (render_sources E cp rest w) (\<lambda>c. Inr (a @ b @ c)))))"

fun render_selected ::
  "('w, 'z) config_env_scheme \<Rightarrow> RKEControlPlane \<Rightarrow> planEntry \<Rightarrow> RKEProvisioningFiles list \<Rightarrow> 'w \<Rightarrow> go_error + plan_file list" where
  "render_selected E cp entry [] w = Inr []"
| "render_selected E cp entry (msf # rest) w =
     sbind (case pf_Selector msf of
              None \<Rightarrow> Inr True
            | Some sel \<Rightarrow> k_SelectorMatches E sel (m_Labels (pe_Machine entry))) (\<lambda>matches.
     sbind (if matches then render_sources E cp (pf_FileSources msf) w else Inr []) (\<lambda>a.
     sbind (render_selected E cp entry rest w) (\<lambda>b. Inr (a @ b))))"

definition renderFiles ::
  "('w, 'z) config_env_scheme \<Rightarrow> RKEControlPlane \<Rightarrow> planEntry \<Rightarrow> 'w \<Rightarrow> go_error + plan_file list" where
  "renderFiles E controlPlane entry w =
     render_selected E controlPlane entry (sp_MachineSelectorFiles (cp_Spec controlPlane)) w"

section \<open>The configuration file\<close>

definition fileParams :: "string list" where
  "fileParams = [''audit-policy-file'', ''cloud-provider-config'', privateRegistryArg, ''flannel-conf'']"

text \<open>One parameter of \<open>fileParams\<close>: its value becomes a file, and the value the file's path.\<close>

definition add_file_param ::
  "('w, 'z) config_env_scheme \<Rightarrow> RKEControlPlane \<Rightarrow> registries \<Rightarrow> string \<Rightarrow> config \<times> plan_file list \<Rightarrow> 'w \<Rightarrow>
   go_error + (config \<times> plan_file list)" where
  "add_file_param E controlPlane reg fileParam cf w =
     (case cf of (config, files) \<Rightarrow>
        let filePath = configFile controlPlane fileParam;
            put = (\<lambda>content. Inr (cfg_put fileParam (JStr filePath) config, files @ [plain_file (b64_encode content) filePath])) in
        (case (if fileParam = privateRegistryArg then Some (JStr (registriesFileRaw reg)) else map_of config fileParam) of
           None \<Rightarrow> Inr (config, files)
         | Some content \<Rightarrow>
             if fileParam = ''cloud-provider-config'' then
               (case checkForSecretFormat ''cloud-provider-config'' (k_ToString E content) of
                  (isSecretFormat, ns, n, Some e) \<Rightarrow> Inl e
                | (isSecretFormat, ns, n, None) \<Rightarrow>
                    if isSecretFormat then
                      sbind (k_SecretCacheGet E ns n w) (\<lambda>sec.
                      sbind (retrieveClusterAuthorizedSecret sec (cp_Name controlPlane)) put)
                    else put (k_ToString E content))
             else put (k_ToString E content)))"

fun add_file_params ::
  "('w, 'z) config_env_scheme \<Rightarrow> RKEControlPlane \<Rightarrow> registries \<Rightarrow> string list \<Rightarrow> config \<times> plan_file list \<Rightarrow> 'w \<Rightarrow>
   go_error + (config \<times> plan_file list)" where
  "add_file_params E controlPlane reg [] cf w = Inr cf"
| "add_file_params E controlPlane reg (p # ps) cf w =
     sbind (add_file_param E controlPlane reg p cf w) (\<lambda>cf'. add_file_params E controlPlane reg ps cf' w)"

definition addConfigFile ::
  "('w, 'z) config_env_scheme \<Rightarrow> node_plan \<Rightarrow> RKEControlPlane \<Rightarrow> planEntry \<Rightarrow> plan_secret \<Rightarrow> string \<Rightarrow> registries \<Rightarrow> bool \<Rightarrow> 'w \<Rightarrow>
   go_error + (node_plan \<times> config \<times> string)" where
  "addConfigFile E nodePlan controlPlane entry tokensSecret joinServer reg renderS3 w =
     sbind (addUserConfig E (addDefaults [] controlPlane) controlPlane entry) (\<lambda>c1.
     sbind (addETCD E c1 controlPlane entry renderS3 w) (\<lambda>(c2, etcdFiles).
       case addRoleConfig E c2 controlPlane entry joinServer of
         (c3, joinedServer) \<Rightarrow>
           if joinedServer = JoinServerImplausible then Inl (ErrOther ''implausible joined server for entry'')
           else
             let c4 = addLocalClusterAuthenticationEndpointConfig E c3 controlPlane entry;
                 c5 = addToken c4 entry tokensSecret in
             sbind (addAddresses E c5 entry w) (\<lambda>c6.
             sbind (addLabels E c6 entry) (\<lambda>c7.
             sbind (addTaints E c7 entry controlPlane) (\<lambda>c8.
             sbind (add_file_params E controlPlane reg fileParams (c8, []) w) (\<lambda>(c9, paramFiles).
             sbind (renderFiles E controlPlane entry w) (\<lambda>files.
               let c10 = PruneEmpty c9 in
               sbind (k_MarshalIndent E c10) (\<lambda>configData.
                 Inr (add_files (etcdFiles @ paramFiles @ files @
                        [plain_file (b64_encode configData)
                           (''/etc/rancher/'' @ runtime_of controlPlane @ ''/config.yaml.d/50-rancher.yaml'')]) nodePlan,
                      c10, joinedServer))))))))) "

text \<open>The stamp hashes the image, the generations and every file that is not dynamic.\<close>

definition restart_stamp_input :: "node_plan \<Rightarrow> RKEControlPlane \<Rightarrow> string \<Rightarrow> string" where
  "restart_stamp_input nodePlan controlPlane img =
     Itoa (sp_ProvisionGeneration (cp_Spec controlPlane)) @ img @
     concat (map (\<lambda>f. if f_Dynamic f then '''' else f_Path f @ f_Content f) (np_Files nodePlan)) @
     Itoa (st_ConfigGeneration (cp_Status controlPlane))"

definition restartStamp :: "'z libs_scheme \<Rightarrow> node_plan \<Rightarrow> RKEControlPlane \<Rightarrow> string \<Rightarrow> string" where
  "restartStamp E nodePlan controlPlane img = lib_sha256_hex E (restart_stamp_input nodePlan controlPlane img)"

end
