(* ===== verification/Node_Config_Correct.thy ===== *)
theory Node_Config_Correct
  imports Node_Config
begin

text \<open>
  What the rendered node configuration guarantees: which token a node receives, that an init
  node is never told to join, that files come only from objects the cluster is authorised
  to read, and the format of secret references.
\<close>

section \<open>Keys of the configuration map\<close>

definition cfg_ok :: "config \<Rightarrow> bool" where
  "cfg_ok c \<longleftrightarrow> sorted_wrt (<) (map fst c)"

lemma cfg_ok_Nil [simp]: "cfg_ok []"
  by (simp add: cfg_ok_def)

lemma cfg_ok_put [simp]: "cfg_ok c \<Longrightarrow> cfg_ok (gm_put k v c)"
  by (simp add: cfg_ok_def sorted_gm_put)

lemma cfg_ok_distinct: "cfg_ok c \<Longrightarrow> distinct (map fst c)"
  by (simp add: cfg_ok_def strict_sorted_iff)

lemma cfg_ok_foldl: "cfg_ok c \<Longrightarrow> (\<And>c x. cfg_ok c \<Longrightarrow> cfg_ok (f c x)) \<Longrightarrow> cfg_ok (foldl f c xs)"
  by (induction xs arbitrary: c) auto

lemma cfg_ok_put_all [simp]: "cfg_ok c \<Longrightarrow> cfg_ok (put_all d c)"
  unfolding put_all_def by (rule cfg_ok_foldl) auto

lemma cfg_ok_map_filter:
  "cfg_ok c \<Longrightarrow> cfg_ok (List.map_filter (\<lambda>(k, v). map_option (Pair k) (g k v)) c)"
proof (induction c)
  case (Cons x c)
  obtain k v where x: "x = (k, v)" by (cases x)
  have sub: "fst ` set (List.map_filter (\<lambda>(k, v). map_option (Pair k) (g k v)) c) \<subseteq> fst ` set c"
    by (force simp: map_filter_def)
  from Cons have "cfg_ok (List.map_filter (\<lambda>(k, v). map_option (Pair k) (g k v)) c)" by (simp add: cfg_ok_def)
  moreover have "\<forall>a \<in> fst ` set c. k < a" using Cons.prems x by (simp add: cfg_ok_def)
  with sub have "\<forall>a \<in> set (List.map_filter (\<lambda>(k, v). map_option (Pair k) (g k v)) c). k < fst a" by blast
  ultimately show ?case
    using x by (simp add: cfg_ok_def map_filter_simps split: option.splits)
qed (simp add: map_filter_simps)

lemma cfg_ok_filterConfigData [simp]: "cfg_ok c \<Longrightarrow> cfg_ok (filterConfigData E b c cp e)"
  by (simp add: filterConfigData_def cfg_ok_map_filter split: option.splits)

lemma cfg_ok_selector_configs: "add_selector_configs E os e c = Inr c' \<Longrightarrow> cfg_ok c \<Longrightarrow> cfg_ok c'"
proof (induction os arbitrary: c)
  case (Cons opts os)
  then obtain m where "add_selector_configs E os e (if m then put_all (sys_Config opts) c else c) = Inr c'"
    by (auto simp: sbind_eq_Inr_iff)
  from Cons.IH [OF this] Cons.prems(2) show ?case by simp
qed simp

lemma cfg_ok_addUserConfig: "addUserConfig E c cp e = Inr c' \<Longrightarrow> cfg_ok c \<Longrightarrow> cfg_ok c'"
  by (auto simp: addUserConfig_def sbind_eq_Inr_iff dest: cfg_ok_selector_configs)

lemma cfg_ok_addETCD: "addETCD E c cp e r w = Inr (c', fs) \<Longrightarrow> cfg_ok c \<Longrightarrow> cfg_ok c'"
  by (auto simp: addETCD_def Let_def sbind_eq_Inr_iff put_arg_def intro!: cfg_ok_foldl
      split: option.splits if_splits prod.splits)

lemma cfg_ok_component: "cfg_ok c \<Longrightarrow> cfg_ok (put_component a m r p d c)"
  by (simp add: put_component_def Let_def split: prod.splits)

lemma cfg_ok_addRoleConfig: "cfg_ok c \<Longrightarrow> cfg_ok (fst (addRoleConfig E c cp e j))"
  by (simp add: addRoleConfig_def Let_def cfg_ok_component)

lemma addAddresses_frame:
  assumes "addAddresses E c e w = Inr c'"
  shows "cfg_ok c \<Longrightarrow> cfg_ok c'"
    and "k \<notin> {''advertise-address'', ''tls-san'', ''node-ip'', ''node-external-ip''} \<Longrightarrow> map_of c' k = map_of c k"
  using assms by (auto simp: addAddresses_def Let_def sbind_eq_Inr_iff split: if_splits)

lemma addLabels_frame:
  assumes "addLabels E c e = Inr c'"
  shows "cfg_ok c \<Longrightarrow> cfg_ok c'" and "k \<noteq> ''node-label'' \<Longrightarrow> map_of c' k = map_of c k"
  using assms by (auto simp: addLabels_def Let_def sbind_eq_Inr_iff)

lemma addTaints_frame:
  assumes "addTaints E c e cp = Inr c'"
  shows "cfg_ok c \<Longrightarrow> cfg_ok c'" and "k \<noteq> ''node-taint'' \<Longrightarrow> map_of c' k = map_of c k"
  using assms by (auto simp: addTaints_def sbind_eq_Inr_iff)

lemma add_file_param_frame:
  assumes "add_file_param E cp reg p (c, fs) w = Inr (c', fs')"
  shows "cfg_ok c \<Longrightarrow> cfg_ok c'" and "k \<noteq> p \<Longrightarrow> map_of c' k = map_of c k"
  using assms
  by (auto simp: add_file_param_def Let_def sbind_eq_Inr_iff split: option.splits if_splits prod.splits)

lemma add_file_params_frame:
  "add_file_params E cp reg ps (c, fs) w = Inr (c', fs') \<Longrightarrow>
     (cfg_ok c \<longrightarrow> cfg_ok c') \<and> (k \<notin> set ps \<longrightarrow> map_of c' k = map_of c k)"
proof (induction ps arbitrary: c fs)
  case (Cons p ps)
  then obtain c1 fs1 where "add_file_param E cp reg p (c, fs) w = Inr (c1, fs1)"
    "add_file_params E cp reg ps (c1, fs1) w = Inr (c', fs')"
    by (auto simp: sbind_eq_Inr_iff)
  with Cons.IH add_file_param_frame show ?case by fastforce
qed simp

lemma map_of_PruneEmpty:
  "distinct (map fst c) \<Longrightarrow> map_of (PruneEmpty c) k = (case map_of c k of None \<Rightarrow> None | Some v \<Rightarrow> if empty_value v then None else Some v)"
proof (induction c)
  case (Cons x c)
  obtain a v where x: "x = (a, v)" by (cases x)
  have "map_of c k = None" if "k = a" using Cons.prems that x by (simp add: map_of_eq_None_iff)
  with Cons x show ?case by (auto simp: PruneEmpty_def)
qed (simp add: PruneEmpty_def)

lemma sum_InrI: "\<not> isl x \<Longrightarrow> \<exists>a b c. x = Inr (a, b, c)"
  by (cases x) auto

lemma addConfigFile_steps:
  assumes run: "addConfigFile E np cp e tokens j reg s3 w = Inr (np', config, joined)"
  obtains c1 c2 ef where
    "addUserConfig E (addDefaults [] cp) cp e = Inr c1" "addETCD E c1 cp e s3 w = Inr (c2, ef)" "cfg_ok c2"
    "snd (addRoleConfig E c2 cp e j) = joined" "joined \<noteq> JoinServerImplausible"
    "\<And>k. k \<notin> {''advertise-address'', ''tls-san'', ''node-ip'', ''node-external-ip'', ''node-label'', ''node-taint''} \<Longrightarrow>
       k \<notin> set fileParams \<Longrightarrow>
       map_of config k =
         (case map_of (addToken (addLocalClusterAuthenticationEndpointConfig E
              (fst (addRoleConfig E c2 cp e j)) cp e) e tokens) k of
            None \<Rightarrow> None | Some v \<Rightarrow> if empty_value v then None else Some v)"
proof -
  from run obtain c1 c2 ef c6 c7 c8 c9 pf where
    c1: "addUserConfig E (addDefaults [] cp) cp e = Inr c1" and
    c2: "addETCD E c1 cp e s3 w = Inr (c2, ef)" and
    c6: "addAddresses E (addToken (addLocalClusterAuthenticationEndpointConfig E
            (fst (addRoleConfig E c2 cp e j)) cp e) e tokens) e w = Inr c6" and
    c7: "addLabels E c6 e = Inr c7" and c8: "addTaints E c7 e cp = Inr c8" and
    c9: "add_file_params E cp reg fileParams (c8, []) w = Inr (c9, pf)" and config: "config = PruneEmpty c9" and
    joined: "snd (addRoleConfig E c2 cp e j) = joined" "joined \<noteq> JoinServerImplausible"
    by (auto simp: addConfigFile_def sbind_eq_Inr_iff Let_def case_prod_beta split: if_splits)
  let ?c5 = "addToken (addLocalClusterAuthenticationEndpointConfig E (fst (addRoleConfig E c2 cp e j)) cp e) e tokens"
  have "cfg_ok (addDefaults [] cp)" by (simp add: addDefaults_def cfg_ok_def)
  then have ok2: "cfg_ok c2" by (rule cfg_ok_addETCD [OF c2 cfg_ok_addUserConfig [OF c1]])
  then have "cfg_ok ?c5"
    by (simp add: addToken_def addLocalClusterAuthenticationEndpointConfig_def cfg_ok_addRoleConfig)
  then have ok9: "cfg_ok c9"
    using addAddresses_frame(1) [OF c6] addLabels_frame(1) [OF c7] addTaints_frame(1) [OF c8]
      add_file_params_frame [OF c9] by blast
  show thesis
  proof (rule that [OF c1 c2 ok2 joined])
    fix k assume k: "k \<notin> {''advertise-address'', ''tls-san'', ''node-ip'', ''node-external-ip'', ''node-label'', ''node-taint''}"
      "k \<notin> set fileParams"
    then have "map_of c9 k = map_of ?c5 k"
      using addAddresses_frame(2) [OF c6, of k] addLabels_frame(2) [OF c7, of k] addTaints_frame(2) [OF c8, of k]
        add_file_params_frame [OF c9, of k] by auto
    then show "map_of config k = (case map_of ?c5 k of None \<Rightarrow> None | Some v \<Rightarrow> if empty_value v then None else Some v)"
      by (simp add: config map_of_PruneEmpty [OF cfg_ok_distinct [OF ok9]])
  qed
qed

lemma put_component_other [simp]: "k \<noteq> a \<Longrightarrow> k \<noteq> m \<Longrightarrow> map_of (put_component a m r p d c) k = map_of c k"
  by (simp add: put_component_def Let_def split: prod.splits)

lemma addRoleConfig_joined:
  assumes "snd (addRoleConfig E c cp e j) \<noteq> JoinServerImplausible"
  shows "snd (addRoleConfig E c cp e j) =
     (if isInitNode e then ''-'' else if j \<noteq> '''' then j else entry_annotation e JoinedToAnnotation)"
  using assms
  by (auto simp: addRoleConfig_def Let_def entry_annotation_def gets_def split: if_splits option.splits)

lemma addRoleConfig_server:
  assumes "snd (addRoleConfig E c cp e j) \<noteq> JoinServerImplausible"
  shows "map_of (fst (addRoleConfig E c cp e j)) ''server'' =
     (let joined = snd (addRoleConfig E c cp e j) in
      if joined = '''' \<or> joined = ''-'' then map_of c ''server'' else Some (JStr joined))"
proof -
  have keys: "''server'' \<noteq> KubeSchedulerArg" "''server'' \<noteq> KubeSchedulerExtraMount"
    "''server'' \<noteq> KubeControllerManagerArg" "''server'' \<noteq> KubeControllerManagerExtraMount"
    by (simp_all add: KubeSchedulerArg_def KubeSchedulerExtraMount_def
        KubeControllerManagerArg_def KubeControllerManagerExtraMount_def)
  have dist: "map_of (if b then x else y) k = (if b then map_of x k else map_of y k)" for b x y and k :: string
    by simp
  define a where "a = (case pe_Metadata e of None \<Rightarrow> None | Some md \<Rightarrow> md_Annotations md JoinedToAnnotation)"
  show ?thesis
    using assms
    by (cases "isInitNode e"; cases "j = ''''"; cases a)
       (simp_all add: addRoleConfig_def Let_def keys dist a_def [symmetric] cong: if_cong split del: if_split,
        auto)
qed

section \<open>Properties\<close>

text \<open>
  The rendered configuration gives a worker the agent token and a server the server
  token, whatever the user configuration says; no later step of the rendering replaces it.
\<close>

theorem addConfigFile_token:
  assumes run: "addConfigFile E np cp e tokens j reg s3 w = Inr (np', config, joined)"
    and tok: "tk_ServerToken tokens \<noteq> ''''" "tk_AgentToken tokens \<noteq> ''''"
  shows "map_of config ''token'' =
     Some (JStr (if isOnlyWorker e then tk_AgentToken tokens else tk_ServerToken tokens))"
  by (rule addConfigFile_steps [OF run])
     (use tok in \<open>simp add: fileParams_def privateRegistryArg_def addToken_def\<close>)

definition demo_tokens :: plan_secret where
  "demo_tokens = \<lparr>tk_ServerToken = ''server'', tk_AgentToken = ''agent''\<rparr>"

definition demo_worker :: planEntry where
  "demo_worker = \<lparr>pe_Machine = demo_machine ''w'', pe_Plan = None,
     pe_Metadata = Some \<lparr>md_Labels = [WorkerRoleLabel \<mapsto> ''true''],
       md_Annotations = [AddressAnnotation \<mapsto> ''1.2.3.4'', InternalAddressAnnotation \<mapsto> ''1.2.3.4'']\<rparr>\<rparr>"

theorem addConfigFile_token_witness:
  "\<exists>np config joined. addConfigFile demo_config empty_plan demo_cp demo_worker demo_tokens ''https://a:9345'' no_registries True demo_world0 =
       Inr (np, config, joined) \<and> map_of config ''token'' = Some (JStr ''agent'')"
proof -
  have w: "isOnlyWorker demo_worker"
    by (simp add: role_defs entry_label_def demo_worker_def key_defs)
  have "\<exists>np config joined. addConfigFile demo_config empty_plan demo_cp demo_worker demo_tokens ''https://a:9345'' no_registries True demo_world0 =
       Inr (np, config, joined)"
    by (rule sum_InrI) code_simp
  then obtain np config joined where run: "addConfigFile demo_config empty_plan demo_cp demo_worker demo_tokens ''https://a:9345'' no_registries True demo_world0 =
       Inr (np, config, joined)"
    by blast
  from addConfigFile_token [OF run] run w show ?thesis by (simp add: demo_tokens_def)
qed

text \<open>
  The init node is never told to join: its rendered configuration gets no \<open>server\<close> from the
  planner and it reports \<open>-\<close> as the server it joined, whatever join URL was given. Every
  other node gets as \<open>server\<close> the URL it reports, which is the URL given or, without one, the
  server it joined before.
\<close>

theorem addConfigFile_server:
  assumes run: "addConfigFile E np cp e tokens j reg s3 w = Inr (np', config, joined)"
  shows "joined = (if isInitNode e then ''-'' else if j \<noteq> '''' then j else entry_annotation e JoinedToAnnotation) \<and>
    (\<exists>c1 c2 ef. addUserConfig E (addDefaults [] cp) cp e = Inr c1 \<and> addETCD E c1 cp e s3 w = Inr (c2, ef) \<and>
       map_of config ''server'' =
         (if joined = '''' \<or> joined = ''-''
          then (case map_of c2 ''server'' of None \<Rightarrow> None | Some v \<Rightarrow> if empty_value v then None else Some v)
          else Some (JStr joined)))"
proof -
  obtain c1 c2 ef where steps:
    "addUserConfig E (addDefaults [] cp) cp e = Inr c1" "addETCD E c1 cp e s3 w = Inr (c2, ef)"
    and joined: "snd (addRoleConfig E c2 cp e j) = joined" "joined \<noteq> JoinServerImplausible"
    and server: "map_of config ''server'' =
         (case map_of (addToken (addLocalClusterAuthenticationEndpointConfig E
              (fst (addRoleConfig E c2 cp e j)) cp e) e tokens) ''server'' of
            None \<Rightarrow> None | Some v \<Rightarrow> if empty_value v then None else Some v)"
    by (rule addConfigFile_steps [OF run]) (auto simp: fileParams_def privateRegistryArg_def)
  have "map_of (addToken (addLocalClusterAuthenticationEndpointConfig E (fst (addRoleConfig E c2 cp e j)) cp e) e tokens) ''server'' =
      map_of (fst (addRoleConfig E c2 cp e j)) ''server''"
    by (simp add: addToken_def addLocalClusterAuthenticationEndpointConfig_def)
  with server joined steps addRoleConfig_joined [of E c2 cp e j] addRoleConfig_server [of E c2 cp e j]
  show ?thesis by (auto simp: Let_def)
qed

theorem addConfigFile_server_witness:
  "\<exists>np config joined. addConfigFile demo_config empty_plan demo_cp demo_worker demo_tokens ''https://a:9345'' no_registries False demo_world0 =
       Inr (np, config, joined) \<and> joined = ''https://a:9345''"
proof -
  have i: "\<not> isInitNode demo_worker"
    by (simp add: role_defs entry_label_def demo_worker_def key_defs)
  have "\<exists>np config joined. addConfigFile demo_config empty_plan demo_cp demo_worker demo_tokens ''https://a:9345'' no_registries False demo_world0 =
       Inr (np, config, joined)"
    by (rule sum_InrI) code_simp
  then obtain np config joined where run: "addConfigFile demo_config empty_plan demo_cp demo_worker demo_tokens ''https://a:9345'' no_registries False demo_world0 =
       Inr (np, config, joined)"
    by blast
  from addConfigFile_server [OF run] run i show ?thesis by simp
qed

section \<open>Authorised objects and secret references\<close>

definition authorised :: "smap \<Rightarrow> string \<Rightarrow> string \<Rightarrow> bool" where
  "authorised annotations annotation clusterName \<longleftrightarrow>
     annotation \<noteq> '''' \<and> clusterName \<noteq> '''' \<and> clusterName \<in> set (Split (gets annotations annotation) '','')"

lemma clusterObjectAuthorized_eq:
  "clusterObjectAuthorized (Some a) k n = (authorised a k n, k \<noteq> '''' \<and> n \<noteq> '''')"
  by (auto simp: clusterObjectAuthorized_def authorised_def Let_def)

text \<open>
  An object is authorised for a cluster exactly when the cluster's name is one of the
  comma-separated values of the annotation. The second result, documented to tell whether
  the annotation has a value, is true even for an object without the annotation: splitting
  the empty text gives one empty piece.
\<close>

theorem clusterObjectAuthorized_found_always:
  "fst (clusterObjectAuthorized (Some a) k n) =
     (k \<noteq> '''' \<and> n \<noteq> '''' \<and> n \<in> set (Split (gets a k) '','')) \<and>
   snd (clusterObjectAuthorized (Some Map.empty) AuthorizedObjectAnnotation ''cluster'')"
  by (simp add: clusterObjectAuthorized_eq authorised_def AuthorizedObjectAnnotation_def)

text \<open>Where a rendered file comes from.\<close>

definition from_object :: "('w, 'z) config_env_scheme \<Rightarrow> RKEControlPlane \<Rightarrow> 'w \<Rightarrow> plan_file \<Rightarrow> bool" where
  "from_object E cp w f \<longleftrightarrow>
     (\<exists>n sec k. k_SecretCacheGet E (cp_Namespace cp) n w = Inr sec \<and>
        authorised (s_Annotations sec) AuthorizedObjectAnnotation (cp_Name cp) \<and>
        f_Content f = b64_encode (gets (s_Data sec) k)) \<or>
     (\<exists>n cm k. k_ConfigMapGet E (cp_Namespace cp) n w = Inr cm \<and>
        authorised (cm_Annotations cm) AuthorizedObjectAnnotation (cp_Name cp) \<and>
        f_Content f = b64_encode (gets (cm_Data cm) k))"

lemma render_items_content:
  "render_items E kind n data p items = Inr fs \<Longrightarrow> f \<in> set fs \<Longrightarrow> \<exists>k. f_Content f = b64_encode (gets data k)"
  by (induction items arbitrary: fs)
     (auto simp: Let_def sbind_eq_Inr_iff plain_file_def split: if_splits, blast+)

lemma render_source_authorised:
  "render_secret_source E cp src w = Inr fs \<Longrightarrow> f \<in> set fs \<Longrightarrow> from_object E cp w f"
  "render_configmap_source E cp src w = Inr fs \<Longrightarrow> f \<in> set fs \<Longrightarrow> from_object E cp w f"
  unfolding render_secret_source_def render_configmap_source_def from_object_def
  by (auto simp: clusterObjectAuthorized_eq dest!: render_items_content split: if_splits sum.splits, blast+)

lemma render_sources_authorised:
  "render_sources E cp srcs w = Inr fs \<Longrightarrow> f \<in> set fs \<Longrightarrow> from_object E cp w f"
proof (induction srcs arbitrary: fs)
  case (Cons src srcs)
  from Cons.prems obtain a b c where "fs = a @ b @ c" "render_secret_source E cp (fs_Secret src) w = Inr a"
    "render_configmap_source E cp (fs_ConfigMap src) w = Inr b" "render_sources E cp srcs w = Inr c"
    by (auto simp: sbind_eq_Inr_iff split: if_splits)
  with Cons.prems(2) Cons.IH render_source_authorised show ?case by fastforce
qed simp

lemma render_selected_authorised:
  "render_selected E cp e ms w = Inr fs \<Longrightarrow> f \<in> set fs \<Longrightarrow> from_object E cp w f"
proof (induction ms arbitrary: fs)
  case (Cons m ms)
  from Cons.prems obtain b a c where "fs = a @ c"
    "(if b then render_sources E cp (pf_FileSources m) w else Inr []) = Inr a" "render_selected E cp e ms w = Inr c"
    by (auto simp: sbind_eq_Inr_iff)
  with Cons.prems(2) Cons.IH render_sources_authorised show ?case by (fastforce split: if_splits)
qed simp

text \<open>
  Every file a machine gets from user-named secrets and config maps is the content of a
  key of an object in the cluster's namespace that authorises the cluster by its annotation.
\<close>

theorem renderFiles_authorised:
  assumes "renderFiles E cp e w = Inr fs"
  shows "\<forall>f \<in> set fs. from_object E cp w f"
  using assms render_selected_authorised by (fastforce simp: renderFiles_def)

definition demo_file_secret :: secret where
  "demo_file_secret = \<lparr>s_Namespace = ''fleet-default'', s_Name = ''files'', s_Type = ''Opaque'', s_Labels = Map.empty,
     s_Annotations = [AuthorizedObjectAnnotation \<mapsto> ''other,demo''], s_Data = [''k'' \<mapsto> ''content'']\<rparr>"

definition demo_file_cp :: RKEControlPlane where
  "demo_file_cp = demo_cp\<lparr>cp_Name := ''demo'', cp_Spec := demo_spec\<lparr>sp_MachineSelectorFiles :=
     [\<lparr>pf_Selector = None, pf_FileSources =
         [\<lparr>fs_Secret = \<lparr>kf_Name = ''files'', kf_Items = [\<lparr>kp_Key = ''k'', kp_Path = ''/etc/k'', kp_Dynamic = False,
              kp_Permissions = '''', kp_Hash = ''''\<rparr>], kf_DefaultPermissions = ''0600''\<rparr>,
           fs_ConfigMap = \<lparr>kf_Name = '''', kf_Items = [], kf_DefaultPermissions = ''''\<rparr>\<rparr>]\<rparr>]\<rparr>\<rparr>"

theorem renderFiles_authorised_witness:
  "\<exists>f. renderFiles demo_config demo_file_cp demo_worker [''files'' \<mapsto> demo_file_secret] = Inr [f] \<and>
       from_object demo_config demo_file_cp [''files'' \<mapsto> demo_file_secret] f"
proof -
  have "(case renderFiles demo_config demo_file_cp demo_worker [''files'' \<mapsto> demo_file_secret] of
           Inr fs \<Rightarrow> length fs = 1 | Inl _ \<Rightarrow> False)"
    by code_simp
  then obtain f where run: "renderFiles demo_config demo_file_cp demo_worker [''files'' \<mapsto> demo_file_secret] = Inr [f]"
    by (auto simp: length_Suc_conv split: sum.splits)
  from renderFiles_authorised [OF run] run show ?thesis by simp
qed

lemma ReplaceAll_prefix:
  assumes "old \<noteq> []" "\<not> Contains s old"
  shows "ReplaceAll (old @ s) old [] = s"
proof -
  have "Cut (old @ s) old = Some ([], s)"
    using assms(1) by (cases "old @ s") (simp_all add: HasPrefix_def, metis append_eq_conv_conj)
  moreover have "ReplaceAll s old [] = s"
    using assms by (simp add: ReplaceAll.simps [of s] Cut_None_iff [THEN iffD2])
  ultimately show ?thesis using assms(1) by (simp add: ReplaceAll.simps [of "old @ s"])
qed

lemma Split_two: "c \<notin> set a \<Longrightarrow> c \<notin> set b \<Longrightarrow> Split (a @ c # b) [c] = [a, b]"
proof -
  assume a: "c \<notin> set a" and b: "c \<notin> set b"
  then have "\<not> Contains b [c]" by (auto simp: Contains_iff)
  then have "Split b [c] = [b]" by (simp add: Split.simps [of b] Cut_None_iff [THEN iffD2])
  with Cut_single [OF a] show ?thesis by (simp add: Split.simps [of "a @ c # b"])
qed

text \<open>
  A secret reference is read back as it is written: for a namespace and a name that are
  not empty and hold neither a colon nor a slash, \<open>secret://namespace:name\<close> is recognised and
  gives that namespace and name.
\<close>

theorem checkForSecretFormat_roundtrip:
  assumes "ns \<noteq> ''''" "n \<noteq> ''''" "CHR '':'' \<notin> set ns" "CHR '':'' \<notin> set n" "CHR ''/'' \<notin> set n"
  shows "checkForSecretFormat field (''secret://'' @ ns @ '':'' @ n) = (True, ns, n, None)"
proof -
  have "\<not> Contains (ns @ CHR '':'' # n) ''secret://''"
  proof
    assume "Contains (ns @ CHR '':'' # n) ''secret://''"
    then obtain a b where "ns @ CHR '':'' # n = (a @ ''secret'') @ CHR '':'' # (''//'' @ b)"
      by (auto simp: Contains_iff)
    then have "n = ''//'' @ b" using assms(3,4) append_Cons_eq_iff [of "CHR '':''" ns n] by blast
    with assms(5) show False by simp
  qed
  then have "ReplaceAll (''secret://'' @ ns @ '':'' @ n) ''secret://'' '''' = ns @ CHR '':'' # n"
    using ReplaceAll_prefix [of "''secret://''" "ns @ CHR '':'' # n"] by simp
  moreover have "HasPrefix (''secret://'' @ ns @ '':'' @ n) ''secret://''" by (rule HasPrefix_append)
  ultimately show ?thesis
    using assms Split_two [of "CHR '':''" ns n] unfolding checkForSecretFormat_def by (simp only: if_True) simp
qed

theorem checkForSecretFormat_roundtrip_witness:
  "checkForSecretFormat ''f'' (''secret://'' @ ''fleet-default'' @ '':'' @ ''cloud'') = (True, ''fleet-default'', ''cloud'', None)"
  by (rule checkForSecretFormat_roundtrip) simp_all

end
