(* ===== verification/Node_Plan.thy ===== *)
theory Node_Plan
  imports Node_Config_Correct
begin

text \<open>
  A node's desired plan: the idempotent instructions (\<open>planner/idempotent.go\<close>), the install
  and periodic instructions (\<open>planner/instructions.go\<close>), the probes (\<open>planner/probe.go\<close>) and
  their assembly by \<open>generatePlanWithConfigFiles\<close> and \<open>desiredPlan\<close> of \<open>planner/planner.go\<close>.
\<close>

section \<open>Idempotent instructions\<close>

definition Lines :: "string list \<Rightarrow> string" where
  "Lines ls = concat (map (\<lambda>l. l @ newline) ls)"

definition tab :: string where
  "tab = [CHR 0x09]"

definition idempotentActionScript :: string where
  "idempotentActionScript = Lines
     ['''', ''#!/bin/sh'', '''', ''currentHash=\"\"'', ''key=$1'', ''targetHash=$2'', ''hashedCmd=$3'', ''cmd=$4'',
      ''shift 4'', '''',
      ''dataRoot=\"/var/lib/rancher/capr/idempotence/$key/$hashedCmd/$targetHash\"'',
      ''attemptFile=\"$dataRoot/last-attempt\"'', '''',
      ''currentAttempt=$(cat \"$attemptFile\" || echo \"-1\")'', '''',
      ''if [ \"$currentAttempt\" != \"$CATTLE_AGENT_ATTEMPT_NUMBER\" ]; then'',
      tab @ ''mkdir -p \"$dataRoot\"'',
      tab @ ''echo \"$CATTLE_AGENT_ATTEMPT_NUMBER\" > \"$attemptFile\"'',
      tab @ ''exec \"$cmd\" \"$@\"'',
      ''else'',
      tab @ ''echo \"action has already been reconciled to the target hash $targetHash at attempt $currentAttempt\"'',
      ''fi'']"

definition idempotentActionScriptPath :: string where
  "idempotentActionScriptPath = ''/var/lib/rancher/capr/idempotence/idempotent.sh''"

definition idempotentScriptFile :: plan_file where
  "idempotentScriptFile = (plain_file (b64_encode idempotentActionScript) idempotentActionScriptPath)
     \<lparr>f_Dynamic := True, f_Minor := True\<rparr>"

definition generateIdempotencyCleanupInstruction :: "string \<Rightarrow> one_time_instruction" where
  "generateIdempotencyCleanupInstruction key =
     (if key = '''' then empty_instruction
      else empty_instruction\<lparr>i_Name := ''remove idempotency tracking'', i_Command := ''/bin/sh'',
             i_Args := [''-c'', ''rm -rf /var/lib/rancher/capr/idempotence/'' @ key]\<rparr>)"

definition idempotentInstruction ::
  "'z libs_scheme \<Rightarrow> string \<Rightarrow> string \<Rightarrow> string \<Rightarrow> string list \<Rightarrow> string list \<Rightarrow> one_time_instruction" where
  "idempotentInstruction E identifier value' command args env =
     (let hashedCommand = PlanHash E command; hashedValue = PlanHash E value' in
      empty_instruction\<lparr>i_Name := ''idempotent-'' @ identifier @ ''-'' @ hashedValue @ ''-'' @ hashedCommand,
        i_Command := ''/bin/sh'',
        i_Args := [''-x'', idempotentActionScriptPath, ToLower identifier, hashedValue, hashedCommand, command] @ args,
        i_Env := env\<rparr>)"

definition convertToIdempotentInstruction ::
  "'z libs_scheme \<Rightarrow> string \<Rightarrow> string \<Rightarrow> one_time_instruction \<Rightarrow> one_time_instruction" where
  "convertToIdempotentInstruction E identifier value' instruction =
     (idempotentInstruction E identifier value' (i_Command instruction) (i_Args instruction) (i_Env instruction))
       \<lparr>i_Image := i_Image instruction, i_SaveOutput := i_SaveOutput instruction\<rparr>"

definition idempotentRestartInstructions ::
  "'z libs_scheme \<Rightarrow> string \<Rightarrow> string \<Rightarrow> string \<Rightarrow> one_time_instruction list" where
  "idempotentRestartInstructions E identifier value' runtimeUnit =
     [idempotentInstruction E (identifier @ ''-reset-failed'') value' ''/bin/sh''
        [''-c'', ''if [ $(systemctl is-failed '' @ runtimeUnit @ '') = failed ]; then systemctl reset-failed '' @
                runtimeUnit @ ''; fi''] [],
      idempotentInstruction E (identifier @ ''-restart'') value' ''systemctl'' [''restart'', runtimeUnit] []]"

section \<open>Install and periodic instructions\<close>

definition getInstallerImage :: "('w, 'z) config_env_scheme \<Rightarrow> RKEControlPlane \<Rightarrow> string" where
  "getInstallerImage E controlPlane =
     k_ImageResolver E
       (k_SystemAgentImage E @ runtime_of controlPlane @ '':'' @
        ReplaceAll (sp_KubernetesVersion (cp_Spec controlPlane)) ''+'' ''-'') controlPlane"

definition env_var :: "string \<Rightarrow> string \<Rightarrow> string \<Rightarrow> string" where
  "env_var cattleOS name value' =
     (if cattleOS = WindowsMachineOS then ''$env:'' @ name @ ''=\"'' @ value' @ ''\"'' else name @ ''='' @ value')"

definition generateInstallInstruction ::
  "('w, 'z) config_env_scheme \<Rightarrow> RKEControlPlane \<Rightarrow> planEntry \<Rightarrow> string list \<Rightarrow> one_time_instruction" where
  "generateInstallInstruction E controlPlane entry env0 =
     (let img = getInstallerImage E controlPlane;
          cattleOS = entry_label entry CattleOSLabel;
          env = env0 @ List.map_filter (\<lambda>(n, v). if v = '''' then None else Some (env_var cattleOS n v))
                         (sp_AgentEnvVars (cp_Spec controlPlane));
          instruction = (if cattleOS = WindowsMachineOS
            then empty_instruction\<lparr>i_Name := ''install'', i_Image := img, i_Command := ''powershell.exe'',
                   i_Args := [''-File'', ''run.ps1''], i_Env := env\<rparr>
            else empty_instruction\<lparr>i_Name := ''install'', i_Image := img, i_Command := ''sh'',
                   i_Args := [''-c'', ''run.sh''], i_Env := env\<rparr>) in
      if isOnlyWorker entry
      then instruction\<lparr>i_Env := i_Env instruction @
             [env_var cattleOS (''INSTALL_'' @ GetRuntimeEnv (sp_KubernetesVersion (cp_Spec controlPlane)) @ ''_EXEC'') ''agent'']\<rparr>
      else instruction)"

definition addInstallInstructionWithRestartStamp ::
  "('w, 'z) config_env_scheme \<Rightarrow> node_plan \<Rightarrow> RKEControlPlane \<Rightarrow> planEntry \<Rightarrow> go_error + node_plan" where
  "addInstallInstructionWithRestartStamp E nodePlan controlPlane entry =
     (let stamp = restartStamp E nodePlan controlPlane (getInstallerImage E controlPlane);
          instEnv = [env_var (entry_label entry CattleOSLabel) ''RESTART_STAMP'' stamp] in
      Inr (nodePlan\<lparr>np_Instructions := np_Instructions nodePlan @
             [generateInstallInstruction E controlPlane entry instEnv]\<rparr>))"

definition generateInstallInstructionWithSkipStart ::
  "('w, 'z) config_env_scheme \<Rightarrow> RKEControlPlane \<Rightarrow> planEntry \<Rightarrow> one_time_instruction" where
  "generateInstallInstructionWithSkipStart E controlPlane entry =
     generateInstallInstruction E controlPlane entry
       [env_var (entry_label entry CattleOSLabel) (''INSTALL_'' @ ToUpper (runtime_of controlPlane) @ ''_SKIP_START'') ''true'']"

definition periodic_sh :: "string \<Rightarrow> string \<Rightarrow> periodic_instruction" where
  "periodic_sh name command =
     empty_periodic\<lparr>pi_Name := name, pi_Command := ''sh'', pi_Args := [''-c'', command], pi_PeriodSeconds := 600\<rparr>"

definition add_periodic :: "periodic_instruction list \<Rightarrow> node_plan \<Rightarrow> node_plan" where
  "add_periodic is np = np\<lparr>np_PeriodicInstructions := np_PeriodicInstructions np @ is\<rparr>"

definition addInitNodePeriodicInstruction :: "node_plan \<Rightarrow> RKEControlPlane \<Rightarrow> go_error + node_plan" where
  "addInitNodePeriodicInstruction nodePlan controlPlane =
     Inr (add_periodic
       [periodic_sh captureAddressInstructionName
          (''curl -f --retry 100 --retry-delay 5 --cacert /var/lib/rancher/'' @ runtime_of controlPlane @
           ''/server/tls/server-ca.crt https://localhost:'' @
           Itoa (GetRuntimeSupervisorPort (sp_KubernetesVersion (cp_Spec controlPlane))) @
           ''/db/info | grep '' @ quoted ''clientURLs''),
        periodic_sh etcdNameInstructionName
          (''cat /var/lib/rancher/'' @ runtime_of controlPlane @ ''/server/db/etcd/name'')] nodePlan)"

definition addEtcdSnapshotListLocalPeriodicInstruction :: "node_plan \<Rightarrow> RKEControlPlane \<Rightarrow> go_error + node_plan" where
  "addEtcdSnapshotListLocalPeriodicInstruction nodePlan controlPlane =
     Inr (add_periodic [periodic_sh ''etcd-snapshot-list-local''
       (runtime_of controlPlane @ '' etcd-snapshot list --etcd-s3=false 2>/dev/null'')] nodePlan)"

definition addEtcdSnapshotListS3PeriodicInstruction :: "node_plan \<Rightarrow> RKEControlPlane \<Rightarrow> go_error + node_plan" where
  "addEtcdSnapshotListS3PeriodicInstruction nodePlan controlPlane =
     Inr (add_periodic [periodic_sh ''etcd-snapshot-list-s3''
       (runtime_of controlPlane @ '' etcd-snapshot list --etcd-s3 2>/dev/null'')] nodePlan)"

section \<open>Probes\<close>

definition http_probe :: "string \<Rightarrow> string \<Rightarrow> string \<Rightarrow> string \<Rightarrow> probe" where
  "http_probe url caCert clientCert clientKey =
     \<lparr>pr_Name = '''', pr_InitialDelaySeconds = 1, pr_TimeoutSeconds = 5, pr_SuccessThreshold = 1,
      pr_FailureThreshold = 2,
      pr_HTTPGetAction = \<lparr>hg_URL = url, hg_Insecure = False, hg_ClientCert = clientCert, hg_ClientKey = clientKey,
        hg_CACert = caCert\<rparr>\<rparr>"

definition empty_probe :: probe where
  "empty_probe = \<lparr>pr_Name = '''', pr_InitialDelaySeconds = 0, pr_TimeoutSeconds = 0, pr_SuccessThreshold = 0,
     pr_FailureThreshold = 0,
     pr_HTTPGetAction = \<lparr>hg_URL = '''', hg_Insecure = False, hg_ClientCert = '''', hg_ClientKey = '''', hg_CACert = ''''\<rparr>\<rparr>"

definition allProbes :: "string \<Rightarrow> probe option" where
  "allProbes =
     [''calico'' \<mapsto> http_probe ''http://%s:9099/liveness'' '''' '''' '''',
      ''etcd'' \<mapsto> http_probe ''http://%s:2381/health'' '''' '''' '''',
      ''kube-apiserver'' \<mapsto> http_probe ''https://%s:6443/readyz'' ''/var/lib/rancher/%s/server/tls/server-ca.crt''
         ''/var/lib/rancher/%s/server/tls/client-kube-apiserver.crt''
         ''/var/lib/rancher/%s/server/tls/client-kube-apiserver.key'',
      ''kube-scheduler'' \<mapsto> http_probe ''https://%s:%s/healthz'' '''' '''' '''',
      ''kube-controller-manager'' \<mapsto> http_probe ''https://%s:%s/healthz'' '''' '''' '''',
      ''kubelet'' \<mapsto> http_probe ''http://%s:10248/healthz'' '''' '''' '''']"

definition isCalico :: "('w, 'z) config_env_scheme \<Rightarrow> RKEControlPlane \<Rightarrow> string \<Rightarrow> bool" where
  "isCalico E controlPlane runtime =
     (if runtime \<noteq> RuntimeRKE2 then False
      else let cni = k_ToString E (cfg_get (sp_MachineGlobalConfig (cp_Spec controlPlane)) ''cni'') in
           cni = '''' \<or> cni = ''calico'' \<or> cni = ''calico+multus'')"

definition replaceCACertAndPortForProbes :: "probe \<Rightarrow> string \<Rightarrow> string \<Rightarrow> string \<Rightarrow> go_error + probe" where
  "replaceCACertAndPortForProbes probe cacert host port =
     (if cacert = '''' then Inl (ErrOther ''cacert cannot be empty'')
      else if port = '''' then Inl (ErrOther ''port cannot be empty'')
      else if host = '''' then Inl (ErrOther ''address cannot be empty'')
      else Inr (probe\<lparr>pr_HTTPGetAction := (pr_HTTPGetAction probe)
             \<lparr>hg_CACert := cacert, hg_URL := Sprintf (hg_URL (pr_HTTPGetAction probe)) [host, port]\<rparr>\<rparr>))"

definition replaceIfFormatSpecifier :: "string \<Rightarrow> string \<Rightarrow> string" where
  "replaceIfFormatSpecifier str runtime = (if \<not> Contains str ''%s'' then str else Sprintf str [runtime])"

definition replaceRuntimeForProbes :: "(string \<times> probe) list \<Rightarrow> string \<Rightarrow> (string \<times> probe) list" where
  "replaceRuntimeForProbes probes runtime =
     map (\<lambda>(k, v). let g = pr_HTTPGetAction v in
       (k, v\<lparr>pr_HTTPGetAction := g\<lparr>hg_CACert := replaceIfFormatSpecifier (hg_CACert g) runtime,
               hg_ClientCert := replaceIfFormatSpecifier (hg_ClientCert g) runtime,
               hg_ClientKey := replaceIfFormatSpecifier (hg_ClientKey g) runtime\<rparr>\<rparr>)) probes"

definition replaceURLForProbes :: "(string \<times> probe) list \<Rightarrow> string \<Rightarrow> (string \<times> probe) list" where
  "replaceURLForProbes probes loopbackAddress =
     map (\<lambda>(k, v). let g = pr_HTTPGetAction v in
       (k, v\<lparr>pr_HTTPGetAction := g\<lparr>hg_URL := replaceIfFormatSpecifier (hg_URL g) loopbackAddress\<rparr>\<rparr>)) probes"

definition renderSecureProbe ::
  "json \<Rightarrow> probe \<Rightarrow> string \<Rightarrow> string \<Rightarrow> string \<Rightarrow> string \<Rightarrow> string \<Rightarrow> go_error + probe" where
  "renderSecureProbe arg rawProbe runtime loopbackAddress defaultSecurePort defaultCertDir defaultCert =
     (let securePort0 = getArgValue arg SecurePortArgument ''='';
          securePort = (if securePort0 = '''' then defaultSecurePort else securePort0);
          TLSCert0 = getArgValue arg TLSCertFileArgument ''='';
          certDir0 = getArgValue arg CertDirArgument ''='';
          certDir = (if certDir0 = '''' then Sprintf defaultCertDir [runtime] else certDir0);
          TLSCert = (if TLSCert0 = '''' then certDir @ ''/'' @ defaultCert else TLSCert0) in
      replaceCACertAndPortForProbes rawProbe TLSCert loopbackAddress securePort)"

text \<open>The probes a machine gets, by its roles and the runtime.\<close>

definition probe_names :: "('w, 'z) config_env_scheme \<Rightarrow> RKEControlPlane \<Rightarrow> planEntry \<Rightarrow> string list" where
  "probe_names E controlPlane entry =
     (let runtime = runtime_of controlPlane in
      (if runtime \<noteq> RuntimeK3S \<and> isEtcd entry then [''etcd''] else []) @
      (if isControlPlane entry then [''kube-apiserver'', ''kube-controller-manager'', ''kube-scheduler''] else []) @
      (if \<not> (IsOnlyEtcd entry \<and> runtime = RuntimeK3S) then [''kubelet''] else []) @
      (if \<not> IsOnlyEtcd entry \<and> isCalico E controlPlane runtime \<and> roleNot windows entry then [''calico''] else []))"

definition probe_get :: "(string \<times> probe) list \<Rightarrow> string \<Rightarrow> probe" where
  "probe_get probes k = (case map_of probes k of None \<Rightarrow> empty_probe | Some p \<Rightarrow> p)"

definition generateProbes ::
  "('w, 'z) config_env_scheme \<Rightarrow> RKEControlPlane \<Rightarrow> planEntry \<Rightarrow> config \<Rightarrow> go_error + (string \<times> probe) list" where
  "generateProbes E controlPlane entry config =
     (let runtime = runtime_of controlPlane;
          probes0 = foldl (\<lambda>ps n. gm_put n (case allProbes n of None \<Rightarrow> empty_probe | Some p \<Rightarrow> p) ps) []
                      (probe_names E controlPlane entry);
          probes1 = replaceRuntimeForProbes probes0 runtime;
          loopbackAddress = GetLoopbackAddress controlPlane in
      sbind
        (if isControlPlane entry then
           sbind (renderSecureProbe (cfg_get config KubeControllerManagerArg) (probe_get probes1 ''kube-controller-manager'')
                    runtime loopbackAddress DefaultKubeControllerManagerDefaultSecurePort
                    DefaultKubeControllerManagerCertDir DefaultKubeControllerManagerCert) (\<lambda>kcmProbe.
           let probes2 = gm_put ''kube-controller-manager'' kcmProbe probes1 in
           sbind (renderSecureProbe (cfg_get config KubeSchedulerArg) (probe_get probes2 ''kube-scheduler'')
                    runtime loopbackAddress DefaultKubeSchedulerDefaultSecurePort
                    DefaultKubeSchedulerCertDir DefaultKubeSchedulerCert) (\<lambda>ksProbe.
             Inr (gm_put ''kube-scheduler'' ksProbe probes2)))
         else Inr probes1)
        (\<lambda>probes. Inr (replaceURLForProbes probes loopbackAddress)))"

section \<open>The desired plan\<close>

definition generatePlanWithConfigFiles ::
  "('w, 'z) config_env_scheme \<Rightarrow> RKEControlPlane \<Rightarrow> plan_secret \<Rightarrow> planEntry \<Rightarrow> string \<Rightarrow> bool \<Rightarrow> 'w \<Rightarrow>
   go_error + (node_plan \<times> config \<times> string)" where
  "generatePlanWithConfigFiles E controlPlane tokensSecret entry joinServer renderS3 w =
     (if sp_UnmanagedConfig (cp_Spec controlPlane) then Inr (empty_plan, [], '''')
      else
        sbind (commonNodePlan E controlPlane empty_plan w) (\<lambda>(np1, reg).
        sbind (addConfigFile E np1 controlPlane entry tokensSecret joinServer reg renderS3 w) (\<lambda>(np2, config, joinedServer).
        sbind (addManifests E np2 controlPlane entry w) (\<lambda>np3.
        sbind (addChartConfigs E np3 controlPlane entry) (\<lambda>np4.
        sbind (addOtherFiles np4 controlPlane entry) (\<lambda>np5.
          Inr (add_files [idempotentScriptFile] np5, config, joinedServer)))))))"

definition desiredPlan ::
  "('w, 'z) config_env_scheme \<Rightarrow> RKEControlPlane \<Rightarrow> plan_secret \<Rightarrow> planEntry \<Rightarrow> string \<Rightarrow> 'w \<Rightarrow>
   go_error + (node_plan \<times> string)" where
  "desiredPlan E controlPlane tokensSecret entry joinServer w =
     sbind (generatePlanWithConfigFiles E controlPlane tokensSecret entry joinServer True w) (\<lambda>(np1, config, joinedTo).
     sbind (generateProbes E controlPlane entry config) (\<lambda>probes.
     sbind (addInstallInstructionWithRestartStamp E (np1\<lparr>np_Probes := probes\<rparr>) controlPlane entry) (\<lambda>np2.
     sbind (if isInitNode entry \<and> IsOnlyEtcd entry \<and>
               (case pe_Metadata entry of None \<Rightarrow> None | Some md \<Rightarrow> md_Annotations md JoinURLAutosetDisabled) = None
            then addInitNodePeriodicInstruction np2 controlPlane else Inr np2) (\<lambda>np3.
     sbind (if isEtcd entry then
              sbind (addEtcdSnapshotListLocalPeriodicInstruction np3 controlPlane) (\<lambda>np4.
                case sp_ETCD (cp_Spec controlPlane) of
                  None \<Rightarrow> Inr np4
                | Some et \<Rightarrow> if S3Enabled (etcd_S3 et) \<and> isInitNode entry
                             then addEtcdSnapshotListS3PeriodicInstruction np4 controlPlane else Inr np4)
            else Inr np3) (\<lambda>np5.
       Inr (np5, joinedTo))))))"

end
