(* ===== verification/Init_Node.thy ===== *)
theory Init_Node
  imports Plan_Store_Correct
begin

text \<open>
  Election of the init node (\<open>planner/initnode.go\<close>): the etcd machine that bootstraps the
  cluster carries a label on its plan secret. A call that changed a label returns
  \<open>generic.ErrSkip\<close>, so that the next pass sees the change. The calls run on the state of
  the pass, since clearing and setting a mark changes the metadata the plan shares.
\<close>

section \<open>Marks\<close>

definition clearInitNodeMark ::
  "('w, 'z) store_env_scheme \<Rightarrow> planEntry \<Rightarrow> 'w \<Rightarrow> err \<times> planEntry \<times> 'w" where
  "clearInitNodeMark E entry w =
     (case pe_Metadata entry of
        None \<Rightarrow> (Some (GoPanic ''nil metadata''), entry, w)
      | Some md \<Rightarrow>
          if gets (md_Labels md) InitNodeLabel = '''' then (None, entry, w)
          else (case removePlanSecretLabel E entry InitNodeLabel w of
                  (Some e, entry', w') \<Rightarrow> (Some e, entry', w')
                | (None, entry', w') \<Rightarrow> (Some ErrSkip, entry', w')))"

definition setInitNodeMark ::
  "('w, 'z) store_env_scheme \<Rightarrow> planEntry \<Rightarrow> 'w \<Rightarrow> err \<times> planEntry \<times> 'w" where
  "setInitNodeMark E entry w =
     (case pe_Metadata entry of
        None \<Rightarrow> (Some (GoPanic ''nil metadata''), entry, w)
      | Some md \<Rightarrow>
          if gets (md_Labels md) InitNodeLabel = ''true'' then (None, entry, w)
          else (case updatePlanSecretLabelsAndAnnotations E
                       (entry\<lparr>pe_Metadata := Some (md\<lparr>md_Labels := (md_Labels md)(InitNodeLabel \<mapsto> ''true'')\<rparr>)\<rparr>) w of
                  (Some e, entry', w') \<Rightarrow> (Some e, entry', w')
                | (None, entry', w') \<Rightarrow> (Some ErrSkip, entry', w')))"

text \<open>
  A loop that clears marks: it stops at the first error other than \<open>ErrSkip\<close> and says
  whether any call returned \<open>ErrSkip\<close>.
\<close>

fun clear_marks ::
  "('w, 'z) store_env_scheme \<Rightarrow> planEntry list \<Rightarrow> bool \<Rightarrow> 'w pstate \<Rightarrow> (go_error + bool) \<times> 'w pstate" where
  "clear_marks E [] cachesInvalidated s = (Inr cachesInvalidated, s)"
| "clear_marks E (entry # es) cachesInvalidated s =
     (case on_entry (clearInitNodeMark E) entry s of
        (None, _, s') \<Rightarrow> clear_marks E es cachesInvalidated s'
      | (Some e, _, s') \<Rightarrow>
          if is_ErrSkip e then clear_marks E es True s' else (Inl e, s'))"

section \<open>Finding the init node\<close>

definition findAndDesignateFixedInitNode ::
  "('w, 'z) store_env_scheme \<Rightarrow> RKEControlPlane \<Rightarrow> 'w pstate \<Rightarrow> (bool \<times> string \<times> planEntry option \<times> err) \<times> 'w pstate" where
  "findAndDesignateFixedInitNode E rkeControlPlane s =
     (let fixedMachineID = gets (cp_Labels rkeControlPlane) InitNodeMachineIDLabel;
          fail = (\<lambda>e s. ((False, '''', None, Some e), s)) in
      if fixedMachineID = '''' then fail (ErrOther ''fixed machine ID label did not exist on rkecontrolplane'') s
      else
        (case collect (cplan s) (\<lambda>e. pe_Metadata e \<noteq> None \<and> entry_label e MachineIDLabel = fixedMachineID) of
           [] \<Rightarrow> fail (ErrOther (''fixed machine with ID '' @ fixedMachineID @ '' not found'')) s
         | [entry0] \<Rightarrow>
             let joinURL = entry_annotation entry0 JoinURLAnnotation in
             if entry_label entry0 InitNodeLabel \<noteq> ''true'' then
               (case clear_marks E (filter (\<lambda>e. gets (m_Labels (pe_Machine e)) MachineIDLabel \<noteq> fixedMachineID)
                                     (collect (cplan s) isEtcd)) False s of
                  (Inl e, s') \<Rightarrow> fail e s'
                | (Inr cachesInvalidated, s') \<Rightarrow>
                    if cachesInvalidated then fail ErrSkip s'
                    else (case on_entry (setInitNodeMark E) entry0 s' of
                            (r, entry0', s'') \<Rightarrow> ((True, joinURL, Some entry0', r), s'')))
             else ((True, joinURL, Some entry0, None), s)
         | _ \<Rightarrow> fail (ErrOther (''multiple machines found with identical machine ID label '' @ MachineIDLabel @ ''='' @ fixedMachineID)) s))"

text \<open>The loop over the at most one current init node is a case distinction.\<close>

definition findInitNode ::
  "('w, 'z) store_env_scheme \<Rightarrow> RKEControlPlane \<Rightarrow> 'w pstate \<Rightarrow> (bool \<times> string \<times> planEntry option \<times> err) \<times> 'w pstate" where
  "findInitNode E rkeControlPlane s =
     (if gets (cp_Labels rkeControlPlane) InitNodeMachineIDLabel \<noteq> '''' then findAndDesignateFixedInitNode E rkeControlPlane s
      else
        let notFound = ((False, '''', None, Some (ErrOther ''init node not found'')), s) in
        (case collect (cplan s) isInitNode of
           [] \<Rightarrow> notFound
         | [entry] \<Rightarrow>
             if canBeInitNode E entry then
               let joinURL = entry_annotation entry JoinURLAnnotation in
               if joinURL \<noteq> '''' then ((True, joinURL, Some entry, None), s)
               else if \<exists>e \<in> set (collect (cplan s) (canBeInitNode E)). entry_annotation e JoinURLAnnotation \<noteq> ''''
               then ((True, '''', Some entry,
                      Some (ErrOther ''non-populated init node found, but more suitable alternative is available'')), s)
               else ((True, '''', Some entry, None), s)
             else notFound
         | _ \<Rightarrow> ((False, '''', None, Some (ErrOther ''multiple init nodes found'')), s)))"

section \<open>Election\<close>

definition markInitNode ::
  "('w, 'z) store_env_scheme \<Rightarrow> string \<Rightarrow> planEntry \<Rightarrow> 'w pstate \<Rightarrow> (string \<times> err) \<times> 'w pstate" where
  "markInitNode E joinURL entry s =
     (case on_entry (setInitNodeMark E) entry s of (r, _, s') \<Rightarrow> ((joinURL, r), s'))"

text \<open>The re-election, once no init node was found or a more suitable one exists.\<close>

definition reelectInitNode ::
  "('w, 'z) store_env_scheme \<Rightarrow> RKEControlPlane \<Rightarrow> bool \<Rightarrow> 'w pstate \<Rightarrow> (string \<times> err) \<times> 'w pstate" where
  "reelectInitNode E rkeControlPlane allowReelection s =
     (let marked = collect (cplan s) isInitNode in
      if marked \<noteq> [] \<and> \<not> allowReelection
      then (('''', Some (ErrWaiting (''rkecluster '' @ cp_Namespace rkeControlPlane @ ''/'' @
              sp_ClusterName (cp_Spec rkeControlPlane) @ '': re-election of init machine '' @
              m_Namespace (pe_Machine (hd marked)) @ ''/'' @ entry_name (hd marked) @ '' disallowed''))), s)
      else
        (case clear_marks E marked False s of
           (Inl e, s') \<Rightarrow> (('''', Some e), s')
         | (Inr cachesInvalidated, s') \<Rightarrow>
             if cachesInvalidated then (('''', Some ErrSkip), s')
             else
               let possibleInitNodes = collect (cplan s') (canBeInitNode E) in
               (case find (\<lambda>e. entry_annotation e JoinURLAnnotation \<noteq> '''') possibleInitNodes of
                  Some entry \<Rightarrow> markInitNode E (entry_annotation entry JoinURLAnnotation) entry s'
                | None \<Rightarrow>
                    (case possibleInitNodes of
                       fallbackInitNode # _ \<Rightarrow> markInitNode E '''' fallbackInitNode s'
                     | [] \<Rightarrow> (('''', Some (ErrWaiting ''waiting for viable init node'')), s')))))"

definition electInitNode ::
  "('w, 'z) store_env_scheme \<Rightarrow> RKEControlPlane \<Rightarrow> bool \<Rightarrow> 'w pstate \<Rightarrow> (string \<times> err) \<times> 'w pstate" where
  "electInitNode E rkeControlPlane allowReelection s =
     (case findInitNode E rkeControlPlane s of
        ((initNodeFound, joinURL, _, err), s') \<Rightarrow>
          if (initNodeFound \<and> err = None) \<or> err_is is_ErrSkip err then ((joinURL, err), s')
          else if err_is is_panic err then (('''', err), s')
          else if \<not> initNodeFound \<and> gets (cp_Labels rkeControlPlane) InitNodeMachineIDLabel \<noteq> ''''
          then (('''', Some (ErrWaiting (''unable to find designated init node matching machine ID '' @
                  gets (cp_Labels rkeControlPlane) InitNodeMachineIDLabel))), s')
          else reelectInitNode E rkeControlPlane allowReelection s')"

fun designate_loop ::
  "('w, 'z) store_env_scheme \<Rightarrow> string \<Rightarrow> planEntry list \<Rightarrow> bool \<Rightarrow> string \<Rightarrow> bool \<Rightarrow> 'w pstate \<Rightarrow>
   (go_error + bool \<times> string \<times> bool) \<times> 'w pstate" where
  "designate_loop E machineID [] cacheInvalidated joinURL initNodeFound s =
     (Inr (cacheInvalidated, joinURL, initNodeFound), s)"
| "designate_loop E machineID (entry # es) cacheInvalidated joinURL initNodeFound s =
     (if gets (m_Labels (pe_Machine entry)) MachineIDLabel = machineID then
        (case on_entry (setInitNodeMark E) entry s of
           (Some e, _, s') \<Rightarrow>
             if is_ErrSkip e then designate_loop E machineID es True joinURL True s' else (Inl e, s')
         | (None, entry', s') \<Rightarrow>
             designate_loop E machineID es cacheInvalidated (entry_annotation entry' JoinURLAnnotation) True s')
      else
        (case on_entry (clearInitNodeMark E) entry s of
           (Some e, _, s') \<Rightarrow>
             if is_ErrSkip e then designate_loop E machineID es True joinURL initNodeFound s' else (Inl e, s')
         | (None, _, s') \<Rightarrow> designate_loop E machineID es cacheInvalidated joinURL initNodeFound s'))"

definition designateInitNodeByMachineID ::
  "('w, 'z) store_env_scheme \<Rightarrow> RKEControlPlane \<Rightarrow> string \<Rightarrow> 'w pstate \<Rightarrow> (string \<times> err) \<times> 'w pstate" where
  "designateInitNodeByMachineID E rkeControlPlane machineID s =
     (if machineID = '''' then (('''', Some (ErrOther ''machineID cannot be empty when designating init node'')), s)
      else
        (case designate_loop E machineID (collect (cplan s) isEtcd) False '''' False s of
           (Inl e, s') \<Rightarrow> (('''', Some e), s')
         | (Inr (cacheInvalidated, joinURL, initNodeFound), s') \<Rightarrow>
             if \<not> initNodeFound
             then (('''', Some (ErrOther (''rkecluster '' @ cp_Namespace rkeControlPlane @ ''/'' @ cp_Name rkeControlPlane @
                     '': init node with machine ID '' @ machineID @ '' was not found during designation''))), s')
             else if cacheInvalidated then ((joinURL, Some ErrSkip), s')
             else ((joinURL, None), s')))"

section \<open>Facts on marks\<close>

lemma clearInitNodeMark_entry:
  "clearInitNodeMark E e w = (r, e', w') \<Longrightarrow>
     pe_Machine e' = pe_Machine e \<and> (pe_Metadata e' = None) = (pe_Metadata e = None) \<and>
     entry_label e' InitNodeLabel \<in> {'''', entry_label e InitNodeLabel} \<and>
     (r = None \<longrightarrow> e' = e \<and> w' = w \<and> entry_label e InitNodeLabel = '''')"
  by (auto simp: clearInitNodeMark_def removePlanSecretLabel_def entry_label_def Let_def
      dest!: write_plan_secret_entry split: option.splits if_splits prod.splits sum.splits)

lemma setInitNodeMark_entry:
  "setInitNodeMark E e w = (r, e', w') \<Longrightarrow>
     pe_Machine e' = pe_Machine e \<and> (pe_Metadata e' = None) = (pe_Metadata e = None) \<and>
     (r = None \<longrightarrow> e' = e \<and> w' = w \<and> entry_label e InitNodeLabel = ''true'')"
  by (auto simp: setInitNodeMark_def entry_label_def
      dest!: updateSecret_entry split: option.splits if_splits prod.splits)

interpretation clearMark: entry_op "clearInitNodeMark E" for E
  by unfold_locales (auto dest: clearInitNodeMark_entry)

interpretation setMark: entry_op "setInitNodeMark E" for E
  by unfold_locales (auto dest: setInitNodeMark_entry)

definition init_label :: "plan \<Rightarrow> string \<Rightarrow> string" where
  "init_label p n = (case p_Metadata p n of None \<Rightarrow> '''' | Some md \<Rightarrow> gets (md_Labels md) InitNodeLabel)"

lemma isInitNode_plan_entry: "isInitNode (plan_entry p km) \<longleftrightarrow> init_label p (fst km) = ''true''"
  by (simp add: isInitNode_def entry_label_def plan_entry_def init_label_def)

lemma init_label_in_plan: "in_plan p e \<Longrightarrow> init_label p (entry_name e) = entry_label e InitNodeLabel"
  by (simp add: init_label_def entry_label_def in_plan_def)

lemma on_clear_None:
  assumes "on_entry (clearInitNodeMark E) e s = (None, e', s')" "in_plan (cplan s) e"
  shows "s' = s \<and> e' = e \<and> entry_label e InitNodeLabel = ''''"
  using clearInitNodeMark_entry [OF conjunct1 [OF on_entryD [OF assms(1)]]] on_entry_noop [OF assms(1) _ _ assms(2)]
  by simp

lemma on_set_None:
  assumes "on_entry (setInitNodeMark E) e s = (None, e', s')" "in_plan (cplan s) e"
  shows "s' = s \<and> e' = e \<and> entry_label e InitNodeLabel = ''true''"
  using setInitNodeMark_entry [OF conjunct1 [OF on_entryD [OF assms(1)]]] on_entry_noop [OF assms(1) _ _ assms(2)]
  by simp

lemma on_clear_label:
  assumes "on_entry (clearInitNodeMark E) e s = (r, e', s')" "in_plan (cplan s) e"
  shows "init_label (cplan s') n \<in> {'''', init_label (cplan s) n}"
proof (cases "n = entry_name e")
  case True
  note run = conjunct1 [OF on_entryD [OF assms(1)]]
  have "init_label (cplan s') n = entry_label e' InitNodeLabel"
    using clearMark.on_entry_in_plan [OF assms(1)] True clearMark.op_name [OF run]
    by (metis init_label_in_plan)
  then show ?thesis
    using clearInitNodeMark_entry [OF run] init_label_in_plan [OF assms(2)] True by simp
next
  case False
  then show ?thesis
    using clearMark.on_entry_others [OF assms(1)] by (simp add: init_label_def)
qed

lemma on_clear_others_in_plan:
  assumes "on_entry (clearInitNodeMark E) e s = (r, e', s')" "in_plan (cplan s) d" "entry_name d \<noteq> entry_name e"
  shows "in_plan (cplan s') d"
  using clearMark.on_entry_others [OF assms(1,3)] assms(2) by (simp add: in_plan_def)

lemma clear_marks_label:
  assumes "clear_marks E es c s = (r, s')" "\<forall>e \<in> set es. in_plan (cplan s) e" "distinct (map entry_name es)"
  shows "p_Machines (cplan s') = p_Machines (cplan s) \<and> init_label (cplan s') n \<in> {'''', init_label (cplan s) n}"
  using assms
proof (induction es arbitrary: c s)
  case Nil
  then show ?case by simp
next
  case (Cons e es)
  obtain r1 e1 s1 where run: "on_entry (clearInitNodeMark E) e s = (r1, e1, s1)"
    by (metis surj_pair)
  note lab = on_clear_label [OF run, of n] clearMark.on_entry_machines [OF run]
  have others: "\<forall>d \<in> set es. in_plan (cplan s1) d"
    using on_clear_others_in_plan [OF run] Cons.prems(2,3) by (auto simp: image_iff)
  show ?case
  proof (cases "clear_marks E (e # es) c s = (r, s1)")
    case True
    then show ?thesis using Cons.prems(1,2) lab by simp
  next
    case False
    then obtain c' where "clear_marks E es c' s1 = (r, s')"
      using Cons.prems(1) run by (auto split: option.splits if_splits)
    from Cons.IH [OF this others] Cons.prems(2,3) lab show ?thesis by auto
  qed
qed

lemma clear_marks_InrD:
  assumes "clear_marks E es c s = (Inr b, s')" "\<forall>e \<in> set es. in_plan (cplan s) e" "\<not> b"
  shows "s' = s \<and> (\<forall>e \<in> set es. entry_label e InitNodeLabel = '''')"
  using assms
proof (induction es arbitrary: c s)
  case (Cons e es)
  obtain r1 e1 s1 where run: "on_entry (clearInitNodeMark E) e s = (r1, e1, s1)"
    by (metis surj_pair)
  have stays: "clear_marks E xs True t = (Inr b', t') \<Longrightarrow> b'" for xs t b' t'
    by (induction xs arbitrary: t) (auto split: prod.splits option.splits if_splits)
  have r1: "r1 = None"
    using Cons.prems(1,3) run stays by (auto split: option.splits if_splits)
  with on_clear_None run Cons.prems(2) have "s1 = s" "entry_label e InitNodeLabel = ''''" by fastforce+
  with Cons r1 run show ?case by auto
qed simp

text \<open>A step that marks no machine but, possibly, those named in \<open>N\<close>.\<close>

definition marks_only :: "string set \<Rightarrow> plan \<Rightarrow> plan \<Rightarrow> bool" where
  "marks_only N p p' \<longleftrightarrow>
     p_Machines p' = p_Machines p \<and> (\<forall>n. n \<notin> N \<longrightarrow> init_label p' n \<in> {'''', init_label p n})"

lemma marks_only_refl [simp]: "marks_only N p p"
  by (simp add: marks_only_def)

lemma marks_only_trans: "marks_only N p q \<Longrightarrow> marks_only {} q r \<Longrightarrow> marks_only N p r"
  by (fastforce simp: marks_only_def)

lemma marks_only_isInitNode:
  "marks_only N p p' \<Longrightarrow> fst km \<notin> N \<Longrightarrow> isInitNode (plan_entry p' km) \<Longrightarrow> isInitNode (plan_entry p km)"
  by (fastforce simp: marks_only_def isInitNode_plan_entry)

lemma marks_only_none:
  "marks_only {} p p' \<Longrightarrow> p_Machines p' = p_Machines p \<and>
     (\<forall>km \<in> set (p_Machines p). isInitNode (plan_entry p' km) \<longrightarrow> isInitNode (plan_entry p km))"
  using marks_only_isInitNode [of "{}"] by (auto simp: marks_only_def)

lemma marks_only_one:
  "marks_only {n} p p' \<Longrightarrow> p_Machines p' = p_Machines p \<and>
     (\<forall>km \<in> set (p_Machines p). isInitNode (plan_entry p' km) \<longrightarrow> fst km = n \<or> isInitNode (plan_entry p km))"
  using marks_only_isInitNode [of "{n}"] by (auto simp: marks_only_def)

lemma marks_only_plan_ok: "marks_only N p p' \<Longrightarrow> plan_ok p' = plan_ok p"
  by (simp add: marks_only_def plan_ok_def)

lemma clear_marks_only:
  "clear_marks E es c s = (r, s') \<Longrightarrow> \<forall>e \<in> set es. in_plan (cplan s) e \<Longrightarrow> distinct (map entry_name es) \<Longrightarrow>
     marks_only {} (cplan s) (cplan s')"
  using clear_marks_label unfolding marks_only_def by blast

lemma set_marks_only:
  assumes "on_entry (setInitNodeMark E) e s = (r, e', s')"
  shows "marks_only {entry_name e} (cplan s) (cplan s')"
  using setMark.on_entry_machines [OF assms] setMark.on_entry_others [OF assms]
  by (simp add: marks_only_def init_label_def)

lemma setInitNodeMark_label:
  "setInitNodeMark E e w = (r, e', w') \<Longrightarrow> pe_Metadata e \<noteq> None \<Longrightarrow> entry_label e' InitNodeLabel = ''true''"
  by (auto simp: setInitNodeMark_def entry_label_def dest!: updateSecret_entry split: if_splits prod.splits option.splits)

text \<open>Whatever the update of the secret returns, the metadata in memory keeps the mark that was set.\<close>

lemma set_leaves_mark:
  assumes "on_entry (setInitNodeMark E) e s = (r, e', s')" "plan_ok (cplan s)" "e \<in> set (collect (cplan s) f)"
    "pe_Metadata e \<noteq> None"
  shows "collect (cplan s') isInitNode \<noteq> []"
proof -
  obtain km where km: "km \<in> set (p_Machines (cplan s))" "e = plan_entry (cplan s) km"
    using assms(3) by (auto simp: set_collect)
  note run = conjunct1 [OF on_entryD [OF assms(1)]]
  have "init_label (cplan s') (entry_name e) = entry_label e' InitNodeLabel"
    using setMark.on_entry_in_plan [OF assms(1)] setMark.op_name [OF run] by (metis init_label_in_plan)
  then have "isInitNode (plan_entry (cplan s') km)"
    using setInitNodeMark_label [OF run assms(4)] km entry_name_plan_entry [OF assms(2)]
    by (simp add: isInitNode_plan_entry)
  with km setMark.on_entry_machines [OF assms(1)] show ?thesis
    by (auto simp: collect_empty_iff)
qed

section \<open>The pinned init node\<close>

text \<open>
  A control plane may pin its init node by machine ID (\<open>rke.cattle.io/init-node-machine-id\<close>).
  What an election without error then establishes is weaker: the one machine whose plan
  secret has the ID is marked, whatever other machines are.
\<close>

abbreviation pinnedID :: "RKEControlPlane \<Rightarrow> string" where
  "pinnedID cp \<equiv> gets (cp_Labels cp) InitNodeMachineIDLabel"

abbreviation has_machine_id :: "string \<Rightarrow> roleFilter" where
  "has_machine_id mid \<equiv> \<lambda>e. pe_Metadata e \<noteq> None \<and> entry_label e MachineIDLabel = mid"

definition init_node_elected :: "('w, 'z) store_env_scheme \<Rightarrow> RKEControlPlane \<Rightarrow> plan \<Rightarrow> planEntry \<Rightarrow> bool" where
  "init_node_elected E cp p en \<longleftrightarrow>
     (if pinnedID cp = '''' then collect p isInitNode = [en] \<and> canBeInitNode E en
      else collect p (has_machine_id (pinnedID cp)) = [en] \<and> isInitNode en)"

text \<open>
  Who may be marked by an election, and which machines must not be marked when it marks one:
  all of them, but with a pinned ID only the etcd machines without the ID.
\<close>

definition electable :: "('w, 'z) store_env_scheme \<Rightarrow> RKEControlPlane \<Rightarrow> roleFilter" where
  "electable E cp e \<longleftrightarrow> (if pinnedID cp = '''' then canBeInitNode E e else has_machine_id (pinnedID cp) e)"

definition rival :: "RKEControlPlane \<Rightarrow> roleFilter" where
  "rival cp e \<longleftrightarrow> pinnedID cp = '''' \<or> isEtcd e \<and> gets (m_Labels (pe_Machine e)) MachineIDLabel \<noteq> pinnedID cp"

lemma findFixed_cases:
  assumes ok: "plan_ok (cplan s)" and run: "findAndDesignateFixedInitNode E cp s = ((f, u, eo, r), s')"
  obtains
    (found) en where "f" "r = None" "s' = s" "collect (cplan s) (has_machine_id (pinnedID cp)) = [en]" "isInitNode en"
      "u = entry_annotation en JoinURLAnnotation" "eo = Some en"
  | (kept) "\<not> f" "r \<noteq> None" "marks_only {} (cplan s) (cplan s')"
  | (designated) en en' where "f" "r \<noteq> None" "collect (cplan s) (has_machine_id (pinnedID cp)) = [en]"
      "\<forall>d \<in> set (collect (cplan s) isEtcd). rival cp d \<longrightarrow> \<not> isInitNode d"
      "on_entry (setInitNodeMark E) en s = (r, en', s')"
proof (cases "\<exists>en. pinnedID cp \<noteq> '''' \<and> collect (cplan s) (has_machine_id (pinnedID cp)) = [en] \<and> \<not> isInitNode en")
  case False
  with run found kept show thesis
    by (auto simp: findAndDesignateFixedInitNode_def Let_def isInitNode_def split: list.splits if_splits)
next
  case True
  then obtain en where pin: "pinnedID cp \<noteq> ''''" and one: "collect (cplan s) (has_machine_id (pinnedID cp)) = [en]"
    and unmarked: "\<not> isInitNode en" by blast
  let ?es = "filter (\<lambda>e. gets (m_Labels (pe_Machine e)) MachineIDLabel \<noteq> pinnedID cp) (collect (cplan s) isEtcd)"
  obtain rc sc where clear: "clear_marks E ?es False s = (rc, sc)" by (metis surj_pair)
  have es: "\<forall>e \<in> set ?es. in_plan (cplan s) e" "distinct (map entry_name ?es)"
    using in_plan_collect [OF ok] distinct_map_filter [OF distinct_collect [OF ok]] by auto
  show thesis
  proof (cases "rc = Inr False")
    case False
    with run pin one unmarked clear clear_marks_only [OF clear es] kept show thesis
      by (auto simp: findAndDesignateFixedInitNode_def Let_def isInitNode_def split: sum.splits if_splits)
  next
    case rc: True
    note quiet = clear_marks_InrD [OF clear [unfolded rc] es(1)]
    obtain r1 en1 s1 where set: "on_entry (setInitNodeMark E) en s = (r1, en1, s1)" by (metis surj_pair)
    have "in_plan (cplan s) en" using in_plan_collect [OF ok] one by (metis list.set_intros(1))
    with on_set_None unmarked set have "r1 \<noteq> None" by (metis isInitNode_def option.exhaust)
    moreover have "f" "r = r1" "s' = s1"
      using run pin one unmarked clear rc quiet set
      by (auto simp: findAndDesignateFixedInitNode_def Let_def isInitNode_def)
    ultimately show thesis using one quiet set pin by (intro designated) (auto simp: rival_def isInitNode_def)
  qed
qed

lemma findInitNode_ok:
  assumes "gets (cp_Labels cp) InitNodeMachineIDLabel = ''''" and "findInitNode E cp s = ((True, u, e, None), s')"
  shows "s' = s \<and> (\<exists>en. e = Some en \<and> collect (cplan s) isInitNode = [en] \<and> canBeInitNode E en \<and>
     u = entry_annotation en JoinURLAnnotation \<and>
     (u = '''' \<longrightarrow> (\<forall>d \<in> set (collect (cplan s) (canBeInitNode E)). entry_annotation d JoinURLAnnotation = '''')))"
  using assms
  by (auto simp: findInitNode_def Let_def split: list.splits if_splits)

section \<open>Properties\<close>

text \<open>
  Without a fixed machine ID, \<open>findInitNode\<close> succeeds only with the one machine that is
  marked, which is a live etcd machine with ready infrastructure; it returns that machine's
  join URL, an empty one only when no other candidate has a join URL; and it changes nothing.
\<close>

theorem findInitNode_sound:
  assumes "gets (cp_Labels cp) InitNodeMachineIDLabel = ''''" and "findInitNode E cp s = ((True, u, e, None), s')"
  shows "s' = s \<and> (\<exists>en. e = Some en \<and> collect (cplan s) isInitNode = [en] \<and> canBeInitNode E en \<and>
     u = entry_annotation en JoinURLAnnotation \<and>
     (u = '''' \<longrightarrow> (\<forall>d \<in> set (collect (cplan s) (canBeInitNode E)). entry_annotation d JoinURLAnnotation = '''')))"
  using findInitNode_ok [OF assms] .

definition demo_init_plan :: plan where
  "demo_init_plan = demo_plan\<lparr>p_Metadata := (p_Metadata demo_plan)
     (''a'' \<mapsto> demo_metadata\<lparr>md_Labels := (md_Labels demo_metadata)(InitNodeLabel \<mapsto> ''true'', MachineIDLabel \<mapsto> ''id-a'')\<rparr>)\<rparr>"

definition demo_state :: "demo_world pstate" where
  "demo_state = \<lparr>world = demo_world0, cplan = demo_init_plan\<rparr>"

lemma demo_init_plan_ok [simp]: "plan_ok (cplan demo_state)"
  using demo_plan_ok by (simp add: plan_ok_def demo_state_def demo_init_plan_def)

lemma demo_init_nodes: "map entry_name (collect (cplan demo_state) isInitNode) = [''a'']"
  by code_simp

lemma demo_cp_no_fixed [simp]: "gets (cp_Labels demo_cp) InitNodeMachineIDLabel = ''''"
  by (simp add: demo_cp_def)

theorem findInitNode_sound_witness:
  "\<exists>e. findInitNode demo_store demo_cp demo_state = ((True, ''https://a:9345'', Some e, None), demo_state) \<and>
     collect (cplan demo_state) isInitNode = [e]"
proof -
  have "(case findInitNode demo_store demo_cp demo_state of ((f, u, e, r), _) \<Rightarrow> f \<and> u = ''https://a:9345'' \<and> r = None)"
    by code_simp
  then obtain e s' where run: "findInitNode demo_store demo_cp demo_state = ((True, ''https://a:9345'', e, None), s')"
    by (auto split: prod.splits)
  from findInitNode_sound [OF demo_cp_no_fixed run] run show ?thesis by auto
qed

text \<open>
  When re-election is not allowed, \<open>electInitNode\<close> changes neither a secret nor the plan
  as long as some machine is marked.
\<close>

theorem electInitNode_no_reelection:
  assumes "gets (cp_Labels cp) InitNodeMachineIDLabel = ''''" and "collect (cplan s) isInitNode \<noteq> []"
  shows "snd (electInitNode E cp False s) = s"
proof -
  have "snd (findInitNode E cp s) = s"
    using assms(1) by (auto simp: findInitNode_def Let_def split: list.splits)
  then show ?thesis
    using assms(2) by (auto simp: electInitNode_def reelectInitNode_def Let_def split: prod.splits)
qed

theorem electInitNode_no_reelection_witness:
  "snd (electInitNode demo_store demo_cp False demo_state) = demo_state"
proof (rule electInitNode_no_reelection)
  show "collect (cplan demo_state) isInitNode \<noteq> []" using demo_init_nodes by auto
qed simp

lemma find_collect: "find P (collect p f) = Some e \<Longrightarrow> e \<in> set (collect p f) \<and> P e"
  by (auto simp: find_Some_iff)

lemma markInitNode_marks:
  assumes "markInitNode E u e s = (r, s')" "in_plan (cplan s) e" "entry_label e InitNodeLabel \<noteq> ''true''"
  shows "snd r \<noteq> None \<and> p_Machines (cplan s') = p_Machines (cplan s) \<and>
         (n \<noteq> entry_name e \<longrightarrow> init_label (cplan s') n = init_label (cplan s) n)"
proof -
  obtain r1 e1 s1 where run: "on_entry (setInitNodeMark E) e s = (r1, e1, s1)"
    by (metis surj_pair)
  have "r1 \<noteq> None" using on_set_None run assms(2,3) by (metis option.exhaust)
  then show ?thesis
    using assms(1) run setMark.on_entry_machines [OF run] setMark.on_entry_others [OF run]
    by (auto simp: markInitNode_def init_label_def)
qed

text \<open>The ways a re-election can go.\<close>

lemma reelect_cases:
  assumes ok: "plan_ok (cplan s)" and run: "reelectInitNode E cp allow s = ((u, r), s')"
  obtains
    (kept) "r \<noteq> None" "s' = s"
  | (cleared) "r \<noteq> None" "s' = snd (clear_marks E (collect (cplan s) isInitNode) False s)"
  | (marked) e u' where "collect (cplan s) isInitNode = []" "e \<in> set (collect (cplan s) (canBeInitNode E))"
      "markInitNode E u' e s = ((u, r), s')"
proof (cases "clear_marks E (collect (cplan s) isInitNode) False s = (Inr False, snd (clear_marks E (collect (cplan s) isInitNode) False s))")
  case False
  with run kept cleared show thesis
    by (auto simp: reelectInitNode_def Let_def split: if_splits prod.splits sum.splits)
next
  case True
  let ?m = "collect (cplan s) isInitNode" and ?c = "collect (cplan s) (canBeInitNode E)"
  from clear_marks_InrD [OF True] in_plan_collect [OF ok] have quiet: "clear_marks E ?m False s = (Inr False, s)"
    and "\<forall>e \<in> set ?m. entry_label e InitNodeLabel = ''''" using True by auto
  then have m: "?m = []"
    by (metis collect_in isInitNode_def list.distinct(1) list.set_intros(1) neq_Nil_conv)
  show thesis
  proof (cases "find (\<lambda>e. entry_annotation e JoinURLAnnotation \<noteq> '''') ?c")
    case (Some en)
    with run m quiet find_collect [OF Some] show thesis
      by (intro marked [of en "entry_annotation en JoinURLAnnotation"]) (auto simp: reelectInitNode_def)
  next
    case None
    show thesis
    proof (cases ?c)
      case Nil
      with run m quiet None show thesis by (intro kept) (auto simp: reelectInitNode_def)
    next
      case (Cons en es)
      with run m quiet None show thesis by (intro marked [of en "''''"]) (auto simp: reelectInitNode_def)
    qed
  qed
qed

lemma not_marked:
  "collect p isInitNode = [] \<Longrightarrow> e \<in> set (collect p f) \<Longrightarrow> entry_label e InitNodeLabel \<noteq> ''true''"
  by (auto simp: set_collect collect_empty_iff isInitNode_def)

lemma reelect_fails:
  assumes "plan_ok (cplan s)" "reelectInitNode E cp allow s = ((u, r), s')"
  shows "r \<noteq> None"
  using assms(2)
  by (rule reelect_cases [OF assms(1)]) (auto dest: markInitNode_marks not_marked in_plan_collect [OF assms(1)])

lemma reelect_clears:
  assumes ok: "plan_ok (cplan s)" and run: "reelectInitNode E cp allow s = ((u, r), s')"
    and some: "collect (cplan s) isInitNode \<noteq> []"
  shows "marks_only {} (cplan s) (cplan s')"
  using run
proof (rule reelect_cases [OF ok])
  assume "s' = snd (clear_marks E (collect (cplan s) isInitNode) False s)"
  then obtain rc where "clear_marks E (collect (cplan s) isInitNode) False s = (rc, s')" by (metis prod.collapse)
  from clear_marks_only [OF this] show ?thesis
    using in_plan_collect [OF ok] distinct_collect [OF ok] by blast
qed (use some in auto)

text \<open>
  The ways an election can go. The last one marks the machine with the pinned ID; when the
  update of its secret fails, the election goes on to a re-election, which finds the mark in
  memory and can only clear marks.
\<close>

lemma electInitNode_cases:
  assumes ok: "plan_ok (cplan s)" and run: "electInitNode E cp allow s = ((u, r), s')"
  obtains
    (found) en where "r = None" "s' = s" "init_node_elected E cp (cplan s) en" "u = entry_annotation en JoinURLAnnotation"
  | (elect) "r \<noteq> None" "pinnedID cp = ''''" "reelectInitNode E cp allow s = ((u, r), s')"
  | (kept) "r \<noteq> None" "marks_only {} (cplan s) (cplan s')"
  | (designated) en where "r \<noteq> None" "pinnedID cp \<noteq> ''''" "collect (cplan s) (has_machine_id (pinnedID cp)) = [en]"
      "\<forall>d \<in> set (collect (cplan s) isEtcd). rival cp d \<longrightarrow> \<not> isInitNode d"
      "marks_only {entry_name en} (cplan s) (cplan s')"
proof (cases "pinnedID cp = ''''")
  case True
  obtain f u0 e0 r0 s0 where find: "findInitNode E cp s = ((f, u0, e0, r0), s0)"
    by (metis surj_pair)
  have s0: "s0 = s" "\<not> err_is is_ErrSkip r0" "\<not> err_is is_panic r0"
    using find True by (auto simp: findInitNode_def Let_def split: list.splits if_splits)
  show thesis
  proof (cases "f \<and> r0 = None")
    case ok0: True
    with findInitNode_ok [OF True, of E s u0 e0 s0] find obtain en where
      "init_node_elected E cp (cplan s) en" "u0 = entry_annotation en JoinURLAnnotation"
      using True by (auto simp: init_node_elected_def)
    moreover have "u = u0 \<and> r = None \<and> s' = s" using ok0 run find s0 by (simp add: electInitNode_def)
    ultimately show thesis using found by blast
  next
    case False
    with run find s0 True have "reelectInitNode E cp allow s = ((u, r), s')"
      by (auto simp: electInitNode_def)
    with reelect_fails [OF ok this] True show thesis by (intro elect)
  qed
next
  case pin: False
  obtain f u0 e0 r0 s0 where find: "findAndDesignateFixedInitNode E cp s = ((f, u0, e0, r0), s0)"
    by (metis surj_pair)
  have step: "electInitNode E cp allow s =
    (if (f \<and> r0 = None) \<or> err_is is_ErrSkip r0 then ((u0, r0), s0)
     else if err_is is_panic r0 then (('''', r0), s0)
     else if \<not> f then (('''', Some (ErrWaiting (''unable to find designated init node matching machine ID '' @ pinnedID cp))), s0)
     else reelectInitNode E cp allow s0)"
    using pin find by (simp add: electInitNode_def findInitNode_def)
  from find show thesis
  proof (rule findFixed_cases [OF ok])
    fix en assume "f" "r0 = None" "s0 = s" "collect (cplan s) (has_machine_id (pinnedID cp)) = [en]" "isInitNode en"
      "u0 = entry_annotation en JoinURLAnnotation"
    with pin run step show thesis by (intro found [of en]) (auto simp: init_node_elected_def)
  next
    assume "\<not> f" "r0 \<noteq> None" "marks_only {} (cplan s) (cplan s0)"
    with run step show thesis by (intro kept) (auto split: if_splits)
  next
    fix en en' assume r0: "f" "r0 \<noteq> None" and one: "collect (cplan s) (has_machine_id (pinnedID cp)) = [en]"
      and rivals: "\<forall>d \<in> set (collect (cplan s) isEtcd). rival cp d \<longrightarrow> \<not> isInitNode d"
      and set: "on_entry (setInitNodeMark E) en s = (r0, en', s0)"
    note first = set_marks_only [OF set]
    have en: "en \<in> set (collect (cplan s) (has_machine_id (pinnedID cp)))" using one by simp
    then have "pe_Metadata en \<noteq> None" by (simp add: set_collect)
    note some = set_leaves_mark [OF set ok en this] and ok0 = marks_only_plan_ok [OF first]
    have "r \<noteq> None \<and> marks_only {entry_name en} (cplan s) (cplan s')"
    proof (cases "reelectInitNode E cp allow s0 = ((u, r), s')")
      case True
      then show ?thesis
        using reelect_fails [OF _ True] marks_only_trans [OF first reelect_clears [OF _ True some]] ok ok0 by blast
    next
      case False
      then show ?thesis using run step r0 first by (auto split: if_splits)
    qed
    with pin one rivals show thesis by (intro designated [of en]) auto
  qed
qed

lemma electInitNode_ok:
  assumes "plan_ok (cplan s)" and "electInitNode E cp allow s = ((u, None), s')"
  shows "s' = s \<and> (\<exists>en. init_node_elected E cp (cplan s) en \<and> u = entry_annotation en JoinURLAnnotation)"
  using assms(2) by (rule electInitNode_cases [OF assms(1)]) auto

lemma findInitNode_None:
  assumes "plan_ok (cplan s)" and "findInitNode E cp s = ((f, u, eo, None), s')"
  shows "s' = s"
proof (cases "pinnedID cp = ''''")
  case True
  with assms(2) show ?thesis by (auto simp: findInitNode_def Let_def split: list.splits if_splits)
next
  case False
  with assms(2) have "findAndDesignateFixedInitNode E cp s = ((f, u, eo, None), s')" by (simp add: findInitNode_def)
  then show ?thesis by (rule findFixed_cases [OF assms(1)]) auto
qed

text \<open>
  C12. An election without error leaves secrets and plan unchanged and returns the join URL of
  the init node. Without a pinned machine ID, that node is viable and the only marked one,
  so progress past the election means there is exactly one init node. With a pinned ID it
  is the only machine whose plan secret has the ID, and it is marked; other machines may
  be marked too.
\<close>

theorem electInitNode_unique:
  assumes "plan_ok (cplan s)" and "electInitNode E cp allow s = ((u, None), s')"
  shows "s' = s \<and>
    (\<exists>en. u = entry_annotation en JoinURLAnnotation \<and>
       (if gets (cp_Labels cp) InitNodeMachineIDLabel = '''' then collect (cplan s) isInitNode = [en] \<and> canBeInitNode E en
        else isInitNode en \<and>
          collect (cplan s) (\<lambda>e. pe_Metadata e \<noteq> None \<and>
            entry_label e MachineIDLabel = gets (cp_Labels cp) InitNodeMachineIDLabel) = [en]))"
  using electInitNode_ok [OF assms] by (cases "pinnedID cp = ''''") (auto simp: init_node_elected_def)

definition pinned_cp :: RKEControlPlane where
  "pinned_cp = demo_cp\<lparr>cp_Labels := [InitNodeMachineIDLabel \<mapsto> ''id-a'']\<rparr>"

theorem electInitNode_unique_witness:
  "(\<exists>en. collect (cplan demo_state) isInitNode = [en] \<and> canBeInitNode demo_store en) \<and>
   (\<exists>en. collect (cplan demo_state) (has_machine_id ''id-a'') = [en] \<and> isInitNode en)"
proof -
  have "(case electInitNode demo_store demo_cp True demo_state of ((u, r), _) \<Rightarrow> r = None)"
    by code_simp
  then obtain u s' where run: "electInitNode demo_store demo_cp True demo_state = ((u, None), s')"
    by (auto split: prod.splits)
  have "(case electInitNode demo_store pinned_cp True demo_state of ((u, r), _) \<Rightarrow> r = None)"
    by code_simp
  then obtain u2 s2 where run2: "electInitNode demo_store pinned_cp True demo_state = ((u2, None), s2)"
    by (auto split: prod.splits)
  from electInitNode_unique [OF _ run] electInitNode_unique [OF _ run2] show ?thesis
    by (auto simp: pinned_cp_def)
qed

text \<open>
  C13. On every outcome, errors included, an election marks at most one machine that was not
  marked, and then an electable one. Without a pinned machine ID that is a viable candidate,
  and it is marked only when no machine at all was: an election never creates a second init
  node. With a pinned ID it is a machine whose plan secret has the ID, and it is marked only
  when no etcd machine without the ID was; a machine that is not an etcd machine may
  stay marked beside it.
\<close>

theorem electInitNode_safe:
  assumes "plan_ok (cplan s)" and "electInitNode E cp allow s = ((u, r), s')"
  shows "p_Machines (cplan s') = p_Machines (cplan s) \<and>
     ((\<forall>km \<in> set (p_Machines (cplan s)). isInitNode (plan_entry (cplan s') km) \<longrightarrow> isInitNode (plan_entry (cplan s) km)) \<or>
      (\<exists>e \<in> set (collect (cplan s) (electable E cp)).
         (\<forall>km \<in> set (p_Machines (cplan s)). isInitNode (plan_entry (cplan s') km) \<longrightarrow>
            fst km = entry_name e \<or> isInitNode (plan_entry (cplan s) km)) \<and>
         (\<forall>d \<in> set (collect (cplan s) (rival cp)). \<not> isInitNode d)))"
proof (rule electInitNode_cases [OF assms])
  assume pin: "pinnedID cp = ''''" and run: "reelectInitNode E cp allow s = ((u, r), s')"
  show ?thesis
  proof (cases "collect (cplan s) isInitNode = []")
    case False
    from marks_only_none [OF reelect_clears [OF assms(1) run False]] show ?thesis by blast
  next
    case none: True
    from run show ?thesis
    proof (rule reelect_cases [OF assms(1)])
      fix e u' assume e: "e \<in> set (collect (cplan s) (canBeInitNode E))" and mark: "markInitNode E u' e s = ((u, r), s')"
      then obtain e1 where set: "on_entry (setInitNodeMark E) e s = (r, e1, s')"
        by (auto simp: markInitNode_def split: prod.splits)
      note marks = marks_only_one [OF set_marks_only [OF set]]
      have "electable E cp = canBeInitNode E" using pin by (simp add: electable_def fun_eq_iff)
      moreover have "\<not> isInitNode d" if "d \<in> set (collect (cplan s) (rival cp))" for d
        using not_marked [OF none that] by (simp add: isInitNode_def)
      ultimately show ?thesis using e marks by auto
    qed (use none in auto)
  qed
next
  fix en assume pin: "pinnedID cp \<noteq> ''''" and one: "collect (cplan s) (has_machine_id (pinnedID cp)) = [en]"
    and rivals: "\<forall>d \<in> set (collect (cplan s) isEtcd). rival cp d \<longrightarrow> \<not> isInitNode d"
    and marks: "marks_only {entry_name en} (cplan s) (cplan s')"
  have "electable E cp = has_machine_id (pinnedID cp)" using pin by (simp add: electable_def fun_eq_iff)
  then have "en \<in> set (collect (cplan s) (electable E cp))" using one by simp
  moreover have "\<not> isInitNode d" if "d \<in> set (collect (cplan s) (rival cp))" for d
    using rivals that pin by (auto simp: set_collect rival_def)
  ultimately show ?thesis using marks_only_one [OF marks] by blast
next
  assume "marks_only {} (cplan s) (cplan s')"
  from marks_only_none [OF this] show ?thesis by blast
qed simp

theorem electInitNode_safe_witness:
  "p_Machines (cplan (snd (electInitNode demo_store demo_cp True (demo_state\<lparr>cplan := demo_plan\<rparr>)))) = p_Machines demo_plan \<and>
   map entry_name (collect (cplan (snd (electInitNode demo_store demo_cp True (demo_state\<lparr>cplan := demo_plan\<rparr>)))) isInitNode) = [''a'']"
proof -
  obtain u r s' where run: "electInitNode demo_store demo_cp True (demo_state\<lparr>cplan := demo_plan\<rparr>) = ((u, r), s')"
    by (metis surj_pair)
  have "map entry_name (collect (cplan (snd (electInitNode demo_store demo_cp True (demo_state\<lparr>cplan := demo_plan\<rparr>)))) isInitNode) = [''a'']"
    by code_simp
  with electInitNode_safe [OF _ run] show ?thesis by (simp add: run)
qed

text \<open>
  With a pinned ID the election does not look at other marks once the pinned machine is
  marked, and never at those of machines that are not etcd machines: in the first plan both
  machines are marked and the election reports no error; in the second a worker is marked
  and the election marks the pinned machine beside it.
\<close>

definition two_marks :: "demo_world pstate" where
  "two_marks = demo_state\<lparr>cplan := demo_init_plan\<lparr>p_Metadata := (p_Metadata demo_init_plan)
     (''b'' \<mapsto> demo_metadata\<lparr>md_Labels := (md_Labels demo_metadata)(InitNodeLabel \<mapsto> ''true'')\<rparr>)\<rparr>\<rparr>"

definition marked_worker :: "demo_world pstate" where
  "marked_worker = demo_state\<lparr>cplan := demo_plan\<lparr>p_Metadata := (p_Metadata demo_plan)
     (''a'' \<mapsto> demo_metadata\<lparr>md_Labels := (md_Labels demo_metadata)(MachineIDLabel \<mapsto> ''id-a'')\<rparr>,
      ''b'' \<mapsto> demo_metadata\<lparr>md_Labels := [WorkerRoleLabel \<mapsto> ''true'', InitNodeLabel \<mapsto> ''true'']\<rparr>)\<rparr>\<rparr>"

lemma pinned_second_mark_ignored:
  "map entry_name (collect (cplan two_marks) isInitNode) = [''a'', ''b''] \<and>
   snd (fst (electInitNode demo_store pinned_cp True two_marks)) = None"
  by code_simp

lemma pinned_second_mark_added:
  "map entry_name (collect (cplan marked_worker) isInitNode) = [''b''] \<and>
   map entry_name (collect (cplan (snd (electInitNode demo_store pinned_cp True marked_worker))) isInitNode) = [''a'', ''b'']"
  by code_simp

lemma designate_loop_quiet:
  assumes "designate_loop E mid es c u f s = (Inr (False, u', f'), s')" "\<forall>e \<in> set es. in_plan (cplan s) e"
  shows "s' = s \<and> (f' \<longleftrightarrow> f \<or> (\<exists>e \<in> set es. gets (m_Labels (pe_Machine e)) MachineIDLabel = mid)) \<and>
    (\<forall>e \<in> set es. entry_label e InitNodeLabel =
        (if gets (m_Labels (pe_Machine e)) MachineIDLabel = mid then ''true'' else ''''))"
  using assms
proof (induction es arbitrary: c u f)
  case (Cons e es)
  have stays: "designate_loop E mid xs True u f t = (Inr (b', u', f'), t') \<Longrightarrow> b'" for xs u f t b' u' f' t'
    by (induction xs arbitrary: u f t) (auto split: prod.splits option.splits if_splits)
  have inp: "in_plan (cplan s) e" using Cons.prems(2) by simp
  show ?case
  proof (cases "gets (m_Labels (pe_Machine e)) MachineIDLabel = mid")
    case True
    obtain r1 e1 s1 where run: "on_entry (setInitNodeMark E) e s = (r1, e1, s1)" by (metis surj_pair)
    have r1: "r1 = None"
      using Cons.prems(1) True run stays by (cases r1) (auto split: if_splits)
    note same = on_set_None [OF run [unfolded r1] inp]
    have "designate_loop E mid es c (entry_annotation e JoinURLAnnotation) True s = (Inr (False, u', f'), s')"
      using Cons.prems(1) True run r1 same by simp
    from Cons.IH [OF this] Cons.prems(2) same True show ?thesis by auto
  next
    case False
    obtain r1 e1 s1 where run: "on_entry (clearInitNodeMark E) e s = (r1, e1, s1)" by (metis surj_pair)
    have r1: "r1 = None"
      using Cons.prems(1) False run stays by (cases r1) (auto split: if_splits)
    note same = on_clear_None [OF run [unfolded r1] inp]
    have "designate_loop E mid es c u f s = (Inr (False, u', f'), s')"
      using Cons.prems(1) False run r1 same by simp
    from Cons.IH [OF this] Cons.prems(2) same False show ?thesis by auto
  qed
qed simp

text \<open>
  Designating an init node by machine ID succeeds only once it is in force: some etcd
  machine has that ID, every etcd machine with the ID is marked, no other etcd machine is,
  and the call changed nothing.
\<close>

theorem designateInitNode_in_force:
  assumes "plan_ok (cplan s)" and "designateInitNodeByMachineID E cp mid s = ((u, None), s')"
  shows "s' = s \<and> mid \<noteq> '''' \<and>
    (\<exists>e \<in> set (collect (cplan s) isEtcd). gets (m_Labels (pe_Machine e)) MachineIDLabel = mid) \<and>
    (\<forall>e \<in> set (collect (cplan s) isEtcd).
       entry_label e InitNodeLabel = (if gets (m_Labels (pe_Machine e)) MachineIDLabel = mid then ''true'' else ''''))"
proof -
  from assms(2) have mid: "mid \<noteq> ''''" by (auto simp: designateInitNodeByMachineID_def)
  with assms(2) have "designate_loop E mid (collect (cplan s) isEtcd) False '''' False s = (Inr (False, u, True), s')"
    by (auto simp: designateInitNodeByMachineID_def split: prod.splits sum.splits if_splits)
  from designate_loop_quiet [OF this] in_plan_collect [OF assms(1)] mid show ?thesis by auto
qed

definition demo_designated :: "demo_world pstate" where
  "demo_designated = demo_state\<lparr>cplan := demo_init_plan\<lparr>p_Machines :=
     [(''a'', (demo_machine ''a'')\<lparr>m_Labels := [MachineIDLabel \<mapsto> ''id-a'']\<rparr>), (''b'', demo_machine ''b'')]\<rparr>\<rparr>"

theorem designateInitNode_in_force_witness:
  "\<exists>u. designateInitNodeByMachineID demo_store demo_cp ''id-a'' demo_designated = ((u, None), demo_designated)"
proof -
  have ok: "plan_ok (cplan demo_designated)"
    by (simp add: plan_ok_def demo_designated_def demo_machine_def)
  have "(case designateInitNodeByMachineID demo_store demo_cp ''id-a'' demo_designated of ((u, r), _) \<Rightarrow> r = None)"
    by code_simp
  then obtain u s' where run: "designateInitNodeByMachineID demo_store demo_cp ''id-a'' demo_designated = ((u, None), s')"
    by (auto split: prod.splits)
  from designateInitNode_in_force [OF ok run] run show ?thesis by auto
qed

end
