(* ===== verification/Planner_Env.thy ===== *)
theory Planner_Env
  imports Node_Plan Init_Node
begin

text \<open>
  The environment of the planner's top level (\<open>planner/planner.go\<close>): the clients of CAPI
  machines and clusters, of RKE bootstraps, etcd snapshots and secrets, and the libraries the
  reconciliation calls. With it the operations on objects outside the plan: the state secret
  of a cluster, pausing and uninitialising its CAPI cluster, and force-deleting etcd machines
  that hang in deletion.
\<close>

section \<open>Environment\<close>

record summary =
  su_Error :: bool
  su_Transitioning :: bool
  su_Message :: "string list"

record semver =
  sv_Major :: int
  sv_Minor :: int
  sv_Patch :: int
  sv_Prerelease :: string

record rke_bootstrap =
  rb_Namespace :: string
  rb_Name :: string
  rb_Annotations :: smap

text \<open>
  \<open>q_NewVersion\<close> and \<open>q_Compare\<close> are the semver library, \<open>q_SemverMajor\<close> the other semver
  library's \<open>Make\<close> with the major version; the condition setters are those of CAPI;
  \<open>q_Summarize\<close> is wrangler's; \<open>q_DrainJSON\<close> encodes drain options; \<open>q_SameObject\<close> is
  \<open>reflect.DeepEqual\<close> on plans; \<open>q_Float\<close> parses and scales a percentage that is not a plain
  decimal number; \<open>q_MergeErrors\<close> is the text of wrangler's \<open>merr.NewErrors\<close>.
\<close>

record 'w planner_env = "'w config_env" +
  q_MachineUpdate :: "machine \<Rightarrow> ('w, machine) go"
  q_MachineUpdateStatus :: "machine \<Rightarrow> ('w, machine) go"
  q_ClusterCacheGet :: "string \<Rightarrow> string \<Rightarrow> 'w \<Rightarrow> go_error + capi_cluster option"
  q_ClusterUpdate :: "capi_cluster \<Rightarrow> ('w, capi_cluster) go"
  q_ClusterUpdateStatus :: "capi_cluster \<Rightarrow> ('w, capi_cluster) go"
  q_RetryOnConflict :: "('w, unit) go \<Rightarrow> ('w, unit) go"
  q_BootstrapCacheGet :: "string \<Rightarrow> string \<Rightarrow> 'w \<Rightarrow> go_error + rke_bootstrap"
  q_BootstrapUpdate :: "rke_bootstrap \<Rightarrow> ('w, rke_bootstrap) go"
  q_SnapshotCacheGet :: "string \<Rightarrow> string \<Rightarrow> 'w \<Rightarrow> go_error + ETCDSnapshot"
  q_SecretCreate :: "secret \<Rightarrow> ('w, secret) go"
  q_RandomToken :: "('w, string) go"
  q_MarkUnknown :: "string \<Rightarrow> string \<Rightarrow> string \<Rightarrow> cond list \<Rightarrow> cond list"
  q_MarkTrue :: "string \<Rightarrow> cond list \<Rightarrow> cond list"
  q_MarkFalse :: "string \<Rightarrow> string \<Rightarrow> string \<Rightarrow> cond list \<Rightarrow> cond list"
  q_IsFalse :: "string \<Rightarrow> cond list \<Rightarrow> bool"
  q_IsPaused :: "capi_cluster \<Rightarrow> RKEControlPlane \<Rightarrow> bool"
  q_Summarize :: "machine \<Rightarrow> summary"
  q_NewVersion :: "string \<Rightarrow> go_error + semver"
  q_Compare :: "semver \<Rightarrow> semver \<Rightarrow> int"
  q_SemverMajor :: "string \<Rightarrow> go_error + int"
  q_SameObject :: "node_plan \<Rightarrow> node_plan \<Rightarrow> bool"
  q_Float :: "string \<Rightarrow> int \<Rightarrow> go_error + int"
  q_DrainJSON :: "DrainOptions \<Rightarrow> go_error + string"
  q_ReleaseData :: "RKEControlPlane \<Rightarrow> release option"
  q_SystemPodLabelSelectors :: "(RKEControlPlane \<Rightarrow> string list) option"
  q_UnmarshalSUC :: "string \<Rightarrow> go_error + bool"
  q_UnmarshalSnapshotMap :: "string \<Rightarrow> go_error + smap"
  q_UnmarshalClusterSpec :: "string \<Rightarrow> go_error + string option"
  q_MergeErrors :: "go_error list \<Rightarrow> string"

definition LessThan :: "('w, 'z) planner_env_scheme \<Rightarrow> semver \<Rightarrow> semver \<Rightarrow> bool" where
  "LessThan E a b \<longleftrightarrow> q_Compare E a b < 0"

definition GreaterThan :: "('w, 'z) planner_env_scheme \<Rightarrow> semver \<Rightarrow> semver \<Rightarrow> bool" where
  "GreaterThan E a b \<longleftrightarrow> q_Compare E a b > 0"

definition Kubernetes125 :: semver where
  "Kubernetes125 = \<lparr>sv_Major = 1, sv_Minor = 25, sv_Patch = 0, sv_Prerelease = ''''\<rparr>"

text \<open>Calls on the world of a planner state, and on an entry of its plan.\<close>

definition worldE :: "('w, 'a) go \<Rightarrow> ('w pstate, 'a) go" where
  "worldE f s = (case f (world s) of (r, w') \<Rightarrow> (r, s\<lparr>world := w'\<rparr>))"

definition entryE ::
  "(planEntry \<Rightarrow> 'w \<Rightarrow> err \<times> planEntry \<times> 'w) \<Rightarrow> planEntry \<Rightarrow> ('w pstate, planEntry) go" where
  "entryE op e s =
     (case on_entry op e s of
        (None, e', s') \<Rightarrow> (Inr e', s')
      | (Some x, _, s') \<Rightarrow> (Inl x, s'))"

definition cp_meta :: "RKEControlPlane \<Rightarrow> object_meta" where
  "cp_meta cp = \<lparr>om_Namespace = cp_Namespace cp, om_Name = cp_Name cp, om_Labels = cp_Labels cp,
     om_OwnerReferences = cp_OwnerReferences cp, om_Conditions = st_Conditions (cp_Status cp)\<rparr>"

definition owner_cluster ::
  "('w, 'z) planner_env_scheme \<Rightarrow> RKEControlPlane \<Rightarrow> 'w \<Rightarrow> go_error + capi_cluster option" where
  "owner_cluster E cp w = GetOwnerCAPICluster E (\<lambda>ns n. q_ClusterCacheGet E ns n w) (Some (cp_meta cp))"

text \<open>Calls with Go's other result shapes, as calls that may fail.\<close>

definition errE :: "('s \<Rightarrow> err \<times> 's) \<Rightarrow> ('s, unit) go" where
  "errE f s = (case f s of (None, s') \<Rightarrow> (Inr (), s') | (Some e, s') \<Rightarrow> (Inl e, s'))"

definition findE :: "('w, 'z) planner_env_scheme \<Rightarrow> RKEControlPlane \<Rightarrow> ('w pstate, bool \<times> string) go" where
  "findE E cp s =
     (case findInitNode E cp s of
        ((found, joinServer, _, None), s') \<Rightarrow> (Inr (found, joinServer), s')
      | ((_, _, _, Some e), s') \<Rightarrow> (Inl e, s'))"

definition electE :: "(string \<times> err) \<times> 's \<Rightarrow> (go_error + string) \<times> 's" where
  "electE x = (case x of ((u, None), s') \<Rightarrow> (Inr u, s') | ((_, Some e), s') \<Rightarrow> (Inl e, s'))"

text \<open>
  Operations on the status: \<open>if status, err = f(status); err != nil \<dots>\<close> is \<open>thenS\<close>,
  \<open>if err = f(); err != nil { return status, err }\<close> is \<open>tryS\<close>.
\<close>

type_synonym 'w statusE = "'w pstate \<Rightarrow> (RKEControlPlaneStatus \<times> err) \<times> 'w pstate"

definition retS :: "RKEControlPlaneStatus \<times> err \<Rightarrow> 'w statusE" where
  "retS r s = (r, s)"

definition thenS :: "'w statusE \<Rightarrow> (RKEControlPlaneStatus \<Rightarrow> 'w statusE) \<Rightarrow> 'w statusE" where
  "thenS f k s = (case f s of ((st, Some e), s') \<Rightarrow> ((st, Some e), s') | ((st, None), s') \<Rightarrow> k st s')"

definition tryS :: "('w pstate, 'a) go \<Rightarrow> RKEControlPlaneStatus \<Rightarrow> ('a \<Rightarrow> 'w statusE) \<Rightarrow> 'w statusE" where
  "tryS f status k s = (case f s of (Inl e, s') \<Rightarrow> ((status, Some e), s') | (Inr x, s') \<Rightarrow> k x s')"

section \<open>The state secret\<close>

text \<open>The token secret of a cluster: created once, with fresh tokens, for a new cluster only.\<close>

definition state_secret :: "RKEControlPlane \<Rightarrow> string \<Rightarrow> string \<Rightarrow> string \<Rightarrow> secret" where
  "state_secret cp name serverToken agentToken =
     \<lparr>s_Namespace = cp_Namespace cp, s_Name = name, s_Type = SecretTypeClusterState, s_Labels = Map.empty,
      s_Annotations = Map.empty, s_Data = [''serverToken'' \<mapsto> serverToken, ''agentToken'' \<mapsto> agentToken]\<rparr>"

definition ensureRKEStateSecret ::
  "('w, 'z) planner_env_scheme \<Rightarrow> RKEControlPlane \<Rightarrow> bool \<Rightarrow> ('w, string \<times> plan_secret) go" where
  "ensureRKEStateSecret E controlPlane newCluster w =
     (let none = \<lparr>tk_ServerToken = '''', tk_AgentToken = ''''\<rparr> in
      if sp_UnmanagedConfig (cp_Spec controlPlane) then (Inr ('''', none), w)
      else
        let name = lib_SafeConcatName E [cp_Name controlPlane, ''rke'', ''state''] in
        (case k_SecretCacheGet E (cp_Namespace controlPlane) name w of
           Inl e \<Rightarrow>
             if is_NotFound e then
               if \<not> newCluster then (Inl (ErrWrap ''newCluster was false and secret does not exist'' e), w)
               else
                 bindE (q_RandomToken E) (\<lambda>serverToken.
                 bindE (q_RandomToken E) (\<lambda>agentToken.
                 bindE (q_SecretCreate E (state_secret controlPlane name serverToken agentToken)) (\<lambda>_.
                   retE (name, \<lparr>tk_ServerToken = serverToken, tk_AgentToken = agentToken\<rparr>)))) w
             else (Inl e, w)
         | Inr sec \<Rightarrow>
             if s_Type sec \<noteq> SecretTypeClusterState
             then (Inl (ErrOther (''secret '' @ s_Namespace sec @ ''/'' @ s_Name sec @ '' type '' @ s_Type sec @
                     '' did not match expected type '' @ SecretTypeClusterState)), w)
             else (Inr (s_Name sec, \<lparr>tk_ServerToken = gets (s_Data sec) ''serverToken'',
                                     tk_AgentToken = gets (s_Data sec) ''agentToken''\<rparr>), w)))"

section \<open>The CAPI cluster\<close>

definition cluster_missing :: "RKEControlPlane \<Rightarrow> go_error" where
  "cluster_missing cp = ErrOther (''CAPI cluster does not exist for '' @ cp_Namespace cp @ ''/'' @ cp_Name cp)"

text \<open>One attempt of \<open>pauseCAPICluster\<close>; the library repeats it on a conflict.\<close>

definition pause_attempt ::
  "('w, 'z) planner_env_scheme \<Rightarrow> RKEControlPlane \<Rightarrow> bool \<Rightarrow> ('w, unit) go" where
  "pause_attempt E cp pause w =
     (case owner_cluster E cp w of
        Inl e \<Rightarrow> (Inl e, w)
      | Inr None \<Rightarrow> (Inl (cluster_missing cp), w)
      | Inr (Some cluster) \<Rightarrow>
          if cc_Paused cluster = pause then (Inr (), w)
          else bindE (q_ClusterUpdate E (cluster\<lparr>cc_Paused := pause\<rparr>)) (\<lambda>_. retE ()) w)"

definition pauseCAPICluster ::
  "('w, 'z) planner_env_scheme \<Rightarrow> RKEControlPlane option \<Rightarrow> bool \<Rightarrow> ('w, unit) go" where
  "pauseCAPICluster E cp pause =
     (case cp of
        None \<Rightarrow> raiseE (ErrOther ''cannot pause CAPI cluster for nil controlplane'')
      | Some cp \<Rightarrow> q_RetryOnConflict E (pause_attempt E cp pause))"

definition ensureCAPIClusterControlPlaneInitializedFalse ::
  "('w, 'z) planner_env_scheme \<Rightarrow> RKEControlPlane option \<Rightarrow> ('w, unit) go" where
  "ensureCAPIClusterControlPlaneInitializedFalse E cp w =
     (case cp of
        None \<Rightarrow> (Inl (ErrOther ''cannot uninitialize CAPI cluster for nil controlplane''), w)
      | Some cp \<Rightarrow>
          (case owner_cluster E cp w of
             Inl e \<Rightarrow> (Inl e, w)
           | Inr None \<Rightarrow> (Inl (cluster_missing cp), w)
           | Inr (Some cluster) \<Rightarrow>
               if \<not> q_IsFalse E ''ControlPlaneInitialized'' (cc_Conditions cluster) then
                 bindE (q_ClusterUpdateStatus E (cluster\<lparr>cc_Conditions :=
                          q_MarkFalse E ''ControlPlaneInitialized'' ''WaitingForControlPlaneProviderInitialized''
                            ''Waiting for control plane provider to indicate the control plane has been initialized''
                            (cc_Conditions cluster)\<rparr>)) (\<lambda>_. retE ()) w
               else (Inr (), w)))"

section \<open>Etcd machines that hang in deletion\<close>

definition ExcludeNodeDrainingAnnotation :: string where
  "ExcludeNodeDrainingAnnotation = ''machine.cluster.x-k8s.io/exclude-node-draining''"

text \<open>A plan's machine is shared with its entries: an annotation set on it stays in the plan.\<close>

definition put_machine :: "machine \<Rightarrow> plan \<Rightarrow> plan" where
  "put_machine m p = p\<lparr>p_Machines := map (\<lambda>(k, m'). if k = m_Name m then (k, m) else (k, m')) (p_Machines p)\<rparr>"

fun force_delete_loop ::
  "('w, 'z) planner_env_scheme \<Rightarrow> planEntry list \<Rightarrow> ('w pstate, unit) go" where
  "force_delete_loop E [] s = (Inr (), s)"
| "force_delete_loop E (entry # es) s =
     (case m_ConfigRef (pe_Machine entry) of
        None \<Rightarrow> force_delete_loop E es s
      | Some ref \<Rightarrow>
          if \<not> Contains (or_APIVersion ref) ''rke.cattle.io'' then force_delete_loop E es s
          else
            let machine = (pe_Machine entry)\<lparr>m_Annotations :=
                  (m_Annotations (pe_Machine entry))(ExcludeNodeDrainingAnnotation \<mapsto> ''true'')\<rparr> in
            bindE (worldE (q_MachineUpdate E machine)) (\<lambda>updated s'.
              case m_ConfigRef updated of
                None \<Rightarrow> (Inl (GoPanic ''nil bootstrap config reference''), s')
              | Some ref' \<Rightarrow>
                  bindE (liftE (q_BootstrapCacheGet E (or_Namespace ref') (or_Name ref') (world s'))) (\<lambda>rb.
                  bindE (worldE (q_BootstrapUpdate E (rb\<lparr>rb_Annotations :=
                           (rb_Annotations rb)(ForceRemoveEtcdAnnotation \<mapsto> ''true'')\<rparr>))) (\<lambda>_.
                    force_delete_loop E es)) s')
              (s\<lparr>cplan := put_machine machine (cplan s)\<rparr>))"

definition forceDeleteAllDeletingEtcdMachines ::
  "('w, 'z) planner_env_scheme \<Rightarrow> RKEControlPlane \<Rightarrow> ('w pstate, nat) go" where
  "forceDeleteAllDeletingEtcdMachines E cp s =
     (let etcdDeleting = collect (cplan s) (roleAnd isEtcd isDeleting) in
      bindE (force_delete_loop E etcdDeleting) (\<lambda>_. retE (length etcdDeleting)) s)"

section \<open>A concrete environment\<close>

text \<open>
  The planner over the world of secrets: one CAPI cluster that is always found and not
  paused, machine and cluster updates that are accepted and lost, versions compared by
  major, minor and patch.
\<close>

definition demo_compare :: "semver \<Rightarrow> semver \<Rightarrow> int" where
  "demo_compare a b =
     (let d = (\<lambda>f. sgn (f a - f b)) in
      if d sv_Major \<noteq> 0 then d sv_Major else if d sv_Minor \<noteq> 0 then d sv_Minor else d sv_Patch)"

definition demo_planner :: "demo_world planner_env" where
  "demo_planner = config_env.extend demo_config
     \<lparr>q_MachineUpdate = (\<lambda>m w. (Inr m, w)), q_MachineUpdateStatus = (\<lambda>m w. (Inr m, w)),
      q_ClusterCacheGet = (\<lambda>_ _ _. Inr (Some demo_cluster)), q_ClusterUpdate = (\<lambda>c w. (Inr c, w)),
      q_ClusterUpdateStatus = (\<lambda>c w. (Inr c, w)), q_RetryOnConflict = (\<lambda>f. f),
      q_BootstrapCacheGet = (\<lambda>ns n _. Inr \<lparr>rb_Namespace = ns, rb_Name = n, rb_Annotations = Map.empty\<rparr>),
      q_BootstrapUpdate = (\<lambda>b w. (Inr b, w)), q_SnapshotCacheGet = (\<lambda>_ n _. Inl (ErrNotFound n)),
      q_SecretCreate = (\<lambda>s w. (Inr s, w(s_Name s \<mapsto> s))), q_RandomToken = (\<lambda>w. (Inr ''token'', w)),
      q_MarkUnknown = (\<lambda>t r m cs. set_cond \<lparr>cd_Type = t, cd_Status = ''Unknown'', cd_Reason = r, cd_Message = m\<rparr> cs),
      q_MarkTrue = (\<lambda>t cs. set_cond \<lparr>cd_Type = t, cd_Status = ''True'', cd_Reason = '''', cd_Message = ''''\<rparr> cs),
      q_MarkFalse = (\<lambda>t r m cs. set_cond \<lparr>cd_Type = t, cd_Status = ''False'', cd_Reason = r, cd_Message = m\<rparr> cs),
      q_IsFalse = (\<lambda>t cs. cond_status t cs = ''False''), q_IsPaused = (\<lambda>c _. cc_Paused c),
      q_Summarize = (\<lambda>_. \<lparr>su_Error = False, su_Transitioning = False, su_Message = []\<rparr>),
      q_NewVersion = (\<lambda>_. Inr \<lparr>sv_Major = 1, sv_Minor = 27, sv_Patch = 6, sv_Prerelease = ''''\<rparr>),
      q_Compare = demo_compare, q_SemverMajor = (\<lambda>_. Inr 2), q_SameObject = (\<lambda>a b. a = b),
      q_Float = (\<lambda>s _. Inl (ErrOther (''strconv.ParseFloat: parsing '' @ s))),
      q_DrainJSON = (\<lambda>d. Inr (if dr_Enabled d then ''{enabled:true}'' else ''{}'')), q_ReleaseData = (\<lambda>_. None),
      q_SystemPodLabelSelectors = None, q_UnmarshalSUC = (\<lambda>_. Inr False),
      q_UnmarshalSnapshotMap = (\<lambda>_. Inr Map.empty), q_UnmarshalClusterSpec = (\<lambda>v. Inr (Some v)),
      q_MergeErrors = (\<lambda>es. Join (map Error es) '', '')\<rparr>"

end
