(* ===== verification/Planner_Drain.thy ===== *)
theory Planner_Drain
  imports Planner_Env
begin

text \<open>
  Draining and uncordoning a machine around a plan change (\<open>planner/drain.go\<close>). The planner
  asks for a drain by writing the options to the machine's plan secret; another controller
  drains the node and writes the outcome to further annotations of the same secret. Loaded
  metadata always has its annotation map (\<open>Load\<close> creates it), so an entry's annotations are
  nil only when its metadata is.
\<close>

section \<open>Operations\<close>

fun stamp_in_env :: "'z libs_scheme \<Rightarrow> string list \<Rightarrow> string option" where
  "stamp_in_env E [] = None"
| "stamp_in_env E (env # envs) =
     (case lib_kv_Split E env ''='' of
        (k, v) \<Rightarrow> if k = ''RESTART_STAMP'' \<or> k = ''$env:RESTART_STAMP'' then Some v else stamp_in_env E envs)"

fun stamp_in_instructions :: "'z libs_scheme \<Rightarrow> one_time_instruction list \<Rightarrow> string" where
  "stamp_in_instructions E [] = ''''"
| "stamp_in_instructions E (instr # is) =
     (case stamp_in_env E (i_Env instr) of Some v \<Rightarrow> v | None \<Rightarrow> stamp_in_instructions E is)"

definition getRestartStamp :: "'z libs_scheme \<Rightarrow> node_plan \<Rightarrow> string" where
  "getRestartStamp E plan = stamp_in_instructions E (np_Instructions plan)"

definition shouldDrain :: "'z libs_scheme \<Rightarrow> node_plan option \<Rightarrow> node_plan \<Rightarrow> bool" where
  "shouldDrain E oldPlan newPlan =
     (case oldPlan of None \<Rightarrow> False | Some old \<Rightarrow> getRestartStamp E old \<noteq> getRestartStamp E newPlan)"

definition optionsToString :: "('w, 'z) planner_env_scheme \<Rightarrow> DrainOptions \<Rightarrow> bool \<Rightarrow> go_error + string" where
  "optionsToString E options disable = q_DrainJSON E (if disable then options\<lparr>dr_Enabled := False\<rparr> else options)"

definition checkForDrainError :: "planEntry \<Rightarrow> string \<Rightarrow> err" where
  "checkForDrainError entry drainStep =
     (let errStr = entry_annotation entry DrainErrorAnnotation in
      if errStr \<noteq> '''' \<and> \<not> Contains errStr ''error trying to reach service''
      then Some (ErrOther (''error '' @ drainStep @ '' machine '' @ entry_name entry @ '': '' @ errStr)) else None)"

definition set_annotation :: "string \<Rightarrow> string \<Rightarrow> planEntry \<Rightarrow> planEntry" where
  "set_annotation k v entry =
     entry\<lparr>pe_Metadata := map_option (\<lambda>md. md\<lparr>md_Annotations := (md_Annotations md)(k \<mapsto> v)\<rparr>) (pe_Metadata entry)\<rparr>"

text \<open>
  The result is the Go pair of a boolean and an error, both meaningful, with the entry and the
  world: \<open>(True, None)\<close> go on, \<open>(False, None)\<close> draining, \<open>(True, Some e)\<close> draining with an error,
  \<open>(False, Some e)\<close> the request could not be made.
\<close>

definition drain ::
  "('w, 'z) planner_env_scheme \<Rightarrow> node_plan option \<Rightarrow> node_plan \<Rightarrow> planEntry \<Rightarrow> nat \<Rightarrow> DrainOptions \<Rightarrow> 'w \<Rightarrow>
   (bool \<times> err) \<times> planEntry \<times> 'w" where
  "drain E oldPlan newPlan entry machines options w =
     (if pe_Metadata entry = None \<or> m_NodeRef (pe_Machine entry) = None then ((True, None), entry, w)
      else if (\<not> dr_Enabled options \<or> machines = 1) \<and> dr_PreDrainHooks options = [] \<and> dr_PostDrainHooks options = []
      then ((True, None), entry, w)
      else if \<not> shouldDrain E oldPlan newPlan then ((True, None), entry, w)
      else
        (case optionsToString E options (machines = 1) of
           Inl e \<Rightarrow> ((False, Some e), entry, w)
         | Inr optionString \<Rightarrow>
             if entry_annotation entry DrainAnnotation \<noteq> optionString then
               (case updatePlanSecretLabelsAndAnnotations E (set_annotation DrainAnnotation optionString entry) w of
                  (r, entry', w') \<Rightarrow> ((False, r), entry', w'))
             else
               (case checkForDrainError entry ''draining'' of
                  Some e \<Rightarrow> ((True, Some e), entry, w)
                | None \<Rightarrow> ((entry_annotation entry DrainDoneAnnotation = optionString, None), entry, w))))"

definition undrain ::
  "('w, 'z) planner_env_scheme \<Rightarrow> planEntry \<Rightarrow> 'w \<Rightarrow> (bool \<times> err) \<times> planEntry \<times> 'w" where
  "undrain E entry w =
     (let options = entry_annotation entry DrainAnnotation in
      if options \<noteq> '''' \<and> options \<noteq> entry_annotation entry UnCordonAnnotation then
        (case updatePlanSecretLabelsAndAnnotations E (set_annotation UnCordonAnnotation options entry) w of
           (r, entry', w') \<Rightarrow> ((False, r), entry', w'))
      else
        (case checkForDrainError entry ''undraining'' of
           Some e \<Rightarrow> ((True, Some e), entry, w)
         | None \<Rightarrow> ((entry_annotation entry UnCordonAnnotation = '''', None), entry, w)))"

section \<open>Facts\<close>

lemma set_annotation_simps [simp]:
  "pe_Machine (set_annotation k v e) = pe_Machine e" "labels_of (set_annotation k v e) = labels_of e"
  "pe_Metadata (set_annotation k v e) = None \<longleftrightarrow> pe_Metadata e = None"
  by (cases "pe_Metadata e"; simp add: set_annotation_def labels_of_def)+

lemma updated_annotation_entry:
  "updatePlanSecretLabelsAndAnnotations E (set_annotation k v e) w = (r, e', w') \<Longrightarrow>
     pe_Machine e' = pe_Machine e \<and> labels_of e' = labels_of e \<and> (pe_Metadata e' = None) = (pe_Metadata e = None)"
  using updateSecret_entry [of E "set_annotation k v e" w r e' w'] set_annotation_simps [of k v e]
  by (metis labels_of_def)

lemma drain_entry:
  "drain E old new e n opts w = (r, e', w') \<Longrightarrow>
     pe_Machine e' = pe_Machine e \<and> labels_of e' = labels_of e \<and> (pe_Metadata e' = None) = (pe_Metadata e = None)"
  by (auto simp: drain_def dest: updated_annotation_entry split: if_splits sum.splits option.splits prod.splits)

lemma undrain_entry:
  "undrain E e w = (r, e', w') \<Longrightarrow>
     pe_Machine e' = pe_Machine e \<and> labels_of e' = labels_of e \<and> (pe_Metadata e' = None) = (pe_Metadata e = None)"
  by (auto simp: undrain_def Let_def dest: updated_annotation_entry split: if_splits option.splits prod.splits)

interpretation drain: role_keeping_op "\<lambda>e. drain E old new e n opts" for E old new n opts
  by unfold_locales (auto dest: drain_entry)

interpretation undrain: role_keeping_op "undrain E" for E
  by unfold_locales (auto dest: undrain_entry)

text \<open>The law of \<open>kv.Split\<close>: it splits at the first separator.\<close>

definition kv_split_law :: "'z libs_scheme \<Rightarrow> bool" where
  "kv_split_law E \<longleftrightarrow> (\<forall>k v. CHR ''='' \<notin> set k \<longrightarrow> lib_kv_Split E (k @ ''='' @ v) ''='' = (k, v))"

lemma kv_splitD: "kv_split_law E \<Longrightarrow> CHR ''='' \<notin> set k \<Longrightarrow> lib_kv_Split E (k @ CHR ''='' # v) ''='' = (k, v)"
  by (simp add: kv_split_law_def)

text \<open>The stamp as the instruction's environment shows it.\<close>

definition stamp_text :: "planEntry \<Rightarrow> string \<Rightarrow> string" where
  "stamp_text e stamp =
     (if entry_label e CattleOSLabel = WindowsMachineOS then ''\"'' @ stamp @ ''\"'' else stamp)"

lemma stamp_text_inj: "stamp_text e a = stamp_text e b \<longleftrightarrow> a = b"
  by (simp add: stamp_text_def)

lemma stamp_env:
  assumes "kv_split_law E"
  shows "stamp_in_env E (env_var (entry_label e CattleOSLabel) ''RESTART_STAMP'' stamp # envs) = Some (stamp_text e stamp)"
  using kv_splitD [OF assms, of "''RESTART_STAMP''" stamp]
    kv_splitD [OF assms, of "''$env:RESTART_STAMP''" "''\"'' @ stamp @ ''\"''"]
  by (simp add: env_var_def stamp_text_def)

lemma install_env: "i_Env (generateInstallInstruction E cp e env) =
    env @ List.map_filter (\<lambda>(n, v). if v = '''' then None else Some (env_var (entry_label e CattleOSLabel) n v))
      (sp_AgentEnvVars (cp_Spec cp)) @
    (if isOnlyWorker e then [env_var (entry_label e CattleOSLabel)
       (''INSTALL_'' @ GetRuntimeEnv (sp_KubernetesVersion (cp_Spec cp)) @ ''_EXEC'') ''agent''] else [])"
  by (simp add: generateInstallInstruction_def Let_def)

lemma add_files_instructions [simp]: "np_Instructions (add_files fs np) = np_Instructions np"
  by (simp add: add_files_def)

lemma add_files_files [simp]: "np_Files (add_files fs np) = np_Files np @ fs"
  by (simp add: add_files_def)

lemma commonNodePlan_instructions:
  "commonNodePlan E cp np w = Inr (np', reg) \<Longrightarrow> np_Instructions np' = np_Instructions np"
  by (auto simp: commonNodePlan_def sbind_eq_Inr_iff split: option.splits)

lemma addConfigFile_instructions:
  "addConfigFile E np cp e t j reg s3 w = Inr (np', c, joined) \<Longrightarrow> np_Instructions np' = np_Instructions np"
  by (auto simp: addConfigFile_def sbind_eq_Inr_iff Let_def case_prod_beta split: if_splits)

lemma later_files_instructions:
  "addManifests E np cp e w = Inr np' \<Longrightarrow> np_Instructions np' = np_Instructions np"
  "addChartConfigs E np cp e = Inr np' \<Longrightarrow> np_Instructions np' = np_Instructions np"
  "addOtherFiles np cp e = Inr np' \<Longrightarrow> np_Instructions np' = np_Instructions np"
  by (auto simp: addManifests_def addChartConfigs_def addOtherFiles_def
      addLocalClusterAuthenticationEndpointFile_def sbind_eq_Inr_iff split: if_splits)

lemma generatePlan_no_instructions:
  "generatePlanWithConfigFiles E cp t e j s3 w = Inr (np, c, joined) \<Longrightarrow> np_Instructions np = []"
  by (auto simp: generatePlanWithConfigFiles_def sbind_eq_Inr_iff empty_plan_def
      dest!: commonNodePlan_instructions addConfigFile_instructions later_files_instructions split: if_splits)

lemma add_periodic_simps [simp]:
  "np_Instructions (add_periodic is np) = np_Instructions np" "np_Files (add_periodic is np) = np_Files np"
  by (simp_all add: add_periodic_def)

lemma desiredPlan_install:
  assumes "desiredPlan E cp t e j w = Inr (np, joined)"
  shows "\<exists>np0. np_Files np0 = np_Files np \<and>
     np_Instructions np = [generateInstallInstruction E cp e
        [env_var (entry_label e CattleOSLabel) ''RESTART_STAMP'' (restartStamp E np0 cp (getInstallerImage E cp))]]"
proof -
  from assms obtain np1 c probes np2 np3 where
    g: "generatePlanWithConfigFiles E cp t e j True w = Inr (np1, c, joined)" and
    np2: "addInstallInstructionWithRestartStamp E (np1\<lparr>np_Probes := probes\<rparr>) cp e = Inr np2" and
    rest: "np_Files np = np_Files np2" "np_Instructions np = np_Instructions np2"
    by (auto simp: desiredPlan_def sbind_eq_Inr_iff addInitNodePeriodicInstruction_def
        addEtcdSnapshotListLocalPeriodicInstruction_def addEtcdSnapshotListS3PeriodicInstruction_def
        split: if_splits option.splits)
  from np2 generatePlan_no_instructions [OF g]
  have "np_Files (np1\<lparr>np_Probes := probes\<rparr>) = np_Files np2"
    "np_Instructions np2 = [generateInstallInstruction E cp e [env_var (entry_label e CattleOSLabel) ''RESTART_STAMP''
        (restartStamp E (np1\<lparr>np_Probes := probes\<rparr>) cp (getInstallerImage E cp))]]"
    by (auto simp: addInstallInstructionWithRestartStamp_def Let_def)
  with rest show ?thesis by metis
qed

lemma restartStamp_files: "np_Files a = np_Files b \<Longrightarrow> restartStamp E a cp img = restartStamp E b cp img"
  by (simp add: restartStamp_def restart_stamp_input_def)

lemma desiredPlan_stamp:
  assumes "kv_split_law E" "desiredPlan E cp t e j w = Inr (np, joined)"
  shows "getRestartStamp E np = stamp_text e (restartStamp E np cp (getInstallerImage E cp))"
proof -
  from desiredPlan_install [OF assms(2)] obtain np0 where
    np0: "np_Files np0 = np_Files np" "np_Instructions np = [generateInstallInstruction E cp e
        [env_var (entry_label e CattleOSLabel) ''RESTART_STAMP'' (restartStamp E np0 cp (getInstallerImage E cp))]]"
    by blast
  then show ?thesis
    using stamp_env [OF assms(1), of e] by (simp add: getRestartStamp_def install_env restartStamp_files [OF np0(1)])
qed

section \<open>Properties\<close>

definition static_files :: "node_plan \<Rightarrow> (string \<times> string) list" where
  "static_files np = map (\<lambda>f. (f_Path f, f_Content f)) (filter (\<lambda>f. \<not> f_Dynamic f) (np_Files np))"

lemma restart_stamp_input_static:
  "restart_stamp_input np cp img =
     Itoa (sp_ProvisionGeneration (cp_Spec cp)) @ img @ concat (map (\<lambda>(p, c). p @ c) (static_files np)) @
     Itoa (st_ConfigGeneration (cp_Status cp))"
proof -
  have "concat (map (\<lambda>f. if f_Dynamic f then '''' else f_Path f @ f_Content f) fs) =
      concat (map (\<lambda>(p, c). p @ c) (map (\<lambda>f. (f_Path f, f_Content f)) (filter (\<lambda>f. \<not> f_Dynamic f) fs)))" for fs
    by (induction fs) simp_all
  then show ?thesis by (simp add: restart_stamp_input_def static_files_def)
qed

text \<open>
  Between two desired plans of one machine the planner drains exactly when the restart
  stamps differ, and a change of dynamic files alone - with the installer image and the two
  generations as before - never drains.
\<close>

theorem shouldDrain_iff_restart:
  assumes "kv_split_law E"
    and "desiredPlan E cp1 t1 e j1 w1 = Inr (np1, joined1)" "desiredPlan E cp2 t2 e j2 w2 = Inr (np2, joined2)"
  shows "(shouldDrain E (Some np1) np2 \<longleftrightarrow>
            lib_sha256_hex E (restart_stamp_input np1 cp1 (getInstallerImage E cp1)) \<noteq>
            lib_sha256_hex E (restart_stamp_input np2 cp2 (getInstallerImage E cp2))) \<and>
         (getInstallerImage E cp1 = getInstallerImage E cp2 \<longrightarrow>
          sp_ProvisionGeneration (cp_Spec cp1) = sp_ProvisionGeneration (cp_Spec cp2) \<longrightarrow>
          st_ConfigGeneration (cp_Status cp1) = st_ConfigGeneration (cp_Status cp2) \<longrightarrow>
          static_files np1 = static_files np2 \<longrightarrow> \<not> shouldDrain E (Some np1) np2)"
  using desiredPlan_stamp [OF assms(1,2)] desiredPlan_stamp [OF assms(1,3)]
  by (simp add: shouldDrain_def stamp_text_inj restartStamp_def restart_stamp_input_static)

lemma demo_config_kv [simp]: "kv_split_law demo_config"
  by (simp add: kv_split_law_def demo_config_def demo_store_def demo_libs_def store_env.defs libs.defs Cut_single)

theorem shouldDrain_iff_restart_witness:
  "\<exists>np joined. desiredPlan demo_config demo_cp demo_tokens demo_worker ''https://a:9345'' demo_world0 = Inr (np, joined) \<and>
     \<not> shouldDrain demo_config (Some np) np"
proof -
  have "(case desiredPlan demo_config demo_cp demo_tokens demo_worker ''https://a:9345'' demo_world0 of
           Inr _ \<Rightarrow> True | Inl _ \<Rightarrow> False)"
    by code_simp
  then obtain np joined where
    run: "desiredPlan demo_config demo_cp demo_tokens demo_worker ''https://a:9345'' demo_world0 = Inr (np, joined)"
    by (auto split: sum.splits)
  from shouldDrain_iff_restart [OF _ run run] run show ?thesis by simp
qed

text \<open>
  A drain goes through in order: whatever the options, a call that lets the plan change go
  on without an error changed nothing, and when the machine has a node, draining or a hook is
  configured and the restart stamp changes, it means the drain of exactly these options was
  requested and reported done, with no drain error on the machine.
\<close>

theorem drain_proceeds:
  assumes run: "drain E old new e machines options w = ((True, None), e', w')"
  shows "e' = e \<and> w' = w \<and>
    (pe_Metadata e \<noteq> None \<and> m_NodeRef (pe_Machine e) \<noteq> None \<and> shouldDrain E old new \<and>
     (dr_Enabled options \<and> machines \<noteq> 1 \<or> dr_PreDrainHooks options \<noteq> [] \<or> dr_PostDrainHooks options \<noteq> []) \<longrightarrow>
     (\<exists>optionString. optionsToString E options (machines = 1) = Inr optionString \<and>
        entry_annotation e DrainAnnotation = optionString \<and> entry_annotation e DrainDoneAnnotation = optionString \<and>
        checkForDrainError e ''draining'' = None))"
  using run by (auto simp: drain_def split: if_splits sum.splits option.splits prod.splits)

definition demo_drain :: DrainOptions where
  "demo_drain = no_drain\<lparr>dr_Enabled := True\<rparr>"

definition demo_drained :: planEntry where
  "demo_drained = \<lparr>pe_Machine = demo_machine ''w'', pe_Plan = None,
     pe_Metadata = Some \<lparr>md_Labels = [WorkerRoleLabel \<mapsto> ''true''],
       md_Annotations = [DrainAnnotation \<mapsto> ''{enabled:true}'', DrainDoneAnnotation \<mapsto> ''{enabled:true}'']\<rparr>\<rparr>"

definition demo_stamped :: "string \<Rightarrow> node_plan" where
  "demo_stamped s = empty_plan\<lparr>np_Instructions := [empty_instruction\<lparr>i_Env := [''RESTART_STAMP='' @ s]\<rparr>]\<rparr>"

theorem drain_proceeds_witness:
  "drain demo_planner (Some (demo_stamped ''1'')) (demo_stamped ''2'') demo_drained 3 demo_drain demo_world0 =
     ((True, None), demo_drained, demo_world0) \<and>
   entry_annotation demo_drained DrainDoneAnnotation = ''{enabled:true}''"
proof -
  have "(case drain demo_planner (Some (demo_stamped ''1'')) (demo_stamped ''2'') demo_drained 3 demo_drain demo_world0 of
           ((ok, None), _, _) \<Rightarrow> ok | _ \<Rightarrow> False) \<and>
        shouldDrain demo_planner (Some (demo_stamped ''1'')) (demo_stamped ''2'') \<and>
        optionsToString demo_planner demo_drain False = Inr ''{enabled:true}'' \<and> dr_Enabled demo_drain"
    by code_simp
  then obtain e' w' where run: "drain demo_planner (Some (demo_stamped ''1'')) (demo_stamped ''2'') demo_drained 3
      demo_drain demo_world0 = ((True, None), e', w')"
    and facts: "shouldDrain demo_planner (Some (demo_stamped ''1'')) (demo_stamped ''2'')"
      "optionsToString demo_planner demo_drain False = Inr ''{enabled:true}''" "dr_Enabled demo_drain"
    by (auto split: prod.splits option.splits)
  have "pe_Metadata demo_drained \<noteq> None" "m_NodeRef (pe_Machine demo_drained) \<noteq> None"
    by (simp_all add: demo_drained_def demo_machine_def)
  with drain_proceeds [OF run] facts run show ?thesis by auto
qed

end
