(* ===== verification/Planner_Join.thy ===== *)
theory Planner_Join
  imports Planner_Drain "HOL-Library.Word"
begin

unbundle bit_operations_syntax

text \<open>
  Which server a machine joins: \<open>calculateJoinURL\<close> and \<open>determineJoinURL\<close> of
  \<open>planner/planner.go\<close>. Workers are spread over the control-plane machines by the CRC-32 of the
  machine's UID, scaled to an index in 64-bit arithmetic.
\<close>

section \<open>hash/crc32\<close>

definition crc_bit :: "32 word \<Rightarrow> 32 word" where
  "crc_bit c = (if c AND 1 = 0 then drop_bit 1 c else drop_bit 1 c XOR 0xEDB88320)"

definition crc_byte :: "32 word \<Rightarrow> char \<Rightarrow> 32 word" where
  "crc_byte c b = (crc_bit ^^ 8) (c XOR of_char b)"

definition ChecksumIEEE :: "string \<Rightarrow> 32 word" where
  "ChecksumIEEE data = NOT (foldl crc_byte (NOT 0) data)"

lemma funpow8: "(f ^^ 8) x = f (f (f (f (f (f (f (f x)))))))"
  by (simp add: eval_nat_numeral)

lemmas crc_eval = ChecksumIEEE_def crc_byte_def crc_bit_def funpow8 of_char_def

lemma ChecksumIEEE_check_value: "ChecksumIEEE ''123456789'' = 0xCBF43926"
  by (simp add: crc_eval)

section \<open>Operations\<close>

definition MaxUint32 :: int where
  "MaxUint32 = 4294967295"

text \<open>\<open>int(ck) * len(entries) / math.MaxUint32\<close>: a wrapping product, division towards zero.\<close>

definition scaled_index :: "32 word \<Rightarrow> nat \<Rightarrow> int" where
  "scaled_index ck n =
     (let prod = sint (word_of_int (uint ck * int n) :: 64 word) in
      if prod < 0 then - ((- prod) div MaxUint32) else prod div MaxUint32)"

definition calculateJoinURL :: "RKEControlPlane \<Rightarrow> planEntry \<Rightarrow> plan \<Rightarrow> go_error + string" where
  "calculateJoinURL cp entry p =
     (if isInitNode entry then Inr ''-''
      else
        let entries = collect p (roleAnd isControlPlane (roleAnd hasJoinURL (roleNot isDeleting))) in
        if entries = [] then Inr ''''
        else
          let ck0 = ChecksumIEEE (m_UID (pe_Machine entry));
              ck = (if ck0 = - 1 then ck0 - 1 else ck0);
              scaled = scaled_index ck (length entries) in
          if 0 \<le> scaled \<and> scaled < int (length entries)
          then Inr (entry_annotation (entries ! nat scaled) JoinURLAnnotation)
          else Inl (GoPanic ''index out of range''))"

definition determineJoinURL ::
  "RKEControlPlane option \<Rightarrow> planEntry option \<Rightarrow> plan option \<Rightarrow> string \<Rightarrow> go_error + string" where
  "determineJoinURL cp entry plan joinURL =
     (case (cp, entry, plan) of
        (Some cp, Some entry, Some p) \<Rightarrow>
          if \<not> isOnlyWorker entry then Inr joinURL
          else if joinURL \<noteq> '''' then Inr joinURL
          else
            let joinedTo = (case pe_Plan entry of None \<Rightarrow> '''' | Some pl \<Rightarrow> n_JoinedTo pl) in
            sbind (if joinedTo \<noteq> '''' then validJoinURL p joinedTo else Inr False) (\<lambda>valid.
              if valid then Inr joinedTo
              else
                sbind (calculateJoinURL cp entry p) (\<lambda>url.
                  if url = ''''
                  then Inl (ErrOther (''no suitable join URL found to join machine '' @ m_Namespace (pe_Machine entry) @ ''/'' @
                         m_Name (pe_Machine entry) @ '' in rkecluster '' @ cp_Namespace cp @ ''/'' @ cp_Name cp @ '' to''))
                  else Inr url))
      | _ \<Rightarrow> Inl (ErrOther ''determineJoinURL arguments cannot be nil''))"

section \<open>Facts\<close>

lemma scaled_index_eq:
  assumes "ck \<noteq> - 1" "n < 2 ^ 31"
  shows "scaled_index ck n = uint ck * int n div MaxUint32"
proof -
  have "uint ck < 2 ^ 32" using uint_lt2p [of ck] by simp
  moreover have "int n < 2 ^ 31" using assms(2) by simp
  ultimately have "uint ck * int n \<le> 2 ^ 32 * 2 ^ 31" by (intro mult_mono) auto
  moreover have "uint ck * int n \<noteq> 2 ^ 32 * 2 ^ 31"
    using \<open>uint ck < 2 ^ 32\<close> \<open>int n < 2 ^ 31\<close>
    by (smt (verit) mult_strict_mono uint_ge_0 of_nat_0_le_iff)
  ultimately have "uint ck * int n < 2 ^ 63" by simp
  moreover have "- (2 ^ 63) \<le> uint ck * int n" by (rule order_trans [of _ 0]) simp_all
  ultimately have "signed_take_bit 63 (uint ck * int n) = uint ck * int n"
    by (intro signed_take_bit_int_eq_self)
  then have "sint (word_of_int (uint ck * int n) :: 64 word) = uint ck * int n"
    by (simp only: sint_sbintrunc') simp
  moreover have "\<not> uint ck * int n < 0" by (simp add: not_less)
  ultimately show ?thesis by (simp only: scaled_index_def Let_def if_False)
qed

lemma uint_less_max: "(ck :: 32 word) \<noteq> - 1 \<Longrightarrow> uint ck < MaxUint32"
proof -
  assume "ck \<noteq> - 1"
  then have "uint ck \<noteq> uint (- 1 :: 32 word)" by (metis word_uint_eqI)
  moreover have "uint (- 1 :: 32 word) = MaxUint32" by (simp add: MaxUint32_def unsigned_minus_1_eq_mask mask_eq_exp_minus_1)
  moreover have "uint ck < 2 ^ 32" using uint_lt2p [of ck] by simp
  ultimately show ?thesis by (simp add: MaxUint32_def)
qed

lemma scaled_index_in_range:
  assumes "ck \<noteq> - 1" "0 < n" "n < 2 ^ 31"
  shows "0 \<le> scaled_index ck n \<and> scaled_index ck n < int n"
proof -
  have "uint ck * int n < MaxUint32 * int n"
    using uint_less_max [OF assms(1)] assms(2) by simp
  then have "uint ck * int n div MaxUint32 < int n"
    by (simp add: MaxUint32_def)
  moreover have "0 \<le> uint ck * int n div MaxUint32"
    by (simp add: MaxUint32_def pos_imp_zdiv_nonneg_iff)
  ultimately show ?thesis
    using scaled_index_eq [OF assms(1,3)] by simp
qed

lemma collect_length: "length (collect p f) \<le> length (p_Machines p)"
proof -
  have "length (filter f (map (plan_entry p) (p_Machines p))) \<le> length (map (plan_entry p) (p_Machines p))"
    by (rule length_filter_le)
  then show ?thesis by (simp add: collect_def)
qed

text \<open>A server a machine may be told to join: a live control-plane machine with a join URL.\<close>

definition join_target :: "plan \<Rightarrow> string \<Rightarrow> bool" where
  "join_target p u \<longleftrightarrow>
     (\<exists>km \<in> set (p_Machines p). isControlPlane (plan_entry p km) \<and> \<not> isDeleting (plan_entry p km) \<and>
        entry_annotation (plan_entry p km) JoinURLAnnotation = u \<and> u \<noteq> '''')"

lemma join_target_advertised: "join_target p u \<Longrightarrow> advertised p u"
  by (auto simp: join_target_def advertised_def isNotDeletingAndControlPlaneOrInitNode_def)

lemma calculateJoinURL_cases:
  assumes "length (p_Machines p) < 2 ^ 31"
  shows "\<exists>u. calculateJoinURL cp e p = Inr u \<and>
     (isInitNode e \<and> u = ''-'' \<or>
      \<not> isInitNode e \<and> (join_target p u \<or> u = '''' \<and> (\<nexists>v. join_target p v)))"
proof (cases "isInitNode e")
  case False
  define es where "es = collect p (roleAnd isControlPlane (roleAnd hasJoinURL (roleNot isDeleting)))"
  have mem: "join_target p (entry_annotation x JoinURLAnnotation)" if "x \<in> set es" for x
    using that by (auto simp: es_def set_collect roleAnd_def roleNot_def hasJoinURL_def join_target_def)
  have none: "\<nexists>v. join_target p v" if "es = []"
    using that role_has_metadata(2)
    by (auto simp: es_def collect_empty_iff join_target_def roleAnd_def roleNot_def hasJoinURL_def)
  define ck where "ck = (let c = ChecksumIEEE (m_UID (pe_Machine e)) in if c = - 1 then c - 1 else c)"
  have ck: "ck \<noteq> - 1" by (simp add: ck_def Let_def)
  have len: "length es < 2 ^ 31" using collect_length assms by (auto simp: es_def intro: le_less_trans)
  show ?thesis
  proof (cases "es = []")
    case True
    with False none show ?thesis by (simp add: calculateJoinURL_def es_def [symmetric])
  next
    case nonempty: False
    then have rng: "0 \<le> scaled_index ck (length es) \<and> scaled_index ck (length es) < int (length es)"
      by (intro scaled_index_in_range ck len) simp
    then have "es ! nat (scaled_index ck (length es)) \<in> set es" by (intro nth_mem) auto
    with mem rng nonempty False show ?thesis
      by (simp add: calculateJoinURL_def es_def [symmetric] ck_def [unfolded Let_def, symmetric] Let_def)
  qed
qed (simp add: calculateJoinURL_def)

section \<open>Properties\<close>

text \<open>
  A worker without a forced join URL keeps the server it joined as long as a live
  control-plane or init node advertises it; otherwise it is given a live control-plane
  machine's URL whenever there is one, and an error when there is none. The scaled index
  never leaves the list of servers, for any UID and any plan of fewer than 2^31 machines.
\<close>

theorem determineJoinURL_worker:
  assumes "length (p_Machines p) < 2 ^ 31" and "isOnlyWorker e" and "\<not> isInitNode e"
  shows "case determineJoinURL (Some cp) (Some e) (Some p) '''' of
           Inr u \<Rightarrow> advertised p u \<and>
             (\<forall>pl. pe_Plan e = Some pl \<and> n_JoinedTo pl \<noteq> '''' \<and> advertised p (n_JoinedTo pl) \<longrightarrow> u = n_JoinedTo pl) \<and>
             (u \<noteq> '''')
         | Inl x \<Rightarrow> \<not> is_panic x \<and> (\<nexists>u. join_target p u)"
proof -
  obtain u where u: "calculateJoinURL cp e p = Inr u" "join_target p u \<or> u = '''' \<and> (\<nexists>v. join_target p v)"
    using calculateJoinURL_cases [OF assms(1), of cp e] assms(3) by blast
  have ne: "join_target p v \<Longrightarrow> v \<noteq> ''''" for v by (auto simp: join_target_def)
  show ?thesis
    using u assms(2) ne join_target_advertised
    by (auto simp: determineJoinURL_def Let_def validJoinURL_eq split: option.splits)
qed

definition demo_cp_plan :: plan where
  "demo_cp_plan = \<lparr>p_Nodes = Map.empty, p_Machines = [(''a'', demo_machine ''a''), (''w'', demo_machine ''w'')],
     p_Metadata = [''a'' \<mapsto> \<lparr>md_Labels = [ControlPlaneRoleLabel \<mapsto> ''true''], md_Annotations = [JoinURLAnnotation \<mapsto> ''https://a:9345'']\<rparr>,
                   ''w'' \<mapsto> \<lparr>md_Labels = [WorkerRoleLabel \<mapsto> ''true''], md_Annotations = Map.empty\<rparr>]\<rparr>"

theorem determineJoinURL_worker_witness:
  "determineJoinURL (Some demo_cp) (Some (plan_entry demo_cp_plan (''w'', demo_machine ''w''))) (Some demo_cp_plan) '''' =
     Inr ''https://a:9345''"
proof -
  let ?e = "plan_entry demo_cp_plan (''w'', demo_machine ''w'')"
  have e: "length (p_Machines demo_cp_plan) < 2 ^ 31" "isOnlyWorker ?e" "\<not> isInitNode ?e"
    by (simp_all add: demo_cp_plan_def role_defs entry_label_def plan_entry_def key_defs)
  have t: "join_target demo_cp_plan ''https://a:9345''"
    by (auto simp: join_target_def demo_cp_plan_def role_defs entry_label_def entry_annotation_def plan_entry_def key_defs
        demo_machine_def)
  have only: "u = ''https://a:9345''" if "advertised demo_cp_plan u" for u
    using that by (auto simp: advertised_def demo_cp_plan_def isNotDeletingAndControlPlaneOrInitNode_def role_defs
        entry_label_def entry_annotation_def plan_entry_def key_defs)
  from determineJoinURL_worker [OF e, of demo_cp] t only show ?thesis
    by (auto split: sum.splits)
qed

end
