(* ===== verification/Planner_Reconcile.thy ===== *)
theory Planner_Reconcile
  imports Planner_Join "HOL-Library.Log_Nat"
begin

text \<open>
  The reconciliation of a cluster's tiers (\<open>planner/planner.go\<close>): what counts as a minor
  change, how many machines may be unavailable at once, the conditions set on machines, one
  tier (\<open>reconcile\<close>) and the sequence of tiers (\<open>fullReconcile\<close>).
\<close>

section \<open>Concurrency\<close>

text \<open>
  IEEE-754 double precision on fractions of integers: the nearest number with a 53-bit
  significand, ties to even. Numbers so large or so small that the exponent range matters do
  not reach it.
\<close>

definition round_half_even :: "int \<Rightarrow> int \<Rightarrow> int" where
  "round_half_even n d =
     (let q = n div d; r = n mod d in if 2 * r > d \<or> 2 * r = d \<and> odd q then q + 1 else q)"

definition scaled_by :: "int \<Rightarrow> int \<times> int \<Rightarrow> int \<times> int" where
  "scaled_by e x = (case x of (n, d) \<Rightarrow> if 0 \<le> e then (n, d * 2 ^ nat e) else (n * 2 ^ nat (- e), d))"

definition fl_pos :: "int \<times> int \<Rightarrow> int \<times> int" where
  "fl_pos x =
     (let e0 = bitlen (fst x) - bitlen (snd x) - 53;
          e = (case scaled_by e0 x of (n, d) \<Rightarrow> if d * 2 ^ 53 \<le> n then e0 + 1 else e0) in
      case scaled_by e x of (n, d) \<Rightarrow>
        let m = round_half_even n d in if 0 \<le> e then (m * 2 ^ nat e, 1) else (m, 2 ^ nat (- e)))"

definition fl64 :: "int \<times> int \<Rightarrow> int \<times> int" where
  "fl64 x =
     (if fst x = 0 then (0, 1)
      else if fst x < 0 then (case fl_pos (- fst x, snd x) of (n, d) \<Rightarrow> (- n, d))
      else fl_pos x)"

text \<open>A plain decimal number: an optional sign, digits and at most one point, at least one digit.\<close>

definition parse_decimal :: "string \<Rightarrow> (int \<times> int) option" where
  "parse_decimal s =
     (let (neg, t) = (case s of
            c # cs \<Rightarrow> if c = CHR ''-'' then (True, cs) else if c = CHR ''+'' then (False, cs) else (False, s)
          | [] \<Rightarrow> (False, []));
          (a, b) = (case Cut t ''.'' of None \<Rightarrow> (t, '''') | Some ab \<Rightarrow> ab) in
      case undec1 (a @ b) of
        None \<Rightarrow> None
      | Some n \<Rightarrow> Some (if neg then - int n else int n, 10 ^ length b))"

definition moderate :: "int \<times> int \<Rightarrow> bool" where
  "moderate x \<longleftrightarrow> fst x = 0 \<or> \<bar>fst x\<bar> \<le> 2 ^ 40 * snd x \<and> snd x \<le> 2 ^ 40 * \<bar>fst x\<bar>"

text \<open>\<open>int(math.Ceil(float64(count) * (percentage / 100)))\<close>.\<close>

definition percent_ceil :: "int \<times> int \<Rightarrow> int \<Rightarrow> int" where
  "percent_ceil x cnt =
     (let p = fl64 x; h = fl64 (fst p, snd p * 100); m = fl64 (cnt * fst h, snd h) in
      - ((- fst m) div snd m))"

record reconcilable =
  r_entry :: planEntry
  r_desiredPlan :: node_plan
  r_joinedURL :: string
  r_change :: bool
  r_minorChange :: bool

definition isInDrain :: roleFilter where
  "isInDrain entry \<longleftrightarrow>
     entry_annotation entry PreDrainAnnotation \<noteq> '''' \<or> entry_annotation entry PostDrainAnnotation \<noteq> '''' \<or>
     entry_annotation entry DrainAnnotation \<noteq> '''' \<or> entry_annotation entry UnCordonAnnotation \<noteq> ''''"

text \<open>Callers test that the entry has a node.\<close>

definition isUnavailable :: "reconcilable \<Rightarrow> bool" where
  "isUnavailable r =
     (case pe_Plan (r_entry r) of
        None \<Rightarrow> False
      | Some pl \<Rightarrow>
          \<not> n_InSync pl \<or> isInDrain (r_entry r) \<or> (\<not> r_change r \<and> \<not> r_minorChange r \<and> \<not> n_Healthy pl))"

definition planAppliedButWaitingForProbes :: "('w, 'z) planner_env_scheme \<Rightarrow> planEntry \<Rightarrow> bool" where
  "planAppliedButWaitingForProbes E entry =
     (case pe_Plan entry of
        None \<Rightarrow> False
      | Some pl \<Rightarrow> (case n_AppliedPlan pl of None \<Rightarrow> False | Some ap \<Rightarrow> q_SameObject E (n_Plan pl) ap) \<and> \<not> n_Healthy pl)"

definition planAppliedButProbesNeverHealthy :: "('w, 'z) planner_env_scheme \<Rightarrow> planEntry \<Rightarrow> bool" where
  "planAppliedButProbesNeverHealthy E entry =
     (case pe_Plan entry of
        None \<Rightarrow> False
      | Some pl \<Rightarrow> (case n_AppliedPlan pl of None \<Rightarrow> False | Some ap \<Rightarrow> q_SameObject E (n_Plan pl) ap) \<and>
                  \<not> n_Healthy pl \<and> \<not> n_ProbesUsable pl)"

definition calculateConcurrency ::
  "('w, 'z) planner_env_scheme \<Rightarrow> string \<Rightarrow> reconcilable list \<Rightarrow> roleFilter \<Rightarrow> go_error + (int \<times> int)" where
  "calculateConcurrency E maxUnavailable reconcilables exclude =
     (let cnt = int (length (filter (\<lambda>r. \<not> exclude (r_entry r)) reconcilables));
          unavailable = int (length (filter (\<lambda>r. pe_Plan (r_entry r) \<noteq> None \<and> isUnavailable r) reconcilables)) in
      case Atoi maxUnavailable of
        Inr num \<Rightarrow> Inr (num, unavailable)
      | Inl _ \<Rightarrow>
          if maxUnavailable = '''' then Inr (1, unavailable)
          else
            let text = TrimSuffix maxUnavailable ''%'' in
            (case (case parse_decimal text of
                     Some x \<Rightarrow> if moderate x then Inr (percent_ceil x cnt) else q_Float E text cnt
                   | None \<Rightarrow> q_Float E text cnt) of
               Inl e \<Rightarrow> Inl (ErrWrap ''concurrency must be a number or a percentage'' e)
             | Inr num \<Rightarrow> Inr (num, unavailable)))"

section \<open>Minor changes\<close>

text \<open>
  The loop over the old files: a file with the same content drops out of the new ones, a
  major file that is gone ends the search.
\<close>

fun minor_loop :: "plan_file list \<Rightarrow> (string \<times> plan_file) list \<Rightarrow> (string \<times> plan_file) list option" where
  "minor_loop [] newFiles = Some newFiles"
| "minor_loop (oldFile # fs) newFiles =
     (case map_of newFiles (f_Path oldFile) of
        Some newFile \<Rightarrow>
          minor_loop fs (if f_Content oldFile = f_Content newFile then gm_del (f_Path oldFile) newFiles else newFiles)
      | None \<Rightarrow> if \<not> f_Minor oldFile then None else minor_loop fs newFiles)"

definition files_by_path :: "plan_file list \<Rightarrow> (string \<times> plan_file) list" where
  "files_by_path fs = foldl (\<lambda>m f. gm_put (f_Path f) f m) [] fs"

text \<open>Semantic equality of instructions and probes is equality of their fields; nil is empty.\<close>

definition minorPlanChangeDetected :: "node_plan \<Rightarrow> node_plan \<Rightarrow> bool" where
  "minorPlanChangeDetected old new =
     (if np_Instructions old \<noteq> np_Instructions new \<or> np_PeriodicInstructions old \<noteq> np_PeriodicInstructions new \<or>
         np_Probes old \<noteq> np_Probes new \<or> np_Error old \<noteq> np_Error new then False
      else if np_Files old = [] \<and> np_Files new = [] then False
      else
        (case minor_loop (np_Files old) (files_by_path (np_Files new)) of
           None \<Rightarrow> False
         | Some newFiles \<Rightarrow> newFiles \<noteq> [] \<and> list_all (\<lambda>(_, f). f_Minor f) newFiles))"

definition kubeletVersionUpToDate ::
  "('w, 'z) planner_env_scheme \<Rightarrow> RKEControlPlane option \<Rightarrow> machine option \<Rightarrow> bool" where
  "kubeletVersionUpToDate E controlPlane machine =
     (case (controlPlane, machine) of
        (Some cp, Some m) \<Rightarrow>
          (case m_KubeletVersion m of
             None \<Rightarrow> True
           | Some v \<Rightarrow>
               if \<not> st_AgentConnected (cp_Status cp) then True
               else
                 (case (q_NewVersion E (TrimPrefix v ''v''), q_NewVersion E (TrimPrefix (sp_KubernetesVersion (cp_Spec cp)) ''v'')) of
                    (Inr k, Inr d) \<Rightarrow> sv_Major k = sv_Major d \<and> sv_Minor k = sv_Minor d \<and> sv_Patch k = sv_Patch d
                  | _ \<Rightarrow> False))
      | _ \<Rightarrow> True)"

section \<open>Conditions of machines\<close>

type_synonym messages = "string \<Rightarrow> string list option"

definition no_messages :: messages where
  "no_messages = Map.empty"

text \<open>The machine is a copy, so only the API object changes, not the plan's machine.\<close>

fun condition_loop ::
  "('w, 'z) planner_env_scheme \<Rightarrow> plan \<Rightarrow> string list \<Rightarrow> messages \<Rightarrow> bool \<Rightarrow> ('w, bool) go" where
  "condition_loop E p [] messages waiting w = (Inr waiting, w)"
| "condition_loop E p (machineName # ns) messages waiting w =
     (case map_of (p_Machines p) machineName of
        None \<Rightarrow> (Inl (ErrOther (''found unexpected machine '' @ machineName @ '' that is not in cluster plan'')), w)
      | Some machine \<Rightarrow>
          let cs = m_Conditions machine;
              message = (case messages machineName of None \<Rightarrow> [] | Some m \<Rightarrow> m);
              update = (\<lambda>cs'. bindE (q_MachineUpdateStatus E (machine\<lparr>m_Conditions := cs'\<rparr>))
                                (\<lambda>_. condition_loop E p ns messages True) w) in
          if \<not> c_IsTrue (lib_Cond E) ''InfrastructureReady'' cs then condition_loop E p ns messages True w
          else if message \<noteq> [] then
            if c_GetMessage (lib_Cond E) ''Reconciled'' cs = Join message '', '' then condition_loop E p ns messages True w
            else update (q_MarkUnknown E ''Reconciled'' ''Waiting'' (Join message '', '') cs)
          else if \<not> c_IsTrue (lib_Cond E) ''Reconciled'' cs then update (q_MarkTrue E ''Reconciled'' cs)
          else condition_loop E p ns messages waiting w)"

definition setMachineConditionStatus ::
  "('w, 'z) planner_env_scheme \<Rightarrow> plan \<Rightarrow> string list \<Rightarrow> string \<Rightarrow> messages \<Rightarrow> ('w, unit) go" where
  "setMachineConditionStatus E p machineNames messagePrefix messages =
     bindE (condition_loop E p machineNames messages False) (\<lambda>waiting.
       if waiting
       then raiseE (ErrWaiting (messagePrefix @ atMostThree machineNames @ detailedMessage machineNames messages))
       else retE ())"

section \<open>Facts\<close>

text \<open>The scaled percentage is computed in floating point: 7% of 100 machines are 8.\<close>

lemma percent_ceil_seven: "percent_ceil (7, 1) 100 = 8" "percent_ceil (10, 1) 100 = 10"
  by code_simp+

lemma files_by_path_step: "files_by_path (fs @ [f]) = gm_put (f_Path f) f (files_by_path fs)"
  by (simp add: files_by_path_def)

lemma sorted_files_by_path: "sorted_wrt (<) (map fst (files_by_path fs))"
  by (induction fs rule: rev_induct) (simp add: files_by_path_def, simp add: files_by_path_step sorted_gm_put)

lemma map_of_files_by_path:
  "distinct (map f_Path fs) \<Longrightarrow> map_of (files_by_path fs) p = Some f \<longleftrightarrow> f \<in> set fs \<and> f_Path f = p"
  by (induction fs arbitrary: p f rule: rev_induct) (auto simp: files_by_path_def [of "[]"] files_by_path_step, metis image_eqI)

text \<open>The new file a path had, unless an old file of the path has the same content.\<close>

lemma minor_loop_sound:
  assumes "distinct (map f_Path fs)" "sorted_wrt (<) (map fst m)"
  shows "case minor_loop fs m of
           None \<Rightarrow> \<exists>f \<in> set fs. map_of m (f_Path f) = None \<and> \<not> f_Minor f
         | Some m' \<Rightarrow> (\<forall>f \<in> set fs. map_of m (f_Path f) = None \<longrightarrow> f_Minor f) \<and> sorted_wrt (<) (map fst m') \<and>
             (\<forall>p g. map_of m' p = Some g \<longleftrightarrow> map_of m p = Some g \<and>
                (\<forall>f \<in> set fs. f_Path f = p \<longrightarrow> f_Content f \<noteq> f_Content g))"
  using assms
proof (induction fs arbitrary: m)
  case (Cons f fs)
  have del: "sorted_wrt (<) (map fst (gm_del (f_Path f) m))"
    using Cons.prems(2) by (auto simp: gm_del_def sorted_wrt_map intro: sorted_wrt_filter)
  have IH: "case minor_loop fs n of
           None \<Rightarrow> \<exists>f \<in> set fs. map_of n (f_Path f) = None \<and> \<not> f_Minor f
         | Some m' \<Rightarrow> (\<forall>f \<in> set fs. map_of n (f_Path f) = None \<longrightarrow> f_Minor f) \<and> sorted_wrt (<) (map fst m') \<and>
             (\<forall>p g. map_of m' p = Some g \<longleftrightarrow> map_of n p = Some g \<and>
                (\<forall>f \<in> set fs. f_Path f = p \<longrightarrow> f_Content f \<noteq> f_Content g))" if "sorted_wrt (<) (map fst n)" for n
    using Cons.IH Cons.prems(1) that by simp
  have other: "f_Path f' \<noteq> f_Path f" if "f' \<in> set fs" for f'
    using Cons.prems(1) that by (metis distinct.simps(2) image_eqI list.set_map list.simps(9))
  show ?case
    using IH [OF Cons.prems(2)] IH [OF del] other
    by (cases "map_of m (f_Path f)") (auto split: option.splits if_splits)
qed simp

section \<open>Properties\<close>

text \<open>
  C14. A change of plan is minor exactly when instructions, probes and error text are the same,
  some file of the new plan is new or has new content, every such file is marked minor, and
  every file that is gone was marked minor. Removing files alone is no minor change.
\<close>

theorem minorPlanChange_iff:
  assumes "distinct (map f_Path (np_Files old))" "distinct (map f_Path (np_Files new))"
  shows "minorPlanChangeDetected old new \<longleftrightarrow>
    np_Instructions old = np_Instructions new \<and> np_PeriodicInstructions old = np_PeriodicInstructions new \<and>
    np_Probes old = np_Probes new \<and> np_Error old = np_Error new \<and>
    (let changed = (\<lambda>g. \<not> (\<exists>f \<in> set (np_Files old). f_Path f = f_Path g \<and> f_Content f = f_Content g)) in
     (\<exists>g \<in> set (np_Files new). changed g) \<and> (\<forall>g \<in> set (np_Files new). changed g \<longrightarrow> f_Minor g) \<and>
     (\<forall>f \<in> set (np_Files old). (\<forall>g \<in> set (np_Files new). f_Path g \<noteq> f_Path f) \<longrightarrow> f_Minor f))"
proof -
  note gone = map_of_files_by_path [OF assms(2)]
  have none: "map_of (files_by_path (np_Files new)) p = None \<longleftrightarrow> (\<forall>g \<in> set (np_Files new). f_Path g \<noteq> p)" for p
    using gone [of p] by (cases "map_of (files_by_path (np_Files new)) p") auto
  have nonempty: "m \<noteq> [] \<longleftrightarrow> (\<exists>p g. map_of m p = Some g)" for m :: "(string \<times> plan_file) list"
    by (cases m) auto
  have all: "list_all (\<lambda>(_, f). f_Minor f) m \<longleftrightarrow> (\<forall>p g. map_of m p = Some g \<longrightarrow> f_Minor g)"
    if "sorted_wrt (<) (map fst m)" for m :: "(string \<times> plan_file) list"
    using that strict_sorted_iff [of "map fst m"] by (auto simp: list_all_iff)
  show ?thesis
  proof (cases "minor_loop (np_Files old) (files_by_path (np_Files new))")
    case None
    with minor_loop_sound [OF assms(1) sorted_files_by_path [of "np_Files new"]] none show ?thesis
      by (auto simp: minorPlanChangeDetected_def Let_def)
  next
    case (Some m)
    with minor_loop_sound [OF assms(1) sorted_files_by_path [of "np_Files new"]] none gone
    have m: "sorted_wrt (<) (map fst m)"
      "\<forall>f \<in> set (np_Files old). (\<forall>g \<in> set (np_Files new). f_Path g \<noteq> f_Path f) \<longrightarrow> f_Minor f"
      "\<And>p g. map_of m p = Some g \<longleftrightarrow> g \<in> set (np_Files new) \<and> f_Path g = p \<and>
         (\<forall>f \<in> set (np_Files old). f_Path f = f_Path g \<longrightarrow> f_Content f \<noteq> f_Content g)"
      by auto
    show ?thesis
      using Some m(2) unfolding minorPlanChangeDetected_def Let_def option.case
      by (simp add: nonempty all [OF m(1)] m(3), auto)
  qed
qed

definition demo_file :: "string \<Rightarrow> string \<Rightarrow> bool \<Rightarrow> plan_file" where
  "demo_file path content minor = \<lparr>f_Content = content, f_Path = path, f_Permissions = '''', f_Dynamic = True, f_Minor = minor\<rparr>"

theorem minorPlanChange_iff_witness:
  "minorPlanChangeDetected (empty_plan\<lparr>np_Files := [demo_file ''a'' ''x'' False, demo_file ''b'' ''x'' True]\<rparr>)
     (empty_plan\<lparr>np_Files := [demo_file ''a'' ''x'' False, demo_file ''c'' ''x'' True]\<rparr>) \<and>
   \<not> minorPlanChangeDetected (empty_plan\<lparr>np_Files := [demo_file ''a'' ''x'' False, demo_file ''b'' ''x'' True]\<rparr>)
     (empty_plan\<lparr>np_Files := [demo_file ''a'' ''x'' False]\<rparr>)"
  using minorPlanChange_iff [of "empty_plan\<lparr>np_Files := [demo_file ''a'' ''x'' False, demo_file ''b'' ''x'' True]\<rparr>"
      "empty_plan\<lparr>np_Files := [demo_file ''a'' ''x'' False, demo_file ''c'' ''x'' True]\<rparr>"]
    minorPlanChange_iff [of "empty_plan\<lparr>np_Files := [demo_file ''a'' ''x'' False, demo_file ''b'' ''x'' True]\<rparr>"
      "empty_plan\<lparr>np_Files := [demo_file ''a'' ''x'' False]\<rparr>"]
  by (simp add: empty_plan_def demo_file_def)

end
