(* ===== verification/Planner_Tiers.thy ===== *)
theory Planner_Tiers
  imports Planner_Reconcile
begin

text \<open>
  One tier of machines (\<open>reconcile\<close>) and the sequence of tiers (\<open>fullReconcile\<close>) of
  \<open>planner/planner.go\<close>. A tier first renders the desired plan of every machine without
  writing anything, then walks over the machines: plans are delivered, machines drained and
  uncordoned within the limit of unavailable machines, and what was found is collected in an
  accumulator from which the conditions of the machines and the result are made.
\<close>

section \<open>One machine\<close>

record tier_acc =
  ta_ready :: "string list"
  ta_outOfSync :: "string list"
  ta_nonReady :: "string list"
  ta_errMachines :: "string list"
  ta_draining :: "string list"
  ta_uncordoned :: "string list"
  ta_messages :: messages
  ta_unavailable :: int

definition new_acc :: "int \<Rightarrow> tier_acc" where
  "new_acc unavailable = \<lparr>ta_ready = [], ta_outOfSync = [], ta_nonReady = [], ta_errMachines = [], ta_draining = [],
     ta_uncordoned = [], ta_messages = no_messages, ta_unavailable = unavailable\<rparr>"

definition add_message :: "string \<Rightarrow> string \<Rightarrow> messages \<Rightarrow> messages" where
  "add_message name m messages =
     messages(name \<mapsto> (case messages name of None \<Rightarrow> [] | Some ms \<Rightarrow> ms) @ [m])"

definition note_message :: "string \<Rightarrow> string \<Rightarrow> tier_acc \<Rightarrow> tier_acc" where
  "note_message name m acc = acc\<lparr>ta_messages := add_message name m (ta_messages acc)\<rparr>"

definition note_out_of_sync :: "string \<Rightarrow> tier_acc \<Rightarrow> tier_acc" where
  "note_out_of_sync name acc = acc\<lparr>ta_outOfSync := ta_outOfSync acc @ [name]\<rparr>"

definition note_draining :: "string \<Rightarrow> tier_acc \<Rightarrow> tier_acc" where
  "note_draining name acc = acc\<lparr>ta_draining := ta_draining acc @ [name]\<rparr>"

definition note_uncordoned :: "string \<Rightarrow> tier_acc \<Rightarrow> tier_acc" where
  "note_uncordoned name acc = acc\<lparr>ta_uncordoned := ta_uncordoned acc @ [name]\<rparr>"

definition note_ready :: "string \<Rightarrow> tier_acc \<Rightarrow> tier_acc" where
  "note_ready name acc = acc\<lparr>ta_ready := ta_ready acc @ [name]\<rparr>"

text \<open>What the machine's own conditions and its plan say about it.\<close>

definition machine_summary :: "('w, 'z) planner_env_scheme \<Rightarrow> planEntry \<Rightarrow> summary" where
  "machine_summary E entry =
     (let su = q_Summarize E (case removeReconciledCondition (Some (pe_Machine entry)) of
                                Some m \<Rightarrow> m | None \<Rightarrow> pe_Machine entry);
          planStatusMessage = getPlanStatusReasonMessage entry in
      if planStatusMessage \<noteq> '''' then su\<lparr>su_Message := su_Message su @ [planStatusMessage]\<rparr> else su)"

definition summarize_machine :: "('w, 'z) planner_env_scheme \<Rightarrow> reconcilable \<Rightarrow> tier_acc \<Rightarrow> tier_acc" where
  "summarize_machine E r acc =
     (let name = entry_name (r_entry r); su = machine_summary E (r_entry r) in
      acc\<lparr>ta_errMachines := ta_errMachines acc @ (if su_Error su then [name] else []),
          ta_nonReady := ta_nonReady acc @ (if su_Transitioning su then [name] else []),
          ta_messages := (ta_messages acc)(name \<mapsto> su_Message su)\<rparr>)"

definition deliver_plan ::
  "('w, 'z) planner_env_scheme \<Rightarrow> reconcilable \<Rightarrow> ('w pstate, planEntry) go" where
  "deliver_plan E r = entryE (\<lambda>e. UpdatePlan E e (r_desiredPlan r) (r_joinedURL r) (-1) 1) (r_entry r)"

definition may_disrupt ::
  "('w, 'z) planner_env_scheme \<Rightarrow> int \<Rightarrow> reconcilable \<Rightarrow> node \<Rightarrow> int \<Rightarrow> bool" where
  "may_disrupt E concurrency r pl unavailable \<longleftrightarrow>
     isInDrain (r_entry r) \<or> n_Failed pl \<or> concurrency = 0 \<or> unavailable < concurrency \<or>
     planAppliedButProbesNeverHealthy E (r_entry r)"

text \<open>A major change that may go on: drain, and deliver the plan once drained.\<close>

definition disrupt ::
  "('w, 'z) planner_env_scheme \<Rightarrow> DrainOptions \<Rightarrow> reconcilable \<Rightarrow> node \<Rightarrow> tier_acc \<Rightarrow> ('w pstate, tier_acc) go" where
  "disrupt E drainOptions r pl acc0 s =
     (let name = entry_name (r_entry r);
          acc = (if \<not> isUnavailable r then acc0\<lparr>ta_unavailable := ta_unavailable acc0 + 1\<rparr> else acc0) in
      case on_entry (\<lambda>e. drain E (n_AppliedPlan pl) (r_desiredPlan r) e (length (p_Machines (cplan s))) drainOptions) (r_entry r) s of
        ((False, Some e), _, s') \<Rightarrow> (Inl e, s')
      | ((True, None), entry, s') \<Rightarrow>
          bindE (deliver_plan E (r\<lparr>r_entry := entry\<rparr>)) (\<lambda>entry'.
            if entry_annotation entry' DrainDoneAnnotation \<noteq> '''' then retE (note_message name ''drain completed'' acc)
            else if getPlanStatusReasonMessage (r_entry r) = '''' then retE (note_message name WaitingPlanStatusMessage acc)
            else retE acc) s'
      | ((True, Some e), _, s') \<Rightarrow> (Inr (note_message name (Error e) (note_draining name acc)), s')
      | ((False, None), _, s') \<Rightarrow> (Inr (note_message name ''draining node'' (note_draining name acc)), s'))"

text \<open>A machine whose plan is the desired one and applied: uncordon, then the last checks.\<close>

definition settle ::
  "('w, 'z) planner_env_scheme \<Rightarrow> RKEControlPlane \<Rightarrow> reconcilable \<Rightarrow> tier_acc \<Rightarrow> ('w pstate, tier_acc) go" where
  "settle E controlPlane r acc s =
     (let name = entry_name (r_entry r) in
      case on_entry (undrain E) (r_entry r) s of
        ((False, Some e), _, s') \<Rightarrow> (Inl e, s')
      | ((True, Some e), _, s') \<Rightarrow> (Inr (note_message name (Error e) (note_uncordoned name acc)), s')
      | ((False, None), _, s') \<Rightarrow> (Inr (note_message name ''waiting for uncordon to finish'' (note_uncordoned name acc)), s')
      | ((True, None), entry, s') \<Rightarrow>
          if \<not> kubeletVersionUpToDate E (Some controlPlane) (Some (pe_Machine entry))
          then (Inr (note_message name ''waiting for kubelet to update'' (note_out_of_sync name acc)), s')
          else if isControlPlane entry \<and> \<not> st_AgentConnected (cp_Status controlPlane)
          then (Inr (note_message name ''waiting for cluster agent to connect'' (note_out_of_sync name acc)), s')
          else (Inr (note_ready name acc), s'))"

definition reconcile_machine ::
  "('w, 'z) planner_env_scheme \<Rightarrow> RKEControlPlane \<Rightarrow> int \<Rightarrow> DrainOptions \<Rightarrow> reconcilable \<Rightarrow> tier_acc \<Rightarrow>
   ('w pstate, tier_acc) go" where
  "reconcile_machine E controlPlane concurrency drainOptions r acc0 =
     (let name = entry_name (r_entry r); acc = summarize_machine E r acc0 in
      case pe_Plan (r_entry r) of
        None \<Rightarrow> bindE (deliver_plan E r) (\<lambda>_. retE (note_out_of_sync name acc))
      | Some pl \<Rightarrow>
          if r_minorChange r then bindE (deliver_plan E r) (\<lambda>_. retE (note_out_of_sync name acc))
          else if r_change r then
            if may_disrupt E concurrency r pl (ta_unavailable acc)
            then disrupt E drainOptions r pl (note_out_of_sync name acc)
            else retE (note_out_of_sync name acc)
          else if getPlanStatusReasonMessage (r_entry r) \<noteq> '''' then retE (note_out_of_sync name acc)
          else settle E controlPlane r acc)"

section \<open>One tier\<close>

definition render_machine ::
  "('w, 'z) planner_env_scheme \<Rightarrow> RKEControlPlane \<Rightarrow> plan_secret \<Rightarrow> string \<Rightarrow> planEntry \<Rightarrow> 'w pstate \<Rightarrow>
   go_error + reconcilable" where
  "render_machine E controlPlane tokensSecret forcedJoinURL entry s =
     sbind (determineJoinURL (Some controlPlane) (Some entry) (Some (cplan s)) forcedJoinURL) (\<lambda>joinURL.
     sbind (desiredPlan E controlPlane tokensSecret entry joinURL (world s)) (\<lambda>(np, joinedURL).
       Inr \<lparr>r_entry = entry, r_desiredPlan = np, r_joinedURL = joinedURL,
            r_change = (case pe_Plan entry of None \<Rightarrow> False | Some pl \<Rightarrow> \<not> e_DeepEqualPlan E (n_Plan pl) np),
            r_minorChange = (case pe_Plan entry of None \<Rightarrow> False | Some pl \<Rightarrow> minorPlanChangeDetected (n_Plan pl) np)\<rparr>))"

fun render_loop ::
  "('w, 'z) planner_env_scheme \<Rightarrow> RKEControlPlane \<Rightarrow> plan_secret \<Rightarrow> string \<Rightarrow> roleFilter \<Rightarrow> planEntry list \<Rightarrow>
   'w pstate \<Rightarrow> go_error + reconcilable list" where
  "render_loop E controlPlane tokensSecret forcedJoinURL exclude [] s = Inr []"
| "render_loop E controlPlane tokensSecret forcedJoinURL exclude (entry # es) s =
     (if exclude entry then render_loop E controlPlane tokensSecret forcedJoinURL exclude es s
      else
        sbind (render_machine E controlPlane tokensSecret forcedJoinURL entry s) (\<lambda>r.
        sbind (render_loop E controlPlane tokensSecret forcedJoinURL exclude es s) (\<lambda>rs.
          Inr (r # rs))))"

fun reconcile_loop ::
  "('w, 'z) planner_env_scheme \<Rightarrow> RKEControlPlane \<Rightarrow> int \<Rightarrow> DrainOptions \<Rightarrow> roleFilter \<Rightarrow> reconcilable list \<Rightarrow>
   tier_acc \<Rightarrow> ('w pstate, tier_acc) go" where
  "reconcile_loop E controlPlane concurrency drainOptions exclude [] acc = retE acc"
| "reconcile_loop E controlPlane concurrency drainOptions exclude (r # rs) acc =
     (if exclude (r_entry r) then reconcile_loop E controlPlane concurrency drainOptions exclude rs acc
      else
        bindE (reconcile_machine E controlPlane concurrency drainOptions r acc)
          (reconcile_loop E controlPlane concurrency drainOptions exclude rs))"

text \<open>The error of a call is kept and the next call is made.\<close>

definition first_error :: "err \<Rightarrow> go_error + unit \<Rightarrow> err" where
  "first_error firstError r =
     (case firstError of Some e \<Rightarrow> Some e | None \<Rightarrow> (case r of Inl e \<Rightarrow> Some e | Inr _ \<Rightarrow> None))"

fun report_conditions ::
  "('w, 'z) planner_env_scheme \<Rightarrow> (string list \<times> string \<times> messages) list \<Rightarrow> err \<Rightarrow> 'w pstate \<Rightarrow> err \<times> 'w pstate" where
  "report_conditions E [] firstError s = (firstError, s)"
| "report_conditions E ((names, messagePrefix, messages) # cs) firstError s =
     (case worldE (setMachineConditionStatus E (cplan s) names messagePrefix messages) s of
        (r, s') \<Rightarrow> report_conditions E cs (first_error firstError r) s')"

definition tier_conditions :: "string \<Rightarrow> tier_acc \<Rightarrow> (string list \<times> string \<times> messages) list" where
  "tier_conditions tierName acc =
     [(ta_uncordoned acc, ''uncordoning '' @ tierName @ '' node(s) '', ta_messages acc),
      (ta_draining acc, ''draining '' @ tierName @ '' node(s) '', ta_messages acc),
      (ta_outOfSync acc, ''configuring '' @ tierName @ '' node(s) '', ta_messages acc),
      (ta_ready acc, '''', no_messages)]"

text \<open>The conditions of the machines, then the result of the tier.\<close>

definition conclude_tier ::
  "('w, 'z) planner_env_scheme \<Rightarrow> string \<Rightarrow> tier_acc \<Rightarrow> 'w pstate \<Rightarrow> err \<times> 'w pstate" where
  "conclude_tier E tierName acc s =
     (case report_conditions E (tier_conditions tierName acc) None s of
        (Some e, s') \<Rightarrow> (Some e, s')
      | (None, s') \<Rightarrow>
          if ta_errMachines acc \<noteq> []
          then (Some (ErrIgnore (''failing '' @ tierName @ '' machine(s) '' @ atMostThree (ta_errMachines acc) @
                  detailedMessage (ta_errMachines acc) (ta_messages acc))), s')
          else if ta_nonReady acc \<noteq> []
          then (Some (ErrIgnore (''non-ready '' @ tierName @ '' machine(s) '' @ atMostThree (ta_nonReady acc) @
                  detailedMessage (ta_nonReady acc) (ta_messages acc))), s')
          else (None, s'))"

definition reconcile ::
  "('w, 'z) planner_env_scheme \<Rightarrow> RKEControlPlane \<Rightarrow> plan_secret \<Rightarrow> bool \<Rightarrow> string \<Rightarrow> roleFilter \<Rightarrow> roleFilter \<Rightarrow>
   string \<Rightarrow> string \<Rightarrow> DrainOptions \<Rightarrow> 'w pstate \<Rightarrow> err \<times> 'w pstate" where
  "reconcile E controlPlane tokensSecret required tierName include exclude maxUnavailable forcedJoinURL drainOptions s =
     (let entries = collect (cplan s) include in
      case render_loop E controlPlane tokensSecret forcedJoinURL exclude entries s of
        Inl e \<Rightarrow> (Some e, s)
      | Inr reconcilables \<Rightarrow>
          (case calculateConcurrency E maxUnavailable reconcilables exclude of
             Inl e \<Rightarrow> (Some e, s)
           | Inr (concurrency, unavailable) \<Rightarrow>
               (case reconcile_loop E controlPlane concurrency drainOptions exclude reconcilables (new_acc unavailable) s of
                  (Inl e, s') \<Rightarrow> (Some e, s')
                | (Inr acc, s') \<Rightarrow>
                    if required \<and> entries = []
                    then (Some (ErrWaiting (''waiting for at least one '' @ tierName @ '' node'')), s')
                    else conclude_tier E tierName acc s')))"

section \<open>All tiers\<close>

definition bootstrapTier :: string where "bootstrapTier = ''bootstrap''"

definition etcdTier :: string where "etcdTier = ''etcd''"

definition controlPlaneTier :: string where "controlPlaneTier = ''control plane''"

definition workerTier :: string where "workerTier = ''worker''"

text \<open>
  The second half of \<open>fullReconcile\<close>, once the join server is known: the etcd, control-plane
  and worker tiers.
\<close>

definition reconcile_joined ::
  "('w, 'z) planner_env_scheme \<Rightarrow> RKEControlPlane \<Rightarrow> RKEControlPlaneStatus \<Rightarrow> plan_secret \<Rightarrow> ClusterUpgradeStrategy \<Rightarrow>
   string \<Rightarrow> err \<Rightarrow> 'w statusE" where
  "reconcile_joined E cp status tokens strategy joinServer ignored0 s =
     (case reconcile E cp tokens True etcdTier isEtcd isInitNodeOrDeleting ''1'' joinServer
             (us_ControlPlaneDrainOptions strategy) s of
        (r1, s1) \<Rightarrow>
      (case ignoreErrors ignored0 r1 of
        (_, Some e) \<Rightarrow> ((status, Some e), s1)
      | (ignored1, None) \<Rightarrow>
      (case reconcile E cp tokens True controlPlaneTier isControlPlane isInitNodeOrDeleting
             (us_ControlPlaneConcurrency strategy) joinServer (us_ControlPlaneDrainOptions strategy) s1 of
        (r2, s2) \<Rightarrow>
      (case ignoreErrors ignored1 r2 of
        (_, Some e) \<Rightarrow> ((status, Some e), s2)
      | (ignored2, None) \<Rightarrow>
          if collect (cplan s2) (roleAnd isControlPlane (roleAnd hasJoinURL (roleNot isDeleting))) = []
          then ((status, Some (ErrWaiting ''waiting for control plane to be available'')), s2)
          else if \<not> st_Initialized status \<or> \<not> st_Ready status
          then ((status\<lparr>st_Initialized := True, st_Ready := True\<rparr>,
                 Some (ErrWaiting ''marking control plane as initialized and ready'')), s2)
          else
            (case reconcile E cp tokens False workerTier isOnlyWorker isInitNodeOrDeleting
                    (us_WorkerConcurrency strategy) '''' (us_WorkerDrainOptions strategy) s2 of
               (r3, s3) \<Rightarrow>
             (case ignoreErrors ignored2 r3 of
                (_, Some e) \<Rightarrow> ((status, Some e), s3)
              | (Some e, None) \<Rightarrow> ((status, Some (ErrWaiting (Error e))), s3)
              | (None, None) \<Rightarrow> ((status, None), s3)))))))"

definition no_strategy :: ClusterUpgradeStrategy where
  "no_strategy = \<lparr>us_ControlPlaneConcurrency = '''', us_ControlPlaneDrainOptions = no_drain,
     us_WorkerConcurrency = '''', us_WorkerDrainOptions = no_drain\<rparr>"

definition fullReconcile ::
  "('w, 'z) planner_env_scheme \<Rightarrow> RKEControlPlane \<Rightarrow> RKEControlPlaneStatus \<Rightarrow> plan_secret \<Rightarrow> bool \<Rightarrow> 'w statusE" where
  "fullReconcile E cp status0 tokens ignoreDrainAndConcurrency s =
     (case electInitNode E cp True s of
        ((_, Some e), s0) \<Rightarrow> ((status0, Some e), s0)
      | ((joinServer, None), s0) \<Rightarrow>
          let strategy = (if ignoreDrainAndConcurrency then no_strategy else sp_UpgradeStrategy (cp_Spec cp)) in
          (case reconcile E cp tokens True bootstrapTier isEtcd isNotInitNodeOrIsDeleting ''1'' ''''
                  (us_ControlPlaneDrainOptions strategy) s0 of
             (r0, s1) \<Rightarrow>
               let status = status0\<lparr>st_Conditions := c_True (lib_Cond E) ''Bootstrapped'' (st_Conditions status0)\<rparr> in
               (case ignoreErrors None r0 of
                  (_, Some e) \<Rightarrow> ((status, Some e), s1)
                | (ignored, None) \<Rightarrow>
                    if joinServer \<noteq> '''' then reconcile_joined E cp status tokens strategy joinServer ignored s1
                    else
                      (case findInitNode E cp s1 of
                         ((_, _, _, Some e), s2) \<Rightarrow> ((status, Some e), s2)
                       | ((_, joinServer', _, None), s2) \<Rightarrow>
                           if joinServer' \<noteq> '''' then reconcile_joined E cp status tokens strategy joinServer' ignored s2
                           else
                             ((status, Some (ErrWaiting (case ignored of
                                 Some f \<Rightarrow> Error f @ '' and join url to be available on bootstrap node''
                               | None \<Rightarrow> ''waiting for join url to be available on bootstrap node''))), s2))))) "

end
