(* ===== verification/Planner_Tiers_Correct.thy ===== *)
theory Planner_Tiers_Correct
  imports Planner_Tiers
begin

text \<open>
  What a tier and the sequence of tiers guarantee: no role changes hands, the limit of
  unavailable machines, what a successful tier says about its machines, and that a settled
  tier is left alone.
\<close>

section \<open>Frames\<close>

text \<open>Only the entry's own metadata changes, and no label.\<close>

definition touches :: "string \<Rightarrow> plan \<Rightarrow> plan \<Rightarrow> bool" where
  "touches n p p' \<longleftrightarrow>
     p_Machines p' = p_Machines p \<and> p_Nodes p' = p_Nodes p \<and> (\<forall>k. k \<noteq> n \<longrightarrow> p_Metadata p' k = p_Metadata p k) \<and>
     (\<forall>k. map_option md_Labels (p_Metadata p' k) = map_option md_Labels (p_Metadata p k))"

definition same_roles :: "plan \<Rightarrow> plan \<Rightarrow> bool" where
  "same_roles p p' \<longleftrightarrow>
     p_Machines p' = p_Machines p \<and> p_Nodes p' = p_Nodes p \<and>
     (\<forall>k. map_option md_Labels (p_Metadata p' k) = map_option md_Labels (p_Metadata p k))"

lemma touches_refl [simp]: "touches n p p"
  by (simp add: touches_def)

lemma touches_trans: "touches n p q \<Longrightarrow> touches n q r \<Longrightarrow> touches n p r"
  by (simp add: touches_def)

lemma touches_same_roles: "touches n p q \<Longrightarrow> same_roles p q"
  by (simp add: touches_def same_roles_def)

lemma same_roles_refl [simp]: "same_roles p p"
  by (simp add: same_roles_def)

lemma same_roles_trans: "same_roles p q \<Longrightarrow> same_roles q r \<Longrightarrow> same_roles p r"
  by (simp add: same_roles_def)

lemma touches_in_plan: "touches n p q \<Longrightarrow> in_plan p e \<Longrightarrow> entry_name e \<noteq> n \<Longrightarrow> in_plan q e"
  by (simp add: touches_def in_plan_def)

lemma same_roles_plan_ok: "same_roles p q \<Longrightarrow> plan_ok q = plan_ok p"
  by (simp add: same_roles_def plan_ok_def)

lemma same_roles_collect:
  assumes "same_roles p q" "label_filter f"
  shows "map entry_name (collect q f) = map entry_name (collect p f)"
proof -
  have eq: "f (plan_entry q km) = f (plan_entry p km)" for km
    using assms by (intro label_filterD [OF assms(2)]) (simp_all add: plan_entry_def labels_of_def same_roles_def)
  have "map entry_name (filter f (map (plan_entry q) ms)) = map entry_name (filter f (map (plan_entry p) ms))" for ms
    by (induction ms) (simp_all add: eq, simp_all add: entry_name_def plan_entry_def)
  moreover have "map entry_name (sort_key entry_name xs) = sort (map entry_name xs)" for xs
    by (rule properties_for_sort [symmetric]) simp_all
  ultimately show ?thesis
    using assms(1) by (simp only: collect_def same_roles_def)
qed

lemma on_entry_nodes: "on_entry op e s = (r, e', s') \<Longrightarrow> p_Nodes (cplan s') = p_Nodes (cplan s)"
  by (auto simp: on_entry_def put_entry_def split: prod.splits)

context role_keeping_op
begin

lemma on_entry_touches:
  assumes "on_entry op e s = (r, e', s')" "in_plan (cplan s) e"
  shows "touches (entry_name e) (cplan s) (cplan s') \<and> in_plan (cplan s') e' \<and> entry_name e' = entry_name e"
  using on_entry_machines [OF assms(1)] on_entry_others [OF assms(1)] on_entry_labels [OF assms]
    on_entry_in_plan [OF assms(1)] on_entry_nodes [OF assms(1)] op_name [of e "world s" r e' "world s'"] on_entryD [OF assms(1)]
  by (simp add: touches_def)

end

lemma worldE_cplan [simp]: "cplan (snd (worldE f s)) = cplan s"
  by (simp add: worldE_def split: prod.splits)

lemma worldE_cplanD: "worldE f s = (r, s') \<Longrightarrow> cplan s' = cplan s"
  by (metis snd_conv worldE_cplan)

lemma entryE_frame:
  assumes "role_keeping_op op" "entryE op e s = (r, s')" "in_plan (cplan s) e"
  shows "touches (entry_name e) (cplan s) (cplan s')"
  using assms role_keeping_op.on_entry_touches [OF assms(1)]
  by (auto simp: entryE_def split: prod.splits option.splits)

lemma deliver_plan_touches:
  "deliver_plan E r s = (x, s') \<Longrightarrow> in_plan (cplan s) (r_entry r) \<Longrightarrow>
     touches (entry_name (r_entry r)) (cplan s) (cplan s')"
  unfolding deliver_plan_def by (rule entryE_frame [OF UpdatePlan.role_keeping_op_axioms])

lemma disrupt_touches:
  assumes run: "disrupt E opts r pl acc s = (x, s')" and ip: "in_plan (cplan s) (r_entry r)"
  shows "touches (entry_name (r_entry r)) (cplan s) (cplan s')"
proof -
  obtain ok e1 en s1 where
    d: "on_entry (\<lambda>e. drain E (n_AppliedPlan pl) (r_desiredPlan r) e (length (p_Machines (cplan s))) opts) (r_entry r) s
          = ((ok, e1), en, s1)"
    by (metis prod.exhaust)
  note t = drain.on_entry_touches [OF d ip]
  have "touches (entry_name (r_entry r)) (cplan s1) (cplan s2)"
    if "deliver_plan E (r\<lparr>r_entry := en\<rparr>) s1 = (y, s2)" for y s2
    using deliver_plan_touches [OF that] t by simp
  with run d t show ?thesis
    by (auto simp: disrupt_def Let_def bindE_def intro: touches_trans split: bool.splits option.splits prod.splits sum.splits if_splits)
qed

lemma settle_touches:
  assumes run: "settle E cp r acc s = (x, s')" and ip: "in_plan (cplan s) (r_entry r)"
  shows "touches (entry_name (r_entry r)) (cplan s) (cplan s')"
proof -
  obtain ok e1 en s1 where d: "on_entry (undrain E) (r_entry r) s = ((ok, e1), en, s1)"
    by (metis prod.exhaust)
  with run undrain.on_entry_touches [OF d ip] show ?thesis
    by (auto simp: settle_def Let_def split: bool.splits option.splits if_splits)
qed

lemma reconcile_machine_touches:
  assumes "reconcile_machine E cp c opts r acc s = (x, s')" "in_plan (cplan s) (r_entry r)"
  shows "touches (entry_name (r_entry r)) (cplan s) (cplan s')"
proof -
  have "touches (entry_name (r_entry r)) (cplan s) (cplan s')"
    if "bindE (deliver_plan E r) (\<lambda>_. retE a) s = (x, s')" for a :: tier_acc
    using that deliver_plan_touches [OF _ assms(2)] by (auto simp: bindE_def split: prod.splits sum.splits)
  with assms(1) show ?thesis
    using disrupt_touches [OF _ assms(2)] settle_touches [OF _ assms(2)]
    by (auto simp: reconcile_machine_def Let_def split: option.splits if_splits)
qed

definition tier_list :: "plan \<Rightarrow> reconcilable list \<Rightarrow> bool" where
  "tier_list p rs \<longleftrightarrow> distinct (map (entry_name \<circ> r_entry) rs) \<and> (\<forall>r \<in> set rs. in_plan p (r_entry r))"

lemma tier_list_step:
  assumes "tier_list p (r # rs)" "touches (entry_name (r_entry r)) p q"
  shows "tier_list q rs"
proof -
  have "in_plan q (r_entry x)" if "x \<in> set rs" for x
  proof -
    have "entry_name (r_entry r) \<notin> (entry_name \<circ> r_entry) ` set rs" using assms(1) by (simp add: tier_list_def)
    with that have "entry_name (r_entry x) \<noteq> entry_name (r_entry r)" by (metis comp_apply image_eqI)
    with assms(1) that show ?thesis by (intro touches_in_plan [OF assms(2)]) (simp_all add: tier_list_def)
  qed
  with assms(1) show ?thesis by (simp add: tier_list_def)
qed

lemma reconcile_loop_roles:
  assumes "reconcile_loop E cp c opts excl rs acc s = (x, s')" "tier_list (cplan s) rs"
  shows "same_roles (cplan s) (cplan s')"
  using assms
proof (induction rs arbitrary: acc s)
  case (Cons r rs)
  show ?case
  proof (cases "excl (r_entry r)")
    case True
    with Cons show ?thesis by (auto simp: tier_list_def)
  next
    case False
    obtain y s1 where m: "reconcile_machine E cp c opts r acc s = (y, s1)" by fastforce
    from Cons.prems(2) have "in_plan (cplan s) (r_entry r)" by (simp add: tier_list_def)
    from reconcile_machine_touches [OF m this] have t: "touches (entry_name (r_entry r)) (cplan s) (cplan s1)" .
    show ?thesis
      using Cons.prems(1) Cons.IH [OF _ tier_list_step [OF Cons.prems(2) t]] touches_same_roles [OF t] False m
      by (auto simp: bindE_def intro: same_roles_trans split: sum.splits)
  qed
qed simp

lemma render_loop_entries:
  "render_loop E cp t f excl es s = Inr rs \<Longrightarrow> map r_entry rs = filter (\<lambda>e. \<not> excl e) es"
  by (induction es arbitrary: rs) (auto simp: sbind_eq_Inr_iff render_machine_def split: if_splits)

lemma render_minor:
  assumes "render_loop E cp t f excl es s = Inr rs" "r \<in> set rs" "r_minorChange r"
  shows "pe_Plan (r_entry r) \<noteq> None"
  using assms
  by (induction es arbitrary: rs)
     (auto simp: sbind_eq_Inr_iff render_machine_def split: if_splits option.splits)

lemma render_loop_tier_list:
  assumes "plan_ok (cplan s)" "render_loop E cp t f excl (collect (cplan s) incl) s = Inr rs"
  shows "tier_list (cplan s) rs"
proof -
  note es = render_loop_entries [OF assms(2)]
  have "distinct (map entry_name (filter (\<lambda>e. \<not> excl e) (collect (cplan s) incl)))"
    using distinct_collect [OF assms(1)] by (simp add: distinct_map_filter)
  then have "distinct (map (entry_name \<circ> r_entry) rs)"
    by (simp flip: es)
  moreover have "in_plan (cplan s) (r_entry r)" if "r \<in> set rs" for r
  proof -
    have "r_entry r \<in> set (filter (\<lambda>e. \<not> excl e) (collect (cplan s) incl))" unfolding es [symmetric] using that by simp
    then show ?thesis by (intro in_plan_collect [OF assms(1)]) auto
  qed
  ultimately show ?thesis by (simp add: tier_list_def)
qed

lemma report_conditions_cplan: "report_conditions E cs f s = (e, s') \<Longrightarrow> cplan s' = cplan s"
  by (induction E cs f s rule: report_conditions.induct) (auto dest: worldE_cplanD split: prod.splits)

lemma conclude_tier_cplan: "conclude_tier E tier acc s = (e, s') \<Longrightarrow> cplan s' = cplan s"
  by (auto simp: conclude_tier_def dest: report_conditions_cplan split: prod.splits option.splits if_splits)

text \<open>A tier either stops before it writes anything, or walks over its machines.\<close>

lemma reconcile_cases:
  assumes "reconcile E cp t req tier incl excl mu f opts s = (e, s')"
  obtains (early) "e \<noteq> None" "s' = s"
  | (walk) rs c u x s1 where
      "render_loop E cp t f excl (collect (cplan s) incl) s = Inr rs"
      "calculateConcurrency E mu rs excl = Inr (c, u)"
      "reconcile_loop E cp c opts excl rs (new_acc u) s = (x, s1)" "cplan s' = cplan s1"
proof (cases "render_loop E cp t f excl (collect (cplan s) incl) s")
  case (Inl a)
  with assms show thesis by (auto simp: reconcile_def Let_def intro: early)
next
  case rs: (Inr rs)
  show thesis
  proof (cases "calculateConcurrency E mu rs excl")
    case (Inl a)
    with assms rs show thesis by (auto simp: reconcile_def Let_def intro: early)
  next
    case cu: (Inr cu)
    obtain c u where [simp]: "cu = (c, u)" by fastforce
    obtain x s1 where loop: "reconcile_loop E cp c opts excl rs (new_acc u) s = (x, s1)" by fastforce
    have "cplan s' = cplan s1"
      using assms rs cu loop
      by (auto simp: reconcile_def Let_def dest!: conclude_tier_cplan
          split: sum.splits prod.splits if_splits option.splits)
    with rs cu loop show thesis by (auto intro: walk)
  qed
qed

lemma reconcile_roles:
  assumes ok: "plan_ok (cplan s)"
    and run: "reconcile E cp t req tier incl excl mu f opts s = (e, s')"
  shows "same_roles (cplan s) (cplan s')"
  using run
proof (cases rule: reconcile_cases)
  case (walk rs c u x s1)
  from reconcile_loop_roles [OF walk(3) render_loop_tier_list [OF ok walk(1)]] walk(4) show ?thesis by simp
qed simp

section \<open>The limit of unavailable machines\<close>

text \<open>
  A machine the limit protects: it has a major change, is available, and neither failed its
  plan nor was ever unhealthy under it.
\<close>

definition restrained :: "('w, 'z) planner_env_scheme \<Rightarrow> reconcilable \<Rightarrow> bool" where
  "restrained E r \<longleftrightarrow>
     (case pe_Plan (r_entry r) of
        None \<Rightarrow> False
      | Some pl \<Rightarrow> \<not> r_minorChange r \<and> r_change r \<and> \<not> isUnavailable r \<and> \<not> n_Failed pl \<and>
                  \<not> planAppliedButProbesNeverHealthy E (r_entry r))"

definition same_count :: "tier_acc \<Rightarrow> tier_acc \<Rightarrow> bool" where
  "same_count a b \<longleftrightarrow> ta_unavailable a = ta_unavailable b"

lemma note_unavailable [simp]:
  "ta_unavailable (note_message n m a) = ta_unavailable a" "ta_unavailable (note_out_of_sync n a) = ta_unavailable a"
  "ta_unavailable (note_draining n a) = ta_unavailable a" "ta_unavailable (note_uncordoned n a) = ta_unavailable a"
  "ta_unavailable (note_ready n a) = ta_unavailable a" "ta_unavailable (summarize_machine E r a) = ta_unavailable a"
  by (simp_all add: note_message_def note_out_of_sync_def note_draining_def note_uncordoned_def note_ready_def
      summarize_machine_def Let_def)

lemma held_back_step:
  assumes "restrained E r" "c \<noteq> 0" "c \<le> ta_unavailable acc"
  shows "reconcile_machine E cp c opts r acc s =
           (Inr (note_out_of_sync (entry_name (r_entry r)) (summarize_machine E r acc)), s)"
  using assms
  by (auto simp: restrained_def reconcile_machine_def may_disrupt_def isUnavailable_def Let_def split: option.splits)

lemma disrupt_count:
  "disrupt E opts r pl acc s = (Inr acc', s') \<Longrightarrow>
     ta_unavailable acc' = ta_unavailable acc + (if isUnavailable r then 0 else 1)"
  by (auto simp: disrupt_def Let_def bindE_def split: prod.splits bool.splits option.splits sum.splits if_splits)

lemma settle_count: "settle E cp r acc s = (Inr acc', s') \<Longrightarrow> ta_unavailable acc' = ta_unavailable acc"
  by (auto simp: settle_def Let_def split: prod.splits bool.splits option.splits if_splits)

lemma step_count:
  assumes "reconcile_machine E cp c opts r acc s = (Inr acc', s')" "c \<noteq> 0"
  shows "ta_unavailable acc \<le> ta_unavailable acc'"
    and "restrained E r \<Longrightarrow> ta_unavailable acc < c \<Longrightarrow> ta_unavailable acc' = ta_unavailable acc + 1"
  using assms
  by (auto simp: reconcile_machine_def restrained_def may_disrupt_def Let_def bindE_def
      dest!: disrupt_count settle_count split: option.splits if_splits prod.splits sum.splits)

lemma disrupt_cong:
  assumes "same_count a b"
  shows "rel_prod (rel_sum (=) same_count) (=) (disrupt E opts r pl a s) (disrupt E opts r pl b s)"
  using assms
  by (auto simp: disrupt_def Let_def bindE_def same_count_def split: prod.splits bool.splits option.splits sum.splits)

lemma settle_cong:
  assumes "same_count a b"
  shows "rel_prod (rel_sum (=) same_count) (=) (settle E cp r a s) (settle E cp r b s)"
  using assms
  by (auto simp: settle_def Let_def same_count_def split: prod.splits bool.splits option.splits)

lemma reconcile_machine_cong:
  assumes "same_count a b"
  shows "rel_prod (rel_sum (=) same_count) (=)
           (reconcile_machine E cp c opts r a s) (reconcile_machine E cp c opts r b s)"
proof -
  have sc: "same_count (summarize_machine E r a) (summarize_machine E r b)"
    "same_count (note_out_of_sync n (summarize_machine E r a)) (note_out_of_sync n (summarize_machine E r b))" for n
    using assms by (simp_all add: same_count_def)
  have "ta_unavailable a = ta_unavailable b" using assms by (simp add: same_count_def)
  then show ?thesis
    using disrupt_cong [OF sc(2)] settle_cong [OF sc(1)] sc
    by (auto simp: reconcile_machine_def Let_def bindE_def split: option.splits prod.splits sum.splits)
qed

lemma reconcile_loop_cong:
  assumes "same_count a b"
  shows "rel_prod (rel_sum (=) same_count) (=)
           (reconcile_loop E cp c opts excl rs a s) (reconcile_loop E cp c opts excl rs b s)"
  using assms
proof (induction rs arbitrary: a b s)
  case (Cons r rs)
  with reconcile_machine_cong [OF Cons.prems, of E cp c opts r s] show ?case
    by (auto simp: bindE_def elim!: rel_sum.cases split: prod.splits)
qed simp

lemma limit_sublist:
  assumes "reconcile_loop E cp c opts excl rs acc s = (x, s')" "c \<noteq> 0"
  shows "\<exists>ts. subseq ts rs \<and> snd (reconcile_loop E cp c opts excl ts acc s) = s' \<and>
           int (length (filter (restrained E) ts)) \<le> max 0 (c - ta_unavailable acc)"
  using assms(1)
proof (induction rs arbitrary: acc s)
  case Nil
  then show ?case by (intro exI [of _ "[]"]) simp
next
  case (Cons r rs)
  show ?case
  proof (cases "excl (r_entry r)")
    case True
    with Cons obtain ts where "subseq ts rs" "snd (reconcile_loop E cp c opts excl ts acc s) = s'"
      "int (length (filter (restrained E) ts)) \<le> max 0 (c - ta_unavailable acc)" by fastforce
    then show ?thesis by (intro exI [of _ ts]) auto
  next
    case run: False
    show ?thesis
    proof (cases "restrained E r \<and> c \<le> ta_unavailable acc")
      case True
      let ?acc = "note_out_of_sync (entry_name (r_entry r)) (summarize_machine E r acc)"
      from held_back_step [of E r c acc cp opts s] True Cons.prems run assms(2)
      have "reconcile_loop E cp c opts excl rs ?acc s = (x, s')" by (simp add: bindE_def)
      from Cons.IH [OF this] obtain ts where ts: "subseq ts rs" "snd (reconcile_loop E cp c opts excl ts ?acc s) = s'"
        "int (length (filter (restrained E) ts)) \<le> max 0 (c - ta_unavailable acc)" by auto
      have "same_count ?acc acc" by (simp add: same_count_def)
      from reconcile_loop_cong [OF this, of E cp c opts excl ts s] ts(2)
      have "snd (reconcile_loop E cp c opts excl ts acc s) = s'" by (auto simp: rel_prod_sel)
      with ts show ?thesis by (intro exI [of _ ts]) auto
    next
      case active: False
      obtain y s1 where m: "reconcile_machine E cp c opts r acc s = (y, s1)" by fastforce
      show ?thesis
      proof (cases y)
        case (Inl e)
        with Cons.prems m run active show ?thesis
          by (intro exI [of _ "[r]"]) (auto simp: bindE_def subseq_singleton_left)
      next
        case (Inr acc1)
        with m Cons.prems run have "reconcile_loop E cp c opts excl rs acc1 s1 = (x, s')" by (simp add: bindE_def)
        from Cons.IH [OF this] obtain ts where ts: "subseq ts rs" "snd (reconcile_loop E cp c opts excl ts acc1 s1) = s'"
          "int (length (filter (restrained E) ts)) \<le> max 0 (c - ta_unavailable acc1)" by blast
        with m Inr run active step_count [of E cp c opts r acc s acc1 s1] assms(2) show ?thesis
          by (intro exI [of _ "r # ts"]) (auto simp: bindE_def)
      qed
    qed
  qed
qed

section \<open>Conditions of machines\<close>

definition silent :: "messages \<Rightarrow> string \<Rightarrow> bool" where
  "silent messages n \<longleftrightarrow> messages n = None \<or> messages n = Some []"

definition machine_fine :: "('w, 'z) planner_env_scheme \<Rightarrow> plan \<Rightarrow> string \<Rightarrow> bool" where
  "machine_fine E p n \<longleftrightarrow>
     (case map_of (p_Machines p) n of
        None \<Rightarrow> False
      | Some m \<Rightarrow> c_IsTrue (lib_Cond E) ''InfrastructureReady'' (m_Conditions m) \<and>
                 c_IsTrue (lib_Cond E) ''Reconciled'' (m_Conditions m))"

lemma condition_loop_waiting:
  "condition_loop E p ns msgs True w = (r, w') \<Longrightarrow> r \<noteq> Inr False"
  by (induction E p ns msgs True w arbitrary: rule: condition_loop.induct)
     (auto simp: Let_def bindE_def split: option.splits if_splits prod.splits sum.splits)

lemma condition_loop_iff:
  "condition_loop E p ns msgs False w = (Inr False, w') \<longleftrightarrow>
     w' = w \<and> (\<forall>n \<in> set ns. machine_fine E p n \<and> silent msgs n)"
proof (induction ns arbitrary: w)
  case (Cons n ns)
  have "bindE f (\<lambda>_. condition_loop E p ns msgs True) w \<noteq> (Inr False, w')" for f :: "('a, machine) go"
    by (auto simp: bindE_eq_Inr_iff dest: condition_loop_waiting)
  moreover have "condition_loop E p ns msgs True w \<noteq> (Inr False, w')"
    by (auto dest: condition_loop_waiting)
  ultimately show ?case
    using Cons.IH [of w]
    by (cases "map_of (p_Machines p) n"; cases "msgs n")
       (auto simp: Let_def machine_fine_def silent_def)
qed auto

lemma setMachineConditionStatus_iff:
  "setMachineConditionStatus E p ns pre msgs w = (Inr (), w') \<longleftrightarrow>
     w' = w \<and> (\<forall>n \<in> set ns. machine_fine E p n \<and> silent msgs n)"
  using condition_loop_iff [of E p ns msgs w w']
  by (auto simp: setMachineConditionStatus_def bindE_eq_Inr_iff split: if_splits)

lemma report_one_iff:
  "worldE (setMachineConditionStatus E p ns pre msgs) s = (Inr (), s1) \<longleftrightarrow>
     s1 = s \<and> (\<forall>n \<in> set ns. machine_fine E p n \<and> silent msgs n)"
proof -
  have "worldE (setMachineConditionStatus E p ns pre msgs) s = (Inr (), s1) \<longleftrightarrow>
      (\<exists>w'. setMachineConditionStatus E p ns pre msgs (world s) = (Inr (), w') \<and> s1 = s\<lparr>world := w'\<rparr>)"
    by (auto simp: worldE_def split: prod.splits)
  then show ?thesis by (simp add: setMachineConditionStatus_iff) auto
qed

lemma report_conditions_error: "report_conditions E cs (Some e) s = (f, s') \<Longrightarrow> f = Some e"
  by (induction cs arbitrary: s) (auto simp: first_error_def split: prod.splits)

lemma report_conditions_iff:
  "report_conditions E cs None s = (None, s') \<longleftrightarrow>
     s' = s \<and> (\<forall>(ns, pre, msgs) \<in> set cs. \<forall>n \<in> set ns. machine_fine E (cplan s) n \<and> silent msgs n)"
proof (induction cs arbitrary: s)
  case (Cons c cs)
  obtain ns pre msgs where [simp]: "c = (ns, pre, msgs)" by (metis prod.exhaust)
  obtain r s1 where w: "worldE (setMachineConditionStatus E (cplan s) ns pre msgs) s = (r, s1)" by fastforce
  note iff = report_one_iff [of E "cplan s" ns pre msgs s]
  show ?case
  proof (cases r)
    case (Inl e)
    with w iff [of s] report_conditions_error [of E cs e s1 None s'] show ?thesis by (auto simp: first_error_def)
  next
    case (Inr u)
    with w iff [of s1] Cons.IH [of s] show ?thesis by (auto simp: first_error_def)
  qed
qed auto

lemma conclude_tier_iff:
  "conclude_tier E tier acc s = (None, s') \<longleftrightarrow>
     s' = s \<and> ta_errMachines acc = [] \<and> ta_nonReady acc = [] \<and>
     (\<forall>n \<in> set (ta_uncordoned acc @ ta_draining acc @ ta_outOfSync acc). machine_fine E (cplan s) n \<and> silent (ta_messages acc) n) \<and>
     (\<forall>n \<in> set (ta_ready acc). machine_fine E (cplan s) n)"
proof -
  obtain e s1 where r: "report_conditions E (tier_conditions tier acc) None s = (e, s1)" by fastforce
  have "conclude_tier E tier acc s = (None, s') \<longleftrightarrow>
      report_conditions E (tier_conditions tier acc) None s = (None, s') \<and> ta_errMachines acc = [] \<and> ta_nonReady acc = []"
    using r by (auto simp: conclude_tier_def split: option.splits)
  then show ?thesis
    unfolding report_conditions_iff by (auto simp: tier_conditions_def no_messages_def silent_def)
qed

section \<open>A successful tier\<close>

text \<open>A machine that is where the planner wants it.\<close>

definition settled :: "('w, 'z) planner_env_scheme \<Rightarrow> RKEControlPlane \<Rightarrow> reconcilable \<Rightarrow> bool" where
  "settled E cp r \<longleftrightarrow>
     (case pe_Plan (r_entry r) of
        None \<Rightarrow> False | Some pl \<Rightarrow> n_AppliedPlan pl \<noteq> None \<and> n_Healthy pl \<and> n_InSync pl) \<and>
     \<not> r_change r \<and> \<not> r_minorChange r \<and> getPlanStatusReasonMessage (r_entry r) = '''' \<and>
     entry_annotation (r_entry r) DrainAnnotation = '''' \<and> entry_annotation (r_entry r) UnCordonAnnotation = '''' \<and>
     checkForDrainError (r_entry r) ''undraining'' = None \<and>
     kubeletVersionUpToDate E (Some cp) (Some (pe_Machine (r_entry r))) \<and>
     (isControlPlane (r_entry r) \<longrightarrow> st_AgentConnected (cp_Status cp))"

text \<open>A major change that waits for its turn.\<close>

definition held_back :: "('w, 'z) planner_env_scheme \<Rightarrow> int \<Rightarrow> reconcilable \<Rightarrow> bool" where
  "held_back E c r \<longleftrightarrow> r_change r \<and> c \<noteq> 0 \<and> \<not> isInDrain (r_entry r) \<and>
     (case pe_Plan (r_entry r) of None \<Rightarrow> False | Some pl \<Rightarrow> \<not> n_Failed pl) \<and> \<not> planAppliedButProbesNeverHealthy E (r_entry r)"

lemma noPlanMessage_nonempty [simp]: "noPlanMessage e \<noteq> ''''"
  by (simp add: noPlanMessage_def)

lemma no_plan_message: "pe_Plan e = None \<Longrightarrow> getPlanStatusReasonMessage e \<noteq> ''''"
  by (simp add: getPlanStatusReasonMessage_def)

lemma plan_message_emptyD:
  "getPlanStatusReasonMessage e = '''' \<Longrightarrow>
     \<exists>pl. pe_Plan e = Some pl \<and> n_AppliedPlan pl \<noteq> None \<and> n_Healthy pl \<and> n_InSync pl"
  by (auto simp: getPlanStatusReasonMessage_def NoAgentPlanStatusMessage_def FailedPlanStatusMessage_def
      WaitingPlanStatusMessage_def probesMessage_def split: option.splits if_splits)

definition grows :: "tier_acc \<Rightarrow> tier_acc \<Rightarrow> bool" where
  "grows a b \<longleftrightarrow>
     set (ta_ready a) \<subseteq> set (ta_ready b) \<and> set (ta_outOfSync a) \<subseteq> set (ta_outOfSync b) \<and>
     set (ta_draining a) \<subseteq> set (ta_draining b) \<and> set (ta_uncordoned a) \<subseteq> set (ta_uncordoned b)"

definition later :: "string \<Rightarrow> tier_acc \<Rightarrow> tier_acc \<Rightarrow> bool" where
  "later n a b \<longleftrightarrow> grows a b \<and> (\<forall>k. k \<noteq> n \<longrightarrow> ta_messages b k = ta_messages a k)"

lemma grows_refl [simp]: "grows a a"
  by (simp add: grows_def)

lemma grows_trans: "grows a b \<Longrightarrow> grows b c \<Longrightarrow> grows a c"
  by (auto simp: grows_def)

definition blocked :: "tier_acc \<Rightarrow> string \<Rightarrow> bool" where
  "blocked acc n \<longleftrightarrow> n \<in> set (ta_uncordoned acc @ ta_draining acc @ ta_outOfSync acc)"

lemmas note_defs = note_message_def note_out_of_sync_def note_draining_def note_uncordoned_def note_ready_def
  add_message_def summarize_machine_def

lemma later_notes [simp]:
  "later n a (summarize_machine E r b) = later n a b" if "entry_name (r_entry r) = n"
  using that by (auto simp: later_def grows_def summarize_machine_def Let_def)

lemma later_note [simp]:
  "later n a b \<Longrightarrow> later n a (note_message n m b)" "later n a b \<Longrightarrow> later n a (note_out_of_sync n b)"
  "later n a b \<Longrightarrow> later n a (note_draining n b)" "later n a b \<Longrightarrow> later n a (note_uncordoned n b)"
  "later n a b \<Longrightarrow> later n a (note_ready n b)" "later n a b \<Longrightarrow> later n a (b\<lparr>ta_unavailable := u\<rparr>)"
  by (auto simp: later_def grows_def note_defs)

lemma later_refl [simp]: "later n a a"
  by (simp add: later_def)

lemma silent_note [simp]: "\<not> silent (ta_messages (note_message n m a)) n"
  by (simp add: silent_def note_message_def add_message_def)

lemma silent_notes [simp]:
  "silent (ta_messages (note_out_of_sync k a)) n = silent (ta_messages a) n"
  "silent (ta_messages (note_draining k a)) n = silent (ta_messages a) n"
  "silent (ta_messages (note_uncordoned k a)) n = silent (ta_messages a) n"
  by (simp_all add: note_defs)

lemma silent_summary:
  "getPlanStatusReasonMessage (r_entry r) \<noteq> '''' \<Longrightarrow>
     \<not> silent (ta_messages (summarize_machine E r a)) (entry_name (r_entry r))"
  by (simp add: silent_def summarize_machine_def machine_summary_def Let_def)

lemma blocked_notes [simp]:
  "blocked (note_message k m a) n = blocked a n" "blocked (note_out_of_sync k a) n \<longleftrightarrow> n = k \<or> blocked a n"
  "blocked (note_draining k a) n \<longleftrightarrow> n = k \<or> blocked a n" "blocked (note_uncordoned k a) n \<longleftrightarrow> n = k \<or> blocked a n"
  "blocked (a\<lparr>ta_unavailable := u\<rparr>) n = blocked a n"
  by (auto simp: blocked_def note_defs)

lemma disrupt_blocks:
  assumes "disrupt E opts r pl (note_out_of_sync n (summarize_machine E r acc)) s = (Inr acc', s')"
    and "n = entry_name (r_entry r)"
  shows "later n acc acc' \<and> blocked acc' n \<and> \<not> silent (ta_messages acc') n"
  using assms silent_summary [of r E acc]
  by (auto simp: disrupt_def Let_def bindE_def split: prod.splits bool.splits option.splits sum.splits if_splits)

lemma undrain_done:
  "undrain E e w = ((True, None), e', w') \<longleftrightarrow>
     e' = e \<and> w' = w \<and> entry_annotation e DrainAnnotation = '''' \<and> entry_annotation e UnCordonAnnotation = '''' \<and>
     checkForDrainError e ''undraining'' = None"
  by (auto simp: undrain_def Let_def split: option.splits prod.splits)

lemma settle_cases:
  assumes "settle E cp r (summarize_machine E r acc) s = (Inr acc', s')" "n = entry_name (r_entry r)"
    "in_plan (cplan s) (r_entry r)" "getPlanStatusReasonMessage (r_entry r) = ''''" "\<not> r_change r" "\<not> r_minorChange r"
  shows "later n acc acc' \<and> (settled E cp r \<and> n \<in> set (ta_ready acc') \<and> s' = s \<or>
           blocked acc' n \<and> \<not> silent (ta_messages acc') n)"
proof -
  obtain ok e1 en s1 where u: "on_entry (undrain E) (r_entry r) s = ((ok, e1), en, s1)"
    by (metis prod.exhaust)
  have fin: "en = r_entry r \<and> s1 = s \<and> entry_annotation en DrainAnnotation = '''' \<and>
      entry_annotation en UnCordonAnnotation = '''' \<and> checkForDrainError en ''undraining'' = None" if "ok" "e1 = None"
    using on_entryD [OF u] that on_entry_noop [OF u _ _ assms(3)] by (auto simp: undrain_done)
  have ready: "n \<in> set (ta_ready (note_ready n a))" for a by (simp add: note_ready_def)
  show ?thesis
    using assms u fin ready plan_message_emptyD [OF assms(4)]
    by (cases ok; cases e1) (auto simp: settle_def Let_def settled_def split: if_splits)
qed

lemma step_cases:
  assumes run: "reconcile_machine E cp c opts r acc s = (Inr acc', s')"
    and n: "n = entry_name (r_entry r)" and ip: "in_plan (cplan s) (r_entry r)"
  shows "later n acc acc' \<and>
     (settled E cp r \<and> n \<in> set (ta_ready acc') \<and> s' = s \<or>
      blocked acc' n \<and> (\<not> silent (ta_messages acc') n \<or> r_minorChange r \<or> held_back E c r \<and> s' = s))"
proof (cases "pe_Plan (r_entry r)")
  case None
  with run n silent_summary [of r E acc] no_plan_message [of "r_entry r"] show ?thesis
    by (auto simp: reconcile_machine_def Let_def bindE_eq_Inr_iff)
next
  case (Some pl)
  note defs = reconcile_machine_def Let_def n [symmetric]
  consider (minor) "r_minorChange r" | (major) "\<not> r_minorChange r" "r_change r"
    | (same) "\<not> r_minorChange r" "\<not> r_change r" by blast
  then show ?thesis
  proof cases
    case minor
    with run Some show ?thesis by (auto simp: defs bindE_eq_Inr_iff)
  next
    case major
    show ?thesis
    proof (cases "may_disrupt E c r pl (ta_unavailable (summarize_machine E r acc))")
      case True
      with run Some major have "disrupt E opts r pl (note_out_of_sync n (summarize_machine E r acc)) s = (Inr acc', s')"
        by (simp add: defs)
      from disrupt_blocks [OF this n] show ?thesis by blast
    next
      case False
      with run Some major show ?thesis by (auto simp: defs may_disrupt_def held_back_def)
    qed
  next
    case same
    show ?thesis
    proof (cases "getPlanStatusReasonMessage (r_entry r) = ''''")
      case True
      with run Some same have "settle E cp r (summarize_machine E r acc) s = (Inr acc', s')" by (simp add: defs)
      from settle_cases [OF this n ip True same(2,1)] show ?thesis by blast
    next
      case False
      with run Some same silent_summary [of r E acc] show ?thesis by (auto simp: defs)
    qed
  qed
qed

text \<open>What the walk leaves of a machine in the accumulator.\<close>

definition outcome :: "('w, 'z) planner_env_scheme \<Rightarrow> RKEControlPlane \<Rightarrow> int \<Rightarrow> tier_acc \<Rightarrow> reconcilable \<Rightarrow> bool" where
  "outcome E cp c acc r \<longleftrightarrow>
     settled E cp r \<and> entry_name (r_entry r) \<in> set (ta_ready acc) \<or>
     blocked acc (entry_name (r_entry r)) \<and>
     (\<not> silent (ta_messages acc) (entry_name (r_entry r)) \<or> r_minorChange r \<or> held_back E c r)"

definition stirs :: "tier_acc \<Rightarrow> reconcilable \<Rightarrow> bool" where
  "stirs acc r \<longleftrightarrow> blocked acc (entry_name (r_entry r)) \<and>
     (r_minorChange r \<or> \<not> silent (ta_messages acc) (entry_name (r_entry r)))"

lemma outcome_later:
  assumes "grows a b" "ta_messages b (entry_name (r_entry r)) = ta_messages a (entry_name (r_entry r))"
  shows "outcome E cp c a r \<Longrightarrow> outcome E cp c b r" and "stirs a r \<Longrightarrow> stirs b r"
  using assms by (auto simp: outcome_def stirs_def grows_def blocked_def silent_def)

lemma loop_cases:
  assumes "reconcile_loop E cp c opts excl rs acc s = (Inr acc', s')" "tier_list (cplan s) rs"
    and "\<forall>r \<in> set rs. \<not> excl (r_entry r)"
  shows "grows acc acc' \<and> (\<forall>k. k \<notin> (entry_name \<circ> r_entry) ` set rs \<longrightarrow> ta_messages acc' k = ta_messages acc k) \<and>
    (\<forall>r \<in> set rs. outcome E cp c acc' r) \<and> (s' = s \<or> (\<exists>r \<in> set rs. stirs acc' r))"
  using assms
proof (induction rs arbitrary: acc s)
  case (Cons r rs)
  let ?n = "entry_name (r_entry r)"
  from Cons.prems have ip: "in_plan (cplan s) (r_entry r)" and nr: "?n \<notin> (entry_name \<circ> r_entry) ` set rs"
    by (simp_all add: tier_list_def)
  from Cons.prems obtain acc1 s1 where
    m: "reconcile_machine E cp c opts r acc s = (Inr acc1, s1)" and
    rest: "reconcile_loop E cp c opts excl rs acc1 s1 = (Inr acc', s')"
    by (auto simp: bindE_eq_Inr_iff)
  note step = step_cases [OF m refl ip]
  have IH: "grows acc1 acc' \<and> (\<forall>k. k \<notin> (entry_name \<circ> r_entry) ` set rs \<longrightarrow> ta_messages acc' k = ta_messages acc1 k) \<and>
    (\<forall>r \<in> set rs. outcome E cp c acc' r) \<and> (s' = s1 \<or> (\<exists>r \<in> set rs. stirs acc' r))"
    using Cons.prems(3)
    by (intro Cons.IH rest tier_list_step [OF Cons.prems(2) reconcile_machine_touches [OF m ip]]) simp
  have "outcome E cp c acc1 r" "s1 = s \<or> stirs acc1 r"
    using step by (auto simp: outcome_def stirs_def)
  with IH nr have "outcome E cp c acc' r" "s1 = s \<or> stirs acc' r"
    using outcome_later [of acc1 acc' r] by blast+
  with IH step show ?case by (auto simp: later_def intro: grows_trans)
qed simp

section \<open>Properties\<close>

text \<open>
  Reconciling a tier never changes a role: on every outcome the plan keeps its machines,
  their labels and its well-formedness, so each role is held by the same machines as before.
\<close>

theorem reconcile_keeps_roles:
  assumes "plan_ok (cplan s)" "reconcile E cp t req tier incl excl mu f opts s = (e, s')"
  shows "plan_ok (cplan s') \<and>
    (\<forall>role. label_filter role \<longrightarrow> map entry_name (collect (cplan s') role) = map entry_name (collect (cplan s) role))"
  using reconcile_roles [OF assms] assms(1) by (simp add: same_roles_collect same_roles_plan_ok)

text \<open>
  C2. The limit of unavailable machines holds: the walk over a tier has exactly the effect of a
  walk over some of its machines, in the same order, of which no more than the free capacity
  are available machines with a major change (machines whose plan failed or never became
  healthy are not protected by the limit). The others of that kind were not touched.
\<close>

theorem reconcile_limit:
  assumes "reconcile_loop E cp c opts excl rs (new_acc unavailable) s = (x, s')" "c \<noteq> 0"
  shows "\<exists>ts. subseq ts rs \<and> snd (reconcile_loop E cp c opts excl ts (new_acc unavailable) s) = s' \<and>
           int (length (filter (restrained E) ts)) \<le> max 0 (c - unavailable)"
  using limit_sublist [OF assms] by (simp add: new_acc_def)

lemma reconcile_success:
  assumes ok: "plan_ok (cplan s)" and run: "reconcile E cp t req tier incl excl mu f opts s = (None, s')"
  obtains rs c u where
    "render_loop E cp t f excl (collect (cplan s) incl) s = Inr rs" "calculateConcurrency E mu rs excl = Inr (c, u)"
    "\<forall>r \<in> set rs. settled E cp r \<or> r_minorChange r \<or> held_back E c r"
    "\<forall>r \<in> set rs. machine_fine E (cplan s') (entry_name (r_entry r))"
    "s' = s \<or> (\<exists>r \<in> set rs. r_minorChange r)"
proof -
  from run obtain rs c u acc s1 where
    rs: "render_loop E cp t f excl (collect (cplan s) incl) s = Inr rs" and
    cu: "calculateConcurrency E mu rs excl = Inr (c, u)" and
    loop: "reconcile_loop E cp c opts excl rs (new_acc u) s = (Inr acc, s1)" and
    concl: "conclude_tier E tier acc s1 = (None, s')"
    by (auto simp: reconcile_def Let_def split: sum.splits prod.splits if_splits)
  from concl [unfolded conclude_tier_iff] have c: "s' = s1"
    "\<And>n. blocked acc n \<Longrightarrow> machine_fine E (cplan s1) n \<and> silent (ta_messages acc) n"
    "\<And>n. n \<in> set (ta_ready acc) \<Longrightarrow> machine_fine E (cplan s1) n"
    by (auto simp: blocked_def)
  have "\<not> excl (r_entry r)" if "r \<in> set rs" for r
  proof -
    have "r_entry r \<in> set (map r_entry rs)" using that by simp
    then show ?thesis unfolding render_loop_entries [OF rs] by simp
  qed
  then have l: "(\<forall>r \<in> set rs. outcome E cp c acc r) \<and> (s1 = s \<or> (\<exists>r \<in> set rs. stirs acc r))"
    using loop_cases [OF loop render_loop_tier_list [OF ok rs]] by blast
  show thesis
  proof (rule that [OF rs cu])
    show "\<forall>r \<in> set rs. settled E cp r \<or> r_minorChange r \<or> held_back E c r"
      using l c(2) by (auto simp: outcome_def)
    show "\<forall>r \<in> set rs. machine_fine E (cplan s') (entry_name (r_entry r))"
      using l c by (auto simp: outcome_def)
    show "s' = s \<or> (\<exists>r \<in> set rs. r_minorChange r)"
      using l c by (auto simp: stirs_def)
  qed
qed

lemma settled_step:
  assumes "settled E cp r" "in_plan (cplan s) (r_entry r)"
  shows "reconcile_machine E cp c opts r acc s = (Inr (note_ready (entry_name (r_entry r)) (summarize_machine E r acc)), s)"
proof -
  from assms(1) obtain pl where pl: "pe_Plan (r_entry r) = Some pl" by (auto simp: settled_def split: option.splits)
  obtain ok e1 en s1 where u: "on_entry (undrain E) (r_entry r) s = ((ok, e1), en, s1)"
    by (metis prod.exhaust)
  have "undrain E (r_entry r) (world s) = ((True, None), r_entry r, world s)"
    using assms(1) by (simp add: undrain_done settled_def)
  with on_entryD [OF u] have "ok" "e1 = None" "en = r_entry r" "world s1 = world s" by auto
  with on_entry_noop [OF u _ _ assms(2)] u have "on_entry (undrain E) (r_entry r) s = ((True, None), r_entry r, s)" by simp
  with pl assms(1) show ?thesis by (auto simp: reconcile_machine_def settle_def settled_def Let_def)
qed

lemma settled_loop:
  assumes "\<forall>r \<in> set rs. settled E cp r \<and> in_plan (cplan s) (r_entry r) \<and>
     \<not> su_Error (machine_summary E (r_entry r)) \<and> \<not> su_Transitioning (machine_summary E (r_entry r))"
  shows "\<exists>acc'. reconcile_loop E cp c opts excl rs acc s = (Inr acc', s) \<and>
     ta_outOfSync acc' = ta_outOfSync acc \<and> ta_draining acc' = ta_draining acc \<and> ta_uncordoned acc' = ta_uncordoned acc \<and>
     ta_errMachines acc' = ta_errMachines acc \<and> ta_nonReady acc' = ta_nonReady acc \<and>
     set (ta_ready acc') \<subseteq> set (ta_ready acc) \<union> (\<lambda>r. entry_name (r_entry r)) ` set rs"
  using assms
proof (induction rs arbitrary: acc)
  case (Cons r rs)
  let ?a = "note_ready (entry_name (r_entry r)) (summarize_machine E r acc)"
  from Cons.prems have step: "reconcile_machine E cp c opts r acc s = (Inr ?a, s)"
    by (intro settled_step) auto
  have a: "ta_outOfSync ?a = ta_outOfSync acc" "ta_draining ?a = ta_draining acc" "ta_uncordoned ?a = ta_uncordoned acc"
    "ta_errMachines ?a = ta_errMachines acc" "ta_nonReady ?a = ta_nonReady acc"
    "ta_ready ?a = ta_ready acc @ [entry_name (r_entry r)]"
    using Cons.prems by (simp_all add: note_ready_def summarize_machine_def Let_def)
  from Cons.IH [of acc] Cons.IH [of ?a] Cons.prems show ?case
    by (cases "excl (r_entry r)") (auto simp: bindE_def step a)
qed auto

text \<open>
  A tier in order is left alone: when every machine of the tier has exactly the plan it
  should have, applied and healthy, is neither being drained nor uncordoned, runs the right
  kubelet, and reports no problem, reconciling the tier succeeds, writes nothing and changes
  no plan - whatever the drain options are.
\<close>

theorem reconcile_settled_noop:
  assumes "plan_ok (cplan s)" and "req \<longrightarrow> collect (cplan s) incl \<noteq> []"
    and rs: "render_loop E cp t f excl (collect (cplan s) incl) s = Inr rs"
    and cu: "calculateConcurrency E mu rs excl = Inr cu"
    and fine: "\<forall>r \<in> set rs. settled E cp r \<and> machine_fine E (cplan s) (entry_name (r_entry r)) \<and>
       \<not> su_Error (machine_summary E (r_entry r)) \<and> \<not> su_Transitioning (machine_summary E (r_entry r))"
  shows "reconcile E cp t req tier incl excl mu f opts s = (None, s)"
proof -
  obtain c u where [simp]: "cu = (c, u)" by fastforce
  from render_loop_tier_list [OF assms(1) rs] fine settled_loop [of rs E cp s c opts excl "new_acc u"]
  obtain acc where acc: "reconcile_loop E cp c opts excl rs (new_acc u) s = (Inr acc, s)"
    "ta_outOfSync acc = []" "ta_draining acc = []" "ta_uncordoned acc = []" "ta_errMachines acc = []" "ta_nonReady acc = []"
    "set (ta_ready acc) \<subseteq> (\<lambda>r. entry_name (r_entry r)) ` set rs"
    by (auto simp: tier_list_def new_acc_def)
  then have "conclude_tier E tier acc s = (None, s)"
    using fine by (auto simp: conclude_tier_iff)
  with acc(1) rs cu assms(2) show ?thesis by (auto simp: reconcile_def Let_def)
qed


section \<open>A successful pass over all tiers\<close>

lemma same_roles_sym: "same_roles p q \<Longrightarrow> same_roles q p"
  by (simp add: same_roles_def)

lemma same_roles_entry:
  "same_roles p q \<Longrightarrow> pe_Plan (plan_entry q km) = pe_Plan (plan_entry p km) \<and>
     labels_of (plan_entry q km) = labels_of (plan_entry p km) \<and> pe_Machine (plan_entry q km) = pe_Machine (plan_entry p km)"
  by (simp add: same_roles_def plan_entry_def labels_of_def)

lemma same_roles_filter: "same_roles p q \<Longrightarrow> label_filter f \<Longrightarrow> f (plan_entry q km) = f (plan_entry p km)"
  by (rule label_filterD) (simp_all add: same_roles_entry)

lemma isDeleting_filter [simp]: "label_filter isDeleting"
  by (simp add: label_filter_def isDeleting_def)

lemma tier_filter_eqs:
  "isInitNodeOrDeleting = roleOr isInitNode isDeleting"
  "isNotInitNodeOrIsDeleting = roleOr (roleNot isInitNode) isDeleting"
  "isOnlyWorker = roleAnd (roleNot isEtcd) (roleAnd (roleNot isControlPlane) isWorker)"
  by (auto simp: fun_eq_iff isInitNodeOrDeleting_def isNotInitNodeOrIsDeleting_def isOnlyWorker_def
      roleOr_def roleAnd_def roleNot_def)

lemma tier_filters [simp]:
  "label_filter isInitNodeOrDeleting" "label_filter isNotInitNodeOrIsDeleting" "label_filter isOnlyWorker"
  unfolding tier_filter_eqs by (intro label_filter_compose label_filters isDeleting_filter)+

lemma ignoreErrors_None: "ignoreErrors f r = (None, None) \<longleftrightarrow> f = None \<and> r = None"
  by (auto simp: ignoreErrors_def split: option.splits)

text \<open>A machine that a successful tier covers has a plan and is fine.\<close>

definition covered :: "('w, 'z) planner_env_scheme \<Rightarrow> plan \<Rightarrow> roleFilter \<Rightarrow> roleFilter \<Rightarrow> bool" where
  "covered E p incl excl \<longleftrightarrow>
     (\<forall>km \<in> set (p_Machines p). incl (plan_entry p km) \<and> \<not> excl (plan_entry p km) \<longrightarrow>
        pe_Plan (plan_entry p km) \<noteq> None \<and> machine_fine E p (fst km))"

lemma tier_covered:
  assumes "plan_ok (cplan s)" "reconcile E cp t req tier incl excl mu f opts s = (None, s')"
  shows "covered E (cplan s) incl excl"
  unfolding covered_def
proof (intro ballI impI conjI)
  fix km
  assume km: "km \<in> set (p_Machines (cplan s))" "incl (plan_entry (cplan s) km) \<and> \<not> excl (plan_entry (cplan s) km)"
  let ?e = "plan_entry (cplan s) km"
  obtain rs c u where rs: "render_loop E cp t f excl (collect (cplan s) incl) s = Inr rs"
    and st: "\<forall>r \<in> set rs. settled E cp r \<or> r_minorChange r \<or> held_back E c r"
    and fine: "\<forall>r \<in> set rs. machine_fine E (cplan s') (entry_name (r_entry r))"
    using reconcile_success [OF assms] by metis
  from km have "?e \<in> set (collect (cplan s) incl)" "\<not> excl ?e" by (auto simp: set_collect)
  then have "?e \<in> set (map r_entry rs)" unfolding render_loop_entries [OF rs] by simp
  then obtain r where r: "r \<in> set rs" "r_entry r = ?e" by auto
  have minor: "r_minorChange r \<Longrightarrow> pe_Plan ?e \<noteq> None"
    using render_minor [OF rs r(1)] r(2) by auto
  with st r show "pe_Plan ?e \<noteq> None" by (auto simp: settled_def held_back_def split: option.splits)
  have "entry_name ?e = fst km" using assms(1) km(1) by (simp add: entry_name_plan_entry)
  moreover have "p_Machines (cplan s') = p_Machines (cplan s)" using reconcile_roles [OF assms] by (simp add: same_roles_def)
  ultimately show "machine_fine E (cplan s) (fst km)" using fine r by (auto simp: machine_fine_def)
qed

lemma covered_same_roles:
  assumes "same_roles p q" "label_filter incl" "label_filter excl" "covered E q incl excl"
  shows "covered E p incl excl"
proof -
  have "p_Machines q = p_Machines p" using assms(1) by (simp add: same_roles_def)
  then show ?thesis
    using assms(4) same_roles_filter [OF assms(1,2)] same_roles_filter [OF assms(1,3)] same_roles_entry [OF assms(1)]
    by (auto simp: covered_def machine_fine_def)
qed

text \<open>
  The machines the tiers look at: a marked machine is looked at in the first tier only, which
  is for etcd machines. Only a pinned init node leaves room for a marked machine that is none.
\<close>

definition in_some_tier :: "RKEControlPlane \<Rightarrow> roleFilter" where
  "in_some_tier cp e \<longleftrightarrow> anyRole e \<and> isNotDeleting e \<and>
     (gets (cp_Labels cp) InitNodeMachineIDLabel \<noteq> '''' \<and> isInitNode e \<longrightarrow> isEtcd e)"

lemma init_node_is_etcd:
  assumes "init_node_elected E cp p en" "gets (cp_Labels cp) InitNodeMachineIDLabel = ''''" "km \<in> set (p_Machines p)" "isInitNode (plan_entry p km)"
  shows "isEtcd (plan_entry p km)"
proof -
  have "plan_entry p km \<in> set (collect p isInitNode)" using assms(3,4) by (auto simp: set_collect)
  with assms(1,2) show ?thesis by (simp add: init_node_elected_def canBeInitNode_def)
qed

lemma reconcile_joined_success:
  assumes ok: "plan_ok (cplan s)" and run: "reconcile_joined E cp st t strat j ign s = ((st', None), s')"
  shows "st' = st \<and> st_Initialized st \<and> st_Ready st \<and> ign = None \<and> same_roles (cplan s) (cplan s') \<and>
     covered E (cplan s) isEtcd isInitNodeOrDeleting \<and> covered E (cplan s) isControlPlane isInitNodeOrDeleting \<and>
     covered E (cplan s) isOnlyWorker isInitNodeOrDeleting"
proof -
  from run obtain i1 i2 r1 r2 s1 s2 r3 where
    t1: "reconcile E cp t True etcdTier isEtcd isInitNodeOrDeleting ''1'' j (us_ControlPlaneDrainOptions strat) s = (r1, s1)" and
    i1: "ignoreErrors ign r1 = (i1, None)" and
    t2: "reconcile E cp t True controlPlaneTier isControlPlane isInitNodeOrDeleting (us_ControlPlaneConcurrency strat) j
           (us_ControlPlaneDrainOptions strat) s1 = (r2, s2)" and
    i2: "ignoreErrors i1 r2 = (i2, None)" and
    t3: "reconcile E cp t False workerTier isOnlyWorker isInitNodeOrDeleting (us_WorkerConcurrency strat) ''''
           (us_WorkerDrainOptions strat) s2 = (r3, s')" and
    i3: "ignoreErrors i2 r3 = (None, None)" and st: "st' = st" "st_Initialized st" "st_Ready st"
    by (auto simp: reconcile_joined_def split: prod.splits option.splits if_splits)
  from i1 i2 i3 have none: "ign = None" "r1 = None" "r2 = None" "r3 = None" "i1 = None" "i2 = None"
    by (auto simp: ignoreErrors_None)
  note R1 = reconcile_roles [OF ok t1]
  have ok1: "plan_ok (cplan s1)" using same_roles_plan_ok [OF R1] ok by simp
  note R2 = reconcile_roles [OF ok1 t2]
  have ok2: "plan_ok (cplan s2)" using same_roles_plan_ok [OF R2] ok1 by simp
  note R3 = reconcile_roles [OF ok2 t3]
  have "covered E (cplan s) isControlPlane isInitNodeOrDeleting"
    by (rule covered_same_roles [OF R1 _ _ tier_covered [OF ok1 t2 [unfolded none]]]) simp_all
  moreover have "covered E (cplan s) isOnlyWorker isInitNodeOrDeleting"
    by (rule covered_same_roles [OF same_roles_trans [OF R1 R2] _ _ tier_covered [OF ok2 t3 [unfolded none]]]) simp_all
  ultimately show ?thesis
    using tier_covered [OF ok t1 [unfolded none]] st none(1) same_roles_trans [OF same_roles_trans [OF R1 R2] R3] by simp
qed

lemma fullReconcile_ok:
  assumes ok: "plan_ok (cplan s)"
    and run: "fullReconcile E cp st t ign s = ((st', None), s')"
  shows "st_Initialized st \<and> st_Ready st \<and>
     st' = st\<lparr>st_Conditions := c_True (lib_Cond E) ''Bootstrapped'' (st_Conditions st)\<rparr> \<and>
     (\<exists>en. init_node_elected E cp (cplan s) en) \<and> same_roles (cplan s) (cplan s') \<and>
     covered E (cplan s) isEtcd isNotInitNodeOrIsDeleting \<and> covered E (cplan s) isEtcd isInitNodeOrDeleting \<and>
     covered E (cplan s) isControlPlane isInitNodeOrDeleting \<and> covered E (cplan s) isOnlyWorker isInitNodeOrDeleting"
proof -
  let ?st = "st\<lparr>st_Conditions := c_True (lib_Cond E) ''Bootstrapped'' (st_Conditions st)\<rparr>"
  obtain u r0 s0 where elect: "electInitNode E cp True s = ((u, r0), s0)" by (metis prod.exhaust)
  with run have r0: "r0 = None" by (auto simp: fullReconcile_def split: option.splits)
  from electInitNode_ok [OF ok elect [unfolded r0]] obtain en where
    s0: "s0 = s" and en: "init_node_elected E cp (cplan s) en" by blast
  define strat where "strat = (if ign then no_strategy else sp_UpgradeStrategy (cp_Spec cp))"
  obtain r s1 where t0: "reconcile E cp t True bootstrapTier isEtcd isNotInitNodeOrIsDeleting ''1'' ''''
      (us_ControlPlaneDrainOptions strat) s = (r, s1)" by fastforce
  from run elect r0 s0 t0 obtain i where i: "ignoreErrors None r = (i, None)"
    by (auto simp: fullReconcile_def Let_def strat_def split: prod.splits option.splits)
  note R = reconcile_roles [OF ok t0]
  have ok1: "plan_ok (cplan s1)" using same_roles_plan_ok [OF R] ok by simp
  obtain f u2 e2 r2 s2 where find: "findInitNode E cp s1 = ((f, u2, e2, r2), s2)" by (metis prod.exhaust)
  have s2: "s2 = s1" if "r2 = None" using findInitNode_None [OF ok1] find that by blast
  obtain j where "reconcile_joined E cp ?st t strat j i s1 = ((st', None), s')"
    using run elect r0 s0 t0 i find s2
    by (auto simp: fullReconcile_def Let_def strat_def [symmetric] split: option.splits if_splits)
  from reconcile_joined_success [OF ok1 this] i have c: "st' = ?st" "st_Initialized st" "st_Ready st" "r = None"
    "same_roles (cplan s1) (cplan s')" "covered E (cplan s1) isEtcd isInitNodeOrDeleting"
    "covered E (cplan s1) isControlPlane isInitNodeOrDeleting" "covered E (cplan s1) isOnlyWorker isInitNodeOrDeleting"
    by (auto simp: ignoreErrors_None)
  show ?thesis
    using c en tier_covered [OF ok t0 [unfolded c(4)]] same_roles_trans [OF R c(5)]
      covered_same_roles [OF R _ _ c(6)] covered_same_roles [OF R _ _ c(7)] covered_same_roles [OF R _ _ c(8)] by auto
qed

lemma fullReconcile_up:
  assumes "plan_ok (cplan s)" and "fullReconcile E cp st t ignoreDrain s = ((st', None), s')"
  shows "st_Initialized st \<and> st_Ready st \<and>
     st' = st\<lparr>st_Conditions := c_True (lib_Cond E) ''Bootstrapped'' (st_Conditions st)\<rparr> \<and>
     (\<exists>en. init_node_elected E cp (cplan s) en) \<and>
     (\<forall>km \<in> set (p_Machines (cplan s)). in_some_tier cp (plan_entry (cplan s) km) \<longrightarrow>
        pe_Plan (plan_entry (cplan s) km) \<noteq> None \<and> machine_fine E (cplan s) (fst km))"
proof -
  note c = fullReconcile_ok [OF assms]
  then obtain en where en: "init_node_elected E cp (cplan s) en" by blast
  have "pe_Plan (plan_entry (cplan s) km) \<noteq> None \<and> machine_fine E (cplan s) (fst km)"
    if "km \<in> set (p_Machines (cplan s))" "in_some_tier cp (plan_entry (cplan s) km)" for km
  proof (cases "isInitNode (plan_entry (cplan s) km)")
    case True
    with en that have "isEtcd (plan_entry (cplan s) km)"
      using init_node_is_etcd [OF en _ that(1) True] by (auto simp: in_some_tier_def)
    with True that c show ?thesis
      by (auto simp: covered_def in_some_tier_def isNotInitNodeOrIsDeleting_def isNotDeleting_def)
  next
    case False
    with that have "\<not> isInitNodeOrDeleting (plan_entry (cplan s) km)"
      by (simp add: in_some_tier_def isInitNodeOrDeleting_def isNotDeleting_def)
    with that c show ?thesis
      by (auto simp: covered_def in_some_tier_def anyRole_def noRole_def isOnlyWorker_def)
  qed
  with c show ?thesis by blast
qed

text \<open>
  C3. A pass over all tiers succeeds only on a cluster that is up: the control plane was marked
  initialised and ready before, the init node is elected, and every machine with a role that
  is not being deleted has a plan and is ready and reported as reconciled. The status
  differs only in the condition \<open>Bootstrapped\<close>. Elected means, without a pinned machine ID,
  that exactly one machine is marked as init node and it is viable; with a pinned ID, that
  exactly one machine has the ID on its plan secret and it is marked. With a pinned ID other
  machines may be marked too, and a marked machine that is not an etcd machine belongs to no
  tier, so nothing is said of it.
\<close>

theorem fullReconcile_success:
  assumes "plan_ok (cplan s)" and "fullReconcile E cp st t ignoreDrain s = ((st', None), s')"
  shows "st_Initialized st \<and> st_Ready st \<and>
     st' = st\<lparr>st_Conditions := c_True (lib_Cond E) ''Bootstrapped'' (st_Conditions st)\<rparr> \<and>
     (\<exists>en. init_node_elected E cp (cplan s) en) \<and>
     (\<forall>km \<in> set (p_Machines (cplan s)).
        anyRole (plan_entry (cplan s) km) \<and> isNotDeleting (plan_entry (cplan s) km) \<and>
        (gets (cp_Labels cp) InitNodeMachineIDLabel \<noteq> '''' \<and> isInitNode (plan_entry (cplan s) km) \<longrightarrow>
           isEtcd (plan_entry (cplan s) km)) \<longrightarrow>
        pe_Plan (plan_entry (cplan s) km) \<noteq> None \<and> machine_fine E (cplan s) (fst km))"
  using fullReconcile_up [OF assms] unfolding in_some_tier_def .

section \<open>A cluster that is up\<close>

definition up_machine :: "string \<Rightarrow> machine" where
  "up_machine n = (demo_machine n)\<lparr>m_Conditions :=
     [\<lparr>cd_Type = ''InfrastructureReady'', cd_Status = ''True'', cd_Reason = '''', cd_Message = ''''\<rparr>,
      \<lparr>cd_Type = ''Reconciled'', cd_Status = ''True'', cd_Reason = '''', cd_Message = ''''\<rparr>]\<rparr>"

definition up_metadata :: metadata where
  "up_metadata = \<lparr>md_Labels = [EtcdRoleLabel \<mapsto> ''true'', ControlPlaneRoleLabel \<mapsto> ''true'', WorkerRoleLabel \<mapsto> ''true'',
       InitNodeLabel \<mapsto> ''true''],
     md_Annotations = [JoinURLAnnotation \<mapsto> ''https://a:9345'']\<rparr>"

definition up_node :: "node_plan \<Rightarrow> node" where
  "up_node np = \<lparr>n_Plan = np, n_AppliedPlan = Some np, n_JoinedTo = '''', n_Output = Map.empty,
     n_PeriodicOutput = Map.empty, n_Failed = False, n_InSync = True, n_Healthy = True, n_PlanDataExists = True,
     n_ProbeStatus = [], n_ProbesUsable = True\<rparr>"

definition up_cp :: RKEControlPlane where
  "up_cp = demo_cp\<lparr>cp_Spec := demo_spec\<lparr>sp_UnmanagedConfig := True\<rparr>\<rparr>"

definition up_desired :: node_plan where
  "up_desired = (case desiredPlan demo_planner up_cp demo_tokens
       \<lparr>pe_Machine = up_machine ''a'', pe_Plan = None, pe_Metadata = Some up_metadata\<rparr> '''' demo_world0 of
     Inr (np, _) \<Rightarrow> np | Inl _ \<Rightarrow> empty_plan)"

definition up_state :: "node_plan \<Rightarrow> demo_world pstate" where
  "up_state np = \<lparr>world = demo_world0,
     cplan = \<lparr>p_Nodes = [''a'' \<mapsto> up_node np], p_Machines = [(''a'', up_machine ''a'')], p_Metadata = [''a'' \<mapsto> up_metadata]\<rparr>\<rparr>"

lemma up_state_ok [simp]: "plan_ok (cplan (up_state np))"
  by (simp add: up_state_def plan_ok_def up_machine_def demo_machine_def)

lemma up_cp_no_fixed [simp]: "gets (cp_Labels up_cp) InitNodeMachineIDLabel = ''''"
  by (simp add: up_cp_def demo_cp_def)

theorem reconcile_keeps_roles_witness:
  "\<exists>e s'. reconcile demo_planner up_cp demo_tokens True etcdTier isEtcd isNotInitNodeOrIsDeleting ''1'' '''' no_drain
      (up_state empty_plan) = (e, s') \<and> plan_ok (cplan s') \<and>
    map entry_name (collect (cplan s') isInitNode) = map entry_name (collect (cplan (up_state empty_plan)) isInitNode)"
proof -
  obtain e s' where run: "reconcile demo_planner up_cp demo_tokens True etcdTier isEtcd isNotInitNodeOrIsDeleting ''1'' ''''
      no_drain (up_state empty_plan) = (e, s')" by fastforce
  from reconcile_keeps_roles [OF _ run] run show ?thesis by simp
qed

definition up_changed :: reconcilable where
  "up_changed = \<lparr>r_entry = plan_entry (cplan (up_state empty_plan)) (''a'', up_machine ''a''), r_desiredPlan = demo_stamped ''2'',
     r_joinedURL = ''-'', r_change = True, r_minorChange = False\<rparr>"

theorem reconcile_limit_witness:
  "restrained demo_planner up_changed \<and> \<not> isNotInitNodeOrIsDeleting (r_entry up_changed) \<and>
   (\<exists>ts. subseq ts [up_changed] \<and> filter (restrained demo_planner) ts = [] \<and>
     snd (reconcile_loop demo_planner up_cp 1 no_drain isNotInitNodeOrIsDeleting ts (new_acc 1) (up_state empty_plan)) =
     snd (reconcile_loop demo_planner up_cp 1 no_drain isNotInitNodeOrIsDeleting [up_changed] (new_acc 1) (up_state empty_plan)))"
proof -
  have "restrained demo_planner up_changed" by code_simp
  moreover have "\<not> isNotInitNodeOrIsDeleting (r_entry up_changed)" by code_simp
  moreover obtain x s' where run: "reconcile_loop demo_planner up_cp 1 no_drain isNotInitNodeOrIsDeleting [up_changed] (new_acc 1)
      (up_state empty_plan) = (x, s')" by fastforce
  ultimately show ?thesis using reconcile_limit [OF run] by auto
qed

text \<open>One evaluation of the first tier serves both directions.\<close>

lemma up_tier:
  "(case render_loop demo_planner up_cp demo_tokens '''' isNotInitNodeOrIsDeleting
           (collect (cplan (up_state up_desired)) isEtcd) (up_state up_desired) of
      Inl _ \<Rightarrow> False
    | Inr rs \<Rightarrow> list_all (\<lambda>r. settled demo_planner up_cp r \<and> machine_fine demo_planner (cplan (up_state up_desired)) (entry_name (r_entry r)) \<and>
         \<not> su_Error (machine_summary demo_planner (r_entry r)) \<and> \<not> su_Transitioning (machine_summary demo_planner (r_entry r))) rs)"
  by code_simp

lemma Atoi_one: "calculateConcurrency E ''1'' rs excl = Inr (1, snd (projr (calculateConcurrency E ''1'' rs excl)))"
proof -
  have "Atoi ''1'' = Inr 1" by code_simp
  then show ?thesis by (simp add: calculateConcurrency_def Let_def)
qed

lemma up_has_etcd: "collect (cplan (up_state np)) isEtcd \<noteq> []"
  by (simp add: collect_empty_iff) (simp add: up_state_def plan_entry_def isEtcd_def entry_label_def up_metadata_def key_defs)

theorem reconcile_settled_noop_witness:
  "reconcile demo_planner up_cp demo_tokens True bootstrapTier isEtcd isNotInitNodeOrIsDeleting ''1'' '''' no_drain
     (up_state up_desired) = (None, up_state up_desired)"
proof -
  from up_tier obtain rs where "render_loop demo_planner up_cp demo_tokens '''' isNotInitNodeOrIsDeleting
           (collect (cplan (up_state up_desired)) isEtcd) (up_state up_desired) = Inr rs"
    "\<forall>r \<in> set rs. settled demo_planner up_cp r \<and> machine_fine demo_planner (cplan (up_state up_desired)) (entry_name (r_entry r)) \<and>
         \<not> su_Error (machine_summary demo_planner (r_entry r)) \<and> \<not> su_Transitioning (machine_summary demo_planner (r_entry r))"
    by (auto simp: list_all_iff split: sum.splits)
  from reconcile_settled_noop [OF up_state_ok _ this(1) Atoi_one this(2)] up_has_etcd show ?thesis by blast
qed



lemma up_full:
  "(case fullReconcile demo_planner up_cp demo_status demo_tokens False (up_state up_desired) of ((_, r), _) \<Rightarrow> r = None)"
  by code_simp

theorem fullReconcile_success_witness:
  "(\<exists>st' s'. fullReconcile demo_planner up_cp demo_status demo_tokens False (up_state up_desired) = ((st', None), s')) \<and>
   (\<exists>en. collect (cplan (up_state up_desired)) isInitNode = [en])"
proof -
  from up_full obtain st' s' where run:
    "fullReconcile demo_planner up_cp demo_status demo_tokens False (up_state up_desired) = ((st', None), s')"
    by (auto split: prod.splits)
  from fullReconcile_success [OF up_state_ok run] run show ?thesis
    by (auto simp: init_node_elected_def)
qed

end
