(* ===== verification/Etcd_Create.thy ===== *)
theory Etcd_Create
  imports Planner_Tiers_Correct
begin

text \<open>
  Creating etcd snapshots (\<open>planner/etcdcreate.go\<close>): a state machine whose phase is kept in
  the control plane's status. The phase that is acted on is the one of the control plane
  object, the phase that is set the one of the status the planner returns.
\<close>

section \<open>The recorded state\<close>

definition setEtcdSnapshotCreateState ::
  "RKEControlPlaneStatus \<Rightarrow> ETCDSnapshotCreate option \<Rightarrow> ETCDSnapshotPhase \<Rightarrow> RKEControlPlaneStatus \<times> err" where
  "setEtcdSnapshotCreateState status create phase =
     (if st_ETCDSnapshotCreatePhase status \<noteq> phase \<or> st_ETCDSnapshotCreate status \<noteq> create
      then (status\<lparr>st_ETCDSnapshotCreatePhase := phase, st_ETCDSnapshotCreate := create\<rparr>,
            Some (ErrWaiting ''refreshing etcd create state''))
      else (status, None))"

definition resetEtcdSnapshotCreateState :: "RKEControlPlaneStatus \<Rightarrow> RKEControlPlaneStatus \<times> err" where
  "resetEtcdSnapshotCreateState status =
     (if st_ETCDSnapshotCreate status = None \<and> st_ETCDSnapshotCreatePhase status = SnapNone then (status, None)
      else setEtcdSnapshotCreateState status None SnapNone)"

definition startOrRestartEtcdSnapshotCreate ::
  "RKEControlPlaneStatus \<Rightarrow> ETCDSnapshotCreate \<Rightarrow> RKEControlPlaneStatus \<times> err" where
  "startOrRestartEtcdSnapshotCreate status snapshot =
     (if st_ETCDSnapshotCreate status = None \<or> Some snapshot \<noteq> st_ETCDSnapshotCreate status
      then setEtcdSnapshotCreateState status (Some snapshot) SnapStarted
      else (status, None))"

section \<open>Plans\<close>

text \<open>
  The version is parsed before the plan is generated; an error of the generation is returned
  with the plan, which no caller uses.
\<close>

definition generateEtcdSnapshotCreatePlan ::
  "('w, 'z) planner_env_scheme \<Rightarrow> RKEControlPlane \<Rightarrow> plan_secret \<Rightarrow> planEntry \<Rightarrow> string \<Rightarrow> 'w \<Rightarrow>
   go_error + (node_plan \<times> string)" where
  "generateEtcdSnapshotCreatePlan E controlPlane tokensSecret entry joinServer w =
     sbind (q_NewVersion E (sp_KubernetesVersion (cp_Spec controlPlane))) (\<lambda>v.
     sbind (generatePlanWithConfigFiles E controlPlane tokensSecret entry joinServer True w) (\<lambda>(createPlan, _, joinedServer).
       Inr (createPlan\<lparr>np_Instructions := np_Instructions createPlan @
              [generateInstallInstructionWithSkipStart E controlPlane entry,
               empty_instruction\<lparr>i_Name := ''create'', i_Command := GetRuntimeCommand (sp_KubernetesVersion (cp_Spec controlPlane)),
                 i_Args := [''etcd-snapshot''] @ (if GreaterThan E v Kubernetes125 then [''save''] else [])\<rparr>]\<rparr>,
            joinedServer)))"

definition snapshot_message :: "planEntry \<Rightarrow> string" where
  "snapshot_message server =
     (case m_NodeRef (pe_Machine server) of
        Some n \<Rightarrow> if n \<noteq> '''' then ''etcd snapshot on node '' @ n
                  else ''etcd snapshot on machine '' @ m_Namespace (pe_Machine server) @ ''/'' @ m_Name (pe_Machine server)
      | None \<Rightarrow> ''etcd snapshot on machine '' @ m_Namespace (pe_Machine server) @ ''/'' @ m_Name (pe_Machine server))"

text \<open>The errors of all servers are collected; only a panic, or a plan that cannot be generated, ends the loop.\<close>

fun snapshot_create_loop ::
  "('w, 'z) planner_env_scheme \<Rightarrow> RKEControlPlane \<Rightarrow> plan_secret \<Rightarrow> string \<Rightarrow> planEntry list \<Rightarrow> go_error list \<Rightarrow>
   ('w pstate, go_error list) go" where
  "snapshot_create_loop E controlPlane tokensSecret joinServer [] errs s = (Inr errs, s)"
| "snapshot_create_loop E controlPlane tokensSecret joinServer (server # servers) errs s =
     (case generateEtcdSnapshotCreatePlan E controlPlane tokensSecret server joinServer (world s) of
        Inl e \<Rightarrow> (if is_panic e then (Inl e, s) else (Inr [e], s))
      | Inr (createPlan, joinedServer) \<Rightarrow>
          (case entryE (\<lambda>e. assignAndCheckPlan E (snapshot_message server) e createPlan joinedServer 3 3) server s of
             (Inl e, s') \<Rightarrow>
               if is_panic e then (Inl e, s')
               else snapshot_create_loop E controlPlane tokensSecret joinServer servers (errs @ [e]) s'
           | (Inr _, s') \<Rightarrow> snapshot_create_loop E controlPlane tokensSecret joinServer servers errs s'))"

definition runEtcdSnapshotCreate ::
  "('w, 'z) planner_env_scheme \<Rightarrow> RKEControlPlane \<Rightarrow> plan_secret \<Rightarrow> string \<Rightarrow> ('w pstate, go_error list) go" where
  "runEtcdSnapshotCreate E controlPlane tokensSecret joinServer s =
     (let servers = collect (cplan s) isEtcd in
      if servers = [] then (Inr [ErrOther ''failed to find node to perform etcd snapshot''], s)
      else snapshot_create_loop E controlPlane tokensSecret joinServer servers [] s)"

fun restart_loop ::
  "('w, 'z) planner_env_scheme \<Rightarrow> RKEControlPlane \<Rightarrow> plan_secret \<Rightarrow> string \<Rightarrow> string \<Rightarrow> planEntry list \<Rightarrow>
   ('w pstate, unit) go" where
  "restart_loop E controlPlane tokensSecret operation joinServer [] s = (Inr (), s)"
| "restart_loop E controlPlane tokensSecret operation joinServer (entry # es) s =
     (if isInitNodeOrDeleting entry then restart_loop E controlPlane tokensSecret operation joinServer es s
      else
        bindE (liftE (desiredPlan E controlPlane tokensSecret entry joinServer (world s))) (\<lambda>(np, joinedServer).
        bindE (entryE (\<lambda>e. assignAndCheckPlan E (operation @ '' management plane restart'') e np joinedServer 1 (-1)) entry) (\<lambda>_.
          restart_loop E controlPlane tokensSecret operation joinServer es)) s)"

definition runEtcdSnapshotManagementServiceStart ::
  "('w, 'z) planner_env_scheme \<Rightarrow> RKEControlPlane \<Rightarrow> plan_secret \<Rightarrow> roleFilter \<Rightarrow> string \<Rightarrow> ('w pstate, unit) go" where
  "runEtcdSnapshotManagementServiceStart E controlPlane tokensSecret include operation =
     bindE (errE (reconcile E controlPlane tokensSecret True bootstrapTier isEtcd isNotInitNodeOrIsDeleting ''1'' ''''
              (us_ControlPlaneDrainOptions (sp_UpgradeStrategy (cp_Spec controlPlane))))) (\<lambda>_.
     bindE (findE E controlPlane) (\<lambda>(_, joinServer).
       if joinServer = ''''
       then raiseE (ErrOther (''error encountered restarting cluster during '' @ operation @ '', joinServer was empty''))
       else (\<lambda>s. restart_loop E controlPlane tokensSecret operation joinServer (collect (cplan s) include) s)))"

section \<open>The state machine\<close>

text \<open>
  The loop over the errors of the servers: the first one that is not a wait makes the state
  \<open>Failed\<close>; setting it is itself reported as an error.
\<close>

fun failed_snapshots ::
  "ETCDSnapshotCreate \<Rightarrow> go_error list \<Rightarrow> RKEControlPlaneStatus \<Rightarrow> bool \<Rightarrow> go_error list \<Rightarrow>
   RKEControlPlaneStatus \<times> go_error list" where
  "failed_snapshots snapshot [] status stateSet finErrs = (status, finErrs)"
| "failed_snapshots snapshot (err # errs) status stateSet finErrs =
     (if \<not> IsErrWaiting err \<and> \<not> stateSet then
        (case setEtcdSnapshotCreateState status (Some snapshot) SnapFailed of
           (status', Some e) \<Rightarrow> failed_snapshots snapshot errs status' False (finErrs @ [err, e])
         | (status', None) \<Rightarrow> failed_snapshots snapshot errs status' True (finErrs @ [err]))
      else failed_snapshots snapshot errs status stateSet (finErrs @ [err]))"

definition create_started ::
  "('w, 'z) planner_env_scheme \<Rightarrow> RKEControlPlane \<Rightarrow> ETCDSnapshotCreate \<Rightarrow> plan_secret \<Rightarrow> RKEControlPlaneStatus \<Rightarrow> 'w statusE" where
  "create_started E controlPlane snapshot tokensSecret status =
     tryS (findE E controlPlane) status (\<lambda>(found, joinServer).
       if \<not> found \<or> joinServer = '''' then retS (status, None)
       else
         tryS (runEtcdSnapshotCreate E controlPlane tokensSecret joinServer) status (\<lambda>errs.
           if errs \<noteq> [] then
             (case failed_snapshots snapshot errs status False [] of
                (status', finErrs) \<Rightarrow> retS (status', Some (ErrWaiting (q_MergeErrors E finErrs))))
           else retS (setEtcdSnapshotCreateState status (Some snapshot) SnapRestartCluster)))"

definition createEtcdSnapshot ::
  "('w, 'z) planner_env_scheme \<Rightarrow> RKEControlPlane \<Rightarrow> RKEControlPlaneStatus \<Rightarrow> plan_secret \<Rightarrow> 'w statusE" where
  "createEtcdSnapshot E controlPlane status0 tokensSecret =
     (case sp_ETCDSnapshotCreate (cp_Spec controlPlane) of
        None \<Rightarrow> retS (resetEtcdSnapshotCreateState status0)
      | Some snapshot \<Rightarrow>
          if \<not> st_Initialized status0 \<or> \<not> c_IsTrue (lib_Cond E) ''Bootstrapped'' (st_Conditions status0)
          then retS (status0, None)
          else
            thenS (retS (startOrRestartEtcdSnapshotCreate status0 snapshot)) (\<lambda>status.
              case st_ETCDSnapshotCreatePhase (cp_Status controlPlane) of
                SnapStarted \<Rightarrow> create_started E controlPlane snapshot tokensSecret status
              | SnapRestartCluster \<Rightarrow>
                  tryS (runEtcdSnapshotManagementServiceStart E controlPlane tokensSecret isEtcd ''etcd snapshot creation'') status
                    (\<lambda>_. retS (setEtcdSnapshotCreateState status (Some snapshot) SnapFinished))
              | SnapFailed \<Rightarrow> retS (status, None)
              | SnapFinished \<Rightarrow> retS (status, None)
              | _ \<Rightarrow> retS (setEtcdSnapshotCreateState status (Some snapshot) SnapStarted)))"

end
