(* ===== verification/Etcd_Restore.thy ===== *)
theory Etcd_Restore
  imports Etcd_Create
begin

text \<open>
  Restoring an etcd snapshot (\<open>planner/etcdrestore.go\<close>): the plans that stop the cluster, reset
  etcd from the snapshot on one machine and clean up behind it, and the state machine that
  delivers them phase by phase.
\<close>

section \<open>Scripts\<close>

definition backslash :: string where
  "backslash = [CHR 0x5C]"

definition squote :: string where
  "squote = [CHR 0x27]"

definition etcdRestorePostRestoreWaitForPodListCleanupScript :: string where
  "etcdRestorePostRestoreWaitForPodListCleanupScript = Lines
     ['''', ''#!/bin/sh'', '''', ''i=0'', '''', ''while [ $i -lt 30 ]; do'', tab @ ''if $@ >/dev/null 2>&1; then'',
      tab @ tab @ ''exit 0'', tab @ ''fi'', tab @ ''sleep 10'', tab @ ''i=$((i + 1))'', ''done'', ''exit 1'']"

definition etcdRestoreNodeCleanUpScript :: string where
  "etcdRestoreNodeCleanUpScript = Lines
     ['''', ''#!/bin/sh'', '''', ''if [ -z \"$KUBECTL\" ]; then'',
      ''        echo \"Must define KUBECTL environment variable\"'', ''        exit 1'', ''fi'', '''',
      ''if [ -z \"$KUBECONFIG\" ]; then'', ''        echo \"Must define KUBECONFIG environment variable\"'',
      ''        exit 1'', ''fi'', '''', ''MACHINEIDSFILE=\"$1\"'', ''NODENAMESFILE=\"$2\"'', '''',
      ''if [ -z \"$MACHINEIDSFILE\" ] || [ -z \"$NODENAMESFILE\" ]; then'',
      ''        echo \"Must define nodenames file and machineids file\"'', ''fi'', '''', ''TMPALLNODES=$(mktemp)'',
      ''TMPSAVENODES=$(mktemp)'', '''', ''cat \"$NODENAMESFILE\" > \"$TMPSAVENODES\"'', '''',
      ''if ! ${KUBECTL} get nodes --no-headers -o=jsonpath='' @ squote @ ''{range .items[*]}{.metadata.name}{\"'' @ backslash @ ''n\"}{end}'' @ squote @ '' > \"$TMPALLNODES\"; then'',
      ''        echo \"Error listing all nodes\"'', ''        exit 1'', ''fi'', '''',
      ''while IFS='' @ squote @ squote @ '' read -r IDENTIFIER; do'',
      ''        if NODENAME=$(${KUBECTL} get node --no-headers -o=jsonpath='' @ squote @ ''{.items[0].metadata.name}'' @ squote @ '' -l rke.cattle.io/machine=\"$IDENTIFIER\"); then'',
      ''                echo \"$NODENAME\" >> \"$TMPSAVENODES\"'', ''        fi'', ''done < \"$MACHINEIDSFILE\"'', '''',
      ''echo \"Saving nodes:\"'', ''cat \"$TMPSAVENODES\"'', '''',
      ''while IFS='' @ squote @ squote @ '' read -r NODE; do'', ''        if [ \"${NODE}\" = \"\" ]; then'',
      ''                continue'', ''        fi'', ''        FOUND=false'',
      ''        while IFS='' @ squote @ squote @ '' read -r KEEP; do'',
      ''                if [ \"${NODE}\" = \"${KEEP}\" ]; then'', ''                        FOUND=true'',
      ''                        break'', ''                fi'', ''        done < \"$TMPSAVENODES\"'',
      ''        if [ \"${FOUND}\" != \"true\" ]; then'', ''                echo \"Deleting node ${NODE}\"'',
      ''                ${KUBECTL} delete node \"${NODE}\" --wait=false'', ''        fi'', ''done < \"$TMPALLNODES\"'',
      ''rm \"$TMPALLNODES\"'', ''rm \"$TMPSAVENODES\"'', '''', ''rm \"$MACHINEIDSFILE\"'', ''rm \"$NODENAMESFILE\"'']"

definition etcdRestoreNodeWaitForReadyScript :: string where
  "etcdRestoreNodeWaitForReadyScript = Lines
     ['''', ''#!/bin/sh'', '''', ''if [ -z \"$KUBECTL\" ]; then'',
      ''        echo \"Must define KUBECTL environment variable\"'', ''        exit 1'', ''fi'', '''',
      ''if [ -z \"$KUBECONFIG\" ]; then'', ''        echo \"Must define KUBECONFIG environment variable\"'',
      ''        exit 1'', ''fi'', '''', ''TMPMACHINEIDS=$(mktemp)'', '''',
      ''printf '' @ squote @ ''%s'' @ backslash @ ''n'' @ squote @ '' \"$@\" > \"$TMPMACHINEIDS\"'', '''',
      ''DESIREDREADYCOUNT=$(wc -l < \"$TMPMACHINEIDS\")'', '''', ''DESIREDNODESREADY=false'', '''',
      ''while ! $DESIREDNODESREADY; do'', ''        DESIREDNODESREADY=true'',
      ''        while IFS='' @ squote @ squote @ '' read -r MID; do'', ''                if [ \"$MID\" = \"\" ]; then'',
      ''                        exit'', ''                fi'',
      ''                if NODEREADY=$(${KUBECTL} get node --no-headers -o=custom-columns=STATUS:status.conditions'' @ backslash @ ''['' @ backslash @ ''?'' @ backslash @ ''('' @ backslash @ ''@.type=='' @ backslash @ ''\"Ready'' @ backslash @ ''\"'' @ backslash @ '')'' @ backslash @ ''].status -l rke.cattle.io/machine=\"$MID\"); then'',
      ''                        if [ \"$NODEREADY\" != \"True\" ]; then'',
      ''                                DESIREDNODESREADY=false'', ''                                sleep 5'',
      ''                                break'', ''                        fi'', ''                fi'',
      ''        done < \"$TMPMACHINEIDS\"'', ''done'', '''', '''', ''DESIREDREADYCOUNT=$(wc -l < \"$TMPMACHINEIDS\")'',
      ''rm \"$TMPMACHINEIDS\"'', '''', ''TMPALLREADY=$(mktemp)'', '''', ''ITERCOUNT=0'',
      ''while [ \"$ITERCOUNT\" != 60 ]; do'', ''        ACTUALREADYCOUNT=0'', ''        ITERCOUNT=$((ITERCOUNT+1))'',
      ''        if ! ${KUBECTL} get nodes --no-headers -o=custom-columns=STATUS:status.conditions'' @ backslash @ ''['' @ backslash @ ''?'' @ backslash @ ''('' @ backslash @ ''@.type=='' @ backslash @ ''\"Ready'' @ backslash @ ''\"'' @ backslash @ '')'' @ backslash @ ''].status > \"$TMPALLREADY\"; then'',
      ''                sleep 5'', ''                continue'', ''        fi'',
      ''        while IFS='' @ squote @ squote @ '' read -r STATUS; do'',
      ''                if [ \"$STATUS\" = \"True\" ]; then'',
      ''                        ACTUALREADYCOUNT=$((ACTUALREADYCOUNT+1))'', ''                fi'',
      ''        done < \"$TMPALLREADY\"'', ''        if [ \"$DESIREDREADYCOUNT\" = \"$ACTUALREADYCOUNT\" ]; then'',
      ''                break'', ''        fi'', ''        sleep 5'', ''done'', '''', ''rm \"$TMPALLREADY\"'']"

definition etcdRestoreInstallRoot :: string where
  "etcdRestoreInstallRoot = ''/var/lib/rancher''"

definition etcdRestoreBinPrefix :: string where
  "etcdRestoreBinPrefix = ''capr/etcd-restore/bin''"

definition etcdRestorePostRestoreWaitForPodListCleanupPath :: string where
  "etcdRestorePostRestoreWaitForPodListCleanupPath = ''wait_for_pod_list.sh''"

definition etcdRestoreNodeCleanUpPath :: string where
  "etcdRestoreNodeCleanUpPath = ''clean_up_nodes.sh''"

definition etcdRestoreNodeWaitForReadyPath :: string where
  "etcdRestoreNodeWaitForReadyPath = ''wait_for_ready.sh''"

definition ETCDRestoreMessage :: string where
  "ETCDRestoreMessage = ''etcd restore''"

definition etcdRestoreScriptPath :: "RKEControlPlane \<Rightarrow> string \<Rightarrow> string" where
  "etcdRestoreScriptPath controlPlane fileName =
     etcdRestoreInstallRoot @ ''/'' @ runtime_of controlPlane @ ''/'' @ etcdRestoreBinPrefix @ ''/'' @ fileName"

section \<open>The recorded state\<close>

definition setEtcdSnapshotRestoreState ::
  "RKEControlPlaneStatus \<Rightarrow> ETCDSnapshotRestore option \<Rightarrow> ETCDSnapshotPhase \<Rightarrow> RKEControlPlaneStatus \<times> err" where
  "setEtcdSnapshotRestoreState status restore phase =
     (if st_ETCDSnapshotRestore status \<noteq> restore \<or> st_ETCDSnapshotRestorePhase status \<noteq> phase
      then (status\<lparr>st_ETCDSnapshotRestore := restore, st_ETCDSnapshotRestorePhase := phase\<rparr>,
            Some (ErrWaiting ''refreshing etcd restore state''))
      else (status, None))"

definition resetEtcdSnapshotRestoreState :: "RKEControlPlaneStatus \<Rightarrow> RKEControlPlaneStatus \<times> err" where
  "resetEtcdSnapshotRestoreState status =
     (if st_ETCDSnapshotRestore status = None \<and> st_ETCDSnapshotRestorePhase status = SnapNone then (status, None)
      else setEtcdSnapshotRestoreState status None SnapNone)"

definition startOrRestartEtcdSnapshotRestore ::
  "RKEControlPlaneStatus \<Rightarrow> ETCDSnapshotRestore \<Rightarrow> RKEControlPlaneStatus \<times> err" where
  "startOrRestartEtcdSnapshotRestore status restore =
     (if st_ETCDSnapshotRestore status = None \<or> Some restore \<noteq> st_ETCDSnapshotRestore status
      then setEtcdSnapshotRestoreState status (Some restore) SnapStarted
      else (status, None))"

section \<open>Instructions\<close>

text \<open>\<open>fmt.Sprintf("%v", controlPlane.Status.ETCDSnapshotRestore)\<close>, a pointer to a struct.\<close>

definition restore_value :: "RKEControlPlane \<Rightarrow> string" where
  "restore_value controlPlane =
     (case st_ETCDSnapshotRestore (cp_Status controlPlane) of
        None \<Rightarrow> ''<nil>''
      | Some r \<Rightarrow> ''&{'' @ sr_Name r @ '' '' @ Itoa (sr_Generation r) @ '' '' @ sr_RestoreRKEConfig r @ ''}'')"

definition generateManifestRemovalInstruction :: "string \<Rightarrow> planEntry option \<Rightarrow> one_time_instruction option" where
  "generateManifestRemovalInstruction runtime entry =
     (case entry of
        None \<Rightarrow> None
      | Some e \<Rightarrow>
          if runtime = '''' \<or> roleNot (roleOr isEtcd isControlPlane) e then None
          else Some (empty_instruction\<lparr>i_Name := ''remove server manifests'', i_Command := ''/bin/sh'',
                 i_Args := [''-c'', ''rm -rf /var/lib/rancher/'' @ runtime @ ''/server/manifests/'' @ runtime @ ''-*.yaml'']\<rparr>))"

definition generateKillAllInstruction :: "string \<Rightarrow> one_time_instruction" where
  "generateKillAllInstruction runtime =
     (let killAllScript = runtime @ ''-killall.sh'' in
      empty_instruction\<lparr>i_Name := ''shutdown'', i_Command := ''/bin/sh'',
        i_Args := [''-c'', ''if [ -z $(command -v '' @ runtime @ '') ] && [ -z $(command -v '' @ killAllScript @
          '') ]; then echo '' @ runtime @ '' does not appear to be installed; exit 0; else '' @ killAllScript @ ''; fi'']\<rparr>)"

definition generateCreateEtcdTombstoneInstruction :: "RKEControlPlane \<Rightarrow> one_time_instruction" where
  "generateCreateEtcdTombstoneInstruction controlPlane =
     empty_instruction\<lparr>i_Name := ''create-etcd-tombstone'', i_Command := ''touch'',
       i_Args := [''/var/lib/rancher/'' @ GetRuntimeCommand (sp_KubernetesVersion (cp_Spec controlPlane)) @ ''/server/db/etcd/tombstone'']\<rparr>"

definition generateRemoveTLSAndCredDirInstructions :: "RKEControlPlane \<Rightarrow> one_time_instruction list" where
  "generateRemoveTLSAndCredDirInstructions controlPlane =
     (let dir = ''/var/lib/rancher/'' @ GetRuntimeCommand (sp_KubernetesVersion (cp_Spec controlPlane)) @ ''/server/'' in
      [empty_instruction\<lparr>i_Name := ''remove-tls-directory'', i_Command := ''rm'', i_Args := [''-rf'', dir @ ''tls'']\<rparr>,
       empty_instruction\<lparr>i_Name := ''remove-cred-directory'', i_Command := ''rm'', i_Args := [''-rf'', dir @ ''cred'']\<rparr>])"

definition kube_env :: "string \<Rightarrow> string \<Rightarrow> string list" where
  "kube_env kubectl kubeconfig = [''KUBECTL='' @ kubectl, ''KUBECONFIG='' @ kubeconfig]"

definition common_pod_selectors :: "string list" where
  "common_pod_selectors = [''kube-system:k8s-app=kube-dns'', ''kube-system:k8s-app=kube-dns-autoscaler'']"

definition rke2_pod_selectors :: "string list" where
  "rke2_pod_selectors =
     [''kube-system:app=rke2-metrics-server'', ''tigera-operator:k8s-app=tigera-operator'',
      ''calico-system:k8s-app=calico-node'', ''calico-system:k8s-app=calico-kube-controllers'',
      ''calico-system:k8s-app=calico-typha'', ''kube-system:k8s-app=canal'', ''kube-system:k8s-app=cilium'',
      ''kube-system:app=rke2-multus'', ''kube-system:app.kubernetes.io/name=rke2-ingress-nginx'']"

fun pod_cleanup_instructions ::
  "'z libs_scheme \<Rightarrow> RKEControlPlane \<Rightarrow> string \<Rightarrow> string \<Rightarrow> int \<Rightarrow> string list \<Rightarrow> one_time_instruction list" where
  "pod_cleanup_instructions E controlPlane kubectl kubeconfig i [] = []"
| "pod_cleanup_instructions E controlPlane kubectl kubeconfig i (podSelector # rest) =
     (case Cut podSelector '':'' of
        None \<Rightarrow> []
      | Some (namespace, labelSelector) \<Rightarrow>
          [idempotentInstruction E (''etcd-restore/post-restore-cleanup-pods-'' @ Itoa i) (restore_value controlPlane) kubectl
             [''--kubeconfig'', kubeconfig, ''delete'', ''pods'', ''-n'', namespace, ''-l'', labelSelector, ''--wait=false''] []]) @
     pod_cleanup_instructions E controlPlane kubectl kubeconfig (i + 1) rest"

definition generateEtcdRestorePodCleanupFilesAndInstruction ::
  "('w, 'z) planner_env_scheme \<Rightarrow> RKEControlPlane \<Rightarrow> string list \<Rightarrow> plan_file list \<times> one_time_instruction list" where
  "generateEtcdRestorePodCleanupFilesAndInstruction E controlPlane cleanupMachineUIDs =
     (case GetKubectlAndKubeconfigPaths (sp_KubernetesVersion (cp_Spec controlPlane)) of (kubectl, kubeconfig) \<Rightarrow>
        if kubectl = '''' \<or> kubeconfig = '''' then ([], [])
        else
          let v = restore_value controlPlane;
              podSelectors = common_pod_selectors @
                (if runtime_of controlPlane = RuntimeRKE2 then rke2_pod_selectors else []) @
                (case q_SystemPodLabelSelectors E of None \<Rightarrow> [] | Some f \<Rightarrow> f controlPlane) in
          ([(plain_file (b64_encode etcdRestorePostRestoreWaitForPodListCleanupScript)
               (etcdRestoreScriptPath controlPlane etcdRestorePostRestoreWaitForPodListCleanupPath))\<lparr>f_Dynamic := True\<rparr>,
            (plain_file (b64_encode etcdRestoreNodeWaitForReadyScript)
               (etcdRestoreScriptPath controlPlane etcdRestoreNodeWaitForReadyPath))\<lparr>f_Dynamic := True\<rparr>],
           [idempotentInstruction E ''etcd-restore/pods-wait-for-podlist'' v ''/bin/sh''
              [''-x'', etcdRestoreScriptPath controlPlane etcdRestorePostRestoreWaitForPodListCleanupPath, kubectl,
               ''--kubeconfig'', kubeconfig, ''get'', ''pods'', ''--all-namespaces''] [],
            idempotentInstruction E ''etcd-restore/wait-for-desired-ready-nodes'' v ''/bin/sh''
              ([etcdRestoreScriptPath controlPlane etcdRestoreNodeWaitForReadyPath] @ cleanupMachineUIDs)
              (kube_env kubectl kubeconfig)] @
           pod_cleanup_instructions E controlPlane kubectl kubeconfig 0 podSelectors))"

text \<open>\<open>controlPlane.Spec.ETCDSnapshotRestore\<close> is dereferenced without a test.\<close>

definition generateEtcdRestoreNodeCleanupFilesAndInstruction ::
  "('w, 'z) planner_env_scheme \<Rightarrow> RKEControlPlane \<Rightarrow> string list \<Rightarrow> string list \<Rightarrow>
   go_error + (plan_file list \<times> one_time_instruction list)" where
  "generateEtcdRestoreNodeCleanupFilesAndInstruction E controlPlane allMachineUIDs allNodeNames =
     (case GetKubectlAndKubeconfigPaths (sp_KubernetesVersion (cp_Spec controlPlane)) of (kubectl, kubeconfig) \<Rightarrow>
        if kubectl = '''' \<or> kubeconfig = '''' then Inr ([], [])
        else
          (case sp_ETCDSnapshotRestore (cp_Spec controlPlane) of
             None \<Rightarrow> Inl (GoPanic ''nil ETCDSnapshotRestore'')
           | Some r \<Rightarrow>
               let identifier = k_NameHex E (sr_Name r @ sr_RestoreRKEConfig r @ Itoa (sr_Generation r)) 10;
                   machineIdsFile = ''machine-ids-'' @ identifier;
                   nodeNamesFile = ''node-names-'' @ identifier;
                   path = etcdRestoreScriptPath controlPlane in
               Inr ([(plain_file (b64_encode etcdRestoreNodeCleanUpScript) (path etcdRestoreNodeCleanUpPath))\<lparr>f_Dynamic := True\<rparr>,
                     (plain_file (b64_encode (Lines allMachineUIDs)) (path machineIdsFile))\<lparr>f_Dynamic := True\<rparr>,
                     (plain_file (b64_encode (Lines allNodeNames)) (path nodeNamesFile))\<lparr>f_Dynamic := True\<rparr>],
                    [idempotentInstruction E ''etcd-restore/cleanup-nodes'' (restore_value controlPlane) ''/bin/sh''
                       [path etcdRestoreNodeCleanUpPath, path machineIdsFile, path nodeNamesFile]
                       (kube_env kubectl kubeconfig)])))"

section \<open>Plans\<close>

definition add_instructions :: "one_time_instruction list \<Rightarrow> node_plan \<Rightarrow> node_plan" where
  "add_instructions is np = np\<lparr>np_Instructions := np_Instructions np @ is\<rparr>"

definition opt_instruction :: "one_time_instruction option \<Rightarrow> one_time_instruction list" where
  "opt_instruction i = (case i of None \<Rightarrow> [] | Some x \<Rightarrow> [x])"

definition restore_source ::
  "('w, 'z) planner_env_scheme \<Rightarrow> RKEControlPlane \<Rightarrow> ETCDSnapshot option \<Rightarrow> string \<Rightarrow> 'w \<Rightarrow>
   go_error + (string list \<times> string list \<times> plan_file list)" where
  "restore_source E controlPlane snapshot snapshotName w =
     (case snapshot of
        None \<Rightarrow> Inr ([''--cluster-reset-restore-path=db/snapshots/'' @ snapshotName, ''--etcd-s3=false''], [], [])
      | Some sn \<Rightarrow>
          (case es_S3 sn of
             None \<Rightarrow> Inr ([''--cluster-reset-restore-path=db/snapshots/'' @ es_FileName sn, ''--etcd-s3=false''], [], [])
           | Some s3 \<Rightarrow>
               sbind (ToArgs E (Some s3) controlPlane ''etcd-'' True w) (\<lambda>(args, env, fs).
                 Inr ((''--cluster-reset-restore-path='' @ es_FileName sn) # args, env, fs))))"

definition generateEtcdSnapshotRestorePlan ::
  "('w, 'z) planner_env_scheme \<Rightarrow> RKEControlPlane \<Rightarrow> ETCDSnapshot option \<Rightarrow> string \<Rightarrow> plan_secret \<Rightarrow> planEntry \<Rightarrow> string \<Rightarrow>
   'w \<Rightarrow> go_error + (node_plan \<times> string)" where
  "generateEtcdSnapshotRestorePlan E controlPlane snapshot snapshotName tokensSecret entry joinServer w =
     (if sp_ETCDSnapshotRestore (cp_Spec controlPlane) = None
      then Inl (ErrOther ''ETCD Snapshot restore was not defined'')
      else
        sbind (generatePlanWithConfigFiles E controlPlane tokensSecret entry joinServer False w) (\<lambda>(np, _, joinedServer).
        sbind (restore_source E controlPlane snapshot snapshotName w) (\<lambda>(srcArgs, env, s3Files).
          let runtime = runtime_of controlPlane;
              command = GetRuntimeCommand (sp_KubernetesVersion (cp_Spec controlPlane));
              v = restore_value controlPlane;
              args = [''server'', ''--cluster-reset'',
                ''--etcd-arg=advertise-client-urls=https://'' @ GetLoopbackAddress controlPlane @ '':2379'',
                ''--etcd-disable-snapshots=false''] @ srcArgs in
          Inr (add_instructions
                 ([convertToIdempotentInstruction E ''etcd-restore/restore-kill-all'' v (generateKillAllInstruction runtime)] @
                  (if runtime = RuntimeRKE2
                   then map (convertToIdempotentInstruction E ''etcd-restore/restore-manifest-removal'' v)
                          (opt_instruction (generateManifestRemovalInstruction runtime (Some entry)))
                   else []) @
                  [generateInstallInstructionWithSkipStart E controlPlane entry,
                   convertToIdempotentInstruction E ''etcd-restore/clean-etcd-dir'' v
                     (empty_instruction\<lparr>i_Name := ''remove-etcd-db-dir'', i_Command := ''rm'',
                        i_Args := [''-rf'', ''/var/lib/rancher/'' @ command @ ''/server/db/etcd'']\<rparr>),
                   idempotentInstruction E ''etcd-restore/restore'' v command args env])
                 (add_files s3Files np), joinedServer))))"

definition generateStopServiceAndKillAllPlan ::
  "('w, 'z) planner_env_scheme \<Rightarrow> RKEControlPlane \<Rightarrow> plan_secret \<Rightarrow> planEntry \<Rightarrow> string \<Rightarrow> 'w \<Rightarrow> go_error + (node_plan \<times> string)" where
  "generateStopServiceAndKillAllPlan E controlPlane tokensSecret server joinServer w =
     sbind (generatePlanWithConfigFiles E controlPlane tokensSecret server joinServer True w) (\<lambda>(np, _, joinedServer).
       let runtime = runtime_of controlPlane in
       Inr (add_instructions
              ([generateKillAllInstruction runtime] @
               (if runtime = RuntimeRKE2 then opt_instruction (generateManifestRemovalInstruction runtime (Some server)) else [])) np,
            joinedServer))"

section \<open>Operations\<close>

definition runEtcdRestoreInitNodeElection ::
  "('w, 'z) planner_env_scheme \<Rightarrow> RKEControlPlane \<Rightarrow> ETCDSnapshot option \<Rightarrow> ('w pstate, string) go" where
  "runEtcdRestoreInitNodeElection E controlPlane snapshot s =
     (case snapshot of
        Some sn \<Rightarrow>
          if es_S3 sn = None then
            (case es_Labels sn MachineIDLabel of
               Some mid \<Rightarrow> electE (designateInitNodeByMachineID E controlPlane mid s)
             | None \<Rightarrow> (Inl (ErrOther (''unable to designate machine as label '' @ MachineIDLabel @ '' on snapshot '' @
                          es_Namespace sn @ ''/'' @ es_Name sn @ '' did not exist'')), s))
          else electE (electInitNode E controlPlane True s)
      | None \<Rightarrow>
          let candidates = length (collect (cplan s) (canBeInitNode E)) in
          if candidates = 0
          then (Inl (ErrOther ''no init node existed and no corresponding etcd snapshot CR found, no assumption can be made for the machine that contains the snapshot''), s)
          else if candidates > 1
          then (Inl (ErrOther ''more than one init node existed and no corresponding etcd snapshot CR found, no assumption can be made for the machine that contains the snapshot''), s)
          else electE (electInitNode E controlPlane True s))"

definition runEtcdSnapshotRestorePlan ::
  "('w, 'z) planner_env_scheme \<Rightarrow> RKEControlPlane \<Rightarrow> ETCDSnapshot option \<Rightarrow> string \<Rightarrow> plan_secret \<Rightarrow> ('w pstate, unit) go" where
  "runEtcdSnapshotRestorePlan E controlPlane snapshot snapshotName tokensSecret =
     bindE (runEtcdRestoreInitNodeElection E controlPlane snapshot) (\<lambda>joinServer s.
       case collect (cplan s) isInitNode of
         [server] \<Rightarrow>
           bindE (worldE (pauseCAPICluster E (Some controlPlane) True)) (\<lambda>_ s'.
             bindE (liftE (generateEtcdSnapshotRestorePlan E controlPlane snapshot snapshotName tokensSecret server joinServer (world s')))
               (\<lambda>(restorePlan, joinedServer).
                 bindE (entryE (\<lambda>e. assignAndCheckPlan E ETCDRestoreMessage e restorePlan joinedServer 1 1) server) (\<lambda>_. retE ())) s') s
       | _ \<Rightarrow> (Inl (ErrOther ''more than one init node existed, cannot run etcd snapshot restore''), s))"

text \<open>The plan of the init node with cleanup files and instructions, assigned and checked.\<close>

definition assign_extended ::
  "('w, 'z) planner_env_scheme \<Rightarrow> planEntry \<Rightarrow> node_plan \<Rightarrow> string \<Rightarrow> plan_file list \<times> one_time_instruction list \<Rightarrow> ('w pstate, unit) go" where
  "assign_extended E entry np joinedServer extra =
     bindE (entryE (\<lambda>e. assignAndCheckPlan E ETCDRestoreMessage e
                     (add_instructions (snd extra) (add_files (fst extra) np)) joinedServer 5 5) entry) (\<lambda>_. retE ())"

text \<open>
  The error of \<open>findInitNode\<close> is looked at only after the join server: an empty join server
  waits, whatever the error was.
\<close>

definition runEtcdSnapshotPostRestorePodCleanupPlan ::
  "('w, 'z) planner_env_scheme \<Rightarrow> RKEControlPlane \<Rightarrow> plan_secret \<Rightarrow> ('w pstate, unit) go" where
  "runEtcdSnapshotPostRestorePodCleanupPlan E controlPlane tokensSecret s =
     (case collect (cplan s) isInitNode of
        [initNode] \<Rightarrow>
          bindE (liftE (desiredPlan E controlPlane tokensSecret initNode '''' (world s))) (\<lambda>(np, _).
            if isControlPlane initNode
            then assign_extended E initNode np ''''
                   (generateEtcdRestorePodCleanupFilesAndInstruction E controlPlane [m_UID (pe_Machine initNode)])
            else
              bindE (assign_extended E initNode np '''' ([], [])) (\<lambda>_ s1.
                case findInitNode E controlPlane s1 of
                  ((_, joinServer, _, err), s2) \<Rightarrow>
                    if err_is is_panic err then (Inl (the err), s2)
                    else if joinServer = '''' then (Inl (ErrWaiting ''waiting for join server''), s2)
                    else
                      (case err of
                         Some e \<Rightarrow> (Inl e, s2)
                       | None \<Rightarrow>
                           (case collect (cplan s2) (roleAnd isControlPlane (roleNot isDeleting)) of
                              [] \<Rightarrow> (Inl (ErrOther ''no suitable controlplane entries found for post restore cleanup during etcd restoration''), s2)
                            | controlPlaneEntry # _ \<Rightarrow>
                                bindE (liftE (desiredPlan E controlPlane tokensSecret controlPlaneEntry joinServer (world s2)))
                                  (\<lambda>(np2, joinedServer).
                                    assign_extended E controlPlaneEntry np2 joinedServer
                                      (generateEtcdRestorePodCleanupFilesAndInstruction E controlPlane
                                         [m_UID (pe_Machine initNode), m_UID (pe_Machine controlPlaneEntry)])) s2)))) s
      | _ \<Rightarrow> (Inl (ErrOther ''multiple init nodes found''), s))"

definition runEtcdSnapshotPostRestoreNodeCleanupPlan ::
  "('w, 'z) planner_env_scheme \<Rightarrow> RKEControlPlane \<Rightarrow> plan_secret \<Rightarrow> ('w pstate, unit) go" where
  "runEtcdSnapshotPostRestoreNodeCleanupPlan E controlPlane tokensSecret s =
     (case collect (cplan s) isInitNode of
        [initNode] \<Rightarrow>
          bindE (liftE (desiredPlan E controlPlane tokensSecret initNode '''' (world s))) (\<lambda>(np, _).
            let ns = collect (cplan s) isNotDeleting;
                allMachineUIDs = filter (\<lambda>u. u \<noteq> '''') (map (\<lambda>n. m_UID (pe_Machine n)) ns);
                allNodeNames = filter (\<lambda>u. u \<noteq> '''') (List.map_filter (\<lambda>n. m_NodeRef (pe_Machine n)) ns) in
            bindE (liftE (generateEtcdRestoreNodeCleanupFilesAndInstruction E controlPlane allMachineUIDs allNodeNames)) (\<lambda>extra.
              assign_extended E initNode np '''' extra)) s
      | _ \<Rightarrow> (Inl (ErrOther ''multiple init nodes found''), s))"

definition stop_plan ::
  "('w, 'z) planner_env_scheme \<Rightarrow> RKEControlPlane \<Rightarrow> plan_secret \<Rightarrow> string \<Rightarrow> planEntry \<Rightarrow> 'w \<Rightarrow> go_error + (node_plan \<times> string)" where
  "stop_plan E controlPlane tokensSecret joinServer server w =
     sbind (generateStopServiceAndKillAllPlan E controlPlane tokensSecret server joinServer w) (\<lambda>(stopPlan, joinedServer).
       Inr (add_instructions
              ([generateIdempotencyCleanupInstruction ''etcd-restore''] @
               (if isEtcd server then [generateCreateEtcdTombstoneInstruction controlPlane] else []) @
               (if roleOr isEtcd isControlPlane server then generateRemoveTLSAndCredDirInstructions controlPlane else [])) stopPlan,
            joinedServer))"

text \<open>The loop that delivers stop plans: the servers as they are then, and whether a plan was written.\<close>

fun stop_loop ::
  "('w, 'z) planner_env_scheme \<Rightarrow> RKEControlPlane \<Rightarrow> plan_secret \<Rightarrow> string \<Rightarrow> planEntry list \<Rightarrow> ('w pstate, bool) go" where
  "stop_loop E controlPlane tokensSecret joinServer [] s = (Inr False, s)"
| "stop_loop E controlPlane tokensSecret joinServer (server # servers) s =
     (case pe_Plan server of
        None \<Rightarrow> stop_loop E controlPlane tokensSecret joinServer servers s
      | Some pl \<Rightarrow>
          bindE (liftE (stop_plan E controlPlane tokensSecret joinServer server (world s))) (\<lambda>(stopPlan, joinedServer).
            if \<not> e_DeepEqualPlan E (n_Plan pl) stopPlan
            then bindE (entryE (\<lambda>e. UpdatePlan E e stopPlan joinedServer 0 0) server) (\<lambda>_.
                 bindE (stop_loop E controlPlane tokensSecret joinServer servers) (\<lambda>_. retE True))
            else stop_loop E controlPlane tokensSecret joinServer servers) s)"

definition stop_waiting :: "RKEControlPlane \<Rightarrow> planEntry \<Rightarrow> go_error" where
  "stop_waiting controlPlane server =
     (case m_NodeRef (pe_Machine server) of
        None \<Rightarrow> ErrWaiting (''waiting to stop '' @ runtime_of controlPlane @ '' services on machine ['' @ m_Name (pe_Machine server) @ '']'')
      | Some n \<Rightarrow> ErrWaiting (''waiting to stop '' @ runtime_of controlPlane @ '' services on node ['' @ n @ '']''))"

text \<open>When no plan was written the entries are as collected, so the second loop reads them.\<close>

definition runEtcdRestoreServiceStop ::
  "('w, 'z) planner_env_scheme \<Rightarrow> RKEControlPlane \<Rightarrow> ETCDSnapshot option \<Rightarrow> plan_secret \<Rightarrow> ('w pstate, unit) go" where
  "runEtcdRestoreServiceStop E controlPlane snapshot tokensSecret =
     bindE (runEtcdRestoreInitNodeElection E controlPlane snapshot) (\<lambda>joinServer.
     bindE (forceDeleteAllDeletingEtcdMachines E controlPlane) (\<lambda>deletingEtcdNodes s.
       if deletingEtcdNodes \<noteq> 0
       then (Inl (ErrWaiting (''waiting for '' @ Itoa (int deletingEtcdNodes) @ '' etcd machines to delete'')), s)
       else
         let servers = collect (cplan s) anyRoleWithoutWindows in
         bindE (stop_loop E controlPlane tokensSecret joinServer servers) (\<lambda>updated s'.
           if updated
           then (Inl (ErrWaiting (''stopping '' @ runtime_of controlPlane @ '' services on control plane and etcd machines/nodes'')), s')
           else
             (case find (\<lambda>server. case pe_Plan server of None \<Rightarrow> False | Some pl \<Rightarrow> \<not> n_InSync pl) servers of
                Some server \<Rightarrow> (Inl (stop_waiting controlPlane server), s')
              | None \<Rightarrow>
                  if collect (cplan s') (roleAnd isEtcd (roleNot isDeleting)) = []
                  then (Inl (ErrWaiting ''waiting for suitable etcd nodes for etcd restore continuation''), s')
                  else (Inr (), s'))) s))"

definition retrieveEtcdSnapshot ::
  "('w, 'z) planner_env_scheme \<Rightarrow> RKEControlPlane option \<Rightarrow> 'w \<Rightarrow> go_error + ETCDSnapshot option" where
  "retrieveEtcdSnapshot E controlPlane w =
     (case controlPlane of
        None \<Rightarrow> Inl (ErrOther ''controlplane was nil'')
      | Some cp \<Rightarrow>
          (case sp_ETCDSnapshotRestore (cp_Spec cp) of
             None \<Rightarrow> Inl (ErrOther ''etcdsnapshotrestore spec was nil'')
           | Some r \<Rightarrow>
               if sp_ClusterName (cp_Spec cp) = ''''
               then Inl (ErrOther (''cluster name on rkecontrolplane '' @ cp_Namespace cp @ ''/'' @ cp_Name cp @ '' was blank''))
               else (case q_SnapshotCacheGet E (cp_Namespace cp) (sr_Name r) w of
                       Inl e \<Rightarrow> if is_NotFound e then Inr None else Inl e
                     | Inr sn \<Rightarrow> Inr (Some sn))))"

section \<open>The state machine\<close>

text \<open>A snapshot of a cluster before 1.25 is not restored into a later cluster.\<close>

definition snapshot_restorable ::
  "('w, 'z) planner_env_scheme \<Rightarrow> ETCDSnapshot option \<Rightarrow> semver \<Rightarrow> go_error + unit" where
  "snapshot_restorable E snapshot currentVersion =
     (case snapshot of
        None \<Rightarrow> Inr ()
      | Some sn \<Rightarrow>
          (case ParseSnapshotClusterSpecOrError E (q_UnmarshalSnapshotMap E) (q_UnmarshalClusterSpec E) (Some sn) of
             Inl _ \<Rightarrow> Inr ()
           | Inr None \<Rightarrow> Inr ()
           | Inr (Some version) \<Rightarrow>
               sbind (q_NewVersion E version) (\<lambda>snapshotK8sVersion.
                 if \<not> LessThan E currentVersion Kubernetes125 \<and> LessThan E snapshotK8sVersion Kubernetes125
                 then Inl (ErrOther ''unable to restore etcd snapshot -- recorded Kubernetes version on snapshot was <= v1.25.0 and current cluster version was v1.25.0 or newer'')
                 else Inr ())))"

text \<open>
  A full reconciliation whose status is dropped when it succeeds. The dropped status shares
  its list of conditions with the caller's: a condition that is already in the list is set in
  place and stays set, a new one is lost.
\<close>

definition shared_bootstrapped :: "'z libs_scheme \<Rightarrow> RKEControlPlaneStatus \<Rightarrow> RKEControlPlaneStatus" where
  "shared_bootstrapped E status =
     (if list_ex (\<lambda>c. cd_Type c = ''Bootstrapped'') (st_Conditions status)
      then status\<lparr>st_Conditions := c_True (lib_Cond E) ''Bootstrapped'' (st_Conditions status)\<rparr> else status)"

definition restart_cluster ::
  "('w, 'z) planner_env_scheme \<Rightarrow> RKEControlPlane \<Rightarrow> RKEControlPlaneStatus \<Rightarrow> plan_secret \<Rightarrow> ETCDSnapshotPhase \<Rightarrow> 'w statusE" where
  "restart_cluster E cp status tokensSecret nextPhase =
     tryS (worldE (pauseCAPICluster E (Some cp) False)) status (\<lambda>_.
       thenS (fullReconcile E cp status tokensSecret True) (\<lambda>_.
         retS (setEtcdSnapshotRestoreState (shared_bootstrapped E status) (sp_ETCDSnapshotRestore (cp_Spec cp)) nextPhase)))"

definition restore_phase ::
  "('w, 'z) planner_env_scheme \<Rightarrow> RKEControlPlane \<Rightarrow> RKEControlPlaneStatus \<Rightarrow> plan_secret \<Rightarrow> ETCDSnapshotRestore \<Rightarrow>
   ETCDSnapshot option \<Rightarrow> 'w statusE" where
  "restore_phase E cp status tokensSecret restore snapshot =
     (case st_ETCDSnapshotRestorePhase (cp_Status cp) of
        SnapStarted \<Rightarrow>
          retS (fst (setEtcdSnapshotRestoreState (status\<lparr>st_Initialized := False, st_Ready := False\<rparr>) (Some restore) SnapShutdown),
                Some (ErrWaiting ''shutting down cluster''))
      | SnapShutdown \<Rightarrow>
          tryS (runEtcdRestoreServiceStop E cp snapshot tokensSecret) status (\<lambda>_.
            retS (fst (setEtcdSnapshotRestoreState
                    (status\<lparr>st_Conditions := c_False (lib_Cond E) ''Bootstrapped'' (st_Conditions status)\<rparr>) (Some restore) SnapRestore),
                  Some (ErrWaiting ''cluster shutdown complete, running etcd restore'')))
      | SnapRestore \<Rightarrow>
          tryS (runEtcdSnapshotRestorePlan E cp snapshot (sr_Name restore) tokensSecret) status (\<lambda>_.
            retS (setEtcdSnapshotRestoreState (status\<lparr>st_ConfigGeneration := st_ConfigGeneration status + 1\<rparr>)
                    (Some restore) SnapPostRestorePodCleanup))
      | SnapPostRestorePodCleanup \<Rightarrow>
          tryS (runEtcdSnapshotPostRestorePodCleanupPlan E cp tokensSecret) status (\<lambda>_.
            retS (setEtcdSnapshotRestoreState status (Some restore) SnapInitialRestartCluster))
      | SnapInitialRestartCluster \<Rightarrow> restart_cluster E cp status tokensSecret SnapPostRestoreNodeCleanup
      | SnapPostRestoreNodeCleanup \<Rightarrow>
          tryS (runEtcdSnapshotPostRestoreNodeCleanupPlan E cp tokensSecret) status (\<lambda>_.
            retS (setEtcdSnapshotRestoreState status (Some restore) SnapRestartCluster))
      | SnapRestartCluster \<Rightarrow> restart_cluster E cp status tokensSecret SnapFinished
      | SnapFinished \<Rightarrow> retS (status, None)
      | _ \<Rightarrow> retS (setEtcdSnapshotRestoreState status (Some restore) SnapStarted))"

text \<open>The status after a start that changed nothing is the status before it.\<close>

definition restoreEtcdSnapshot ::
  "('w, 'z) planner_env_scheme \<Rightarrow> RKEControlPlane \<Rightarrow> RKEControlPlaneStatus \<Rightarrow> plan_secret \<Rightarrow> semver \<Rightarrow> 'w statusE" where
  "restoreEtcdSnapshot E cp status tokensSecret currentVersion s =
     (case sp_ETCDSnapshotRestore (cp_Spec cp) of
        None \<Rightarrow> retS (resetEtcdSnapshotRestoreState status) s
      | Some restore \<Rightarrow>
          if sr_Name restore = '''' then retS (resetEtcdSnapshotRestoreState status) s
          else
            thenS (retS (startOrRestartEtcdSnapshotRestore status restore)) (\<lambda>_.
              tryS (liftE (retrieveEtcdSnapshot E (Some cp) (world s))) status (\<lambda>snapshot.
              tryS (liftE (snapshot_restorable E snapshot currentVersion)) status (\<lambda>_.
                restore_phase E cp status tokensSecret restore snapshot))) s)"

end
