(* ===== verification/Cert_Rotation.thy ===== *)
theory Cert_Rotation
  imports Etcd_Restore
begin

text \<open>
  Rotating certificates (\<open>planner/certificaterotation.go\<close>): one machine after the other is
  given a plan that rotates its certificates and restarts its service; the generation that
  was rotated is recorded in the status.
\<close>

section \<open>Which machines\<close>

definition shouldRotate :: "RKEControlPlane \<Rightarrow> bool" where
  "shouldRotate cp =
     (case sp_RotateCertificates (cp_Spec cp) of
        None \<Rightarrow> False
      | Some r \<Rightarrow> st_Initialized (cp_Status cp) \<and> st_CertificateRotationGeneration (cp_Status cp) \<noteq> rc_Generation r)"

definition rotationContainsService :: "RotateCertificates option \<Rightarrow> string \<Rightarrow> bool" where
  "rotationContainsService rotation service =
     (case rotation of None \<Rightarrow> False | Some r \<Rightarrow> rc_Services r = [] \<or> List.member (rc_Services r) service)"

definition worker_services :: "string list" where
  "worker_services = [''rke2-server'', ''k3s-server'', ''api-server'', ''kubelet'', ''kube-proxy'', ''auth-proxy'']"

definition control_plane_services :: "string list" where
  "control_plane_services = [''rke2-server'', ''k3s-server'', ''api-server'', ''kubelet'', ''kube-proxy'', ''auth-proxy'',
     ''controller-manager'', ''scheduler'', ''rke2-controller'', ''k3s-controller'', ''admin'', ''cloud-controller'']"

definition etcd_services :: "string list" where
  "etcd_services = [''etcd'', ''kubelet'', ''k3s-server'', ''rke2-server'']"

definition shouldRotateEntry :: "RotateCertificates \<Rightarrow> planEntry \<Rightarrow> bool" where
  "shouldRotateEntry rotation entry =
     (if rc_Services rotation = [] then True
      else
        let relevantServices = (if isWorker entry then worker_services else []) @
              (if isControlPlane entry then control_plane_services else []) @ (if isEtcd entry then etcd_services else []) in
        list_ex (List.member relevantServices) (rc_Services rotation))"

section \<open>The plan of a machine\<close>

text \<open>The self-signed certificate of one component of a control-plane machine.\<close>

definition rm_instruction :: "'z libs_scheme \<Rightarrow> string \<Rightarrow> string \<Rightarrow> string \<Rightarrow> one_time_instruction" where
  "rm_instruction E identifier generation path = idempotentInstruction E identifier generation ''rm'' [''-f'', path] []"

definition component_cert_instructions ::
  "'z libs_scheme \<Rightarrow> RotateCertificates \<Rightarrow> json \<Rightarrow> string \<Rightarrow> string \<Rightarrow> string \<Rightarrow> string \<Rightarrow> string \<Rightarrow> one_time_instruction list" where
  "component_cert_instructions E rotation arg service short defaultCert podManifest runtime =
     (let generation = Itoa (rc_Generation rotation); certDir = getArgValue arg CertDirArgument ''='' in
      if rotationContainsService (Some rotation) service \<and> certDir \<noteq> '''' \<and> getArgValue arg TLSCertFileArgument ''='' = '''' then
        [rm_instruction E (''certificate-rotation/rm-'' @ short @ ''-cert'') generation (certDir @ ''/'' @ defaultCert),
         rm_instruction E (''certificate-rotation/rm-'' @ short @ ''-key'') generation
           (certDir @ ''/'' @ ReplaceAll defaultCert ''.crt'' ''.key'')] @
        (if runtime = RuntimeRKE2
         then [rm_instruction E (''certificate-rotation/rm-'' @ short @ ''-spm'') generation
                 (''/var/lib/rancher/rke2/agent/pod-manifests/'' @ podManifest)] else [])
      else [])"

definition rotateCertificatesPlan ::
  "('w, 'z) planner_env_scheme \<Rightarrow> RKEControlPlane \<Rightarrow> plan_secret \<Rightarrow> RotateCertificates \<Rightarrow> planEntry \<Rightarrow> string \<Rightarrow> 'w \<Rightarrow>
   go_error + (node_plan \<times> string)" where
  "rotateCertificatesPlan E controlPlane tokensSecret rotation entry joinServer0 w =
     (let joinServer = (if isOnlyWorker entry then '''' else joinServer0);
          version = sp_KubernetesVersion (cp_Spec controlPlane);
          generation = Itoa (rc_Generation rotation);
          runtime = runtime_of controlPlane in
      sbind (generatePlanWithConfigFiles E controlPlane tokensSecret entry joinServer True w) (\<lambda>(rotatePlan, config, joinedServer).
        if isOnlyWorker entry
        then Inr (add_instructions
               (idempotentRestartInstructions E ''certificate-rotation/restart'' generation (GetRuntimeAgentUnit version)) rotatePlan,
               joinedServer)
        else
          Inr (add_instructions
            ([idempotentInstruction E ''certificate-rotation/rotate'' generation runtime
                ([''certificate'', ''rotate''] @ concat (map (\<lambda>service. [''-s'', service]) (rc_Services rotation))) []] @
             (if isControlPlane entry then
                component_cert_instructions E rotation (cfg_get config KubeControllerManagerArg) ''controller-manager'' ''kcm''
                  DefaultKubeControllerManagerCert ''kube-controller-manager.yaml'' runtime @
                component_cert_instructions E rotation (cfg_get config KubeSchedulerArg) ''scheduler'' ''ks''
                  DefaultKubeSchedulerCert ''kube-scheduler.yaml'' runtime
              else []) @
             (if runtime = RuntimeRKE2
              then map (convertToIdempotentInstruction E ''certificate-rotation/manifest-removal'' generation)
                     (opt_instruction (generateManifestRemovalInstruction runtime (Some entry)))
              else []) @
             idempotentRestartInstructions E ''certificate-rotation/restart'' generation (GetRuntimeServerUnit version)) rotatePlan,
            joinedServer)))"

section \<open>The rotation\<close>

fun rotate_loop ::
  "('w, 'z) planner_env_scheme \<Rightarrow> RKEControlPlane \<Rightarrow> plan_secret \<Rightarrow> RotateCertificates \<Rightarrow> string \<Rightarrow> planEntry list \<Rightarrow>
   ('w pstate, unit) go" where
  "rotate_loop E controlPlane tokensSecret rotation joinServer [] s = (Inr (), s)"
| "rotate_loop E controlPlane tokensSecret rotation joinServer (node # nodes) s =
     (if \<not> shouldRotateEntry rotation node then rotate_loop E controlPlane tokensSecret rotation joinServer nodes s
      else
        (case rotateCertificatesPlan E controlPlane tokensSecret rotation node joinServer (world s) of
           Inl e \<Rightarrow> (Inl e, s)
         | Inr (rotatePlan, joinedServer) \<Rightarrow>
             (case entryE (\<lambda>e. assignAndCheckPlan E (''['' @ entry_name node @ ''] certificate rotation'') e rotatePlan joinedServer 0 0) node s of
                (Inr _, s') \<Rightarrow> rotate_loop E controlPlane tokensSecret rotation joinServer nodes s'
              | (Inl e, s') \<Rightarrow>
                  if is_panic e then (Inl e, s')
                  else
                    (case worldE (pauseCAPICluster E (Some controlPlane) True) s' of
                       (Inl pauseErr, s'') \<Rightarrow> (Inl pauseErr, s'')
                     | (Inr _, s'') \<Rightarrow> (Inl e, s'')))))"

definition rotateCertificates ::
  "('w, 'z) planner_env_scheme \<Rightarrow> RKEControlPlane \<Rightarrow> RKEControlPlaneStatus \<Rightarrow> plan_secret \<Rightarrow> 'w statusE" where
  "rotateCertificates E controlPlane status tokensSecret =
     (if \<not> shouldRotate controlPlane then retS (status, None)
      else
        (case sp_RotateCertificates (cp_Spec controlPlane) of
           None \<Rightarrow> retS (status, None)
         | Some rotation \<Rightarrow>
             tryS (findE E controlPlane) status (\<lambda>(found, joinServer).
               if \<not> found \<or> joinServer = '''' then retS (status, None)
               else
                 tryS (\<lambda>s. rotate_loop E controlPlane tokensSecret rotation joinServer (collect (cplan s) anyRole) s) status (\<lambda>_ s.
                   case worldE (pauseCAPICluster E (Some controlPlane) False) s of
                     (Inl _, s') \<Rightarrow> ((status, Some (ErrWaiting ''unpausing CAPI cluster'')), s')
                   | (Inr _, s') \<Rightarrow>
                       ((status\<lparr>st_CertificateRotationGeneration := rc_Generation rotation\<rparr>,
                         Some (ErrWaiting ''certificate rotation done'')), s')))))"

end
