(* ===== verification/Key_Rotation.thy ===== *)
theory Key_Rotation
  imports Cert_Rotation
begin

text \<open>
  Rotating encryption keys (\<open>planner/encryptionkeyrotation.go\<close>): the leader, a control-plane
  machine, runs the three \<open>secrets-encrypt\<close> commands; after each one all servers are restarted
  and have to report the stage the leader reports.
\<close>

section \<open>Scripts and constants\<close>

definition encryptionKeyRotationWaitForSystemctlStatus :: string where
  "encryptionKeyRotationWaitForSystemctlStatus = Lines
     ['''', ''#!/bin/sh'', '''', ''runtimeServer=$1'', ''i=0'', '''', ''while [ $i -lt 30 ]; do'',
      tab @ ''systemctl is-active $runtimeServer'', tab @ ''if [ $? -eq 0 ]; then'', tab @ tab @ ''exit 0'', tab @ ''fi'',
      tab @ ''sleep 10'', tab @ ''i=$((i + 1))'', ''done'', ''exit 1'']"

definition encryptionKeyRotationWaitForSecretsEncryptStatusScript :: string where
  "encryptionKeyRotationWaitForSecretsEncryptStatusScript = Lines
     ['''', ''#!/bin/sh'', '''', ''runtime=$1'', ''i=0'', '''', ''while [ $i -lt 10 ]; do'',
      tab @ ''$runtime secrets-encrypt status'', tab @ ''if [ $? -eq 0 ]; then'', tab @ tab @ tab @ ''exit 0'',
      tab @ ''fi'', tab @ ''sleep 10'', tab @ ''i=$((i + 1))'', ''done'', ''exit 1'']"

definition encryptionKeyRotationSecretsEncryptStatusScript :: string where
  "encryptionKeyRotationSecretsEncryptStatusScript = Lines
     ['''', ''#!/bin/sh'', '''', ''runtime=$1'', ''i=0'', '''', ''while [ $i -lt 10 ]; do'',
      tab @ ''output=\"$($runtime secrets-encrypt status)\"'', tab @ ''if [ $? -eq 0 ]; then'',
      tab @ tab @ ''if [ -n \"$2\" ]; then'', tab @ tab @ tab @ ''echo $output | grep -q \"$2\"'',
      tab @ tab @ tab @ tab @ ''if [ $? -eq 0 ]; then'', tab @ tab @ tab @ tab @ tab @ ''exit 0'',
      tab @ tab @ tab @ tab @ ''fi'', tab @ tab @ ''else'', tab @ tab @ tab @ ''exit 0'', tab @ tab @ ''fi'',
      tab @ ''fi'', tab @ ''sleep 10'', tab @ ''i=$((i + 1))'', ''done'', ''exit 1'']"

definition encryptionKeyRotationStageReencryptRequest :: string where
  "encryptionKeyRotationStageReencryptRequest = ''reencrypt_request''"

definition encryptionKeyRotationStageReencryptActive :: string where
  "encryptionKeyRotationStageReencryptActive = ''reencrypt_active''"

definition encryptionKeyRotationStageReencryptFinished :: string where
  "encryptionKeyRotationStageReencryptFinished = ''reencrypt_finished''"

definition encryptionKeyRotationCommandPrepare :: string where
  "encryptionKeyRotationCommandPrepare = ''prepare''"

definition encryptionKeyRotationCommandRotate :: string where
  "encryptionKeyRotationCommandRotate = ''rotate''"

definition encryptionKeyRotationCommandReencrypt :: string where
  "encryptionKeyRotationCommandReencrypt = ''reencrypt''"

definition encryptionKeyRotationSecretsEncryptStatusCommand :: string where
  "encryptionKeyRotationSecretsEncryptStatusCommand = ''secrets-encrypt-status''"

definition encryptionKeyRotationInstallRoot :: string where
  "encryptionKeyRotationInstallRoot = ''/var/lib/rancher''"

definition encryptionKeyRotationBinPrefix :: string where
  "encryptionKeyRotationBinPrefix = ''capr/encryption-key-rotation/bin''"

definition encryptionKeyRotationWaitForSystemctlStatusPath :: string where
  "encryptionKeyRotationWaitForSystemctlStatusPath = ''wait_for_systemctl_status.sh''"

definition encryptionKeyRotationWaitForSecretsEncryptStatusPath :: string where
  "encryptionKeyRotationWaitForSecretsEncryptStatusPath = ''wait_for_secrets_encrypt_status.sh''"

definition encryptionKeyRotationSecretsEncryptStatusPath :: string where
  "encryptionKeyRotationSecretsEncryptStatusPath = ''secrets_encrypt_status.sh''"

definition encryptionKeyRotationEndpointEnv :: string where
  "encryptionKeyRotationEndpointEnv = ''CONTAINER_RUNTIME_ENDPOINT=unix:///var/run/k3s/containerd/containerd.sock''"

definition encryptionKeyRotationScriptPath :: "RKEControlPlane \<Rightarrow> string \<Rightarrow> string" where
  "encryptionKeyRotationScriptPath cp fileName =
     encryptionKeyRotationInstallRoot @ ''/'' @ runtime_of cp @ ''/'' @ encryptionKeyRotationBinPrefix @ ''/'' @ fileName"

section \<open>The recorded state\<close>

definition setEncryptionKeyRotateState ::
  "RKEControlPlaneStatus \<Rightarrow> RotateEncryptionKeys option \<Rightarrow> RotateEncryptionKeysPhase \<Rightarrow> RKEControlPlaneStatus \<times> err" where
  "setEncryptionKeyRotateState status rotation phase =
     (if st_RotateEncryptionKeys status = rotation \<and> st_RotateEncryptionKeysPhase status = phase then (status, None)
      else (status\<lparr>st_RotateEncryptionKeys := rotation, st_RotateEncryptionKeysPhase := phase\<rparr>,
            Some (ErrWaiting ''refreshing encryption key rotation state'')))"

definition resetEncryptionKeyRotateState :: "RKEControlPlaneStatus \<Rightarrow> RKEControlPlaneStatus \<times> err" where
  "resetEncryptionKeyRotateState status =
     (if st_RotateEncryptionKeys status = None \<and> st_RotateEncryptionKeysPhase status = KeysNone then (status, None)
      else setEncryptionKeyRotateState status None KeysNone)"

definition encryptionKeyRotationFailed :: "RKEControlPlaneStatus \<Rightarrow> go_error \<Rightarrow> RKEControlPlaneStatus \<times> err" where
  "encryptionKeyRotationFailed status e =
     (status\<lparr>st_RotateEncryptionKeysPhase := KeysFailed\<rparr>,
      Some (ErrWrap ''encryption key rotation failed, please perform an etcd restore'' e))"

section \<open>Whether to rotate\<close>

definition encryptionKeyRotationSupported :: "('w, 'z) planner_env_scheme \<Rightarrow> release option \<Rightarrow> go_error + bool" where
  "encryptionKeyRotationSupported E releaseData =
     (case releaseData of
        None \<Rightarrow> Inl (ErrOther ''unable to find KDM release data for encryption key rotation support in release'')
      | Some rel \<Rightarrow>
          (case rel_FeatureVersions rel ''encryption-key-rotation'' of
             None \<Rightarrow> Inr False
           | Some featureVersion \<Rightarrow>
               (case q_SemverMajor E featureVersion of
                  Inl _ \<Rightarrow> Inl (ErrOther (''unable to parse semver version for encryption key rotation: '' @ featureVersion))
                | Inr major \<Rightarrow> Inr (major = 2))))"

definition rotateEncryptionKeyInProgress :: "RKEControlPlane \<Rightarrow> bool" where
  "rotateEncryptionKeyInProgress cp \<longleftrightarrow>
     st_RotateEncryptionKeysPhase (cp_Status cp) \<in>
       {KeysPrepare, KeysPostPrepareRestart, KeysRotate, KeysPostRotateRestart, KeysReencrypt, KeysPostReencryptRestart}"

definition hasValidNonFailedRotateEncryptionKeyStatus :: "RKEControlPlane \<Rightarrow> bool" where
  "hasValidNonFailedRotateEncryptionKeyStatus cp \<longleftrightarrow>
     rotateEncryptionKeyInProgress cp \<or> st_RotateEncryptionKeysPhase (cp_Status cp) = KeysDone"

definition cp_ready :: "'z libs_scheme \<Rightarrow> RKEControlPlane \<Rightarrow> bool" where
  "cp_ready E cp = c_IsTrue (lib_Cond E) ''Ready'' (st_Conditions (cp_Status cp))"

definition canRotateEncryptionKeys :: "'z libs_scheme \<Rightarrow> RKEControlPlane \<Rightarrow> bool" where
  "canRotateEncryptionKeys E cp =
     (case sp_RotateEncryptionKeys (cp_Spec cp) of
        None \<Rightarrow> False
      | Some r \<Rightarrow>
          \<not> (\<not> cp_ready E cp \<and> \<not> rotateEncryptionKeyInProgress cp) \<and>
          \<not> ((case st_RotateEncryptionKeys (cp_Status cp) of None \<Rightarrow> False | Some r' \<Rightarrow> rk_Generation r' = rk_Generation r) \<and>
             st_RotateEncryptionKeysPhase (cp_Status cp) \<in> {KeysDone, KeysFailed}))"

text \<open>
  The recorded rotation is dereferenced in the second test whenever the phase is done, failed
  or empty, also when there is none.
\<close>

definition shouldRestartEncryptionKeyRotation :: "'z libs_scheme \<Rightarrow> RKEControlPlane \<Rightarrow> RotateEncryptionKeys \<Rightarrow> go_error + bool" where
  "shouldRestartEncryptionKeyRotation E cp r =
     (if \<not> cp_ready E cp then Inr False
      else if rk_Generation r > 0 \<and> st_RotateEncryptionKeys (cp_Status cp) = None then Inr True
      else
        sbind (if st_RotateEncryptionKeysPhase (cp_Status cp) \<in> {KeysDone, KeysFailed, KeysNone} then
                 (case st_RotateEncryptionKeys (cp_Status cp) of
                    None \<Rightarrow> Inl (GoPanic ''nil RotateEncryptionKeys'')
                  | Some r' \<Rightarrow> Inr (rk_Generation r \<noteq> rk_Generation r'))
               else Inr False)
          (\<lambda>stale. Inr (stale \<or> \<not> hasValidNonFailedRotateEncryptionKeyStatus cp)))"

section \<open>The leader\<close>

definition encryptionKeyRotationIsSuitableControlPlane :: "'z libs_scheme \<Rightarrow> roleFilter" where
  "encryptionKeyRotationIsSuitableControlPlane E entry \<longleftrightarrow>
     isControlPlane entry \<and> isNotDeleting entry \<and> m_NodeRef (pe_Machine entry) \<noteq> None \<and>
     c_IsTrue (lib_Cond E) ''Ready'' (m_Conditions (pe_Machine entry))"

definition encryptionKeyRotationIsControlPlaneAndNotLeaderAndInit :: "RKEControlPlane \<Rightarrow> roleFilter" where
  "encryptionKeyRotationIsControlPlaneAndNotLeaderAndInit cp entry \<longleftrightarrow>
     isControlPlaneAndNotInitNode entry \<and> st_RotateEncryptionKeysLeader (cp_Status cp) \<noteq> entry_name entry"

definition encryptionKeyRotationIsEtcdAndNotControlPlaneAndNotLeaderAndInit :: "RKEControlPlane \<Rightarrow> roleFilter" where
  "encryptionKeyRotationIsEtcdAndNotControlPlaneAndNotLeaderAndInit cp entry \<longleftrightarrow>
     isEtcd entry \<and> \<not> isControlPlane entry \<and> st_RotateEncryptionKeysLeader (cp_Status cp) \<noteq> entry_name entry \<and>
     \<not> isInitNode entry"

definition encryptionKeyRotationFindLeader ::
  "'z libs_scheme \<Rightarrow> RKEControlPlaneStatus \<Rightarrow> plan \<Rightarrow> planEntry \<Rightarrow> go_error + planEntry" where
  "encryptionKeyRotationFindLeader E status p init =
     (let machineName = st_RotateEncryptionKeysLeader status;
          current = (case map_of (p_Machines p) machineName of
             Some m \<Rightarrow>
               let entry = plan_entry p (machineName, m) in
               if encryptionKeyRotationIsSuitableControlPlane E entry then Some entry else None
           | None \<Rightarrow> None) in
      case current of
        Some entry \<Rightarrow> Inr entry
      | None \<Rightarrow>
          if st_RotateEncryptionKeysPhase status \<noteq> KeysPrepare
          then Inl (ErrOther (''cannot elect control plane leader in phase '' @ keys_phase_string (st_RotateEncryptionKeysPhase status)))
          else if \<not> isControlPlane init then
            (case collect p (encryptionKeyRotationIsSuitableControlPlane E) of
               [] \<Rightarrow> Inl (ErrOther ''no suitable control plane nodes for encryption key rotation'')
             | m # _ \<Rightarrow> Inr m)
          else Inr init)"

section \<open>Instructions\<close>

definition encryptionKeyRotationStatusEnv :: "RKEControlPlane \<Rightarrow> string" where
  "encryptionKeyRotationStatusEnv cp =
     ''ENCRYPTION_KEY_ROTATION_STAGE='' @ keys_phase_string (st_RotateEncryptionKeysPhase (cp_Status cp))"

definition encryptionKeyRotationGenerationEnv :: "RotateEncryptionKeys \<Rightarrow> string" where
  "encryptionKeyRotationGenerationEnv r = ''ENCRYPTION_KEY_ROTATION_GENERATION='' @ Itoa (rk_Generation r)"

definition encryptionKeyRotationSecretsEncryptStatusScriptOneTimeInstruction ::
  "RKEControlPlane \<Rightarrow> RotateEncryptionKeys \<Rightarrow> string \<Rightarrow> one_time_instruction" where
  "encryptionKeyRotationSecretsEncryptStatusScriptOneTimeInstruction cp r expected =
     empty_instruction\<lparr>i_Name := ''secrets-encrypt-status-script'', i_Command := ''sh'',
       i_Args := [''-x'', encryptionKeyRotationScriptPath cp encryptionKeyRotationSecretsEncryptStatusPath,
         GetRuntimeCommand (sp_KubernetesVersion (cp_Spec cp))] @ (if expected \<noteq> '''' then [expected] else []),
       i_Env := [encryptionKeyRotationStatusEnv cp, encryptionKeyRotationGenerationEnv r]\<rparr>"

definition encryptionKeyRotationSecretsEncryptStatusOneTimeInstruction ::
  "RKEControlPlane \<Rightarrow> RotateEncryptionKeys \<Rightarrow> one_time_instruction" where
  "encryptionKeyRotationSecretsEncryptStatusOneTimeInstruction cp r =
     empty_instruction\<lparr>i_Name := encryptionKeyRotationSecretsEncryptStatusCommand,
       i_Command := GetRuntimeCommand (sp_KubernetesVersion (cp_Spec cp)), i_Args := [''secrets-encrypt'', ''status''],
       i_Env := [encryptionKeyRotationStatusEnv cp, encryptionKeyRotationGenerationEnv r], i_SaveOutput := True\<rparr>"

definition encryptionKeyRotationSecretsEncryptStatusPeriodicInstruction :: "RKEControlPlane \<Rightarrow> periodic_instruction" where
  "encryptionKeyRotationSecretsEncryptStatusPeriodicInstruction cp =
     empty_periodic\<lparr>pi_Name := encryptionKeyRotationSecretsEncryptStatusCommand,
       pi_Command := GetRuntimeCommand (sp_KubernetesVersion (cp_Spec cp)), pi_Args := [''secrets-encrypt'', ''status''],
       pi_PeriodSeconds := 5\<rparr>"

definition wait_env :: "RKEControlPlane \<Rightarrow> RotateEncryptionKeys \<Rightarrow> string list" where
  "wait_env cp r = [encryptionKeyRotationEndpointEnv, encryptionKeyRotationStatusEnv cp, encryptionKeyRotationGenerationEnv r]"

definition encryptionKeyRotationWaitForSystemctlStatusInstruction ::
  "RKEControlPlane \<Rightarrow> RotateEncryptionKeys \<Rightarrow> one_time_instruction" where
  "encryptionKeyRotationWaitForSystemctlStatusInstruction cp r =
     empty_instruction\<lparr>i_Name := ''wait-for-systemctl-status'', i_Command := ''sh'',
       i_Args := [''-x'', encryptionKeyRotationScriptPath cp encryptionKeyRotationWaitForSystemctlStatusPath,
         GetRuntimeServerUnit (sp_KubernetesVersion (cp_Spec cp))],
       i_Env := wait_env cp r\<rparr>"

definition encryptionKeyRotationWaitForSecretsEncryptStatus ::
  "RKEControlPlane \<Rightarrow> RotateEncryptionKeys \<Rightarrow> one_time_instruction" where
  "encryptionKeyRotationWaitForSecretsEncryptStatus cp r =
     empty_instruction\<lparr>i_Name := ''wait-for-secrets-encrypt-status'', i_Command := ''sh'',
       i_Args := [''-x'', encryptionKeyRotationScriptPath cp encryptionKeyRotationWaitForSecretsEncryptStatusPath,
         GetRuntimeCommand (sp_KubernetesVersion (cp_Spec cp))],
       i_Env := wait_env cp r, i_SaveOutput := True\<rparr>"

definition phase_command :: "RotateEncryptionKeysPhase \<Rightarrow> string option" where
  "phase_command phase =
     (case phase of
        KeysPrepare \<Rightarrow> Some encryptionKeyRotationCommandPrepare
      | KeysRotate \<Rightarrow> Some encryptionKeyRotationCommandRotate
      | KeysReencrypt \<Rightarrow> Some encryptionKeyRotationCommandReencrypt
      | _ \<Rightarrow> None)"

definition encryptionKeyRotationSecretsEncryptInstruction ::
  "'z libs_scheme \<Rightarrow> RKEControlPlane option \<Rightarrow> RotateEncryptionKeys \<Rightarrow> go_error + one_time_instruction" where
  "encryptionKeyRotationSecretsEncryptInstruction E cpo r =
     (case cpo of
        None \<Rightarrow> Inl (ErrOther ''controlplane cannot be nil'')
      | Some cp \<Rightarrow>
          let phase = st_RotateEncryptionKeysPhase (cp_Status cp) in
          (case phase_command phase of
             None \<Rightarrow> Inl (ErrOther (''cannot determine desired secrets-encrypt command for phase: ['' @ keys_phase_string phase @ '']''))
           | Some command \<Rightarrow>
               Inr (idempotentInstruction E (ToLower (''encryption-key-rotation/'' @ keys_phase_string phase)) (Itoa (rk_Generation r))
                      (GetRuntimeCommand (sp_KubernetesVersion (cp_Spec cp))) [''secrets-encrypt'', command] [])))"

section \<open>Stages\<close>

definition encryptionKeyRotationIsCurrentStageAllowed :: "string \<Rightarrow> RotateEncryptionKeysPhase \<Rightarrow> err" where
  "encryptionKeyRotationIsCurrentStageAllowed leaderStage currentPhase =
     (let allowed = (case currentPhase of
         KeysPrepare \<Rightarrow> [encryptionKeyRotationCommandPrepare]
       | KeysRotate \<Rightarrow> [encryptionKeyRotationCommandRotate]
       | KeysReencrypt \<Rightarrow> [encryptionKeyRotationStageReencryptRequest, encryptionKeyRotationStageReencryptActive,
                           encryptionKeyRotationStageReencryptFinished]
       | _ \<Rightarrow> []) in
      if List.member allowed leaderStage then None
      else Some (ErrOther (''unexpected encryption key rotation stage ['' @ leaderStage @ ''] for phase ['' @
             keys_phase_string currentPhase @ '']'')))"

text \<open>The first line that starts with the label; a label without a value is an index out of range.\<close>

fun stage_in_lines :: "string list \<Rightarrow> go_error + string" where
  "stage_in_lines [] = Inl (ErrWaiting ''unable to parse rotation stage from output'')"
| "stage_in_lines (v # vs) =
     (case Split v '': '' of
        [] \<Rightarrow> stage_in_lines vs
      | a # rest \<Rightarrow>
          if a \<noteq> ''Current Rotation Stage'' then stage_in_lines vs
          else (case rest of [] \<Rightarrow> Inl (GoPanic ''index out of range'') | status # _ \<Rightarrow> Inr status))"

definition encryptionKeyRotationStageFromOutput :: "planEntry \<Rightarrow> string \<Rightarrow> go_error + string" where
  "encryptionKeyRotationStageFromOutput entry output =
     (let a = Split output newline in
      if length a < 2
      then Inl (ErrWaiting (''could not extract current stage from plan for ['' @ entry_name entry @ '']: status output is incomplete''))
      else stage_in_lines a)"

definition encryptionKeyRotationSecretsEncryptStageFromPeriodic :: "planEntry \<Rightarrow> go_error + string" where
  "encryptionKeyRotationSecretsEncryptStageFromPeriodic entry =
     (case pe_Plan entry of
        None \<Rightarrow> Inl (GoPanic ''nil plan'')
      | Some pl \<Rightarrow>
          (case n_PeriodicOutput pl encryptionKeyRotationSecretsEncryptStatusCommand of
             None \<Rightarrow>
               if list_ex (\<lambda>pi. pi_Name pi = encryptionKeyRotationSecretsEncryptStatusCommand) (np_PeriodicInstructions (n_Plan pl))
               then Inl (ErrWaiting (''could not extract current status from plan for ['' @ entry_name entry @ '']: no output for status''))
               else Inl (ErrOther (''could not extract current status from plan for ['' @ entry_name entry @ '']: status command not present in plan''))
           | Some output \<Rightarrow> encryptionKeyRotationStageFromOutput entry (po_Stdout output)))"

definition encryptionKeyRotationSecretsEncryptStageFromOneTimeStatus :: "planEntry \<Rightarrow> go_error + string" where
  "encryptionKeyRotationSecretsEncryptStageFromOneTimeStatus entry =
     (case pe_Plan entry of
        None \<Rightarrow> Inl (GoPanic ''nil plan'')
      | Some pl \<Rightarrow>
          (case n_Output pl encryptionKeyRotationSecretsEncryptStatusCommand of
             None \<Rightarrow> Inl (ErrWaiting (''could not extract current status from plan for ['' @ entry_name entry @ '']: no output for status''))
           | Some output \<Rightarrow> encryptionKeyRotationStageFromOutput entry output))"

section \<open>The leader's command\<close>

definition script_file :: "RKEControlPlane \<Rightarrow> string \<Rightarrow> string \<Rightarrow> plan_file" where
  "script_file cp script path = plain_file (b64_encode script) (encryptionKeyRotationScriptPath cp path)"

definition rotation_message :: "RKEControlPlane \<Rightarrow> planEntry \<Rightarrow> string" where
  "rotation_message cp entry =
     ''encryption key rotation ['' @ keys_phase_string (st_RotateEncryptionKeysPhase (cp_Status cp)) @ ''] for machine ['' @
     entry_name entry @ '']''"

definition encryptionKeyRotationLeaderPhaseReconcile ::
  "('w, 'z) planner_env_scheme \<Rightarrow> RKEControlPlane \<Rightarrow> RotateEncryptionKeys \<Rightarrow> RKEControlPlaneStatus \<Rightarrow> plan_secret \<Rightarrow> string \<Rightarrow>
   planEntry \<Rightarrow> 'w statusE" where
  "encryptionKeyRotationLeaderPhaseReconcile E cp r status tokensSecret joinServer leader s =
     tryS (liftE (generatePlanWithConfigFiles E cp tokensSecret leader joinServer True (world s))) status
       (\<lambda>(np0, _, joinedServer).
        case encryptionKeyRotationSecretsEncryptInstruction E (Some cp) r of
          Inl e \<Rightarrow> retS (encryptionKeyRotationFailed status e)
        | Inr apply' \<Rightarrow>
            let np = (add_files
                  [script_file cp encryptionKeyRotationWaitForSecretsEncryptStatusScript encryptionKeyRotationWaitForSecretsEncryptStatusPath,
                   script_file cp encryptionKeyRotationSecretsEncryptStatusScript encryptionKeyRotationSecretsEncryptStatusPath] np0)
                 \<lparr>np_Instructions := [apply', encryptionKeyRotationSecretsEncryptStatusScriptOneTimeInstruction cp r '''',
                    encryptionKeyRotationSecretsEncryptStatusOneTimeInstruction cp r],
                  np_PeriodicInstructions := [encryptionKeyRotationSecretsEncryptStatusPeriodicInstruction cp]\<rparr> in
            (\<lambda>s1. case entryE (\<lambda>e. assignAndCheckPlan E (rotation_message cp leader) e np joinedServer 1 1) leader s1 of
               (Inl e, s2) \<Rightarrow>
                 if IsErrWaiting e \<or> is_panic e then ((status, Some e), s2) else (encryptionKeyRotationFailed status e, s2)
             | (Inr leader', s2) \<Rightarrow>
                 tryS (liftE (encryptionKeyRotationSecretsEncryptStageFromOneTimeStatus leader')) status (\<lambda>scraped.
                 tryS (liftE (encryptionKeyRotationSecretsEncryptStageFromPeriodic leader')) status (\<lambda>periodic.
                   case encryptionKeyRotationIsCurrentStageAllowed scraped (st_RotateEncryptionKeysPhase (cp_Status cp)) of
                     Some e \<Rightarrow> retS (encryptionKeyRotationFailed status e)
                   | None \<Rightarrow>
                       if (scraped = encryptionKeyRotationStageReencryptRequest \<or> scraped = encryptionKeyRotationStageReencryptActive) \<and>
                          periodic \<noteq> encryptionKeyRotationStageReencryptFinished
                       then retS (status, Some (ErrWaiting ''waiting for encryption key rotation stage to be finished''))
                       else retS (status, None))) s2)) s"

section \<open>Restarting the servers\<close>

definition restart_plan ::
  "('w, 'z) planner_env_scheme \<Rightarrow> RKEControlPlane \<Rightarrow> RotateEncryptionKeys \<Rightarrow> plan_secret \<Rightarrow> string \<Rightarrow> planEntry \<Rightarrow> string \<Rightarrow> 'w \<Rightarrow>
   go_error + (node_plan \<times> string)" where
  "restart_plan E cp r tokensSecret joinServer entry leaderStage w =
     sbind (generatePlanWithConfigFiles E cp tokensSecret entry joinServer True w) (\<lambda>(np0, config, joinedServer).
     let phase = keys_phase_string (st_RotateEncryptionKeysPhase (cp_Status cp));
         generation = Itoa (rk_Generation r);
         runtime = runtime_of cp;
         fs = [script_file cp encryptionKeyRotationWaitForSystemctlStatus encryptionKeyRotationWaitForSystemctlStatusPath] @
              (if isControlPlane entry then
                 [script_file cp encryptionKeyRotationSecretsEncryptStatusScript encryptionKeyRotationSecretsEncryptStatusPath,
                  script_file cp encryptionKeyRotationWaitForSecretsEncryptStatusScript encryptionKeyRotationWaitForSecretsEncryptStatusPath]
               else []);
         is = (if runtime = RuntimeRKE2
               then map (convertToIdempotentInstruction E (ToLower (''encryption-key-rotation/manifest-cleanup/'' @ phase)) generation)
                      (opt_instruction (generateManifestRemovalInstruction runtime (Some entry)))
               else []) @
              idempotentRestartInstructions E (ToLower (''encryption-key-rotation/restart/'' @ phase)) generation
                (GetRuntimeServerUnit (sp_KubernetesVersion (cp_Spec cp))) @
              [encryptionKeyRotationWaitForSystemctlStatusInstruction cp r] @
              (if isControlPlane entry then
                 [encryptionKeyRotationWaitForSecretsEncryptStatus cp r,
                  encryptionKeyRotationSecretsEncryptStatusScriptOneTimeInstruction cp r leaderStage,
                  encryptionKeyRotationSecretsEncryptStatusOneTimeInstruction cp r]
               else []) in
     sbind (generateProbes E cp entry config) (\<lambda>probes.
       Inr ((add_files fs np0)\<lparr>np_Instructions := is, np_Probes := probes\<rparr>, joinedServer)))"

text \<open>The stage, the status and the error, as in the source.\<close>

definition encryptionKeyRotationRestartService ::
  "('w, 'z) planner_env_scheme \<Rightarrow> RKEControlPlane \<Rightarrow> RotateEncryptionKeys \<Rightarrow> RKEControlPlaneStatus \<Rightarrow> plan_secret \<Rightarrow> string \<Rightarrow>
   planEntry \<Rightarrow> bool \<Rightarrow> string \<Rightarrow> 'w pstate \<Rightarrow> (string \<times> RKEControlPlaneStatus \<times> err) \<times> 'w pstate" where
  "encryptionKeyRotationRestartService E cp r status tokensSecret joinServer entry scrapeStage leaderStage s =
     (case restart_plan E cp r tokensSecret joinServer entry leaderStage (world s) of
        Inl e \<Rightarrow> (('''', status, Some e), s)
      | Inr (np, joinedServer) \<Rightarrow>
          (case on_entry (\<lambda>e. assignAndCheckPlan E (rotation_message cp entry) e np joinedServer 5 5) entry s of
             (Some e, entry', s') \<Rightarrow>
               if is_panic e then (('''', status, Some e), s')
               else if IsErrWaiting e then
                 (if planAppliedButWaitingForProbes E entry'
                  then (('''', status, Some (ErrWaiting (Error e @ '': '' @
                          (case pe_Plan entry' of None \<Rightarrow> '''' | Some pl \<Rightarrow> probesMessage pl)))), s')
                  else (('''', status, Some e), s'))
               else (case encryptionKeyRotationFailed status e of (status', e') \<Rightarrow> (('''', status', e'), s'))
           | (None, entry', s') \<Rightarrow>
               if \<not> scrapeStage \<or> \<not> isControlPlane entry' then (('''', status, None), s')
               else
                 (case encryptionKeyRotationSecretsEncryptStageFromOneTimeStatus entry' of
                    Inl e \<Rightarrow> (('''', status, Some e), s')
                  | Inr stage \<Rightarrow> ((stage, status, None), s'))))"

definition restart_one ::
  "('w, 'z) planner_env_scheme \<Rightarrow> RKEControlPlane \<Rightarrow> RotateEncryptionKeys \<Rightarrow> plan_secret \<Rightarrow> string \<Rightarrow> planEntry \<Rightarrow>
   RKEControlPlaneStatus \<Rightarrow> 'w statusE" where
  "restart_one E cp r tokensSecret joinServer entry status s =
     (case encryptionKeyRotationRestartService E cp r status tokensSecret joinServer entry False '''' s of
        ((_, status', e), s') \<Rightarrow> ((status', e), s'))"

fun restart_etcd ::
  "('w, 'z) planner_env_scheme \<Rightarrow> RKEControlPlane \<Rightarrow> RotateEncryptionKeys \<Rightarrow> plan_secret \<Rightarrow> string \<Rightarrow> planEntry list \<Rightarrow>
   RKEControlPlaneStatus \<Rightarrow> 'w statusE" where
  "restart_etcd E cp r tokensSecret joinServer [] status = retS (status, None)"
| "restart_etcd E cp r tokensSecret joinServer (entry # es) status =
     thenS (restart_one E cp r tokensSecret joinServer entry status) (restart_etcd E cp r tokensSecret joinServer es)"

definition node_name :: "planEntry \<Rightarrow> go_error + string" where
  "node_name entry = (case m_NodeRef (pe_Machine entry) of None \<Rightarrow> Inl (GoPanic ''nil node reference'') | Some n \<Rightarrow> Inr n)"

definition stage_mismatch :: "planEntry \<Rightarrow> string \<Rightarrow> planEntry \<Rightarrow> string \<Rightarrow> go_error + go_error" where
  "stage_mismatch leader leaderStage entry stage =
     sbind (node_name leader) (\<lambda>l. sbind (node_name entry) (\<lambda>f.
       Inr (ErrOther (''leader ['' @ l @ ''] with '' @ leaderStage @ '' stage and follower ['' @ f @ ''] with '' @ stage @ '' stage''))))"

fun restart_followers ::
  "('w, 'z) planner_env_scheme \<Rightarrow> RKEControlPlane \<Rightarrow> RotateEncryptionKeys \<Rightarrow> plan_secret \<Rightarrow> string \<Rightarrow> planEntry \<Rightarrow> string \<Rightarrow>
   planEntry list \<Rightarrow> RKEControlPlaneStatus \<Rightarrow> 'w statusE" where
  "restart_followers E cp r tokensSecret joinServer leader leaderStage [] status = retS (status, None)"
| "restart_followers E cp r tokensSecret joinServer leader leaderStage (entry # es) status =
     (\<lambda>s. case encryptionKeyRotationRestartService E cp r status tokensSecret joinServer entry True leaderStage s of
        ((_, status', Some e), s') \<Rightarrow> ((status', Some e), s')
      | ((stage, status', None), s') \<Rightarrow>
          if stage \<noteq> leaderStage
          then (case stage_mismatch leader leaderStage entry stage of
                  Inl e \<Rightarrow> ((status', Some e), s')
                | Inr e \<Rightarrow> (encryptionKeyRotationFailed status' e, s'))
          else restart_followers E cp r tokensSecret joinServer leader leaderStage es status' s')"

text \<open>
  Inside the first block the status is a new variable: what it becomes there is used by its
  own loop only, and a restart that succeeds does not change it.
\<close>

definition encryptionKeyRotationRestartNodes ::
  "('w, 'z) planner_env_scheme \<Rightarrow> RKEControlPlane \<Rightarrow> RotateEncryptionKeys \<Rightarrow> RKEControlPlaneStatus \<Rightarrow> plan_secret \<Rightarrow>
   planEntry \<Rightarrow> planEntry \<Rightarrow> string \<Rightarrow> 'w statusE" where
  "encryptionKeyRotationRestartNodes E cp r status tokensSecret leader initNode joinServer =
     thenS (if \<not> isInitNode leader
            then thenS (restart_one E cp r tokensSecret joinServer initNode status) (\<lambda>status' s.
                   restart_etcd E cp r tokensSecret joinServer
                     (collect (cplan s) (encryptionKeyRotationIsEtcdAndNotControlPlaneAndNotLeaderAndInit cp)) status' s)
            else retS (status, None)) (\<lambda>_ s.
       case encryptionKeyRotationRestartService E cp r status tokensSecret joinServer leader True '''' s of
         ((_, status', Some e), s') \<Rightarrow> ((status', Some e), s')
       | ((leaderStage, status', None), s') \<Rightarrow>
           restart_followers E cp r tokensSecret joinServer leader leaderStage
             (collect (cplan s') (encryptionKeyRotationIsControlPlaneAndNotLeaderAndInit cp)) status' s')"

section \<open>The state machine\<close>

definition rotation_phase ::
  "('w, 'z) planner_env_scheme \<Rightarrow> RKEControlPlane \<Rightarrow> RotateEncryptionKeys \<Rightarrow> RKEControlPlaneStatus \<Rightarrow> plan_secret \<Rightarrow>
   planEntry \<Rightarrow> planEntry \<Rightarrow> string \<Rightarrow> 'w statusE" where
  "rotation_phase E cp r status tokensSecret leader initNode joinServer =
     (let run = (\<lambda>s. encryptionKeyRotationLeaderPhaseReconcile E cp r status tokensSecret joinServer leader s);
          restart = encryptionKeyRotationRestartNodes E cp r status tokensSecret leader initNode joinServer;
          next = (\<lambda>phase status. retS (setEncryptionKeyRotateState status (Some r) phase)) in
      case st_RotateEncryptionKeysPhase (cp_Status cp) of
        KeysPrepare \<Rightarrow>
          (\<lambda>s. case worldE (pauseCAPICluster E (Some cp) True) s of
             (Inl _, s') \<Rightarrow> ((status, Some (ErrWaiting ''pausing CAPI cluster'')), s')
           | (Inr _, s') \<Rightarrow> thenS run (next KeysPostPrepareRestart) s')
      | KeysPostPrepareRestart \<Rightarrow> thenS restart (next KeysRotate)
      | KeysRotate \<Rightarrow> thenS run (next KeysPostRotateRestart)
      | KeysPostRotateRestart \<Rightarrow> thenS restart (next KeysReencrypt)
      | KeysReencrypt \<Rightarrow> thenS run (next KeysPostReencryptRestart)
      | KeysPostReencryptRestart \<Rightarrow>
          thenS restart (\<lambda>status' s.
            case worldE (pauseCAPICluster E (Some cp) False) s of
              (Inl _, s') \<Rightarrow> ((status', Some (ErrWaiting ''unpausing CAPI cluster'')), s')
            | (Inr _, s') \<Rightarrow> next KeysDone (status'\<lparr>st_RotateEncryptionKeysLeader := ''''\<rparr>) s')
      | phase \<Rightarrow> retS (status, Some (ErrOther (''encountered unknown encryption key rotation phase: '' @ keys_phase_string phase))))"

definition rotateEncryptionKeys ::
  "('w, 'z) planner_env_scheme \<Rightarrow> RKEControlPlane \<Rightarrow> RKEControlPlaneStatus \<Rightarrow> plan_secret \<Rightarrow> release option \<Rightarrow> 'w statusE" where
  "rotateEncryptionKeys E cp status tokensSecret releaseData s =
     (case releaseData of
        None \<Rightarrow> retS (status, Some (ErrOther ''cannot pass nil parameters to rotateEncryptionKeys'')) s
      | Some rel \<Rightarrow>
      (case sp_RotateEncryptionKeys (cp_Spec cp) of
        None \<Rightarrow> retS (resetEncryptionKeyRotateState status) s
      | Some r \<Rightarrow>
          (case encryptionKeyRotationSupported E (Some rel) of
             Inl e \<Rightarrow> ((status, Some e), s)
           | Inr False \<Rightarrow> retS (setEncryptionKeyRotateState status (Some r) KeysFailed) s
           | Inr True \<Rightarrow>
               if \<not> canRotateEncryptionKeys E cp then ((status, None), s)
               else if \<not> st_Initialized status then ((status, None), s)
               else
                 (case findInitNode E cp s of
                    ((_, _, _, Some e), s') \<Rightarrow> ((status, Some e), s')
                  | ((found, joinServer, initNode, None), s') \<Rightarrow>
                      (case initNode of
                         None \<Rightarrow> ((status, None), s')
                       | Some init \<Rightarrow>
                           if \<not> found \<or> joinServer = '''' then ((status, None), s')
                           else
                             tryS (liftE (shouldRestartEncryptionKeyRotation E cp r)) status (\<lambda>restart.
                               if restart then retS (setEncryptionKeyRotateState status (Some r) KeysPrepare)
                               else
                                 tryS (\<lambda>s1. (encryptionKeyRotationFindLeader E status (cplan s1) init, s1)) status (\<lambda>leader.
                                   if st_RotateEncryptionKeysLeader status \<noteq> entry_name leader
                                   then retS (status\<lparr>st_RotateEncryptionKeysLeader := entry_name leader\<rparr>,
                                          Some (ErrWaiting (''elected '' @ entry_name leader @ '' as control plane leader for encryption key rotation'')))
                                   else rotation_phase E cp r status tokensSecret leader init joinServer)) s')))))"

end
