(* ===== verification/Planner_Process.thy ===== *)
theory Planner_Process
  imports Key_Rotation
begin

text \<open>
  One pass of the planner over a cluster (\<open>Process\<close> of \<open>planner/planner.go\<close>) and the checks it
  makes on the way. The lock on the control plane's UID makes passes over one cluster
  sequential; a pass is a function of the world it finds.
\<close>

section \<open>Checks\<close>

fun lowest_loop :: "('w, 'z) planner_env_scheme \<Rightarrow> machine list \<Rightarrow> semver option \<Rightarrow> semver option" where
  "lowest_loop E [] lowestVersion = lowestVersion"
| "lowest_loop E (machine # ms) lowestVersion =
     (case m_KubeletVersion machine of
        None \<Rightarrow> lowest_loop E ms lowestVersion
      | Some v \<Rightarrow>
          (case q_NewVersion E v of
             Inl _ \<Rightarrow> lowest_loop E ms lowestVersion
           | Inr ver \<Rightarrow>
               lowest_loop E ms (case lowestVersion of
                  None \<Rightarrow> Some ver
                | Some l \<Rightarrow> if LessThan E ver l then Some ver else Some l)))"

definition getLowestMachineKubeletVersion :: "('w, 'z) planner_env_scheme \<Rightarrow> plan \<Rightarrow> semver option" where
  "getLowestMachineKubeletVersion E p = lowest_loop E (map snd (p_Machines p)) None"

definition systemUpgradeControllerPSPsDisabled :: "('w, 'z) planner_env_scheme \<Rightarrow> string \<Rightarrow> go_error + bool" where
  "systemUpgradeControllerPSPsDisabled E data =
     (if data = '''' then Inl (ErrOther ''data for SUC Metadata was blank'')
      else
        sbind (b64_decode data) (\<lambda>rawMetadata.
        sbind (q_UnmarshalSUC E rawMetadata) (\<lambda>pspEnabled.
          Inr (\<not> pspEnabled))))"

definition blockProgressForSUCPSPIf125 ::
  "('w, 'z) planner_env_scheme \<Rightarrow> string \<Rightarrow> RKEControlPlaneStatus \<Rightarrow> semver option \<Rightarrow> semver option \<Rightarrow> err" where
  "blockProgressForSUCPSPIf125 E msgPrefix status currentVersion lowestKubelet =
     (case (currentVersion, lowestKubelet) of
        (Some current, Some lowest) \<Rightarrow>
          if \<not> LessThan E current Kubernetes125 \<and> LessThan E lowest Kubernetes125 then
            let cs = st_Conditions status; A = lib_Cond E; suc = ''SystemUpgradeControllerReady'' in
            if c_GetStatus A suc cs = '''' \<or> c_IsFalse A suc cs \<or> c_IsUnknown A suc cs
            then Some (ErrWaiting (''waiting for system-upgrade-controller helm chart reconciliation'' @
                   (if c_GetReason A suc cs \<noteq> '''' then '': '' @ c_GetReason A suc cs else '''')))
            else
              (case systemUpgradeControllerPSPsDisabled E (c_GetMessage A suc cs) of
                 Inr disabled \<Rightarrow>
                   if \<not> disabled
                   then Some (ErrWaiting ''system-upgrade-controller helm chart has podsecuritypolicy enabled, waiting for helm chart reconciliation'')
                   else None
               | Inl e \<Rightarrow> Some (ErrWaiting (''error occurred while determining whether SUC PSPs were disabled: '' @ Error e)))
          else None
      | _ \<Rightarrow> Some (ErrOther (msgPrefix @ '' currentVersion or lowestKubelet was nil'')))"

definition clusterIsSane :: "plan \<Rightarrow> bool" where
  "clusterIsSane p \<longleftrightarrow>
     \<not> (collect p (roleAnd isEtcd (roleNot isDeleting)) = [] \<or> collect p (roleAnd isControlPlane (roleNot isDeleting)) = [] \<or>
        collect p (roleAnd isWorker (roleNot isDeleting)) = [])"

section \<open>The parts of a pass\<close>

definition cp_id :: "RKEControlPlane \<Rightarrow> string" where
  "cp_id cp = cp_Namespace cp @ ''/'' @ cp_Name cp"

text \<open>The pass over a cluster that lacks a live machine of some role.\<close>

definition process_insane :: "('w, 'z) planner_env_scheme \<Rightarrow> RKEControlPlane \<Rightarrow> RKEControlPlaneStatus \<Rightarrow> 'w statusE" where
  "process_insane E cp status0 s =
     (let status = status0\<lparr>st_Conditions := c_False (lib_Cond E) ''Stable'' (st_Conditions status0)\<rparr> in
      if st_Initialized status \<or> st_Ready status
      then ((status\<lparr>st_Initialized := False, st_Ready := False\<rparr>, Some (ErrWaiting (''uninitializing rkecontrolplane '' @ cp_id cp))), s)
      else
        (case worldE (ensureCAPIClusterControlPlaneInitializedFalse E (Some cp)) s of
           (Inl e, s') \<Rightarrow> ((status, Some (if is_panic e then e else ErrWaiting (''uninitializing CAPI cluster: '' @ Error e))), s')
         | (Inr _, s') \<Rightarrow>
             tryS (forceDeleteAllDeletingEtcdMachines E cp) status (\<lambda>etcdDeleting.
               if etcdDeleting \<noteq> 0 then retS (status, Some (ErrWaiting ''waiting for all etcd machines to be deleted''))
               else retS (status, Some (ErrWaiting ''waiting for at least one control plane, etcd, and worker node to be registered''))) s'))"

definition provisioned :: "'z libs_scheme \<Rightarrow> RKEControlPlaneStatus \<Rightarrow> RKEControlPlaneStatus" where
  "provisioned E status =
     status\<lparr>st_Conditions := c_SetReason (lib_Cond E) ''Provisioned'' ''''
       (c_SetMessage (lib_Cond E) ''Provisioned'' '''' (c_True (lib_Cond E) ''Provisioned'' (st_Conditions status)))\<rparr>"

definition block_for_suc ::
  "('w, 'z) planner_env_scheme \<Rightarrow> RKEControlPlane \<Rightarrow> semver \<Rightarrow> RKEControlPlaneStatus \<Rightarrow> 'w statusE" where
  "block_for_suc E cp currentVersion status s =
     (case getLowestMachineKubeletVersion E (cplan s) of
        None \<Rightarrow> ((status, None), s)
      | Some lowest \<Rightarrow>
          ((status, blockProgressForSUCPSPIf125 E (''[planner] rkecluster '' @ cp_id cp @ '':'') status (Some currentVersion) (Some lowest)), s))"

text \<open>A bootstrapped cluster whose etcd machines have no plans needs a restore, not a new init node.\<close>

definition etcd_replaced :: "'z libs_scheme \<Rightarrow> RKEControlPlaneStatus \<Rightarrow> plan \<Rightarrow> bool" where
  "etcd_replaced E status p \<longleftrightarrow>
     (c_IsTrue (lib_Cond E) ''Bootstrapped'' (st_Conditions status) \<or> collect p (roleOr hasJoinURL hasJoinedTo) \<noteq> []) \<and>
     collect p (roleAnd isEtcd anyPlanDataExists) = []"

definition process_machines ::
  "('w, 'z) planner_env_scheme \<Rightarrow> RKEControlPlane \<Rightarrow> capi_cluster \<Rightarrow> plan_secret \<Rightarrow> RKEControlPlaneStatus \<Rightarrow> 'w statusE" where
  "process_machines E cp capiCluster tokens status s =
     (if q_IsPaused E capiCluster cp
      then ((status, Some (ErrWaiting ''CAPI cluster or RKEControlPlane is paused'')), s)
      else if etcd_replaced E status (cplan s)
      then ((status\<lparr>st_Conditions := c_False (lib_Cond E) ''Stable'' (st_Conditions status)\<rparr>,
             Some (ErrWaiting ''rkecontrolplane was already initialized but no etcd machines exist that have plans, indicating the etcd plane has been entirely replaced. Restoration from etcd snapshot is required.'')), s)
      else fullReconcile E cp status tokens False s)"

definition process_sane ::
  "('w, 'z) planner_env_scheme \<Rightarrow> RKEControlPlane \<Rightarrow> capi_cluster \<Rightarrow> semver \<Rightarrow> release \<Rightarrow> bool \<Rightarrow> RKEControlPlaneStatus \<Rightarrow>
   'w statusE" where
  "process_sane E cp capiCluster currentVersion releaseData anyPlansDelivered status0 =
     tryS (worldE (ensureRKEStateSecret E cp (\<not> anyPlansDelivered))) (provisioned E status0) (\<lambda>(_, tokens).
     thenS (createEtcdSnapshot E cp (provisioned E status0) tokens) (\<lambda>status1.
     thenS (restoreEtcdSnapshot E cp status1 tokens currentVersion) (\<lambda>status2.
     thenS (block_for_suc E cp currentVersion status2) (\<lambda>status3.
     thenS (rotateCertificates E cp status3 tokens) (\<lambda>status4.
     thenS (rotateEncryptionKeys E cp status4 tokens (Some releaseData)) (\<lambda>status5.
       process_machines E cp capiCluster tokens status5))))))"

section \<open>The pass\<close>

definition process_cluster ::
  "('w, 'z) planner_env_scheme \<Rightarrow> RKEControlPlane \<Rightarrow> RKEControlPlaneStatus \<Rightarrow> semver \<Rightarrow> release \<Rightarrow> capi_cluster \<Rightarrow> 'w \<Rightarrow>
   (RKEControlPlaneStatus \<times> err) \<times> 'w" where
  "process_cluster E cp status currentVersion releaseData capiCluster w =
     (if cc_DeletionTimestamp capiCluster \<noteq> None then
        (if q_IsPaused E capiCluster cp
         then (case pauseCAPICluster E (Some cp) False w of
                 (Inl e, w') \<Rightarrow> ((status, if is_panic e then Some e else None), w')
               | (Inr _, w') \<Rightarrow> ((status, None), w'))
         else ((status, None), w))
      else if \<not> cc_InfrastructureReady capiCluster
      then ((status, Some (ErrWaiting ''waiting for infrastructure ready'')), w)
      else
        (case Load E capiCluster cp w of
           (Inl e, _, w') \<Rightarrow> ((status, Some e), w')
         | (Inr p, anyPlansDelivered, w') \<Rightarrow>
             (case (if clusterIsSane p
                    then process_sane E cp capiCluster currentVersion releaseData anyPlansDelivered status
                    else process_insane E cp status) \<lparr>world = w', cplan = p\<rparr> of
                (r, s') \<Rightarrow> (r, world s'))))"

definition Process ::
  "('w, 'z) planner_env_scheme \<Rightarrow> RKEControlPlane \<Rightarrow> RKEControlPlaneStatus \<Rightarrow> 'w \<Rightarrow> (RKEControlPlaneStatus \<times> err) \<times> 'w" where
  "Process E cp status w =
     (case q_NewVersion E (sp_KubernetesVersion (cp_Spec cp)) of
        Inl e \<Rightarrow> ((status, Some (ErrOther (''rkecluster '' @ cp_id cp @ '': error semver parsing kubernetes version '' @
                   sp_KubernetesVersion (cp_Spec cp) @ '': '' @ Error e))), w)
      | Inr currentVersion \<Rightarrow>
          (case q_ReleaseData E cp of
             None \<Rightarrow> ((status, Some (ErrWaiting (cp_id cp @ '': releaseData nil for version '' @ sp_KubernetesVersion (cp_Spec cp)))), w)
           | Some releaseData \<Rightarrow>
               (case owner_cluster E cp w of
                  Inl e \<Rightarrow>
                    ((status, Some (if is_NotFound e then ErrWaiting ''CAPI cluster does not exist'' else e)), w)
                | Inr None \<Rightarrow> ((status, Some (ErrWaiting ''CAPI cluster does not exist'')), w)
                | Inr (Some capiCluster) \<Rightarrow> process_cluster E cp status currentVersion releaseData capiCluster w)))"

end
