(* ===== verification/Phases_Correct.thy ===== *)
theory Phases_Correct
  imports Planner_Process
begin

text \<open>
  The planner's long-running operations as state machines: the order of their phases, that
  they come to an end, what holds while they run, and what their transitions require.
\<close>

section \<open>State machines whose phases only go forward\<close>

locale phase_machine =
  fixes step :: "'p \<Rightarrow> 'p \<Rightarrow> bool" and rank :: "'p \<Rightarrow> nat"
  assumes step_rank: "step p q \<Longrightarrow> rank q < rank p"
begin

lemma steps_rank: "step\<^sup>*\<^sup>* p q \<Longrightarrow> rank q \<le> rank p"
  by (induction rule: rtranclp_induct) (auto dest: step_rank)

lemma chain_rank: "(step ^^ n) p q \<Longrightarrow> n + rank q \<le> rank p"
  by (induction n arbitrary: q) (auto dest!: step_rank, fastforce)

lemma no_return: "step p q \<Longrightarrow> step\<^sup>*\<^sup>* q r \<Longrightarrow> r \<noteq> p"
  using step_rank steps_rank by (metis leD)

lemma comes_to_an_end: "\<exists>q. step\<^sup>*\<^sup>* p q \<and> (\<nexists>r. step q r)"
proof (induction "rank p" arbitrary: p rule: less_induct)
  case less
  show ?case
  proof (cases "\<exists>r. step p r")
    case True
    then obtain r where "step p r" by blast
    with less [OF step_rank [OF this]] show ?thesis by (meson converse_rtranclp_into_rtranclp)
  qed blast
qed

end

text \<open>Passes over a status that holds the phase, with anything happening in between.\<close>

locale phase_passes = phase_machine step rank for step :: "'p \<Rightarrow> 'p \<Rightarrow> bool" and rank +
  fixes pass :: "'st \<Rightarrow> 'st \<Rightarrow> bool" and phase :: "'st \<Rightarrow> 'p"
  assumes pass_step: "pass a b \<Longrightarrow> phase b = phase a \<or> step (phase a) (phase b)"
begin

lemma passes_steps: "pass\<^sup>*\<^sup>* a b \<Longrightarrow> step\<^sup>*\<^sup>* (phase a) (phase b)"
  by (induction rule: rtranclp_induct) (auto dest: pass_step intro: rtranclp.rtrancl_into_rtrancl)

text \<open>A sequence of statuses, each one pass after the other, changes the phase a bounded number of times.\<close>

lemma changes_bounded:
  assumes "\<And>i. i < n \<Longrightarrow> pass (f i) (f (Suc i))"
  shows "card {i. i < n \<and> phase (f (Suc i)) \<noteq> phase (f i)} + rank (phase (f n)) \<le> rank (phase (f 0))"
  using assms
proof (induction n)
  case (Suc n)
  let ?C = "\<lambda>n. {i. i < n \<and> phase (f (Suc i)) \<noteq> phase (f i)}"
  have eq: "?C (Suc n) = (if phase (f (Suc n)) \<noteq> phase (f n) then insert n (?C n) else ?C n)"
    by (auto simp: less_Suc_eq)
  have "finite (?C n)" by simp
  then show ?case
    using Suc pass_step [OF Suc.prems [of n]] unfolding eq by (auto dest!: step_rank)
qed simp

end

text \<open>A machine that goes down one rank at a time, apart from steps into phases that are final.\<close>

locale phase_by_phase = phase_passes step rank pass phase
  for step :: "'p \<Rightarrow> 'p \<Rightarrow> bool" and rank and pass :: "'st \<Rightarrow> 'st \<Rightarrow> bool" and phase +
  fixes sink :: "'p \<Rightarrow> bool"
  assumes step_one: "step p q \<Longrightarrow> sink q \<or> rank p = Suc (rank q)"
    and sink_final: "sink p \<Longrightarrow> \<not> step p q"
begin

lemma stays_in_sink:
  "sink (phase (f k)) \<Longrightarrow> (\<And>i. i < k + m \<Longrightarrow> pass (f i) (f (Suc i))) \<Longrightarrow> phase (f (k + m)) = phase (f k)"
proof (induction m)
  case (Suc m)
  then have same: "phase (f (k + m)) = phase (f k)" by simp
  with pass_step [OF Suc.prems(2) [of "k + m"]] sink_final Suc.prems(1) show ?case by simp
qed simp

text \<open>No rank between the first and the last one is skipped.\<close>

lemma every_rank_visited:
  assumes "\<And>i. i < n \<Longrightarrow> pass (f i) (f (Suc i))" "\<not> sink (phase (f n))"
    and "rank (phase (f n)) \<le> k" "k \<le> rank (phase (f 0))"
  shows "\<exists>i \<le> n. rank (phase (f i)) = k"
  using assms
proof (induction n)
  case (Suc n)
  have ns: "\<not> sink (phase (f n))" using stays_in_sink [of f n 1] Suc.prems(1,2) by auto
  consider "rank (phase (f (Suc n))) = k" | "rank (phase (f n)) \<le> k"
    using pass_step [OF Suc.prems(1) [of n]] step_one Suc.prems(2,3) by fastforce
  then show ?case
  proof cases
    case 2
    with Suc ns obtain i where "i \<le> n" "rank (phase (f i)) = k" by auto
    then show ?thesis by (intro exI [of _ i]) simp
  qed blast
qed auto

end

section \<open>Statuses\<close>

lemma retS_apply [simp]: "retS r s = (r, s)"
  by (simp add: retS_def)

lemma thenS_eq:
  "thenS f k s = (r, s2) \<longleftrightarrow>
     (\<exists>st e. f s = ((st, Some e), s2) \<and> r = (st, Some e)) \<or> (\<exists>st s1. f s = ((st, None), s1) \<and> k st s1 = (r, s2))"
  by (auto simp: thenS_def split: prod.splits option.splits)

lemma tryS_eq:
  "tryS f st k s = (r, s2) \<longleftrightarrow>
     (\<exists>e. f s = (Inl e, s2) \<and> r = (st, Some e)) \<or> (\<exists>x s1. f s = (Inr x, s1) \<and> k x s1 = (r, s2))"
  by (auto simp: tryS_def split: prod.splits sum.splits)

text \<open>A reconciliation changes the conditions and the two flags of the status, and nothing else of it.\<close>

definition status_frame :: "RKEControlPlaneStatus \<Rightarrow> RKEControlPlaneStatus \<Rightarrow> bool" where
  "status_frame st st' \<longleftrightarrow>
     st' = st\<lparr>st_Conditions := st_Conditions st', st_Initialized := st_Initialized st', st_Ready := st_Ready st'\<rparr>"

lemma status_frame_refl [simp]: "status_frame st st"
  by (simp add: status_frame_def)

lemma status_frame_upd [simp]:
  "status_frame st (st\<lparr>st_Conditions := cs\<rparr>)"
  "status_frame st (st\<lparr>st_Conditions := cs, st_Initialized := i, st_Ready := rd\<rparr>)"
  by (simp_all add: status_frame_def)

lemma reconcile_joined_frame:
  "reconcile_joined E cp st t strat j ign s = ((st', r), s') \<Longrightarrow>
     st' = st \<or> st' = st\<lparr>st_Initialized := True, st_Ready := True\<rparr>"
  by (auto simp: reconcile_joined_def split: prod.splits option.splits if_splits)

lemma fullReconcile_frame:
  assumes "fullReconcile E cp st t ign s = ((st', r), s')"
  shows "status_frame st st'"
proof -
  let ?st = "st\<lparr>st_Conditions := c_True (lib_Cond E) ''Bootstrapped'' (st_Conditions st)\<rparr>"
  have "st' \<in> {st, ?st, ?st\<lparr>st_Initialized := True, st_Ready := True\<rparr>}"
    using assms
    by (auto simp: fullReconcile_def Let_def dest!: reconcile_joined_frame split: prod.splits option.splits if_splits)
  then show ?thesis by auto
qed

section \<open>Restoring an etcd snapshot\<close>

inductive restore_step :: "ETCDSnapshotPhase \<Rightarrow> ETCDSnapshotPhase \<Rightarrow> bool" where
  begin_restore: "p \<in> {SnapNone, SnapFailed} \<or> (\<exists>x. p = SnapOther x) \<Longrightarrow> restore_step p SnapStarted"
| shut_down: "restore_step SnapStarted SnapShutdown"
| run_restore: "restore_step SnapShutdown SnapRestore"
| clean_pods: "restore_step SnapRestore SnapPostRestorePodCleanup"
| first_restart: "restore_step SnapPostRestorePodCleanup SnapInitialRestartCluster"
| clean_nodes: "restore_step SnapInitialRestartCluster SnapPostRestoreNodeCleanup"
| second_restart: "restore_step SnapPostRestoreNodeCleanup SnapRestartCluster"
| finish: "restore_step SnapRestartCluster SnapFinished"

inductive_simps restore_step_simps [simp]:
  "restore_step SnapStarted q" "restore_step SnapShutdown q" "restore_step SnapRestore q"
  "restore_step SnapPostRestorePodCleanup q" "restore_step SnapInitialRestartCluster q"
  "restore_step SnapPostRestoreNodeCleanup q" "restore_step SnapRestartCluster q" "restore_step SnapFinished q"
  "restore_step SnapNone q" "restore_step SnapFailed q" "restore_step (SnapOther x) q"

fun restore_rank :: "ETCDSnapshotPhase \<Rightarrow> nat" where
  "restore_rank SnapFinished = 0"
| "restore_rank SnapRestartCluster = 1"
| "restore_rank SnapPostRestoreNodeCleanup = 2"
| "restore_rank SnapInitialRestartCluster = 3"
| "restore_rank SnapPostRestorePodCleanup = 4"
| "restore_rank SnapRestore = 5"
| "restore_rank SnapShutdown = 6"
| "restore_rank SnapStarted = 7"
| "restore_rank _ = 8"

text \<open>
  A pass for a restore that is already recorded in the status. The control plane object has the
  status's phase; the rest of it, the world, the plan and the secrets' tokens are arbitrary.
\<close>

definition restore_pass ::
  "('w, 'z) planner_env_scheme \<Rightarrow> ETCDSnapshotRestore \<Rightarrow> RKEControlPlaneStatus \<Rightarrow> RKEControlPlaneStatus \<Rightarrow> bool" where
  "restore_pass E restore st st' \<longleftrightarrow>
     st_ETCDSnapshotRestore st = Some restore \<and>
     (\<exists>cp t v s r s'. sp_ETCDSnapshotRestore (cp_Spec cp) = Some restore \<and> sr_Name restore \<noteq> '''' \<and>
        st_ETCDSnapshotRestorePhase (cp_Status cp) = st_ETCDSnapshotRestorePhase st \<and>
        restoreEtcdSnapshot E cp st t v s = ((st', r), s'))"

lemma setRestoreState_fields [simp]:
  "st_ETCDSnapshotRestorePhase (fst (setEtcdSnapshotRestoreState st r p)) = p"
  "st_ETCDSnapshotRestore (fst (setEtcdSnapshotRestoreState st r p)) = r"
  "st_ConfigGeneration (fst (setEtcdSnapshotRestoreState st r p)) = st_ConfigGeneration st"
  "st_Initialized (fst (setEtcdSnapshotRestoreState st r p)) = st_Initialized st"
  "st_Ready (fst (setEtcdSnapshotRestoreState st r p)) = st_Ready st"
  by (simp_all add: setEtcdSnapshotRestoreState_def)

lemma shared_bootstrapped_fields [simp]:
  "st_ETCDSnapshotRestorePhase (shared_bootstrapped E st) = st_ETCDSnapshotRestorePhase st"
  "st_ETCDSnapshotRestore (shared_bootstrapped E st) = st_ETCDSnapshotRestore st"
  "st_ConfigGeneration (shared_bootstrapped E st) = st_ConfigGeneration st"
  "st_Initialized (shared_bootstrapped E st) = st_Initialized st"
  "st_Ready (shared_bootstrapped E st) = st_Ready st"
  by (simp_all add: shared_bootstrapped_def)

definition restore_advances :: "ETCDSnapshotRestore \<Rightarrow> RKEControlPlaneStatus \<Rightarrow> RKEControlPlaneStatus \<Rightarrow> bool" where
  "restore_advances restore st st' \<longleftrightarrow>
     restore_step (st_ETCDSnapshotRestorePhase st) (st_ETCDSnapshotRestorePhase st') \<and>
     st_ETCDSnapshotRestore st' = Some restore \<and>
     st_ConfigGeneration st' = st_ConfigGeneration st + (if st_ETCDSnapshotRestorePhase st = SnapRestore then 1 else 0) \<and>
     (st_Initialized st' \<longleftrightarrow> st_Initialized st \<and> st_ETCDSnapshotRestorePhase st \<noteq> SnapStarted) \<and>
     (st_Ready st' \<longleftrightarrow> st_Ready st \<and> st_ETCDSnapshotRestorePhase st \<noteq> SnapStarted)"

definition restore_reconciles :: "RKEControlPlaneStatus \<Rightarrow> bool" where
  "restore_reconciles st \<longleftrightarrow> st_ETCDSnapshotRestorePhase st \<in> {SnapInitialRestartCluster, SnapRestartCluster}"

lemma setRestoreState_pair: "setEtcdSnapshotRestoreState st r p = (st', e) \<Longrightarrow> st' = fst (setEtcdSnapshotRestoreState st r p)"
  by simp

lemma restart_cluster_cases:
  "restart_cluster E cp st t q s = ((st', r), s') \<Longrightarrow>
     status_frame st st' \<or>
     st' = fst (setEtcdSnapshotRestoreState (shared_bootstrapped E st) (sp_ETCDSnapshotRestore (cp_Spec cp)) q)"
  by (auto simp: restart_cluster_def tryS_eq thenS_eq dest: fullReconcile_frame setRestoreState_pair)

lemma restore_phase_cases:
  assumes run: "restore_phase E cp st t restore sn s = ((st', r), s')"
    and "sp_ETCDSnapshotRestore (cp_Spec cp) = Some restore"
    and ph: "st_ETCDSnapshotRestorePhase (cp_Status cp) = st_ETCDSnapshotRestorePhase st"
  shows "st' = st \<or> restore_reconciles st \<and> status_frame st st' \<or> restore_advances restore st st'"
  using assms
  by (cases "st_ETCDSnapshotRestorePhase st")
     (auto simp: restore_phase_def restore_advances_def restore_reconciles_def tryS_eq
       dest!: restart_cluster_cases dest: setRestoreState_pair)

lemma restore_pass_cases:
  assumes "restore_pass E restore st st'"
  shows "st' = st \<or> restore_reconciles st \<and> status_frame st st' \<or> restore_advances restore st st'"
  using assms
  by (auto simp: restore_pass_def restoreEtcdSnapshot_def startOrRestartEtcdSnapshotRestore_def thenS_eq tryS_eq
      dest: restore_phase_cases)

lemma status_frame_restore:
  "status_frame st st' \<Longrightarrow> st_ETCDSnapshotRestorePhase st' = st_ETCDSnapshotRestorePhase st \<and>
     st_ETCDSnapshotRestore st' = st_ETCDSnapshotRestore st \<and> st_ConfigGeneration st' = st_ConfigGeneration st"
  by (simp add: status_frame_def) (metis (no_types, lifting) RKEControlPlaneStatus.select_convs RKEControlPlaneStatus.update_convs RKEControlPlaneStatus.surjective)

interpretation restore: phase_by_phase restore_step restore_rank "restore_pass E r" st_ETCDSnapshotRestorePhase "\<lambda>_. False"
  for E :: "('w, 'z) planner_env_scheme" and r
proof
  show "restore_rank q < restore_rank p" if "restore_step p q" for p q
    using that by (cases rule: restore_step.cases) auto
  show "st_ETCDSnapshotRestorePhase b = st_ETCDSnapshotRestorePhase a \<or>
      restore_step (st_ETCDSnapshotRestorePhase a) (st_ETCDSnapshotRestorePhase b)" if "restore_pass E r a b" for a b
    using restore_pass_cases [OF that] by (auto simp: restore_advances_def dest: status_frame_restore)
  show "False \<or> restore_rank p = Suc (restore_rank q)" if "restore_step p q" for p q
    using that by (cases rule: restore_step.cases) auto
qed simp

text \<open>What holds of the status at every phase of a restore that began at a generation \<open>g\<close>.\<close>

definition restore_inv :: "ETCDSnapshotRestore \<Rightarrow> int \<Rightarrow> RKEControlPlaneStatus \<Rightarrow> bool" where
  "restore_inv restore g st \<longleftrightarrow>
     st_ETCDSnapshotRestore st = Some restore \<and> restore_rank (st_ETCDSnapshotRestorePhase st) \<le> 7 \<and>
     st_ConfigGeneration st = (if restore_rank (st_ETCDSnapshotRestorePhase st) \<le> 4 then g + 1 else g) \<and>
     (st_ETCDSnapshotRestorePhase st \<in> {SnapShutdown, SnapRestore, SnapPostRestorePodCleanup} \<longrightarrow>
        \<not> st_Initialized st \<and> \<not> st_Ready st)"

lemma restore_inv_pass:
  assumes "restore_pass E restore st st'" "restore_inv restore g st"
  shows "restore_inv restore g st'"
proof -
  consider "st' = st" | "restore_reconciles st" "status_frame st st'" | "restore_advances restore st st'"
    using restore_pass_cases [OF assms(1)] by blast
  then show ?thesis
  proof cases
    case 2
    with status_frame_restore [OF 2(2)] assms(2) show ?thesis by (auto simp: restore_inv_def restore_reconciles_def)
  next
    case 3
    with assms(2) show ?thesis
      by (cases "st_ETCDSnapshotRestorePhase st") (auto simp: restore_inv_def restore_advances_def)
  qed (use assms(2) in simp)
qed

lemma restore_inv_passes:
  "(restore_pass E restore)\<^sup>*\<^sup>* st st' \<Longrightarrow> restore_inv restore g st \<Longrightarrow> restore_inv restore g st'"
  by (induction rule: rtranclp_induct) (auto intro: restore_inv_pass)

text \<open>
  C5. However many passes a restore takes, and whatever the machines and the world do in
  between, from the moment it is recorded as started: the status keeps recording that restore,
  the cluster counts as neither initialized nor ready from the shutdown until the restored
  cluster is started, and the generation of the configuration is raised exactly once, with the
  restore itself.
\<close>

theorem restore_invariant:
  assumes "(restore_pass E restore)\<^sup>*\<^sup>* st st'"
    and "st_ETCDSnapshotRestorePhase st = SnapStarted" "st_ETCDSnapshotRestore st = Some restore"
  shows "restore_inv restore (st_ConfigGeneration st) st'"
  using assms(1) by (rule restore_inv_passes) (simp add: restore_inv_def assms(2,3))

definition demo_restore :: ETCDSnapshotRestore where
  "demo_restore = \<lparr>sr_Name = ''snap'', sr_Generation = 1, sr_RestoreRKEConfig = ''none''\<rparr>"

definition restoring :: "ETCDSnapshotPhase \<Rightarrow> RKEControlPlaneStatus" where
  "restoring p = demo_status\<lparr>st_ETCDSnapshotRestore := Some demo_restore, st_ETCDSnapshotRestorePhase := p,
     st_Initialized := True, st_Ready := True\<rparr>"

definition restore_cp :: "ETCDSnapshotPhase \<Rightarrow> RKEControlPlane" where
  "restore_cp p = up_cp\<lparr>cp_Spec := (cp_Spec up_cp)\<lparr>sp_ETCDSnapshotRestore := Some demo_restore\<rparr>, cp_Status := restoring p\<rparr>"

definition demo_version :: semver where
  "demo_version = \<lparr>sv_Major = 1, sv_Minor = 27, sv_Patch = 6, sv_Prerelease = ''''\<rparr>"

definition shut_down_status :: RKEControlPlaneStatus where
  "shut_down_status = fst (fst (restoreEtcdSnapshot demo_planner (restore_cp SnapStarted) (restoring SnapStarted)
     demo_tokens demo_version (up_state up_desired)))"

lemma restore_passI:
  assumes "st_ETCDSnapshotRestore st = Some restore" "sp_ETCDSnapshotRestore (cp_Spec cp) = Some restore"
    "sr_Name restore \<noteq> ''''" "st_ETCDSnapshotRestorePhase (cp_Status cp) = st_ETCDSnapshotRestorePhase st"
  shows "restore_pass E restore st (fst (fst (restoreEtcdSnapshot E cp st t v s)))"
  using assms unfolding restore_pass_def by (metis prod.collapse)

lemma demo_pass: "restore_pass demo_planner demo_restore (restoring SnapStarted) shut_down_status"
  unfolding shut_down_status_def by (rule restore_passI) (simp_all add: restoring_def restore_cp_def demo_restore_def)

theorem restore_invariant_witness:
  "(restore_pass demo_planner demo_restore)\<^sup>*\<^sup>* (restoring SnapStarted) shut_down_status \<and>
   restore_inv demo_restore (st_ConfigGeneration (restoring SnapStarted)) shut_down_status"
proof -
  have "(restore_pass demo_planner demo_restore)\<^sup>*\<^sup>* (restoring SnapStarted) shut_down_status"
    using demo_pass by blast
  with restore_invariant [OF this] show ?thesis by (simp add: restoring_def)
qed

text \<open>
  C7. A recorded restore comes to an end: in any run of passes over its status its phase
  changes at most eight times, and never back; what is left of the eight is a bound on what
  can follow.
\<close>

theorem restore_progress_bounded:
  assumes "\<And>i. i < n \<Longrightarrow> restore_pass E restore (f i) (f (Suc i))"
  shows "card {i. i < n \<and> st_ETCDSnapshotRestorePhase (f (Suc i)) \<noteq> st_ETCDSnapshotRestorePhase (f i)}
           + restore_rank (st_ETCDSnapshotRestorePhase (f n)) \<le> 8"
proof -
  have "restore_rank p \<le> 8" for p by (cases p) auto
  with restore.changes_bounded [where f = f and n = n, OF assms] show ?thesis by (meson order_trans)
qed

theorem restore_progress_bounded_witness:
  "card {i. i < (1::nat) \<and> st_ETCDSnapshotRestorePhase (if Suc i = 0 then restoring SnapStarted else shut_down_status) \<noteq>
           st_ETCDSnapshotRestorePhase (if i = 0 then restoring SnapStarted else shut_down_status)}
     + restore_rank (st_ETCDSnapshotRestorePhase shut_down_status) \<le> 8"
  using restore_progress_bounded [of 1 demo_planner demo_restore "\<lambda>i. if i = 0 then restoring SnapStarted else shut_down_status"]
    demo_pass by simp

lemma setRestoreState_None:
  "setEtcdSnapshotRestoreState st r p = (st', None) \<longleftrightarrow>
     st' = st \<and> st_ETCDSnapshotRestore st = r \<and> st_ETCDSnapshotRestorePhase st = p"
  by (auto simp: setEtcdSnapshotRestoreState_def)

lemma resetRestoreState_None:
  "resetEtcdSnapshotRestoreState st = (st', None) \<longleftrightarrow>
     st' = st \<and> st_ETCDSnapshotRestore st = None \<and> st_ETCDSnapshotRestorePhase st = SnapNone"
  by (auto simp: resetEtcdSnapshotRestoreState_def setRestoreState_None)

lemma restart_cluster_waits:
  "restart_cluster E cp st t q s = ((st', None), s') \<Longrightarrow> st_ETCDSnapshotRestorePhase st = q"
  by (auto simp: restart_cluster_def tryS_eq thenS_eq setRestoreState_None)

lemma restore_phase_waits:
  assumes "restore_phase E cp st t restore sn s = ((st', None), s')"
    and "st_ETCDSnapshotRestorePhase (cp_Status cp) = st_ETCDSnapshotRestorePhase st"
  shows "st' = st \<and> st_ETCDSnapshotRestorePhase st = SnapFinished"
  using assms
  by (cases "st_ETCDSnapshotRestorePhase st")
     (auto simp: restore_phase_def tryS_eq setRestoreState_None dest!: restart_cluster_waits)

lemma restore_gate:
  assumes "restoreEtcdSnapshot E cp st t v s = ((st', None), s')"
    and "st_ETCDSnapshotRestorePhase (cp_Status cp) = st_ETCDSnapshotRestorePhase st"
  shows "st' = st \<and>
    (case sp_ETCDSnapshotRestore (cp_Spec cp) of
       Some restore \<Rightarrow>
         if sr_Name restore \<noteq> ''''
         then st_ETCDSnapshotRestore st = Some restore \<and> st_ETCDSnapshotRestorePhase st = SnapFinished
         else st_ETCDSnapshotRestore st = None \<and> st_ETCDSnapshotRestorePhase st = SnapNone
     | None \<Rightarrow> st_ETCDSnapshotRestore st = None \<and> st_ETCDSnapshotRestorePhase st = SnapNone)"
  using assms
  by (auto simp: restoreEtcdSnapshot_def startOrRestartEtcdSnapshotRestore_def thenS_eq tryS_eq resetRestoreState_None
      setRestoreState_None split: option.splits if_splits dest!: restore_phase_waits)

text \<open>
  C8. The restore lets a pass go on to anything else only when there is nothing left to do:
  the requested restore is the recorded one and it is finished, or none is requested and none
  is recorded. In every other case it returns an error or a wait.
\<close>

theorem restore_blocks_the_pass:
  assumes "restoreEtcdSnapshot E cp st t v s = ((st', None), s')"
    and "st_ETCDSnapshotRestorePhase (cp_Status cp) = st_ETCDSnapshotRestorePhase st"
  shows "st' = st \<and>
    (case sp_ETCDSnapshotRestore (cp_Spec cp) of
       Some restore \<Rightarrow>
         if sr_Name restore \<noteq> ''''
         then st_ETCDSnapshotRestore st = Some restore \<and> st_ETCDSnapshotRestorePhase st = SnapFinished
         else st_ETCDSnapshotRestore st = None \<and> st_ETCDSnapshotRestorePhase st = SnapNone
     | None \<Rightarrow> st_ETCDSnapshotRestore st = None \<and> st_ETCDSnapshotRestorePhase st = SnapNone)"
  using restore_gate [OF assms] .

lemma demo_finished:
  "case restoreEtcdSnapshot demo_planner (restore_cp SnapFinished) (restoring SnapFinished) demo_tokens demo_version (up_state empty_plan) of ((_, r), _) \<Rightarrow> r = None"
  by code_simp

theorem restore_blocks_the_pass_witness:
  "\<exists>st' s'. restoreEtcdSnapshot demo_planner (restore_cp SnapFinished) (restoring SnapFinished) demo_tokens demo_version (up_state empty_plan) = ((st', None), s') \<and>
    st' = restoring SnapFinished"
proof -
  from demo_finished obtain st' s' where run: "restoreEtcdSnapshot demo_planner (restore_cp SnapFinished) (restoring SnapFinished)
      demo_tokens demo_version (up_state empty_plan) = ((st', None), s')"
    by (auto split: prod.splits)
  with restore_blocks_the_pass [OF run] show ?thesis by (simp add: restore_cp_def)
qed

section \<open>Stopping the cluster for a restore\<close>

lemma stop_loop_False:
  assumes "stop_loop E cp t j servers s = (Inr False, s')"
  shows "s' = s \<and> (\<forall>server \<in> set servers. \<forall>pl. pe_Plan server = Some pl \<longrightarrow>
           (\<exists>sp u. stop_plan E cp t j server (world s) = Inr (sp, u) \<and> e_DeepEqualPlan E (n_Plan pl) sp))"
  using assms
  by (induction servers) (auto simp: bindE_eq_Inr_iff liftE_def split: option.splits sum.splits prod.splits if_splits)

lemma force_delete_none:
  "forceDeleteAllDeletingEtcdMachines E cp s = (Inr 0, s') \<Longrightarrow> s' = s \<and> collect (cplan s) (roleAnd isEtcd isDeleting) = []"
  by (auto simp: forceDeleteAllDeletingEtcdMachines_def Let_def bindE_eq_Inr_iff)

text \<open>A machine whose services are stopped: it is in sync with the plan that stops them.\<close>

definition stopped ::
  "('w, 'z) planner_env_scheme \<Rightarrow> RKEControlPlane \<Rightarrow> plan_secret \<Rightarrow> string \<Rightarrow> 'w \<Rightarrow> planEntry \<Rightarrow> bool" where
  "stopped E cp t joinServer w server \<longleftrightarrow>
     (case pe_Plan server of
        None \<Rightarrow> True
      | Some pl \<Rightarrow> n_InSync pl \<and>
          (case stop_plan E cp t joinServer server w of
             Inl _ \<Rightarrow> False
           | Inr (sp, _) \<Rightarrow> e_DeepEqualPlan E (n_Plan pl) sp \<and>
               generateKillAllInstruction (runtime_of cp) \<in> set (np_Instructions sp) \<and>
               (isEtcd server \<longrightarrow> generateCreateEtcdTombstoneInstruction cp \<in> set (np_Instructions sp))))"

lemma stop_plan_instructions:
  "stop_plan E cp t j server w = Inr (sp, u) \<Longrightarrow>
     generateKillAllInstruction (runtime_of cp) \<in> set (np_Instructions sp) \<and>
     (isEtcd server \<longrightarrow> generateCreateEtcdTombstoneInstruction cp \<in> set (np_Instructions sp))"
  by (auto simp: stop_plan_def generateStopServiceAndKillAllPlan_def sbind_eq_Inr_iff add_instructions_def Let_def
      split: prod.splits)

lemma serviceStop_success:
  assumes "runEtcdRestoreServiceStop E cp sn t s = (Inr (), s')"
  shows "\<exists>joinServer. runEtcdRestoreInitNodeElection E cp sn s = (Inr joinServer, s') \<and>
    collect (cplan s') (roleAnd isEtcd isDeleting) = [] \<and> collect (cplan s') (roleAnd isEtcd (roleNot isDeleting)) \<noteq> [] \<and>
    list_all (stopped E cp t joinServer (world s')) (collect (cplan s') anyRoleWithoutWindows)"
proof -
  from assms obtain j s1 where elect: "runEtcdRestoreInitNodeElection E cp sn s = (Inr j, s1)"
    and del: "forceDeleteAllDeletingEtcdMachines E cp s1 = (Inr 0, s1)" "collect (cplan s1) (roleAnd isEtcd isDeleting) = []"
    and loop: "stop_loop E cp t j (collect (cplan s1) anyRoleWithoutWindows) s1 = (Inr False, s1)" and "s' = s1"
    and sync: "\<forall>server \<in> set (collect (cplan s1) anyRoleWithoutWindows). \<forall>pl. pe_Plan server = Some pl \<longrightarrow> n_InSync pl"
    and live: "collect (cplan s1) (roleAnd isEtcd (roleNot isDeleting)) \<noteq> []"
    unfolding runEtcdRestoreServiceStop_def bindE_eq_Inr_iff Let_def
    by (auto simp: bindE_eq_Inr_iff find_None_iff dest!: force_delete_none dest: stop_loop_False
        split: if_splits option.splits)
  have "stopped E cp t j (world s1) server" if "server \<in> set (collect (cplan s1) anyRoleWithoutWindows)" for server
    using that sync stop_loop_False [OF loop] by (fastforce simp: stopped_def dest: stop_plan_instructions split: option.splits)
  with elect del live \<open>s' = s1\<close> show ?thesis by (auto simp: list_all_iff)
qed

text \<open>
  The phase that shuts the cluster down ends only when an init node is elected for the
  restore, no etcd machine is being deleted, an etcd machine is left, and every machine with a
  plan (Windows machines apart) has applied the plan that kills its services, which on an etcd
  machine also leaves the tombstone that keeps its old data from being used.
\<close>

theorem serviceStop_complete:
  assumes "runEtcdRestoreServiceStop E cp sn t s = (Inr (), s')"
  shows "\<exists>joinServer. runEtcdRestoreInitNodeElection E cp sn s = (Inr joinServer, s') \<and>
    collect (cplan s') (roleAnd isEtcd isDeleting) = [] \<and> collect (cplan s') (roleAnd isEtcd (roleNot isDeleting)) \<noteq> [] \<and>
    list_all (stopped E cp t joinServer (world s')) (collect (cplan s') anyRoleWithoutWindows)"
  using serviceStop_success [OF assms] .

definition demo_stop_plan :: node_plan where
  "demo_stop_plan = (case stop_plan demo_planner (restore_cp SnapShutdown) demo_tokens ''''
       \<lparr>pe_Machine = up_machine ''a'', pe_Plan = None, pe_Metadata = Some up_metadata\<rparr> demo_world0 of
     Inr (sp, _) \<Rightarrow> sp | Inl _ \<Rightarrow> empty_plan)"

lemma demo_stopped:
  "case runEtcdRestoreServiceStop demo_planner (restore_cp SnapShutdown) None demo_tokens (up_state demo_stop_plan) of
     (r, _) \<Rightarrow> r = Inr ()"
  by code_simp

theorem serviceStop_complete_witness:
  "\<exists>joinServer s'. runEtcdRestoreServiceStop demo_planner (restore_cp SnapShutdown) None demo_tokens (up_state demo_stop_plan) = (Inr (), s') \<and>
    list_all (stopped demo_planner (restore_cp SnapShutdown) demo_tokens joinServer (world s')) (collect (cplan s') anyRoleWithoutWindows)"
proof -
  from demo_stopped obtain s' where run:
    "runEtcdRestoreServiceStop demo_planner (restore_cp SnapShutdown) None demo_tokens (up_state demo_stop_plan) = (Inr (), s')"
    by (auto split: prod.splits)
  with serviceStop_complete [OF run] show ?thesis by blast
qed

end
