(* ===== verification/Restore_Run.thy ===== *)
theory Restore_Run
  imports Phases_Correct
begin

text \<open>
  A whole restore, pass by pass: that no phase of it can be skipped, and a run of eight passes
  over a cluster of one machine from the start to the end.
\<close>

section \<open>No phase is skipped\<close>

definition restore_order :: "ETCDSnapshotPhase list" where
  "restore_order = [SnapStarted, SnapShutdown, SnapRestore, SnapPostRestorePodCleanup, SnapInitialRestartCluster,
     SnapPostRestoreNodeCleanup, SnapRestartCluster, SnapFinished]"

lemma restore_rank_inj: "restore_rank p = restore_rank q \<Longrightarrow> q \<in> set restore_order \<Longrightarrow> p = q"
  by (cases p; cases q) (auto simp: restore_order_def)

text \<open>
  C6. A restore that is finished has been through every phase: no pass skips the shutdown, the
  restore or a clean-up.
\<close>

theorem restore_skips_no_phase:
  assumes "\<And>i. i < n \<Longrightarrow> restore_pass E restore (f i) (f (Suc i))"
    and "st_ETCDSnapshotRestorePhase (f 0) = SnapStarted" "st_ETCDSnapshotRestorePhase (f n) = SnapFinished"
  shows "\<forall>p \<in> set restore_order. \<exists>i \<le> n. st_ETCDSnapshotRestorePhase (f i) = p"
proof
  fix p assume p: "p \<in> set restore_order"
  then have "restore_rank p \<le> 7" by (auto simp: restore_order_def)
  with restore.every_rank_visited [where f = f and n = n and k = "restore_rank p", OF assms(1)] assms(2,3)
  obtain i where "i \<le> n" "restore_rank (st_ETCDSnapshotRestorePhase (f i)) = restore_rank p" by auto
  with restore_rank_inj p show "\<exists>i \<le> n. st_ETCDSnapshotRestorePhase (f i) = p" by blast
qed

section \<open>A run\<close>

text \<open>In every pass the machine has applied the plan that the phase asks for.\<close>

definition run_cp :: "RKEControlPlaneStatus \<Rightarrow> RKEControlPlane" where
  "run_cp st = (restore_cp SnapStarted)\<lparr>cp_Status := st\<rparr>"

definition run_entry :: planEntry where
  "run_entry = \<lparr>pe_Machine = up_machine ''a'', pe_Plan = None, pe_Metadata = Some up_metadata\<rparr>"

definition ok_plan :: "go_error + (node_plan \<times> string) \<Rightarrow> node_plan" where
  "ok_plan x = (case x of Inr (np, _) \<Rightarrow> np | Inl _ \<Rightarrow> empty_plan)"

definition extended :: "plan_file list \<times> one_time_instruction list \<Rightarrow> node_plan \<Rightarrow> node_plan" where
  "extended x np = add_instructions (snd x) (add_files (fst x) np)"

definition run_plan :: "RKEControlPlaneStatus \<Rightarrow> node_plan" where
  "run_plan st =
     (let cp = run_cp st; desired = ok_plan (desiredPlan demo_planner cp demo_tokens run_entry '''' demo_world0) in
      case st_ETCDSnapshotRestorePhase st of
        SnapShutdown \<Rightarrow> ok_plan (stop_plan demo_planner cp demo_tokens '''' run_entry demo_world0)
      | SnapRestore \<Rightarrow> ok_plan (generateEtcdSnapshotRestorePlan demo_planner cp None ''snap'' demo_tokens run_entry '''' demo_world0)
      | SnapPostRestorePodCleanup \<Rightarrow> extended (generateEtcdRestorePodCleanupFilesAndInstruction demo_planner cp [m_UID (up_machine ''a'')]) desired
      | SnapPostRestoreNodeCleanup \<Rightarrow>
          (case generateEtcdRestoreNodeCleanupFilesAndInstruction demo_planner cp
              (filter (\<lambda>u. u \<noteq> '''') [m_UID (up_machine ''a'')])
              (filter (\<lambda>u. u \<noteq> '''') (List.map_filter m_NodeRef [up_machine ''a''])) of
             Inr x \<Rightarrow> extended x desired | Inl _ \<Rightarrow> empty_plan)
      | _ \<Rightarrow> desired)"

definition run_pass :: "RKEControlPlaneStatus \<Rightarrow> RKEControlPlaneStatus \<times> err" where
  "run_pass st = fst (restoreEtcdSnapshot demo_planner (run_cp st) st demo_tokens demo_version (up_state (run_plan st)))"

definition run_at :: "cond list \<Rightarrow> bool \<Rightarrow> int \<Rightarrow> ETCDSnapshotPhase \<Rightarrow> RKEControlPlaneStatus" where
  "run_at cs up g p = (restoring p)\<lparr>st_Conditions := cs, st_Initialized := up, st_Ready := up, st_ConfigGeneration := g\<rparr>"

definition bootstrapped :: "string \<Rightarrow> cond list" where
  "bootstrapped x = [\<lparr>cd_Type = ''Bootstrapped'', cd_Status = x, cd_Reason = '''', cd_Message = ''''\<rparr>]"

definition run_statuses :: "RKEControlPlaneStatus list" where
  "run_statuses =
     [run_at [] True 0 SnapStarted, run_at [] False 0 SnapShutdown, run_at (bootstrapped ''False'') False 0 SnapRestore,
      run_at (bootstrapped ''False'') False 1 SnapPostRestorePodCleanup,
      run_at (bootstrapped ''False'') False 1 SnapInitialRestartCluster,
      run_at (bootstrapped ''True'') True 1 SnapInitialRestartCluster,
      run_at (bootstrapped ''True'') True 1 SnapPostRestoreNodeCleanup,
      run_at (bootstrapped ''True'') True 1 SnapRestartCluster, run_at (bootstrapped ''True'') True 1 SnapFinished]"


text \<open>An assignment that finds its plan in place and applied changes nothing.\<close>

lemma assign_extended_in_place:
  assumes "pe_Plan e = Some pl" "e_DeepEqualPlan E (n_Plan pl) (extended x np)" "\<not> n_Failed pl" "n_InSync pl" "n_Healthy pl"
    and "in_plan (cplan s) e"
  shows "assign_extended E e np j x s = (Inr (), s)"
proof -
  have "assignAndCheckPlan E ETCDRestoreMessage e (extended x np) j 5 5 (world s) = (None, e, world s)"
    using assms(1-5) by (simp add: assignAndCheckPlan_def Let_def)
  then have "on_entry (\<lambda>e. assignAndCheckPlan E ETCDRestoreMessage e (extended x np) j 5 5) e s = (None, e, s)"
    using assms(6) by (simp add: on_entry_def put_entry_same)
  then show ?thesis
    unfolding assign_extended_def extended_def [symmetric] by (simp add: bindE_def entryE_def)
qed

lemma run_collect: "collect (cplan (up_state np)) f = (let e = run_entry\<lparr>pe_Plan := Some (up_node np)\<rparr> in if f e then [e] else [])"
  by (simp add: collect_def up_state_def plan_entry_def run_entry_def Let_def)


lemma run_retrieve: "case retrieveEtcdSnapshot demo_planner (Some (run_cp st)) demo_world0 of Inr None \<Rightarrow> True | _ \<Rightarrow> False"
  by code_simp

lemma run_cp_simps [simp]: "cp_Status (run_cp st) = st" "sp_ETCDSnapshotRestore (cp_Spec (run_cp st)) = Some demo_restore"
  "sr_Name demo_restore = ''snap''"
  by (simp_all add: run_cp_def restore_cp_def demo_restore_def)

lemma run_roles: "isInitNode (run_entry\<lparr>pe_Plan := q\<rparr>)" "isControlPlane (run_entry\<lparr>pe_Plan := q\<rparr>)"
  "isNotDeleting (run_entry\<lparr>pe_Plan := q\<rparr>)"
  by code_simp+

lemma run_deep: "e_DeepEqualPlan demo_planner np np"
  by (simp add: demo_planner_def demo_config_def demo_store_def demo_libs_def config_env.defs store_env.defs libs.defs)

lemma run_in_plan: "in_plan (cplan (up_state np)) (run_entry\<lparr>pe_Plan := q\<rparr>)"
  by (simp add: in_plan_def up_state_def run_entry_def entry_name_def up_machine_def demo_machine_def)

definition run_desired :: "RKEControlPlaneStatus \<Rightarrow> planEntry \<Rightarrow> go_error + (node_plan \<times> string)" where
  "run_desired st e = desiredPlan demo_planner (run_cp st) demo_tokens e '''' demo_world0"

definition run_steady :: "RKEControlPlaneStatus \<Rightarrow> node option \<Rightarrow> bool" where
  "run_steady st q = (case run_desired st (run_entry\<lparr>pe_Plan := q\<rparr>) of Inr (np, _) \<Rightarrow> np = ok_plan (run_desired st run_entry) | Inl _ \<Rightarrow> False)"

lemma assign_run:
  "assign_extended demo_planner (run_entry\<lparr>pe_Plan := Some (up_node (extended x np))\<rparr>) np j x (up_state (extended x np)) =
     (Inr (), up_state (extended x np))"
proof (rule assign_extended_in_place [where pl = "up_node (extended x np)"])
  show "in_plan (cplan (up_state (extended x np))) (run_entry\<lparr>pe_Plan := Some (up_node (extended x np))\<rparr>)" by (rule run_in_plan)
qed (simp_all add: run_deep, simp_all add: up_node_def run_deep)

lemma run_phase:
  assumes "st_ETCDSnapshotRestore st = Some demo_restore"
  shows "run_pass st = fst (restore_phase demo_planner (run_cp st) st demo_tokens demo_restore None (up_state (run_plan st)))"
proof -
  have "retrieveEtcdSnapshot demo_planner (Some (run_cp st)) (world (up_state np)) = Inr None" for np
    using run_retrieve [of st] by (simp add: up_state_def split: sum.splits option.splits)
  then show ?thesis
    using assms
    by (simp add: run_pass_def restoreEtcdSnapshot_def startOrRestartEtcdSnapshotRestore_def thenS_def tryS_def liftE_def
        snapshot_restorable_def)
qed

lemma run_pod_cleanup:
  assumes "\<And>q. run_steady st q" "st_ETCDSnapshotRestorePhase st = SnapPostRestorePodCleanup"
  shows "runEtcdSnapshotPostRestorePodCleanupPlan demo_planner (run_cp st) demo_tokens (up_state (run_plan st)) =
     (Inr (), up_state (run_plan st))"
proof -
  define np where "np = ok_plan (run_desired st run_entry)"
  define x where "x = generateEtcdRestorePodCleanupFilesAndInstruction demo_planner (run_cp st) [m_UID (up_machine ''a'')]"
  have plan: "run_plan st = extended x np" using assms(2) by (simp add: run_plan_def np_def x_def Let_def run_desired_def)
  let ?e = "run_entry\<lparr>pe_Plan := Some (up_node (extended x np))\<rparr>"
  obtain j where des: "desiredPlan demo_planner (run_cp st) demo_tokens ?e '''' demo_world0 = Inr (np, j)"
    using assms(1) [of "Some (up_node (extended x np))"]
    by (auto simp: run_steady_def run_desired_def np_def split: sum.splits prod.splits)
  have uid: "m_UID (pe_Machine run_entry) = m_UID (up_machine ''a'')" by (simp add: run_entry_def)
  have w: "world (up_state (extended x np)) = demo_world0" by (simp add: up_state_def)
  show ?thesis
    unfolding plan runEtcdSnapshotPostRestorePodCleanupPlan_def
    using run_roles(1,2) assign_run [of x np] des
    by (simp add: run_collect Let_def bindE_def liftE_def w uid x_def [symmetric])
qed

lemma run_node_cleanup:
  assumes "\<And>q. run_steady st q" "st_ETCDSnapshotRestorePhase st = SnapPostRestoreNodeCleanup"
  shows "runEtcdSnapshotPostRestoreNodeCleanupPlan demo_planner (run_cp st) demo_tokens (up_state (run_plan st)) =
     (Inr (), up_state (run_plan st))"
proof -
  define np where "np = ok_plan (run_desired st run_entry)"
  define us where "us = filter (\<lambda>u. u \<noteq> '''') [m_UID (up_machine ''a'')]"
  define ns where "ns = filter (\<lambda>u. u \<noteq> '''') (List.map_filter m_NodeRef [up_machine ''a''])"
  have "\<exists>x. generateEtcdRestoreNodeCleanupFilesAndInstruction demo_planner (run_cp st) us ns = Inr x"
    by (cases "GetKubectlAndKubeconfigPaths (sp_KubernetesVersion (cp_Spec (run_cp st)))")
       (simp add: generateEtcdRestoreNodeCleanupFilesAndInstruction_def Let_def)
  then obtain x where x: "generateEtcdRestoreNodeCleanupFilesAndInstruction demo_planner (run_cp st) us ns = Inr x" by blast
  have plan: "run_plan st = extended x np"
    using assms(2) x by (simp add: run_plan_def np_def us_def ns_def Let_def run_desired_def)
  let ?e = "run_entry\<lparr>pe_Plan := Some (up_node (extended x np))\<rparr>"
  obtain j where des: "desiredPlan demo_planner (run_cp st) demo_tokens ?e '''' demo_world0 = Inr (np, j)"
    using assms(1) [of "Some (up_node (extended x np))"]
    by (auto simp: run_steady_def run_desired_def np_def split: sum.splits prod.splits)
  have m: "pe_Machine run_entry = up_machine ''a''" by (simp add: run_entry_def)
  have w: "world (up_state (extended x np)) = demo_world0" by (simp add: up_state_def)
  have uids: "filter (\<lambda>u. u \<noteq> '''') (map (\<lambda>n. m_UID (pe_Machine n)) [?e]) = us" by (simp add: us_def m)
  have names: "filter (\<lambda>u. u \<noteq> '''') (List.map_filter (\<lambda>n. m_NodeRef (pe_Machine n)) [?e]) = ns"
    by (simp add: ns_def m map_filter_def)
  have one: "collect (cplan (up_state (extended x np))) isInitNode = [?e]"
    "collect (cplan (up_state (extended x np))) isNotDeleting = [?e]"
    using run_roles(1,3) by (simp_all add: run_collect Let_def)
  show ?thesis
    unfolding plan runEtcdSnapshotPostRestoreNodeCleanupPlan_def one Let_def uids names
    using assign_run [of x np] des x by (simp add: bindE_def liftE_def w)
qed

lemma steady_3: "run_steady (run_statuses ! 3) q"
  by code_simp

lemma steady_6: "run_steady (run_statuses ! 6) q"
  by code_simp

lemma run_3: "fst (run_pass (run_statuses ! 3)) = run_statuses ! 4"
proof -
  have st: "st_ETCDSnapshotRestorePhase (run_statuses ! 3) = SnapPostRestorePodCleanup"
    "st_ETCDSnapshotRestore (run_statuses ! 3) = Some demo_restore" by (simp_all add: run_statuses_def run_at_def restoring_def)
  show ?thesis
    unfolding run_phase [OF st(2)] restore_phase_def run_cp_simps st
    by (simp add: tryS_def run_pod_cleanup [OF steady_3 st(1)] setEtcdSnapshotRestoreState_def)
       (simp add: run_statuses_def run_at_def restoring_def)
qed

lemma run_6: "fst (run_pass (run_statuses ! 6)) = run_statuses ! 7"
proof -
  have st: "st_ETCDSnapshotRestorePhase (run_statuses ! 6) = SnapPostRestoreNodeCleanup"
    "st_ETCDSnapshotRestore (run_statuses ! 6) = Some demo_restore" by (simp_all add: run_statuses_def run_at_def restoring_def)
  show ?thesis
    unfolding run_phase [OF st(2)] restore_phase_def run_cp_simps st
    by (simp add: tryS_def run_node_cleanup [OF steady_6 st(1)] setEtcdSnapshotRestoreState_def)
       (simp add: run_statuses_def run_at_def restoring_def)
qed

lemma run_0: "fst (run_pass (run_statuses ! 0)) = run_statuses ! 1"
  by code_simp

lemma run_1: "fst (run_pass (run_statuses ! 1)) = run_statuses ! 2"
  by code_simp

lemma run_2: "fst (run_pass (run_statuses ! 2)) = run_statuses ! 3"
  by code_simp

lemma run_4: "fst (run_pass (run_statuses ! 4)) = run_statuses ! 5"
  by code_simp

lemma run_5: "fst (run_pass (run_statuses ! 5)) = run_statuses ! 6"
  by code_simp

lemma run_7: "fst (run_pass (run_statuses ! 7)) = run_statuses ! 8"
  by code_simp

lemma run_steps:
  assumes "i < 8"
  shows "fst (run_pass (run_statuses ! i)) = run_statuses ! Suc i"
proof -
  have "i \<in> {0, 1, 2, 3, 4, 5, 6, 7}" using assms by auto
  then show ?thesis using run_0 run_1 run_2 run_3 run_4 run_5 run_6 run_7 by (auto simp: numeral_eq_Suc)
qed

lemma run_recorded: "i < 9 \<Longrightarrow> st_ETCDSnapshotRestore (run_statuses ! i) = Some demo_restore"
  using list_all_length [of "\<lambda>st. st_ETCDSnapshotRestore st = Some demo_restore" run_statuses]
  by (simp add: run_statuses_def run_at_def restoring_def)

lemma run_is_pass:
  assumes "i < 8"
  shows "restore_pass demo_planner demo_restore (run_statuses ! i) (run_statuses ! Suc i)"
proof -
  have "restore_pass demo_planner demo_restore st (fst (run_pass st))" if "st_ETCDSnapshotRestore st = Some demo_restore" for st
    unfolding run_pass_def by (rule restore_passI [OF that]) simp_all
  with run_steps [OF assms] run_recorded [of i] assms show ?thesis by fastforce
qed

theorem restore_skips_no_phase_witness:
  "list_all (\<lambda>i. restore_pass demo_planner demo_restore (run_statuses ! i) (run_statuses ! Suc i)) [0..<8] \<and>
   list_all (\<lambda>p. \<exists>i \<le> 8. st_ETCDSnapshotRestorePhase (run_statuses ! i) = p) restore_order"
proof -
  have "st_ETCDSnapshotRestorePhase (run_statuses ! 0) = SnapStarted" "st_ETCDSnapshotRestorePhase (run_statuses ! 8) = SnapFinished"
    by (simp_all add: run_statuses_def run_at_def restoring_def)
  from restore_skips_no_phase [where f = "\<lambda>i. run_statuses ! i", OF run_is_pass this] run_is_pass show ?thesis
    by (auto simp: list_all_iff)
qed

end
