(* ===== verification/Controller_Env.thy ===== *)
theory Controller_Env
  imports Planner_Env
begin

text \<open>
  What the controllers around the planner (\<open>controllers/capr\<close>) see of the objects they handle:
  a machine with its cluster and its type, a control plane with its generation, a secret as it
  is watched. A controller's handler
  takes the object of an event - nil is \<open>None\<close> - and returns an object, an error, and the world.
\<close>

record cluster_machine = machine +
  m_ClusterName :: string
  m_APIVersion :: string
  m_Kind :: string

record cp_object = RKEControlPlane +
  cp_Generation :: int
  cp_DeletionTimestamp :: "string option"

text \<open>\<open>s_HasData\<close>: the secret has at least one data key.\<close>

record secret_object = secret +
  s_DeletionTimestamp :: "string option"
  s_HasData :: bool

definition ClusterNameLabel :: string where "ClusterNameLabel = ''rke.cattle.io/cluster-name''"
definition CAPIClusterNameLabel :: string where "CAPIClusterNameLabel = ''cluster.x-k8s.io/cluster-name''"

definition secret_event :: "secret \<Rightarrow> secret_object" where
  "secret_event sec = secret.extend sec \<lparr>s_DeletionTimestamp = None, s_HasData = True\<rparr>"

lemma secret_event_parts [simp]:
  "secret.truncate (secret_event sec) = sec" "s_DeletionTimestamp (secret_event sec) = None" "s_HasData (secret_event sec)"
  by (simp_all add: secret_event_def secret.defs)

lemma truncated_fields [simp]:
  "s_Data (secret.truncate ev) = s_Data ev" "s_Labels (secret.truncate ev) = s_Labels ev"
  "s_Annotations (secret.truncate ev) = s_Annotations ev" "s_Type (secret.truncate ev) = s_Type ev"
  "s_Namespace (secret.truncate ev) = s_Namespace ev" "s_Name (secret.truncate ev) = s_Name ev"
  by (simp_all add: secret.defs)

definition cluster_machine_of :: "string \<Rightarrow> machine \<Rightarrow> cluster_machine" where
  "cluster_machine_of c m =
     machine.extend m \<lparr>m_ClusterName = c, m_APIVersion = ''cluster.x-k8s.io/v1beta1'', m_Kind = ''Machine''\<rparr>"

lemma cluster_machine_of_parts [simp]:
  "machine.truncate (cluster_machine_of c m) = m" "m_NodeRef (cluster_machine_of c m) = m_NodeRef m"
  by (simp_all add: cluster_machine_of_def machine.defs)

text \<open>A handler's result.\<close>

type_synonym ('w, 'a) handled = "'w \<Rightarrow> ('a option \<times> err) \<times> 'w"

end
