(* ===== verification/Machine_Drain.thy ===== *)
theory Machine_Drain
  imports Planner_Drain Controller_Env
begin

text \<open>
  The controller that drains nodes (\<open>controllers/capr/machinedrain/machinedrain.go\<close>): the other
  side of the handshake of \<open>Planner_Drain\<close>. It watches the plan secrets, cordons and drains the
  node when the planner asks for it, runs the hooks, and reports back in annotations of the
  secret. A secret that a client returns with an error, or as nil, has no annotations: both are
  \<open>None\<close> here. The annotations of a secret that was read are taken as a map that can be written.
  In \<open>return secret, retry.RetryOnConflict(\<dots>)\<close> the closure assigns \<open>secret\<close>, and Go leaves open
  whether the operand is read before or after the call; the model reads it after, as the
  standard compiler does for a captured variable.
\<close>

section \<open>Environment\<close>

record drain_helper =
  dh_Client :: string
  dh_Force :: bool
  dh_GracePeriodSeconds :: int
  dh_IgnoreAllDaemonSets :: bool
  dh_Timeout :: int
  dh_DeleteEmptyDirData :: bool
  dh_DisableEviction :: bool
  dh_SkipWaitForDeleteTimeoutSeconds :: int

text \<open>The clients, \<open>retry.RetryOnConflict\<close> over an attempt that keeps a secret, and \<open>kubectl\<close>'s drain package.\<close>

record 'w drain_env = "'w planner_env" +
  d_MachineGet :: "string \<Rightarrow> string \<Rightarrow> 'w \<Rightarrow> go_error + cluster_machine"
  d_SecretGet :: "string \<Rightarrow> string \<Rightarrow> 'w \<Rightarrow> go_error + secret"
  d_Retry :: "('w \<times> secret option, unit) go \<Rightarrow> ('w \<times> secret option, unit) go"
  d_UnmarshalDrain :: "string \<Rightarrow> go_error + DrainOptions"
  d_RESTConfig :: "string \<Rightarrow> go_error + string"
  d_NewForConfig :: "string \<Rightarrow> go_error + string"
  d_NodeGet :: "string \<Rightarrow> string \<Rightarrow> 'w \<Rightarrow> go_error + string"
  d_RunCordonOrUncordon :: "drain_helper \<Rightarrow> string \<Rightarrow> bool \<Rightarrow> ('w, unit) go"
  d_RunNodeDrain :: "drain_helper \<Rightarrow> string \<Rightarrow> ('w, unit) go"

section \<open>Annotations\<close>

definition secretAnnotationDoesNotHaveValue :: "string \<Rightarrow> string \<Rightarrow> secret \<Rightarrow> bool" where
  "secretAnnotationDoesNotHaveValue annotation value sec \<longleftrightarrow> gets (s_Annotations sec) annotation \<noteq> value"

fun checkHookAnnotations :: "string \<Rightarrow> string list \<Rightarrow> secret \<Rightarrow> bool" where
  "checkHookAnnotations drainData [] sec = True"
| "checkHookAnnotations drainData (hook # hooks) sec =
     (if hook \<noteq> '''' \<and> gets (s_Annotations sec) hook \<noteq> drainData then False
      else checkHookAnnotations drainData hooks sec)"

definition secret_key :: "secret option \<Rightarrow> string \<times> string" where
  "secret_key v = (case v of None \<Rightarrow> ('''', '''') | Some sec \<Rightarrow> (s_Namespace sec, s_Name sec))"

definition update_attempt ::
  "('w, 'z) drain_env_scheme \<Rightarrow> string \<Rightarrow> string \<Rightarrow> (secret \<Rightarrow> bool) \<Rightarrow> ('w \<times> secret option, unit) go" where
  "update_attempt E annotation value check x =
     (case x of (w, v) \<Rightarrow>
      case d_SecretGet E (fst (secret_key v)) (snd (secret_key v)) w of
        Inl e \<Rightarrow> (Inl e, w, None)
      | Inr sec \<Rightarrow>
          if \<not> check sec \<or> gets (s_Annotations sec) annotation = value then (Inr (), w, Some sec)
          else
            let sec' = sec\<lparr>s_Annotations := (s_Annotations sec)(annotation \<mapsto> value)\<rparr> in
            (case e_SecretUpdate E sec' w of
               (Inl e, w') \<Rightarrow> (Inl e, w', Some sec')
             | (Inr _, w') \<Rightarrow> (Inr (), w', Some sec')))"

definition retried ::
  "('w, 'z) drain_env_scheme \<Rightarrow> ('w \<times> secret option, unit) go \<Rightarrow> secret \<Rightarrow> 'w \<Rightarrow> (secret option \<times> err) \<times> 'w" where
  "retried E attempt sec w =
     (case d_Retry E attempt (w, Some sec) of
        (Inl e, w', v) \<Rightarrow> ((v, Some e), w')
      | (Inr _, w', v) \<Rightarrow> ((v, None), w'))"

definition updateSecretAnnotationIfCheckTrue ::
  "('w, 'z) drain_env_scheme \<Rightarrow> secret \<Rightarrow> string \<Rightarrow> string \<Rightarrow> (secret \<Rightarrow> bool) \<Rightarrow> 'w \<Rightarrow> (secret option \<times> err) \<times> 'w" where
  "updateSecretAnnotationIfCheckTrue E sec annotation value check =
     retried E (update_attempt E annotation value check) sec"

definition drain_keys :: "DrainOptions \<Rightarrow> string list" where
  "drain_keys opts =
     [PreDrainAnnotation, PostDrainAnnotation, DrainAnnotation, DrainDoneAnnotation, UnCordonAnnotation] @
     dr_PreDrainHooks opts @ dr_PostDrainHooks opts"

definition clean_attempt ::
  "('w, 'z) drain_env_scheme \<Rightarrow> DrainOptions \<Rightarrow> (secret \<Rightarrow> bool) \<Rightarrow> ('w \<times> secret option, unit) go" where
  "clean_attempt E opts check x =
     (case x of (w, v) \<Rightarrow>
      case d_SecretGet E (fst (secret_key v)) (snd (secret_key v)) w of
        Inl e \<Rightarrow> (Inl e, w, None)
      | Inr sec \<Rightarrow>
          if \<not> check sec then (Inr (), w, Some sec)
          else
            let sec' = sec\<lparr>s_Annotations := s_Annotations sec |` (- set (drain_keys opts))\<rparr> in
            (case e_SecretUpdate E sec' w of
               (Inl e, w') \<Rightarrow> (Inl e, w', Some sec')
             | (Inr _, w') \<Rightarrow> (Inr (), w', Some sec')))"

definition cleanSecretAnnotationsIfCheckTrue ::
  "('w, 'z) drain_env_scheme \<Rightarrow> secret \<Rightarrow> DrainOptions \<Rightarrow> (secret \<Rightarrow> bool) \<Rightarrow> 'w \<Rightarrow> (secret option \<times> err) \<times> 'w" where
  "cleanSecretAnnotationsIfCheckTrue E sec opts check = retried E (clean_attempt E opts check) sec"

section \<open>Node operations\<close>

definition k8sClient :: "('w, 'z) drain_env_scheme \<Rightarrow> cluster_machine \<Rightarrow> 'w \<Rightarrow> go_error + string" where
  "k8sClient E machine w =
     sbind (k_SecretCacheGet E (m_Namespace machine) (lib_SafeConcatName E [m_ClusterName machine, ''kubeconfig'']) w) (\<lambda>sec.
     sbind (d_RESTConfig E (gets (s_Data sec) ''value'')) (\<lambda>restConfig.
       d_NewForConfig E restConfig))"

text \<open>The node's name is the one of \<open>machine.Status.NodeRef\<close>, which every caller has tested.\<close>

definition getHelper ::
  "('w, 'z) drain_env_scheme \<Rightarrow> cluster_machine \<Rightarrow> string \<Rightarrow> DrainOptions \<Rightarrow> 'w \<Rightarrow> go_error + (drain_helper \<times> string)" where
  "getHelper E machine nodeName opts w =
     sbind (k8sClient E machine w) (\<lambda>k8s.
     let helper = \<lparr>dh_Client = k8s, dh_Force = dr_Force opts, dh_GracePeriodSeconds = dr_GracePeriod opts,
           dh_IgnoreAllDaemonSets = (case dr_IgnoreDaemonSets opts of None \<Rightarrow> True | Some b \<Rightarrow> b),
           dh_Timeout = signed_take_bit 63 ((if dr_Timeout opts = 0 then 600 else dr_Timeout opts) * 1000000000),
           dh_DeleteEmptyDirData = dr_DeleteEmptyDirData opts, dh_DisableEviction = dr_DisableEviction opts,
           dh_SkipWaitForDeleteTimeoutSeconds = dr_SkipWaitForDeleteTimeoutSeconds opts\<rparr> in
     sbind (d_NodeGet E k8s nodeName w) (\<lambda>node.
       Inr (helper, node)))"

definition machine_node :: "cluster_machine \<Rightarrow> string option" where
  "machine_node machine = (case m_NodeRef machine of None \<Rightarrow> None | Some n \<Rightarrow> if n = '''' then None else Some n)"

definition cordon :: "('w, 'z) drain_env_scheme \<Rightarrow> cluster_machine \<Rightarrow> DrainOptions \<Rightarrow> ('w, unit) go" where
  "cordon E machine opts w =
     (case machine_node machine of
        None \<Rightarrow> (Inr (), w)
      | Some n \<Rightarrow> bindE (liftE (getHelper E machine n opts w)) (\<lambda>(helper, node). d_RunCordonOrUncordon E helper node True) w)"

definition performDrain :: "('w, 'z) drain_env_scheme \<Rightarrow> cluster_machine \<Rightarrow> DrainOptions \<Rightarrow> ('w, unit) go" where
  "performDrain E machine opts w =
     (case machine_node machine of
        None \<Rightarrow> (Inr (), w)
      | Some n \<Rightarrow> bindE (liftE (getHelper E machine n opts w)) (\<lambda>(helper, node). d_RunNodeDrain E helper node) w)"

section \<open>Draining and uncordoning\<close>

definition drain_secret ::
  "('w, 'z) drain_env_scheme \<Rightarrow> secret \<Rightarrow> cluster_machine \<Rightarrow> string \<Rightarrow> 'w \<Rightarrow> (secret option \<times> err) \<times> 'w" where
  "drain_secret E sec machine drainData w =
     (case d_UnmarshalDrain E drainData of
        Inl e \<Rightarrow> ((None, Some e), w)
      | Inr opts \<Rightarrow>
          (case cordon E machine opts w of
             (Inl e, w1) \<Rightarrow> ((Some sec, Some e), w1)
           | (Inr _, w1) \<Rightarrow>
               let hooksDone = checkHookAnnotations drainData (dr_PreDrainHooks opts);
                   unset = secretAnnotationDoesNotHaveValue PreDrainAnnotation drainData in
               if dr_PreDrainHooks opts \<noteq> [] \<and> unset sec
               then updateSecretAnnotationIfCheckTrue E sec PreDrainAnnotation drainData unset w1
               else if dr_PreDrainHooks opts \<noteq> [] \<and> \<not> hooksDone sec then ((Some sec, None), w1)
               else
                 (case (if dr_Enabled opts then performDrain E machine opts w1 else (Inr (), w1)) of
                    (Inl e, w2) \<Rightarrow> ((None, Some e), w2)
                  | (Inr _, w2) \<Rightarrow> updateSecretAnnotationIfCheckTrue E sec DrainDoneAnnotation drainData hooksDone w2)))"

definition unDrain ::
  "('w, 'z) drain_env_scheme \<Rightarrow> secret \<Rightarrow> cluster_machine \<Rightarrow> string \<Rightarrow> 'w \<Rightarrow> (secret option \<times> err) \<times> 'w" where
  "unDrain E sec machine drainData w =
     (case machine_node machine of
        None \<Rightarrow> ((Some sec, None), w)
      | Some n \<Rightarrow>
          (case d_UnmarshalDrain E drainData of
             Inl e \<Rightarrow> ((Some sec, Some e), w)
           | Inr opts \<Rightarrow>
               let hooksDone = checkHookAnnotations drainData (dr_PostDrainHooks opts);
                   unset = secretAnnotationDoesNotHaveValue PostDrainAnnotation drainData in
               if dr_PostDrainHooks opts \<noteq> [] \<and> unset sec
               then updateSecretAnnotationIfCheckTrue E sec PostDrainAnnotation drainData unset w
               else if dr_PostDrainHooks opts \<noteq> [] \<and> \<not> hooksDone sec then ((Some sec, None), w)
               else
                 (case getHelper E machine n opts w of
                    Inl e \<Rightarrow> ((None, Some e), w)
                  | Inr (helper, node) \<Rightarrow>
                      (case d_RunCordonOrUncordon E helper node False w of
                         (Inl e, w1) \<Rightarrow> ((None, Some e), w1)
                       | (Inr _, w1) \<Rightarrow> cleanSecretAnnotationsIfCheckTrue E sec opts hooksDone w1))))"

section \<open>The handler\<close>

text \<open>
  The deferred function. The results of the handler are not named, so what it assigns to
  \<open>secret\<close> and \<open>err\<close> is lost: only the update that it makes is seen.
\<close>

definition report_drain_error ::
  "('w, 'z) drain_env_scheme \<Rightarrow> secret \<Rightarrow> secret option \<Rightarrow> err \<Rightarrow> 'w \<Rightarrow> 'w" where
  "report_drain_error E oldSecret v err w =
     (let sec = (case v of None \<Rightarrow> oldSecret | Some s \<Rightarrow> s);
          current = s_Annotations sec DrainErrorAnnotation in
      if (case err of None \<Rightarrow> current = None | Some e \<Rightarrow> gets (s_Annotations sec) DrainErrorAnnotation = Error e) then w
      else
        snd (e_SecretUpdate E
          (sec\<lparr>s_Annotations := (s_Annotations sec)(DrainErrorAnnotation := (case err of None \<Rightarrow> None | Some e \<Rightarrow> Some (Error e)))\<rparr>) w))"

definition drain_step ::
  "('w, 'z) drain_env_scheme \<Rightarrow> secret \<Rightarrow> cluster_machine \<Rightarrow> 'w \<Rightarrow> (secret option \<times> err) \<times> 'w" where
  "drain_step E sec machine w =
     (let drainData = gets (s_Annotations sec) DrainAnnotation in
      if drainData \<noteq> '''' \<and> gets (s_Annotations sec) DrainDoneAnnotation \<noteq> drainData
      then drain_secret E sec machine drainData w
      else if gets (s_Annotations sec) UnCordonAnnotation \<noteq> '''' then unDrain E sec machine drainData w
      else ((Some sec, None), w))"

definition drain_OnChange ::
  "('w, 'z) drain_env_scheme \<Rightarrow> secret_object option \<Rightarrow> 'w \<Rightarrow> (secret option \<times> err) \<times> 'w" where
  "drain_OnChange E obj w =
     (case obj of
        None \<Rightarrow> ((None, None), w)
      | Some ev \<Rightarrow>
          let sec = secret.truncate ev in
          if s_DeletionTimestamp ev \<noteq> None \<or> gets (s_Labels sec) MachineNameLabel = '''' \<or> s_Type sec \<noteq> SecretTypeMachinePlan
          then ((Some sec, None), w)
          else
            (case d_MachineGet E (s_Namespace sec) (gets (s_Labels sec) MachineNameLabel) w of
               Inl e \<Rightarrow> ((Some sec, Some e), w)
             | Inr machine \<Rightarrow>
                 (case drain_step E sec machine w of
                    ((v, err), w1) \<Rightarrow> ((v, err), report_drain_error E sec v err w1))))"

end
