(* ===== verification/Drain_Correct.thy ===== *)
theory Drain_Correct
  imports Machine_Drain
begin

text \<open>
  The drain handshake between the planner (\<open>Planner_Drain\<close>) and the drain controller
  (\<open>Machine_Drain\<close>): what the controller's done marker means, and that with an API server and a
  node that answer, and hooks that are answered, the two bring a machine through a drain and
  back, leaving the plan secret as it was.
\<close>

section \<open>Laws of the environment\<close>

text \<open>\<open>RetryOnConflict\<close>: its outcome is that of an attempt, and a first attempt that succeeds is the only one.\<close>

definition retry_law :: "('w, 'z) drain_env_scheme \<Rightarrow> bool" where
  "retry_law E \<longleftrightarrow> (\<forall>f x. (\<exists>y. d_Retry E f x = f y) \<and> (fst (f x) = Inr () \<longrightarrow> d_Retry E f x = f x))"

text \<open>An API server that accepts every update and returns what was written last.\<close>

definition quiet_api :: "('w, 'z) drain_env_scheme \<Rightarrow> bool" where
  "quiet_api E \<longleftrightarrow>
     (\<forall>sec w. \<exists>w'. e_SecretUpdate E sec w = (Inr sec, w') \<and> d_SecretGet E (s_Namespace sec) (s_Name sec) w' = Inr sec) \<and>
     (\<forall>ns n w. e_SecretGet E ns n w = d_SecretGet E ns n w)"

text \<open>The machine of a secret is known, its node can be reached and drained, and that leaves secrets alone.\<close>

definition reachable_node :: "('w, 'z) drain_env_scheme \<Rightarrow> cluster_machine \<Rightarrow> bool" where
  "reachable_node E m \<longleftrightarrow>
     (\<forall>w. \<exists>sec. k_SecretCacheGet E (m_Namespace m) (lib_SafeConcatName E [m_ClusterName m, ''kubeconfig'']) w = Inr sec) \<and>
     (\<forall>v. \<exists>c. d_RESTConfig E v = Inr c) \<and> (\<forall>c. \<exists>k. d_NewForConfig E c = Inr k) \<and>
     (\<forall>k n w. \<exists>x. d_NodeGet E k n w = Inr x) \<and>
     (\<forall>h n b w. \<exists>w'. d_RunCordonOrUncordon E h n b w = (Inr (), w') \<and>
        (\<forall>ns sn. d_SecretGet E ns sn w' = d_SecretGet E ns sn w)) \<and>
     (\<forall>h n w. \<exists>w'. d_RunNodeDrain E h n w = (Inr (), w') \<and> (\<forall>ns sn. d_SecretGet E ns sn w' = d_SecretGet E ns sn w))"

text \<open>The JSON of drain options decodes to them.\<close>

definition drain_codec :: "('w, 'z) drain_env_scheme \<Rightarrow> bool" where
  "drain_codec E \<longleftrightarrow> (\<forall>opts d. q_DrainJSON E opts = Inr d \<longrightarrow> d \<noteq> '''' \<and> d_UnmarshalDrain E d = Inr opts)"

section \<open>Hooks\<close>

lemma checkHookAnnotations_iff:
  "checkHookAnnotations d hooks sec \<longleftrightarrow> (\<forall>h \<in> set hooks. h = '''' \<or> gets (s_Annotations sec) h = d)"
  by (induction hooks) auto

section \<open>Steps of the handshake\<close>

text \<open>
  The controller is given the stored secret of a machine; the owners of the hooks answer on
  the stored secret; the planner loads the machine's metadata from it.
\<close>

definition deliver :: "('w, 'z) drain_env_scheme \<Rightarrow> string \<Rightarrow> string \<Rightarrow> 'w \<Rightarrow> 'w" where
  "deliver E ns n w =
     (case d_SecretGet E ns n w of
        Inl _ \<Rightarrow> w
      | Inr sec \<Rightarrow> snd (drain_OnChange E (Some (secret_event sec)) w))"

definition answered :: "smap \<Rightarrow> string list \<Rightarrow> string \<Rightarrow> smap" where
  "answered a hooks d = (\<lambda>k. if k \<in> set hooks \<and> k \<noteq> '''' then Some d else a k)"

definition answer :: "('w, 'z) drain_env_scheme \<Rightarrow> string \<Rightarrow> string \<Rightarrow> string list \<Rightarrow> string \<Rightarrow> 'w \<Rightarrow> 'w" where
  "answer E ns n hooks d w =
     (case d_SecretGet E ns n w of
        Inl _ \<Rightarrow> w
      | Inr sec \<Rightarrow> snd (e_SecretUpdate E (sec\<lparr>s_Annotations := answered (s_Annotations sec) hooks d\<rparr>) w))"

definition reload :: "('w, 'z) drain_env_scheme \<Rightarrow> string \<Rightarrow> string \<Rightarrow> planEntry \<Rightarrow> 'w \<Rightarrow> planEntry" where
  "reload E ns n e w =
     (case d_SecretGet E ns n w of
        Inl _ \<Rightarrow> e
      | Inr sec \<Rightarrow> e\<lparr>pe_Metadata := Some \<lparr>md_Labels = s_Labels sec, md_Annotations = s_Annotations sec\<rparr>\<rparr>)"

definition holds :: "('w, 'z) drain_env_scheme \<Rightarrow> 'w \<Rightarrow> secret \<Rightarrow> smap \<Rightarrow> bool" where
  "holds E w sec a \<longleftrightarrow> d_SecretGet E (s_Namespace sec) (s_Name sec) w = Inr (sec\<lparr>s_Annotations := a\<rparr>)"

lemma quiet_update:
  assumes "quiet_api E"
  obtains w' where "e_SecretUpdate E (sec\<lparr>s_Annotations := a\<rparr>) w = (Inr (sec\<lparr>s_Annotations := a\<rparr>), w')" "holds E w' sec a"
proof -
  from assms obtain w1 where "e_SecretUpdate E (sec\<lparr>s_Annotations := a\<rparr>) w = (Inr (sec\<lparr>s_Annotations := a\<rparr>), w1)"
    "d_SecretGet E (s_Namespace (sec\<lparr>s_Annotations := a\<rparr>)) (s_Name (sec\<lparr>s_Annotations := a\<rparr>)) w1 = Inr (sec\<lparr>s_Annotations := a\<rparr>)"
    unfolding quiet_api_def by blast
  with that show thesis by (simp add: holds_def)
qed

lemma holds_answer:
  assumes "quiet_api E" "holds E w sec a"
  shows "holds E (answer E (s_Namespace sec) (s_Name sec) hooks d w) sec (answered a hooks d)"
  using quiet_update [OF assms(1), where sec = sec and a = "answered a hooks d" and w = w] assms(2) by (fastforce simp: answer_def holds_def)

lemma retried_first:
  assumes "retry_law E" "f (w, Some sec) = (Inr (), w', v)"
  shows "retried E f sec w = ((v, None), w')"
proof -
  from assms have "d_Retry E f (w, Some sec) = f (w, Some sec)" by (simp add: retry_law_def)
  with assms(2) show ?thesis by (simp add: retried_def)
qed

lemma quiet_mark:
  assumes "quiet_api E" "retry_law E" "holds E w sec a" "check (sec\<lparr>s_Annotations := a\<rparr>)" "gets a k \<noteq> v"
  obtains w' where
    "updateSecretAnnotationIfCheckTrue E (sec\<lparr>s_Annotations := a\<rparr>) k v check w =
       ((Some (sec\<lparr>s_Annotations := a(k \<mapsto> v)\<rparr>), None), w')"
    "holds E w' sec (a(k \<mapsto> v))"
proof -
  obtain w' where u: "e_SecretUpdate E (sec\<lparr>s_Annotations := a(k \<mapsto> v)\<rparr>) w = (Inr (sec\<lparr>s_Annotations := a(k \<mapsto> v)\<rparr>), w')"
    and h: "holds E w' sec (a(k \<mapsto> v))"
    using quiet_update [OF assms(1)] by blast
  have "update_attempt E k v check (w, Some (sec\<lparr>s_Annotations := a\<rparr>)) =
      (Inr (), w', Some (sec\<lparr>s_Annotations := a(k \<mapsto> v)\<rparr>))"
    using assms(3-) u by (simp add: update_attempt_def secret_key_def holds_def)
  from that [OF retried_first [where f = "update_attempt E k v check", OF assms(2) this, folded updateSecretAnnotationIfCheckTrue_def] h] show thesis .
qed

lemma quiet_clean:
  assumes "quiet_api E" "retry_law E" "holds E w sec a" "check (sec\<lparr>s_Annotations := a\<rparr>)"
  obtains w' where
    "cleanSecretAnnotationsIfCheckTrue E (sec\<lparr>s_Annotations := a\<rparr>) opts check w =
       ((Some (sec\<lparr>s_Annotations := a |` (- set (drain_keys opts))\<rparr>), None), w')"
    "holds E w' sec (a |` (- set (drain_keys opts)))"
proof -
  let ?a = "a |` (- set (drain_keys opts))"
  obtain w' where u: "e_SecretUpdate E (sec\<lparr>s_Annotations := ?a\<rparr>) w = (Inr (sec\<lparr>s_Annotations := ?a\<rparr>), w')"
    and h: "holds E w' sec ?a"
    using quiet_update [OF assms(1)] by blast
  have "clean_attempt E opts check (w, Some (sec\<lparr>s_Annotations := a\<rparr>)) = (Inr (), w', Some (sec\<lparr>s_Annotations := ?a\<rparr>))"
    using assms(3-) u by (simp add: clean_attempt_def secret_key_def holds_def)
  from that [OF retried_first [where f = "clean_attempt E opts check", OF assms(2) this, folded cleanSecretAnnotationsIfCheckTrue_def] h] show thesis .
qed

text \<open>A plan secret of a machine that has a node.\<close>

definition watched :: "('w, 'z) drain_env_scheme \<Rightarrow> secret \<Rightarrow> cluster_machine \<Rightarrow> bool" where
  "watched E sec m \<longleftrightarrow>
     s_Type sec = SecretTypeMachinePlan \<and> gets (s_Labels sec) MachineNameLabel \<noteq> '''' \<and> machine_node m \<noteq> None \<and>
     (\<forall>w. d_MachineGet E (s_Namespace sec) (gets (s_Labels sec) MachineNameLabel) w = Inr m)"

lemma deliver_step:
  assumes "watched E sec m" "holds E w sec a"
    and "drain_step E (sec\<lparr>s_Annotations := a\<rparr>) m w = ((Some (sec\<lparr>s_Annotations := a'\<rparr>), None), w')"
    and "a' DrainErrorAnnotation = None"
  shows "deliver E (s_Namespace sec) (s_Name sec) w = w'"
  using assms
  by (simp add: deliver_def holds_def watched_def drain_OnChange_def report_drain_error_def)

lemma getHelper_ok:
  assumes "reachable_node E m"
  shows "\<exists>h node. getHelper E m n opts w = Inr (h, node)"
proof -
  obtain sec where 1: "k_SecretCacheGet E (m_Namespace m) (lib_SafeConcatName E [m_ClusterName m, ''kubeconfig'']) w = Inr sec"
    using assms unfolding reachable_node_def by blast
  obtain c where 2: "d_RESTConfig E (gets (s_Data sec) ''value'') = Inr c" using assms unfolding reachable_node_def by blast
  obtain k where 3: "d_NewForConfig E c = Inr k" using assms unfolding reachable_node_def by blast
  obtain x where "d_NodeGet E k n w = Inr x" using assms unfolding reachable_node_def by blast
  with 1 2 3 show ?thesis by (simp add: getHelper_def k8sClient_def Let_def)
qed

definition same_secrets :: "('w, 'z) drain_env_scheme \<Rightarrow> 'w \<Rightarrow> 'w \<Rightarrow> bool" where
  "same_secrets E w w' \<longleftrightarrow> (\<forall>ns n. d_SecretGet E ns n w' = d_SecretGet E ns n w)"

lemma same_secrets_holds: "same_secrets E w w' \<Longrightarrow> holds E w sec a \<Longrightarrow> holds E w' sec a"
  by (simp add: same_secrets_def holds_def)

lemma cordon_ok:
  assumes "reachable_node E m"
  obtains w' where "cordon E m opts w = (Inr (), w')" "same_secrets E w w'"
proof (cases "machine_node m")
  case None
  with that [of w] show thesis by (simp add: cordon_def same_secrets_def)
next
  case (Some n)
  obtain h node where h: "getHelper E m n opts w = Inr (h, node)" using getHelper_ok [OF assms] by blast
  from assms obtain w' where "d_RunCordonOrUncordon E h node True w = (Inr (), w')" "same_secrets E w w'"
    unfolding reachable_node_def same_secrets_def by blast
  with that [of w'] Some h show thesis by (simp add: cordon_def)
qed

lemma performDrain_ok:
  assumes "reachable_node E m"
  obtains w' where "performDrain E m opts w = (Inr (), w')" "same_secrets E w w'"
proof (cases "machine_node m")
  case None
  with that [of w] show thesis by (simp add: performDrain_def same_secrets_def)
next
  case (Some n)
  obtain h node where h: "getHelper E m n opts w = Inr (h, node)" using getHelper_ok [OF assms] by blast
  from assms obtain w' where "d_RunNodeDrain E h node w = (Inr (), w')" "same_secrets E w w'"
    unfolding reachable_node_def same_secrets_def by blast
  with that [of w'] Some h show thesis by (simp add: performDrain_def)
qed

lemma drain_key_neq [simp]:
  "PreDrainAnnotation \<noteq> PostDrainAnnotation" "PreDrainAnnotation \<noteq> DrainAnnotation" "PreDrainAnnotation \<noteq> DrainDoneAnnotation" "PreDrainAnnotation \<noteq> UnCordonAnnotation" "PreDrainAnnotation \<noteq> DrainErrorAnnotation" "PreDrainAnnotation \<noteq> JoinedToAnnotation"
  "PostDrainAnnotation \<noteq> PreDrainAnnotation" "PostDrainAnnotation \<noteq> DrainAnnotation" "PostDrainAnnotation \<noteq> DrainDoneAnnotation" "PostDrainAnnotation \<noteq> UnCordonAnnotation" "PostDrainAnnotation \<noteq> DrainErrorAnnotation" "PostDrainAnnotation \<noteq> JoinedToAnnotation"
  "DrainAnnotation \<noteq> PreDrainAnnotation" "DrainAnnotation \<noteq> PostDrainAnnotation" "DrainAnnotation \<noteq> DrainDoneAnnotation" "DrainAnnotation \<noteq> UnCordonAnnotation" "DrainAnnotation \<noteq> DrainErrorAnnotation" "DrainAnnotation \<noteq> JoinedToAnnotation"
  "DrainDoneAnnotation \<noteq> PreDrainAnnotation" "DrainDoneAnnotation \<noteq> PostDrainAnnotation" "DrainDoneAnnotation \<noteq> DrainAnnotation" "DrainDoneAnnotation \<noteq> UnCordonAnnotation" "DrainDoneAnnotation \<noteq> DrainErrorAnnotation" "DrainDoneAnnotation \<noteq> JoinedToAnnotation"
  "UnCordonAnnotation \<noteq> PreDrainAnnotation" "UnCordonAnnotation \<noteq> PostDrainAnnotation" "UnCordonAnnotation \<noteq> DrainAnnotation" "UnCordonAnnotation \<noteq> DrainDoneAnnotation" "UnCordonAnnotation \<noteq> DrainErrorAnnotation" "UnCordonAnnotation \<noteq> JoinedToAnnotation"
  "DrainErrorAnnotation \<noteq> PreDrainAnnotation" "DrainErrorAnnotation \<noteq> PostDrainAnnotation" "DrainErrorAnnotation \<noteq> DrainAnnotation" "DrainErrorAnnotation \<noteq> DrainDoneAnnotation" "DrainErrorAnnotation \<noteq> UnCordonAnnotation" "DrainErrorAnnotation \<noteq> JoinedToAnnotation"
  "JoinedToAnnotation \<noteq> PreDrainAnnotation" "JoinedToAnnotation \<noteq> PostDrainAnnotation" "JoinedToAnnotation \<noteq> DrainAnnotation" "JoinedToAnnotation \<noteq> DrainDoneAnnotation" "JoinedToAnnotation \<noteq> UnCordonAnnotation" "JoinedToAnnotation \<noteq> DrainErrorAnnotation"
  by (simp_all add: key_defs)

section \<open>What a delivery does\<close>

definition answering :: "('w, 'z) drain_env_scheme \<Rightarrow> secret \<Rightarrow> cluster_machine \<Rightarrow> bool" where
  "answering E sec m \<longleftrightarrow> quiet_api E \<and> retry_law E \<and> reachable_node E m \<and> watched E sec m"

text \<open>The controller announces the pre-drain hooks, and drains once they are answered.\<close>

lemma deliver_announces:
  assumes "answering E sec m" "holds E w sec a" "d_UnmarshalDrain E d = Inr opts" "d \<noteq> ''''"
    and "gets a DrainAnnotation = d" "gets a DrainDoneAnnotation \<noteq> d" "a DrainErrorAnnotation = None"
    and "dr_PreDrainHooks opts \<noteq> []" "gets a PreDrainAnnotation \<noteq> d"
  shows "holds E (deliver E (s_Namespace sec) (s_Name sec) w) sec (a(PreDrainAnnotation \<mapsto> d))"
proof -
  from assms(1) have laws: "quiet_api E" "retry_law E" "reachable_node E m" "watched E sec m"
    by (simp_all add: answering_def)
  let ?sec = "sec\<lparr>s_Annotations := a\<rparr>"
  let ?unset = "secretAnnotationDoesNotHaveValue PreDrainAnnotation d"
  obtain w1 where w1: "cordon E m opts w = (Inr (), w1)" "same_secrets E w w1" using cordon_ok [OF laws(3)] by blast
  have "?unset ?sec" using assms by (simp add: secretAnnotationDoesNotHaveValue_def)
  with quiet_mark [OF laws(1,2) same_secrets_holds [OF w1(2) assms(2)], of ?unset PreDrainAnnotation d] assms
  obtain w2 where w2: "updateSecretAnnotationIfCheckTrue E ?sec PreDrainAnnotation d ?unset w1 =
      ((Some (sec\<lparr>s_Annotations := a(PreDrainAnnotation \<mapsto> d)\<rparr>), None), w2)"
    "holds E w2 sec (a(PreDrainAnnotation \<mapsto> d))" by blast
  have "drain_step E ?sec m w = ((Some (sec\<lparr>s_Annotations := a(PreDrainAnnotation \<mapsto> d)\<rparr>), None), w2)"
    using assms w1 w2 \<open>?unset ?sec\<close> by (simp add: drain_step_def drain_secret_def)
  from deliver_step [OF laws(4) assms(2) this] w2(2) assms show ?thesis by (simp add: key_defs)
qed

lemma deliver_drains:
  assumes "answering E sec m" "holds E w sec a" "d_UnmarshalDrain E d = Inr opts" "d \<noteq> ''''"
    and "gets a DrainAnnotation = d" "gets a DrainDoneAnnotation \<noteq> d" "a DrainErrorAnnotation = None"
    and "dr_PreDrainHooks opts = [] \<or> gets a PreDrainAnnotation = d"
    and hooks: "checkHookAnnotations d (dr_PreDrainHooks opts) (sec\<lparr>s_Annotations := a\<rparr>)"
  shows "holds E (deliver E (s_Namespace sec) (s_Name sec) w) sec (a(DrainDoneAnnotation \<mapsto> d))"
proof -
  from assms(1) have laws: "quiet_api E" "retry_law E" "reachable_node E m" "watched E sec m"
    by (simp_all add: answering_def)
  let ?sec = "sec\<lparr>s_Annotations := a\<rparr>"
  let ?done = "checkHookAnnotations d (dr_PreDrainHooks opts)"
  obtain w1 where w1: "cordon E m opts w = (Inr (), w1)" "same_secrets E w w1" using cordon_ok [OF laws(3)] by blast
  obtain w2 where w2: "(if dr_Enabled opts then performDrain E m opts w1 else (Inr (), w1)) = (Inr (), w2)" "same_secrets E w1 w2"
  proof (cases "dr_Enabled opts")
    case True
    with performDrain_ok [OF laws(3), of opts w1] that show thesis by metis
  next
    case False
    with that [of w1] show thesis by (simp add: same_secrets_def)
  qed
  from quiet_mark [OF laws(1,2) same_secrets_holds [OF w2(2) same_secrets_holds [OF w1(2) assms(2)]], of ?done DrainDoneAnnotation d] assms
  obtain w3 where w3: "updateSecretAnnotationIfCheckTrue E ?sec DrainDoneAnnotation d ?done w2 =
      ((Some (sec\<lparr>s_Annotations := a(DrainDoneAnnotation \<mapsto> d)\<rparr>), None), w3)"
    "holds E w3 sec (a(DrainDoneAnnotation \<mapsto> d))" by blast
  have "drain_step E ?sec m w = ((Some (sec\<lparr>s_Annotations := a(DrainDoneAnnotation \<mapsto> d)\<rparr>), None), w3)"
    using assms w1 w2 w3 hooks by (auto simp: drain_step_def drain_secret_def secretAnnotationDoesNotHaveValue_def)
  from deliver_step [OF laws(4) assms(2) this] w3(2) assms show ?thesis by (simp add: key_defs)
qed

text \<open>Nothing is left to do, the post-drain hooks are announced, the drain is undone.\<close>

lemma deliver_idle:
  assumes "answering E sec m" "holds E w sec a" "gets a DrainAnnotation = '''' \<or> gets a DrainDoneAnnotation = gets a DrainAnnotation"
    and "gets a UnCordonAnnotation = ''''" "a DrainErrorAnnotation = None"
  shows "deliver E (s_Namespace sec) (s_Name sec) w = w"
proof -
  have "drain_step E (sec\<lparr>s_Annotations := a\<rparr>) m w = ((Some (sec\<lparr>s_Annotations := a\<rparr>), None), w)"
    using assms by (auto simp: drain_step_def)
  with deliver_step assms show ?thesis by (metis answering_def)
qed

lemma deliver_announces_post:
  assumes "answering E sec m" "holds E w sec a" "d_UnmarshalDrain E d = Inr opts"
    and "gets a DrainAnnotation = d" "gets a DrainDoneAnnotation = d" "gets a UnCordonAnnotation \<noteq> ''''"
    and "a DrainErrorAnnotation = None" "dr_PostDrainHooks opts \<noteq> []" "gets a PostDrainAnnotation \<noteq> d"
  shows "holds E (deliver E (s_Namespace sec) (s_Name sec) w) sec (a(PostDrainAnnotation \<mapsto> d))"
proof -
  from assms(1) have laws: "quiet_api E" "retry_law E" "reachable_node E m" "watched E sec m"
    by (simp_all add: answering_def)
  let ?sec = "sec\<lparr>s_Annotations := a\<rparr>"
  let ?unset = "secretAnnotationDoesNotHaveValue PostDrainAnnotation d"
  obtain n where n: "machine_node m = Some n" using laws(4) by (auto simp: watched_def)
  have unset: "?unset ?sec" using assms by (simp add: secretAnnotationDoesNotHaveValue_def)
  with quiet_mark [OF laws(1,2) assms(2), of ?unset PostDrainAnnotation d] assms
  obtain w1 where w1: "updateSecretAnnotationIfCheckTrue E ?sec PostDrainAnnotation d ?unset w =
      ((Some (sec\<lparr>s_Annotations := a(PostDrainAnnotation \<mapsto> d)\<rparr>), None), w1)"
    "holds E w1 sec (a(PostDrainAnnotation \<mapsto> d))" by blast
  have "drain_step E ?sec m w = ((Some (sec\<lparr>s_Annotations := a(PostDrainAnnotation \<mapsto> d)\<rparr>), None), w1)"
    using assms n w1 unset by (simp add: drain_step_def unDrain_def)
  from deliver_step [OF laws(4) assms(2) this] w1(2) assms show ?thesis by (simp add: key_defs)
qed

lemma deliver_cleans:
  assumes "answering E sec m" "holds E w sec a" "d_UnmarshalDrain E d = Inr opts"
    and "gets a DrainAnnotation = d" "gets a DrainDoneAnnotation = d" "gets a UnCordonAnnotation \<noteq> ''''"
    and "a DrainErrorAnnotation = None" "dr_PostDrainHooks opts = [] \<or> gets a PostDrainAnnotation = d"
    and hooks: "checkHookAnnotations d (dr_PostDrainHooks opts) (sec\<lparr>s_Annotations := a\<rparr>)"
  shows "holds E (deliver E (s_Namespace sec) (s_Name sec) w) sec (a |` (- set (drain_keys opts)))"
proof -
  from assms(1) have laws: "quiet_api E" "retry_law E" "reachable_node E m" "watched E sec m"
    by (simp_all add: answering_def)
  let ?sec = "sec\<lparr>s_Annotations := a\<rparr>"
  let ?done = "checkHookAnnotations d (dr_PostDrainHooks opts)"
  obtain n where n: "machine_node m = Some n" using laws(4) by (auto simp: watched_def)
  obtain h node where h: "getHelper E m n opts w = Inr (h, node)" using getHelper_ok [OF laws(3)] by blast
  from laws(3) obtain w1 where w1: "d_RunCordonOrUncordon E h node False w = (Inr (), w1)" "same_secrets E w w1"
    unfolding reachable_node_def same_secrets_def by blast
  from quiet_clean [OF laws(1,2) same_secrets_holds [OF w1(2) assms(2)], of ?done opts] hooks
  obtain w2 where w2: "cleanSecretAnnotationsIfCheckTrue E ?sec opts ?done w1 =
      ((Some (sec\<lparr>s_Annotations := a |` (- set (drain_keys opts))\<rparr>), None), w2)"
    "holds E w2 sec (a |` (- set (drain_keys opts)))" by blast
  have "drain_step E ?sec m w = ((Some (sec\<lparr>s_Annotations := a |` (- set (drain_keys opts))\<rparr>), None), w2)"
    using assms n h w1 w2 hooks by (auto simp: drain_step_def unDrain_def secretAnnotationDoesNotHaveValue_def)
  from deliver_step [OF laws(4) assms(2) this] w2(2) assms show ?thesis by (simp add: restrict_map_def)
qed

section \<open>What the planner writes\<close>

definition plan_secret_of :: "('w, 'z) drain_env_scheme \<Rightarrow> planEntry \<Rightarrow> secret \<Rightarrow> bool" where
  "plan_secret_of E e sec \<longleftrightarrow>
     isRKEBootstrap (pe_Machine e) \<and> m_NodeRef (pe_Machine e) \<noteq> None \<and> m_Namespace (pe_Machine e) = s_Namespace sec \<and>
     (case m_ConfigRef (pe_Machine e) of
        None \<Rightarrow> False
      | Some ref \<Rightarrow> or_Name ref \<noteq> '''' \<and> PlanSecretFromBootstrapName E (or_Name ref) = s_Name sec)"

definition readable :: "('w, 'z) drain_env_scheme \<Rightarrow> secret \<Rightarrow> smap \<Rightarrow> bool" where
  "readable E sec a \<longleftrightarrow> (case SecretToNode E (Some (sec\<lparr>s_Annotations := a\<rparr>)) of Inl _ \<Rightarrow> False | Inr _ \<Rightarrow> True)"

lemma readable_cong:
  assumes "a JoinedToAnnotation = a' JoinedToAnnotation"
  shows "readable E sec a \<longleftrightarrow> readable E sec a'"
  using assms by (auto simp: readable_def SecretToNode_def secret_joined_to_def Let_def sbind_def split: sum.splits option.splits if_splits)

lemma reload_holds:
  "holds E w sec a \<Longrightarrow> reload E (s_Namespace sec) (s_Name sec) e w =
     e\<lparr>pe_Metadata := Some \<lparr>md_Labels = s_Labels sec, md_Annotations = a\<rparr>\<rparr>"
  by (simp add: reload_def holds_def)

lemma copied_annotation:
  assumes "labelAnnotationMatch k"
  shows "CopyPlanMetadataToSecret (sec\<lparr>s_Annotations := a\<rparr>) (Some \<lparr>md_Labels = s_Labels sec, md_Annotations = a(k \<mapsto> v)\<rparr>) =
    sec\<lparr>s_Annotations := a(k \<mapsto> v)\<rparr>"
proof -
  have "CopyMap (s_Labels sec) (s_Labels sec) = s_Labels sec" "CopyMap a (a(k \<mapsto> v)) = a(k \<mapsto> v)"
    using assms by (auto simp: CopyMap_apply fun_eq_iff)
  then show ?thesis by (simp add: CopyPlanMetadataToSecret_def)
qed

lemma planner_marks:
  assumes "quiet_api E" "plan_secret_of E e sec" "s_Type sec = SecretTypeMachinePlan" "holds E w sec a"
    and "labelAnnotationMatch k" "k \<noteq> JoinedToAnnotation" "readable E sec a"
  obtains e' w' where
    "updatePlanSecretLabelsAndAnnotations E (set_annotation k v (reload E (s_Namespace sec) (s_Name sec) e w)) w = (None, e', w')"
    "holds E w' sec (a(k \<mapsto> v))"
proof -
  let ?e = "set_annotation k v (reload E (s_Namespace sec) (s_Name sec) e w)"
  have e: "pe_Metadata ?e = Some \<lparr>md_Labels = s_Labels sec, md_Annotations = a(k \<mapsto> v)\<rparr>" "pe_Machine ?e = pe_Machine e"
    by (simp_all add: reload_holds [OF assms(4)] set_annotation_def)
  have get: "getPlanSecretFromMachine E (Some (pe_Machine ?e)) w = Inr (sec\<lparr>s_Annotations := a\<rparr>)"
    using assms e(2) by (auto simp: getPlanSecretFromMachine_def plan_secret_of_def holds_def quiet_api_def split: option.splits)
  obtain w' where u: "e_SecretUpdate E (sec\<lparr>s_Annotations := a(k \<mapsto> v)\<rparr>) w = (Inr (sec\<lparr>s_Annotations := a(k \<mapsto> v)\<rparr>), w')"
    and h: "holds E w' sec (a(k \<mapsto> v))"
    using quiet_update [OF assms(1)] by blast
  from assms(6,7) have "readable E sec (a(k \<mapsto> v))"
    using readable_cong [of a "a(k \<mapsto> v)" E sec] by simp
  then obtain n where "SecretToNode E (Some (sec\<lparr>s_Annotations := a(k \<mapsto> v)\<rparr>)) = Inr n"
    by (auto simp: readable_def split: sum.splits)
  with u get e copied_annotation [OF assms(5)] that h show thesis
    by (simp add: updatePlanSecretLabelsAndAnnotations_def write_plan_secret_def)
qed

section \<open>The whole handshake\<close>

text \<open>The controller's side: it hears of the secret, the hooks are answered, it hears of it again.\<close>

definition controller_round :: "('w, 'z) drain_env_scheme \<Rightarrow> secret \<Rightarrow> string list \<Rightarrow> string \<Rightarrow> 'w \<Rightarrow> 'w" where
  "controller_round E sec hooks d w =
     (let ns = s_Namespace sec; n = s_Name sec in deliver E ns n (answer E ns n hooks d (deliver E ns n w)))"

definition handshake_keys :: "string list" where
  "handshake_keys = [PreDrainAnnotation, PostDrainAnnotation, DrainAnnotation, DrainDoneAnnotation, UnCordonAnnotation,
     DrainErrorAnnotation]"

text \<open>Hooks with annotations of their own.\<close>

definition own_hooks :: "DrainOptions \<Rightarrow> bool" where
  "own_hooks opts \<longleftrightarrow>
     list_all (\<lambda>h. h \<notin> set handshake_keys \<and> h \<noteq> JoinedToAnnotation) (dr_PreDrainHooks opts @ dr_PostDrainHooks opts)"

lemma answered_other: "k \<notin> set hooks \<Longrightarrow> answered a hooks d k = a k"
  by (simp add: answered_def)

lemma answered_nil [simp]: "answered a [] d = a"
  by (auto simp: answered_def)

lemma answered_checks: "checkHookAnnotations d hooks (sec\<lparr>s_Annotations := answered a hooks d\<rparr>)"
  by (auto simp: checkHookAnnotations_iff answered_def gets_def)

lemma own_hooksD:
  assumes "own_hooks opts"
  shows "k \<in> set handshake_keys \<or> k = JoinedToAnnotation \<Longrightarrow>
     k \<notin> set (dr_PreDrainHooks opts) \<and> k \<notin> set (dr_PostDrainHooks opts)"
  using assms by (auto simp: own_hooks_def list_all_iff)

lemma drain_round:
  assumes "answering E sec m" "holds E w sec a" "d_UnmarshalDrain E d = Inr opts" "d \<noteq> ''''" "own_hooks opts"
    and "a DrainAnnotation = Some d" "a DrainDoneAnnotation = None" "a PreDrainAnnotation = None"
    and "a UnCordonAnnotation = None" "a DrainErrorAnnotation = None"
  obtains a' where "holds E (controller_round E sec (dr_PreDrainHooks opts) d w) sec a'"
    "a' DrainAnnotation = Some d" "a' DrainDoneAnnotation = Some d"
    "\<And>k. k \<notin> set (PreDrainAnnotation # DrainDoneAnnotation # dr_PreDrainHooks opts) \<Longrightarrow> a' k = a k"
proof (cases "dr_PreDrainHooks opts = []")
  case True
  let ?a = "a(DrainDoneAnnotation \<mapsto> d)"
  have 1: "holds E (deliver E (s_Namespace sec) (s_Name sec) w) sec ?a"
    using deliver_drains [OF assms(1-4)] assms True by (simp add: gets_def)
  from holds_answer [OF _ this, of "[]" d] assms(1)
  have 2: "holds E (answer E (s_Namespace sec) (s_Name sec) [] d (deliver E (s_Namespace sec) (s_Name sec) w)) sec ?a"
    by (simp add: answering_def)
  from deliver_idle [OF assms(1) this] assms
  have "controller_round E sec [] d w = answer E (s_Namespace sec) (s_Name sec) [] d (deliver E (s_Namespace sec) (s_Name sec) w)"
    by (simp add: controller_round_def gets_def Let_def)
  with 2 that [of ?a] True assms show thesis by simp
next
  case False
  let ?a1 = "a(PreDrainAnnotation \<mapsto> d)"
  let ?a2 = "answered ?a1 (dr_PreDrainHooks opts) d"
  let ?w1 = "deliver E (s_Namespace sec) (s_Name sec) w"
  have keys: "?a2 k = ?a1 k" if "k \<in> set handshake_keys" for k
    using own_hooksD [OF assms(5)] that by (simp add: answered_other)
  have "holds E ?w1 sec ?a1"
    using deliver_announces [OF assms(1-4)] assms False by (simp add: gets_def)
  from holds_answer [OF _ this] assms(1)
  have "holds E (answer E (s_Namespace sec) (s_Name sec) (dr_PreDrainHooks opts) d ?w1) sec ?a2"
    by (simp add: answering_def)
  from deliver_drains [OF assms(1) this assms(3,4)] keys assms
  have "holds E (controller_round E sec (dr_PreDrainHooks opts) d w) sec (?a2(DrainDoneAnnotation \<mapsto> d))"
    by (simp add: controller_round_def Let_def answered_checks handshake_keys_def gets_def)
  with that [of "?a2(DrainDoneAnnotation \<mapsto> d)"] keys assms show thesis
    by (simp add: answered_other handshake_keys_def)
qed

lemma undrain_round:
  assumes "answering E sec m" "holds E w sec a" "d_UnmarshalDrain E d = Inr opts" "d \<noteq> ''''" "own_hooks opts"
    and "a DrainAnnotation = Some d" "a DrainDoneAnnotation = Some d" "a PostDrainAnnotation = None"
    and "a UnCordonAnnotation = Some d" "a DrainErrorAnnotation = None"
  shows "holds E (controller_round E sec (dr_PostDrainHooks opts) d w) sec (a |` (- set (drain_keys opts)))"
proof (cases "dr_PostDrainHooks opts = []")
  case True
  let ?a = "a |` (- set (drain_keys opts))"
  have 1: "holds E (deliver E (s_Namespace sec) (s_Name sec) w) sec ?a"
    using deliver_cleans [OF assms(1-3)] assms True by (simp add: gets_def)
  from holds_answer [OF _ this, of "[]" d] assms(1)
  have 2: "holds E (answer E (s_Namespace sec) (s_Name sec) [] d (deliver E (s_Namespace sec) (s_Name sec) w)) sec ?a"
    by (simp add: answering_def)
  from deliver_idle [OF assms(1) this] assms
  have "controller_round E sec [] d w = answer E (s_Namespace sec) (s_Name sec) [] d (deliver E (s_Namespace sec) (s_Name sec) w)"
    by (simp add: controller_round_def gets_def restrict_map_def drain_keys_def Let_def)
  with 2 True show ?thesis by simp
next
  case False
  let ?a1 = "a(PostDrainAnnotation \<mapsto> d)"
  let ?a2 = "answered ?a1 (dr_PostDrainHooks opts) d"
  let ?w1 = "deliver E (s_Namespace sec) (s_Name sec) w"
  have keys: "?a2 k = ?a1 k" if "k \<in> set handshake_keys" for k
    using own_hooksD [OF assms(5)] that by (simp add: answered_other)
  have "holds E ?w1 sec ?a1"
    using deliver_announces_post [OF assms(1-3)] assms False by (simp add: gets_def)
  from holds_answer [OF _ this] assms(1)
  have "holds E (answer E (s_Namespace sec) (s_Name sec) (dr_PostDrainHooks opts) d ?w1) sec ?a2"
    by (simp add: answering_def)
  from deliver_cleans [OF assms(1) this assms(3)] keys assms
  have "holds E (controller_round E sec (dr_PostDrainHooks opts) d w) sec (?a2 |` (- set (drain_keys opts)))"
    by (simp add: controller_round_def Let_def answered_checks handshake_keys_def gets_def)
  moreover have "?a2 |` (- set (drain_keys opts)) = a |` (- set (drain_keys opts))"
    by (auto simp: restrict_map_def drain_keys_def answered_def fun_eq_iff)
  ultimately show ?thesis by simp
qed

definition requested_options :: "DrainOptions \<Rightarrow> nat \<Rightarrow> DrainOptions" where
  "requested_options options machines = (if machines = 1 then options\<lparr>dr_Enabled := False\<rparr> else options)"

definition wants_drain :: "('w, 'z) drain_env_scheme \<Rightarrow> node_plan option \<Rightarrow> node_plan \<Rightarrow> nat \<Rightarrow> DrainOptions \<Rightarrow> bool" where
  "wants_drain E old new machines options \<longleftrightarrow>
     shouldDrain E old new \<and>
     (dr_Enabled options \<and> machines \<noteq> 1 \<or> dr_PreDrainHooks options \<noteq> [] \<or> dr_PostDrainHooks options \<noteq> [])"

text \<open>No trace of a handshake on the annotations.\<close>

definition untouched :: "DrainOptions \<Rightarrow> smap \<Rightarrow> bool" where
  "untouched opts a \<longleftrightarrow> list_all (\<lambda>k. a k = None) (DrainErrorAnnotation # drain_keys opts)"

lemma restrict_untouched:
  assumes "untouched opts a" "\<And>k. k \<notin> set (drain_keys opts) \<Longrightarrow> a' k = a k"
  shows "a' |` (- set (drain_keys opts)) = a"
  using assms by (auto simp: untouched_def list_all_iff restrict_map_def fun_eq_iff)

lemma planner_requests:
  assumes "answering E sec m" "plan_secret_of E e sec" "holds E w sec a" "readable E sec a"
    and "wants_drain E old new machines options" "optionsToString E options (machines = 1) = Inr d"
    and "gets a DrainAnnotation \<noteq> d"
  obtains e' w' where
    "drain E old new (reload E (s_Namespace sec) (s_Name sec) e w) machines options w = ((False, None), e', w')"
    "holds E w' sec (a(DrainAnnotation \<mapsto> d))"
proof -
  let ?e = "reload E (s_Namespace sec) (s_Name sec) e w"
  have e: "pe_Metadata ?e = Some \<lparr>md_Labels = s_Labels sec, md_Annotations = a\<rparr>" "pe_Machine ?e = pe_Machine e"
    by (simp_all add: reload_holds [OF assms(3)])
  obtain e' w' where "updatePlanSecretLabelsAndAnnotations E (set_annotation DrainAnnotation d ?e) w = (None, e', w')"
    "holds E w' sec (a(DrainAnnotation \<mapsto> d))"
    using planner_marks [OF _ assms(2) _ assms(3) _ _ assms(4), of DrainAnnotation d] assms(1)
    by (auto simp: answering_def watched_def)
  moreover have "entry_annotation ?e DrainAnnotation \<noteq> d" using assms(7) e by (simp add: entry_annotation_def)
  ultimately show thesis
    using that e assms(2,5,6) by (simp add: drain_def wants_drain_def plan_secret_of_def)
qed

lemma planner_requests_undrain:
  assumes "answering E sec m" "plan_secret_of E e sec" "holds E w sec a" "readable E sec a"
    and "gets a DrainAnnotation = d" "d \<noteq> ''''" "gets a UnCordonAnnotation \<noteq> d"
  obtains e' w' where
    "undrain E (reload E (s_Namespace sec) (s_Name sec) e w) w = ((False, None), e', w')"
    "holds E w' sec (a(UnCordonAnnotation \<mapsto> d))"
proof -
  let ?e = "reload E (s_Namespace sec) (s_Name sec) e w"
  have e: "pe_Metadata ?e = Some \<lparr>md_Labels = s_Labels sec, md_Annotations = a\<rparr>"
    by (simp add: reload_holds [OF assms(3)])
  obtain e' w' where "updatePlanSecretLabelsAndAnnotations E (set_annotation UnCordonAnnotation d ?e) w = (None, e', w')"
    "holds E w' sec (a(UnCordonAnnotation \<mapsto> d))"
    using planner_marks [OF _ assms(2) _ assms(3) _ _ assms(4), of UnCordonAnnotation d] assms(1)
    by (auto simp: answering_def watched_def)
  moreover have "entry_annotation ?e DrainAnnotation = d" "entry_annotation ?e UnCordonAnnotation \<noteq> d"
    using assms(5-7) e by (simp_all add: entry_annotation_def)
  ultimately show thesis using that assms(6) by (simp add: undrain_def)
qed

lemma planner_goes_on:
  assumes "holds E w sec a" "a DrainErrorAnnotation = None"
    and "optionsToString E options (machines = 1) = Inr d" "gets a DrainAnnotation = d" "gets a DrainDoneAnnotation = d"
  shows "drain E old new (reload E (s_Namespace sec) (s_Name sec) e w) machines options w =
    ((True, None), reload E (s_Namespace sec) (s_Name sec) e w, w)"
  using assms by (auto simp: drain_def reload_holds entry_annotation_def checkForDrainError_def gets_def)

lemma planner_settles:
  assumes "holds E w sec a" "a DrainErrorAnnotation = None" "a DrainAnnotation = None" "a UnCordonAnnotation = None"
  shows "undrain E (reload E (s_Namespace sec) (s_Name sec) e w) w =
    ((True, None), reload E (s_Namespace sec) (s_Name sec) e w, w)"
  using assms by (simp add: undrain_def reload_holds entry_annotation_def checkForDrainError_def gets_def)

text \<open>
  C15. The drain handshake completes. The planner's request, a round of the drain controller
  with the pre-drain hooks answered, the planner's request to uncordon and a round with the
  post-drain hooks answered: after the first round the planner may change the plan, after the
  second it holds the machine no longer, and the plan secret is exactly as it was before. For
  every options, with or without hooks, on an API server and a node that answer.
\<close>

theorem drain_cycle:
  assumes env: "answering E sec m" "drain_codec E" "plan_secret_of E e sec"
    and start: "d_SecretGet E (s_Namespace sec) (s_Name sec) w = Inr sec" "SecretToNode E (Some sec) = Inr n0"
    and opts: "untouched options (s_Annotations sec)" "own_hooks options" "wants_drain E old new machines options"
      "optionsToString E options (machines = 1) = Inr d"
    and entry: "entry = reload E (s_Namespace sec) (s_Name sec) e"
  shows "\<exists>e1 w1 e3 w3.
    drain E old new (entry w) machines options w = ((False, None), e1, w1) \<and>
    (let w2 = controller_round E sec (dr_PreDrainHooks options) d w1;
         w4 = controller_round E sec (dr_PostDrainHooks options) d w3 in
     drain E old new (entry w2) machines options w2 = ((True, None), entry w2, w2) \<and>
     undrain E (entry w2) w2 = ((False, None), e3, w3) \<and>
     undrain E (entry w4) w4 = ((True, None), entry w4, w4) \<and>
     d_SecretGet E (s_Namespace sec) (s_Name sec) w4 = Inr sec)"
proof -
  let ?a = "s_Annotations sec"
  let ?opts = "requested_options options machines"
  have json: "d \<noteq> ''''" "d_UnmarshalDrain E d = Inr ?opts"
    using env(2) opts(4) by (auto simp: drain_codec_def optionsToString_def requested_options_def)
  have same: "dr_PreDrainHooks ?opts = dr_PreDrainHooks options" "dr_PostDrainHooks ?opts = dr_PostDrainHooks options"
    "drain_keys ?opts = drain_keys options" "own_hooks ?opts"
    using opts(2) by (simp_all add: requested_options_def drain_keys_def own_hooks_def)
  have none: "?a k = None" if "k \<in> set handshake_keys" for k
    using opts(1) that by (auto simp: untouched_def drain_keys_def handshake_keys_def)
  have h0: "holds E w sec ?a" "readable E sec ?a" using start by (simp_all add: holds_def readable_def)
  obtain e1 w1 where 1: "drain E old new (entry w) machines options w = ((False, None), e1, w1)"
    and h1: "holds E w1 sec (?a(DrainAnnotation \<mapsto> d))"
    using planner_requests [OF env(1,3) h0 opts(3,4)] none [of DrainAnnotation] json entry
    by (auto simp: gets_def handshake_keys_def)
  let ?w2 = "controller_round E sec (dr_PreDrainHooks options) d w1"
  obtain a2 where h2: "holds E ?w2 sec a2" "a2 DrainAnnotation = Some d" "a2 DrainDoneAnnotation = Some d"
    and rest: "\<And>k. k \<notin> set (PreDrainAnnotation # DrainDoneAnnotation # dr_PreDrainHooks options) \<Longrightarrow>
        a2 k = (?a(DrainAnnotation \<mapsto> d)) k"
    using drain_round [OF env(1) h1 json(2,1) same(4)] none same(1) by (auto simp: handshake_keys_def)
  have keys: "a2 k = None" if "k \<in> {PostDrainAnnotation, UnCordonAnnotation, DrainErrorAnnotation}" for k
  proof -
    from that have k: "k \<in> set handshake_keys" "k \<noteq> PreDrainAnnotation" "k \<noteq> DrainDoneAnnotation" "k \<noteq> DrainAnnotation"
      by (auto simp: handshake_keys_def)
    with own_hooksD [OF opts(2), of k] rest [of k] none [of k] show ?thesis by simp
  qed
  have "readable E sec a2"
    using h0(2) rest [of JoinedToAnnotation] own_hooksD [OF opts(2), of JoinedToAnnotation]
      readable_cong [of a2 ?a E sec] by simp
  then obtain e3 w3 where 3: "undrain E (entry ?w2) ?w2 = ((False, None), e3, w3)" and h3: "holds E w3 sec (a2(UnCordonAnnotation \<mapsto> d))"
    using planner_requests_undrain [OF env(1,3) h2(1)] h2 keys json(1) entry by (auto simp: gets_def)
  have restored: "(a2(UnCordonAnnotation \<mapsto> d)) |` (- set (drain_keys options)) = ?a"
    using rest by (intro restrict_untouched opts(1)) (simp add: drain_keys_def)
  have h4: "holds E (controller_round E sec (dr_PostDrainHooks options) d w3) sec ?a"
    using undrain_round [OF env(1) h3 json(2,1) same(4)] h2 keys same(2,3) restored by simp
  have "drain E old new (entry ?w2) machines options ?w2 = ((True, None), entry ?w2, ?w2)"
    unfolding entry by (rule planner_goes_on [OF h2(1) _ opts(4)]) (use h2 keys in \<open>simp_all add: gets_def\<close>)
  moreover have "undrain E (entry (controller_round E sec (dr_PostDrainHooks options) d w3)) (controller_round E sec (dr_PostDrainHooks options) d w3) =
      ((True, None), entry (controller_round E sec (dr_PostDrainHooks options) d w3), controller_round E sec (dr_PostDrainHooks options) d w3)"
    unfolding entry by (rule planner_settles [OF h4]) (simp_all add: none handshake_keys_def)
  ultimately show ?thesis using 1 3 h4 unfolding Let_def holds_def by auto
qed

section \<open>What the done marker means\<close>

text \<open>Node operations may fail; they never write secrets.\<close>

definition nodes_keep_secrets :: "('w, 'z) drain_env_scheme \<Rightarrow> bool" where
  "nodes_keep_secrets E \<longleftrightarrow>
     (\<forall>h n b w. same_secrets E w (snd (d_RunCordonOrUncordon E h n b w))) \<and>
     (\<forall>h n w. same_secrets E w (snd (d_RunNodeDrain E h n w)))"

lemma same_secrets_refl [simp]: "same_secrets E w w"
  by (simp add: same_secrets_def)

lemma node_op_keeps:
  assumes "nodes_keep_secrets E"
  shows "same_secrets E w (snd (cordon E m opts w))" "same_secrets E w (snd (performDrain E m opts w))"
proof -
  show "same_secrets E w (snd (cordon E m opts w))"
  proof (cases "machine_node m")
    case (Some n)
    with assms show ?thesis
      by (cases "getHelper E m n opts w") (auto simp: cordon_def nodes_keep_secrets_def split_beta)
  qed (simp add: cordon_def)
  show "same_secrets E w (snd (performDrain E m opts w))"
  proof (cases "machine_node m")
    case (Some n)
    with assms show ?thesis
      by (cases "getHelper E m n opts w") (auto simp: performDrain_def nodes_keep_secrets_def split_beta)
  qed (simp add: performDrain_def)
qed

lemma quiet_mark_any:
  assumes "quiet_api E" "retry_law E" "holds E w sec a"
  obtains a1 w' where
    "updateSecretAnnotationIfCheckTrue E (sec\<lparr>s_Annotations := a\<rparr>) k v check w = ((Some (sec\<lparr>s_Annotations := a1\<rparr>), None), w')"
    "holds E w' sec a1" "a1 = a \<or> a1 = a(k \<mapsto> v)"
proof (cases "check (sec\<lparr>s_Annotations := a\<rparr>) \<and> gets a k \<noteq> v")
  case True
  with quiet_mark [OF assms] that show thesis by blast
next
  case False
  then have "update_attempt E k v check (w, Some (sec\<lparr>s_Annotations := a\<rparr>)) = (Inr (), w, Some (sec\<lparr>s_Annotations := a\<rparr>))"
    using assms(3) by (auto simp: update_attempt_def secret_key_def holds_def)
  from that [OF retried_first [where f = "update_attempt E k v check", OF assms(2) this, folded updateSecretAnnotationIfCheckTrue_def] assms(3)]
  show thesis by simp
qed

lemma report_keeps:
  assumes "quiet_api E" "holds E w sec a" "(case v of None \<Rightarrow> old | Some s \<Rightarrow> s) = sec\<lparr>s_Annotations := a\<rparr>"
  shows "\<exists>a'. holds E (report_drain_error E old v err w) sec a' \<and> (\<forall>k. k \<noteq> DrainErrorAnnotation \<longrightarrow> a' k = a k)"
proof -
  let ?a = "a(DrainErrorAnnotation := (case err of None \<Rightarrow> None | Some e \<Rightarrow> Some (Error e)))"
  obtain w' where "e_SecretUpdate E (sec\<lparr>s_Annotations := ?a\<rparr>) w = (Inr (sec\<lparr>s_Annotations := ?a\<rparr>), w')" "holds E w' sec ?a"
    using quiet_update [OF assms(1)] by blast
  with assms(2,3) have "holds E (report_drain_error E old v err w) sec a \<or> holds E (report_drain_error E old v err w) sec ?a"
    by (simp add: report_drain_error_def Let_def)
  then show ?thesis by (metis fun_upd_other)
qed

text \<open>What has to have happened before the node counts as drained.\<close>

definition drained :: "('w, 'z) drain_env_scheme \<Rightarrow> secret \<Rightarrow> cluster_machine \<Rightarrow> string \<Rightarrow> 'w \<Rightarrow> bool" where
  "drained E sec m d w \<longleftrightarrow>
     (case d_UnmarshalDrain E d of
        Inl _ \<Rightarrow> False
      | Inr opts \<Rightarrow>
          checkHookAnnotations d (dr_PreDrainHooks opts) sec \<and>
          (case cordon E m opts w of
             (Inl _, _) \<Rightarrow> False
           | (Inr _, w1) \<Rightarrow> dr_Enabled opts \<longrightarrow> fst (performDrain E m opts w1) = Inr ()))"

lemma drain_secret_marks:
  assumes "quiet_api E" "retry_law E" "nodes_keep_secrets E" "holds E w sec a"
    and "drain_secret E (sec\<lparr>s_Annotations := a\<rparr>) m d w = ((v, err), w1)" "gets a DrainDoneAnnotation \<noteq> d"
  shows "\<exists>a1. holds E w1 sec a1 \<and> (case v of None \<Rightarrow> sec\<lparr>s_Annotations := a\<rparr> | Some s \<Rightarrow> s) = sec\<lparr>s_Annotations := a1\<rparr> \<and>
    (gets a1 DrainDoneAnnotation = d \<longrightarrow> drained E (sec\<lparr>s_Annotations := a\<rparr>) m d w)"
proof (cases "d_UnmarshalDrain E d")
  case (Inl e)
  with assms(4-) show ?thesis by (auto simp: drain_secret_def)
next
  case (Inr opts)
  let ?sec = "sec\<lparr>s_Annotations := a\<rparr>"
  obtain r wc where c: "cordon E m opts w = (r, wc)" by fastforce
  with node_op_keeps(1) [OF assms(3), of w m opts] same_secrets_holds assms(4) have hc: "holds E wc sec a" by fastforce
  show ?thesis
  proof (cases r)
    case (Inl e)
    with assms(5,6) Inr c hc show ?thesis by (auto simp: drain_secret_def)
  next
    case ok: (Inr u)
    let ?done = "checkHookAnnotations d (dr_PreDrainHooks opts)"
    let ?unset = "secretAnnotationDoesNotHaveValue PreDrainAnnotation d"
    consider (announce) "dr_PreDrainHooks opts \<noteq> []" "?unset ?sec" | (wait) "dr_PreDrainHooks opts \<noteq> []" "\<not> ?unset ?sec" "\<not> ?done ?sec"
      | (go) "dr_PreDrainHooks opts = [] \<or> \<not> ?unset ?sec \<and> ?done ?sec" by blast
    then show ?thesis
    proof cases
      case announce
      from quiet_mark_any [OF assms(1,2) hc] obtain a1 w' where
        u: "updateSecretAnnotationIfCheckTrue E ?sec PreDrainAnnotation d ?unset wc = ((Some (sec\<lparr>s_Annotations := a1\<rparr>), None), w')"
        and h: "holds E w' sec a1" and a1: "a1 = a \<or> a1 = a(PreDrainAnnotation \<mapsto> d)" by blast
      from a1 have "gets a1 DrainDoneAnnotation = gets a DrainDoneAnnotation" by auto
      with assms(5,6) Inr c ok announce u h show ?thesis by (auto simp: drain_secret_def)
    next
      case wait
      with assms(5,6) Inr c ok hc show ?thesis by (auto simp: drain_secret_def)
    next
      case go
      then have hooks: "?done ?sec" by auto
      obtain r2 w2 where p: "(if dr_Enabled opts then performDrain E m opts wc else (Inr (), wc)) = (r2, w2)" by fastforce
      with node_op_keeps(2) [OF assms(3), of wc m opts] same_secrets_holds [OF _ hc] hc have h2: "holds E w2 sec a"
        by (fastforce split: if_splits)
      show ?thesis
      proof (cases r2)
        case (Inl e)
        with assms(5,6) Inr c ok go p h2 show ?thesis by (auto simp: drain_secret_def)
      next
        case (Inr u2)
        with p hooks c ok \<open>d_UnmarshalDrain E d = Inr opts\<close> have "drained E ?sec m d w"
          by (auto simp: drained_def split: if_splits)
        from quiet_mark_any [OF assms(1,2) h2] obtain a1 w' where
          u: "updateSecretAnnotationIfCheckTrue E ?sec DrainDoneAnnotation d ?done w2 = ((Some (sec\<lparr>s_Annotations := a1\<rparr>), None), w')"
          and h: "holds E w' sec a1" by blast
        have "drain_secret E ?sec m d w = ((Some (sec\<lparr>s_Annotations := a1\<rparr>), None), w')"
          using Inr c ok go p u \<open>d_UnmarshalDrain E d = Inr opts\<close> by (auto simp: drain_secret_def)
        with assms(5) h \<open>drained E ?sec m d w\<close> show ?thesis by auto
      qed
    qed
  qed
qed

text \<open>
  C16. The done marker is never set too early. When the controller is given a stored plan secret
  whose drain is requested and not done, and the stored secret then says it is done, the
  machine was found, the options decoded, every pre-drain hook had answered with these options
  on the secret the controller was given, and the cordon - and the drain, when it is enabled -
  of the node succeeded, whatever failed before.
\<close>

theorem drain_done_means:
  assumes "quiet_api E" "retry_law E" "nodes_keep_secrets E"
    and get: "d_SecretGet E (s_Namespace sec) (s_Name sec) w = Inr sec"
    and asked: "gets (s_Annotations sec) DrainAnnotation = d" "d \<noteq> ''''" "gets (s_Annotations sec) DrainDoneAnnotation \<noteq> d"
    and after: "d_SecretGet E (s_Namespace sec) (s_Name sec) (deliver E (s_Namespace sec) (s_Name sec) w) = Inr sec'"
      "gets (s_Annotations sec') DrainDoneAnnotation = d"
  shows "\<exists>m. d_MachineGet E (s_Namespace sec) (gets (s_Labels sec) MachineNameLabel) w = Inr m \<and> drained E sec m d w"
proof (cases "s_Type sec = SecretTypeMachinePlan \<and> gets (s_Labels sec) MachineNameLabel \<noteq> '''' \<and>
    (\<exists>m. d_MachineGet E (s_Namespace sec) (gets (s_Labels sec) MachineNameLabel) w = Inr m)")
  case False
  then have "deliver E (s_Namespace sec) (s_Name sec) w = w"
    using get by (auto simp: deliver_def drain_OnChange_def Let_def split: sum.splits)
  with get asked after show ?thesis by simp
next
  case True
  then obtain m where m: "d_MachineGet E (s_Namespace sec) (gets (s_Labels sec) MachineNameLabel) w = Inr m" by blast
  obtain v err w1 where run: "drain_secret E sec m d w = ((v, err), w1)" by (metis prod.exhaust)
  from get have h: "holds E w sec (s_Annotations sec)" by (simp add: holds_def)
  have self: "sec\<lparr>s_Annotations := s_Annotations sec\<rparr> = sec" by simp
  from drain_secret_marks [OF assms(1-3) h, unfolded self, OF run asked(3)] obtain a1 where
    a1: "holds E w1 sec a1" "(case v of None \<Rightarrow> sec | Some s \<Rightarrow> s) = sec\<lparr>s_Annotations := a1\<rparr>"
      "gets a1 DrainDoneAnnotation = d \<Longrightarrow> drained E sec m d w" by auto
  have "deliver E (s_Namespace sec) (s_Name sec) w = report_drain_error E sec v err w1"
    using True get m run asked by (simp add: deliver_def drain_OnChange_def drain_step_def)
  with report_keeps [OF assms(1) a1(1,2), of err] obtain a2 where
    "d_SecretGet E (s_Namespace sec) (s_Name sec) (deliver E (s_Namespace sec) (s_Name sec) w) = Inr (sec\<lparr>s_Annotations := a2\<rparr>)"
    "a2 DrainDoneAnnotation = a1 DrainDoneAnnotation"
    by (auto simp: holds_def)
  with after a1(3) m show ?thesis by (auto simp: gets_def)
qed

section \<open>A concrete run\<close>

text \<open>
  The world of secrets of the planner's example with a node that accepts everything, and two
  drain options with their encodings: one with a hook on each side.
\<close>

definition hooked_drain :: DrainOptions where
  "hooked_drain = no_drain\<lparr>dr_Enabled := True, dr_PreDrainHooks := [''example.com/pre''],
     dr_PostDrainHooks := [''example.com/post'']\<rparr>"

definition demo_drain_machine :: cluster_machine where
  "demo_drain_machine = cluster_machine_of ''c'' (demo_machine ''w'')"

definition demo_kubeconfig :: secret where
  "demo_kubeconfig = \<lparr>s_Namespace = ''fleet-default'', s_Name = ''c-kubeconfig'', s_Type = ''Opaque'', s_Labels = Map.empty,
     s_Annotations = Map.empty, s_Data = Map.empty\<rparr>"

definition demo_drain_env :: "demo_world drain_env" where
  "demo_drain_env = planner_env.extend
     (demo_planner\<lparr>k_SecretCacheGet := (\<lambda>_ _ _. Inr demo_kubeconfig),
        q_DrainJSON := (\<lambda>opts. if opts = hooked_drain then Inr ''{hooked}'' else Inl (ErrOther ''unsupported''))\<rparr>)
     \<lparr>d_MachineGet = (\<lambda>_ _ _. Inr demo_drain_machine),
      d_SecretGet = (\<lambda>ns n w. case w n of None \<Rightarrow> Inl (ErrNotFound n) | Some s \<Rightarrow> Inr s),
      d_Retry = (\<lambda>f. f), d_UnmarshalDrain = (\<lambda>_. Inr hooked_drain), d_RESTConfig = (\<lambda>v. Inr v),
      d_NewForConfig = (\<lambda>c. Inr c), d_NodeGet = (\<lambda>_ n _. Inr n),
      d_RunCordonOrUncordon = (\<lambda>_ _ _ w. (Inr (), w)), d_RunNodeDrain = (\<lambda>_ _ w. (Inr (), w))\<rparr>"

definition demo_plan_secret :: secret where
  "demo_plan_secret = \<lparr>s_Namespace = ''fleet-default'', s_Name = PlanSecretFromBootstrapName demo_drain_env ''w'',
     s_Type = SecretTypeMachinePlan, s_Labels = [MachineNameLabel \<mapsto> ''w''], s_Annotations = Map.empty, s_Data = Map.empty\<rparr>"

definition demo_drain_world :: demo_world where
  "demo_drain_world = [''w-machine-plan'' \<mapsto> demo_plan_secret]"

lemma demo_drain_fields [simp]:
  "e_SecretUpdate demo_drain_env = (\<lambda>s w. (Inr s, w(s_Name s \<mapsto> s)))"
  "e_SecretGet demo_drain_env = (\<lambda>ns n w. case w n of None \<Rightarrow> Inl (ErrNotFound n) | Some s \<Rightarrow> Inr s)"
  "d_SecretGet demo_drain_env = (\<lambda>ns n w. case w n of None \<Rightarrow> Inl (ErrNotFound n) | Some s \<Rightarrow> Inr s)"
  "d_Retry demo_drain_env = (\<lambda>f. f)" "d_MachineGet demo_drain_env = (\<lambda>_ _ _. Inr demo_drain_machine)"
  "k_SecretCacheGet demo_drain_env = (\<lambda>_ _ _. Inr demo_kubeconfig)"
  "d_RESTConfig demo_drain_env = (\<lambda>v. Inr v)" "d_NewForConfig demo_drain_env = (\<lambda>v. Inr v)"
  "d_NodeGet demo_drain_env = (\<lambda>_ n _. Inr n)" "d_UnmarshalDrain demo_drain_env = (\<lambda>_. Inr hooked_drain)"
  "d_RunCordonOrUncordon demo_drain_env = (\<lambda>_ _ _ w. (Inr (), w))" "d_RunNodeDrain demo_drain_env = (\<lambda>_ _ w. (Inr (), w))"
  "q_DrainJSON demo_drain_env = (\<lambda>opts. if opts = hooked_drain then Inr ''{hooked}'' else Inl (ErrOther ''unsupported''))"
  by (simp_all add: demo_drain_env_def demo_planner_def demo_config_def demo_store_def demo_libs_def
      planner_env.defs config_env.defs store_env.defs libs.defs)

lemma demo_drain_laws: "quiet_api demo_drain_env" "retry_law demo_drain_env" "nodes_keep_secrets demo_drain_env"
    "reachable_node demo_drain_env m" "drain_codec demo_drain_env"
  by (auto simp: quiet_api_def retry_law_def nodes_keep_secrets_def reachable_node_def drain_codec_def)

lemma demo_drain_watched: "watched demo_drain_env demo_plan_secret demo_drain_machine"
  by (simp add: watched_def demo_plan_secret_def demo_drain_machine_def machine_node_def demo_machine_def)

lemma demo_drain_facts:
  "s_Name demo_plan_secret = ''w-machine-plan''"
  "plan_secret_of demo_drain_env demo_drained demo_plan_secret"
  "untouched hooked_drain (s_Annotations demo_plan_secret)" "own_hooks hooked_drain"
  "wants_drain demo_drain_env (Some (demo_stamped ''1'')) (demo_stamped ''2'') 3 hooked_drain"
  "optionsToString demo_drain_env hooked_drain False = Inr ''{hooked}''"
  by code_simp+

lemma demo_drain_readable: "SecretToNode demo_drain_env (Some demo_plan_secret) = Inr None"
  by (simp add: SecretToNode_def demo_plan_secret_def secret_failed_def secret_probes_def gets_def)

theorem drain_cycle_witness:
  "\<exists>e1 w1 e3 w3.
     drain demo_drain_env (Some (demo_stamped ''1'')) (demo_stamped ''2'')
       (reload demo_drain_env ''fleet-default'' ''w-machine-plan'' demo_drained demo_drain_world) 3 hooked_drain demo_drain_world =
       ((False, None), e1, w1) \<and>
     undrain demo_drain_env (reload demo_drain_env ''fleet-default'' ''w-machine-plan'' demo_drained
       (controller_round demo_drain_env demo_plan_secret [''example.com/pre''] ''{hooked}'' w1))
       (controller_round demo_drain_env demo_plan_secret [''example.com/pre''] ''{hooked}'' w1) = ((False, None), e3, w3) \<and>
     controller_round demo_drain_env demo_plan_secret [''example.com/post''] ''{hooked}'' w3 ''w-machine-plan'' = Some demo_plan_secret"
proof -
  have start: "d_SecretGet demo_drain_env (s_Namespace demo_plan_secret) (s_Name demo_plan_secret) demo_drain_world = Inr demo_plan_secret"
    by (simp add: demo_drain_facts(1) demo_drain_world_def)
  have answering: "answering demo_drain_env demo_plan_secret demo_drain_machine"
    using demo_drain_laws demo_drain_watched by (simp add: answering_def)
  have hooks: "dr_PreDrainHooks hooked_drain = [''example.com/pre'']" "dr_PostDrainHooks hooked_drain = [''example.com/post'']"
    by (simp_all add: hooked_drain_def)
  have ns: "s_Namespace demo_plan_secret = ''fleet-default''" by (simp add: demo_plan_secret_def)
  from drain_cycle [OF answering demo_drain_laws(5) demo_drain_facts(2) start demo_drain_readable demo_drain_facts(3-5) _ refl]
    demo_drain_facts(6)
  show ?thesis unfolding hooks ns demo_drain_facts(1) Let_def by (fastforce split: option.splits)
qed

definition demo_hook_answered :: secret where
  "demo_hook_answered = demo_plan_secret\<lparr>s_Annotations := [DrainAnnotation \<mapsto> ''{hooked}'', PreDrainAnnotation \<mapsto> ''{hooked}'',
     ''example.com/pre'' \<mapsto> ''{hooked}'']\<rparr>"

theorem drain_done_means_witness:
  "drained demo_drain_env demo_hook_answered demo_drain_machine ''{hooked}'' [''w-machine-plan'' \<mapsto> demo_hook_answered] \<and>
   \<not> drained demo_drain_env demo_plan_secret demo_drain_machine ''{hooked}'' [''w-machine-plan'' \<mapsto> demo_plan_secret]"
proof -
  let ?w = "[''w-machine-plan'' \<mapsto> demo_hook_answered]"
  have n: "s_Namespace demo_hook_answered = ''fleet-default''" "s_Name demo_hook_answered = ''w-machine-plan''"
    "gets (s_Annotations demo_hook_answered) DrainAnnotation = ''{hooked}''"
    "gets (s_Annotations demo_hook_answered) DrainDoneAnnotation \<noteq> ''{hooked}''"
    by code_simp+
  have "(case deliver demo_drain_env ''fleet-default'' ''w-machine-plan'' ?w ''w-machine-plan'' of
      None \<Rightarrow> False | Some s \<Rightarrow> gets (s_Annotations s) DrainDoneAnnotation = ''{hooked}'')"
    by code_simp
  then obtain s where s: "deliver demo_drain_env ''fleet-default'' ''w-machine-plan'' ?w ''w-machine-plan'' = Some s"
    "gets (s_Annotations s) DrainDoneAnnotation = ''{hooked}''" by (auto split: option.splits)
  have "\<exists>m. d_MachineGet demo_drain_env (s_Namespace demo_hook_answered) (gets (s_Labels demo_hook_answered) MachineNameLabel) ?w = Inr m \<and>
      drained demo_drain_env demo_hook_answered m ''{hooked}'' ?w"
    by (rule drain_done_means [OF demo_drain_laws(1-3), where sec' = s]) (use n s in simp_all)
  then have "drained demo_drain_env demo_hook_answered demo_drain_machine ''{hooked}'' ?w" by simp
  moreover have "\<not> drained demo_drain_env demo_plan_secret demo_drain_machine ''{hooked}'' [''w-machine-plan'' \<mapsto> demo_plan_secret]"
    by code_simp
  ultimately show ?thesis by blast
qed

end
