(* ===== verification/Plan_Secret.thy ===== *)
theory Plan_Secret
  imports Controller_Env "HOL-Library.AList"
begin

text \<open>
  The controller of plan secrets (\<open>controllers/capr/plansecret/plansecret.go\<close>): when the agent on
  a machine reports that it has applied the plan of its secret, the controller records the
  plan as applied, marks the first time the probes pass, sets the machine's condition, and
  keeps the snapshot objects of the cluster in step with the snapshots listed on the node.
  The annotations of a plan secret are a map that can be written: \<open>UpdatePlan\<close> has set two.
\<close>

section \<open>Environment\<close>

record object_owner = owner_ref +
  ow_UID :: string
  ow_BlockOwnerDeletion :: bool

record snapshot_object = ETCDSnapshot +
  es_Annotations :: smap
  es_OwnerReferences :: "object_owner list"
  es_ClusterName :: string
  es_Location :: string
  es_NodeName :: string
  es_Missing :: bool

text \<open>
  The clients, CAPI's conditions with a severity, and the order in which Go ranges over a map
  of listed snapshots.
\<close>

record listed_snapshot =
  ls_Name :: string
  ls_Location :: string
  ls_Size :: string
  ls_Created :: string
  ls_S3 :: bool

record 'w plansecret_env = "'w planner_env" +
  p_MachineGet :: "string \<Rightarrow> string \<Rightarrow> 'w \<Rightarrow> go_error + cluster_machine"
  p_UpdateStatus :: "cluster_machine \<Rightarrow> ('w, unit) go"
  p_GetMessage :: "string \<Rightarrow> cond list \<Rightarrow> string"
  p_GetReason :: "string \<Rightarrow> cond list \<Rightarrow> string"
  p_GetSeverity :: "string \<Rightarrow> cond list \<Rightarrow> string option"
  p_IsTrue :: "string \<Rightarrow> cond list \<Rightarrow> bool"
  p_MarkFalse :: "string \<Rightarrow> string \<Rightarrow> string \<Rightarrow> string \<Rightarrow> cond list \<Rightarrow> cond list"
  p_SnapshotList :: "string \<Rightarrow> (string \<times> string) list \<Rightarrow> 'w \<Rightarrow> go_error + snapshot_object list"
  p_SnapshotDelete :: "string \<Rightarrow> string \<Rightarrow> ('w, unit) go"
  p_SnapshotCreate :: "snapshot_object \<Rightarrow> ('w, unit) go"
  p_IsAlreadyExists :: "go_error \<Rightarrow> bool"
  p_Range :: "(string \<times> listed_snapshot) list \<Rightarrow> (string \<times> listed_snapshot) list"

definition PlanApplied :: string where "PlanApplied = ''PlanApplied''"
definition StorageAnnotationKey :: string where "StorageAnnotationKey = ''etcdsnapshot.rke.io/storage''"
definition SnapshotNameKey :: string where "SnapshotNameKey = ''etcdsnapshot.rke.io/snapshot-file-name''"
definition StorageLocal :: string where "StorageLocal = ''local''"

section \<open>The machine's condition\<close>

definition plan_apply_error :: go_error where
  "plan_apply_error =
     ErrOther ''error applying plan -- check rancher-system-agent.service logs on node for more information''"

text \<open>Whether the condition has to be marked false for an error; a missing severity is a nil pointer.\<close>

definition error_not_shown :: "('w, 'z) plansecret_env_scheme \<Rightarrow> cond list \<Rightarrow> go_error \<Rightarrow> go_error + bool" where
  "error_not_shown E cs e =
     (if p_GetMessage E PlanApplied cs \<noteq> Error e then Inr True
      else
        (case p_GetSeverity E PlanApplied cs of
           None \<Rightarrow> Inl (GoPanic ''nil severity'')
         | Some sev \<Rightarrow>
             Inr (sev \<noteq> ''Error'' \<or> \<not> q_IsFalse E PlanApplied cs \<or> p_GetReason E PlanApplied cs \<noteq> ''Error'')))"

definition machine_label_missing :: "secret \<Rightarrow> go_error" where
  "machine_label_missing sec = ErrOther (''did not find machine label on secret '' @ s_Namespace sec @ ''/'' @ s_Name sec)"

definition reconcileMachinePlanAppliedCondition ::
  "('w, 'z) plansecret_env_scheme \<Rightarrow> secret option \<Rightarrow> err \<Rightarrow> ('w, unit) go" where
  "reconcileMachinePlanAppliedCondition E sec planAppliedErr w =
     (case sec of
        None \<Rightarrow> (Inr (), w)
      | Some sec \<Rightarrow>
          (case s_Labels sec MachineNameLabel of
             None \<Rightarrow> (Inl (machine_label_missing sec), w)
           | Some machineName \<Rightarrow>
               (case p_MachineGet E (s_Namespace sec) machineName w of
                  Inl e \<Rightarrow> (Inl e, w)
                | Inr machine \<Rightarrow>
                    let cs = m_Conditions machine in
                    (case planAppliedErr of
                       Some e \<Rightarrow>
                         (case error_not_shown E cs e of
                            Inl p \<Rightarrow> (Inl p, w)
                          | Inr True \<Rightarrow>
                              p_UpdateStatus E (machine\<lparr>m_Conditions := p_MarkFalse E PlanApplied ''Error'' ''Error'' (Error e) cs\<rparr>) w
                          | Inr False \<Rightarrow> (Inr (), w))
                     | None \<Rightarrow>
                         if \<not> p_IsTrue E PlanApplied cs
                         then p_UpdateStatus E (machine\<lparr>m_Conditions := q_MarkTrue E PlanApplied cs\<rparr>) w
                         else (Inr (), w)))))"

section \<open>Listed snapshots\<close>

text \<open>\<open>strings.Fields\<close> on ASCII white space.\<close>

function Fields :: "string \<Rightarrow> string list" where
  "Fields s =
     (let s' = dropWhile is_space s in
      if s' = [] then [] else takeWhile (\<lambda>c. \<not> is_space c) s' # Fields (dropWhile (\<lambda>c. \<not> is_space c) s'))"
  by pat_completeness auto

lemma dropWhile_head: "dropWhile P s \<noteq> [] \<Longrightarrow> \<not> P (hd (dropWhile P s))"
  by (induction s) (auto split: if_splits)

lemma dropWhile_token_shorter:
  assumes "dropWhile P s \<noteq> []"
  shows "length (dropWhile (\<lambda>c. \<not> P c) (dropWhile P s)) < length s"
proof -
  obtain c cs where c: "dropWhile P s = c # cs" using assms by (cases "dropWhile P s") auto
  with dropWhile_head [OF assms] have "dropWhile (\<lambda>c. \<not> P c) (c # cs) = dropWhile (\<lambda>c. \<not> P c) cs" by simp
  with length_dropWhile_le [of "\<lambda>c. \<not> P c" cs] length_dropWhile_le [of P s] c show ?thesis by simp
qed

termination Fields
  by (relation "measure length") (auto simp: dropWhile_token_shorter)

declare Fields.simps [simp del]

text \<open>
  \<open>InvalidKeyChars.ReplaceAllString(s, "-")\<close> on UTF-8: a character outside the class becomes one
  dash, so the continuation bytes of a longer one disappear.
\<close>

definition key_char :: "char \<Rightarrow> bool" where
  "key_char c \<longleftrightarrow> c = CHR ''-'' \<or> c = CHR ''.'' \<or> (CHR ''a'' \<le> c \<and> c \<le> CHR ''z'') \<or>
     (CHR ''A'' \<le> c \<and> c \<le> CHR ''Z'') \<or> (CHR ''0'' \<le> c \<and> c \<le> CHR ''9'')"

definition replace_invalid :: "string \<Rightarrow> string" where
  "replace_invalid s =
     concat (map (\<lambda>c. if key_char c then [c] else if of_char c div (64::nat) = 2 then [] else ''-'') s)"

definition generateEtcdSnapshotFromListOutput :: "string \<Rightarrow> go_error + listed_snapshot" where
  "generateEtcdSnapshotFromListOutput input =
     (case Fields input of
        [a, b, c] \<Rightarrow>
          Inr \<lparr>ls_Name = ToLower (replace_invalid a), ls_Location = '''', ls_Size = b, ls_Created = c, ls_S3 = True\<rparr>
      | [a, b, c, d] \<Rightarrow>
          Inr \<lparr>ls_Name = ToLower (replace_invalid a), ls_Location = b, ls_Size = c, ls_Created = d, ls_S3 = False\<rparr>
      | _ \<Rightarrow> Inl (ErrOther (''input ('' @ input @ '') did not have 3 or 4 fields'')))"

definition is_list_header :: "string list \<Rightarrow> bool" where
  "is_list_header s \<longleftrightarrow>
     map ToLower s = [''name'', ''size'', ''created''] \<or> map ToLower s = [''name'', ''location'', ''size'', ''created'']"

definition listed_key :: "string \<Rightarrow> listed_snapshot \<Rightarrow> string" where
  "listed_key clusterName ss = clusterName @ ''-'' @ ls_Name ss @ ''-'' @ (if ls_S3 ss then ''s3'' else ''local'')"

fun output_lines :: "string \<Rightarrow> string list \<Rightarrow> (string \<times> listed_snapshot) list \<Rightarrow> (string \<times> listed_snapshot) list" where
  "output_lines clusterName [] snapshots = snapshots"
| "output_lines clusterName (line # lines) snapshots =
     output_lines clusterName lines
       (if is_list_header (Fields line) then snapshots
        else
          (case generateEtcdSnapshotFromListOutput line of
             Inl _ \<Rightarrow> snapshots
           | Inr ss \<Rightarrow> AList.update (listed_key clusterName ss) ss snapshots))"

definition outputToEtcdSnapshots :: "string \<Rightarrow> string \<Rightarrow> (string \<times> listed_snapshot) list" where
  "outputToEtcdSnapshots clusterName collectedOutput = output_lines clusterName (scan_lines collectedOutput) []"

section \<open>Snapshot objects\<close>

definition machineOwnerRef :: "cluster_machine \<Rightarrow> object_owner" where
  "machineOwnerRef machine =
     \<lparr>ow_APIVersion = m_APIVersion machine, ow_Kind = m_Kind machine, ow_Name = m_Name machine, ow_Controller = True,
      ow_UID = m_UID machine, ow_BlockOwnerDeletion = True\<rparr>"

fun delete_missing ::
  "('w, 'z) plansecret_env_scheme \<Rightarrow> (string \<times> listed_snapshot) list \<Rightarrow> snapshot_object list \<Rightarrow> ('w, unit) go" where
  "delete_missing E onNode [] w = (Inr (), w)"
| "delete_missing E onNode (v # vs) w =
     (if map_of onNode (es_Name v) = None \<and> es_Missing v
      then bindE (p_SnapshotDelete E (es_Namespace v) (es_Name v)) (\<lambda>_. delete_missing E onNode vs) w
      else delete_missing E onNode vs w)"

definition new_snapshot ::
  "('w, 'z) plansecret_env_scheme \<Rightarrow> secret \<Rightarrow> string \<Rightarrow> cluster_machine \<Rightarrow> string \<Rightarrow> listed_snapshot \<Rightarrow> snapshot_object" where
  "new_snapshot E sec cnl machine nodeName v =
     \<lparr>es_Namespace = s_Namespace sec, es_Name = lib_SafeConcatName E [cnl, ls_Name v, StorageLocal],
      es_Labels = [ClusterNameLabel \<mapsto> cnl, MachineIDLabel \<mapsto> gets (m_Labels machine) MachineIDLabel],
      es_FileName = ls_Name v, es_FileMetadata = '''', es_S3 = None,
      es_Annotations = [SnapshotNameKey \<mapsto> ls_Name v, StorageAnnotationKey \<mapsto> StorageLocal],
      es_OwnerReferences = [machineOwnerRef machine], es_ClusterName = cnl, es_Location = ls_Location v,
      es_NodeName = nodeName, es_Missing = False\<rparr>"

fun create_listed ::
  "('w, 'z) plansecret_env_scheme \<Rightarrow> (listed_snapshot \<Rightarrow> snapshot_object) \<Rightarrow> string list \<Rightarrow>
   (string \<times> listed_snapshot) list \<Rightarrow> ('w, unit) go" where
  "create_listed E mk indexed [] w = (Inr (), w)"
| "create_listed E mk indexed ((k, v) # vs) w =
     (if k \<in> set indexed then create_listed E mk indexed vs w
      else
        (case p_SnapshotCreate E (mk v) w of
           (Inl e, w') \<Rightarrow>
             if p_IsAlreadyExists E e then create_listed E mk indexed vs w'
             else (Inl (ErrWrap ''error while creating etcd snapshot'' e), w')
         | (Inr _, w') \<Rightarrow> create_listed E mk indexed vs w'))"

text \<open>The machine a local list is for, and the selector of the objects it is compared with.\<close>

definition list_scope ::
  "('w, 'z) plansecret_env_scheme \<Rightarrow> secret \<Rightarrow> bool \<Rightarrow> string \<Rightarrow> string \<Rightarrow> 'w \<Rightarrow>
   go_error + (cluster_machine option \<times> (string \<times> string) list)" where
  "list_scope E sec s3 cnl machineName w =
     (if s3 then Inr (None, [(ClusterNameLabel, cnl), (NodeNameLabel, ''s3'')])
      else
        sbind (p_MachineGet E (s_Namespace sec) machineName w) (\<lambda>machine.
          if gets (m_Labels machine) MachineIDLabel \<noteq> ''''
          then Inr (Some machine, [(ClusterNameLabel, cnl), (MachineIDLabel, gets (m_Labels machine) MachineIDLabel)])
          else Inl (ErrOther (''error finding machine ID for machine '' @ m_Namespace machine @ ''/'' @ m_Name machine))))"

definition reconcileEtcdSnapshotList ::
  "('w, 'z) plansecret_env_scheme \<Rightarrow> secret \<Rightarrow> bool \<Rightarrow> string \<Rightarrow> ('w, unit) go" where
  "reconcileEtcdSnapshotList E sec s3 listStdout w =
     (let cnl = gets (s_Labels sec) ClusterNameLabel in
      if length cnl = 0 then (Inl (ErrOther (''node secret did not have label '' @ ClusterNameLabel)), w)
      else
        (case s_Labels sec MachineNameLabel of
           None \<Rightarrow> (Inl (machine_label_missing sec), w)
         | Some machineName \<Rightarrow>
             (case list_scope E sec s3 cnl machineName w of
                Inl e \<Rightarrow> (Inl e, w)
              | Inr (machine, selector) \<Rightarrow>
                  let onNode = outputToEtcdSnapshots cnl listStdout in
                  (case p_SnapshotList E (s_Namespace sec) selector w of
                     Inl e \<Rightarrow> (Inl e, w)
                   | Inr etcdSnapshots \<Rightarrow>
                       bindE (delete_missing E onNode etcdSnapshots) (\<lambda>_.
                         case machine of
                           None \<Rightarrow> retE ()
                         | Some m \<Rightarrow>
                             (case m_NodeRef m of
                                None \<Rightarrow> retE ()
                              | Some nodeName \<Rightarrow>
                                  create_listed E (new_snapshot E sec cnl m nodeName) (map es_Name etcdSnapshots) (p_Range E onNode))) w))))"

section \<open>The handler\<close>

text \<open>A list is reconciled when its periodic instruction succeeded; an error is only logged.\<close>

definition reconcile_output ::
  "('w, 'z) plansecret_env_scheme \<Rightarrow> secret \<Rightarrow> bool \<Rightarrow> periodic_output option \<Rightarrow> 'w \<Rightarrow> 'w" where
  "reconcile_output E sec s3 output w =
     (case output of
        None \<Rightarrow> w
      | Some v \<Rightarrow>
          if po_ExitCode v = 0 \<and> length (po_Stdout v) > 0 then snd (reconcileEtcdSnapshotList E sec s3 (po_Stdout v) w) else w)"

definition record_applied :: "('w, 'z) plansecret_env_scheme \<Rightarrow> secret \<Rightarrow> secret \<times> bool" where
  "record_applied E sec =
     (let plan = gets (s_Data sec) ''plan'' in
      if gets (s_Data sec) ''applied-checksum'' = PlanHash E plan \<and> plan \<noteq> gets (s_Data sec) ''appliedPlan''
      then (sec\<lparr>s_Data := (s_Data sec)(''appliedPlan'' \<mapsto> plan)\<rparr>, True) else (sec, False))"

definition record_probes :: "('w, 'z) plansecret_env_scheme \<Rightarrow> secret \<times> bool \<Rightarrow> 'w \<Rightarrow> go_error + (secret \<times> bool)" where
  "record_probes E x w =
     (case x of (sec, changed) \<Rightarrow>
      if length (gets (s_Data sec) ''probe-statuses'') > 0 then
        sbind (ParseProbeStatuses E (gets (s_Data sec) ''probe-statuses'')) (\<lambda>(_, healthy).
          if healthy \<and> gets (s_Annotations sec) PlanProbesPassedAnnotation = ''''
          then Inr (sec\<lparr>s_Annotations := (s_Annotations sec)(PlanProbesPassedAnnotation \<mapsto> e_Now E w)\<rparr>, True)
          else Inr (sec, changed))
      else Inr (sec, changed))"

definition update_and_report ::
  "('w, 'z) plansecret_env_scheme \<Rightarrow> secret \<Rightarrow> bool \<Rightarrow> bool \<Rightarrow> 'w \<Rightarrow> (secret option \<times> err) \<times> 'w" where
  "update_and_report E sec changed failed w =
     (case (if changed then e_SecretUpdate E sec w else (Inr sec, w)) of
        (Inl e, w1) \<Rightarrow> ((None, Some e), w1)
      | (Inr sec', w1) \<Rightarrow>
          (case reconcileMachinePlanAppliedCondition E (Some sec') (if failed then Some plan_apply_error else None) w1 of
             (Inl e, w2) \<Rightarrow> ((Some sec', Some e), w2)
           | (Inr _, w2) \<Rightarrow> ((Some sec', None), w2)))"

text \<open>A secret without a plan has no node: the handler reads a field of a nil pointer.\<close>

definition plansecret_OnChange ::
  "('w, 'z) plansecret_env_scheme \<Rightarrow> secret_object option \<Rightarrow> 'w \<Rightarrow> (secret option \<times> err) \<times> 'w" where
  "plansecret_OnChange E obj w =
     (case obj of
        None \<Rightarrow> ((None, None), w)
      | Some ev \<Rightarrow>
          let sec = secret.truncate ev in
          if s_Type sec \<noteq> SecretTypeMachinePlan \<or> \<not> s_HasData ev then ((Some sec, None), w)
          else
            (case SecretToNode E (Some sec) of
               Inl e \<Rightarrow> ((Some sec, Some e), w)
             | Inr None \<Rightarrow> ((None, Some (GoPanic ''nil node'')), w)
             | Inr (Some node) \<Rightarrow>
                 let w1 = reconcile_output E sec False (n_PeriodicOutput node ''etcd-snapshot-list-local'') w;
                     w2 = (if gets (s_Labels sec) InitNodeLabel = ''true''
                           then reconcile_output E sec True (n_PeriodicOutput node ''etcd-snapshot-list-s3'') w1 else w1);
                     failed = gets (s_Data sec) ''failed-checksum'' = PlanHash E (gets (s_Data sec) ''plan'') in
                 (case record_probes E (record_applied E sec) w2 of
                    Inl e \<Rightarrow> ((None, Some e), w2)
                  | Inr (sec', changed) \<Rightarrow> update_and_report E sec' changed failed w2)))"

end
