(* ===== verification/Plan_Secret_Correct.thy ===== *)
theory Plan_Secret_Correct
  imports Plan_Secret Plan_Store_Correct
begin

text \<open>
  What the controller of plan secrets guarantees to the planner: a machine's plan counts as in
  sync exactly through this controller, only after the agent has reported the checksum of that
  very plan, and always then. With it the reading of snapshot lists and the secret on which
  the controller stops.
\<close>

section \<open>What the handler writes\<close>

lemma record_applied_data:
  "record_applied E sec = (sec', changed) \<Longrightarrow>
     s_Annotations sec' = s_Annotations sec \<and> s_Labels sec' = s_Labels sec \<and> s_Type sec' = s_Type sec \<and>
     s_Namespace sec' = s_Namespace sec \<and>
     (s_Data sec' = s_Data sec \<and> \<not> changed \<or>
      changed \<and> gets (s_Data sec) ''applied-checksum'' = PlanHash E (gets (s_Data sec) ''plan'') \<and>
      s_Data sec' = (s_Data sec)(''appliedPlan'' \<mapsto> gets (s_Data sec) ''plan''))"
  by (auto simp: record_applied_def Let_def split: if_splits)

lemma record_probes_data:
  "record_probes E (sec, c) w = Inr (sec', c') \<Longrightarrow>
     s_Data sec' = s_Data sec \<and> s_Labels sec' = s_Labels sec \<and> s_Type sec' = s_Type sec \<and> s_Namespace sec' = s_Namespace sec \<and>
     (\<forall>k. k \<noteq> PlanProbesPassedAnnotation \<longrightarrow> s_Annotations sec' k = s_Annotations sec k) \<and> (c \<longrightarrow> c')"
  by (auto simp: record_probes_def sbind_eq_Inr_iff split: if_splits)

lemma update_and_report_data:
  "update_and_report E sec c failed w = ((Some s, r), w') \<Longrightarrow> update_echoes E \<Longrightarrow> s_Data s = s_Data sec"
  by (auto simp: update_and_report_def update_echoes_def split: if_split_asm sum.split_asm prod.split_asm)

text \<open>A handler that returns a secret leaves its data alone or records the current plan, with its checksum reported.\<close>

lemma OnChange_data:
  assumes "plansecret_OnChange E (Some ev) w = ((Some s, r), w')" "update_echoes E"
  shows "s_Data s = s_Data ev \<or>
    gets (s_Data ev) ''applied-checksum'' = PlanHash E (gets (s_Data ev) ''plan'') \<and>
    s_Data s = (s_Data ev)(''appliedPlan'' \<mapsto> gets (s_Data ev) ''plan'')"
proof -
  let ?sec = "secret.truncate ev"
  consider (same) "s = ?sec" | (run) sec1 c1 sec2 c2 v failed where
    "record_applied E ?sec = (sec1, c1)" "record_probes E (sec1, c1) v = Inr (sec2, c2)"
    "update_and_report E sec2 c2 failed v = ((Some s, r), w')"
    using assms(1)
    by (cases "record_applied E ?sec")
      (auto simp: plansecret_OnChange_def Let_def split: if_split_asm sum.split_asm option.split_asm prod.split_asm)
  then show ?thesis
  proof cases
    case run
    with update_and_report_data [OF run(3) assms(2)] record_applied_data [OF run(1)] record_probes_data [OF run(2)]
    show ?thesis by auto
  qed simp
qed

section \<open>In sync means applied\<close>

text \<open>
  The life of a plan secret's data, with the checksums the agent has reported: it is created
  empty, the planner updates the plan (\<open>UpdatePlan\<close>), the agent writes keys other than the plan
  and the applied plan, the controller handles it.
\<close>

inductive lifecycle :: "('w, 'z) plansecret_env_scheme \<Rightarrow> smap \<Rightarrow> string set \<Rightarrow> bool" for E where
  created: "lifecycle E Map.empty {}"
| planner: "lifecycle E d R \<Longrightarrow> e_MarshalPlan E np = Inr data \<Longrightarrow> lifecycle E (updated_data d data mf ft) R"
| agent: "lifecycle E d R \<Longrightarrow> d' ''plan'' = d ''plan'' \<Longrightarrow> d' ''appliedPlan'' = d ''appliedPlan'' \<Longrightarrow>
    lifecycle E d' (insert (gets d' ''applied-checksum'') R)"
| controller: "lifecycle E d R \<Longrightarrow> s_Data ev = d \<Longrightarrow> plansecret_OnChange E (Some ev) w = ((Some s, r), w') \<Longrightarrow>
    lifecycle E (s_Data s) R"

definition hash_law :: "('w, 'z) plansecret_env_scheme \<Rightarrow> bool" where
  "hash_law E \<longleftrightarrow> (\<forall>p. PlanHash E p \<noteq> '''')"

lemma lifecycle_invariant:
  assumes "lifecycle E d R" "update_echoes E" "hash_law E"
  shows "(gets d ''applied-checksum'' = '''' \<or> gets d ''applied-checksum'' \<in> R) \<and>
         (gets d ''appliedPlan'' = '''' \<or> PlanHash E (gets d ''appliedPlan'') \<in> R)"
  using assms(1)
proof (induction rule: lifecycle.induct)
  case created
  then show ?case by (simp add: gets_def)
next
  case (planner d R np data mf ft)
  then show ?case by (simp add: gets_def updated_data_keys)
next
  case (agent d R d')
  then show ?case by (auto simp: gets_def)
next
  case (controller d R ev w s r w')
  from OnChange_data [OF controller.hyps(3) assms(2)] show ?case
  proof (elim disjE conjE)
    assume "gets (s_Data ev) ''applied-checksum'' = PlanHash E (gets (s_Data ev) ''plan'')"
      and "s_Data s = (s_Data ev)(''appliedPlan'' \<mapsto> gets (s_Data ev) ''plan'')"
    then have "gets (s_Data s) ''applied-checksum'' = PlanHash E (gets (s_Data ev) ''plan'')"
      "gets (s_Data s) ''appliedPlan'' = gets (s_Data ev) ''plan''"
      "gets d ''applied-checksum'' = PlanHash E (gets (s_Data ev) ''plan'')" using controller.hyps(2) by simp_all
    with controller.IH assms(3) show ?case by (simp add: hash_law_def)
  qed (use controller in simp)
qed

text \<open>
  C17. The planner never takes a plan for applied that the machine has not applied: along every
  history of a plan secret - plan updates, reports of the agent, which writes neither the plan
  nor the applied plan, and runs of the controller in any order - a node that is in sync has a
  plan whose checksum the agent has reported.
\<close>

theorem in_sync_means_applied:
  assumes "lifecycle E d R" "update_echoes E" "hash_law E"
    and "s_Data sec = d" "SecretToNode E (Some sec) = Inr (Some n)" "n_InSync n"
  shows "PlanHash E (gets d ''plan'') \<in> R"
  using lifecycle_invariant [OF assms(1-3)] SecretToNode_SomeD(3,5) [OF assms(5)] assms(4,6) by auto

section \<open>An applied plan comes in sync\<close>

text \<open>The node of a secret whose applied plan is its plan.\<close>

lemma SecretToNode_applied:
  assumes "SecretToNode E (Some sec) = Inr (Some n)" "e_UnmarshalPlan E data = Inr np" "data \<noteq> ''''"
    and "gets (s_Data sec) ''plan'' = data" "s_Type sec' = s_Type sec"
    and "\<And>k. k \<noteq> ''appliedPlan'' \<Longrightarrow> s_Data sec' k = s_Data sec k" "s_Data sec' ''appliedPlan'' = Some data"
    and "s_Annotations sec' JoinedToAnnotation = s_Annotations sec JoinedToAnnotation"
  shows "\<exists>n'. SecretToNode E (Some sec') = Inr (Some n') \<and> n_InSync n' \<and> n_Plan n' = np \<and> n_AppliedPlan n' = Some np \<and>
    n_Failed n' = n_Failed n \<and> n_Healthy n' = n_Healthy n \<and>
    (n_ProbesUsable n' \<longleftrightarrow> gets (s_Annotations sec') PlanProbesPassedAnnotation \<noteq> '''')"
proof -
  have g: "gets (s_Data sec') k = gets (s_Data sec) k" if "k \<noteq> ''appliedPlan''" for k
    using assms(6) [OF that] by (simp add: gets_def)
  have same: "secret_failed E (s_Data sec') = secret_failed E (s_Data sec)" "secret_probes E (s_Data sec') = secret_probes E (s_Data sec)"
    "secret_output E (s_Data sec') = secret_output E (s_Data sec)"
    "secret_periodic_output E (s_Data sec') = secret_periodic_output E (s_Data sec)"
    by (simp_all add: secret_failed_def secret_probes_def secret_output_def secret_periodic_output_def g cong: if_cong)
  have new: "gets (s_Data sec') ''plan'' = data" "gets (s_Data sec') ''appliedPlan'' = data"
    "secret_applied_plan E (s_Data sec') = Inr (Some np)"
    "secret_joined_to E (s_Annotations sec') = secret_joined_to E (s_Annotations sec)"
    using assms g by (simp_all add: secret_applied_plan_def gets_def secret_joined_to_def fun_eq_iff)
  show ?thesis
    using assms(1-5) same new by (auto simp: SecretToNode_def Let_def sbind_eq_Inr_iff split: if_splits)
qed

lemma record_probes_ok:
  assumes "secret_probes E (s_Data sec) = Inr ps" "\<forall>v. e_Now E v \<noteq> ''''"
  shows "\<exists>sec' c'. record_probes E (sec, c) w = Inr (sec', c') \<and>
    (snd ps \<and> gets (s_Data sec) ''probe-statuses'' \<noteq> '''' \<longrightarrow> gets (s_Annotations sec') PlanProbesPassedAnnotation \<noteq> '''')"
proof (cases "gets (s_Data sec) ''probe-statuses'' = ''''")
  case False
  obtain a healthy where ps: "ps = (a, healthy)" by fastforce
  with False assms(1) have "ParseProbeStatuses E (gets (s_Data sec) ''probe-statuses'') = Inr (a, healthy)"
    by (simp add: secret_probes_def Let_def)
  with False assms(2) ps show ?thesis by (auto simp: record_probes_def)
qed (simp add: record_probes_def)

text \<open>A condition with a message has a severity.\<close>

definition severity_law :: "('w, 'z) plansecret_env_scheme \<Rightarrow> bool" where
  "severity_law E \<longleftrightarrow> (\<forall>t cs. p_GetMessage E t cs \<noteq> '''' \<longrightarrow> p_GetSeverity E t cs \<noteq> None)"

text \<open>An API server that accepts updates, of the secret and of the machine's status, for a machine that exists.\<close>

definition accepting :: "('w, 'z) plansecret_env_scheme \<Rightarrow> secret_object \<Rightarrow> bool" where
  "accepting E ev \<longleftrightarrow>
     (\<forall>sec w. \<exists>w'. e_SecretUpdate E sec w = (Inr sec, w')) \<and> (\<forall>m w. \<exists>w'. p_UpdateStatus E m w = (Inr (), w')) \<and>
     (case s_Labels ev MachineNameLabel of
        None \<Rightarrow> False | Some mn \<Rightarrow> (\<forall>w. \<exists>m. p_MachineGet E (s_Namespace ev) mn w = Inr m))"

lemma condition_reconciled:
  assumes "accepting E ev" "severity_law E" "s_Labels sec = s_Labels ev" "s_Namespace sec = s_Namespace ev"
    and "err = None \<or> err = Some plan_apply_error"
  shows "\<exists>w'. reconcileMachinePlanAppliedCondition E (Some sec) err w = (Inr (), w')"
proof -
  obtain mn m where m: "s_Labels ev MachineNameLabel = Some mn" "p_MachineGet E (s_Namespace ev) mn w = Inr m"
    using assms(1) by (fastforce simp: accepting_def split: option.splits)
  have upd: "\<exists>w'. p_UpdateStatus E x w = (Inr (), w')" for x using assms(1) by (simp add: accepting_def)
  have "\<exists>b. error_not_shown E (m_Conditions m) plan_apply_error = Inr b"
    using assms(2) [unfolded severity_law_def, rule_format, of PlanApplied "m_Conditions m"]
    by (auto simp: error_not_shown_def plan_apply_error_def)
  with m upd assms(3-5) show ?thesis
    by (auto simp: reconcileMachinePlanAppliedCondition_def Let_def split: bool.splits)
qed

lemma update_and_report_ok:
  assumes "accepting E ev" "severity_law E" "s_Labels sec = s_Labels ev" "s_Namespace sec = s_Namespace ev"
  shows "\<exists>w'. update_and_report E sec c failed w = ((Some sec, None), w')"
proof -
  from assms(1) obtain w0 where "e_SecretUpdate E sec w = (Inr sec, w0)" unfolding accepting_def by blast
  then obtain w1 where "(if c then e_SecretUpdate E sec w else (Inr sec, w)) = (Inr sec, w1)" by (cases c) auto
  with condition_reconciled [OF assms, of "if failed then Some plan_apply_error else None" w1]
  show ?thesis by (auto simp: update_and_report_def)
qed

text \<open>
  C18. An applied plan comes in sync: when a plan secret holds the encoding of a plan and the
  agent's report of its checksum, the controller - on an API server that accepts its updates -
  finishes without an error, and the secret it leaves reads as a node that is in sync, with
  that plan as its plan and its applied plan, failed and healthy as before; and once the
  probes are healthy the node's probes are usable.
\<close>

theorem applied_plan_in_sync:
  assumes laws: "plan_codec E" "severity_law E" "accepting E ev"
    and ev: "s_Type ev = SecretTypeMachinePlan" "s_HasData ev" "SecretToNode E (Some (secret.truncate ev)) = Inr (Some n)"
    and plan: "e_MarshalPlan E np = Inr data" "s_Data ev ''plan'' = Some data"
      "s_Data ev ''applied-checksum'' = Some (PlanHash E data)"
    and clock: "\<forall>v. e_Now E v \<noteq> ''''"
  shows "\<exists>s w' n'. plansecret_OnChange E (Some ev) w = ((Some s, None), w') \<and> SecretToNode E (Some s) = Inr (Some n') \<and>
    n_InSync n' \<and> n_Plan n' = np \<and> n_AppliedPlan n' = Some np \<and> n_Failed n' = n_Failed n \<and> n_Healthy n' = n_Healthy n \<and>
    (n_Healthy n \<and> gets (s_Data ev) ''probe-statuses'' \<noteq> '''' \<longrightarrow> n_ProbesUsable n')"
proof -
  let ?sec = "secret.truncate ev"
  define w1 where "w1 = reconcile_output E ?sec False (n_PeriodicOutput n ''etcd-snapshot-list-local'') w"
  define w2 where "w2 = (if gets (s_Labels ?sec) InitNodeLabel = ''true''
    then reconcile_output E ?sec True (n_PeriodicOutput n ''etcd-snapshot-list-s3'') w1 else w1)"
  have data: "data \<noteq> ''''" "e_UnmarshalPlan E data = Inr np" using laws(1) plan(1) by (auto simp: plan_codec_def)
  obtain sec1 c1 where r1: "record_applied E ?sec = (sec1, c1)" by fastforce
  have s1: "\<And>k. k \<noteq> ''appliedPlan'' \<Longrightarrow> s_Data sec1 k = s_Data ev k" "s_Data sec1 ''appliedPlan'' = Some data"
    using r1 plan data by (auto simp: record_applied_def Let_def gets_def split: if_splits option.splits)
  obtain ps where ps: "secret_probes E (s_Data ev) = Inr ps" "n_Healthy n = snd ps"
    using ev(1,3) by (auto simp: SecretToNode_def Let_def sbind_eq_Inr_iff split: if_splits)
  have g: "gets (s_Data sec1) ''probe-statuses'' = gets (s_Data ev) ''probe-statuses''" using s1(1) by (simp add: gets_def)
  have "secret_probes E (s_Data sec1) = Inr ps" using ps(1) by (simp add: secret_probes_def g)
  from record_probes_ok [OF this clock, of c1 w2] obtain sec2 c2 where r2: "record_probes E (sec1, c1) w2 = Inr (sec2, c2)"
    and usable: "snd ps \<and> gets (s_Data ev) ''probe-statuses'' \<noteq> '''' \<longrightarrow> gets (s_Annotations sec2) PlanProbesPassedAnnotation \<noteq> ''''"
    unfolding g by blast
  note d1 = record_applied_data [OF r1] and d2 = record_probes_data [OF r2]
  define failed where "failed \<longleftrightarrow> gets (s_Data ?sec) ''failed-checksum'' = PlanHash E (gets (s_Data ?sec) ''plan'')"
  obtain w4 where w4: "update_and_report E sec2 c2 failed w2 = ((Some sec2, None), w4)"
    using update_and_report_ok [OF laws(3,2), of sec2 c2 failed w2] d1 d2 by auto
  have run: "plansecret_OnChange E (Some ev) w = ((Some sec2, None), w4)"
    using ev r1 r2 w4 unfolding w2_def w1_def failed_def by (simp add: plansecret_OnChange_def Let_def)
  have "\<exists>n'. SecretToNode E (Some sec2) = Inr (Some n') \<and> n_InSync n' \<and> n_Plan n' = np \<and> n_AppliedPlan n' = Some np \<and>
      n_Failed n' = n_Failed n \<and> n_Healthy n' = n_Healthy n \<and>
      (n_ProbesUsable n' \<longleftrightarrow> gets (s_Annotations sec2) PlanProbesPassedAnnotation \<noteq> '''')"
    by (rule SecretToNode_applied [OF ev(3) data(2,1)]) (use d1 d2 s1 plan in \<open>simp_all add: gets_def\<close>)
  with run usable ps(2) show ?thesis by blast
qed

section \<open>Snapshot lists\<close>

text \<open>
  A plan secret that has data but no plan stops the handler: \<open>SecretToNode\<close> returns neither a
  node nor an error, and the handler reads a field of the missing node.
\<close>

theorem plan_secret_without_plan_panics:
  assumes "s_Type ev = SecretTypeMachinePlan" "s_HasData ev" "SecretToNode E (Some (secret.truncate ev)) = Inr None"
  shows "plansecret_OnChange E (Some ev) w = ((None, Some (GoPanic ''nil node'')), w)"
  using assms by (simp add: plansecret_OnChange_def Let_def)

text \<open>The table that lists local snapshots, and the rows it can show.\<close>

definition print_row :: "listed_snapshot \<Rightarrow> string" where
  "print_row r = ls_Name r @ '' '' @ ls_Location r @ '' '' @ ls_Size r @ '' '' @ ls_Created r"

definition print_table :: "listed_snapshot list \<Rightarrow> string" where
  "print_table rows = concat (map (\<lambda>l. l @ newline) (''Name Location Size Created'' # map print_row rows))"

definition token :: "string \<Rightarrow> bool" where
  "token t \<longleftrightarrow> t \<noteq> [] \<and> list_all (\<lambda>c. \<not> is_space c) t"

definition table_row :: "listed_snapshot \<Rightarrow> bool" where
  "table_row r \<longleftrightarrow>
     token (ls_Name r) \<and> token (ls_Location r) \<and> token (ls_Size r) \<and> token (ls_Created r) \<and> \<not> ls_S3 r \<and>
     ToLower (replace_invalid (ls_Name r)) = ls_Name r \<and> ToLower (ls_Location r) \<noteq> ''location'' \<and>
     length (print_row r) \<le> 65535"

lemma Split_lines:
  assumes "\<And>l. l \<in> set ls \<Longrightarrow> CHR 0x0A \<notin> set l"
  shows "Split (concat (map (\<lambda>l. l @ newline) ls)) newline = ls @ [[]]"
  using assms
proof (induction ls)
  case Nil
  then show ?case by (simp add: Split.simps newline_def HasPrefix_def)
next
  case (Cons l ls)
  have "Cut (l @ CHR 0x0A # concat (map (\<lambda>l. l @ newline) ls)) newline = Some (l, concat (map (\<lambda>l. l @ newline) ls))"
    using Cons.prems [of l] by (simp add: newline_def Cut_single)
  with Cons show ?case by (subst Split.simps) (simp add: newline_def)
qed

lemma scan_lines_text:
  assumes "\<And>l. l \<in> set ls \<Longrightarrow> CHR 0x0A \<notin> set l \<and> CHR 0x0D \<notin> set l \<and> length l \<le> 65535"
  shows "scan_lines (concat (map (\<lambda>l. l @ newline) ls)) = ls"
proof -
  have short: "takeWhile (\<lambda>l. length l \<le> 65535) ls = ls" using assms by (simp add: takeWhile_eq_all_conv)
  have "\<not> HasSuffix l [CHR 0x0D]" if "l \<in> set ls" for l
    using assms [OF that] in_set_dropD [of "CHR 0x0D" "length l - 1" l] by (auto simp: HasSuffix_def)
  then have "map (\<lambda>l. TrimSuffix l [CHR 0x0D]) ls = ls" by (intro map_idI) (simp add: TrimSuffix_def)
  moreover have "scan_lines (concat (map (\<lambda>l. l @ newline) ls)) =
      map (\<lambda>l. TrimSuffix l [CHR 0x0D]) (takeWhile (\<lambda>l. length l \<le> 65535) ls)"
    using Split_lines assms by (simp add: scan_lines_def Let_def)
  ultimately show ?thesis by (simp only: short)
qed

lemma token_head: "token t \<Longrightarrow> dropWhile is_space (t @ s) = t @ s"
  by (cases t) (auto simp: token_def)

lemma token_takes: "token t \<Longrightarrow> takeWhile (\<lambda>c. \<not> is_space c) (t @ CHR '' '' # s) = t"
  "token t \<Longrightarrow> dropWhile (\<lambda>c. \<not> is_space c) (t @ CHR '' '' # s) = CHR '' '' # s"
  "token t \<Longrightarrow> takeWhile (\<lambda>c. \<not> is_space c) t = t" "token t \<Longrightarrow> dropWhile (\<lambda>c. \<not> is_space c) t = []"
  by (auto simp: token_def list_all_iff is_space_def takeWhile_append dropWhile_append takeWhile_eq_all_conv)

lemma Fields_token: "token t \<Longrightarrow> Fields (t @ CHR '' '' # s) = t # Fields (CHR '' '' # s)"
  by (subst Fields.simps) (auto simp: token_head token_takes token_def)

lemma Fields_space: "Fields (CHR '' '' # s) = Fields s"
  by (subst (1 2) Fields.simps) (simp add: is_space_def)

lemma Fields_last: "token t \<Longrightarrow> Fields t = [t]"
  using token_head [of t "[]"]
  by (subst Fields.simps) (auto simp: token_takes token_def Fields.simps [of "[]"])

lemma Fields_row: "table_row r \<Longrightarrow> Fields (print_row r) = [ls_Name r, ls_Location r, ls_Size r, ls_Created r]"
  by (simp add: print_row_def table_row_def Fields_token Fields_space Fields_last)

lemma read_row:
  assumes "table_row r"
  shows "generateEtcdSnapshotFromListOutput (print_row r) = Inr r" "\<not> is_list_header (Fields (print_row r))"
  using assms by (simp_all add: generateEtcdSnapshotFromListOutput_def is_list_header_def Fields_row table_row_def)

lemma output_rows:
  assumes "list_all table_row rows" "distinct (map (listed_key c) rows)"
  shows "map_of (output_lines c (map print_row rows) acc) = map_of acc ++ map_of (map (\<lambda>r. (listed_key c r, r)) rows)"
  using assms
proof (induction rows arbitrary: acc)
  case (Cons r rows)
  have "listed_key c r \<notin> dom (map_of (map (\<lambda>r. (listed_key c r, r)) rows))"
    using Cons.prems(2) by (simp add: dom_map_of_conv_image_fst image_image)
  note fresh = map_add_upd_left [OF this]
  have "map_of (output_lines c (map print_row (r # rows)) acc) =
      map_of (AList.update (listed_key c r) r acc) ++ map_of (map (\<lambda>r. (listed_key c r, r)) rows)"
    using Cons read_row by simp
  also have "\<dots> = map_of acc ++ map_of (map (\<lambda>r. (listed_key c r, r)) (r # rows))"
    by (simp only: update_conv' fresh list.map map_of.simps fst_conv snd_conv map_add_upd)
  finally show ?case .
qed simp

lemma listed_key_inj: "\<not> ls_S3 a \<Longrightarrow> \<not> ls_S3 b \<Longrightarrow> listed_key c a = listed_key c b \<longleftrightarrow> ls_Name a = ls_Name b"
  by (simp add: listed_key_def)

text \<open>
  The list of local snapshots is read back: from the table that names, places, sizes and
  creation times of snapshots are printed in, with distinct names that need no replacement,
  the controller gets exactly these snapshots, each under its cluster's key.
\<close>

theorem listed_snapshots_roundtrip:
  assumes rows: "list_all table_row rows" and names: "distinct (map ls_Name rows)"
  shows "map_of (outputToEtcdSnapshots c (print_table rows)) = map_of (map (\<lambda>r. (listed_key c r, r)) rows)"
proof -
  let ?header = "''Name Location Size Created''"
  have local: "\<not> ls_S3 r" if "r \<in> set rows" for r using rows that by (auto simp: list_all_iff table_row_def)
  have "inj_on (listed_key c) (set rows)"
    using names local by (auto simp: inj_on_def listed_key_inj distinct_map)
  with names have keys: "distinct (map (listed_key c) rows)" by (simp add: distinct_map)
  have "CHR 0x0A \<notin> set (print_row r) \<and> CHR 0x0D \<notin> set (print_row r) \<and> length (print_row r) \<le> 65535" if "r \<in> set rows" for r
  proof -
    from rows that have r: "table_row r" by (simp add: list_all_iff)
    then have "is_space c \<Longrightarrow> c \<in> set (print_row r) \<Longrightarrow> c = CHR '' ''" for c
      unfolding print_row_def by (simp add: table_row_def token_def list_all_iff) blast
    from this [of "CHR 0x0A"] this [of "CHR 0x0D"] r show ?thesis unfolding table_row_def by (auto simp: is_space_def)
  qed
  then have "CHR 0x0A \<notin> set l \<and> CHR 0x0D \<notin> set l \<and> length l \<le> 65535" if "l \<in> set (?header # map print_row rows)" for l
    using that by (cases "l = ?header") (simp, auto)
  from scan_lines_text [OF this] have "scan_lines (print_table rows) = ?header # map print_row rows"
    unfolding print_table_def by blast
  moreover have "is_list_header (Fields ?header)" by code_simp
  ultimately show ?thesis using output_rows [OF rows keys, of "[]"] by (simp add: outputToEtcdSnapshots_def)
qed

definition demo_rows :: "listed_snapshot list" where
  "demo_rows =
     [\<lparr>ls_Name = ''on-demand-a-1700'', ls_Location = ''file:///snapshots/a'', ls_Size = ''4096'', ls_Created = ''2024-01-01T00:00:00Z'', ls_S3 = False\<rparr>,
      \<lparr>ls_Name = ''etcd-b'', ls_Location = ''file:///snapshots/b'', ls_Size = ''8192'', ls_Created = ''2024-01-02T00:00:00Z'', ls_S3 = False\<rparr>]"

theorem listed_snapshots_roundtrip_witness:
  "map_of (outputToEtcdSnapshots ''c'' (print_table demo_rows)) ''c-etcd-b-local'' = Some (demo_rows ! 1)"
proof -
  have parts: "list_all (\<lambda>r. token (ls_Name r) \<and> token (ls_Location r) \<and> token (ls_Size r) \<and> token (ls_Created r) \<and> \<not> ls_S3 r \<and>
      ToLower (replace_invalid (ls_Name r)) = ls_Name r \<and> ToLower (ls_Location r) \<noteq> ''location'') demo_rows"
    "distinct (map ls_Name demo_rows)" by code_simp+
  have "list_all (\<lambda>r. length (print_row r) \<le> 65535) demo_rows" by (simp add: demo_rows_def print_row_def)
  with parts(1) have "list_all table_row demo_rows" by (simp add: list_all_iff table_row_def)
  from listed_snapshots_roundtrip [OF \<open>list_all table_row demo_rows\<close> parts(2), of "''c''"] show ?thesis
    by (simp add: demo_rows_def listed_key_def)
qed

section \<open>A concrete history\<close>

definition demo_ps_env :: "demo_world plansecret_env" where
  "demo_ps_env = planner_env.extend (demo_planner\<lparr>lib_sha256_hex := (\<lambda>s. CHR ''h'' # s)\<rparr>)
     \<lparr>p_MachineGet = (\<lambda>_ n _. Inr (cluster_machine_of ''c'' (demo_machine n))),
      p_UpdateStatus = (\<lambda>_ w. (Inr (), w)), p_GetMessage = cond_message, p_GetReason = cond_reason,
      p_GetSeverity = (\<lambda>_ _. Some ''Error''), p_IsTrue = (\<lambda>t cs. cond_status t cs = ''True''),
      p_MarkFalse = (\<lambda>t r sev m cs. set_cond \<lparr>cd_Type = t, cd_Status = ''False'', cd_Reason = r, cd_Message = m\<rparr> cs),
      p_SnapshotList = (\<lambda>_ _ _. Inr []), p_SnapshotDelete = (\<lambda>_ _ w. (Inr (), w)), p_SnapshotCreate = (\<lambda>_ w. (Inr (), w)),
      p_IsAlreadyExists = (\<lambda>_. False), p_Range = (\<lambda>xs. xs)\<rparr>"

lemma demo_ps_fields:
  "e_SecretUpdate demo_ps_env = e_SecretUpdate demo_store" "e_MarshalPlan demo_ps_env = e_MarshalPlan demo_store"
  "e_UnmarshalPlan demo_ps_env = e_UnmarshalPlan demo_store" "lib_sha256_hex demo_ps_env = (\<lambda>s. CHR ''h'' # s)"
  "p_UpdateStatus demo_ps_env = (\<lambda>_ w. (Inr (), w))" "p_GetSeverity demo_ps_env = (\<lambda>_ _. Some ''Error'')"
  "p_MachineGet demo_ps_env = (\<lambda>_ n _. Inr (cluster_machine_of ''c'' (demo_machine n)))"
  "e_Now demo_ps_env = (\<lambda>_. ''2024-01-01T00:00:00Z'')"
  by (simp_all add: demo_ps_env_def demo_planner_def demo_config_def demo_store_def demo_libs_def
      planner_env.defs config_env.defs store_env.defs libs.defs)

text \<open>A new plan for a fresh secret, and the agent's report of its checksum.\<close>

definition demo_applied :: secret_object where
  "demo_applied = secret_event
     \<lparr>s_Namespace = ''fleet-default'', s_Name = ''a-machine-plan'', s_Type = SecretTypeMachinePlan,
      s_Labels = [MachineNameLabel \<mapsto> ''a''], s_Annotations = [PlanProbesPassedAnnotation \<mapsto> ''''],
      s_Data = (updated_data Map.empty ''pnew'' 5 5)(''applied-checksum'' \<mapsto> ''hpnew'')\<rparr>"

lemma demo_ps_laws: "plan_codec demo_ps_env" "update_echoes demo_ps_env" "severity_law demo_ps_env" "hash_law demo_ps_env"
    "accepting demo_ps_env demo_applied"
  using demo_plan_codec demo_update_echoes
  by (simp_all add: plan_codec_def update_echoes_def severity_law_def hash_law_def PlanHash_def accepting_def demo_ps_fields
      demo_applied_def secret_event_def secret.defs demo_store_simps)

lemma demo_applied_data:
  "s_Data demo_applied = (updated_data Map.empty ''pnew'' 5 5)(''applied-checksum'' \<mapsto> ''hpnew'')"
  "s_Type demo_applied = SecretTypeMachinePlan" "s_HasData demo_applied"
  by (simp_all add: demo_applied_def secret_event_def secret.defs)

lemma demo_applied_node: "\<exists>n. SecretToNode demo_ps_env (Some (secret.truncate demo_applied)) = Inr (Some n)"
proof -
  have "case SecretToNode demo_ps_env (Some (secret.truncate demo_applied)) of Inr (Some _) \<Rightarrow> True | _ \<Rightarrow> False" by code_simp
  then show ?thesis by (auto split: sum.splits option.splits)
qed

theorem applied_plan_in_sync_witness:
  "\<exists>s w' n. plansecret_OnChange demo_ps_env (Some demo_applied) demo_world0 = ((Some s, None), w') \<and>
     SecretToNode demo_ps_env (Some s) = Inr (Some n) \<and> n_InSync n \<and> n_Plan n = demo_new_plan"
proof -
  obtain n where n: "SecretToNode demo_ps_env (Some (secret.truncate demo_applied)) = Inr (Some n)" using demo_applied_node by blast
  have "e_MarshalPlan demo_ps_env demo_new_plan = Inr ''pnew''"
    by (simp add: demo_ps_fields demo_store_simps demo_new_plan_def)
  from applied_plan_in_sync [OF demo_ps_laws(1,3,5) demo_applied_data(2,3) n this, of demo_world0] show ?thesis
    by (auto simp: demo_applied_data updated_data_keys PlanHash_def demo_ps_fields)
qed

theorem in_sync_means_applied_witness:
  "\<exists>s w' n. plansecret_OnChange demo_ps_env (Some demo_applied) demo_world0 = ((Some s, None), w') \<and>
     SecretToNode demo_ps_env (Some s) = Inr (Some n) \<and> PlanHash demo_ps_env (gets (s_Data s) ''plan'') \<in> {''hpnew''}"
proof -
  have "case plansecret_OnChange demo_ps_env (Some demo_applied) demo_world0 of
      ((Some s, None), _) \<Rightarrow> (case SecretToNode demo_ps_env (Some s) of Inr (Some n) \<Rightarrow> n_InSync n | _ \<Rightarrow> False) | _ \<Rightarrow> False"
    by code_simp
  then obtain s w' n where run: "plansecret_OnChange demo_ps_env (Some demo_applied) demo_world0 = ((Some s, None), w')"
    and node: "SecretToNode demo_ps_env (Some s) = Inr (Some n)" "n_InSync n"
    by (auto split: prod.splits option.splits sum.splits)
  have enc: "e_MarshalPlan demo_ps_env demo_new_plan = Inr ''pnew''"
    by (simp add: demo_ps_fields demo_store_simps demo_new_plan_def)
  have "lifecycle demo_ps_env (s_Data demo_applied) {''hpnew''}"
    using lifecycle.agent [OF lifecycle.planner [OF lifecycle.created enc, of 5 5], of "s_Data demo_applied"]
    by (simp add: demo_applied_data)
  from in_sync_means_applied [OF lifecycle.controller [OF this refl run] demo_ps_laws(2,4) refl node] run node(1)
  show ?thesis by blast
qed

end
