(* ===== verification/Bootstrap.thy ===== *)
theory Bootstrap
  imports Controller_Env
begin

text \<open>
  The controller of RKE bootstraps (\<open>controllers/capr/bootstrap/controller.go\<close>) with the safe removal
  of etcd members (\<open>controllers/capr/etcdmgmt/saferemoval.go\<close>). It generates the plan secret, service
  account and role of a machine and its bootstrap secret, and holds the infrastructure of an
  etcd machine that is being deleted until its member has left the etcd cluster.
\<close>

section \<open>Environment\<close>

record bootstrap_object = rke_bootstrap +
  rb_Labels :: smap
  rb_OwnerReferences :: "owner_ref list"
  rb_DeletionTimestamp :: "string option"
  rb_ClusterName :: string

record bootstrap_status =
  bs_DataSecretName :: "string option"
  bs_Ready :: bool

record k8s_node =
  kn_Name :: string
  kn_Annotations :: smap

text \<open>
  The objects the generating handler asks for. A role is the list of its rules: verbs, API
  groups, resources and resource names.
\<close>

record policy_rule =
  pr_Verbs :: "string list"
  pr_APIGroups :: "string list"
  pr_Resources :: "string list"
  pr_ResourceNames :: "string list"

datatype generated =
    GServiceAccount string string smap
  | GSecret secret
  | GRole string string "policy_rule list"
  | GRoleBinding string string "(string \<times> string \<times> string) list" "string \<times> string \<times> string"

text \<open>
  The clients, the paused check of CAPI, the downstream cluster's nodes behind a REST
  configuration, and - from packages of the repository that are not modelled - the token
  secret of a service account and the install scripts, Linux and Windows.
\<close>

record 'w bootstrap_env = "'w planner_env" +
  b_MachineGet :: "string \<Rightarrow> string \<Rightarrow> 'w \<Rightarrow> go_error + cluster_machine"
  b_MachineUpdate :: "cluster_machine \<Rightarrow> ('w, cluster_machine) go"
  b_ClusterGet :: "string \<Rightarrow> string \<Rightarrow> 'w \<Rightarrow> go_error + capi_cluster"
  b_ControlPlaneGet :: "string \<Rightarrow> string \<Rightarrow> 'w \<Rightarrow> go_error + cp_object"
  b_SecretList :: "string \<Rightarrow> (string \<times> string) list \<Rightarrow> 'w \<Rightarrow> go_error + secret list"
  b_ServiceAccountGet :: "string \<Rightarrow> string \<Rightarrow> 'w \<Rightarrow> go_error + string"
  b_EnsureTokenSecret :: "string \<Rightarrow> ('w, secret) go"
  b_DeploymentPorts :: "'w \<Rightarrow> go_error + (string \<times> int list) list"
  b_InstallScript :: "bool \<Rightarrow> bool \<Rightarrow> string \<Rightarrow> (string \<times> string) list \<Rightarrow> 'w \<Rightarrow> go_error + string"
  b_TokenHash :: "string \<Rightarrow> string"
  b_BootstrapUpdate :: "bootstrap_object \<Rightarrow> ('w, bootstrap_object) go"
  b_EnqueueAfter :: "string \<Rightarrow> string \<Rightarrow> int \<Rightarrow> 'w \<Rightarrow> 'w"
  b_IsPaused :: "capi_cluster \<Rightarrow> bootstrap_object \<Rightarrow> bool"
  b_KubeconfigName :: "string \<Rightarrow> string"
  b_RESTConfig :: "string \<Rightarrow> go_error + string"
  b_NewForConfig :: "string \<Rightarrow> go_error + string"
  b_NodeGet :: "string \<Rightarrow> string \<Rightarrow> 'w \<Rightarrow> go_error + k8s_node"
  b_NodeUpdate :: "string \<Rightarrow> k8s_node \<Rightarrow> ('w, unit) go"

definition rkeBootstrapName :: string where "rkeBootstrapName = ''rke.cattle.io/rkebootstrap-name''"
definition RoleBootstrap :: string where "RoleBootstrap = ''bootstrap''"

definition capiMachinePreTerminateAnnotation :: string where
  "capiMachinePreTerminateAnnotation = ''pre-terminate.delete.hook.machine.cluster.x-k8s.io/rke-bootstrap-cleanup''"

definition capiMachinePreTerminateAnnotationOwner :: string where
  "capiMachinePreTerminateAnnotationOwner = ''rke-bootstrap-controller''"

definition bootstrap_meta :: "bootstrap_object \<Rightarrow> object_meta" where
  "bootstrap_meta b = \<lparr>om_Namespace = rb_Namespace b, om_Name = rb_Name b, om_Labels = rb_Labels b,
     om_OwnerReferences = rb_OwnerReferences b, om_Conditions = []\<rparr>"

section \<open>The plan secret and its access\<close>

definition getLabelsAndAnnotationsForPlanSecret :: "bootstrap_object \<Rightarrow> cluster_machine \<Rightarrow> smap \<times> smap" where
  "getLabelsAndAnnotationsForPlanSecret bootstrap machine =
     ([MachineNameLabel \<mapsto> m_Name machine, ClusterNameLabel \<mapsto> rb_ClusterName bootstrap] ++ rb_Labels bootstrap,
      rb_Annotations bootstrap)"

definition assignPlanSecret ::
  "('w, 'z) bootstrap_env_scheme \<Rightarrow> cluster_machine \<Rightarrow> bootstrap_object \<Rightarrow> generated list" where
  "assignPlanSecret E machine bootstrap =
     (let planSecretName = PlanSecretFromBootstrapName E (rb_Name bootstrap); ns = rb_Namespace bootstrap;
          (labels, annotations) = getLabelsAndAnnotationsForPlanSecret bootstrap machine in
      [GServiceAccount ns planSecretName
         [MachineNameLabel \<mapsto> m_Name machine, rkeBootstrapName \<mapsto> rb_Name bootstrap, RoleLabel \<mapsto> RolePlan,
          PlanSecret \<mapsto> planSecretName],
       GSecret \<lparr>s_Namespace = ns, s_Name = planSecretName, s_Type = SecretTypeMachinePlan, s_Labels = labels,
         s_Annotations = annotations, s_Data = Map.empty\<rparr>,
       GRole ns planSecretName
         [\<lparr>pr_Verbs = [''watch'', ''get'', ''update'', ''list''], pr_APIGroups = [''''], pr_Resources = [''secrets''],
           pr_ResourceNames = [planSecretName]\<rparr>],
       GRoleBinding ns planSecretName [(''ServiceAccount'', planSecretName, ns)]
         (''rbac.authorization.k8s.io'', ''Role'', planSecretName)])"

section \<open>The bootstrap secret\<close>

definition getEnvVar ::
  "('w, 'z) bootstrap_env_scheme \<Rightarrow> bootstrap_object \<Rightarrow> capi_cluster \<Rightarrow> 'w \<Rightarrow> go_error + (string \<times> string) list" where
  "getEnvVar E bootstrap capiCluster w =
     (case cc_ControlPlaneRef capiCluster of
        None \<Rightarrow> Inr []
      | Some ref \<Rightarrow>
          if or_Kind ref \<noteq> ''RKEControlPlane'' then Inr []
          else sbind (b_ControlPlaneGet E (rb_Namespace bootstrap) (or_Name ref) w) (\<lambda>cp.
            Inr (sp_AgentEnvVars (cp_Spec cp))))"

definition shouldCreateBootstrapSecret :: "string \<Rightarrow> bool" where
  "shouldCreateBootstrapSecret phase \<longleftrightarrow> phase \<noteq> ''Deleting'' \<and> phase \<noteq> ''Deleted'' \<and> phase \<noteq> ''Failed''"

definition rancherDeploymentHasHostPort :: "('w, 'z) bootstrap_env_scheme \<Rightarrow> 'w \<Rightarrow> go_error + bool" where
  "rancherDeploymentHasHostPort E w =
     (case b_DeploymentPorts E w of
        Inl e \<Rightarrow> if is_NotFound e then Inr False else Inl e
      | Inr containers \<Rightarrow> Inr (list_ex (\<lambda>(name, ports). list_ex (\<lambda>port. name = ''rancher'' \<and> port \<noteq> 0) ports) containers))"

definition getBootstrapSecret ::
  "('w, 'z) bootstrap_env_scheme \<Rightarrow> string \<Rightarrow> string \<Rightarrow> (string \<times> string) list \<Rightarrow> cluster_machine \<Rightarrow> ('w, secret option) go" where
  "getBootstrapSecret E ns name envVars machine w =
     (case b_ServiceAccountGet E ns name w of
        Inl e \<Rightarrow> (if is_NotFound e then Inr None else Inl e, w)
      | Inr sa \<Rightarrow>
          bindE (b_EnsureTokenSecret E sa) (\<lambda>token w1.
            (sbind (rancherDeploymentHasHostPort E w1) (\<lambda>hasHostPort.
             sbind (b_InstallScript E (gets (m_Labels machine) CattleOSLabel = WindowsMachineOS) hasHostPort
                      (b_TokenHash E (gets (s_Data token) ''token'')) envVars w1) (\<lambda>data.
             Inr (Some \<lparr>s_Namespace = ns, s_Name = name, s_Type = ''rke.cattle.io/bootstrap'', s_Labels = Map.empty,
               s_Annotations = Map.empty, s_Data = [''value'' \<mapsto> data]\<rparr>))), w1)) w)"

definition assignBootStrapSecret ::
  "('w, 'z) bootstrap_env_scheme \<Rightarrow> cluster_machine \<Rightarrow> bootstrap_object \<Rightarrow> capi_cluster \<Rightarrow>
   ('w, secret option \<times> generated list) go" where
  "assignBootStrapSecret E machine bootstrap capiCluster w =
     (if \<not> shouldCreateBootstrapSecret (m_Phase machine) then (Inr (None, []), w)
      else
        (case getEnvVar E bootstrap capiCluster w of
           Inl e \<Rightarrow> (Inl e, w)
         | Inr envVars \<Rightarrow>
             let secretName = lib_SafeConcatName E [rb_Name bootstrap, ''machine'', ''bootstrap''];
                 sa = GServiceAccount (rb_Namespace bootstrap) secretName
                        [MachineNameLabel \<mapsto> m_Name machine, rkeBootstrapName \<mapsto> rb_Name bootstrap, RoleLabel \<mapsto> RoleBootstrap] in
             bindE (getBootstrapSecret E (rb_Namespace bootstrap) secretName envVars machine) (\<lambda>bootstrapSecret.
               retE (bootstrapSecret, [sa])) w))"

definition wait_for :: "('w, 'z) bootstrap_env_scheme \<Rightarrow> bootstrap_object \<Rightarrow> int \<Rightarrow> ('w, 'a) go" where
  "wait_for E bootstrap seconds w = (Inl ErrSkip, b_EnqueueAfter E (rb_Namespace bootstrap) (rb_Name bootstrap) seconds w)"

definition set_data_secret :: "secret option \<Rightarrow> bootstrap_status \<Rightarrow> bootstrap_status" where
  "set_data_secret bootstrapSecret status =
     (case bootstrapSecret of
        None \<Rightarrow> status
      | Some sec \<Rightarrow>
          if bs_DataSecretName status = None then status\<lparr>bs_DataSecretName := Some (s_Name sec), bs_Ready := True\<rparr> else status)"

text \<open>On an error the status is returned as it was given.\<close>

definition GeneratingHandler ::
  "('w, 'z) bootstrap_env_scheme \<Rightarrow> bootstrap_object \<Rightarrow> bootstrap_status \<Rightarrow> ('w, generated list \<times> bootstrap_status) go" where
  "GeneratingHandler E bootstrap status w =
     (case GetOwnerCAPIMachine E (\<lambda>ns n. b_MachineGet E ns n w) (Some (bootstrap_meta bootstrap)) of
        Inl e \<Rightarrow> if is_NotFound e then wait_for E bootstrap 10 w else (Inl e, w)
      | Inr machine \<Rightarrow>
          (case b_ClusterGet E (m_Namespace machine) (m_ClusterName machine) w of
             Inl e \<Rightarrow> if is_NotFound e then wait_for E bootstrap 10 w else (Inl e, w)
           | Inr capiCluster \<Rightarrow>
               if b_IsPaused E capiCluster bootstrap \<or> \<not> cc_InfrastructureReady capiCluster then wait_for E bootstrap 10 w
               else
                 bindE (assignBootStrapSecret E machine bootstrap capiCluster) (\<lambda>(bootstrapSecret, objs).
                   retE (assignPlanSecret E machine bootstrap @ (case bootstrapSecret of None \<Rightarrow> [] | Some s \<Rightarrow> [GSecret s]) @ objs,
                         set_data_secret bootstrapSecret status)) w))"

section \<open>Safe removal of an etcd member\<close>

text \<open>
  One attempt of marking the node; the library repeats it on a conflict. A node whose
  annotations are a nil map, on which the write panics, is not told from one with none: the
  kubelet annotates every node that it registers.
\<close>

definition mark_removed_attempt :: "('w, 'z) bootstrap_env_scheme \<Rightarrow> string \<Rightarrow> string \<Rightarrow> string \<Rightarrow> ('w, unit) go" where
  "mark_removed_attempt E clientset removeAnnotation nodeName w =
     (case b_NodeGet E clientset nodeName w of
        Inl e \<Rightarrow> (Inl e, w)
      | Inr node \<Rightarrow>
          b_NodeUpdate E clientset (node\<lparr>kn_Annotations := (kn_Annotations node)(removeAnnotation \<mapsto> ''true'')\<rparr>) w)"

definition SafelyRemoved :: "('w, 'z) bootstrap_env_scheme \<Rightarrow> string \<Rightarrow> string \<Rightarrow> string \<Rightarrow> ('w, bool) go" where
  "SafelyRemoved E restConfig runtime nodeName w =
     (let removeAnnotation = ''etcd.'' @ runtime @ ''.cattle.io/remove'';
          removedNodeNameAnnotation = ''etcd.'' @ runtime @ ''.cattle.io/removed-node-name'' in
      case b_NewForConfig E restConfig of
        Inl e \<Rightarrow> (Inl e, w)
      | Inr clientset \<Rightarrow>
          (case b_NodeGet E clientset nodeName w of
             Inl e \<Rightarrow> (if is_NotFound e then Inr True else Inl e, w)
           | Inr node \<Rightarrow>
               if gets (kn_Annotations node) removeAnnotation = ''true''
               then (Inr (gets (kn_Annotations node) removedNodeNameAnnotation \<noteq> ''''), w)
               else bindE (q_RetryOnConflict E (mark_removed_attempt E clientset removeAnnotation nodeName)) (\<lambda>_. retE False) w))"

section \<open>The pre-terminate hook\<close>

definition ensureMachinePreTerminateAnnotationRemoved :: "('w, 'z) bootstrap_env_scheme \<Rightarrow> cluster_machine \<Rightarrow> ('w, unit) go" where
  "ensureMachinePreTerminateAnnotationRemoved E machine w =
     (if m_Annotations machine capiMachinePreTerminateAnnotation \<noteq> None
      then bindE (b_MachineUpdate E (machine\<lparr>m_Annotations := (m_Annotations machine)(capiMachinePreTerminateAnnotation := None)\<rparr>))
             (\<lambda>_. retE ()) w
      else (Inr (), w))"

definition ensure_hook :: "('w, 'z) bootstrap_env_scheme \<Rightarrow> cluster_machine \<Rightarrow> ('w, unit) go" where
  "ensure_hook E machine w =
     (if m_Annotations machine capiMachinePreTerminateAnnotation \<noteq> Some capiMachinePreTerminateAnnotationOwner
      then bindE (b_MachineUpdate E (machine\<lparr>m_Annotations :=
                    (m_Annotations machine)(capiMachinePreTerminateAnnotation \<mapsto> capiMachinePreTerminateAnnotationOwner)\<rparr>))
             (\<lambda>_. retE ()) w
      else (Inr (), w))"

text \<open>Whether another machine is still joined to this one. No plan secret: nothing to check.\<close>

definition still_joined ::
  "('w, 'z) bootstrap_env_scheme \<Rightarrow> bootstrap_object \<Rightarrow> 'w \<Rightarrow> go_error + bool" where
  "still_joined E bootstrap w =
     (case k_SecretCacheGet E (rb_Namespace bootstrap) (PlanSecretFromBootstrapName E (rb_Name bootstrap)) w of
        Inl e \<Rightarrow>
          if is_NotFound e then Inr False
          else Inl (ErrOther (''error retrieving plan secret to validate it was not an init node: '' @ Error e))
      | Inr planSecret \<Rightarrow>
          (case b_SecretList E (rb_Namespace bootstrap) [(CAPIClusterNameLabel, rb_ClusterName bootstrap)] w of
             Inl e \<Rightarrow> Inl (ErrOther (''error encountered list plansecrets to ensure node was not joined: '' @ Error e))
           | Inr planSecrets \<Rightarrow>
               Inr (list_ex (\<lambda>ps. gets (s_Annotations ps) JoinedToAnnotation = gets (s_Annotations planSecret) JoinURLAnnotation)
                 planSecrets)))"

definition remove_member ::
  "('w, 'z) bootstrap_env_scheme \<Rightarrow> bootstrap_object \<Rightarrow> cluster_machine \<Rightarrow> cp_object \<Rightarrow> string \<Rightarrow> ('w, unit) go" where
  "remove_member E bootstrap machine cp nodeName w =
     (case k_SecretCacheGet E (rb_Namespace bootstrap) (b_KubeconfigName E (rb_ClusterName bootstrap)) w of
        Inl e \<Rightarrow> if is_NotFound e then ensureMachinePreTerminateAnnotationRemoved E machine w else (Inl e, w)
      | Inr kcSecret \<Rightarrow>
          bindE (liftE (b_RESTConfig E (gets (s_Data kcSecret) ''value''))) (\<lambda>restConfig.
          bindE (SafelyRemoved E restConfig (GetRuntimeCommand (sp_KubernetesVersion (cp_Spec cp))) nodeName) (\<lambda>removed.
            if \<not> removed then wait_for E bootstrap 5 else ensureMachinePreTerminateAnnotationRemoved E machine)) w)"

text \<open>The cluster is alive and the machine is an etcd machine on its way out.\<close>

definition release_machine ::
  "('w, 'z) bootstrap_env_scheme \<Rightarrow> bootstrap_object \<Rightarrow> cluster_machine \<Rightarrow> capi_cluster \<Rightarrow> cp_object \<Rightarrow> ('w, unit) go" where
  "release_machine E bootstrap machine capiCluster cp w =
     (if cp_DeletionTimestamp cp \<noteq> None \<or> cc_DeletionTimestamp capiCluster \<noteq> None
      then ensureMachinePreTerminateAnnotationRemoved E machine w
      else
        (case m_NodeRef machine of
           None \<Rightarrow> ensureMachinePreTerminateAnnotationRemoved E machine w
         | Some nodeName \<Rightarrow>
             bindE (liftE (still_joined E bootstrap w)) (\<lambda>joined.
               if joined then wait_for E bootstrap 5 else remove_member E bootstrap machine cp nodeName) w))"

definition no_owner :: "go_error \<Rightarrow> bool" where
  "no_owner e \<longleftrightarrow> e = ErrOther ''no machine owner ref'' \<or> is_NotFound e"

definition reconcileMachinePreTerminateAnnotation ::
  "('w, 'z) bootstrap_env_scheme \<Rightarrow> bootstrap_object \<Rightarrow> ('w, unit) go" where
  "reconcileMachinePreTerminateAnnotation E bootstrap w =
     (case GetMachineByOwner (\<lambda>ns n. b_MachineGet E ns n w) (bootstrap_meta bootstrap) of
        Inl e \<Rightarrow> (if no_owner e then Inr () else Inl e, w)
      | Inr machine \<Rightarrow>
          if ToLower (gets (rb_Annotations bootstrap) ForceRemoveEtcdAnnotation) = ''true'' \<or> m_Labels machine EtcdRoleLabel = None
          then ensureMachinePreTerminateAnnotationRemoved E machine w
          else if m_DeletionTimestamp machine = None \<and> rb_DeletionTimestamp bootstrap = None then ensure_hook E machine w
          else if rb_ClusterName bootstrap = '''' then ensureMachinePreTerminateAnnotationRemoved E machine w
          else
            (case b_ClusterGet E (rb_Namespace bootstrap) (rb_ClusterName bootstrap) w of
               Inl e \<Rightarrow> if is_NotFound e then ensureMachinePreTerminateAnnotationRemoved E machine w else (Inl e, w)
             | Inr capiCluster \<Rightarrow>
                 (case cc_ControlPlaneRef capiCluster of
                    None \<Rightarrow> ensureMachinePreTerminateAnnotationRemoved E machine w
                  | Some ref \<Rightarrow>
                      (case b_ControlPlaneGet E (or_Namespace ref) (or_Name ref) w of
                         Inl e \<Rightarrow> if is_NotFound e then ensureMachinePreTerminateAnnotationRemoved E machine w else (Inl e, w)
                       | Inr cp \<Rightarrow> release_machine E bootstrap machine capiCluster cp w))))"

definition bootstrap_OnChange :: "('w, 'z) bootstrap_env_scheme \<Rightarrow> bootstrap_object option \<Rightarrow> ('w, bootstrap_object option) go" where
  "bootstrap_OnChange E obj w =
     (case obj of
        None \<Rightarrow> (Inr None, w)
      | Some bootstrap \<Rightarrow>
          if rb_DeletionTimestamp bootstrap \<noteq> None then (Inr (Some bootstrap), w)
          else
            let v = gets (rb_Labels bootstrap) CAPIClusterNameLabel in
            if v \<noteq> '''' \<and> rb_ClusterName bootstrap \<noteq> v
            then bindE (b_BootstrapUpdate E (bootstrap\<lparr>rb_ClusterName := v\<rparr>)) (\<lambda>b. retE (Some b)) w
            else bindE (reconcileMachinePreTerminateAnnotation E bootstrap) (\<lambda>_. retE (Some bootstrap)) w)"

definition bootstrap_OnRemove :: "('w, 'z) bootstrap_env_scheme \<Rightarrow> bootstrap_object \<Rightarrow> ('w, bootstrap_object) go" where
  "bootstrap_OnRemove E bootstrap = bindE (reconcileMachinePreTerminateAnnotation E bootstrap) (\<lambda>_. retE bootstrap)"

end
