(* ===== verification/Bootstrap_Correct.thy ===== *)
theory Bootstrap_Correct
  imports Bootstrap Plan_Store_Correct Node_Config_Correct
begin

text \<open>
  What the bootstrap controller guarantees: the infrastructure of an etcd machine in a living
  cluster is released only when its member is gone and nobody is joined to it, and the plan
  service account it generates reaches its own plan secret, passes the checks of the plan
  service accounts, and nothing else.
\<close>

section \<open>Releasing an etcd machine\<close>

text \<open>Whatever the controller does besides updating a machine leaves the machines alone.\<close>

definition same_machines :: "('w, 'z) bootstrap_env_scheme \<Rightarrow> 'w \<Rightarrow> 'w \<Rightarrow> bool" where
  "same_machines E w w' \<longleftrightarrow> (\<forall>ns n. b_MachineGet E ns n w' = b_MachineGet E ns n w)"

definition machines_law :: "('w, 'z) bootstrap_env_scheme \<Rightarrow> bool" where
  "machines_law E \<longleftrightarrow>
     (\<forall>ns n t w. same_machines E w (b_EnqueueAfter E ns n t w)) \<and>
     (\<forall>c nd w. same_machines E w (snd (b_NodeUpdate E c nd w))) \<and>
     (\<forall>f w. (\<forall>v. same_machines E v (snd (f v))) \<longrightarrow> same_machines E w (snd (q_RetryOnConflict E f w)))"

lemma same_machines_refl [simp]: "same_machines E w w"
  by (simp add: same_machines_def)

lemma wait_for_keeps: "machines_law E \<Longrightarrow> wait_for E b t w = (r, w') \<Longrightarrow> same_machines E w w'"
  by (auto simp: machines_law_def wait_for_def)

lemma mark_attempt_keeps: "machines_law E \<Longrightarrow> same_machines E w (snd (mark_removed_attempt E c a n w))"
  by (auto simp: machines_law_def mark_removed_attempt_def split: sum.splits)

lemma SafelyRemoved_keeps:
  assumes "machines_law E"
  shows "same_machines E w (snd (SafelyRemoved E rc rt n w))"
proof -
  have "same_machines E w (snd (q_RetryOnConflict E (mark_removed_attempt E c a n) w))" for c a
    using assms mark_attempt_keeps [OF assms] by (simp add: machines_law_def)
  then show ?thesis
    by (auto simp: SafelyRemoved_def Let_def bindE_def retE_def split: sum.splits prod.splits) (metis snd_conv)+
qed

text \<open>The etcd member of a node is gone.\<close>

definition member_gone :: "('w, 'z) bootstrap_env_scheme \<Rightarrow> string \<Rightarrow> string \<Rightarrow> string \<Rightarrow> 'w \<Rightarrow> bool" where
  "member_gone E kubeconfig runtime nodeName w \<longleftrightarrow>
     (case b_RESTConfig E kubeconfig of
        Inl _ \<Rightarrow> False
      | Inr restConfig \<Rightarrow>
          (case b_NewForConfig E restConfig of
             Inl _ \<Rightarrow> False
           | Inr clientset \<Rightarrow>
               (case b_NodeGet E clientset nodeName w of
                  Inl e \<Rightarrow> is_NotFound e
                | Inr node \<Rightarrow>
                    gets (kn_Annotations node) (''etcd.'' @ runtime @ ''.cattle.io/remove'') = ''true'' \<and>
                    gets (kn_Annotations node) (''etcd.'' @ runtime @ ''.cattle.io/removed-node-name'') \<noteq> '''')))"

lemma SafelyRemoved_True:
  assumes "b_RESTConfig E kc = Inr rc" "SafelyRemoved E rc rt n w = (Inr True, w')"
  shows "member_gone E kc rt n w"
  using assms
  by (auto simp: member_gone_def SafelyRemoved_def Let_def bindE_def retE_def split: sum.splits if_splits prod.splits)

text \<open>
  What the cluster itself says of the member: without a kubeconfig secret for the cluster it
  cannot be asked.
\<close>

definition member_left :: "('w, 'z) bootstrap_env_scheme \<Rightarrow> bootstrap_object \<Rightarrow> string \<Rightarrow> string \<Rightarrow> 'w \<Rightarrow> bool" where
  "member_left E b runtime nodeName w \<longleftrightarrow>
     (case k_SecretCacheGet E (rb_Namespace b) (b_KubeconfigName E (rb_ClusterName b)) w of
        Inl e \<Rightarrow> is_NotFound e
      | Inr kc \<Rightarrow> member_gone E (gets (s_Data kc) ''value'') runtime nodeName w)"

lemma remove_member_cases:
  assumes "machines_law E" "remove_member E b m cp n w = (r, w')"
  shows "same_machines E w w' \<or> member_left E b (GetRuntimeCommand (sp_KubernetesVersion (cp_Spec cp))) n w"
proof (cases "k_SecretCacheGet E (rb_Namespace b) (b_KubeconfigName E (rb_ClusterName b)) w")
  case (Inl e)
  with assms(2) show ?thesis by (auto simp: remove_member_def member_left_def split: if_splits)
next
  case kc: (Inr kc)
  let ?rt = "GetRuntimeCommand (sp_KubernetesVersion (cp_Spec cp))"
  show ?thesis
  proof (cases "\<exists>rc w1. b_RESTConfig E (gets (s_Data kc) ''value'') = Inr rc \<and> SafelyRemoved E rc ?rt n w = (Inr True, w1)")
    case True
    with SafelyRemoved_True kc show ?thesis by (fastforce simp: member_left_def)
  next
    case False
    show ?thesis
    proof (cases "b_RESTConfig E (gets (s_Data kc) ''value'')")
      case (Inl e)
      with assms kc show ?thesis by (simp add: remove_member_def)
    next
      case (Inr rc)
      obtain x w1 where run: "SafelyRemoved E rc ?rt n w = (x, w1)" by fastforce
      with SafelyRemoved_keeps [OF assms(1), of w rc ?rt n] have w1: "same_machines E w w1" by simp
      from False Inr run have "x \<noteq> Inr True" by blast
      with assms(2) kc Inr run have "w' = w1 \<or> wait_for E b 5 w1 = (r, w')"
        by (cases x) (auto simp: remove_member_def bindE_def split: if_splits)
      with wait_for_keeps [OF assms(1), of b 5 w1 r w'] w1 show ?thesis by (auto simp: same_machines_def)
    qed
  qed
qed

text \<open>The cluster of a bootstrap is there and not being deleted.\<close>

definition living_cluster :: "('w, 'z) bootstrap_env_scheme \<Rightarrow> bootstrap_object \<Rightarrow> cp_object \<Rightarrow> 'w \<Rightarrow> bool" where
  "living_cluster E b cp w \<longleftrightarrow>
     rb_ClusterName b \<noteq> '''' \<and> cp_DeletionTimestamp cp = None \<and>
     (case b_ClusterGet E (rb_Namespace b) (rb_ClusterName b) w of
        Inl _ \<Rightarrow> False
      | Inr c \<Rightarrow>
          cc_DeletionTimestamp c = None \<and>
          (case cc_ControlPlaneRef c of None \<Rightarrow> False | Some ref \<Rightarrow> b_ControlPlaneGet E (or_Namespace ref) (or_Name ref) w = Inr cp))"

text \<open>
  No plan secret of the cluster names the join URL of the machine of the bootstrap as the
  server that its machine has joined. The join URL is on the machine's own plan secret; once
  that secret is gone there is nothing to compare.
\<close>

definition nobody_joined :: "('w, 'z) bootstrap_env_scheme \<Rightarrow> bootstrap_object \<Rightarrow> 'w \<Rightarrow> bool" where
  "nobody_joined E b w \<longleftrightarrow>
     (case k_SecretCacheGet E (rb_Namespace b) (PlanSecretFromBootstrapName E (rb_Name b)) w of
        Inl e \<Rightarrow> is_NotFound e
      | Inr own \<Rightarrow>
          \<exists>planSecrets. b_SecretList E (rb_Namespace b) [(CAPIClusterNameLabel, rb_ClusterName b)] w = Inr planSecrets \<and>
            (\<forall>ps \<in> set planSecrets.
               gets (s_Annotations ps) JoinedToAnnotation \<noteq> gets (s_Annotations own) JoinURLAnnotation))"

lemma still_joined_iff: "still_joined E b w = Inr False \<longleftrightarrow> nobody_joined E b w"
  by (auto simp: still_joined_def nobody_joined_def list_ex_iff split: sum.splits)

lemma release_machine_cases:
  assumes "machines_law E" "release_machine E b m c cp w = (r, w')"
    and "cp_DeletionTimestamp cp = None" "cc_DeletionTimestamp c = None" "m_NodeRef m = Some n"
  shows "same_machines E w w' \<or>
    nobody_joined E b w \<and> member_left E b (GetRuntimeCommand (sp_KubernetesVersion (cp_Spec cp))) n w"
proof (cases "still_joined E b w")
  case (Inl e)
  with assms show ?thesis by (simp add: release_machine_def)
next
  case (Inr joined)
  show ?thesis
  proof (cases joined)
    case True
    with assms(2-5) Inr have "wait_for E b 5 w = (r, w')" by (simp add: release_machine_def)
    from wait_for_keeps [OF assms(1) this] show ?thesis by simp
  next
    case False
    with assms Inr have "remove_member E b m cp n w = (r, w')" by (simp add: release_machine_def)
    from remove_member_cases [OF assms(1) this] Inr False still_joined_iff [of E b w] show ?thesis by simp
  qed
qed

text \<open>
  C32. The infrastructure of an etcd machine is released safely. In a living cluster, for an
  etcd machine with a node whose removal is not forced, a run of the controller after which the
  pre-terminate hook is gone from the machine means three things. The machine or its bootstrap is
  being deleted. No plan secret of the cluster names the join URL on the machine's plan secret
  as the server its machine has joined, or the machine's own plan secret is gone, and the join
  URL with it. And the etcd member of its node is gone - the node does not exist, or it was
  asked to leave and has reported that it left - or the cluster has no kubeconfig secret to ask
  it with.
\<close>

theorem hook_released_safely:
  assumes law: "machines_law E"
    and machine: "GetMachineByOwner (\<lambda>ns n. b_MachineGet E ns n w) (bootstrap_meta b) = Inr m"
      "b_MachineGet E (m_Namespace m) (m_Name m) w = Inr m" "m_Labels m EtcdRoleLabel \<noteq> None" "m_NodeRef m = Some n"
      "m_Annotations m capiMachinePreTerminateAnnotation = Some capiMachinePreTerminateAnnotationOwner"
    and force: "ToLower (gets (rb_Annotations b) ForceRemoveEtcdAnnotation) \<noteq> ''true''"
    and cluster: "living_cluster E b cp w"
    and run: "reconcileMachinePreTerminateAnnotation E b w = (r, w')"
      "b_MachineGet E (m_Namespace m) (m_Name m) w' = Inr m'" "m_Annotations m' capiMachinePreTerminateAnnotation = None"
  shows "(m_DeletionTimestamp m \<noteq> None \<or> rb_DeletionTimestamp b \<noteq> None) \<and>
    (case k_SecretCacheGet E (rb_Namespace b) (PlanSecretFromBootstrapName E (rb_Name b)) w of
       Inl e \<Rightarrow> is_NotFound e
     | Inr own \<Rightarrow>
         \<exists>planSecrets. b_SecretList E (rb_Namespace b) [(CAPIClusterNameLabel, rb_ClusterName b)] w = Inr planSecrets \<and>
           (\<forall>ps \<in> set planSecrets.
              gets (s_Annotations ps) JoinedToAnnotation \<noteq> gets (s_Annotations own) JoinURLAnnotation)) \<and>
    (case k_SecretCacheGet E (rb_Namespace b) (b_KubeconfigName E (rb_ClusterName b)) w of
       Inl e \<Rightarrow> is_NotFound e
     | Inr kc \<Rightarrow> member_gone E (gets (s_Data kc) ''value'') (GetRuntimeCommand (sp_KubernetesVersion (cp_Spec cp))) n w)"
proof -
  have changed: "\<not> same_machines E w w'" using machine(2,5) run(2,3) unfolding same_machines_def by (metis option.distinct(1) sum.inject(2))
  from cluster(1) obtain c ref where c: "b_ClusterGet E (rb_Namespace b) (rb_ClusterName b) w = Inr c" "rb_ClusterName b \<noteq> ''''"
    "cc_ControlPlaneRef c = Some ref" "b_ControlPlaneGet E (or_Namespace ref) (or_Name ref) w = Inr cp"
    "cp_DeletionTimestamp cp = None" "cc_DeletionTimestamp c = None"
    by (auto simp: living_cluster_def split: sum.splits option.splits)
  show ?thesis
  proof (cases "m_DeletionTimestamp m = None \<and> rb_DeletionTimestamp b = None")
    case True
    with run(1) machine force have "w' = w" by (simp add: reconcileMachinePreTerminateAnnotation_def ensure_hook_def)
    with changed show ?thesis by simp
  next
    case False
    with run(1) machine force c have "release_machine E b m c cp w = (r, w')"
      by (auto simp: reconcileMachinePreTerminateAnnotation_def)
    from release_machine_cases [OF law this c(5,6) machine(4)] changed False show ?thesis
      unfolding nobody_joined_def member_left_def by simp
  qed
qed

text \<open>
  A join URL that was never recorded blocks the removal: the controller compares it with the
  server that each machine has joined, and an init node has joined none. So in a living cluster
  an etcd machine whose plan secret has no join URL waits as long as the cluster has a plan
  secret without a joined server, whatever its etcd member has done.
\<close>

theorem missing_join_url_blocks:
  assumes machine: "GetMachineByOwner (\<lambda>ns n. b_MachineGet E ns n w) (bootstrap_meta b) = Inr m"
      "m_Labels m EtcdRoleLabel \<noteq> None" "m_NodeRef m = Some n" "m_DeletionTimestamp m \<noteq> None"
    and force: "ToLower (gets (rb_Annotations b) ForceRemoveEtcdAnnotation) \<noteq> ''true''"
    and cluster: "living_cluster E b cp w"
    and own: "k_SecretCacheGet E (rb_Namespace b) (PlanSecretFromBootstrapName E (rb_Name b)) w = Inr own"
      "gets (s_Annotations own) JoinURLAnnotation = ''''"
    and other: "b_SecretList E (rb_Namespace b) [(CAPIClusterNameLabel, rb_ClusterName b)] w = Inr ps" "p \<in> set ps"
      "gets (s_Annotations p) JoinedToAnnotation = ''''"
  shows "reconcileMachinePreTerminateAnnotation E b w = (Inl ErrSkip, b_EnqueueAfter E (rb_Namespace b) (rb_Name b) 5 w)"
proof -
  have "still_joined E b w = Inr True" using own other by (auto simp: still_joined_def list_ex_iff)
  with machine force cluster show ?thesis
    by (auto simp: reconcileMachinePreTerminateAnnotation_def living_cluster_def release_machine_def wait_for_def
        split: sum.splits option.splits)
qed

section \<open>The plan service account\<close>

text \<open>
  The service account as the API server holds it: with the labels that were generated and,
  from the apply of the generated objects, the bootstrap as its owner.
\<close>

definition applied_account :: "bootstrap_object \<Rightarrow> string \<Rightarrow> string \<Rightarrow> smap \<Rightarrow> object_meta" where
  "applied_account b ns name labels = \<lparr>om_Namespace = ns, om_Name = name, om_Labels = labels,
     om_OwnerReferences = [\<lparr>ow_APIVersion = ''rke.cattle.io/v1'', ow_Kind = ''RKEBootstrap'', ow_Name = rb_Name b, ow_Controller = True\<rparr>],
     om_Conditions = []\<rparr>"

definition role_rules :: "generated list \<Rightarrow> policy_rule list" where
  "role_rules objs = concat (map (\<lambda>g. case g of GRole _ _ rules \<Rightarrow> rules | _ \<Rightarrow> []) objs)"

definition role_subjects :: "generated list \<Rightarrow> (string \<times> string \<times> string) list" where
  "role_subjects objs = concat (map (\<lambda>g. case g of GRoleBinding _ _ subjects _ \<Rightarrow> subjects | _ \<Rightarrow> []) objs)"

lemma generated_objects:
  assumes "GeneratingHandler E b st w = (Inr (objs, st'), w')"
  obtains m extra where
    "GetOwnerCAPIMachine E (\<lambda>ns n. b_MachineGet E ns n w) (Some (bootstrap_meta b)) = Inr m"
    "objs = assignPlanSecret E m b @ extra" "role_rules extra = []" "role_subjects extra = []"
proof -
  from assms obtain m c sec sas w1 where m: "GetOwnerCAPIMachine E (\<lambda>ns n. b_MachineGet E ns n w) (Some (bootstrap_meta b)) = Inr m"
    and sec: "assignBootStrapSecret E m b c w = (Inr (sec, sas), w1)"
    and objs: "objs = assignPlanSecret E m b @ (case sec of None \<Rightarrow> [] | Some s \<Rightarrow> [GSecret s]) @ sas"
    by (auto simp: GeneratingHandler_def wait_for_def bindE_eq_Inr_iff retE_def split: sum.split_asm if_split_asm)
  have "role_rules sas = [] \<and> role_subjects sas = []"
    using sec by (auto simp: assignBootStrapSecret_def bindE_eq_Inr_iff retE_def Let_def role_rules_def role_subjects_def
        split: sum.split_asm if_split_asm)
  then have "role_rules ((case sec of None \<Rightarrow> [] | Some s \<Rightarrow> [GSecret s]) @ sas) = []"
    "role_subjects ((case sec of None \<Rightarrow> [] | Some s \<Rightarrow> [GSecret s]) @ sas) = []"
    by (auto simp: role_rules_def role_subjects_def split: option.splits)
  from that [OF m objs this] show thesis .
qed

text \<open>A controller owner is one of the owners; the machine cache returns the machine of the asked name.\<close>

definition owner_law :: "('w, 'z) bootstrap_env_scheme \<Rightarrow> bool" where
  "owner_law E \<longleftrightarrow>
     (\<forall>refs ref. lib_GetControllerOf E refs = Some ref \<longrightarrow> ref \<in> set refs) \<and>
     (\<forall>ns n w m. b_MachineGet E ns n w = Inr m \<longrightarrow> m_Name m = n)"

lemma owner_machine:
  assumes "owner_law E" "GetOwnerCAPIMachine E (\<lambda>ns n. b_MachineGet E ns n w) (Some (bootstrap_meta b)) = Inr m"
  shows "\<exists>ref \<in> set (rb_OwnerReferences b). ow_Kind ref = ''Machine'' \<and> ow_Name ref = m_Name m"
  using assms
  by (auto simp: owner_law_def GetOwnerCAPIMachine_def GetOwnerFromGVK_def bootstrap_meta_def sbind_eq_Inr_iff
      split: option.split_asm if_split_asm)

lemma plan_objects:
  "role_rules (assignPlanSecret E m b) =
     [\<lparr>pr_Verbs = [''watch'', ''get'', ''update'', ''list''], pr_APIGroups = [''''], pr_Resources = [''secrets''],
       pr_ResourceNames = [PlanSecretFromBootstrapName E (rb_Name b)]\<rparr>]"
  "role_subjects (assignPlanSecret E m b) = [(''ServiceAccount'', PlanSecretFromBootstrapName E (rb_Name b), rb_Namespace b)]"
  by (simp_all add: role_rules_def role_subjects_def assignPlanSecret_def Let_def split_beta)

text \<open>
  C33. What the controller generates for a machine is consistent and grants nothing more: the plan
  service account passes the check of plan service accounts for exactly the machine that owns
  the bootstrap, and names the plan secret; that secret is generated too, as an empty plan
  secret; and among all generated objects the only rule gives access to that one secret, bound
  to that one service account.
\<close>

theorem generated_plan_account:
  assumes run: "GeneratingHandler E b st w = (Inr (objs, st'), w')" and law: "owner_law E"
    and api: "bootstrapGet (rb_Namespace b) (rb_Name b) = Inr (bootstrap_meta b)"
    and names: "PlanSecretFromBootstrapName E (rb_Name b) = plan" "plan \<noteq> ''''"
      "\<forall>m. GetOwnerCAPIMachine E (\<lambda>ns n. b_MachineGet E ns n w) (Some (bootstrap_meta b)) = Inr m \<longrightarrow> m_Name m \<noteq> ''''"
  shows "\<exists>m labels s.
    GetOwnerCAPIMachine E (\<lambda>ns n. b_MachineGet E ns n w) (Some (bootstrap_meta b)) = Inr m \<and>
    GServiceAccount (rb_Namespace b) plan labels \<in> set objs \<and>
    PlanSACheck bootstrapGet (m_Name m) (Some (applied_account b (rb_Namespace b) plan labels)) = None \<and>
    GetPlanSecretName (Some (applied_account b (rb_Namespace b) plan labels)) = Inr plan \<and>
    GSecret s \<in> set objs \<and> s_Name s = plan \<and> s_Namespace s = rb_Namespace b \<and> s_Type s = SecretTypeMachinePlan \<and> s_Data s = Map.empty \<and>
    role_rules objs = [\<lparr>pr_Verbs = [''watch'', ''get'', ''update'', ''list''], pr_APIGroups = [''''], pr_Resources = [''secrets''],
       pr_ResourceNames = [plan]\<rparr>] \<and>
    role_subjects objs = [(''ServiceAccount'', plan, rb_Namespace b)]"
proof (rule generated_objects [OF run])
  fix m extra
  assume m: "GetOwnerCAPIMachine E (\<lambda>ns n. b_MachineGet E ns n w) (Some (bootstrap_meta b)) = Inr m"
    and objs: "objs = assignPlanSecret E m b @ extra" and extra: "role_rules extra = []" "role_subjects extra = []"
  let ?labels = "[MachineNameLabel \<mapsto> m_Name m, rkeBootstrapName \<mapsto> rb_Name b, RoleLabel \<mapsto> RolePlan, PlanSecret \<mapsto> plan]"
  let ?s = "\<lparr>s_Namespace = rb_Namespace b, s_Name = plan, s_Type = SecretTypeMachinePlan,
      s_Labels = fst (getLabelsAndAnnotationsForPlanSecret b m), s_Annotations = snd (getLabelsAndAnnotationsForPlanSecret b m),
      s_Data = Map.empty\<rparr>"
  have members: "GServiceAccount (rb_Namespace b) plan ?labels \<in> set objs" "GSecret ?s \<in> set objs"
    using names(1) by (simp_all add: objs assignPlanSecret_def Let_def split_beta)
  have labels: "gets ?labels MachineNameLabel = m_Name m" "gets ?labels RoleLabel = RolePlan" "gets ?labels PlanSecret = plan"
    by (simp_all add: key_defs rkeBootstrapName_def)
  have "IsOwnedByMachine bootstrapGet (m_Name m) (applied_account b (rb_Namespace b) plan ?labels) = Inr True"
    using owner_machine [OF law m] api by (auto simp: IsOwnedByMachine_def applied_account_def bootstrap_meta_def)
  then have check: "PlanSACheck bootstrapGet (m_Name m) (Some (applied_account b (rb_Namespace b) plan ?labels)) = None"
    using labels names m by (simp add: PlanSACheck_def applied_account_def)
  have name: "GetPlanSecretName (Some (applied_account b (rb_Namespace b) plan ?labels)) = Inr plan"
    using labels(3) names(2) by (simp add: GetPlanSecretName_def applied_account_def)
  have "role_rules objs = role_rules (assignPlanSecret E m b)" "role_subjects objs = role_subjects (assignPlanSecret E m b)"
    using extra by (simp_all add: objs role_rules_def role_subjects_def)
  with m members check name show ?thesis
    unfolding plan_objects names(1) by (intro exI [of _ m] exI [of _ ?labels] exI [of _ ?s]) simp
qed

section \<open>A concrete cluster\<close>

text \<open>
  Machines whose annotations are kept in the world of secrets, a node that has left the etcd
  cluster, and a bootstrap of the machine that is being deleted.
\<close>

definition kept_annotations :: "string \<Rightarrow> demo_world \<Rightarrow> smap" where
  "kept_annotations n w = (case w (''machine/'' @ n) of None \<Rightarrow> Map.empty | Some s \<Rightarrow> s_Annotations s)"

definition leaving_machine :: "string \<Rightarrow> smap \<Rightarrow> cluster_machine" where
  "leaving_machine n a = cluster_machine_of ''c'' ((demo_machine n)\<lparr>m_Annotations := a, m_Labels := [EtcdRoleLabel \<mapsto> ''true''],
     m_DeletionTimestamp := Some ''2024-01-01T00:00:00Z''\<rparr>)"

definition annotated_secret :: "string \<Rightarrow> smap \<Rightarrow> secret" where
  "annotated_secret n a = (demo_secret n)\<lparr>s_Name := n, s_Annotations := a, s_Data := [''value'' \<mapsto> ''kubeconfig'']\<rparr>"

definition demo_bootstrap_env :: "demo_world bootstrap_env" where
  "demo_bootstrap_env = planner_env.extend (demo_planner\<lparr>k_SecretCacheGet := (\<lambda>_ n w. case w n of None \<Rightarrow> Inl (ErrNotFound n) | Some s \<Rightarrow> Inr s)\<rparr>)
     \<lparr>b_MachineGet = (\<lambda>_ n w. Inr (leaving_machine n (kept_annotations n w))),
      b_MachineUpdate = (\<lambda>m w. (Inr m, w(''machine/'' @ m_Name m \<mapsto> annotated_secret (''machine/'' @ m_Name m) (m_Annotations m)))),
      b_ClusterGet = (\<lambda>_ _ _. Inr (demo_cluster\<lparr>cc_ControlPlaneRef :=
        Some \<lparr>or_APIVersion = ''rke.cattle.io/v1'', or_Kind = ''RKEControlPlane'', or_Namespace = ''fleet-default'', or_Name = ''c''\<rparr>\<rparr>)),
      b_ControlPlaneGet = (\<lambda>_ _ _. Inr (RKEControlPlane.extend demo_cp \<lparr>cp_Generation = 1, cp_DeletionTimestamp = None\<rparr>)),
      b_SecretList = (\<lambda>_ _ _. Inr [annotated_secret ''b-machine-plan'' [JoinedToAnnotation \<mapsto> ''https://b:9345'']]),
      b_ServiceAccountGet = (\<lambda>_ n _. Inl (ErrNotFound n)), b_EnsureTokenSecret = (\<lambda>n w. (Inr (annotated_secret n Map.empty), w)),
      b_DeploymentPorts = (\<lambda>_. Inr []), b_InstallScript = (\<lambda>_ _ _ _ _. Inr ''script''), b_TokenHash = (\<lambda>s. s),
      b_BootstrapUpdate = (\<lambda>b w. (Inr b, w)), b_EnqueueAfter = (\<lambda>_ _ _ w. w), b_IsPaused = (\<lambda>_ _. False),
      b_KubeconfigName = (\<lambda>c. c @ ''-kubeconfig''), b_RESTConfig = (\<lambda>v. Inr v), b_NewForConfig = (\<lambda>v. Inr v),
      b_NodeGet = (\<lambda>_ n _. Inr \<lparr>kn_Name = n, kn_Annotations =
        [''etcd.rke2.cattle.io/remove'' \<mapsto> ''true'', ''etcd.rke2.cattle.io/removed-node-name'' \<mapsto> n]\<rparr>),
      b_NodeUpdate = (\<lambda>_ _ w. (Inr (), w))\<rparr>"

definition demo_bootstrap :: bootstrap_object where
  "demo_bootstrap = rke_bootstrap.extend \<lparr>rb_Namespace = ''fleet-default'', rb_Name = ''w'', rb_Annotations = Map.empty\<rparr>
     \<lparr>rb_Labels = Map.empty, rb_OwnerReferences =
        [\<lparr>ow_APIVersion = ''cluster.x-k8s.io/v1beta1'', ow_Kind = ''Machine'', ow_Name = ''w'', ow_Controller = True\<rparr>],
      rb_DeletionTimestamp = None, rb_ClusterName = ''c''\<rparr>"

definition held :: smap where
  "held = [capiMachinePreTerminateAnnotation \<mapsto> capiMachinePreTerminateAnnotationOwner]"

definition demo_leaving_world :: demo_world where
  "demo_leaving_world = [''machine/w'' \<mapsto> annotated_secret ''machine/w'' held, ''c-kubeconfig'' \<mapsto> annotated_secret ''c-kubeconfig'' Map.empty,
     ''w-machine-plan'' \<mapsto> annotated_secret ''w-machine-plan'' [JoinURLAnnotation \<mapsto> ''https://w:9345'']]"

lemma demo_bootstrap_fields [simp]:
  "b_MachineGet demo_bootstrap_env = (\<lambda>_ n w. Inr (leaving_machine n (kept_annotations n w)))"
  "b_EnqueueAfter demo_bootstrap_env = (\<lambda>_ _ _ w. w)" "b_NodeUpdate demo_bootstrap_env = (\<lambda>_ _ w. (Inr (), w))"
  "q_RetryOnConflict demo_bootstrap_env = (\<lambda>f. f)" "lib_GetControllerOf demo_bootstrap_env = find ow_Controller"
  "lib_SafeConcatName demo_bootstrap_env = (\<lambda>xs. Join xs ''-'')"
  by (simp_all add: demo_bootstrap_env_def demo_planner_def demo_config_def demo_store_def demo_libs_def
      planner_env.defs config_env.defs store_env.defs libs.defs)

lemma leaving_machine_fields [simp]: "m_Name (leaving_machine n a) = n" "m_Annotations (leaving_machine n a) = a"
    "m_NodeRef (leaving_machine n a) = Some n" "m_Labels (leaving_machine n a) = [EtcdRoleLabel \<mapsto> ''true'']"
  by (simp_all add: leaving_machine_def cluster_machine_of_def machine.defs demo_machine_def)

lemma demo_bootstrap_laws: "machines_law demo_bootstrap_env" "owner_law demo_bootstrap_env"
  by (auto simp: machines_law_def owner_law_def same_machines_def find_Some_iff)

theorem hook_released_safely_witness:
  "\<exists>w'. snd (reconcileMachinePreTerminateAnnotation demo_bootstrap_env demo_bootstrap demo_leaving_world) = w' \<and>
     kept_annotations ''w'' w' capiMachinePreTerminateAnnotation = None \<and>
     nobody_joined demo_bootstrap_env demo_bootstrap demo_leaving_world \<and>
     member_gone demo_bootstrap_env ''kubeconfig'' (GetRuntimeCommand (sp_KubernetesVersion demo_spec)) ''w'' demo_leaving_world"
proof -
  let ?E = demo_bootstrap_env and ?b = demo_bootstrap and ?w = demo_leaving_world
  let ?m = "leaving_machine ''w'' (kept_annotations ''w'' ?w)"
  let ?cp = "RKEControlPlane.extend demo_cp \<lparr>cp_Generation = 1, cp_DeletionTimestamp = None\<rparr>"
  obtain r w' where run: "reconcileMachinePreTerminateAnnotation ?E ?b ?w = (r, w')" by fastforce
  have gone: "kept_annotations ''w'' (snd (reconcileMachinePreTerminateAnnotation ?E ?b ?w)) capiMachinePreTerminateAnnotation = None"
    by code_simp
  have owner: "GetMachineByOwner (\<lambda>ns n. b_MachineGet ?E ns n ?w) (bootstrap_meta ?b) = Inr ?m"
    by (simp add: GetMachineByOwner_def bootstrap_meta_def demo_bootstrap_def rke_bootstrap.defs)
  have hook: "kept_annotations ''w'' ?w capiMachinePreTerminateAnnotation = Some capiMachinePreTerminateAnnotationOwner"
    "ToLower (gets (rb_Annotations ?b) ForceRemoveEtcdAnnotation) \<noteq> ''true''" by code_simp+
  have alive: "living_cluster ?E ?b ?cp ?w"
    by (simp add: living_cluster_def demo_bootstrap_env_def demo_bootstrap_def planner_env.defs rke_bootstrap.defs demo_cluster_def RKEControlPlane.defs)
  have kc: "k_SecretCacheGet ?E (rb_Namespace ?b) (b_KubeconfigName ?E (rb_ClusterName ?b)) ?w = Inr (annotated_secret ''c-kubeconfig'' Map.empty)"
    by (simp add: demo_bootstrap_env_def demo_bootstrap_def planner_env.defs rke_bootstrap.defs demo_leaving_world_def)
  have cp: "cp_Spec ?cp = demo_spec" "gets (s_Data (annotated_secret ''c-kubeconfig'' Map.empty)) ''value'' = ''kubeconfig''"
    by (simp_all add: RKEControlPlane.defs demo_cp_def annotated_secret_def)
  from hook_released_safely [OF demo_bootstrap_laws(1) owner _ _ _ _ hook(2) alive run] run gone hook(1) kc cp
  show ?thesis unfolding nobody_joined_def by simp
qed

theorem generated_plan_account_witness:
  "\<exists>objs st' w' labels. GeneratingHandler demo_bootstrap_env demo_bootstrap \<lparr>bs_DataSecretName = None, bs_Ready = False\<rparr> demo_leaving_world =
       (Inr (objs, st'), w') \<and>
     GServiceAccount ''fleet-default'' ''w-machine-plan'' labels \<in> set objs \<and>
     PlanSACheck (\<lambda>_ _. Inr (bootstrap_meta demo_bootstrap)) ''w''
       (Some (applied_account demo_bootstrap ''fleet-default'' ''w-machine-plan'' labels)) = None"
proof -
  let ?E = demo_bootstrap_env and ?b = demo_bootstrap and ?w = demo_leaving_world
  have "case GeneratingHandler ?E ?b \<lparr>bs_DataSecretName = None, bs_Ready = False\<rparr> ?w of (Inr _, _) \<Rightarrow> True | _ \<Rightarrow> False" by code_simp
  then obtain objs st' w' where run: "GeneratingHandler ?E ?b \<lparr>bs_DataSecretName = None, bs_Ready = False\<rparr> ?w = (Inr (objs, st'), w')"
    by (auto split: prod.splits sum.splits)
  have owner: "GetOwnerCAPIMachine ?E (\<lambda>ns n. b_MachineGet ?E ns n ?w) (Some (bootstrap_meta ?b)) = Inr m \<longleftrightarrow>
      m = leaving_machine ''w'' (kept_annotations ''w'' ?w)" for m
    by (auto simp: GetOwnerCAPIMachine_def GetOwnerFromGVK_def bootstrap_meta_def demo_bootstrap_def rke_bootstrap.defs)
  have b: "rb_Namespace ?b = ''fleet-default''" "PlanSecretFromBootstrapName ?E (rb_Name ?b) = ''w-machine-plan''"
    by (simp_all add: demo_bootstrap_def rke_bootstrap.defs PlanSecretFromBootstrapName_def)
  from generated_plan_account [OF run demo_bootstrap_laws(2), of "\<lambda>_ _. Inr (bootstrap_meta ?b)", OF refl b(2)] run owner b(1)
  show ?thesis by auto
qed

end
