(* ===== verification/Planner_Controller.thy ===== *)
theory Planner_Controller
  imports Planner_Process Controller_Env
begin

text \<open>
  The controllers that drive the planner and the objects beside it: the planner's own
  (\<open>controllers/capr/planner/controller.go\<close>), which runs a pass and writes its outcome to the status,
  the control plane's (\<open>controllers/capr/rkecontrolplane/controlplane.go\<close>), which follows the agent's
  connection and removes custom machines, and the cluster's (\<open>controllers/capr/rkecluster/controller.go\<close>).
\<close>

section \<open>Environment\<close>

text \<open>The status as the controllers see it; a pass works on \<open>os_Status\<close> and keeps the other two.\<close>

record status_object =
  os_Status :: RKEControlPlaneStatus
  os_ObservedGeneration :: int
  os_AppliedSpec :: "RKEControlPlaneSpec option"

record rke_cluster =
  rc_Namespace :: string
  rc_Name :: string
  rc_OwnerReferences :: "owner_ref list"
  rc_ControlPlaneEndpoint :: "(string \<times> int) option"
  rc_Conditions :: "cond list"
  rc_Ready :: bool

text \<open>
  \<open>o_SetError\<close> is the condition library's, \<open>o_SameSpec\<close> is \<open>equality.Semantic.DeepEqual\<close> of a spec and
  the applied one, \<open>o_Connected\<close> the connected condition of a management cluster.
\<close>

record 'w controller_env = "'w planner_env" +
  o_EnqueueAfter :: "string \<Rightarrow> string \<Rightarrow> int \<Rightarrow> 'w \<Rightarrow> 'w"
  o_SetError :: "string \<Rightarrow> string \<Rightarrow> go_error \<Rightarrow> cond list \<Rightarrow> cond list"
  o_SameSpec :: "RKEControlPlaneSpec \<Rightarrow> RKEControlPlaneSpec option \<Rightarrow> bool"
  o_ManagementCluster :: "string \<Rightarrow> 'w \<Rightarrow> go_error + string"
  o_Connected :: "string \<Rightarrow> bool"
  o_MachineList :: "string \<Rightarrow> (string \<times> string) list \<Rightarrow> 'w \<Rightarrow> go_error + machine list"
  o_MachineDelete :: "string \<Rightarrow> string \<Rightarrow> ('w, unit) go"
  o_SameStatus :: "status_object \<Rightarrow> status_object \<Rightarrow> bool"
  o_UpdateStatus :: "cp_object \<Rightarrow> status_object \<Rightarrow> ('w, unit) go"
  o_ClusterUpdate :: "rke_cluster \<Rightarrow> ('w, rke_cluster) go"
  o_ClusterUpdateStatus :: "rke_cluster \<Rightarrow> ('w, rke_cluster) go"
  o_ClusterPaused :: "capi_cluster \<Rightarrow> rke_cluster \<Rightarrow> bool"
  o_EndpointIsValid :: "string \<times> int \<Rightarrow> bool"

section \<open>Objects that trigger a pass\<close>

datatype trigger =
    TSecret secret
  | TMachine machine
  | TConfigMap string smap
  | TOther

definition authorized_keys :: "string \<Rightarrow> smap \<Rightarrow> (string \<times> string) list" where
  "authorized_keys ns annotations =
     (let authorizedObjects = gets annotations AuthorizedObjectAnnotation in
      if authorizedObjects \<noteq> '''' then map (Pair ns) (Split authorizedObjects '','') else [])"

definition related_control_planes :: "trigger \<Rightarrow> (string \<times> string) list" where
  "related_control_planes obj =
     (case obj of
        TSecret sec \<Rightarrow>
          (let clusterName = gets (s_Labels sec) ClusterNameLabel in
           (if clusterName \<noteq> '''' then [(s_Namespace sec, clusterName)] else []) @
           authorized_keys (s_Namespace sec) (s_Annotations sec))
      | TMachine machine \<Rightarrow>
          (let clusterName = gets (m_Labels machine) CAPIClusterNameLabel in
           if clusterName \<noteq> '''' then [(m_Namespace machine, clusterName)] else [])
      | TConfigMap ns annotations \<Rightarrow> authorized_keys ns annotations
      | TOther \<Rightarrow> [])"

section \<open>A pass and its outcome\<close>

definition on_conditions :: "(cond list \<Rightarrow> cond list) \<Rightarrow> status_object \<Rightarrow> status_object" where
  "on_conditions f st = st\<lparr>os_Status := (os_Status st)\<lparr>st_Conditions := f (st_Conditions (os_Status st))\<rparr>\<rparr>"

definition set_unknown :: "cond_api \<Rightarrow> string \<Rightarrow> string \<Rightarrow> cond list \<Rightarrow> cond list" where
  "set_unknown A t message cs = c_SetReason A t ''Waiting'' (c_SetMessage A t message (c_SetStatus A t ''Unknown'' cs))"

definition set_true :: "cond_api \<Rightarrow> string \<Rightarrow> cond list \<Rightarrow> cond list" where
  "set_true A t cs = c_SetReason A t '''' (c_SetMessage A t '''' (c_True A t cs))"

definition planner_OnChange ::
  "('w, 'z) controller_env_scheme \<Rightarrow> cp_object \<Rightarrow> status_object \<Rightarrow> 'w \<Rightarrow> (status_object \<times> err) \<times> 'w" where
  "planner_OnChange E cp st w =
     (if cp_DeletionTimestamp cp \<noteq> None then ((st, None), w)
      else
        let A = lib_Cond E; st0 = st\<lparr>os_ObservedGeneration := cp_Generation cp\<rparr> in
        (case Process E (RKEControlPlane.truncate cp) (os_Status st0) w of
           ((status, Some e), w1) \<Rightarrow>
             let st1 = st0\<lparr>os_Status := status\<rparr> in
             if IsErrWaiting e then
               let st2 = on_conditions (set_unknown A ''Ready'' (Error e)) st1;
                   st3 = (if \<not> o_SameSpec E (cp_Spec cp) (os_AppliedSpec st2)
                          then on_conditions (set_unknown A ''Reconciled'' ''RKEControlPlane has not been fully reconciled yet'') st2
                          else st2) in
               ((st3, None), w1)
             else if is_ErrSkip e then ((st1, Some e), o_EnqueueAfter E (cp_Namespace cp) (cp_Name cp) 5 w1)
             else ((on_conditions (o_SetError E ''Reconciled'' '''' e) (on_conditions (o_SetError E ''Ready'' '''' e) st1), Some e), w1)
         | ((status, None), w1) \<Rightarrow>
             let st1 = on_conditions (set_true A ''Stable'') (on_conditions (set_true A ''Ready'') (st0\<lparr>os_Status := status\<rparr>));
                 st2 = on_conditions (set_true A ''Reconciled'') (st1\<lparr>os_AppliedSpec := Some (cp_Spec cp)\<rparr>) in
             ((st2, None), w1)))"

section \<open>The control plane\<close>

definition controlplane_OnChange ::
  "('w, 'z) controller_env_scheme \<Rightarrow> cp_object \<Rightarrow> status_object \<Rightarrow> 'w \<Rightarrow> (status_object \<times> err) \<times> 'w" where
  "controlplane_OnChange E obj st w =
     (let st0 = st\<lparr>os_ObservedGeneration := cp_Generation obj\<rparr> in
      case o_ManagementCluster E (sp_ManagementClusterName (cp_Spec obj)) w of
        Inl _ \<Rightarrow> ((st0, None), o_EnqueueAfter E (cp_Namespace obj) (cp_Name obj) 2 w)
      | Inr cluster \<Rightarrow> ((st0\<lparr>os_Status := (os_Status st0)\<lparr>st_AgentConnected := o_Connected E cluster\<rparr>\<rparr>, None), w))"

definition is_custom :: "machine \<Rightarrow> bool" where
  "is_custom machine \<longleftrightarrow>
     or_APIVersion (m_InfrastructureRef machine) = ''rke.cattle.io/v1'' \<and> or_Kind (m_InfrastructureRef machine) = ''CustomMachine''"

fun delete_custom :: "('w, 'z) controller_env_scheme \<Rightarrow> machine list \<Rightarrow> ('w, unit) go" where
  "delete_custom E [] w = (Inr (), w)"
| "delete_custom E (machine # machines) w =
     (if is_custom machine \<and> m_DeletionTimestamp machine = None then
        (case o_MachineDelete E (m_Namespace machine) (m_Name machine) w of
           (Inl e, w1) \<Rightarrow>
             (Inl (ErrOther (''error deleting machine '' @ m_Namespace machine @ ''/'' @ m_Name machine @ '': '' @ Error e)), w1)
         | (Inr _, w1) \<Rightarrow> delete_custom E machines w1)
      else delete_custom E machines w)"

definition doRemove :: "('w, 'z) controller_env_scheme \<Rightarrow> cp_object \<Rightarrow> ('w, string) go" where
  "doRemove E cp w =
     (case o_MachineList E (cp_Namespace cp) [(CAPIClusterNameLabel, cp_Name cp), (ControlPlaneRoleLabel, ''true'')] w of
        Inl e \<Rightarrow> (Inl e, w)
      | Inr machines \<Rightarrow>
          (case o_MachineList E (cp_Namespace cp) [(ClusterNameLabel, cp_Name cp), (ControlPlaneRoleLabel, ''true'')] w of
             Inl e \<Rightarrow> (Inl e, w)
           | Inr otherMachines \<Rightarrow>
               let allMachines = machines @ otherMachines in
               bindE (delete_custom E allMachines) (\<lambda>_. liftE (GetMachineDeletionStatus allMachines)) w))"

definition controlplane_OnRemove ::
  "('w, 'z) controller_env_scheme \<Rightarrow> cp_object \<Rightarrow> status_object \<Rightarrow> 'w \<Rightarrow> (status_object \<times> err) \<times> 'w" where
  "controlplane_OnRemove E cp st w =
     (case doRemove E cp w of
        (removal, w1) \<Rightarrow>
          (case DoRemoveAndUpdateStatus E (\<lambda>t. o_SetError E t '''') removal (st_Conditions (os_Status st)) of
             (err, cs, again) \<Rightarrow>
               let w2 = (if again then o_EnqueueAfter E (cp_Namespace cp) (cp_Name cp) 5 w1 else w1);
                   st' = on_conditions (\<lambda>_. cs) st in
               if o_SameStatus E st st' then ((st', err), w2)
               else
                 (case o_UpdateStatus E cp st' w2 of
                    (Inl e, w3) \<Rightarrow> ((st', Some e), w3)
                  | (Inr _, w3) \<Rightarrow> ((st', err), w3))))"

section \<open>The cluster\<close>

definition rkecluster_OnChange :: "('w, 'z) controller_env_scheme \<Rightarrow> rke_cluster option \<Rightarrow> ('w, rke_cluster option) go" where
  "rkecluster_OnChange E obj w =
     (case obj of
        None \<Rightarrow> (Inr None, w)
      | Some cluster \<Rightarrow>
          let meta = \<lparr>om_Namespace = rc_Namespace cluster, om_Name = rc_Name cluster, om_Labels = Map.empty,
                om_OwnerReferences = rc_OwnerReferences cluster, om_Conditions = rc_Conditions cluster\<rparr> in
          (case GetOwnerCAPICluster E (\<lambda>ns n. q_ClusterCacheGet E ns n w) (Some meta) of
             Inl e \<Rightarrow>
               if is_NotFound e then (Inl ErrSkip, o_EnqueueAfter E (rc_Namespace cluster) (rc_Name cluster) 10 w) else (Inl e, w)
           | Inr None \<Rightarrow> (Inl (GoPanic ''nil CAPI cluster''), w)
           | Inr (Some capiCluster) \<Rightarrow>
               if o_ClusterPaused E capiCluster cluster then (Inl ErrSkip, w)
               else if (case rc_ControlPlaneEndpoint cluster of None \<Rightarrow> True | Some ep \<Rightarrow> \<not> o_EndpointIsValid E ep)
               then bindE (o_ClusterUpdate E (cluster\<lparr>rc_ControlPlaneEndpoint := Some (''localhost'', 6443)\<rparr>)) (\<lambda>c. retE (Some c)) w
               else if rc_Conditions cluster \<noteq> [] \<or> \<not> rc_Ready cluster
               then bindE (o_ClusterUpdateStatus E (cluster\<lparr>rc_Conditions := [], rc_Ready := True\<rparr>)) (\<lambda>c. retE (Some c)) w
               else (Inr (Some cluster), w)))"

end
