(* ===== verification/Operations_Correct.thy ===== *)
theory Operations_Correct
  imports Phases_Correct
begin

text \<open>
  Snapshots, certificate rotation and key rotation: the order of their phases as abstract
  machines that the operations simulate, what a completed phase guarantees, and that an
  operation with nothing to do leaves the status and the planner's state as they are.
\<close>

section \<open>Creating an etcd snapshot\<close>

inductive create_step :: "ETCDSnapshotPhase \<Rightarrow> ETCDSnapshotPhase \<Rightarrow> bool" where
  begin_create: "p \<notin> {SnapStarted, SnapRestartCluster, SnapFailed, SnapFinished} \<Longrightarrow> create_step p SnapStarted"
| created: "create_step SnapStarted SnapRestartCluster"
| failed_create: "create_step SnapStarted SnapFailed"
| restarted: "create_step SnapRestartCluster SnapFinished"

inductive_simps create_step_simps [simp]:
  "create_step SnapStarted q" "create_step SnapRestartCluster q" "create_step SnapFailed q" "create_step SnapFinished q"
  "create_step SnapNone q" "create_step SnapShutdown q" "create_step SnapRestore q" "create_step SnapPostRestorePodCleanup q"
  "create_step SnapInitialRestartCluster q" "create_step SnapPostRestoreNodeCleanup q" "create_step (SnapOther x) q"

fun create_rank :: "ETCDSnapshotPhase \<Rightarrow> nat" where
  "create_rank SnapFinished = 0"
| "create_rank SnapFailed = 0"
| "create_rank SnapRestartCluster = 1"
| "create_rank SnapStarted = 2"
| "create_rank _ = 3"

definition create_pass ::
  "('w, 'z) planner_env_scheme \<Rightarrow> ETCDSnapshotCreate \<Rightarrow> RKEControlPlaneStatus \<Rightarrow> RKEControlPlaneStatus \<Rightarrow> bool" where
  "create_pass E snapshot st st' \<longleftrightarrow>
     st_ETCDSnapshotCreate st = Some snapshot \<and>
     (\<exists>cp t s r s'. sp_ETCDSnapshotCreate (cp_Spec cp) = Some snapshot \<and>
        st_ETCDSnapshotCreatePhase (cp_Status cp) = st_ETCDSnapshotCreatePhase st \<and>
        createEtcdSnapshot E cp st t s = ((st', r), s'))"

definition to_phase :: "RKEControlPlaneStatus \<Rightarrow> ETCDSnapshotCreate option \<Rightarrow> ETCDSnapshotPhase \<Rightarrow> RKEControlPlaneStatus" where
  "to_phase st c p = st\<lparr>st_ETCDSnapshotCreatePhase := p, st_ETCDSnapshotCreate := c\<rparr>"

lemma to_phase_fields [simp]:
  "st_ETCDSnapshotCreatePhase (to_phase st c p) = p" "st_ETCDSnapshotCreate (to_phase st c p) = c"
  "to_phase (to_phase st c p) d q = to_phase st d q"
  by (simp_all add: to_phase_def)

lemma setCreateState_cases:
  "setEtcdSnapshotCreateState st c p = (st', e) \<Longrightarrow> st' = to_phase st c p \<and> (e = None \<longrightarrow> st' = st)"
  by (auto simp: setEtcdSnapshotCreateState_def to_phase_def split: if_splits)

lemma failed_snapshots_status:
  assumes "fst (failed_snapshots snapshot errs st b fs) = st'"
  shows "st' = st \<or> st' = to_phase st (Some snapshot) SnapFailed"
  using assms
  by (induction errs arbitrary: st b fs)
     (auto split: if_splits prod.splits option.splits dest!: setCreateState_cases, fastforce+)

lemma create_started_cases:
  assumes "create_started E cp snapshot t st s = ((st', r), s')"
  shows "st' \<in> {st, to_phase st (Some snapshot) SnapFailed, to_phase st (Some snapshot) SnapRestartCluster}"
  using assms
  by (auto simp: create_started_def tryS_eq split_beta split: if_splits dest!: setCreateState_cases)
     (metis failed_snapshots_status)

lemma create_pass_cases:
  assumes "create_pass E snapshot st st'"
  shows "st' = st \<or> (\<exists>q. create_step (st_ETCDSnapshotCreatePhase st) q \<and> st' = to_phase st (Some snapshot) q)"
proof -
  from assms obtain cp t s r s' where run: "createEtcdSnapshot E cp st t s = ((st', r), s')"
    and rec: "st_ETCDSnapshotCreate st = Some snapshot" "sp_ETCDSnapshotCreate (cp_Spec cp) = Some snapshot"
      "st_ETCDSnapshotCreatePhase (cp_Status cp) = st_ETCDSnapshotCreatePhase st"
    by (auto simp: create_pass_def)
  then show ?thesis
    by (cases "st_ETCDSnapshotCreatePhase st")
       (auto simp: createEtcdSnapshot_def startOrRestartEtcdSnapshotCreate_def thenS_eq tryS_eq
         split: if_splits dest!: create_started_cases setCreateState_cases)
qed

interpretation create: phase_by_phase create_step create_rank "create_pass E sn" st_ETCDSnapshotCreatePhase "\<lambda>p. p = SnapFailed"
  for E :: "('w, 'z) planner_env_scheme" and sn
proof
  show "create_rank q < create_rank p" if "create_step p q" for p q
    using that by (cases rule: create_step.cases) (cases p; auto)+
  show "st_ETCDSnapshotCreatePhase b = st_ETCDSnapshotCreatePhase a \<or>
      create_step (st_ETCDSnapshotCreatePhase a) (st_ETCDSnapshotCreatePhase b)" if "create_pass E sn a b" for a b
    using create_pass_cases [OF that] by auto
  show "q = SnapFailed \<or> create_rank p = Suc (create_rank q)" if "create_step p q" for p q
    using that by (cases rule: create_step.cases) (cases p; auto)+
qed simp

section \<open>Rotating the encryption keys\<close>

inductive key_step :: "RotateEncryptionKeysPhase \<Rightarrow> RotateEncryptionKeysPhase \<Rightarrow> bool" where
  begin_rotation: "p = KeysNone \<or> (\<exists>x. p = KeysOther x) \<Longrightarrow> key_step p KeysPrepare"
| prepared: "key_step KeysPrepare KeysPostPrepareRestart"
| prepare_restarted: "key_step KeysPostPrepareRestart KeysRotate"
| rotated: "key_step KeysRotate KeysPostRotateRestart"
| rotate_restarted: "key_step KeysPostRotateRestart KeysReencrypt"
| reencrypted: "key_step KeysReencrypt KeysPostReencryptRestart"
| reencrypt_restarted: "key_step KeysPostReencryptRestart KeysDone"
| failed_rotation: "p \<noteq> KeysFailed \<Longrightarrow> key_step p KeysFailed"

inductive_simps key_step_simps [simp]:
  "key_step KeysPrepare q" "key_step KeysPostPrepareRestart q" "key_step KeysRotate q" "key_step KeysPostRotateRestart q"
  "key_step KeysReencrypt q" "key_step KeysPostReencryptRestart q" "key_step KeysDone q" "key_step KeysFailed q"
  "key_step KeysNone q" "key_step (KeysOther x) q"

fun key_rank :: "RotateEncryptionKeysPhase \<Rightarrow> nat" where
  "key_rank KeysFailed = 0"
| "key_rank KeysDone = 1"
| "key_rank KeysPostReencryptRestart = 2"
| "key_rank KeysReencrypt = 3"
| "key_rank KeysPostRotateRestart = 4"
| "key_rank KeysRotate = 5"
| "key_rank KeysPostPrepareRestart = 6"
| "key_rank KeysPrepare = 7"
| "key_rank _ = 8"

text \<open>A pass for a rotation that is already recorded: the object's status agrees with the one that is passed along.\<close>

definition key_pass ::
  "('w, 'z) planner_env_scheme \<Rightarrow> RotateEncryptionKeys \<Rightarrow> RKEControlPlaneStatus \<Rightarrow> RKEControlPlaneStatus \<Rightarrow> bool" where
  "key_pass E r st st' \<longleftrightarrow>
     st_RotateEncryptionKeys st = Some r \<and>
     (\<exists>cp t rel s e s'. sp_RotateEncryptionKeys (cp_Spec cp) = Some r \<and> st_RotateEncryptionKeys (cp_Status cp) = Some r \<and>
        st_RotateEncryptionKeysPhase (cp_Status cp) = st_RotateEncryptionKeysPhase st \<and>
        rotateEncryptionKeys E cp st t rel s = ((st', e), s'))"

definition failed :: "RKEControlPlaneStatus \<Rightarrow> RKEControlPlaneStatus" where
  "failed st = st\<lparr>st_RotateEncryptionKeysPhase := KeysFailed\<rparr>"

lemma failed_fields [simp]:
  "st_RotateEncryptionKeysPhase (failed st) = KeysFailed" "st_RotateEncryptionKeys (failed st) = st_RotateEncryptionKeys st"
  by (simp_all add: failed_def)

lemma keyFailed_eq: "encryptionKeyRotationFailed st e = (st', r) \<longleftrightarrow> st' = failed st \<and>
     r = Some (ErrWrap ''encryption key rotation failed, please perform an etcd restore'' e)"
  by (auto simp: encryptionKeyRotationFailed_def failed_def)

text \<open>A step of a phase succeeds with the status it was given; only a failure changes it.\<close>

definition keeps_or_fails :: "RKEControlPlaneStatus \<Rightarrow> RKEControlPlaneStatus \<Rightarrow> err \<Rightarrow> bool" where
  "keeps_or_fails st st' e \<longleftrightarrow> st' = st \<or> st' = failed st \<and> e \<noteq> None"

lemma restartService_status:
  "encryptionKeyRotationRestartService E cp r st t j en b stage s = ((x, st', e), s') \<Longrightarrow> keeps_or_fails st st' e"
  by (auto simp: encryptionKeyRotationRestartService_def keeps_or_fails_def keyFailed_eq
      split: sum.splits prod.splits option.splits if_splits)

lemma restart_one_status: "restart_one E cp r t j en st s = ((st', e), s') \<Longrightarrow> keeps_or_fails st st' e"
  by (auto simp: restart_one_def split: prod.splits dest: restartService_status)

lemma restart_etcd_status: "restart_etcd E cp r t j es st s = ((st', e), s') \<Longrightarrow> keeps_or_fails st st' e"
proof (induction es arbitrary: st s)
  case (Cons en es)
  then show ?case by (fastforce simp: thenS_eq keeps_or_fails_def dest!: restart_one_status)
qed (simp add: keeps_or_fails_def)

lemma restart_followers_status:
  "restart_followers E cp r t j leader stage es st s = ((st', e), s') \<Longrightarrow> keeps_or_fails st st' e"
proof (induction es arbitrary: st s)
  case (Cons en es)
  obtain x st1 e1 s1 where run: "encryptionKeyRotationRestartService E cp r st t j en True stage s = ((x, st1, e1), s1)"
    by (metis prod.exhaust)
  from restartService_status [OF run] Cons run show ?case
    by (auto simp: keeps_or_fails_def keyFailed_eq split: option.splits if_splits sum.splits)
qed (simp add: keeps_or_fails_def)

lemma restartNodes_status:
  assumes "encryptionKeyRotationRestartNodes E cp r st t leader init j s = ((st', e), s')"
  shows "keeps_or_fails st st' e"
  using assms unfolding encryptionKeyRotationRestartNodes_def thenS_eq
  by (fastforce simp: thenS_eq keeps_or_fails_def split: if_splits prod.splits option.splits
      dest!: restart_one_status restart_etcd_status restartService_status restart_followers_status)

lemma go_case_eq:
  "(case x of (Inl e, s) \<Rightarrow> A e s | (Inr a, s) \<Rightarrow> B a s) = y \<longleftrightarrow>
     (\<exists>e s. x = (Inl e, s) \<and> A e s = y) \<or> (\<exists>a s. x = (Inr a, s) \<and> B a s = y)"
  by (auto split: prod.splits sum.splits)

lemma leaderPhase_status:
  assumes "encryptionKeyRotationLeaderPhaseReconcile E cp r st t j leader s = ((st', e), s')"
  shows "keeps_or_fails st st' e"
  using assms unfolding encryptionKeyRotationLeaderPhaseReconcile_def tryS_eq [of _ _ _ s] Let_def
  by (elim disjE exE conjE)
     (auto simp: go_case_eq keeps_or_fails_def tryS_eq keyFailed_eq
       split: sum.split_asm prod.split_asm option.split_asm if_split_asm)

lemma setKeyState_cases:
  "setEncryptionKeyRotateState st r p = (st', e) \<Longrightarrow>
     st_RotateEncryptionKeysPhase st' = p \<and> st_RotateEncryptionKeys st' = r \<and> (e = None \<longrightarrow> st' = st)"
  by (auto simp: setEncryptionKeyRotateState_def split: if_splits)

text \<open>The phase and the recorded rotation after a pass.\<close>

definition key_moves :: "RotateEncryptionKeys \<Rightarrow> RKEControlPlaneStatus \<Rightarrow> RKEControlPlaneStatus \<Rightarrow> bool" where
  "key_moves r st st' \<longleftrightarrow>
     (st_RotateEncryptionKeysPhase st' = st_RotateEncryptionKeysPhase st \<or>
      key_step (st_RotateEncryptionKeysPhase st) (st_RotateEncryptionKeysPhase st')) \<and>
     st_RotateEncryptionKeys st' = Some r"

lemma rotation_phase_moves:
  assumes "rotation_phase E cp r st t leader init j s = ((st', e), s')"
    and "st_RotateEncryptionKeysPhase (cp_Status cp) = st_RotateEncryptionKeysPhase st" "st_RotateEncryptionKeys st = Some r"
  shows "key_moves r st st'"
  using assms
  by (cases "st_RotateEncryptionKeysPhase st")
     (auto simp: rotation_phase_def Let_def thenS_eq go_case_eq key_moves_def keeps_or_fails_def
       dest!: leaderPhase_status restartNodes_status setKeyState_cases)

lemma shouldRestart_recorded:
  assumes "shouldRestartEncryptionKeyRotation E cp r = Inr True" "st_RotateEncryptionKeys (cp_Status cp) = Some r"
    "canRotateEncryptionKeys E cp" "sp_RotateEncryptionKeys (cp_Spec cp) = Some r"
  shows "key_step (st_RotateEncryptionKeysPhase (cp_Status cp)) KeysPrepare"
  using assms
  by (cases "st_RotateEncryptionKeysPhase (cp_Status cp)")
     (auto simp: shouldRestartEncryptionKeyRotation_def canRotateEncryptionKeys_def
       hasValidNonFailedRotateEncryptionKeyStatus_def rotateEncryptionKeyInProgress_def split: if_splits)

lemma rotateKeys_cases:
  assumes "rotateEncryptionKeys E cp st t rel s = ((st', e), s')" "sp_RotateEncryptionKeys (cp_Spec cp) = Some r"
  shows "st' = st \<or> setEncryptionKeyRotateState st (Some r) KeysFailed = (st', e) \<or>
    setEncryptionKeyRotateState st (Some r) KeysPrepare = (st', e) \<and>
      shouldRestartEncryptionKeyRotation E cp r = Inr True \<and> canRotateEncryptionKeys E cp \<or>
    (\<exists>l. st' = st\<lparr>st_RotateEncryptionKeysLeader := l\<rparr>) \<or>
    (\<exists>leader init j s1. rotation_phase E cp r st t leader init j s1 = ((st', e), s'))"
  using assms
  by (auto simp: rotateEncryptionKeys_def tryS_eq liftE_def
      split: option.splits sum.splits bool.splits if_splits prod.splits)

lemma key_pass_moves:
  assumes "key_pass E r st st'"
  shows "key_moves r st st'"
proof -
  from assms obtain cp t rel s e s' where run: "rotateEncryptionKeys E cp st t rel s = ((st', e), s')"
    and rec: "st_RotateEncryptionKeys st = Some r" "sp_RotateEncryptionKeys (cp_Spec cp) = Some r"
      "st_RotateEncryptionKeys (cp_Status cp) = Some r"
      "st_RotateEncryptionKeysPhase (cp_Status cp) = st_RotateEncryptionKeysPhase st"
    by (auto simp: key_pass_def)
  from rotateKeys_cases [OF run rec(2)] consider "st' = st" | l where "st' = st\<lparr>st_RotateEncryptionKeysLeader := l\<rparr>"
    | "setEncryptionKeyRotateState st (Some r) KeysFailed = (st', e)"
    | "setEncryptionKeyRotateState st (Some r) KeysPrepare = (st', e)" "shouldRestartEncryptionKeyRotation E cp r = Inr True"
      "canRotateEncryptionKeys E cp"
    | leader init j s1 where "rotation_phase E cp r st t leader init j s1 = ((st', e), s')"
    by blast
  then show ?thesis
  proof cases
    case 3
    from setKeyState_cases [OF this] show ?thesis by (cases "st_RotateEncryptionKeysPhase st") (auto simp: key_moves_def)
  next
    case 4
    with setKeyState_cases [OF 4(1)] shouldRestart_recorded [OF 4(2) rec(3) 4(3) rec(2)] rec(4) show ?thesis
      by (simp add: key_moves_def)
  next
    case 5
    from rotation_phase_moves [OF this rec(4,1)] show ?thesis .
  qed (simp_all add: key_moves_def rec)
qed

interpretation keys: phase_by_phase key_step key_rank "key_pass E r" st_RotateEncryptionKeysPhase "\<lambda>p. p = KeysFailed"
  for E :: "('w, 'z) planner_env_scheme" and r
proof
  show "key_rank q < key_rank p" if "key_step p q" for p q
    using that by (cases rule: key_step.cases) (cases p; auto)+
  show "st_RotateEncryptionKeysPhase b = st_RotateEncryptionKeysPhase a \<or>
      key_step (st_RotateEncryptionKeysPhase a) (st_RotateEncryptionKeysPhase b)" if "key_pass E r a b" for a b
    using key_pass_moves [OF that] by (auto simp: key_moves_def)
  show "q = KeysFailed \<or> key_rank p = Suc (key_rank q)" if "key_step p q" for p q
    using that by (cases rule: key_step.cases) auto
qed simp

section \<open>What the machines guarantee\<close>

lemma create_passes_frame:
  assumes "(create_pass E sn)\<^sup>*\<^sup>* st st'" "st_ETCDSnapshotCreate st = Some sn"
  shows "st' = to_phase st (Some sn) (st_ETCDSnapshotCreatePhase st')"
  using assms
proof (induction rule: rtranclp_induct)
  case base
  then show ?case by (simp add: to_phase_def)
next
  case (step y z)
  then have y: "y = to_phase st (Some sn) (st_ETCDSnapshotCreatePhase y)" by blast
  then have "to_phase y (Some sn) q = to_phase st (Some sn) q" for q by (metis to_phase_fields(3))
  with create_pass_cases [OF step(2)] y show ?case by auto
qed

text \<open>
  C10. Passes for a recorded snapshot simulate the machine \<open>create_step\<close>: the snapshot is
  started once, is taken or fails, and after it is taken the machines are restarted; nothing
  else of the status changes.
\<close>

theorem create_refines:
  assumes "(create_pass E sn)\<^sup>*\<^sup>* st st'" and "st_ETCDSnapshotCreate st = Some sn"
  shows "create_step\<^sup>*\<^sup>* (st_ETCDSnapshotCreatePhase st) (st_ETCDSnapshotCreatePhase st') \<and>
    st' = to_phase st (Some sn) (st_ETCDSnapshotCreatePhase st')"
  using create.passes_steps [OF assms(1)] create_passes_frame [OF assms] by blast

definition demo_create :: ETCDSnapshotCreate where
  "demo_create = \<lparr>sc_Generation = 1\<rparr>"

definition snap_status :: RKEControlPlaneStatus where
  "snap_status = demo_status\<lparr>st_ETCDSnapshotCreate := Some demo_create,
     st_Conditions := [\<lparr>cd_Type = ''Bootstrapped'', cd_Status = ''True'', cd_Reason = '''', cd_Message = ''''\<rparr>]\<rparr>"

definition snap_cp :: RKEControlPlane where
  "snap_cp = up_cp\<lparr>cp_Spec := (cp_Spec up_cp)\<lparr>sp_ETCDSnapshotCreate := Some demo_create\<rparr>, cp_Status := snap_status\<rparr>"

definition snap_started :: RKEControlPlaneStatus where
  "snap_started = fst (fst (createEtcdSnapshot demo_planner snap_cp snap_status demo_tokens (up_state empty_plan)))"

lemma demo_create_pass: "create_pass demo_planner demo_create snap_status snap_started"
proof -
  have "st_ETCDSnapshotCreate snap_status = Some demo_create" "sp_ETCDSnapshotCreate (cp_Spec snap_cp) = Some demo_create"
    "cp_Status snap_cp = snap_status" by (simp_all add: snap_status_def snap_cp_def)
  then show ?thesis unfolding create_pass_def snap_started_def by (metis prod.collapse)
qed

theorem create_refines_witness:
  "(create_pass demo_planner demo_create)\<^sup>*\<^sup>* snap_status snap_started \<and> st_ETCDSnapshotCreatePhase snap_started = SnapStarted \<and>
   create_step\<^sup>*\<^sup>* (st_ETCDSnapshotCreatePhase snap_status) (st_ETCDSnapshotCreatePhase snap_started)"
proof -
  have pass: "(create_pass demo_planner demo_create)\<^sup>*\<^sup>* snap_status snap_started" using demo_create_pass by blast
  moreover have "st_ETCDSnapshotCreatePhase snap_started = SnapStarted" by code_simp
  ultimately show ?thesis using create_refines [OF pass] by (simp add: snap_status_def)
qed

lemma key_passes_recorded:
  "(key_pass E r)\<^sup>*\<^sup>* st st' \<Longrightarrow> st_RotateEncryptionKeys st = Some r \<Longrightarrow> st_RotateEncryptionKeys st' = Some r"
  by (induction rule: rtranclp_induct) (auto dest: key_pass_moves simp: key_moves_def)

text \<open>
  C9. Passes for a recorded rotation of the encryption keys simulate the machine
  \<open>key_step\<close>: prepare, rotate and re-encrypt in this order, each followed by a restart, with
  a failure possible at any time and final; the recorded rotation stays the same.
\<close>

theorem key_rotation_refines:
  assumes "(key_pass E r)\<^sup>*\<^sup>* st st'" and "st_RotateEncryptionKeys st = Some r"
  shows "key_step\<^sup>*\<^sup>* (st_RotateEncryptionKeysPhase st) (st_RotateEncryptionKeysPhase st') \<and>
    st_RotateEncryptionKeys st' = Some r"
  using keys.passes_steps [OF assms(1)] key_passes_recorded [OF assms] by blast

definition demo_rotation :: RotateEncryptionKeys where
  "demo_rotation = \<lparr>rk_Generation = 1\<rparr>"

definition key_status :: RKEControlPlaneStatus where
  "key_status = demo_status\<lparr>st_RotateEncryptionKeys := Some demo_rotation,
     st_Conditions := [\<lparr>cd_Type = ''Ready'', cd_Status = ''True'', cd_Reason = '''', cd_Message = ''''\<rparr>]\<rparr>"

definition key_cp :: RKEControlPlane where
  "key_cp = up_cp\<lparr>cp_Spec := (cp_Spec up_cp)\<lparr>sp_RotateEncryptionKeys := Some demo_rotation\<rparr>, cp_Status := key_status\<rparr>"

definition key_release :: release where
  "key_release = \<lparr>rel_FeatureVersions = [''encryption-key-rotation'' \<mapsto> ''2.0.0''], rel_AgentArgs = Map.empty, rel_ServerArgs = Map.empty\<rparr>"

definition key_started :: RKEControlPlaneStatus where
  "key_started = fst (fst (rotateEncryptionKeys demo_planner key_cp key_status demo_tokens (Some key_release) (up_state empty_plan)))"

lemma demo_key_pass: "key_pass demo_planner demo_rotation key_status key_started"
proof -
  have "st_RotateEncryptionKeys key_status = Some demo_rotation" "sp_RotateEncryptionKeys (cp_Spec key_cp) = Some demo_rotation"
    "cp_Status key_cp = key_status" by (simp_all add: key_status_def key_cp_def)
  then show ?thesis unfolding key_pass_def key_started_def by (metis prod.collapse)
qed

lemma key_started_phase: "st_RotateEncryptionKeysPhase key_started = KeysPrepare"
  by code_simp

theorem key_rotation_refines_witness:
  "(key_pass demo_planner demo_rotation)\<^sup>*\<^sup>* key_status key_started \<and> st_RotateEncryptionKeysPhase key_started = KeysPrepare \<and>
   key_step\<^sup>*\<^sup>* (st_RotateEncryptionKeysPhase key_status) (st_RotateEncryptionKeysPhase key_started)"
proof -
  have pass: "(key_pass demo_planner demo_rotation)\<^sup>*\<^sup>* key_status key_started" using demo_key_pass by blast
  with key_rotation_refines [OF pass] key_started_phase show ?thesis by (simp add: key_status_def)
qed

lemma key_rank_inj: "key_rank p = key_rank q \<Longrightarrow> key_rank q < 8 \<Longrightarrow> p = q"
  by (cases p; cases q) auto

text \<open>
  A rotation of the encryption keys that has not failed has been through every phase
  between its first one and its last one.
\<close>

theorem key_rotation_skips_no_phase:
  assumes "\<And>i. i < n \<Longrightarrow> key_pass E r (f i) (f (Suc i))" and "st_RotateEncryptionKeysPhase (f n) \<noteq> KeysFailed"
    and "key_rank (st_RotateEncryptionKeysPhase (f n)) \<le> key_rank p" "key_rank p \<le> key_rank (st_RotateEncryptionKeysPhase (f 0))"
      "key_rank p < 8"
  shows "\<exists>i \<le> n. st_RotateEncryptionKeysPhase (f i) = p"
  using keys.every_rank_visited [where f = f and n = n and k = "key_rank p", OF assms(1) assms(2-4)] key_rank_inj assms(5)
  by blast

theorem key_rotation_skips_no_phase_witness:
  "key_pass demo_planner demo_rotation key_status key_started \<and>
   (\<exists>i \<le> (1::nat). st_RotateEncryptionKeysPhase (if i = 0 then key_status else key_started) = KeysPrepare)"
proof -
  let ?f = "\<lambda>i::nat. if i = 0 then key_status else key_started"
  have "key_pass demo_planner demo_rotation (?f i) (?f (Suc i))" if "i < 1" for i using that demo_key_pass by simp
  from key_rotation_skips_no_phase [where f = ?f and n = 1 and p = KeysPrepare, OF this] key_started_phase demo_key_pass
  show ?thesis by (simp add: key_status_def demo_status_def)
qed

text \<open>
  A control plane that asks for a rotation with generation zero, is ready and has no
  rotation on record makes the planner dereference a nil pointer: the guard before it only
  covers generations above zero.
\<close>

theorem rotation_generation_zero_panics:
  assumes "cp_ready E cp" "rk_Generation r = 0" "st_RotateEncryptionKeys (cp_Status cp) = None"
    "st_RotateEncryptionKeysPhase (cp_Status cp) = KeysNone"
  shows "shouldRestartEncryptionKeyRotation E cp r = Inl (GoPanic ''nil RotateEncryptionKeys'')"
  using assms by (simp add: shouldRestartEncryptionKeyRotation_def)

definition zero_cp :: RKEControlPlane where
  "zero_cp = key_cp\<lparr>cp_Status := key_status\<lparr>st_RotateEncryptionKeys := None\<rparr>\<rparr>"

theorem rotation_generation_zero_panics_witness:
  "shouldRestartEncryptionKeyRotation demo_planner zero_cp \<lparr>rk_Generation = 0\<rparr> = Inl (GoPanic ''nil RotateEncryptionKeys'')"
proof -
  have "cp_ready demo_planner zero_cp" by code_simp
  from rotation_generation_zero_panics [OF this, of "\<lparr>rk_Generation = 0\<rparr>"] show ?thesis
    by (simp add: zero_cp_def key_status_def demo_status_def)
qed

section \<open>Rotating certificates\<close>

text \<open>A machine whose certificates are rotated: it has applied the plan that rotates them and is healthy.\<close>

definition rotated ::
  "('w, 'z) planner_env_scheme \<Rightarrow> RKEControlPlane \<Rightarrow> plan_secret \<Rightarrow> RotateCertificates \<Rightarrow> string \<Rightarrow> 'w \<Rightarrow> planEntry \<Rightarrow> bool" where
  "rotated E cp t rotation joinServer w node \<longleftrightarrow>
     (case (rotateCertificatesPlan E cp t rotation node joinServer w, pe_Plan node) of
        (Inr (np, _), Some pl) \<Rightarrow> e_DeepEqualPlan E (n_Plan pl) np \<and> \<not> n_Failed pl \<and> n_InSync pl \<and> n_Healthy pl
      | _ \<Rightarrow> False)"

lemma assign_done:
  assumes "entryE (\<lambda>e. assignAndCheckPlan E msg e np j a b) e s = (Inr e', s')" "in_plan (cplan s) e"
  shows "s' = s \<and> (\<exists>pl. pe_Plan e = Some pl \<and> e_DeepEqualPlan E (n_Plan pl) np \<and> \<not> n_Failed pl \<and> n_InSync pl \<and> n_Healthy pl)"
  using assms
  by (auto simp: entryE_def on_entry_def assignAndCheckPlan_def Let_def put_entry_same
      split: prod.splits option.splits if_splits)

lemma rotate_loop_done:
  assumes "rotate_loop E cp t rotation j nodes s = (Inr (), s')" "\<forall>n \<in> set nodes. in_plan (cplan s) n"
  shows "s' = s \<and> (\<forall>n \<in> set nodes. shouldRotateEntry rotation n \<longrightarrow> rotated E cp t rotation j (world s) n)"
  using assms
proof (induction nodes)
  case (Cons n nodes)
  show ?case
  proof (cases "shouldRotateEntry rotation n")
    case True
    with Cons.prems(1) obtain np u e' s1 where plan: "rotateCertificatesPlan E cp t rotation n j (world s) = Inr (np, u)"
      and asg: "entryE (\<lambda>e. assignAndCheckPlan E (''['' @ entry_name n @ ''] certificate rotation'') e np u 0 0) n s = (Inr e', s1)"
      and rest: "rotate_loop E cp t rotation j nodes s1 = (Inr (), s')"
      by (auto split: sum.splits prod.splits if_splits)
    from assign_done [OF asg] Cons.prems(2) plan have "s1 = s" "rotated E cp t rotation j (world s) n" by (auto simp: rotated_def)
    with Cons rest show ?thesis by auto
  qed (use Cons in auto)
qed simp

lemma findE_same: "findE E cp s = (Inr r, s') \<Longrightarrow> plan_ok (cplan s) \<Longrightarrow> s' = s"
  by (auto simp: findE_def split: prod.splits option.splits dest: findInitNode_None)

text \<open>
  C11. The generation of a certificate rotation is recorded only when every machine with a role
  that the rotation concerns has applied its rotation plan, has not failed it and is healthy.
  A pass that gets there changes nothing else of the status.
\<close>

theorem rotateCertificates_complete:
  assumes "plan_ok (cplan s)"
    and "rotateCertificates E cp st t s = ((st', e), s')"
    and "st_CertificateRotationGeneration st' \<noteq> st_CertificateRotationGeneration st"
  shows "\<exists>rotation joinServer. sp_RotateCertificates (cp_Spec cp) = Some rotation \<and>
    st' = st\<lparr>st_CertificateRotationGeneration := rc_Generation rotation\<rparr> \<and>
    (\<forall>n \<in> set (collect (cplan s) anyRole). shouldRotateEntry rotation n \<longrightarrow> rotated E cp t rotation joinServer (world s) n)"
proof -
  from assms(2,3) obtain rotation j s1 s2 where sp: "sp_RotateCertificates (cp_Spec cp) = Some rotation"
    and st': "st' = st\<lparr>st_CertificateRotationGeneration := rc_Generation rotation\<rparr>"
    and find: "findE E cp s = (Inr (True, j), s1)"
    and loop: "rotate_loop E cp t rotation j (collect (cplan s1) anyRole) s1 = (Inr (), s2)"
    by (auto simp: rotateCertificates_def tryS_eq go_case_eq split: if_splits option.splits)
  have "s1 = s" using findE_same [OF find assms(1)] .
  with rotate_loop_done [OF loop] in_plan_collect [OF assms(1)] sp st' show ?thesis by blast
qed

definition demo_rotate :: RotateCertificates where
  "demo_rotate = \<lparr>rc_Generation = 1, rc_Services = []\<rparr>"

definition rotate_cp :: RKEControlPlane where
  "rotate_cp = up_cp\<lparr>cp_Spec := (cp_Spec up_cp)\<lparr>sp_RotateCertificates := Some demo_rotate\<rparr>\<rparr>"

definition demo_rotate_plan :: node_plan where
  "demo_rotate_plan = (case rotateCertificatesPlan demo_planner rotate_cp demo_tokens demo_rotate
       \<lparr>pe_Machine = up_machine ''a'', pe_Plan = None, pe_Metadata = Some up_metadata\<rparr> ''https://a:9345'' demo_world0 of
     Inr (np, _) \<Rightarrow> np | Inl _ \<Rightarrow> empty_plan)"

lemma demo_rotated:
  "case rotateCertificates demo_planner rotate_cp demo_status demo_tokens (up_state demo_rotate_plan) of
     ((st', _), _) \<Rightarrow> st_CertificateRotationGeneration st' = 1"
  by code_simp

theorem rotateCertificates_complete_witness:
  "\<exists>rotation joinServer st'. st' = fst (fst (rotateCertificates demo_planner rotate_cp demo_status demo_tokens (up_state demo_rotate_plan))) \<and>
     st_CertificateRotationGeneration st' = 1 \<and> st' = demo_status\<lparr>st_CertificateRotationGeneration := rc_Generation rotation\<rparr> \<and>
     list_all (rotated demo_planner rotate_cp demo_tokens rotation joinServer (world (up_state demo_rotate_plan)))
       (filter (shouldRotateEntry rotation) (collect (cplan (up_state demo_rotate_plan)) anyRole))"
proof -
  obtain st' e s' where run: "rotateCertificates demo_planner rotate_cp demo_status demo_tokens (up_state demo_rotate_plan) = ((st', e), s')"
    by (metis prod.exhaust)
  with demo_rotated have gen: "st_CertificateRotationGeneration st' = 1" by simp
  from rotateCertificates_complete [OF up_state_ok run] gen run show ?thesis
    by (simp add: demo_status_def list_all_iff) blast
qed

end
