(* ===== verification/Process_Correct.thy ===== *)
theory Process_Correct
  imports Operations_Correct
begin

text \<open>
  A whole pass of the planner. An operation that has nothing to do leaves the status and the
  planner's state as they are, so a pass without error is a reconciliation of the plan that was
  loaded; what it means is the meaning of that reconciliation.
\<close>

section \<open>Operations with nothing to do\<close>

lemma setCreateState_None:
  "setEtcdSnapshotCreateState st c p = (st', None) \<longleftrightarrow>
     st' = st \<and> st_ETCDSnapshotCreatePhase st = p \<and> st_ETCDSnapshotCreate st = c"
  by (auto simp: setEtcdSnapshotCreateState_def)

lemma setKeyState_None:
  "setEncryptionKeyRotateState st r p = (st', None) \<longleftrightarrow>
     st' = st \<and> st_RotateEncryptionKeys st = r \<and> st_RotateEncryptionKeysPhase st = p"
  by (auto simp: setEncryptionKeyRotateState_def)

lemma create_started_noop:
  assumes "plan_ok (cplan s)" "create_started E cp sn t st s = ((st', None), s')"
    and "st_ETCDSnapshotCreatePhase st = SnapStarted"
  shows "st' = st \<and> s' = s"
  using assms
  by (auto simp: create_started_def tryS_eq split_beta setCreateState_None split: if_splits dest: findE_same)

lemma createEtcdSnapshot_noop:
  assumes "plan_ok (cplan s)" "createEtcdSnapshot E cp st t s = ((st', None), s')"
    and "st_ETCDSnapshotCreatePhase (cp_Status cp) = st_ETCDSnapshotCreatePhase st"
  shows "st' = st \<and> s' = s"
proof (cases "sp_ETCDSnapshotCreate (cp_Spec cp)")
  case None
  with assms(2) show ?thesis
    by (auto simp: createEtcdSnapshot_def resetEtcdSnapshotCreateState_def setCreateState_None split: if_splits)
next
  case (Some sn)
  have begun: "st1 = st" if "startOrRestartEtcdSnapshotCreate st sn = (st1, None)" for st1
    using that by (auto simp: startOrRestartEtcdSnapshotCreate_def setCreateState_None split: if_splits)
  note run = assms(2) [unfolded createEtcdSnapshot_def Some option.case assms(3)]
  note started = create_started_noop [OF assms(1), where E = E and sn = sn and t = t]
  show ?thesis
  proof (cases "st_ETCDSnapshotCreatePhase st")
    case SnapStarted
    with run show ?thesis by (auto simp: thenS_eq split: if_splits dest!: begun started)
  qed (use run in \<open>auto simp: thenS_eq tryS_eq setCreateState_None split: if_splits dest!: begun\<close>)
qed

lemma restoreEtcdSnapshot_noop:
  assumes "restoreEtcdSnapshot E cp st t v s = ((st', None), s')"
    and "st_ETCDSnapshotRestorePhase (cp_Status cp) = st_ETCDSnapshotRestorePhase st"
  shows "st' = st \<and> s' = s"
proof -
  have "s2 = s1" if "restore_phase E cp st t r sn s1 = ((st', None), s2)" for r sn s1 s2
    using that restore_phase_waits [OF that assms(2)] assms(2) by (simp add: restore_phase_def)
  then show ?thesis
    using assms(1) restore_gate [OF assms]
    by (auto simp: restoreEtcdSnapshot_def thenS_eq tryS_eq liftE_def split: option.splits if_splits)
qed

lemma rotateCertificates_noop:
  assumes "plan_ok (cplan s)" "rotateCertificates E cp st t s = ((st', None), s')"
  shows "st' = st \<and> s' = s"
  using assms by (auto simp: rotateCertificates_def tryS_eq go_case_eq split: if_splits option.splits dest: findE_same)

lemma rotation_phase_never_done:
  assumes "rotation_phase E cp r st t leader init j s = ((st', None), s')"
  shows "st_RotateEncryptionKeysPhase (cp_Status cp) \<noteq> st_RotateEncryptionKeysPhase st"
  using assms
  by (cases "st_RotateEncryptionKeysPhase (cp_Status cp)")
     (auto simp: rotation_phase_def Let_def thenS_eq go_case_eq setKeyState_None keeps_or_fails_def
       dest!: leaderPhase_status restartNodes_status)

lemma rotateEncryptionKeys_noop:
  assumes "plan_ok (cplan s)" "rotateEncryptionKeys E cp st t rel s = ((st', None), s')"
    and "st_RotateEncryptionKeysPhase (cp_Status cp) = st_RotateEncryptionKeysPhase st"
  shows "st' = st \<and> s' = s"
  using assms
  by (auto simp: rotateEncryptionKeys_def tryS_eq liftE_def resetEncryptionKeyRotateState_def setKeyState_None
      split: option.splits sum.splits bool.splits if_splits prod.splits
      dest!: rotation_phase_never_done dest: findInitNode_None)

lemma block_for_suc_noop: "block_for_suc E cp v st s = ((st', e), s') \<Longrightarrow> st' = st \<and> s' = s"
  by (auto simp: block_for_suc_def split: option.splits)

section \<open>The pass\<close>

lemma provisioned_fields [simp]:
  "st_ETCDSnapshotCreatePhase (provisioned E st) = st_ETCDSnapshotCreatePhase st"
  "st_ETCDSnapshotRestorePhase (provisioned E st) = st_ETCDSnapshotRestorePhase st"
  "st_ETCDSnapshotRestore (provisioned E st) = st_ETCDSnapshotRestore st"
  "st_RotateEncryptionKeysPhase (provisioned E st) = st_RotateEncryptionKeysPhase st"
  "st_Initialized (provisioned E st) = st_Initialized st" "st_Ready (provisioned E st) = st_Ready st"
  by (simp_all add: provisioned_def)

text \<open>The status that a pass is given has the phases of the object's own.\<close>

definition phases_agree :: "RKEControlPlane \<Rightarrow> RKEControlPlaneStatus \<Rightarrow> bool" where
  "phases_agree cp st \<longleftrightarrow>
     st_ETCDSnapshotCreatePhase (cp_Status cp) = st_ETCDSnapshotCreatePhase st \<and>
     st_ETCDSnapshotRestorePhase (cp_Status cp) = st_ETCDSnapshotRestorePhase st \<and>
     st_RotateEncryptionKeysPhase (cp_Status cp) = st_RotateEncryptionKeysPhase st"

definition restore_settled :: "RKEControlPlane \<Rightarrow> RKEControlPlaneStatus \<Rightarrow> bool" where
  "restore_settled cp st \<longleftrightarrow>
     (case sp_ETCDSnapshotRestore (cp_Spec cp) of
        Some restore \<Rightarrow>
          if sr_Name restore \<noteq> ''''
          then st_ETCDSnapshotRestore st = Some restore \<and> st_ETCDSnapshotRestorePhase st = SnapFinished
          else st_ETCDSnapshotRestore st = None \<and> st_ETCDSnapshotRestorePhase st = SnapNone
      | None \<Rightarrow> st_ETCDSnapshotRestore st = None \<and> st_ETCDSnapshotRestorePhase st = SnapNone)"

lemma process_sane_success:
  assumes ok: "plan_ok (cplan s)" and agree: "phases_agree cp st"
    and run: "process_sane E cp capi v rel d st s = ((st', None), s')"
  shows "restore_settled cp st \<and> (\<exists>name tokens w.
    ensureRKEStateSecret E cp (\<not> d) (world s) = (Inr (name, tokens), w) \<and>
    process_machines E cp capi tokens (provisioned E st) (s\<lparr>world := w\<rparr>) = ((st', None), s'))"
proof -
  let ?st = "provisioned E st"
  from run obtain name tokens s1 st1 s2 st2 s3 st3 s4 st4 s5 st5 s6 where
    sec: "worldE (ensureRKEStateSecret E cp (\<not> d)) s = (Inr (name, tokens), s1)"
    and cr: "createEtcdSnapshot E cp ?st tokens s1 = ((st1, None), s2)"
    and rs: "restoreEtcdSnapshot E cp st1 tokens v s2 = ((st2, None), s3)"
    and su: "block_for_suc E cp v st2 s3 = ((st3, None), s4)"
    and ro: "rotateCertificates E cp st3 tokens s4 = ((st4, None), s5)"
    and ke: "rotateEncryptionKeys E cp st4 tokens (Some rel) s5 = ((st5, None), s6)"
    and ma: "process_machines E cp capi tokens st5 s6 = ((st', None), s')"
    unfolding process_sane_def tryS_eq thenS_eq by (auto simp: thenS_eq)
  have ok1: "plan_ok (cplan s1)" using sec ok by (auto simp: worldE_def split: prod.splits)
  have 1: "st1 = ?st" "s2 = s1" using createEtcdSnapshot_noop [OF ok1 cr] agree by (simp_all add: phases_agree_def)
  have 2: "st2 = ?st" "s3 = s1" using restoreEtcdSnapshot_noop [OF rs] 1 agree by (simp_all add: phases_agree_def)
  have 3: "st3 = ?st" "s4 = s1" using block_for_suc_noop [OF su] 2 by simp_all
  have 4: "st4 = ?st" "s5 = s1" using rotateCertificates_noop [OF _ ro] 3 ok1 by simp_all
  have 5: "st5 = ?st" "s6 = s1" using rotateEncryptionKeys_noop [OF _ ke] 4 agree ok1 by (simp_all add: phases_agree_def)
  have "restore_settled cp st"
    using restore_gate [OF rs] 1 agree by (auto simp: restore_settled_def phases_agree_def split: option.splits if_splits)
  moreover from sec obtain w where "ensureRKEStateSecret E cp (\<not> d) (world s) = (Inr (name, tokens), w)" "s1 = s\<lparr>world := w\<rparr>"
    by (auto simp: worldE_def split: prod.splits)
  ultimately show ?thesis using ma 5 by blast
qed

text \<open>The API server's list of machines of a namespace has no two of the same name.\<close>

definition unique_names :: "('w, 'z) store_env_scheme \<Rightarrow> 'w \<Rightarrow> bool" where
  "unique_names E w \<longleftrightarrow> (\<forall>ns n ms. e_MachineList E ns n w = Inr ms \<longrightarrow> distinct (map m_Name ms))"

lemma Load_plan_ok:
  assumes "Load E c cp w = (Inr p, d, w')" "unique_names E w"
  shows "w' = w \<and> plan_ok p"
proof -
  from assms(1) obtain ms secs where ms: "e_MachineList E (cc_Namespace c) (cc_Name c) w = Inr ms"
    and load: "load_secrets E c cp secs
      \<lparr>p_Nodes = Map.empty, p_Machines = map (\<lambda>m. (m_Name m, m)) (onlyRKE ms), p_Metadata = Map.empty\<rparr> False w = (Inr p, d, w')"
    by (auto simp: Load_def Let_def split: sum.splits)
  have "distinct (map m_Name (onlyRKE ms))"
    using assms(2) ms by (simp add: unique_names_def onlyRKE_def distinct_map_filter)
  with load_secrets_ok [OF load] show ?thesis by (auto simp: fold_load_machines plan_ok_def o_def)
qed

text \<open>What a pass without error says of the plan that it loaded.\<close>

definition cluster_up :: "('w, 'z) planner_env_scheme \<Rightarrow> RKEControlPlane \<Rightarrow> plan \<Rightarrow> bool" where
  "cluster_up E cp p \<longleftrightarrow>
     clusterIsSane p \<and> (\<exists>en. init_node_elected E cp p en) \<and>
     (\<forall>km \<in> set (p_Machines p). in_some_tier cp (plan_entry p km) \<longrightarrow>
        pe_Plan (plan_entry p km) \<noteq> None \<and> machine_fine E p (fst km))"

lemma process_insane_waits: "process_insane E cp st s = ((st', r), s') \<Longrightarrow> r \<noteq> None"
  by (auto simp: process_insane_def Let_def tryS_eq go_case_eq split: if_splits)

lemma process_machines_success:
  assumes "plan_ok (cplan s)" "clusterIsSane (cplan s)"
    and "process_machines E cp capi tokens st s = ((st', None), s')"
  shows "\<not> q_IsPaused E capi cp \<and> st_Initialized st \<and> st_Ready st \<and> cluster_up E cp (cplan s)"
proof -
  from assms(3) have up: "\<not> q_IsPaused E capi cp" "fullReconcile E cp st tokens False s = ((st', None), s')"
    by (auto simp: process_machines_def split: if_splits)
  from fullReconcile_up [OF assms(1) up(2)] up(1) assms(2) show ?thesis by (simp add: cluster_up_def)
qed

lemma process_cluster_success:
  assumes agree: "phases_agree cp st" and names: "unique_names E w"
    and run: "process_cluster E cp st v rel capi w = ((st', None), w')" and alive: "cc_DeletionTimestamp capi = None"
  shows "cc_InfrastructureReady capi \<and> \<not> q_IsPaused E capi cp \<and> restore_settled cp st \<and> st_Initialized st \<and> st_Ready st \<and>
    (\<exists>p d. Load E capi cp w = (Inr p, d, w) \<and> cluster_up E cp p)"
proof -
  obtain p d w1 s' where ready: "cc_InfrastructureReady capi" and load: "Load E capi cp w = (Inr p, d, w1)"
    and pass: "(if clusterIsSane p then process_sane E cp capi v rel d st else process_insane E cp st) \<lparr>world = w1, cplan = p\<rparr> =
      ((st', None), s')"
    using run alive by (auto simp: process_cluster_def split: if_split_asm prod.split_asm sum.split_asm)
  have sane: "clusterIsSane p" using pass process_insane_waits by (metis (full_types))
  then have "process_sane E cp capi v rel d st \<lparr>world = w1, cplan = p\<rparr> = ((st', None), s')" using pass by simp
  moreover from Load_plan_ok [OF load names] have ok: "w1 = w" "plan_ok p" by simp_all
  ultimately obtain tokens w2 where settled: "restore_settled cp st"
    and ma: "process_machines E cp capi tokens (provisioned E st) \<lparr>world = w2, cplan = p\<rparr> = ((st', None), s')"
    using process_sane_success [OF _ agree, of "\<lparr>world = w1, cplan = p\<rparr>"] by fastforce
  from process_machines_success [OF _ _ ma] ok sane settled ready load show ?thesis by simp
qed

lemma Process_cluster:
  assumes "Process E cp st w = ((st', None), w')"
  obtains v rel capi where "owner_cluster E cp w = Inr (Some capi)" "process_cluster E cp st v rel capi w = ((st', None), w')"
  using assms by (auto simp: Process_def split: sum.splits option.splits if_splits)

lemma process_cluster_deleting:
  "process_cluster E cp st v rel capi w = ((st', r), w') \<Longrightarrow> cc_DeletionTimestamp capi \<noteq> None \<Longrightarrow> st' = st"
  by (auto simp: process_cluster_def split: if_splits prod.splits sum.splits)

text \<open>
  C1. A pass that returns no error means one of two things: the cluster is being deleted and
  the status is returned as it was; or the cluster is up. Then its infrastructure is ready and
  it is not paused, a requested restore is finished and no other is recorded, the control plane
  was initialised and ready, and in the plan that the pass loaded there is a live machine of every
  role, the init node is elected, and every machine with a role that is not being deleted has a
  plan and is reconciled. Elected means, without a pinned machine ID, that exactly one machine
  is marked as init node and it is viable; with a pinned ID, that exactly one machine has the
  ID on its plan secret and it is marked. Then other machines may be marked too, and nothing is
  said of a marked one that is not an etcd machine, since it belongs to no tier.
\<close>

theorem Process_success_means:
  assumes "phases_agree cp st" "unique_names E w"
    and "Process E cp st w = ((st', None), w')"
  shows "\<exists>capi. owner_cluster E cp w = Inr (Some capi) \<and>
    (if cc_DeletionTimestamp capi \<noteq> None then st' = st
     else cc_InfrastructureReady capi \<and> \<not> q_IsPaused E capi cp \<and> restore_settled cp st \<and> st_Initialized st \<and> st_Ready st \<and>
       (\<exists>p d. Load E capi cp w = (Inr p, d, w) \<and> cluster_up E cp p))"
proof -
  obtain v rel capi where owner: "owner_cluster E cp w = Inr (Some capi)"
    and run: "process_cluster E cp st v rel capi w = ((st', None), w')"
    using Process_cluster [OF assms(3)] .
  show ?thesis
  proof (cases "cc_DeletionTimestamp capi")
    case None
    with process_cluster_success [OF assms(1,2) run] owner show ?thesis by auto
  next
    case (Some x)
    with process_cluster_deleting [OF run] owner show ?thesis by auto
  qed
qed

section \<open>A pass over a cluster that is up\<close>

definition live_planner :: "demo_world planner_env" where
  "live_planner = demo_planner\<lparr>e_MachineList := \<lambda>_ _ _. Inr [up_machine ''a''], e_UnmarshalPlan := \<lambda>_. Inr up_desired,
     q_ReleaseData := \<lambda>_. Some key_release\<rparr>"

definition live_world :: demo_world where
  "live_world = [''a-machine-plan'' \<mapsto> (demo_secret ''a'')\<lparr>s_Labels := md_Labels up_metadata, s_Annotations := (md_Annotations up_metadata)(JoinURLAutosetDisabled \<mapsto> ''true'')\<rparr>]"

lemma live_pass: "case Process live_planner up_cp demo_status live_world of ((_, r), _) \<Rightarrow> r = None"
  by code_simp

theorem Process_success_means_witness:
  "(\<exists>st' w'. Process live_planner up_cp demo_status live_world = ((st', None), w')) \<and>
   (\<exists>capi p d. owner_cluster live_planner up_cp live_world = Inr (Some capi) \<and> cc_DeletionTimestamp capi = None \<and>
      Load live_planner capi up_cp live_world = (Inr p, d, live_world) \<and> cluster_up live_planner up_cp p)"
proof -
  from live_pass obtain st' w' where run: "Process live_planner up_cp demo_status live_world = ((st', None), w')"
    by (auto split: prod.splits)
  have "phases_agree up_cp demo_status" by (simp add: phases_agree_def up_cp_def demo_cp_def)
  moreover have "unique_names live_planner live_world" by (simp add: unique_names_def live_planner_def)
  moreover have "case owner_cluster live_planner up_cp live_world of Inr (Some c) \<Rightarrow> cc_DeletionTimestamp c = None | _ \<Rightarrow> False"
    by code_simp
  ultimately show ?thesis
    using Process_success_means [OF _ _ run] run by (auto split: sum.splits option.splits if_splits)
qed

end
