(* ===== verification/Controllers_Correct.thy ===== *)
theory Controllers_Correct
  imports Planner_Controller Process_Correct
begin

text \<open>
  What the controllers around the planner report: a spec counts as applied only after a pass
  that found the cluster up, and a control plane is let go only when its machines are gone.
\<close>

section \<open>An applied spec\<close>

lemma os_on_conditions [simp]:
  "os_AppliedSpec (on_conditions f st) = os_AppliedSpec st" "os_ObservedGeneration (on_conditions f st) = os_ObservedGeneration st"
  "st_Conditions (os_Status (on_conditions f st)) = f (st_Conditions (os_Status st))"
  by (simp_all add: on_conditions_def)

lemma set_true_status:
  assumes "conditions_laws A"
  shows "c_IsTrue A t (set_true A t' cs) \<longleftrightarrow> t = t' \<or> c_IsTrue A t cs"
  using assms by (simp add: set_true_def IsTrue_frame IsTrue_True)

text \<open>
  C34. The status tells the truth about the spec: when a run of the planner's controller changes
  the applied spec, it is the spec of the control plane that was handled, the run returns no
  error, the generation is recorded, the cluster is reported ready, stable and reconciled, and
  the pass found the CAPI cluster in deletion or the cluster up: every role manned, the init node
  elected, every machine reconciled. As in a pass of the planner, elected means exactly one
  marked machine, which is viable, or, when the control plane pins the init node by machine
  ID, that the one machine with the ID is marked; then a second mark is possible, and a marked
  machine that is not an etcd machine is left out of what is said of the machines.
\<close>

theorem applied_spec_means_up:
  assumes run: "planner_OnChange E cp st w = ((st', r), w')" and changed: "os_AppliedSpec st' \<noteq> os_AppliedSpec st"
    and laws: "conditions_laws (lib_Cond E)" "unique_names E w" "phases_agree (RKEControlPlane.truncate cp) (os_Status st)"
  shows "os_AppliedSpec st' = Some (cp_Spec cp) \<and> r = None \<and> os_ObservedGeneration st' = cp_Generation cp \<and>
    list_all (\<lambda>t. c_IsTrue (lib_Cond E) t (st_Conditions (os_Status st'))) [''Ready'', ''Stable'', ''Reconciled''] \<and>
    (\<exists>capi. owner_cluster E (RKEControlPlane.truncate cp) w = Inr (Some capi) \<and>
       (cc_DeletionTimestamp capi \<noteq> None \<or>
        (\<exists>p d. Load E capi (RKEControlPlane.truncate cp) w = (Inr p, d, w) \<and> cluster_up E (RKEControlPlane.truncate cp) p)))"
proof -
  let ?cp = "RKEControlPlane.truncate cp"
  let ?A = "lib_Cond E"
  let ?st0 = "st\<lparr>os_ObservedGeneration := cp_Generation cp\<rparr>"
  obtain status e w1 where pass: "Process E ?cp (os_Status st) w = ((status, e), w1)" by (metis prod.exhaust)
  from run changed have live: "cp_DeletionTimestamp cp = None"
    by (cases "cp_DeletionTimestamp cp") (simp, auto simp: planner_OnChange_def)
  have "e = None"
  proof (rule ccontr)
    assume "e \<noteq> None"
    then obtain x where "e = Some x" by blast
    with run pass live have "os_AppliedSpec st' = os_AppliedSpec st"
      by (simp add: planner_OnChange_def Let_def split: if_split_asm) auto
    with changed show False ..
  qed
  with pass run live have ok: "Process E ?cp (os_Status st) w = ((status, None), w1)"
    and st': "r = None" "w1 = w'" "st' = on_conditions (set_true ?A ''Reconciled'')
      ((on_conditions (set_true ?A ''Stable'') (on_conditions (set_true ?A ''Ready'') (?st0\<lparr>os_Status := status\<rparr>)))
         \<lparr>os_AppliedSpec := Some (cp_Spec cp)\<rparr>)"
    by (simp_all add: planner_OnChange_def Let_def)
  note up_cluster = process_cluster_success [OF laws(3,2)]
  obtain v rel capi where owner: "owner_cluster E ?cp w = Inr (Some capi)"
    and cluster: "process_cluster E ?cp (os_Status st) v rel capi w = ((status, None), w1)"
    using Process_cluster [OF ok] .
  from owner up_cluster [OF cluster]
  have up: "\<exists>capi. owner_cluster E ?cp w = Inr (Some capi) \<and>
       (cc_DeletionTimestamp capi \<noteq> None \<or> (\<exists>p d. Load E capi ?cp w = (Inr p, d, w) \<and> cluster_up E ?cp p))"
    by blast
  have "os_AppliedSpec st' = Some (cp_Spec cp)" "os_ObservedGeneration st' = cp_Generation cp"
    "list_all (\<lambda>t. c_IsTrue ?A t (st_Conditions (os_Status st'))) [''Ready'', ''Stable'', ''Reconciled'']"
    unfolding st'(3) by (simp_all add: set_true_status [OF laws(1)])
  with up st'(1) show ?thesis by blast
qed

section \<open>Letting a control plane go\<close>

lemma GetMachineDeletionStatus_done: "GetMachineDeletionStatus ms = Inr '''' \<longleftrightarrow> ms = []"
proof -
  have "sort_key m_Name ms = [] \<longleftrightarrow> ms = []" by (metis length_0_conv length_sort)
  then show ?thesis by (auto simp: GetMachineDeletionStatus_def split: list.splits)
qed

lemma removal_done:
  assumes "DoRemoveAndUpdateStatus E setError removal cs = (None, cs', again)"
  shows "removal = Inr ''''"
  using assms by (auto simp: DoRemoveAndUpdateStatus_def Let_def split: sum.splits if_splits)

text \<open>
  C35. A control plane is let go only when its machines are gone: the removal handler returns no
  error - which is what removes the finalizer - only if the cluster has no control-plane
  machine left, by the label of CAPI and by the label of earlier releases.
\<close>

theorem control_plane_waits_for_machines:
  assumes "controlplane_OnRemove E cp st w = ((st', None), w')"
  shows "o_MachineList E (cp_Namespace cp) [(CAPIClusterNameLabel, cp_Name cp), (ControlPlaneRoleLabel, ''true'')] w = Inr [] \<and>
    o_MachineList E (cp_Namespace cp) [(ClusterNameLabel, cp_Name cp), (ControlPlaneRoleLabel, ''true'')] w = Inr []"
proof -
  obtain removal w1 where run: "doRemove E cp w = (removal, w1)" by fastforce
  from assms run have "removal = Inr ''''"
    by (auto simp: controlplane_OnRemove_def Let_def dest: removal_done split: prod.split_asm if_split_asm sum.split_asm)
  with run show ?thesis
    by (auto simp: doRemove_def Let_def bindE_eq_Inr_iff liftE_def GetMachineDeletionStatus_done split: sum.split_asm)
qed

section \<open>Concrete runs\<close>

definition live_controller :: "demo_world controller_env" where
  "live_controller = planner_env.extend live_planner
     \<lparr>o_EnqueueAfter = (\<lambda>_ _ _ w. w),
      o_SetError = (\<lambda>t r e cs. set_cond \<lparr>cd_Type = t, cd_Status = ''False'', cd_Reason = ''Error'', cd_Message = Error e\<rparr> cs),
      o_SameSpec = (\<lambda>s a. a = Some s), o_ManagementCluster = (\<lambda>n _. Inr n), o_Connected = (\<lambda>_. True),
      o_MachineList = (\<lambda>_ _ _. Inr []), o_MachineDelete = (\<lambda>_ _ w. (Inr (), w)), o_SameStatus = (\<lambda>_ _. False),
      o_UpdateStatus = (\<lambda>_ _ w. (Inr (), w)), o_ClusterUpdate = (\<lambda>c w. (Inr c, w)), o_ClusterUpdateStatus = (\<lambda>c w. (Inr c, w)),
      o_ClusterPaused = (\<lambda>_ _. False), o_EndpointIsValid = (\<lambda>_. True)\<rparr>"

definition up_object :: cp_object where
  "up_object = RKEControlPlane.extend up_cp \<lparr>cp_Generation = 7, cp_DeletionTimestamp = None\<rparr>"

definition fresh_status :: status_object where
  "fresh_status = \<lparr>os_Status = demo_status, os_ObservedGeneration = 6, os_AppliedSpec = None\<rparr>"

lemma up_object_parts [simp]: "RKEControlPlane.truncate up_object = up_cp" "cp_Labels up_object = cp_Labels up_cp"
    "cp_Spec up_object = cp_Spec up_cp"
  by (simp_all add: up_object_def RKEControlPlane.defs)

theorem applied_spec_means_up_witness:
  "\<exists>st' w'. planner_OnChange live_controller up_object fresh_status live_world = ((st', None), w') \<and>
     os_AppliedSpec st' = Some (cp_Spec up_cp) \<and> os_ObservedGeneration st' = cp_Generation up_object \<and>
     c_IsTrue (lib_Cond live_controller) ''Ready'' (st_Conditions (os_Status st'))"
proof -
  have "case planner_OnChange live_controller up_object fresh_status live_world of
      ((st', r), _) \<Rightarrow> (case os_AppliedSpec st' of None \<Rightarrow> False | Some _ \<Rightarrow> True)"
    by code_simp
  then obtain st' r w' where run: "planner_OnChange live_controller up_object fresh_status live_world = ((st', r), w')"
    and changed: "os_AppliedSpec st' \<noteq> os_AppliedSpec fresh_status"
    by (auto simp: fresh_status_def split: prod.splits option.splits)
  have "conditions_laws (lib_Cond live_controller)" "unique_names live_controller live_world"
    by (simp_all add: live_controller_def live_planner_def demo_planner_def demo_config_def demo_store_def demo_libs_def
        planner_env.defs config_env.defs store_env.defs libs.defs unique_names_def)
  moreover have "phases_agree up_cp demo_status" by (simp add: phases_agree_def up_cp_def demo_cp_def)
  ultimately show ?thesis
    using applied_spec_means_up [OF run changed] run by (simp add: fresh_status_def)
qed

theorem control_plane_waits_for_machines_witness:
  "\<exists>st' w'. controlplane_OnRemove live_controller up_object fresh_status live_world = ((st', None), w') \<and>
     o_MachineList live_controller (cp_Namespace up_object) [(ClusterNameLabel, cp_Name up_object), (ControlPlaneRoleLabel, ''true'')] live_world = Inr []"
proof -
  have "case controlplane_OnRemove live_controller up_object fresh_status live_world of ((_, r), _) \<Rightarrow> r = None"
    by code_simp
  then obtain st' w' where "controlplane_OnRemove live_controller up_object fresh_status live_world = ((st', None), w')"
    by (auto split: prod.splits)
  with control_plane_waits_for_machines [OF this] show ?thesis by blast
qed

end
