(* ===== verification/Snapshot_Backpopulate.thy ===== *)
theory Snapshot_Backpopulate
  imports Plan_Secret
begin

text \<open>
  The controller that follows the list of etcd snapshots which the downstream cluster keeps in a
  config map (\<open>controllers/managementuser/snapshotbackpopulate/snapshotbackpopulate.go\<close>): it
  marks the snapshot objects of the management cluster that are not in the list as missing,
  deletes the local ones whose machine is gone, brings the others up to date, and creates
  objects for snapshots in S3. Labels and annotations can be nil here (\<open>None\<close>): the handler
  writes to them, and writing to a nil map is a panic.
\<close>

section \<open>Data\<close>

text \<open>\<open>CreatedAt\<close> is an instant: the handler compares times by it.\<close>

record s3Config =
  s3c_Endpoint :: string
  s3c_EndpointCA :: string
  s3c_SkipSSLVerify :: bool
  s3c_Bucket :: string
  s3c_Region :: string
  s3c_Folder :: string

record snapshotFile =
  sf_Name :: string
  sf_Location :: string
  sf_NodeName :: string
  sf_Metadata :: string
  sf_Message :: string
  sf_CreatedAt :: "int option"
  sf_Size :: int
  sf_Status :: string
  sf_S3 :: "s3Config option"

record ETCDSnapshotFile =
  ef_Name :: string
  ef_NodeName :: string
  ef_Location :: string
  ef_Metadata :: string
  ef_CreatedAt :: "int option"
  ef_Size :: int
  ef_S3 :: "ETCDSnapshotS3 option"
  ef_Status :: string
  ef_Message :: string

record snapshot_cr =
  cr_Namespace :: string
  cr_Name :: string
  cr_Labels :: "smap option"
  cr_Annotations :: "smap option"
  cr_OwnerReferences :: "object_owner list"
  cr_ClusterName :: string
  cr_SnapshotFile :: ETCDSnapshotFile
  cr_Missing :: bool

record prov_cluster =
  pc_Namespace :: string
  pc_Name :: string
  pc_APIVersion :: string
  pc_Kind :: string
  pc_UID :: string

record config_map =
  cf_Namespace :: string
  cf_Name :: string
  cf_Data :: "(string \<times> string) list"

record backpop_handler =
  h_clusterName :: string
  h_activeConfigMap :: string
  h_v1ClusterName :: string

text \<open>The caches and clients, the decoder of JSON, and the order in which Go ranges over the two maps.\<close>

record 'w backpop_env = libs +
  b_ClusterIndex :: "string \<Rightarrow> 'w \<Rightarrow> go_error + prov_cluster list"
  b_LabelsParse :: "string \<Rightarrow> err"
  b_MachineList :: "string \<Rightarrow> (string \<times> string) list \<Rightarrow> 'w \<Rightarrow> go_error + machine list"
  b_SnapshotList :: "string \<Rightarrow> (string \<times> string) list \<Rightarrow> 'w \<Rightarrow> go_error + snapshot_cr list"
  b_Delete :: "string \<Rightarrow> string \<Rightarrow> ('w, unit) go"
  b_Update :: "snapshot_cr \<Rightarrow> ('w, snapshot_cr) go"
  b_UpdateStatus :: "snapshot_cr \<Rightarrow> ('w, snapshot_cr) go"
  b_Create :: "snapshot_cr \<Rightarrow> ('w, snapshot_cr) go"
  b_Unmarshal :: "string \<Rightarrow> go_error + snapshotFile"
  b_RangeData :: "(string \<times> string) list \<Rightarrow> (string \<times> string) list"
  b_RangeSnapshots :: "(string \<times> snapshot_cr) list \<Rightarrow> (string \<times> snapshot_cr) list"

definition SnapshotBackpopulateReconciledKey :: string where
  "SnapshotBackpopulateReconciledKey = ''etcdsnapshot.rke.io/snapshotbackpopulate-reconciled''"
definition StorageS3 :: string where "StorageS3 = ''s3''"

definition configMapNames :: "string list" where
  "configMapNames = [''k3s-etcd-snapshots'', ''rke2-etcd-snapshots'']"

text \<open>Reading a map that may be nil.\<close>

definition getn :: "smap option \<Rightarrow> string \<Rightarrow> string" where
  "getn m k = (case m of None \<Rightarrow> '''' | Some f \<Rightarrow> gets f k)"

section \<open>The list of the config map\<close>

definition machine_of_node :: "('w, 'z) backpop_env_scheme \<Rightarrow> prov_cluster \<Rightarrow> string \<Rightarrow> 'w \<Rightarrow> bool \<times> machine option \<times> err" where
  "machine_of_node E cluster nodeName w =
     GetMachineFromNode
       (case b_LabelsParse E (CAPIClusterNameLabel @ ''='' @ pc_Name cluster) of
          Some e \<Rightarrow> Inl e
        | None \<Rightarrow> b_MachineList E (pc_Namespace cluster) [(CAPIClusterNameLabel, pc_Name cluster)] w) nodeName"

definition clusterOwnerRef :: "prov_cluster \<Rightarrow> object_owner" where
  "clusterOwnerRef cluster =
     \<lparr>ow_APIVersion = pc_APIVersion cluster, ow_Kind = pc_Kind cluster, ow_Name = pc_Name cluster, ow_Controller = True,
      ow_UID = pc_UID cluster, ow_BlockOwnerDeletion = True\<rparr>"

definition listed_s3 :: "s3Config \<Rightarrow> ETCDSnapshotS3" where
  "listed_s3 s =
     \<lparr>s3_Endpoint = s3c_Endpoint s, s3_EndpointCA = s3c_EndpointCA s, s3_SkipSSLVerify = s3c_SkipSSLVerify s,
      s3_Bucket = s3c_Bucket s, s3_Region = s3c_Region s, s3_CloudCredentialName = '''', s3_Folder = s3c_Folder s\<rparr>"

definition file_suffix :: "snapshotFile \<Rightarrow> string" where
  "file_suffix file = (case sf_S3 file of None \<Rightarrow> StorageLocal | Some _ \<Rightarrow> StorageS3)"

definition listed_cr :: "('w, 'z) backpop_env_scheme \<Rightarrow> prov_cluster \<Rightarrow> snapshotFile \<Rightarrow> snapshot_cr" where
  "listed_cr E cluster file =
     \<lparr>cr_Namespace = pc_Namespace cluster,
      cr_Name = lib_SafeConcatName E [pc_Name cluster, ToLower (replace_invalid (sf_Name file)), file_suffix file],
      cr_Labels = Some [ClusterNameLabel \<mapsto> pc_Name cluster, NodeNameLabel \<mapsto> sf_NodeName file],
      cr_Annotations = Some [SnapshotNameKey \<mapsto> sf_Name file, StorageAnnotationKey \<mapsto> file_suffix file,
                             SnapshotBackpopulateReconciledKey \<mapsto> ''true''],
      cr_OwnerReferences = (case sf_S3 file of None \<Rightarrow> [] | Some _ \<Rightarrow> [clusterOwnerRef cluster]),
      cr_ClusterName = pc_Name cluster,
      cr_SnapshotFile =
        \<lparr>ef_Name = sf_Name file, ef_NodeName = sf_NodeName file, ef_Location = sf_Location file, ef_Metadata = sf_Metadata file,
         ef_CreatedAt = sf_CreatedAt file, ef_Size = sf_Size file, ef_S3 = map_option listed_s3 (sf_S3 file),
         ef_Status = sf_Status file, ef_Message = sf_Message file\<rparr>,
      cr_Missing = False\<rparr>"

text \<open>
  A local snapshot gets the identifier of its machine. When the machines cannot be listed, there
  is no machine and the last branch reads a field of a nil pointer.
\<close>

definition cm_snapshot ::
  "('w, 'z) backpop_env_scheme \<Rightarrow> prov_cluster \<Rightarrow> snapshotFile \<Rightarrow> 'w \<Rightarrow> go_error + snapshot_cr" where
  "cm_snapshot E cluster file w =
     (let snapshot = listed_cr E cluster file in
      case sf_S3 file of
        Some _ \<Rightarrow> Inr snapshot
      | None \<Rightarrow>
          (case machine_of_node E cluster (sf_NodeName file) w of
             (listSuccessful, machine, err) \<Rightarrow>
               if listSuccessful \<and> err \<noteq> None then Inr snapshot
               else
                 (case machine of
                    None \<Rightarrow> Inl (GoPanic ''nil machine'')
                  | Some m \<Rightarrow>
                      if listSuccessful \<and> gets (m_Labels m) MachineIDLabel = '''' then Inr snapshot
                      else
                        Inr (snapshot\<lparr>cr_Labels := map_option (\<lambda>l. l(MachineIDLabel \<mapsto> gets (m_Labels m) MachineIDLabel))
                                                     (cr_Labels snapshot)\<rparr>))))"

fun cm_entries ::
  "('w, 'z) backpop_env_scheme \<Rightarrow> prov_cluster \<Rightarrow> 'w \<Rightarrow> (string \<times> string) list \<Rightarrow> (string \<times> snapshot_cr) list \<Rightarrow>
   go_error + (string \<times> snapshot_cr) list" where
  "cm_entries E cluster w [] result = Inr result"
| "cm_entries E cluster w ((k, v) # data) result =
     (case b_Unmarshal E v of
        Inl _ \<Rightarrow> cm_entries E cluster w data result
      | Inr file \<Rightarrow>
          sbind (cm_snapshot E cluster file w) (\<lambda>snapshot.
            cm_entries E cluster w data (AList.update (sf_Name file @ file_suffix file) snapshot result)))"

definition configMapToSnapshots ::
  "('w, 'z) backpop_env_scheme \<Rightarrow> config_map \<Rightarrow> prov_cluster \<Rightarrow> 'w \<Rightarrow> go_error + (string \<times> snapshot_cr) list" where
  "configMapToSnapshots E configMap cluster w = cm_entries E cluster w (b_RangeData E (cf_Data configMap)) []"

section \<open>Objects that are not listed\<close>

definition storageLocation :: "snapshot_cr \<Rightarrow> string" where
  "storageLocation cr =
     (case Option.bind (cr_Annotations cr) (\<lambda>a. a StorageAnnotationKey) of
        Some l \<Rightarrow> l
      | None \<Rightarrow> if ef_NodeName (cr_SnapshotFile cr) = StorageS3 then StorageS3 else StorageLocal)"

definition snapshotKey :: "snapshot_cr \<Rightarrow> string" where
  "snapshotKey cr = ef_Name (cr_SnapshotFile cr) @ storageLocation cr"

definition orphaned :: "('w, 'z) backpop_env_scheme \<Rightarrow> prov_cluster \<Rightarrow> snapshot_cr \<Rightarrow> 'w \<Rightarrow> bool" where
  "orphaned E cluster cr w =
     (let machineID = getn (cr_Labels cr) MachineIDLabel in
      case (if machineID = '''' then machine_of_node E cluster (ef_NodeName (cr_SnapshotFile cr)) w
            else GetMachineByID
                   (b_MachineList E (pc_Namespace cluster)
                      [(ClusterNameLabel, pc_Name cluster), (MachineIDLabel, machineID)] w) machineID (pc_Name cluster)) of
        (listSuccessful, machine, err) \<Rightarrow> listSuccessful \<and> machine = None \<and> err \<noteq> None)"

definition mark_missing :: "('w, 'z) backpop_env_scheme \<Rightarrow> snapshot_cr \<Rightarrow> ('w, unit) go" where
  "mark_missing E cr w =
     (case b_UpdateStatus E (cr\<lparr>cr_Missing := True\<rparr>) w of
        (Inl e, w') \<Rightarrow>
          if is_NotFound e then (Inr (), w')
          else (Inl (ErrWrap ''error while setting status missing=true on etcd snapshot'' e), w')
      | (Inr _, w') \<Rightarrow> (Inr (), w'))"

definition delete_orphan :: "('w, 'z) backpop_env_scheme \<Rightarrow> snapshot_cr \<Rightarrow> ('w, unit) go" where
  "delete_orphan E cr w =
     (case b_Delete E (cr_Namespace cr) (cr_Name cr) w of
        (Inl e, w') \<Rightarrow> if is_NotFound e then (Inr (), w') else (Inl e, w')
      | (Inr _, w') \<Rightarrow> (Inr (), w'))"

definition handle_unlisted :: "('w, 'z) backpop_env_scheme \<Rightarrow> prov_cluster \<Rightarrow> snapshot_cr \<Rightarrow> ('w, unit) go" where
  "handle_unlisted E cluster cr w =
     (if storageLocation cr \<noteq> StorageS3 \<and> orphaned E cluster cr w then delete_orphan E cr w else mark_missing E cr w)"

text \<open>The first loop: the objects to keep, by key.\<close>

fun sift_objects ::
  "('w, 'z) backpop_env_scheme \<Rightarrow> prov_cluster \<Rightarrow> (string \<times> snapshot_cr) list \<Rightarrow> snapshot_cr list \<Rightarrow>
   (string \<rightharpoonup> snapshot_cr) \<Rightarrow> ('w, string \<rightharpoonup> snapshot_cr) go" where
  "sift_objects E cluster actual [] keep w = (Inr keep, w)"
| "sift_objects E cluster actual (cr # crs) keep w =
     (if map_of actual (snapshotKey cr) = None
      then bindE (handle_unlisted E cluster cr) (\<lambda>_. sift_objects E cluster actual crs keep) w
      else sift_objects E cluster actual crs (keep(snapshotKey cr \<mapsto> cr)) w)"

section \<open>Objects that are listed\<close>

fun reconcileStringMaps :: "smap option \<Rightarrow> smap option \<Rightarrow> string list \<Rightarrow> go_error + (smap option \<times> bool)" where
  "reconcileStringMaps input new [] = Inr (input, False)"
| "reconcileStringMaps input new (key # keys) =
     (if getn input key = '''' \<and> getn new key \<noteq> '''' then
        (case input of
           None \<Rightarrow> Inl (GoPanic ''assignment to entry in nil map'')
         | Some m \<Rightarrow>
             sbind (reconcileStringMaps (Some (m(key \<mapsto> getn new key))) new keys) (\<lambda>(input', _). Inr (input', True)))
      else reconcileStringMaps input new keys)"

definition merge_file :: "ETCDSnapshotFile \<Rightarrow> ETCDSnapshotFile \<Rightarrow> ETCDSnapshotFile" where
  "merge_file original listed =
     (let f1 = (if ef_Metadata original \<noteq> '''' \<and> ef_Metadata listed = ''''
                then listed\<lparr>ef_Metadata := ef_Metadata original\<rparr> else listed) in
      if ef_Message original \<noteq> '''' \<and> ef_Message f1 = '''' then f1\<lparr>ef_Message := ef_Message original\<rparr> else f1)"

definition reconcile_snapshot :: "snapshot_cr \<Rightarrow> snapshot_cr \<Rightarrow> go_error + (snapshot_cr \<times> bool)" where
  "reconcile_snapshot snapshot listed =
     (let original = cr_SnapshotFile snapshot;
          (s1, u1) =
            (if original \<noteq> cr_SnapshotFile listed
             then (snapshot\<lparr>cr_SnapshotFile := merge_file original (cr_SnapshotFile listed)\<rparr>,
                   merge_file original (cr_SnapshotFile listed) \<noteq> original)
             else (snapshot, False));
          (s2, u2) =
            (if cr_ClusterName s1 \<noteq> cr_ClusterName listed
             then (s1\<lparr>cr_ClusterName := cr_ClusterName listed\<rparr>, True) else (s1, u1)) in
      sbind (reconcileStringMaps (cr_Labels s2) (cr_Labels listed) [ClusterNameLabel, NodeNameLabel, MachineIDLabel])
        (\<lambda>(labels, u3).
      sbind (reconcileStringMaps (cr_Annotations s2) (cr_Annotations listed)
               [SnapshotNameKey, StorageAnnotationKey, SnapshotBackpopulateReconciledKey])
        (\<lambda>(annotations, u4).
      Inr (s2\<lparr>cr_Labels := labels, cr_Annotations := annotations\<rparr>, u2 \<or> u3 \<or> u4))))"

definition clear_missing :: "('w, 'z) backpop_env_scheme \<Rightarrow> snapshot_cr \<Rightarrow> ('w, unit) go" where
  "clear_missing E snapshot w =
     (if cr_Missing snapshot then
        (case b_UpdateStatus E (snapshot\<lparr>cr_Missing := False\<rparr>) w of
           (Inl e, w') \<Rightarrow>
             if is_NotFound e then (Inr (), w')
             else (Inl (ErrWrap ''error while setting status missing=false on etcd snapshot'' e), w')
         | (Inr _, w') \<Rightarrow> (Inr (), w'))
      else (Inr (), w))"

definition handle_listed :: "('w, 'z) backpop_env_scheme \<Rightarrow> snapshot_cr \<Rightarrow> snapshot_cr \<Rightarrow> ('w, unit) go" where
  "handle_listed E snapshot listed w =
     (case reconcile_snapshot snapshot listed of
        Inl p \<Rightarrow> (Inl p, w)
      | Inr (s, updated) \<Rightarrow>
          if updated then
            (case b_Update E s w of
               (Inl e, w1) \<Rightarrow> (Inl (ErrWrap ''error while updating etcd snapshot'' e), w1)
             | (Inr s', w1) \<Rightarrow> clear_missing E s' w1)
          else clear_missing E s w)"

text \<open>A snapshot without an object: one in S3 is created, and a failure is only logged.\<close>

definition create_listed_cr :: "('w, 'z) backpop_env_scheme \<Rightarrow> snapshot_cr \<Rightarrow> ('w, unit) go" where
  "create_listed_cr E listed w =
     (if ef_NodeName (cr_SnapshotFile listed) \<noteq> ''s3'' then (Inr (), w) else (Inr (), snd (b_Create E listed w)))"

fun populate ::
  "('w, 'z) backpop_env_scheme \<Rightarrow> (string \<rightharpoonup> snapshot_cr) \<Rightarrow> (string \<times> snapshot_cr) list \<Rightarrow> ('w, unit) go" where
  "populate E keep [] w = (Inr (), w)"
| "populate E keep ((key, listed) # actual) w =
     bindE (case keep key of Some snapshot \<Rightarrow> handle_listed E snapshot listed | None \<Rightarrow> create_listed_cr E listed)
       (\<lambda>_. populate E keep actual) w"

section \<open>The handler\<close>

definition backpop_pass :: "('w, 'z) backpop_env_scheme \<Rightarrow> prov_cluster \<Rightarrow> config_map \<Rightarrow> ('w, unit) go" where
  "backpop_pass E cluster configMap w =
     (case configMapToSnapshots E configMap cluster w of
        Inl p \<Rightarrow> (Inl p, w)
      | Inr actual \<Rightarrow>
          (case b_LabelsParse E (ClusterNameLabel @ ''='' @ pc_Name cluster) of
             Some e \<Rightarrow> (Inl e, w)
           | None \<Rightarrow>
               (case b_SnapshotList E (pc_Namespace cluster) [(ClusterNameLabel, pc_Name cluster)] w of
                  Inl e \<Rightarrow> (Inl (ErrWrap (''error while listing existing etcd snapshots for cluster '' @ pc_Name cluster) e), w)
                | Inr current \<Rightarrow>
                    bindE (sift_objects E cluster actual current Map.empty)
                      (\<lambda>keep. populate E keep (b_RangeSnapshots E actual)) w)))"

definition cluster_not_found :: "backpop_handler \<Rightarrow> err \<Rightarrow> go_error" where
  "cluster_not_found h e =
     (let msg = ''error while retrieving cluster '' @ h_clusterName h @ '' from cache via index'' in
      case e of Some e \<Rightarrow> ErrWrap msg e | None \<Rightarrow> ErrOther msg)"

definition backpop_OnChange ::
  "('w, 'z) backpop_env_scheme \<Rightarrow> config_map option \<Rightarrow> backpop_handler \<times> 'w \<Rightarrow>
   (config_map option \<times> err) \<times> backpop_handler \<times> 'w" where
  "backpop_OnChange E obj hw =
     (case hw of (h, w) \<Rightarrow>
      case obj of
        None \<Rightarrow> ((None, None), h, w)
      | Some configMap \<Rightarrow>
          if cf_Namespace configMap \<noteq> ''kube-system'' \<or> cf_Name configMap \<notin> set configMapNames then ((Some configMap, None), h, w)
          else
            let h1 = (if h_activeConfigMap h = '''' then h\<lparr>h_activeConfigMap := cf_Name configMap\<rparr> else h) in
            (case b_ClusterIndex E (h_clusterName h1) w of
               Inl e \<Rightarrow> ((Some configMap, Some (cluster_not_found h1 (Some e))), h1, w)
             | Inr [cluster] \<Rightarrow>
                 let h2 = (if h_v1ClusterName h1 = '''' then h1\<lparr>h_v1ClusterName := pc_Name cluster\<rparr> else h1) in
                 (case backpop_pass E cluster configMap w of
                    (Inl e, w') \<Rightarrow> ((Some configMap, Some e), h2, w')
                  | (Inr _, w') \<Rightarrow> ((Some configMap, None), h2, w'))
             | Inr _ \<Rightarrow> ((Some configMap, Some (cluster_not_found h1 None)), h1, w)))"

text \<open>Which config map a change of a snapshot object queues again.\<close>

definition snapshot_reconcile_trigger :: "backpop_handler \<Rightarrow> snapshot_cr \<Rightarrow> (string \<times> string) list" where
  "snapshot_reconcile_trigger h snapshot =
     (if cr_ClusterName snapshot = h_v1ClusterName h \<and> h_activeConfigMap h \<noteq> '''' then [(''kube-system'', h_activeConfigMap h)] else [])"

end
