(* ===== verification/Backpopulate_Store.thy ===== *)
theory Backpopulate_Store
  imports Snapshot_Backpopulate
begin

text \<open>
  The snapshot objects of the management cluster as the snapshot controller sees them: what its
  calls do to the API server's object of each namespace and name (\<open>store\<close>), what a run of the
  handler reads, and a cluster in memory on which the laws hold.
\<close>

declare split_paired_All [simp del] split_paired_Ex [simp del]

section \<open>The API server\<close>

type_synonym 'w snapshot_store = "'w \<Rightarrow> string \<times> string \<Rightarrow> snapshot_cr option"

definition cr_key :: "snapshot_cr \<Rightarrow> string \<times> string" where
  "cr_key cr = (cr_Namespace cr, cr_Name cr)"

text \<open>
  A write of the status subresource changes the status only, a write of the object all but the
  status, and a new object starts with an empty status.
\<close>

definition put_status :: "snapshot_cr \<Rightarrow> (string \<times> string \<rightharpoonup> snapshot_cr) \<Rightarrow> (string \<times> string \<rightharpoonup> snapshot_cr)" where
  "put_status cr S = (case S (cr_key cr) of None \<Rightarrow> S | Some old \<Rightarrow> S(cr_key cr \<mapsto> old\<lparr>cr_Missing := cr_Missing cr\<rparr>))"

definition put_object :: "snapshot_cr \<Rightarrow> (string \<times> string \<rightharpoonup> snapshot_cr) \<Rightarrow> (string \<times> string \<rightharpoonup> snapshot_cr)" where
  "put_object cr S = (case S (cr_key cr) of None \<Rightarrow> S | Some old \<Rightarrow> S(cr_key cr \<mapsto> cr\<lparr>cr_Missing := cr_Missing old\<rparr>))"

definition put_new :: "snapshot_cr \<Rightarrow> (string \<times> string \<rightharpoonup> snapshot_cr) \<Rightarrow> (string \<times> string \<rightharpoonup> snapshot_cr)" where
  "put_new cr S = (case S (cr_key cr) of None \<Rightarrow> S(cr_key cr \<mapsto> cr\<lparr>cr_Missing := False\<rparr>) | Some _ \<Rightarrow> S)"

text \<open>Whatever a call returns, it has had its effect or none, and machines are left alone.\<close>

definition api_frame :: "('w, 'z) backpop_env_scheme \<Rightarrow> 'w snapshot_store \<Rightarrow> bool" where
  "api_frame E store \<longleftrightarrow>
     (\<forall>ns n w. store (snd (b_Delete E ns n w)) \<in> {store w, (store w)((ns, n) := None)} \<and>
        (\<forall>ns' sel. b_MachineList E ns' sel (snd (b_Delete E ns n w)) = b_MachineList E ns' sel w)) \<and>
     (\<forall>cr w. store (snd (b_UpdateStatus E cr w)) \<in> {store w, put_status cr (store w)} \<and>
        (\<forall>ns' sel. b_MachineList E ns' sel (snd (b_UpdateStatus E cr w)) = b_MachineList E ns' sel w)) \<and>
     (\<forall>cr w. store (snd (b_Update E cr w)) \<in> {store w, put_object cr (store w)}) \<and>
     (\<forall>cr w. store (snd (b_Create E cr w)) \<in> {store w, put_new cr (store w)})"

text \<open>A call on an object that exists succeeds.\<close>

definition api_accepts :: "('w, 'z) backpop_env_scheme \<Rightarrow> 'w snapshot_store \<Rightarrow> bool" where
  "api_accepts E store \<longleftrightarrow>
     (\<forall>ns n w. store w (ns, n) \<noteq> None \<longrightarrow> (\<exists>w'. b_Delete E ns n w = (Inr (), w') \<and> store w' = (store w)((ns, n) := None))) \<and>
     (\<forall>cr w old. store w (cr_key cr) = Some old \<longrightarrow>
        (\<exists>w'. b_UpdateStatus E cr w = (Inr (old\<lparr>cr_Missing := cr_Missing cr\<rparr>), w') \<and> store w' = put_status cr (store w))) \<and>
     (\<forall>cr w old. store w (cr_key cr) = Some old \<longrightarrow>
        (\<exists>w'. b_Update E cr w = (Inr (cr\<lparr>cr_Missing := cr_Missing old\<rparr>), w') \<and> store w' = put_object cr (store w))) \<and>
     (\<forall>cr w. store (snd (b_Create E cr w)) = put_new cr (store w))"

lemma cr_key_missing [simp]: "cr_key (cr\<lparr>cr_Missing := b\<rparr>) = cr_key cr"
  by (simp add: cr_key_def)

lemma put_keeps: "S k \<noteq> None \<Longrightarrow> put_status cr S k \<noteq> None \<and> put_object cr S k \<noteq> None \<and> put_new cr S k \<noteq> None"
  by (auto simp: put_status_def put_object_def put_new_def split: option.splits)

lemma put_same: "store w (cr_key cr) = Some old \<Longrightarrow> put_status cr (store w) = (store w)(cr_key cr \<mapsto> old\<lparr>cr_Missing := cr_Missing cr\<rparr>)"
  "store w (cr_key cr) = Some old \<Longrightarrow> put_object cr (store w) = (store w)(cr_key cr \<mapsto> cr\<lparr>cr_Missing := cr_Missing old\<rparr>)"
  by (simp_all add: put_status_def put_object_def)

text \<open>Go ranges over every entry of a map once.\<close>

definition range_law :: "('w, 'z) backpop_env_scheme \<Rightarrow> bool" where
  "range_law E \<longleftrightarrow>
     (\<forall>xs. distinct (map fst xs) \<longrightarrow> distinct (map fst (b_RangeSnapshots E xs)) \<and> set (b_RangeSnapshots E xs) = set xs)"

text \<open>What a run of the handler reads: the cluster, the list of the config map and the objects of the cache.\<close>

definition handler_reads :: "('w, 'z) backpop_env_scheme \<Rightarrow> backpop_handler \<Rightarrow> config_map \<Rightarrow> 'w \<Rightarrow>
  prov_cluster \<Rightarrow> (string \<times> snapshot_cr) list \<Rightarrow> snapshot_cr list \<Rightarrow> bool" where
  "handler_reads E h cfg w c actual crs \<longleftrightarrow>
     b_ClusterIndex E (h_clusterName h) w = Inr [c] \<and> configMapToSnapshots E cfg c w = Inr actual \<and>
     b_SnapshotList E (pc_Namespace c) [(ClusterNameLabel, pc_Name c)] w = Inr crs"

section \<open>A cluster in memory\<close>

definition mem_store :: "snapshot_cr list snapshot_store" where
  "mem_store w k = find (\<lambda>cr. cr_key cr = k) w"

definition mem_put :: "snapshot_cr \<Rightarrow> snapshot_cr list \<Rightarrow> snapshot_cr list" where
  "mem_put n = map (\<lambda>x. if cr_key x = cr_key n then n else x)"

definition demo_file :: "string \<Rightarrow> snapshotFile" where
  "demo_file v =
     \<lparr>sf_Name = v, sf_Location = ''loc'', sf_NodeName = (if v = ''z'' then ''s3'' else ''n1''), sf_Metadata = '''', sf_Message = '''',
      sf_CreatedAt = Some 1700, sf_Size = 4096, sf_Status = ''successful'',
      sf_S3 = (if v = ''z'' then Some \<lparr>s3c_Endpoint = ''s3'', s3c_EndpointCA = '''', s3c_SkipSSLVerify = False, s3c_Bucket = ''b'',
                                     s3c_Region = '''', s3c_Folder = ''''\<rparr> else None)\<rparr>"

definition demo_pc :: prov_cluster where
  "demo_pc = \<lparr>pc_Namespace = ''fleet-default'', pc_Name = ''c1'', pc_APIVersion = ''provisioning.cattle.io/v1'', pc_Kind = ''Cluster'',
     pc_UID = ''u1''\<rparr>"

definition demo_backpop :: "snapshot_cr list backpop_env" where
  "demo_backpop = libs.extend demo_libs
     \<lparr>b_ClusterIndex = (\<lambda>_ _. Inr [demo_pc]), b_LabelsParse = (\<lambda>_. None), b_MachineList = (\<lambda>_ _ _. Inr []),
      b_SnapshotList = (\<lambda>_ _ w. Inr w),
      b_Delete = (\<lambda>ns n w. (Inr (), filter (\<lambda>cr. cr_key cr \<noteq> (ns, n)) w)),
      b_Update = (\<lambda>cr w. case mem_store w (cr_key cr) of None \<Rightarrow> (Inl (ErrNotFound ''snapshot''), w)
        | Some old \<Rightarrow> (Inr (cr\<lparr>cr_Missing := cr_Missing old\<rparr>), mem_put (cr\<lparr>cr_Missing := cr_Missing old\<rparr>) w)),
      b_UpdateStatus = (\<lambda>cr w. case mem_store w (cr_key cr) of None \<Rightarrow> (Inl (ErrNotFound ''snapshot''), w)
        | Some old \<Rightarrow> (Inr (old\<lparr>cr_Missing := cr_Missing cr\<rparr>), mem_put (old\<lparr>cr_Missing := cr_Missing cr\<rparr>) w)),
      b_Create = (\<lambda>cr w. case mem_store w (cr_key cr) of None \<Rightarrow> (Inr cr, w @ [cr\<lparr>cr_Missing := False\<rparr>])
        | Some _ \<Rightarrow> (Inl (ErrOther ''already exists''), w)),
      b_Unmarshal = (\<lambda>v. Inr (demo_file v)), b_RangeData = (\<lambda>xs. xs), b_RangeSnapshots = (\<lambda>xs. xs)\<rparr>"

lemma demo_backpop_fields:
  "b_MachineList demo_backpop = (\<lambda>_ _ _. Inr [])" "b_LabelsParse demo_backpop = (\<lambda>_. None)" "b_SnapshotList demo_backpop = (\<lambda>_ _ w. Inr w)"
  "b_ClusterIndex demo_backpop = (\<lambda>_ _. Inr [demo_pc])" "b_RangeSnapshots demo_backpop = (\<lambda>xs. xs)"
  "b_Delete demo_backpop = (\<lambda>ns n w. (Inr (), filter (\<lambda>cr. cr_key cr \<noteq> (ns, n)) w))"
  "b_Update demo_backpop = (\<lambda>cr w. case mem_store w (cr_key cr) of None \<Rightarrow> (Inl (ErrNotFound ''snapshot''), w)
        | Some old \<Rightarrow> (Inr (cr\<lparr>cr_Missing := cr_Missing old\<rparr>), mem_put (cr\<lparr>cr_Missing := cr_Missing old\<rparr>) w))"
  "b_UpdateStatus demo_backpop = (\<lambda>cr w. case mem_store w (cr_key cr) of None \<Rightarrow> (Inl (ErrNotFound ''snapshot''), w)
        | Some old \<Rightarrow> (Inr (old\<lparr>cr_Missing := cr_Missing cr\<rparr>), mem_put (old\<lparr>cr_Missing := cr_Missing cr\<rparr>) w))"
  "b_Create demo_backpop = (\<lambda>cr w. case mem_store w (cr_key cr) of None \<Rightarrow> (Inr cr, w @ [cr\<lparr>cr_Missing := False\<rparr>])
        | Some _ \<Rightarrow> (Inl (ErrOther ''already exists''), w))"
  by (simp_all add: demo_backpop_def libs.defs demo_libs_def)

lemma mem_store_delete: "mem_store (filter (\<lambda>cr. cr_key cr \<noteq> k) w) = (mem_store w)(k := None)"
  by (rule ext, induction w) (auto simp: mem_store_def)

lemma mem_store_key: "mem_store w k = Some cr \<Longrightarrow> cr_key cr = k"
  by (auto simp: mem_store_def find_Some_iff)

lemma mem_store_put: "mem_store w (cr_key n) \<noteq> None \<Longrightarrow> mem_store (mem_put n w) = (mem_store w)(cr_key n \<mapsto> n)"
proof -
  have "mem_store (mem_put n w) k = (if mem_store w k \<noteq> None \<and> k = cr_key n then Some n else mem_store w k)" for k
    by (induction w) (auto simp: mem_store_def mem_put_def)
  then show "mem_store w (cr_key n) \<noteq> None \<Longrightarrow> ?thesis" by (auto simp: fun_eq_iff)
qed

lemma mem_store_new: "mem_store w (cr_key n) = None \<Longrightarrow> mem_store (w @ [n]) = (mem_store w)(cr_key n \<mapsto> n)"
proof -
  have "mem_store (w @ [n]) k = (case mem_store w k of None \<Rightarrow> if k = cr_key n then Some n else None | Some x \<Rightarrow> Some x)" for k
    by (induction w) (auto simp: mem_store_def)
  then show "mem_store w (cr_key n) = None \<Longrightarrow> ?thesis" by (auto simp: fun_eq_iff split: option.splits)
qed

lemma demo_puts:
  "mem_store w (cr_key cr) = Some old \<Longrightarrow> mem_store (mem_put (old\<lparr>cr_Missing := b\<rparr>) w) = (mem_store w)(cr_key cr \<mapsto> old\<lparr>cr_Missing := b\<rparr>)"
  using mem_store_put [of w "old\<lparr>cr_Missing := b\<rparr>"] mem_store_key [of w "cr_key cr" old] by simp

lemma demo_api: "api_frame demo_backpop mem_store" "api_accepts demo_backpop mem_store" "range_law demo_backpop"
proof -
  have upd: "mem_store (mem_put (cr\<lparr>cr_Missing := b\<rparr>) w) = (mem_store w)(cr_key cr \<mapsto> cr\<lparr>cr_Missing := b\<rparr>)"
    if "mem_store w (cr_key cr) = Some old" for cr b w old using mem_store_put [of w "cr\<lparr>cr_Missing := b\<rparr>"] that by simp
  have new: "mem_store (w @ [cr\<lparr>cr_Missing := b\<rparr>]) = (mem_store w)(cr_key cr \<mapsto> cr\<lparr>cr_Missing := b\<rparr>)"
    if "mem_store w (cr_key cr) = None" for cr b w using mem_store_new [of w "cr\<lparr>cr_Missing := b\<rparr>"] that by simp
  show "api_frame demo_backpop mem_store"
    unfolding api_frame_def demo_backpop_fields
    by (auto simp: mem_store_delete demo_puts upd new put_status_def put_object_def put_new_def split: option.split)
  show "api_accepts demo_backpop mem_store"
    unfolding api_accepts_def demo_backpop_fields
    by (auto simp: mem_store_delete demo_puts upd new put_same put_new_def split: option.split)
  show "range_law demo_backpop" by (simp add: range_law_def demo_backpop_fields)
qed

text \<open>
  A cluster whose config map lists a local snapshot \<open>a\<close> and a snapshot \<open>z\<close> in S3, and with
  objects for \<open>a\<close>, marked missing, and for a local snapshot \<open>b\<close> whose machine is gone.
\<close>

definition demo_cr :: "string \<Rightarrow> bool \<Rightarrow> snapshot_cr" where
  "demo_cr v missing = (listed_cr demo_backpop demo_pc (demo_file v))\<lparr>cr_Missing := missing\<rparr>"

definition demo_objects :: "snapshot_cr list" where "demo_objects = [demo_cr ''a'' True, demo_cr ''b'' False]"

definition demo_cfg :: config_map where
  "demo_cfg = \<lparr>cf_Namespace = ''kube-system'', cf_Name = ''rke2-etcd-snapshots'', cf_Data = [(''1'', ''a''), (''2'', ''z'')]\<rparr>"

definition demo_handler :: backpop_handler where
  "demo_handler = \<lparr>h_clusterName = ''c-m-1'', h_activeConfigMap = '''', h_v1ClusterName = ''''\<rparr>"

definition demo_actual :: "(string \<times> snapshot_cr) list" where
  "demo_actual = [(''alocal'', demo_cr ''a'' False), (''zs3'', demo_cr ''z'' False)]"

lemma demo_reads: "handler_reads demo_backpop demo_handler demo_cfg w demo_pc demo_actual w"
proof -
  have "cr_Missing (listed_cr demo_backpop demo_pc f) = False" for f by (simp add: listed_cr_def)
  then have "demo_cr v False = listed_cr demo_backpop demo_pc (demo_file v)" for v by (simp add: demo_cr_def)
  then show ?thesis
    by (simp add: handler_reads_def demo_backpop_def libs.defs demo_libs_def demo_cfg_def demo_actual_def configMapToSnapshots_def
        cm_snapshot_def Let_def demo_file_def machine_of_node_def GetMachineFromNode_def file_suffix_def StorageS3_def StorageLocal_def)
qed

lemma demo_cr_parts: "cr_Labels (demo_cr v m) \<noteq> None" "cr_Annotations (demo_cr v m) \<noteq> None" "cr_Missing (demo_cr v m) = m"
  by (simp_all add: demo_cr_def listed_cr_def)

lemma demo_cr_keys:
  "cr_key (demo_cr ''a'' m) = (''fleet-default'', ''c1-a-local'')" "cr_key (demo_cr ''b'' m) = (''fleet-default'', ''c1-b-local'')"
  "cr_key (demo_cr ''z'' m) = (''fleet-default'', ''c1-z-s3'')"
  "snapshotKey (demo_cr ''a'' m) = ''alocal''" "snapshotKey (demo_cr ''b'' m) = ''blocal''" "snapshotKey (demo_cr ''z'' m) = ''zs3''"
proof -
  have key: "cr_key (demo_cr v m) = cr_key (demo_cr v False)" for v by (simp add: demo_cr_def)
  have skey: "snapshotKey (demo_cr v m) = snapshotKey (demo_cr v False)" for v
    by (simp add: demo_cr_def snapshotKey_def storageLocation_def)
  show "cr_key (demo_cr ''a'' m) = (''fleet-default'', ''c1-a-local'')" unfolding key by code_simp
  show "cr_key (demo_cr ''b'' m) = (''fleet-default'', ''c1-b-local'')" unfolding key by code_simp
  show "cr_key (demo_cr ''z'' m) = (''fleet-default'', ''c1-z-s3'')" unfolding key by code_simp
  show "snapshotKey (demo_cr ''a'' m) = ''alocal''" unfolding skey by code_simp
  show "snapshotKey (demo_cr ''b'' m) = ''blocal''" unfolding skey by code_simp
  show "snapshotKey (demo_cr ''z'' m) = ''zs3''" unfolding skey by code_simp
qed

lemma demo_actual_simps:
  "map_of demo_actual ''alocal'' = Some (demo_cr ''a'' False)" "map_of demo_actual ''blocal'' = None"
  "map_of demo_actual ''zs3'' = Some (demo_cr ''z'' False)" "snd ` set demo_actual = {demo_cr ''a'' False, demo_cr ''z'' False}"
  by (simp_all add: demo_actual_def)

lemma demo_cfg_simps: "cf_Namespace demo_cfg = ''kube-system''" "cf_Name demo_cfg \<in> set configMapNames"
  by (simp_all add: demo_cfg_def configMapNames_def)

lemma demo_orphan: "storageLocation (demo_cr ''b'' m) \<noteq> ''s3'' \<and> orphaned demo_backpop demo_pc (demo_cr ''b'' m) w"
  by (simp add: demo_cr_def listed_cr_def demo_file_def file_suffix_def storageLocation_def StorageLocal_def StorageAnnotationKey_def
      SnapshotBackpopulateReconciledKey_def orphaned_def Let_def machine_of_node_def demo_backpop_fields GetMachineFromNode_def
      getn_def gets_def MachineIDLabel_def ClusterNameLabel_def NodeNameLabel_def)

end
