(* ===== verification/Backpopulate_Correct.thy ===== *)
theory Backpopulate_Correct
  imports Backpopulate_Store
begin

text \<open>
  Which snapshot objects the snapshot controller may delete and mark, whatever its calls return,
  and - with the controller of plan secrets - that no snapshot object disappears while the
  downstream cluster still lists it.
\<close>

section \<open>Which objects a pass deletes and marks\<close>

lemma orphaned_cong:
  assumes "\<And>ns sel. b_MachineList E ns sel w' = b_MachineList E ns sel w"
  shows "orphaned E c cr w' = orphaned E c cr w"
  unfolding orphaned_def machine_of_node_def assms by (rule refl)

text \<open>The objects that are not listed, and the ones among them that are deleted.\<close>

definition unlisted :: "(string \<times> snapshot_cr) list \<Rightarrow> snapshot_cr \<Rightarrow> bool" where
  "unlisted actual cr \<longleftrightarrow> map_of actual (snapshotKey cr) = None"

definition deleted :: "('w, 'z) backpop_env_scheme \<Rightarrow> prov_cluster \<Rightarrow> 'w \<Rightarrow> snapshot_cr \<Rightarrow> bool" where
  "deleted E c w cr \<longleftrightarrow> storageLocation cr \<noteq> StorageS3 \<and> orphaned E c cr w"

definition is_missing :: "(string \<times> string \<rightharpoonup> snapshot_cr) \<Rightarrow> string \<times> string \<Rightarrow> bool" where
  "is_missing S k \<longleftrightarrow> (\<exists>cr. S k = Some cr \<and> cr_Missing cr)"

text \<open>How a store may change while the objects \<open>D\<close> may be deleted and the objects \<open>M\<close> marked missing.\<close>

definition store_change :: "(string \<times> string) set \<Rightarrow> (string \<times> string) set \<Rightarrow>
  (string \<times> string \<rightharpoonup> snapshot_cr) \<Rightarrow> (string \<times> string \<rightharpoonup> snapshot_cr) \<Rightarrow> bool" where
  "store_change D M S S' \<longleftrightarrow>
     (\<forall>k. S k \<noteq> None \<and> S' k = None \<longrightarrow> k \<in> D) \<and> (\<forall>k. is_missing S' k \<longrightarrow> is_missing S k \<or> k \<in> M)"

lemma store_change_refl [simp]: "store_change D M S S"
  unfolding store_change_def by blast

lemma store_change_mono: "store_change D M S S' \<Longrightarrow> D \<subseteq> D' \<Longrightarrow> M \<subseteq> M' \<Longrightarrow> store_change D' M' S S'"
  unfolding store_change_def by (meson subsetD)

lemma store_change_trans: "store_change D M S S' \<Longrightarrow> store_change D M S' S'' \<Longrightarrow> store_change D M S S''"
  unfolding store_change_def by metis

lemma store_change_puts [intro]:
  "k \<in> D \<Longrightarrow> store_change D M S (S(k := None))"
  "cr_key cr \<in> M \<or> \<not> cr_Missing cr \<Longrightarrow> store_change D M S (put_status cr S)"
  "store_change D M S (put_object cr S)"
  "store_change D M S (put_new cr S)"
  by (auto simp: store_change_def is_missing_def put_status_def put_object_def put_new_def split: option.splits if_splits)

lemma frame_change:
  assumes "api_frame E store"
  shows "(ns, n) \<in> D \<Longrightarrow> store_change D M (store w) (store (snd (b_Delete E ns n w)))"
    and "cr_key cr \<in> M \<or> \<not> cr_Missing cr \<Longrightarrow> store_change D M (store w) (store (snd (b_UpdateStatus E cr w)))"
    and "store_change D M (store w) (store (snd (b_Update E cr w)))"
    and "store_change D M (store w) (store (snd (b_Create E cr w)))"
proof -
  have one_of: "x \<in> {store w, S} \<Longrightarrow> store_change D M (store w) S \<Longrightarrow> store_change D M (store w) x" for x S by auto
  note f = assms [unfolded api_frame_def]
  show "(ns, n) \<in> D \<Longrightarrow> store_change D M (store w) (store (snd (b_Delete E ns n w)))"
    by (rule one_of [of _ "(store w)((ns, n) := None)"]) (use f in blast, rule store_change_puts)
  show "cr_key cr \<in> M \<or> \<not> cr_Missing cr \<Longrightarrow> store_change D M (store w) (store (snd (b_UpdateStatus E cr w)))"
    by (rule one_of [of _ "put_status cr (store w)"]) (use f in blast, rule store_change_puts)
  show "store_change D M (store w) (store (snd (b_Update E cr w)))"
    by (rule one_of [of _ "put_object cr (store w)"]) (use f in blast, rule store_change_puts)
  show "store_change D M (store w) (store (snd (b_Create E cr w)))"
    by (rule one_of [of _ "put_new cr (store w)"]) (use f in blast, rule store_change_puts)
qed

lemma frame_machines:
  assumes "api_frame E store"
  shows "b_MachineList E ns' sel (snd (b_Delete E ns n w)) = b_MachineList E ns' sel w"
    and "b_MachineList E ns' sel (snd (b_UpdateStatus E cr w)) = b_MachineList E ns' sel w"
  using assms by (simp_all add: api_frame_def)

lemma handle_unlisted_world:
  "handle_unlisted E c cr w = (r, w') \<Longrightarrow>
     w' = (if deleted E c w cr then snd (b_Delete E (cr_Namespace cr) (cr_Name cr) w)
           else snd (b_UpdateStatus E (cr\<lparr>cr_Missing := True\<rparr>) w))"
  by (auto simp: handle_unlisted_def deleted_def delete_orphan_def mark_missing_def split: prod.splits sum.splits if_splits)

lemma handle_unlisted_change:
  assumes "api_frame E store" "handle_unlisted E c cr w = (r, w')"
    and "cr_key cr \<in> M" "deleted E c w cr \<Longrightarrow> cr_key cr \<in> D"
  shows "store_change D M (store w) (store w')" "b_MachineList E ns sel w' = b_MachineList E ns sel w"
  using handle_unlisted_world [OF assms(2)] assms(3,4) frame_machines [OF assms(1)]
  by (auto simp: cr_key_def intro!: frame_change [OF assms(1)])

lemma sift_change:
  assumes "api_frame E store" "sift_objects E c actual crs keep w = (r, w')"
    and "\<And>cr. cr \<in> set crs \<Longrightarrow> unlisted actual cr \<Longrightarrow> cr_key cr \<in> M \<and> (deleted E c w cr \<longrightarrow> cr_key cr \<in> D)"
  shows "store_change D M (store w) (store w')"
  using assms(2,3)
proof (induction crs arbitrary: keep w)
  case (Cons cr crs)
  show ?case
  proof (cases "unlisted actual cr")
    case True
    obtain x w1 where h: "handle_unlisted E c cr w = (x, w1)" by fastforce
    have D: "cr_key cr \<in> M" "deleted E c w cr \<Longrightarrow> cr_key cr \<in> D" using Cons.prems(2) True by auto
    note step = handle_unlisted_change [OF assms(1) h D]
    have same: "deleted E c w1 a = deleted E c w a" for a using orphaned_cong [of E w1 w] step(2) by (simp add: deleted_def)
    show ?thesis
    proof (cases x)
      case (Inr u)
      with Cons.prems True h have "sift_objects E c actual crs keep w1 = (r, w')" by (simp add: unlisted_def bindE_def)
      with Cons.IH [of keep w1] Cons.prems(2) have "store_change D M (store w1) (store w')" by (simp add: same)
      with step(1) show ?thesis by (rule store_change_trans)
    qed (use Cons.prems True h step in \<open>simp add: unlisted_def bindE_def\<close>)
  next
    case False
    with Cons.prems(1) have "sift_objects E c actual crs (keep(snapshotKey cr \<mapsto> cr)) w = (r, w')" by (auto simp: unlisted_def)
    with Cons.IH Cons.prems(2) show ?thesis by simp
  qed
qed simp

lemma clear_missing_change:
  assumes "api_frame E store"
  shows "store_change D M (store w) (store (snd (clear_missing E cr w)))"
  using frame_change(2) [OF assms, of "cr\<lparr>cr_Missing := False\<rparr>" M D w]
  by (auto simp: clear_missing_def split: prod.splits sum.splits)

lemma handle_listed_change:
  assumes "api_frame E store"
  shows "store_change D M (store w) (store (snd (handle_listed E cr listed w)))"
proof -
  have clear: "store_change D M (store w) (store w')" if "clear_missing E a w = (x, w')" for a w x w'
    using clear_missing_change [OF assms, of D M w a] that by simp
  have update: "store_change D M (store w) (store w')" if "b_Update E a w = (x, w')" for a w x w'
    using frame_change(3) [OF assms, of D M w a] that by simp
  show ?thesis
    by (auto simp: handle_listed_def clear_missing_change [OF assms] split: prod.splits sum.splits
        dest: update clear intro: store_change_trans [OF update clear_missing_change [OF assms]])
qed

lemma populate_change:
  assumes "api_frame E store"
  shows "store_change D M (store w) (store (snd (populate E keep actual w)))"
proof (induction actual arbitrary: w)
  case (Cons a actual)
  obtain key listed where a: "a = (key, listed)" by fastforce
  let ?f = "case keep key of Some snapshot \<Rightarrow> handle_listed E snapshot listed | None \<Rightarrow> create_listed_cr E listed"
  obtain x w1 where f: "?f w = (x, w1)" by fastforce
  have "store_change D M (store w) (store (snd (?f w)))"
    using handle_listed_change [OF assms] frame_change(4) [OF assms]
    by (simp add: create_listed_cr_def split: option.split)
  with f have "store_change D M (store w) (store w1)" by simp
  with f Cons.IH [of w1] show ?case by (auto simp: a bindE_def split: sum.split intro: store_change_trans)
qed simp

lemma pass_change:
  assumes "api_frame E store" "backpop_pass E c cfg w = (r, w')"
    and "configMapToSnapshots E cfg c w = Inr actual"
    and "b_SnapshotList E (pc_Namespace c) [(ClusterNameLabel, pc_Name c)] w = Inr crs"
  shows "store_change {cr_key cr |cr. cr \<in> set crs \<and> unlisted actual cr \<and> deleted E c w cr}
           {cr_key cr |cr. cr \<in> set crs \<and> unlisted actual cr} (store w) (store w')" (is "store_change ?D ?M _ _")
proof (cases "b_LabelsParse E (ClusterNameLabel @ ''='' @ pc_Name c)")
  case None
  obtain x w1 where s: "sift_objects E c actual crs Map.empty w = (x, w1)" by fastforce
  have "store_change ?D ?M (store w) (store w1)" by (rule sift_change [OF assms(1) s]) auto
  moreover have "store_change ?D ?M (store w1) (store w')" if "populate E keep (b_RangeSnapshots E actual) w1 = (r, w')" for keep
    using populate_change [OF assms(1), of ?D ?M w1 keep "b_RangeSnapshots E actual"] that by simp
  ultimately show ?thesis using assms(2-4) None s
    by (cases x) (auto simp: backpop_pass_def bindE_def dest: store_change_trans)
qed (use assms in \<open>simp add: backpop_pass_def\<close>)

lemma OnChange_pass:
  assumes "backpop_OnChange E (Some cfg) (h, w) = (r, h', w')"
  shows "w' = w \<or> (\<exists>c x. b_ClusterIndex E (h_clusterName h) w = Inr [c] \<and> backpop_pass E c cfg w = (x, w'))"
  using assms
  by (auto simp: backpop_OnChange_def Let_def split: if_splits sum.splits list.splits prod.splits)

lemma pass_reads:
  assumes "backpop_pass E c cfg w = (r, w')" "w' \<noteq> w"
  shows "\<exists>actual crs. configMapToSnapshots E cfg c w = Inr actual \<and>
    b_SnapshotList E (pc_Namespace c) [(ClusterNameLabel, pc_Name c)] w = Inr crs"
  using assms by (auto simp: backpop_pass_def split: sum.splits option.splits)

lemma OnChange_change:
  assumes "api_frame E store" "backpop_OnChange E (Some cfg) (h, w) = (r, h', w')" "w' \<noteq> w"
  shows "\<exists>c actual crs. handler_reads E h cfg w c actual crs \<and>
    store_change {cr_key cr |cr. cr \<in> set crs \<and> unlisted actual cr \<and> deleted E c w cr}
      {cr_key cr |cr. cr \<in> set crs \<and> unlisted actual cr} (store w) (store w')"
proof -
  from OnChange_pass [OF assms(2)] assms(3) obtain c x where c: "b_ClusterIndex E (h_clusterName h) w = Inr [c]"
    and p: "backpop_pass E c cfg w = (x, w')" by blast
  from pass_reads [OF p assms(3)] obtain actual crs where r: "configMapToSnapshots E cfg c w = Inr actual"
    "b_SnapshotList E (pc_Namespace c) [(ClusterNameLabel, pc_Name c)] w = Inr crs" by blast
  have "handler_reads E h cfg w c actual crs" using c r by (simp add: handler_reads_def)
  with pass_change [OF assms(1) p r] show ?thesis by blast
qed

text \<open>The machine of a snapshot is gone: a list of machines was read, and has none for it.\<close>

definition machine_gone :: "('w, 'z) backpop_env_scheme \<Rightarrow> prov_cluster \<Rightarrow> snapshot_cr \<Rightarrow> 'w \<Rightarrow> bool" where
  "machine_gone E c cr w \<longleftrightarrow>
     (if getn (cr_Labels cr) MachineIDLabel = ''''
      then \<exists>ms. b_MachineList E (pc_Namespace c) [(CAPIClusterNameLabel, pc_Name c)] w = Inr ms \<and>
             (\<forall>m\<in>set ms. m_NodeRef m \<noteq> Some (ef_NodeName (cr_SnapshotFile cr)))
      else b_MachineList E (pc_Namespace c)
             [(ClusterNameLabel, pc_Name c), (MachineIDLabel, getn (cr_Labels cr) MachineIDLabel)] w = Inr [])"

lemma orphaned_gone: "orphaned E c cr w \<Longrightarrow> machine_gone E c cr w"
  by (auto simp: orphaned_def machine_gone_def machine_of_node_def Let_def GetMachineByID_def GetMachineFromNode_def find_None_iff
      split: if_splits sum.splits option.splits list.splits)

text \<open>
  C22. The snapshot controller deletes orphans only: whatever its calls return, an object that
  is gone after a run of the handler is one of the objects of its cache that the config map
  does not list, is not in S3, and belongs to a machine that is not in a list of the
  cluster's machines which was read without an error.
\<close>

theorem backpopulate_deletes_orphans:
  assumes "api_frame E store" "backpop_OnChange E (Some cfg) (h, w) = (r, h', w')"
    and "store w k \<noteq> None" "store w' k = None"
  shows "\<exists>c actual crs cr. handler_reads E h cfg w c actual crs \<and> cr \<in> set crs \<and> cr_key cr = k \<and>
    snapshotKey cr \<notin> fst ` set actual \<and> storageLocation cr \<noteq> ''s3'' \<and> machine_gone E c cr w"
proof -
  from assms(3,4) have "w' \<noteq> w" by auto
  from OnChange_change [OF assms(1,2) this] obtain c actual crs where r: "handler_reads E h cfg w c actual crs"
    and "store_change {cr_key cr |cr. cr \<in> set crs \<and> unlisted actual cr \<and> deleted E c w cr}
      {cr_key cr |cr. cr \<in> set crs \<and> unlisted actual cr} (store w) (store w')" by blast
  with assms(3,4) obtain cr where "cr \<in> set crs" "cr_key cr = k" "unlisted actual cr" "deleted E c w cr"
    unfolding store_change_def by blast
  with r have "handler_reads E h cfg w c actual crs \<and> cr \<in> set crs \<and> cr_key cr = k \<and>
    snapshotKey cr \<notin> fst ` set actual \<and> storageLocation cr \<noteq> ''s3'' \<and> machine_gone E c cr w"
    by (simp add: deleted_def unlisted_def StorageS3_def map_of_eq_None_iff orphaned_gone)
  then show ?thesis by blast
qed

section \<open>With the controller of plan secrets\<close>

definition es_key :: "snapshot_object \<Rightarrow> string \<times> string" where
  "es_key v = (es_Namespace v, es_Name v)"

text \<open>
  The clients of the other controller on the same objects: its deletes and creates have their
  effect or none, and its writes of secrets and machines leave snapshots alone.
\<close>

definition plan_frame :: "('w, 'z) plansecret_env_scheme \<Rightarrow> 'w snapshot_store \<Rightarrow> bool" where
  "plan_frame P store \<longleftrightarrow>
     (\<forall>ns n w. store (snd (p_SnapshotDelete P ns n w)) \<in> {store w, (store w)((ns, n) := None)}) \<and>
     (\<forall>v w. \<exists>cr. store (snd (p_SnapshotCreate P v w)) \<in> {store w, put_new cr (store w)}) \<and>
     (\<forall>sec w. store (snd (e_SecretUpdate P sec w)) = store w) \<and> (\<forall>m w. store (snd (p_UpdateStatus P m w)) = store w)"

text \<open>Its cache shows an object as missing only if it is one of \<open>X\<close>.\<close>

definition cache_shows :: "('w, 'z) plansecret_env_scheme \<Rightarrow> (string \<times> string) set \<Rightarrow> bool" where
  "cache_shows P X \<longleftrightarrow> (\<forall>ns sel w vs. p_SnapshotList P ns sel w = Inr vs \<longrightarrow> (\<forall>v\<in>set vs. es_Missing v \<longrightarrow> es_key v \<in> X))"

lemma plan_delete_change:
  assumes "plan_frame P store" "(ns, n) \<in> X" "p_SnapshotDelete P ns n w = (r, w')"
  shows "store_change X {} (store w) (store w')"
proof -
  have "store (snd (p_SnapshotDelete P ns n w)) \<in> {store w, (store w)((ns, n) := None)}"
    using assms(1) unfolding plan_frame_def by blast
  with assms(2,3) show ?thesis by auto
qed

lemma plan_create_change:
  assumes "plan_frame P store" "p_SnapshotCreate P v w = (r, w')"
  shows "store_change X {} (store w) (store w')"
proof -
  obtain cr where "store (snd (p_SnapshotCreate P v w)) \<in> {store w, put_new cr (store w)}"
    using assms(1) unfolding plan_frame_def by blast
  with assms(2) show ?thesis by auto
qed

lemma delete_missing_change:
  assumes "plan_frame P store" "delete_missing P onNode vs w = (r, w')"
    and "\<And>v. v \<in> set vs \<Longrightarrow> es_Missing v \<Longrightarrow> es_key v \<in> X"
  shows "store_change X {} (store w) (store w')"
  using assms(2,3)
proof (induction vs arbitrary: w)
  case (Cons v vs)
  show ?case
  proof (cases "map_of onNode (es_Name v) = None \<and> es_Missing v")
    case True
    obtain x w1 where d: "p_SnapshotDelete P (es_Namespace v) (es_Name v) w = (x, w1)" by fastforce
    have "store_change X {} (store w) (store w1)"
      using plan_delete_change [OF assms(1) _ d] Cons.prems(2) [of v] True by (simp add: es_key_def)
    with True d Cons show ?thesis by (cases x) (auto simp: bindE_def intro: store_change_trans)
  qed (use Cons in auto)
qed simp

lemma create_listed_change:
  assumes "plan_frame P store" "create_listed P mk indexed vs w = (r, w')"
  shows "store_change X {} (store w) (store w')"
  using assms(2)
proof (induction vs arbitrary: w)
  case (Cons a vs)
  obtain k v where a: "a = (k, v)" by fastforce
  obtain x w1 where c: "p_SnapshotCreate P (mk v) w = (x, w1)" by fastforce
  with plan_create_change [OF assms(1) c, of X] Cons show ?case
    by (auto simp: a split: if_splits sum.splits intro: store_change_trans)
qed simp

lemma reconcile_list_change:
  assumes "plan_frame P store" "cache_shows P X"
  shows "store_change X {} (store w) (store (snd (reconcileEtcdSnapshotList P sec s3 out w)))"
proof -
  obtain r w' where run: "reconcileEtcdSnapshotList P sec s3 out w = (r, w')" by fastforce
  consider "w' = w" | x w1 vs where "p_SnapshotList P (s_Namespace sec) x w = Inr vs"
      "delete_missing P (outputToEtcdSnapshots (gets (s_Labels sec) ClusterNameLabel) out) vs w = (r, w')"
    | (both) x w1 vs u mk ix range where "p_SnapshotList P (s_Namespace sec) x w = Inr vs"
      "delete_missing P (outputToEtcdSnapshots (gets (s_Labels sec) ClusterNameLabel) out) vs w = (Inr u, w1)"
      "create_listed P mk ix range w1 = (r, w')"
    using run
    by (auto simp: reconcileEtcdSnapshotList_def Let_def bindE_def
        split: if_splits option.splits sum.splits prod.splits)
  then show ?thesis
  proof cases
    case both
    with delete_missing_change [OF assms(1) both(2), of X] create_listed_change [OF assms(1) both(3), of X] assms(2) run
    show ?thesis by (auto simp: cache_shows_def intro: store_change_trans)
  qed (use run delete_missing_change [OF assms(1), of _ _ w r w' X] assms(2) in \<open>auto simp: cache_shows_def\<close>)
qed

lemma reconcile_output_change:
  assumes "plan_frame P store" "cache_shows P X"
  shows "store_change X {} (store w) (store (reconcile_output P sec s3 out w))"
  using reconcile_list_change [OF assms] by (simp add: reconcile_output_def split: option.split)

lemma update_and_report_store:
  assumes "plan_frame P store" "update_and_report P sec c f w = (r, w')"
  shows "store w' = store w"
proof -
  have s: "store v' = store v" if "e_SecretUpdate P a v = (x, v')" for a v x v'
    using assms(1) that unfolding plan_frame_def by (metis snd_conv)
  have m: "store v' = store v" if "p_UpdateStatus P a v = (x, v')" for a v x v'
    using assms(1) that unfolding plan_frame_def by (metis snd_conv)
  have "store v' = store v" if "reconcileMachinePlanAppliedCondition P a e v = (x, v')" for a e v x v'
    using that by (auto simp: reconcileMachinePlanAppliedCondition_def Let_def dest: m
        split: option.splits sum.splits if_splits bool.splits)
  with assms(2) s show ?thesis
    by (auto simp: update_and_report_def split: if_splits sum.splits prod.splits)
qed

lemma plansecret_change:
  assumes "plan_frame P store" "cache_shows P X" "plansecret_OnChange P (Some ev) w = (r, w')"
  shows "store_change X {} (store w) (store w')"
proof -
  note out = reconcile_output_change [OF assms(1,2)]
  note two = store_change_trans [OF out out]
  show ?thesis using assms(3)
    by (auto simp: plansecret_OnChange_def Let_def out two dest!: update_and_report_store [OF assms(1)]
        split: if_split_asm sum.splits option.splits prod.splits)
qed

text \<open>
  A history of the snapshot objects under both controllers, each event with the caches of its
  moment. \<open>A\<close> collects the objects that some run of the snapshot controller found absent from
  the config map, \<open>X\<close> those that have ever been marked missing - a cache may lag, but shows
  what once was -, \<open>G\<close> those a controller has deleted. Others may change objects, but
  do not mark them.
\<close>

definition absent_keys :: "'w backpop_env \<Rightarrow> backpop_handler \<Rightarrow> config_map \<Rightarrow> 'w \<Rightarrow> (string \<times> string) set" where
  "absent_keys E h cfg w =
     {cr_key cr |cr. \<exists>c actual crs. handler_reads E h cfg w c actual crs \<and> cr \<in> set crs \<and> snapshotKey cr \<notin> fst ` set actual}"

definition gone :: "'w snapshot_store \<Rightarrow> 'w \<Rightarrow> 'w \<Rightarrow> (string \<times> string) set" where
  "gone store w w' = {k. store w k \<noteq> None \<and> store w' k = None}"

definition marked :: "'w snapshot_store \<Rightarrow> 'w \<Rightarrow> (string \<times> string) set" where
  "marked store w = {k. is_missing (store w) k}"

inductive history :: "'w snapshot_store \<Rightarrow> 'w \<Rightarrow> (string \<times> string) set \<Rightarrow> (string \<times> string) set \<Rightarrow> (string \<times> string) set \<Rightarrow> bool"
  for store where
  start: "marked store w = {} \<Longrightarrow> history store w {} {} {}"
| backpopulate: "history store w A X G \<Longrightarrow> api_frame E store \<Longrightarrow> backpop_OnChange E (Some cfg) (h, w) = (r, h', w') \<Longrightarrow>
    history store w' (A \<union> absent_keys E h cfg w) (X \<union> marked store w') (G \<union> gone store w w')"
| plan_secret: "history store w A X G \<Longrightarrow> plan_frame P store \<Longrightarrow> cache_shows P X \<Longrightarrow>
    plansecret_OnChange (P :: 'w plansecret_env) (Some ev) w = (r, w') \<Longrightarrow>
    history store w' A (X \<union> marked store w') (G \<union> gone store w w')"
| others: "history store w A X G \<Longrightarrow> store_change UNIV {} (store w) (store w') \<Longrightarrow> history store w' A (X \<union> marked store w') G"

lemma change_marks: "store_change D M (store w) (store w') \<Longrightarrow> marked store w' \<subseteq> marked store w \<union> M"
  by (auto simp: store_change_def marked_def)

lemma change_gone: "store_change D M (store w) (store w') \<Longrightarrow> gone store w w' \<subseteq> D"
  by (auto simp: store_change_def gone_def)

lemma backpop_absent:
  assumes "api_frame E store" "backpop_OnChange E (Some cfg) (h, w) = (r, h', w')"
  shows "store_change (absent_keys E h cfg w) (absent_keys E h cfg w) (store w) (store w')"
proof (cases "w' = w")
  case False
  from OnChange_change [OF assms False] obtain c actual crs where r: "handler_reads E h cfg w c actual crs"
    and ch: "store_change {cr_key cr |cr. cr \<in> set crs \<and> unlisted actual cr \<and> deleted E c w cr}
      {cr_key cr |cr. cr \<in> set crs \<and> unlisted actual cr} (store w) (store w')" by blast
  have "cr_key cr \<in> absent_keys E h cfg w" if "cr \<in> set crs" "unlisted actual cr" for cr
    unfolding absent_keys_def using r that by (auto simp: unlisted_def map_of_eq_None_iff)
  then show ?thesis by (intro store_change_mono [OF ch]) auto
qed simp

lemma history_invariant:
  "history store w A X G \<Longrightarrow> marked store w \<subseteq> X \<and> X \<subseteq> A \<and> G \<subseteq> A"
proof (induction rule: history.induct)
  case (backpopulate w A X G E cfg h r h' w')
  note ch = backpop_absent [OF backpopulate.hyps(2,3)]
  from change_marks [OF ch] change_gone [OF ch] backpopulate.IH show ?case by blast
next
  case (plan_secret w A X G P ev r w')
  note ch = plansecret_change [OF plan_secret.hyps(2-4)]
  from change_marks [OF ch] change_gone [OF ch] plan_secret.IH show ?case by blast
next
  case (others w A X G w')
  from change_marks [OF others.hyps(2)] others.IH show ?case by blast
qed simp

text \<open>
  C19. No snapshot object disappears that was never found missing downstream: along every
  history of runs of the snapshot controller and of the controller of plan secrets in any
  order, with calls that may fail and caches that may lag, every object that one of them
  has deleted had before been found, in a run of the snapshot controller, to be absent from
  the config map.
\<close>

theorem listed_snapshots_survive:
  assumes "history store w A X G" "k \<in> G"
  shows "k \<in> A"
  using history_invariant [OF assms(1)] assms(2) by blast

section \<open>A concrete history\<close>

theorem backpopulate_deletes_orphans_witness:
  "\<exists>cr\<in>set demo_objects. cr_key cr = (''fleet-default'', ''c1-b-local'') \<and> storageLocation cr \<noteq> ''s3'' \<and> machine_gone demo_backpop demo_pc cr demo_objects"
proof -
  define k where "k = (''fleet-default'', ''c1-b-local'')"
  obtain r h' w' where run: "backpop_OnChange demo_backpop (Some demo_cfg) (demo_handler, demo_objects) = (r, h', w')"
    by (metis prod.exhaust)
  have "case mem_store demo_objects (''fleet-default'', ''c1-b-local'') of None \<Rightarrow> False | Some _ \<Rightarrow> True" by code_simp
  then have before: "mem_store demo_objects k \<noteq> None" by (simp add: k_def split: option.splits)
  have "case mem_store (snd (snd (backpop_OnChange demo_backpop (Some demo_cfg) (demo_handler, demo_objects)))) (''fleet-default'', ''c1-b-local'') of
      None \<Rightarrow> True | Some _ \<Rightarrow> False" by code_simp
  then have after: "mem_store w' k = None" by (simp add: run k_def split: option.splits)
  from backpopulate_deletes_orphans [OF demo_api(1) run before after] obtain c actual crs cr where
    "handler_reads demo_backpop demo_handler demo_cfg demo_objects c actual crs" "cr \<in> set crs" "cr_key cr = k"
    "storageLocation cr \<noteq> ''s3''" "machine_gone demo_backpop c cr demo_objects" by blast
  moreover from this(1) have "c = demo_pc" "crs = demo_objects" by (simp_all add: handler_reads_def demo_backpop_fields)
  ultimately show ?thesis unfolding k_def by blast
qed

theorem listed_snapshots_survive_witness:
  "(''fleet-default'', ''c1-b-local'') \<in> absent_keys demo_backpop demo_handler demo_cfg [demo_cr ''a'' False, demo_cr ''b'' False]"
proof -
  let ?w = "[demo_cr ''a'' False, demo_cr ''b'' False]"
  obtain r h' w' where run: "backpop_OnChange demo_backpop (Some demo_cfg) (demo_handler, ?w) = (r, h', w')" by (metis prod.exhaust)
  have "case mem_store (snd (snd (backpop_OnChange demo_backpop (Some demo_cfg) (demo_handler, ?w)))) (''fleet-default'', ''c1-b-local'') of
      None \<Rightarrow> True | Some _ \<Rightarrow> False" by code_simp
  then have "mem_store w' (''fleet-default'', ''c1-b-local'') = None" by (simp add: run split: option.splits)
  then have gone: "(''fleet-default'', ''c1-b-local'') \<in> {} \<union> gone mem_store ?w w'"
    by (simp add: gone_def mem_store_def demo_cr_keys)
  have "marked mem_store ?w = {}" by (auto simp: marked_def is_missing_def mem_store_def demo_cr_parts split: if_splits)
  from listed_snapshots_survive [OF history.backpopulate [OF history.start [OF this] demo_api(1) run] gone] show ?thesis by simp
qed

end
