(* ===== verification/Backpopulate_Pass.thy ===== *)
theory Backpopulate_Pass
  imports Backpopulate_Correct
begin

text \<open>
  The state that one run of the snapshot controller leaves, over a current cache and on an API
  server that accepts its calls, and that a further run changes nothing. With it the two
  inputs on which the handler stops.
\<close>

section \<open>Reconciling one object\<close>

text \<open>The keys the list has a value for have one.\<close>

definition filled :: "smap option \<Rightarrow> smap option \<Rightarrow> string list \<Rightarrow> bool" where
  "filled input new keys \<longleftrightarrow> (\<forall>key\<in>set keys. getn new key \<noteq> '''' \<longrightarrow> getn input key \<noteq> '''')"

text \<open>An object in step with its entry: it has the entry's file, metadata and message apart where the entry has none.\<close>

definition in_step :: "snapshot_cr \<Rightarrow> snapshot_cr \<Rightarrow> bool" where
  "in_step cr listed \<longleftrightarrow>
     (let f = cr_SnapshotFile cr; g = cr_SnapshotFile listed in
      f = g\<lparr>ef_Metadata := if ef_Metadata g = '''' then ef_Metadata f else ef_Metadata g,
            ef_Message := if ef_Message g = '''' then ef_Message f else ef_Message g\<rparr>) \<and>
     cr_ClusterName cr = cr_ClusterName listed \<and>
     filled (cr_Labels cr) (cr_Labels listed) [ClusterNameLabel, NodeNameLabel, MachineIDLabel] \<and>
     filled (cr_Annotations cr) (cr_Annotations listed) [SnapshotNameKey, StorageAnnotationKey, SnapshotBackpopulateReconciledKey]"

lemma merge_file_eq:
  "merge_file f g = g\<lparr>ef_Metadata := if ef_Metadata g = '''' then ef_Metadata f else ef_Metadata g,
     ef_Message := if ef_Message g = '''' then ef_Message f else ef_Message g\<rparr>"
  by (cases g) (simp add: merge_file_def Let_def)

lemma in_step_file: "in_step cr listed \<Longrightarrow> merge_file (cr_SnapshotFile cr) (cr_SnapshotFile listed) = cr_SnapshotFile cr"
  unfolding in_step_def merge_file_eq Let_def by (elim conjE) (rule sym)

lemma in_step_missing [simp]: "in_step (s\<lparr>cr_Missing := b\<rparr>) listed = in_step s listed"
  by (simp add: in_step_def)

lemma in_step_parts:
  "in_step cr listed \<Longrightarrow> cr_ClusterName cr = cr_ClusterName listed \<and>
     filled (cr_Labels cr) (cr_Labels listed) [ClusterNameLabel, NodeNameLabel, MachineIDLabel] \<and>
     filled (cr_Annotations cr) (cr_Annotations listed) [SnapshotNameKey, StorageAnnotationKey, SnapshotBackpopulateReconciledKey]"
  unfolding in_step_def by blast

lemma reconcileStringMaps_filled: "filled input new keys \<Longrightarrow> reconcileStringMaps input new keys = Inr (input, False)"
  by (induction keys) (auto simp: filled_def)

lemma getn_upd: "getn (Some (m(k \<mapsto> v))) x = (if x = k then v else getn (Some m) x)"
  by (simp add: getn_def gets_def)

lemma reconcileStringMaps_fills:
  "\<exists>m' u. reconcileStringMaps (Some m) new keys = Inr (Some m', u) \<and> filled (Some m') new keys \<and> (\<not> u \<longrightarrow> m' = m) \<and>
     (\<forall>k. getn (Some m) k \<noteq> '''' \<longrightarrow> getn (Some m') k = getn (Some m) k)"
proof (induction keys arbitrary: m)
  case (Cons key keys)
  show ?case
  proof (cases "getn (Some m) key = '''' \<and> getn new key \<noteq> ''''")
    case True
    from Cons [of "m(key \<mapsto> getn new key)"] obtain m' u where
      m': "reconcileStringMaps (Some (m(key \<mapsto> getn new key))) new keys = Inr (Some m', u)" "filled (Some m') new keys"
      "\<forall>k. getn (Some (m(key \<mapsto> getn new key))) k \<noteq> '''' \<longrightarrow> getn (Some m') k = getn (Some (m(key \<mapsto> getn new key))) k"
      by blast
    from m'(3) True have "getn (Some m') key \<noteq> ''''" "\<forall>k. getn (Some m) k \<noteq> '''' \<longrightarrow> getn (Some m') k = getn (Some m) k"
      by (auto simp: getn_upd)
    with m'(1,2) True show ?thesis by (auto simp: filled_def)
  next
    case False
    from Cons [of m] obtain m' u where
      m': "reconcileStringMaps (Some m) new keys = Inr (Some m', u)" "filled (Some m') new keys" "\<not> u \<longrightarrow> m' = m"
      "\<forall>k. getn (Some m) k \<noteq> '''' \<longrightarrow> getn (Some m') k = getn (Some m) k" by blast
    have "reconcileStringMaps (Some m) new (key # keys) = Inr (Some m', u)" using False m'(1) by auto
    moreover have "filled (Some m') new (key # keys)" using False m'(2,4) by (auto simp: filled_def)
    ultimately show ?thesis using m'(3,4) by blast
  qed
qed (auto simp: filled_def)

declare reconcileStringMaps.simps(2) [simp del]

lemma reconcile_in_step: "in_step cr listed \<Longrightarrow> reconcile_snapshot cr listed = Inr (cr, False)"
  using in_step_file [of cr listed] in_step_parts [of cr listed]
  by (simp add: reconcile_snapshot_def reconcileStringMaps_filled Let_def)

lemma reconcile_succeeds:
  assumes "cr_Labels cr = Some l" "cr_Annotations cr = Some a"
  shows "\<exists>s u. reconcile_snapshot cr listed = Inr (s, u) \<and> in_step s listed \<and> cr_key s = cr_key cr \<and>
    cr_Missing s = cr_Missing cr \<and> (\<not> u \<longrightarrow> s = cr)"
proof -
  let ?L = "[ClusterNameLabel, NodeNameLabel, MachineIDLabel]"
  let ?A = "[SnapshotNameKey, StorageAnnotationKey, SnapshotBackpopulateReconciledKey]"
  obtain l' u3 where l: "reconcileStringMaps (Some l) (cr_Labels listed) ?L = Inr (Some l', u3)"
    "filled (Some l') (cr_Labels listed) ?L" "\<not> u3 \<longrightarrow> l' = l" using reconcileStringMaps_fills by blast
  obtain a' u4 where a: "reconcileStringMaps (Some a) (cr_Annotations listed) ?A = Inr (Some a', u4)"
    "filled (Some a') (cr_Annotations listed) ?A" "\<not> u4 \<longrightarrow> a' = a" using reconcileStringMaps_fills by blast
  let ?f = "merge_file (cr_SnapshotFile cr) (cr_SnapshotFile listed)"
  let ?s = "cr\<lparr>cr_SnapshotFile := ?f, cr_ClusterName := cr_ClusterName listed, cr_Labels := Some l', cr_Annotations := Some a'\<rparr>"
  have same: "cr_SnapshotFile cr = cr_SnapshotFile listed \<Longrightarrow> ?f = cr_SnapshotFile cr" by (simp add: merge_file_eq)
  have "reconcile_snapshot cr listed =
      Inr (?s, ?f \<noteq> cr_SnapshotFile cr \<or> cr_ClusterName cr \<noteq> cr_ClusterName listed \<or> u3 \<or> u4)"
    using l(1) a(1) assms same by (cases cr) (auto simp: reconcile_snapshot_def Let_def)
  moreover have "in_step ?s listed" using l(2) a(2) by (simp add: in_step_def Let_def merge_file_eq)
  ultimately show ?thesis using l(3) a(3) assms by (cases cr) (auto simp: cr_key_def)
qed

text \<open>A snapshot object without annotations stops the handler: it assigns to an entry of a nil map.\<close>

theorem nil_annotations_panic:
  assumes "cr_Annotations cr = None" "cr_Labels cr = Some l" "getn (cr_Annotations listed) StorageAnnotationKey \<noteq> ''''"
  shows "handle_listed E cr listed w = (Inl (GoPanic ''assignment to entry in nil map''), w)"
proof -
  obtain l' u where "reconcileStringMaps (Some l) (cr_Labels listed) [ClusterNameLabel, NodeNameLabel, MachineIDLabel] = Inr (Some l', u)"
    using reconcileStringMaps_fills by blast
  moreover have "reconcileStringMaps None (cr_Annotations listed) [SnapshotNameKey, StorageAnnotationKey, SnapshotBackpopulateReconciledKey] =
      Inl (GoPanic ''assignment to entry in nil map'')"
    using assms(3) by (simp add: reconcileStringMaps.simps(2) getn_def [of None])
  ultimately show ?thesis using assms(1,2) by (simp add: handle_listed_def reconcile_snapshot_def Let_def)
qed

text \<open>A list of machines that fails stops it as well: the last branch for a local snapshot reads a machine it does not have.\<close>

theorem failed_machine_list_panics:
  assumes "sf_S3 file = None" "b_MachineList E (pc_Namespace c) [(CAPIClusterNameLabel, pc_Name c)] w = Inl e"
  shows "cm_snapshot E c file w = Inl (GoPanic ''nil machine'')"
  using assms by (simp add: cm_snapshot_def machine_of_node_def GetMachineFromNode_def Let_def split: option.split)

section \<open>One pass\<close>

lemma accepts_calls:
  assumes "api_accepts E store"
  shows "store w (ns, n) \<noteq> None \<Longrightarrow> \<exists>w'. b_Delete E ns n w = (Inr (), w') \<and> store w' = (store w)((ns, n) := None)"
    and "store w (cr_key cr) = Some old \<Longrightarrow> \<exists>w'. b_UpdateStatus E cr w = (Inr (old\<lparr>cr_Missing := cr_Missing cr\<rparr>), w') \<and>
           store w' = (store w)(cr_key cr \<mapsto> old\<lparr>cr_Missing := cr_Missing cr\<rparr>)"
    and "store w (cr_key cr) = Some old \<Longrightarrow> \<exists>w'. b_Update E cr w = (Inr (cr\<lparr>cr_Missing := cr_Missing old\<rparr>), w') \<and>
           store w' = (store w)(cr_key cr \<mapsto> cr\<lparr>cr_Missing := cr_Missing old\<rparr>)"
    and "store (snd (b_Create E cr w)) = put_new cr (store w)"
  using assms by (auto simp: api_accepts_def put_same)

lemma handle_unlisted_accepts:
  assumes "api_accepts E store" "store w (cr_key cr) = Some cr"
  shows "\<exists>w'. handle_unlisted E c cr w = (Inr (), w') \<and>
    store w' = (store w)(cr_key cr := if deleted E c w cr then None else Some (cr\<lparr>cr_Missing := True\<rparr>))"
proof (cases "deleted E c w cr")
  case True
  from accepts_calls(1) [OF assms(1), of w "cr_Namespace cr" "cr_Name cr"] assms(2) obtain w' where
    "b_Delete E (cr_Namespace cr) (cr_Name cr) w = (Inr (), w')" "store w' = (store w)(cr_key cr := None)" by (auto simp: cr_key_def)
  with True show ?thesis by (simp add: handle_unlisted_def deleted_def delete_orphan_def)
next
  case False
  from accepts_calls(2) [OF assms(1), of w "cr\<lparr>cr_Missing := True\<rparr>" cr] assms(2) obtain w' x where
    "b_UpdateStatus E (cr\<lparr>cr_Missing := True\<rparr>) w = (Inr x, w')" "store w' = (store w)(cr_key cr \<mapsto> cr\<lparr>cr_Missing := True\<rparr>)" by auto
  with False show ?thesis by (auto simp: handle_unlisted_def deleted_def mark_missing_def)
qed

lemma clear_missing_accepts:
  assumes "api_accepts E store" "store w (cr_key cr) = Some cr"
  shows "\<exists>w'. clear_missing E cr w = (Inr (), w') \<and> store w' = (store w)(cr_key cr \<mapsto> cr\<lparr>cr_Missing := False\<rparr>)"
proof (cases "cr_Missing cr")
  case True
  from accepts_calls(2) [OF assms(1), of w "cr\<lparr>cr_Missing := False\<rparr>" cr] assms(2) obtain w' x where
    "b_UpdateStatus E (cr\<lparr>cr_Missing := False\<rparr>) w = (Inr x, w')" "store w' = (store w)(cr_key cr \<mapsto> cr\<lparr>cr_Missing := False\<rparr>)" by auto
  with True show ?thesis by (simp add: clear_missing_def)
next
  case False
  then have "cr\<lparr>cr_Missing := False\<rparr> = cr" by simp
  with False assms(2) show ?thesis by (auto simp: clear_missing_def fun_upd_idem)
qed

lemma handle_listed_accepts:
  assumes "api_accepts E store" "store w (cr_key cr) = Some cr" "cr_Labels cr \<noteq> None" "cr_Annotations cr \<noteq> None"
  shows "\<exists>w' s. handle_listed E cr listed w = (Inr (), w') \<and> in_step s listed \<and> \<not> cr_Missing s \<and>
    store w' = (store w)(cr_key cr \<mapsto> s)"
proof -
  from assms(3,4) obtain l a where "cr_Labels cr = Some l" "cr_Annotations cr = Some a" by blast
  from reconcile_succeeds [OF this, of listed] obtain s u where
    r: "reconcile_snapshot cr listed = Inr (s, u)" and s: "in_step s listed" "cr_key s = cr_key cr" "cr_Missing s = cr_Missing cr"
    and u: "\<not> u \<Longrightarrow> s = cr" by blast
  have st: "in_step (s\<lparr>cr_Missing := False\<rparr>) listed" "\<not> cr_Missing (s\<lparr>cr_Missing := False\<rparr>)" using s(1) by simp_all
  have same: "s\<lparr>cr_Missing := cr_Missing cr\<rparr> = s" using s(3) by (cases s) simp
  show ?thesis
  proof (cases u)
    case True
    from accepts_calls(3) [OF assms(1), of w s cr] assms(2) s(2) same obtain w1 where
      w1: "b_Update E s w = (Inr s, w1)" "store w1 = (store w)(cr_key cr \<mapsto> s)" by auto
    with clear_missing_accepts [OF assms(1), of w1 s] s(2) obtain w' where
      "clear_missing E s w1 = (Inr (), w')" "store w' = (store w)(cr_key cr \<mapsto> s\<lparr>cr_Missing := False\<rparr>)" by auto
    moreover from this(1) r True w1(1) have "handle_listed E cr listed w = (Inr (), w')" by (simp add: handle_listed_def)
    ultimately show ?thesis using st by blast
  next
    case False
    from clear_missing_accepts [OF assms(1,2)] obtain w' where
      w': "clear_missing E cr w = (Inr (), w')" "store w' = (store w)(cr_key cr \<mapsto> cr\<lparr>cr_Missing := False\<rparr>)" by blast
    from w'(1) r False u [OF False] have "handle_listed E cr listed w = (Inr (), w')" by (simp add: handle_listed_def)
    with w'(2) st u [OF False] show ?thesis by blast
  qed
qed

text \<open>The first loop on a current cache.\<close>

definition current :: "'w snapshot_store \<Rightarrow> 'w \<Rightarrow> snapshot_cr list \<Rightarrow> bool" where
  "current store w crs \<longleftrightarrow> distinct (map cr_key crs) \<and> (\<forall>cr\<in>set crs. store w (cr_key cr) = Some cr)"

fun kept :: "(string \<times> snapshot_cr) list \<Rightarrow> snapshot_cr list \<Rightarrow> (string \<rightharpoonup> snapshot_cr) \<Rightarrow> (string \<rightharpoonup> snapshot_cr)" where
  "kept actual [] keep = keep"
| "kept actual (cr # crs) keep = kept actual crs (if unlisted actual cr then keep else keep(snapshotKey cr \<mapsto> cr))"

definition fate :: "('w, 'z) backpop_env_scheme \<Rightarrow> prov_cluster \<Rightarrow> 'w \<Rightarrow> snapshot_cr \<Rightarrow> snapshot_cr option" where
  "fate E c w cr = (if deleted E c w cr then None else Some (cr\<lparr>cr_Missing := True\<rparr>))"

lemma sift_accepts:
  assumes "api_accepts E store" "api_frame E store" "current store w crs"
  shows "\<exists>w'. sift_objects E c actual crs keep w = (Inr (kept actual crs keep), w') \<and>
    (\<forall>cr\<in>set crs. unlisted actual cr \<longrightarrow> store w' (cr_key cr) = fate E c w cr) \<and>
    (\<forall>k. k \<notin> cr_key ` {cr \<in> set crs. unlisted actual cr} \<longrightarrow> store w' k = store w k)"
  using assms(3)
proof (induction crs arbitrary: keep w)
  case (Cons cr crs)
  have cur: "store w (cr_key cr) = Some cr" "current store w crs" "cr_key cr \<notin> cr_key ` set crs"
    using Cons.prems by (auto simp: current_def)
  show ?case
  proof (cases "unlisted actual cr")
    case False
    then have step: "sift_objects E c actual (cr # crs) keep w = sift_objects E c actual crs (keep(snapshotKey cr \<mapsto> cr)) w"
      "kept actual (cr # crs) keep = kept actual crs (keep(snapshotKey cr \<mapsto> cr))"
      "{a \<in> set (cr # crs). unlisted actual a} = {a \<in> set crs. unlisted actual a}" by (auto simp: unlisted_def)
    from Cons.IH [OF cur(2), of "keep(snapshotKey cr \<mapsto> cr)"] obtain w' where
      w': "sift_objects E c actual crs (keep(snapshotKey cr \<mapsto> cr)) w = (Inr (kept actual crs (keep(snapshotKey cr \<mapsto> cr))), w')"
      "\<forall>cr\<in>set crs. unlisted actual cr \<longrightarrow> store w' (cr_key cr) = fate E c w cr"
      "\<forall>k. k \<notin> cr_key ` {cr \<in> set crs. unlisted actual cr} \<longrightarrow> store w' k = store w k" by blast
    moreover have "\<forall>a\<in>set (cr # crs). unlisted actual a \<longrightarrow> store w' (cr_key a) = fate E c w a" using w'(2) False by simp
    ultimately show ?thesis unfolding step by blast
  next
    case True
    from handle_unlisted_accepts [OF assms(1) cur(1), of c] obtain w1 where
      w1: "handle_unlisted E c cr w = (Inr (), w1)" "store w1 = (store w)(cr_key cr := fate E c w cr)" by (auto simp: fate_def)
    have "b_MachineList E ns sel w1 = b_MachineList E ns sel w" for ns sel
      using handle_unlisted_change(2) [OF assms(2) w1(1), of UNIV UNIV] by blast
    then have same: "fate E c w1 a = fate E c w a" for a using orphaned_cong [of E w1 w] by (simp add: fate_def deleted_def)
    have "store w1 (cr_key a) = Some a" if "a \<in> set crs" for a
    proof -
      have "cr_key a \<noteq> cr_key cr" using cur(3) that by (metis imageI)
      with cur(2) that show ?thesis by (simp add: w1(2) current_def)
    qed
    then have "current store w1 crs" using cur(2) by (simp add: current_def)
    from Cons.IH [OF this, of keep] obtain w' where
      w': "sift_objects E c actual crs keep w1 = (Inr (kept actual crs keep), w')"
      "\<forall>cr\<in>set crs. unlisted actual cr \<longrightarrow> store w' (cr_key cr) = fate E c w cr"
      "\<forall>k. k \<notin> cr_key ` {cr \<in> set crs. unlisted actual cr} \<longrightarrow> store w' k = store w1 k" unfolding same by blast
    have "cr_key cr \<notin> cr_key ` {cr \<in> set crs. unlisted actual cr}" using cur(3) by blast
    from w'(3) [rule_format, OF this] have "store w' (cr_key cr) = fate E c w cr" by (simp add: w1(2))
    moreover have "sift_objects E c actual (cr # crs) keep w = (Inr (kept actual (cr # crs) keep), w')"
      using True w1(1) w'(1) by (simp add: unlisted_def bindE_def)
    moreover have "\<forall>k. k \<notin> cr_key ` {a \<in> set (cr # crs). unlisted actual a} \<longrightarrow> store w' k = store w k"
    proof (intro allI impI)
      fix k assume k: "k \<notin> cr_key ` {a \<in> set (cr # crs). unlisted actual a}"
      with True have "k \<noteq> cr_key cr" by auto
      moreover from k have "k \<notin> cr_key ` {cr \<in> set crs. unlisted actual cr}" by auto
      ultimately show "store w' k = store w k" using w'(3) by (simp add: w1(2))
    qed
    ultimately show ?thesis using w'(2) unfolding list.set by blast
  qed
qed simp

lemma kept_Some:
  "kept actual crs keep x = Some cr \<Longrightarrow> keep x = Some cr \<or> cr \<in> set crs \<and> \<not> unlisted actual cr \<and> snapshotKey cr = x"
  by (induction crs arbitrary: keep) (force split: if_splits)+

lemma kept_grows: "keep x \<noteq> None \<Longrightarrow> kept actual crs keep x \<noteq> None"
  by (induction crs arbitrary: keep) auto

lemma kept_hit: "cr \<in> set crs \<Longrightarrow> \<not> unlisted actual cr \<Longrightarrow> kept actual crs keep (snapshotKey cr) \<noteq> None"
proof (induction crs arbitrary: keep)
  case (Cons a crs)
  then show ?case using kept_grows [of "keep(snapshotKey cr \<mapsto> cr)" "snapshotKey cr" actual crs] by auto
qed simp

lemma kept_listed:
  assumes "inj_on snapshotKey {cr \<in> set crs. \<not> unlisted actual cr}" "cr \<in> set crs" "\<not> unlisted actual cr"
  shows "kept actual crs Map.empty (snapshotKey cr) = Some cr"
proof -
  from kept_hit [OF assms(2,3), of Map.empty] obtain cr' where k: "kept actual crs Map.empty (snapshotKey cr) = Some cr'" by blast
  with kept_Some [OF k] assms show ?thesis by (auto dest: inj_onD)
qed

text \<open>The second loop: \<open>touched\<close> are the objects it reconciles.\<close>

definition touched :: "(string \<rightharpoonup> snapshot_cr) \<Rightarrow> (string \<times> snapshot_cr) list \<Rightarrow> (string \<times> string) set" where
  "touched keep xs = {cr_key cr |cr. \<exists>x\<in>set xs. keep (fst x) = Some cr}"

definition kept_ok :: "'w snapshot_store \<Rightarrow> 'w \<Rightarrow> (string \<rightharpoonup> snapshot_cr) \<Rightarrow> (string \<times> snapshot_cr) list \<Rightarrow> bool" where
  "kept_ok store w keep xs \<longleftrightarrow>
     distinct (map fst xs) \<and>
     (\<forall>x cr. x \<in> set xs \<longrightarrow> keep (fst x) = Some cr \<longrightarrow>
        store w (cr_key cr) = Some cr \<and> cr_Labels cr \<noteq> None \<and> cr_Annotations cr \<noteq> None) \<and>
     (\<forall>x y a b. x \<in> set xs \<longrightarrow> y \<in> set xs \<longrightarrow> keep (fst x) = Some a \<longrightarrow> keep (fst y) = Some b \<longrightarrow>
        cr_key a = cr_key b \<longrightarrow> fst x = fst y)"

lemma create_listed_accepts:
  assumes "api_accepts E store"
  shows "\<exists>w'. create_listed_cr E listed w = (Inr (), w') \<and> (\<forall>k. store w k \<noteq> None \<longrightarrow> store w' k = store w k) \<and>
    (ef_NodeName (cr_SnapshotFile listed) = ''s3'' \<longrightarrow> store w' (cr_key listed) \<noteq> None) \<and>
    (\<forall>k. k \<noteq> cr_key listed \<longrightarrow> store w' k = store w k)"
  by (auto simp: create_listed_cr_def accepts_calls(4) [OF assms] put_new_def split: option.splits)

lemma kept_ok_Cons:
  assumes "kept_ok store w keep (x # xs)" "\<And>k. k \<in> touched keep xs \<Longrightarrow> store w1 k = store w k"
  shows "kept_ok store w1 keep xs"
proof -
  have "store w1 (cr_key cr) = Some cr" if "y \<in> set xs" "keep (fst y) = Some cr" for y cr
  proof -
    have "cr_key cr \<in> touched keep xs" using that by (auto simp: touched_def)
    from assms(2) [OF this] assms(1) that show ?thesis by (simp add: kept_ok_def)
  qed
  with assms(1) show ?thesis unfolding kept_ok_def by auto
qed

lemma kept_ok_head:
  assumes "kept_ok store w keep (x # xs)" "keep (fst x) = Some cr"
  shows "cr_key cr \<notin> touched keep xs"
proof
  assume "cr_key cr \<in> touched keep xs"
  then obtain y a where y: "y \<in> set xs" "keep (fst y) = Some a" "cr_key cr = cr_key a" by (auto simp: touched_def)
  with assms have "fst x = fst y" by (auto simp: kept_ok_def)
  with assms(1) y(1) show False by (auto simp: kept_ok_def)
qed

definition reconciled :: "'w snapshot_store \<Rightarrow> 'w \<Rightarrow> (string \<rightharpoonup> snapshot_cr) \<Rightarrow> string \<times> snapshot_cr \<Rightarrow> bool" where
  "reconciled store w keep x \<longleftrightarrow>
     (case keep (fst x) of
        Some cr \<Rightarrow> (\<exists>s. store w (cr_key cr) = Some s \<and> in_step s (snd x) \<and> \<not> cr_Missing s)
      | None \<Rightarrow> ef_NodeName (cr_SnapshotFile (snd x)) = ''s3'' \<longrightarrow> store w (cr_key (snd x)) \<noteq> None)"

text \<open>One entry: the object is reconciled or created, and no other object that exists is touched.\<close>

lemma populate_step:
  assumes "api_accepts E store" "kept_ok store w keep (x # xs)"
  shows "\<exists>w1. (case keep (fst x) of Some cr \<Rightarrow> handle_listed E cr (snd x) | None \<Rightarrow> create_listed_cr E (snd x)) w = (Inr (), w1) \<and>
    reconciled store w1 keep x \<and> (\<forall>k. store w k \<noteq> None \<and> k \<notin> touched keep [x] \<longrightarrow> store w1 k = store w k) \<and>
    (\<forall>k. k \<noteq> cr_key (snd x) \<and> k \<notin> touched keep [x] \<longrightarrow> store w1 k = store w k) \<and> kept_ok store w1 keep xs"
proof (cases "keep (fst x)")
  case None
  from create_listed_accepts [OF assms(1), of "snd x" w] obtain w1 where w1:
    "create_listed_cr E (snd x) w = (Inr (), w1)" "\<forall>k. store w k \<noteq> None \<longrightarrow> store w1 k = store w k"
    "ef_NodeName (cr_SnapshotFile (snd x)) = ''s3'' \<longrightarrow> store w1 (cr_key (snd x)) \<noteq> None"
    "\<forall>k. k \<noteq> cr_key (snd x) \<longrightarrow> store w1 k = store w k" by blast
  have "store w1 k = store w k" if "k \<in> touched keep xs" for k
    using that w1(2) assms(2) unfolding touched_def kept_ok_def by auto
  from kept_ok_Cons [OF assms(2) this] w1 None show ?thesis by (auto simp: reconciled_def)
next
  case (Some cr)
  with assms(2) have "store w (cr_key cr) = Some cr" "cr_Labels cr \<noteq> None" "cr_Annotations cr \<noteq> None" by (auto simp: kept_ok_def)
  from handle_listed_accepts [OF assms(1) this] obtain w1 s where w1: "handle_listed E cr (snd x) w = (Inr (), w1)"
    "in_step s (snd x)" "\<not> cr_Missing s" "store w1 = (store w)(cr_key cr \<mapsto> s)" by blast
  have "store w1 k = store w k" if "k \<in> touched keep xs" for k
    using kept_ok_head [OF assms(2) Some] that by (auto simp: w1(4))
  from kept_ok_Cons [OF assms(2) this] w1 Some show ?thesis by (auto simp: reconciled_def touched_def)
qed

lemma populate_accepts:
  assumes "api_accepts E store" "kept_ok store w keep xs"
  shows "\<exists>w'. populate E keep xs w = (Inr (), w') \<and> (\<forall>x\<in>set xs. reconciled store w' keep x) \<and>
    (\<forall>k. store w k \<noteq> None \<and> k \<notin> touched keep xs \<longrightarrow> store w' k = store w k) \<and>
    (\<forall>k. k \<notin> cr_key ` snd ` set xs \<and> k \<notin> touched keep xs \<longrightarrow> store w' k = store w k)"
  using assms(2)
proof (induction xs arbitrary: w)
  case (Cons x xs)
  from populate_step [OF assms(1) Cons.prems] obtain w1 where
    w1: "(case keep (fst x) of Some cr \<Rightarrow> handle_listed E cr (snd x) | None \<Rightarrow> create_listed_cr E (snd x)) w = (Inr (), w1)"
    and x: "reconciled store w1 keep x"
    and f1: "\<And>k. store w k \<noteq> None \<Longrightarrow> k \<notin> touched keep [x] \<Longrightarrow> store w1 k = store w k"
      "\<And>k. k \<noteq> cr_key (snd x) \<Longrightarrow> k \<notin> touched keep [x] \<Longrightarrow> store w1 k = store w k"
    and ok: "kept_ok store w1 keep xs" by blast
  from Cons.IH [OF ok] obtain w' where w': "populate E keep xs w1 = (Inr (), w')" "\<forall>x\<in>set xs. reconciled store w' keep x"
    and f2: "\<And>k. store w1 k \<noteq> None \<Longrightarrow> k \<notin> touched keep xs \<Longrightarrow> store w' k = store w1 k"
      "\<And>k. k \<notin> cr_key ` snd ` set xs \<Longrightarrow> k \<notin> touched keep xs \<Longrightarrow> store w' k = store w1 k" by blast
  have run: "populate E keep (x # xs) w = (Inr (), w')" using w1 w'(1) by (cases x; cases "keep (fst x)") (simp_all add: bindE_def)
  have tou: "touched keep (x # xs) = touched keep [x] \<union> touched keep xs" by (auto simp: touched_def)
  have stays: "store w' k \<noteq> None" if "store w1 k \<noteq> None" for k
    using f2(1) [OF that] that w'(2) unfolding touched_def reconciled_def by fastforce
  have "reconciled store w' keep x"
  proof (cases "keep (fst x)")
    case None
    with x stays show ?thesis by (simp add: reconciled_def del: not_None_eq)
  next
    case (Some cr)
    from kept_ok_head [OF Cons.prems Some] f2(1) [of "cr_key cr"] x Some show ?thesis by (auto simp: reconciled_def)
  qed
  with w'(2) have rec: "\<forall>x\<in>set (x # xs). reconciled store w' keep x" by simp
  have "store w' k = store w k" if "store w k \<noteq> None" "k \<notin> touched keep (x # xs)" for k
    using that f1(1) [of k] f2(1) [of k] by (simp add: tou)
  moreover have "store w' k = store w k" if "k \<notin> cr_key ` snd ` set (x # xs)" "k \<notin> touched keep (x # xs)" for k
    using that f1(2) [of k] f2(2) [of k] by (simp add: tou)
  ultimately show ?case using run rec by blast
qed simp

lemma cm_entries_distinct:
  "cm_entries E c w data result = Inr actual \<Longrightarrow> distinct (map fst result) \<Longrightarrow> distinct (map fst actual)"
  by (induction E c w data result rule: cm_entries.induct) (auto simp: sbind_eq_Inr_iff distinct_update split: sum.splits)

text \<open>The objects of a cluster that a pass can work on: at most one for an entry of the list, with labels and annotations.\<close>

definition workable :: "(string \<times> snapshot_cr) list \<Rightarrow> snapshot_cr list \<Rightarrow> bool" where
  "workable actual crs \<longleftrightarrow>
     inj_on snapshotKey {cr \<in> set crs. \<not> unlisted actual cr} \<and>
     (\<forall>cr\<in>set crs. cr_Labels cr \<noteq> None \<and> cr_Annotations cr \<noteq> None)"

lemma sifted_ok:
  assumes "current store w crs" "workable actual crs" "distinct (map fst xs)"
    and "\<And>k. k \<notin> cr_key ` {cr \<in> set crs. unlisted actual cr} \<Longrightarrow> store w1 k = store w k"
  shows "kept_ok store w1 (kept actual crs Map.empty) xs"
    and "touched (kept actual crs Map.empty) xs \<subseteq> cr_key ` {cr \<in> set crs. \<not> unlisted actual cr}"
proof -
  have from_crs: "cr \<in> set crs \<and> \<not> unlisted actual cr \<and> snapshotKey cr = key" if "kept actual crs Map.empty key = Some cr" for key cr
    using kept_Some [OF that] by simp
  have inj: "a = b" if "a \<in> set crs" "b \<in> set crs" "cr_key a = cr_key b" for a b
    using assms(1) that by (auto simp: current_def distinct_map dest: inj_onD)
  have kept_store: "store w1 (cr_key cr) = Some cr" if "cr \<in> set crs" "\<not> unlisted actual cr" for cr
  proof -
    have "cr_key cr \<notin> cr_key ` {a \<in> set crs. unlisted actual a}" using inj that by blast
    from assms(4) [OF this] assms(1) that(1) show ?thesis by (simp add: current_def)
  qed
  show "kept_ok store w1 (kept actual crs Map.empty) xs"
    unfolding kept_ok_def
  proof (intro conjI allI impI)
    fix x cr assume "kept actual crs Map.empty (fst x) = Some cr"
    from from_crs [OF this] kept_store assms(2) show "store w1 (cr_key cr) = Some cr" "cr_Labels cr \<noteq> None" "cr_Annotations cr \<noteq> None"
      by (simp_all add: workable_def)
  next
    fix x y a b assume "kept actual crs Map.empty (fst x) = Some a" "kept actual crs Map.empty (fst y) = Some b" "cr_key a = cr_key b"
    from from_crs [OF this(1)] from_crs [OF this(2)] inj [of a b] this(3) show "fst x = fst y" by auto
  qed (rule assms(3))
  show "touched (kept actual crs Map.empty) xs \<subseteq> cr_key ` {cr \<in> set crs. \<not> unlisted actual cr}"
    using from_crs by (auto simp: touched_def)
qed

lemma OnChange_run:
  assumes "cf_Namespace cfg = ''kube-system''" "cf_Name cfg \<in> set configMapNames" "handler_reads E h cfg w c actual crs"
    and "b_LabelsParse E (ClusterNameLabel @ ''='' @ pc_Name c) = None"
    and "sift_objects E c actual crs Map.empty w = (Inr keep, w1)" "populate E keep (b_RangeSnapshots E actual) w1 = (Inr (), w')"
  shows "\<exists>h'. backpop_OnChange E (Some cfg) (h, w) = ((Some cfg, None), h', w')"
  using assms by (auto simp: backpop_OnChange_def handler_reads_def backpop_pass_def bindE_def Let_def)

lemma actual_ranges:
  assumes "range_law E" "handler_reads E h cfg w c actual crs"
  shows "distinct (map fst (b_RangeSnapshots E actual))" "set (b_RangeSnapshots E actual) = set actual" "distinct (map fst actual)"
proof -
  show d: "distinct (map fst actual)"
    using assms(2) cm_entries_distinct [of E c w "b_RangeData E (cf_Data cfg)" "[]" actual]
    by (simp add: handler_reads_def configMapToSnapshots_def)
  with assms(1) show "distinct (map fst (b_RangeSnapshots E actual))" "set (b_RangeSnapshots E actual) = set actual"
    by (simp_all add: range_law_def)
qed

text \<open>
  C20. One run brings the snapshot objects in line with the config map: over a current cache, on an
  API server that accepts its calls, the handler finishes without an error. Every object of
  the cluster whose snapshot is listed is then in step with its entry and not missing; one
  whose snapshot is not listed is deleted when it is local and its machine is gone, and
  marked missing, with nothing else changed, otherwise; every listed snapshot in S3 that had
  no object has one; and the objects of others are as before.
\<close>

theorem backpopulate_reconciles:
  assumes "api_accepts E store" "api_frame E store" "range_law E"
    and "cf_Namespace cfg = ''kube-system''" "cf_Name cfg \<in> set configMapNames" "handler_reads E h cfg w c actual crs"
    and "b_LabelsParse E (ClusterNameLabel @ ''='' @ pc_Name c) = None" "current store w crs" "workable actual crs"
  shows "\<exists>h' w'. backpop_OnChange E (Some cfg) (h, w) = ((Some cfg, None), h', w') \<and>
    (\<forall>cr\<in>set crs. \<forall>listed. map_of actual (snapshotKey cr) = Some listed \<longrightarrow>
       (\<exists>s. store w' (cr_key cr) = Some s \<and> in_step s listed \<and> \<not> cr_Missing s)) \<and>
    (\<forall>cr\<in>set crs. map_of actual (snapshotKey cr) = None \<longrightarrow>
       (if storageLocation cr \<noteq> ''s3'' \<and> orphaned E c cr w
        then cr_key cr \<notin> cr_key ` snd ` set actual \<longrightarrow> store w' (cr_key cr) = None
        else store w' (cr_key cr) = Some (cr\<lparr>cr_Missing := True\<rparr>))) \<and>
    (\<forall>key listed. map_of actual key = Some listed \<and> ef_NodeName (cr_SnapshotFile listed) = ''s3'' \<and> key \<notin> snapshotKey ` set crs \<longrightarrow>
       store w' (cr_key listed) \<noteq> None) \<and>
    (\<forall>k. store w k \<noteq> None \<and> k \<notin> cr_key ` set crs \<longrightarrow> store w' k = store w k)"
proof -
  let ?keep = "kept actual crs Map.empty" and ?xs = "b_RangeSnapshots E actual"
  note rng = actual_ranges [OF assms(3,6)]
  from sift_accepts [OF assms(1,2,8), of c actual Map.empty] obtain w1 where
    w1: "sift_objects E c actual crs Map.empty w = (Inr ?keep, w1)"
    and fates: "\<And>cr. cr \<in> set crs \<Longrightarrow> unlisted actual cr \<Longrightarrow> store w1 (cr_key cr) = fate E c w cr"
    and f1: "\<And>k. k \<notin> cr_key ` {cr \<in> set crs. unlisted actual cr} \<Longrightarrow> store w1 k = store w k" by blast
  note ok = sifted_ok [OF assms(8,9) rng(1) f1]
  from populate_accepts [OF assms(1) ok(1)] obtain w' where w': "populate E ?keep ?xs w1 = (Inr (), w')"
    and rec: "\<And>x. x \<in> set actual \<Longrightarrow> reconciled store w' ?keep x"
    and f2: "\<And>k. store w1 k \<noteq> None \<Longrightarrow> k \<notin> touched ?keep ?xs \<Longrightarrow> store w' k = store w1 k"
      "\<And>k. k \<notin> cr_key ` snd ` set actual \<Longrightarrow> k \<notin> touched ?keep ?xs \<Longrightarrow> store w' k = store w1 k"
    unfolding rng(2) by blast
  have inj: "a = b" if "a \<in> set crs" "b \<in> set crs" "cr_key a = cr_key b" for a b
    using assms(8) that by (auto simp: current_def distinct_map dest: inj_onD)
  have untouched: "cr_key cr \<notin> touched ?keep ?xs" if "cr \<in> set crs" "unlisted actual cr" for cr
    using ok(2) inj that by blast
  have "\<exists>s. store w' (cr_key cr) = Some s \<and> in_step s listed \<and> \<not> cr_Missing s"
    if "cr \<in> set crs" "map_of actual (snapshotKey cr) = Some listed" for cr listed
    using rec [OF map_of_SomeD [OF that(2)]] kept_listed [of crs actual cr] that assms(9)
    by (simp add: reconciled_def workable_def unlisted_def)
  moreover have "if storageLocation cr \<noteq> ''s3'' \<and> orphaned E c cr w
      then cr_key cr \<notin> cr_key ` snd ` set actual \<longrightarrow> store w' (cr_key cr) = None
      else store w' (cr_key cr) = Some (cr\<lparr>cr_Missing := True\<rparr>)" if "cr \<in> set crs" "map_of actual (snapshotKey cr) = None" for cr
    using fates [of cr] f2 [of "cr_key cr"] untouched [of cr] that
    by (simp add: unlisted_def fate_def deleted_def StorageS3_def split: if_split_asm)
  moreover have "store w' (cr_key listed) \<noteq> None"
    if "map_of actual key = Some listed" "ef_NodeName (cr_SnapshotFile listed) = ''s3''" "key \<notin> snapshotKey ` set crs" for key listed
  proof -
    have "?keep key = None" using kept_Some [of actual crs Map.empty key] that(3) by (cases "?keep key") auto
    with rec [OF map_of_SomeD [OF that(1)]] that(2) show ?thesis by (simp add: reconciled_def)
  qed
  moreover have "store w' k = store w k" if "store w k \<noteq> None" "k \<notin> cr_key ` set crs" for k
  proof -
    have "k \<notin> touched ?keep ?xs" "k \<notin> cr_key ` {cr \<in> set crs. unlisted actual cr}" using ok(2) that(2) by blast+
    with f1 [of k] f2(1) [of k] that(1) show ?thesis by simp
  qed
  moreover from OnChange_run [OF assms(4-7) w1 w'] obtain h' where
    "backpop_OnChange E (Some cfg) (h, w) = ((Some cfg, None), h', w')" by blast
  ultimately show ?thesis by blast
qed

section \<open>A further pass\<close>

text \<open>An object on which nothing is left to do.\<close>

definition settled :: "('w, 'z) backpop_env_scheme \<Rightarrow> prov_cluster \<Rightarrow> 'w \<Rightarrow> (string \<times> snapshot_cr) list \<Rightarrow> snapshot_cr \<Rightarrow> bool" where
  "settled E c w actual cr \<longleftrightarrow>
     (case map_of actual (snapshotKey cr) of
        Some listed \<Rightarrow> in_step cr listed \<and> \<not> cr_Missing cr
      | None \<Rightarrow> cr_Missing cr \<and> \<not> (storageLocation cr \<noteq> ''s3'' \<and> orphaned E c cr w))"

lemma handle_listed_settled: "in_step cr listed \<Longrightarrow> \<not> cr_Missing cr \<Longrightarrow> handle_listed E cr listed w = (Inr (), w)"
  by (simp add: handle_listed_def reconcile_in_step clear_missing_def)

lemma create_listed_settled:
  assumes "api_accepts E store" "ef_NodeName (cr_SnapshotFile listed) = ''s3'' \<Longrightarrow> store w (cr_key listed) \<noteq> None"
  shows "\<exists>w'. create_listed_cr E listed w = (Inr (), w') \<and> store w' = store w"
  using assms(2) by (auto simp: create_listed_cr_def accepts_calls(4) [OF assms(1)] put_new_def split: option.splits)

lemma populate_settled:
  assumes "api_accepts E store"
    and "\<And>x cr. x \<in> set xs \<Longrightarrow> keep (fst x) = Some cr \<Longrightarrow> in_step cr (snd x) \<and> \<not> cr_Missing cr"
    and "\<And>x. x \<in> set xs \<Longrightarrow> keep (fst x) = None \<Longrightarrow> ef_NodeName (cr_SnapshotFile (snd x)) = ''s3'' \<Longrightarrow> store w (cr_key (snd x)) \<noteq> None"
  shows "\<exists>w'. populate E keep xs w = (Inr (), w') \<and> store w' = store w"
  using assms(2,3)
proof (induction xs arbitrary: w)
  case (Cons x xs)
  have "\<exists>w1. (case keep (fst x) of Some cr \<Rightarrow> handle_listed E cr (snd x) | None \<Rightarrow> create_listed_cr E (snd x)) w = (Inr (), w1) \<and>
      store w1 = store w"
  proof (cases "keep (fst x)")
    case None
    with create_listed_settled [OF assms(1), of "snd x" w] Cons.prems(2) [of x] show ?thesis by simp
  next
    case (Some cr)
    with Cons.prems(1) [of x cr] show ?thesis by (simp add: handle_listed_settled)
  qed
  then obtain w1 where w1: "(case keep (fst x) of Some cr \<Rightarrow> handle_listed E cr (snd x) | None \<Rightarrow> create_listed_cr E (snd x)) w = (Inr (), w1)"
    "store w1 = store w" by blast
  have "\<exists>w'. populate E keep xs w1 = (Inr (), w') \<and> store w' = store w1"
  proof (rule Cons.IH)
    fix y cr assume "y \<in> set xs" "keep (fst y) = Some cr"
    then show "in_step cr (snd y) \<and> \<not> cr_Missing cr" using Cons.prems(1) [of y cr] by simp
  next
    fix y assume "y \<in> set xs" "keep (fst y) = None" "ef_NodeName (cr_SnapshotFile (snd y)) = ''s3''"
    then show "store w1 (cr_key (snd y)) \<noteq> None" using Cons.prems(2) [of y] w1(2) by simp
  qed
  with w1 show ?case by (cases x; cases "keep (fst x)") (auto simp: bindE_def)
qed simp

text \<open>
  C21. The controller comes to rest: when every object of the cluster is settled - in step with its
  entry and not missing, or not listed, marked and with its machine or in S3 - and every
  listed snapshot in S3 has an object, a run of the handler finishes without an error and
  leaves every object as it is. So the events that its own writes cause end.
\<close>

theorem backpopulate_quiesces:
  assumes "api_accepts E store" "api_frame E store" "range_law E"
    and "cf_Namespace cfg = ''kube-system''" "cf_Name cfg \<in> set configMapNames" "handler_reads E h cfg w c actual crs"
    and "b_LabelsParse E (ClusterNameLabel @ ''='' @ pc_Name c) = None" "current store w crs"
    and "\<forall>cr\<in>set crs. settled E c w actual cr"
    and "\<forall>listed\<in>snd ` set actual. ef_NodeName (cr_SnapshotFile listed) = ''s3'' \<longrightarrow> store w (cr_key listed) \<noteq> None"
  shows "\<exists>h' w'. backpop_OnChange E (Some cfg) (h, w) = ((Some cfg, None), h', w') \<and> store w' = store w"
proof -
  let ?keep = "kept actual crs Map.empty"
  note rng = actual_ranges [OF assms(3,6)]
  from sift_accepts [OF assms(1,2,8), of c actual Map.empty] obtain w1 where
    w1: "sift_objects E c actual crs Map.empty w = (Inr ?keep, w1)"
    and fates: "\<And>cr. cr \<in> set crs \<Longrightarrow> unlisted actual cr \<Longrightarrow> store w1 (cr_key cr) = fate E c w cr"
    and f1: "\<And>k. k \<notin> cr_key ` {cr \<in> set crs. unlisted actual cr} \<Longrightarrow> store w1 k = store w k" by blast
  have marked: "store w1 (cr_key cr) = store w (cr_key cr)" if "cr \<in> set crs" "unlisted actual cr" for cr
  proof -
    from that assms(9) have "settled E c w actual cr" by blast
    with that(2) have "cr_Missing cr" "fate E c w cr = Some (cr\<lparr>cr_Missing := True\<rparr>)"
      by (auto simp: settled_def unlisted_def fate_def deleted_def StorageS3_def)
    with fates [OF that] assms(8) that(1) show ?thesis by (cases cr) (simp add: current_def)
  qed
  have same: "store w1 = store w"
  proof
    fix k show "store w1 k = store w k"
      using f1 [of k] marked by (cases "k \<in> cr_key ` {cr \<in> set crs. unlisted actual cr}") auto
  qed
  have "in_step cr (snd x) \<and> \<not> cr_Missing cr" if "x \<in> set actual" "?keep (fst x) = Some cr" for x cr
  proof -
    from kept_Some [OF that(2)] have cr: "cr \<in> set crs" "snapshotKey cr = fst x" by simp_all
    have "map_of actual (fst x) = Some (snd x)" using rng(3) that(1) by (cases x) simp
    moreover from cr(1) assms(9) have "settled E c w actual cr" by blast
    ultimately show ?thesis by (simp add: settled_def cr(2))
  qed
  then have "\<exists>w'. populate E ?keep (b_RangeSnapshots E actual) w1 = (Inr (), w') \<and> store w' = store w1"
    by (intro populate_settled [OF assms(1)]) (use rng(2) same assms(10) in auto)
  then obtain w' where w': "populate E ?keep (b_RangeSnapshots E actual) w1 = (Inr (), w')" "store w' = store w1" by blast
  from OnChange_run [OF assms(4-7) w1 w'(1)] w'(2) same show ?thesis by auto
qed

section \<open>A concrete pass\<close>

lemma mem_current: "distinct (map cr_key w) \<Longrightarrow> current mem_store w w"
proof -
  assume d: "distinct (map cr_key w)"
  have "mem_store w (cr_key cr) = Some cr" if "cr \<in> set w" for cr
    using d that by (induction w) (auto simp: mem_store_def)
  with d show ?thesis by (simp add: current_def)
qed

theorem backpopulate_reconciles_witness:
  "\<exists>h' w'. backpop_OnChange demo_backpop (Some demo_cfg) (demo_handler, demo_objects) = ((Some demo_cfg, None), h', w') \<and>
     (\<exists>s. mem_store w' (''fleet-default'', ''c1-a-local'') = Some s \<and> in_step s (demo_cr ''a'' False) \<and> \<not> cr_Missing s) \<and>
     mem_store w' (''fleet-default'', ''c1-b-local'') = None \<and> mem_store w' (''fleet-default'', ''c1-z-s3'') \<noteq> None"
proof -
  have cur: "current mem_store demo_objects demo_objects" by (rule mem_current) (simp add: demo_objects_def demo_cr_keys)
  have work: "workable demo_actual demo_objects"
    by (simp add: workable_def demo_objects_def demo_cr_parts demo_cr_keys unlisted_def demo_actual_simps inj_on_def del: not_None_eq)
      (auto simp: demo_cr_keys demo_actual_simps)
  have node: "ef_NodeName (cr_SnapshotFile (demo_cr ''z'' False)) = ''s3''" by (simp add: demo_cr_def listed_cr_def demo_file_def)
  have lp: "b_LabelsParse demo_backpop (ClusterNameLabel @ ''='' @ pc_Name demo_pc) = None" by (simp add: demo_backpop_fields)
  from backpopulate_reconciles [OF demo_api(2,1,3) demo_cfg_simps demo_reads lp cur work]
  obtain h' w' where run: "backpop_OnChange demo_backpop (Some demo_cfg) (demo_handler, demo_objects) = ((Some demo_cfg, None), h', w')"
    and listed: "\<forall>cr\<in>set demo_objects. \<forall>listed. map_of demo_actual (snapshotKey cr) = Some listed \<longrightarrow>
       (\<exists>s. mem_store w' (cr_key cr) = Some s \<and> in_step s listed \<and> \<not> cr_Missing s)"
    and not_listed: "\<forall>cr\<in>set demo_objects. map_of demo_actual (snapshotKey cr) = None \<longrightarrow>
       (if storageLocation cr \<noteq> ''s3'' \<and> orphaned demo_backpop demo_pc cr demo_objects
        then cr_key cr \<notin> cr_key ` snd ` set demo_actual \<longrightarrow> mem_store w' (cr_key cr) = None
        else mem_store w' (cr_key cr) = Some (cr\<lparr>cr_Missing := True\<rparr>))"
    and s3: "\<forall>key listed. map_of demo_actual key = Some listed \<and> ef_NodeName (cr_SnapshotFile listed) = ''s3'' \<and>
       key \<notin> snapshotKey ` set demo_objects \<longrightarrow> mem_store w' (cr_key listed) \<noteq> None" by blast
  have "\<exists>s. mem_store w' (''fleet-default'', ''c1-a-local'') = Some s \<and> in_step s (demo_cr ''a'' False) \<and> \<not> cr_Missing s"
    using bspec [OF listed, of "demo_cr ''a'' True"] by (simp add: demo_objects_def demo_cr_keys demo_actual_simps)
  moreover have "mem_store w' (''fleet-default'', ''c1-b-local'') = None"
    using bspec [OF not_listed, of "demo_cr ''b'' False"] demo_orphan [of False demo_objects]
    by (simp add: demo_objects_def demo_cr_keys demo_actual_simps)
  moreover have "mem_store w' (''fleet-default'', ''c1-z-s3'') \<noteq> None"
    using s3 [rule_format, of "''zs3''" "demo_cr ''z'' False"] node by (simp add: demo_objects_def demo_cr_keys demo_actual_simps)
  ultimately show ?thesis using run by blast
qed

theorem backpopulate_quiesces_witness:
  "\<exists>h' w'. backpop_OnChange demo_backpop (Some demo_cfg) (demo_handler, [demo_cr ''a'' False, demo_cr ''z'' False]) =
     ((Some demo_cfg, None), h', w') \<and> mem_store w' = mem_store [demo_cr ''a'' False, demo_cr ''z'' False]"
proof -
  let ?w = "[demo_cr ''a'' False, demo_cr ''z'' False]"
  have cur: "current mem_store ?w ?w" by (rule mem_current) (simp add: demo_cr_keys)
  have step: "in_step cr cr" for cr by (simp add: in_step_def filled_def)
  have set: "\<forall>cr\<in>set ?w. settled demo_backpop demo_pc ?w demo_actual cr"
    by (simp add: settled_def demo_cr_keys demo_actual_simps step demo_cr_parts)
  have lp: "b_LabelsParse demo_backpop (ClusterNameLabel @ ''='' @ pc_Name demo_pc) = None" by (simp add: demo_backpop_fields)
  have s3: "\<forall>listed\<in>snd ` set demo_actual. ef_NodeName (cr_SnapshotFile listed) = ''s3'' \<longrightarrow> mem_store ?w (cr_key listed) \<noteq> None"
    by (simp add: demo_actual_simps mem_store_def)
  from backpopulate_quiesces [OF demo_api(2,1,3) demo_cfg_simps demo_reads lp cur set s3] show ?thesis .
qed

end
