(* ===== verification/System_Agent.thy ===== *)
theory System_Agent
  imports Controller_Env Planner_Process Snapshot_Backpopulate
begin

text \<open>
  The controllers that keep the agents of a provisioned cluster up to date: the bundle that
  upgrades the system agent and the chart of the system upgrade controller
  (\<open>controllers/capr/managesystemagent\<close>), the bundle a chart is deployed with
  (\<open>controllers/provisioningv2/managedchart/managedchart.go\<close>), and the condition on the control plane that tells the
  planner whether an upgrade past Kubernetes 1.25 may go on.
\<close>

section \<open>Data\<close>

record rke_config =
  rc_MachineGlobalConfig :: config
  rc_MachineSelectorConfig :: "RKESystemConfig list"

record provisioned_cluster = prov_cluster +
  pv_RKEConfig :: "rke_config option"
  pv_KubernetesVersion :: string
  pv_AgentEnvVars :: "(string \<times> string) list"
  pv_RedeploySystemAgentGeneration :: int
  pv_FleetWorkspaceName :: string
  pv_ClusterName :: string

record upgrade_plan =
  up_Name :: string
  up_Namespace :: string
  up_Annotations :: "(string \<times> string) list"
  up_Concurrency :: int
  up_Version :: string
  up_OS :: "string list"
  up_ServiceAccountName :: string
  up_Image :: string
  up_Env :: "(string \<times> string) list"
  up_EnvFrom :: "string list"
  up_Secrets :: "string list"

text \<open>A bundle's status is its summary: how many deployments are ready, wanted and in error, and the messages of the others.\<close>

record bundle_summary =
  bs_Ready :: int
  bs_DesiredReady :: int
  bs_ErrApplied :: int
  bs_NonReady :: "string list"

record bundle_resource =
  br_Name :: string
  br_Content :: string
  br_Encoding :: string

record bundle_target =
  bt_ClusterName :: string
  bt_Absent :: "string list"

text \<open>The settings of a chart that are handed on as they are; \<open>Diff\<close> and \<open>RolloutStrategy\<close> are pointers to such settings.\<close>

record chart_options =
  co_TargetNamespace :: string
  co_TimeoutSeconds :: int
  co_Force :: bool
  co_TakeOwnership :: bool
  co_MaxHistory :: int
  co_ServiceAccount :: string
  co_Diff :: "string option"
  co_Paused :: bool
  co_RolloutStrategy :: "string option"

record ManagedChart =
  mc_Namespace :: string
  mc_Name :: string
  mc_DefaultNamespace :: string
  mc_RepoName :: string
  mc_Chart :: string
  mc_Version :: string
  mc_ReleaseName :: string
  mc_Values :: "config option"
  mc_Targets :: "bundle_target list"
  mc_Options :: chart_options

record helm_options =
  ho_ReleaseName :: string
  ho_Version :: string
  ho_Values :: "config option"

record fleet_bundle =
  bd_Namespace :: string
  bd_Name :: string
  bd_DefaultNamespace :: string
  bd_Helm :: "helm_options option"
  bd_Options :: chart_options
  bd_Resources :: "bundle_resource list"
  bd_Targets :: "bundle_target list"
  bd_Summary :: bundle_summary

datatype agent_object =
    KPlan upgrade_plan
  | KServiceAccount string string
  | KClusterRole string "policy_rule_of_agent list"
  | KClusterRoleBinding string "string \<times> string" string
  | KSecret string string "(string \<times> string) list"
and policy_rule_of_agent = AgentRule "string list" "string list" "string list"

datatype applied_object = OSecret string string "(string \<times> string) list" | OBundle fleet_bundle | OChart ManagedChart

record tar_entry =
  te_Regular :: bool
  te_Name :: string
  te_Content :: string

record 'w sysagent_env = "'w planner_env" +
  y_ProvClusterGet :: "string \<Rightarrow> string \<Rightarrow> 'w \<Rightarrow> go_error + provisioned_cluster"
  y_BundleGet :: "string \<Rightarrow> string \<Rightarrow> 'w \<Rightarrow> go_error + fleet_bundle"
  y_TokenGet :: "string \<Rightarrow> string \<Rightarrow> 'w \<Rightarrow> go_error + string"
  y_MarshalSUC :: "bool \<Rightarrow> go_error + string"
  y_SystemAgentUpgradeImage :: string
  y_WinsAgentUpgradeImage :: string
  y_InternalServerURL :: string
  y_InternalCAChecksum :: string
  y_ChartVersion :: string
  y_SetGVK :: "agent_object \<Rightarrow> err"
  y_MarshalObject :: "agent_object \<Rightarrow> go_error + string"
  y_Chart :: "string \<Rightarrow> string \<Rightarrow> string \<Rightarrow> 'w \<Rightarrow> go_error + (tar_entry list \<times> err)"
  y_Limit :: "string \<Rightarrow> int \<Rightarrow> string"

definition System :: string where "System = ''cattle-system''"
definition MaxHelmReleaseNameLength :: int where "MaxHelmReleaseNameLength = 53"
definition generationSecretName :: string where "generationSecretName = ''system-agent-upgrade-generation''"
definition ClustersLocalNamespace :: string where "ClustersLocalNamespace = ''fleet-local''"
definition SystemUpgradeControllerReady :: string where "SystemUpgradeControllerReady = ''SystemUpgradeControllerReady''"

definition no_summary :: bundle_summary where
  "no_summary = \<lparr>bs_Ready = 0, bs_DesiredReady = 0, bs_ErrApplied = 0, bs_NonReady = []\<rparr>"

definition no_options :: chart_options where
  "no_options = \<lparr>co_TargetNamespace = '''', co_TimeoutSeconds = 0, co_Force = False, co_TakeOwnership = False, co_MaxHistory = 0,
     co_ServiceAccount = '''', co_Diff = None, co_Paused = False, co_RolloutStrategy = None\<rparr>"

section \<open>Images\<close>

text \<open>\<open>path.Clean\<close> is \<open>filepath.Clean\<close> on Unix.\<close>

definition path_Join :: "string list \<Rightarrow> string" where
  "path_Join es = (case filter (\<lambda>e. e \<noteq> '''') es of [] \<Rightarrow> '''' | ns \<Rightarrow> Clean (Join ns ''/''))"

definition resolve :: "string \<Rightarrow> string \<Rightarrow> string" where
  "resolve reg img =
     (if reg \<noteq> '''' \<and> \<not> HasPrefix img reg
      then path_Join [reg, if \<not> Contains img ''/'' then ''rancher/'' @ img else img] else img)"

definition GetPrivateRepoURLFromCluster :: "('w, 'z) config_env_scheme \<Rightarrow> ('c) provisioned_cluster_scheme \<Rightarrow> string" where
  "GetPrivateRepoURLFromCluster E cluster =
     (case pv_RKEConfig cluster of
        Some rc \<Rightarrow> getPrivateRepoURL E (rc_MachineGlobalConfig rc) (rc_MachineSelectorConfig rc)
      | None \<Rightarrow> k_SystemDefaultRegistry E)"

definition ResolveWithCluster :: "('w, 'z) config_env_scheme \<Rightarrow> string \<Rightarrow> ('c) provisioned_cluster_scheme \<Rightarrow> string" where
  "ResolveWithCluster E img cluster = resolve (GetPrivateRepoURLFromCluster E cluster) img"

section \<open>The bundle of the system agent\<close>

definition image_and_version :: "string \<Rightarrow> string \<times> string" where
  "image_and_version s = (case SplitN2 s '':'' of [a, b] \<Rightarrow> (a, b) | xs \<Rightarrow> (hd xs, ''latest''))"

definition agent_plan ::
  "('w, 'z) sysagent_env_scheme \<Rightarrow> provisioned_cluster \<Rightarrow> string \<Rightarrow> (string \<times> string) list \<Rightarrow> string \<Rightarrow> string \<Rightarrow> string \<Rightarrow> upgrade_plan" where
  "agent_plan E cluster secretName env planName os setting =
     (let (img, version) = image_and_version setting in
      \<lparr>up_Name = planName, up_Namespace = System,
       up_Annotations = [(''upgrade.cattle.io/digest'', ''spec.upgrade.envs,spec.upgrade.envFrom'')],
       up_Concurrency = 10, up_Version = version, up_OS = [os], up_ServiceAccountName = ''system-agent-upgrader'',
       up_Image = ResolveWithCluster E img cluster, up_Env = env, up_EnvFrom = [secretName],
       up_Secrets = (if pv_RedeploySystemAgentGeneration cluster \<noteq> 0 then [generationSecretName] else [])\<rparr>)"

text \<open>The installer reads the RKE configuration without testing it; its caller has.\<close>

definition installer :: "('w, 'z) sysagent_env_scheme \<Rightarrow> provisioned_cluster \<Rightarrow> rke_config \<Rightarrow> string \<Rightarrow> agent_object list" where
  "installer E cluster rkeConfig secretName =
     (let env = pv_AgentEnvVars cluster @
                (if rc_MachineSelectorConfig rkeConfig = [] then [(''CATTLE_ROLE_WORKER'', ''true'')] else []) in
      [KPlan (agent_plan E cluster secretName env ''system-agent-upgrader'' ''linux'' (y_SystemAgentUpgradeImage E)),
       KPlan (agent_plan E cluster secretName env ''system-agent-upgrader-windows'' ''windows'' (y_WinsAgentUpgradeImage E)),
       KServiceAccount System ''system-agent-upgrader'',
       KClusterRole ''system-agent-upgrader'' [AgentRule [''get''] [''''] [''nodes'']],
       KClusterRoleBinding ''system-agent-upgrader'' (System, ''system-agent-upgrader'') ''system-agent-upgrader''] @
      (if pv_RedeploySystemAgentGeneration cluster \<noteq> 0
       then [KSecret System generationSecretName
               [(''cluster-uid'', pc_UID cluster), (''generation'', Itoa (pv_RedeploySystemAgentGeneration cluster))]]
       else []))"

fun obj_id :: "agent_object \<Rightarrow> string \<times> string \<times> string" where
  "obj_id (KPlan p) = (''Plan'', up_Namespace p, up_Name p)"
| "obj_id (KServiceAccount ns n) = (''ServiceAccount'', ns, n)"
| "obj_id (KClusterRole n _) = (''ClusterRole'', '''', n)"
| "obj_id (KClusterRoleBinding n _ _) = (''ClusterRoleBinding'', '''', n)"
| "obj_id (KSecret ns n _) = (''Secret'', ns, n)"

fun ToResources :: "('w, 'z) sysagent_env_scheme \<Rightarrow> agent_object list \<Rightarrow> go_error + bundle_resource list" where
  "ToResources E [] = Inr []"
| "ToResources E (obj # objs) =
     (case y_SetGVK E obj of
        Some e \<Rightarrow> Inl (ErrWrap ''failed to set gvk'' e)
      | None \<Rightarrow>
          sbind (y_MarshalObject E obj) (\<lambda>data.
          sbind (ToResources E objs) (\<lambda>rest.
            case obj_id obj of (kind, ns, n) \<Rightarrow>
              Inr (\<lparr>br_Name = lib_SafeConcatName E [kind, ns, n, take 12 (lib_sha256_hex E data)] @ ''.yaml'',
                    br_Content = data, br_Encoding = ''''\<rparr> # rest))))"

text \<open>Secret names of the local cluster follow what the secret holds.\<close>

definition aggregation_secret :: "('w, 'z) sysagent_env_scheme \<Rightarrow> string \<Rightarrow> string \<times> applied_object" where
  "aggregation_secret E token =
     (let n = ''stv-aggregation-local-'' @ take 12 (lib_sha256_hex E (y_InternalServerURL E @ token @ y_InternalCAChecksum E)) in
      (n, OSecret System n
            [(''CATTLE_SERVER'', y_InternalServerURL E), (''CATTLE_TOKEN'', token), (''CATTLE_CA_CHECKSUM'', y_InternalCAChecksum E)]))"

definition agent_target :: "provisioned_cluster \<Rightarrow> bundle_target" where
  "agent_target cluster = \<lparr>bt_ClusterName = pc_Name cluster, bt_Absent = [''provisioning.cattle.io/unmanaged-system-agent'']\<rparr>"

definition agent_bundle ::
  "('w, 'z) sysagent_env_scheme \<Rightarrow> provisioned_cluster \<Rightarrow> rke_config \<Rightarrow> string \<Rightarrow> go_error + applied_object" where
  "agent_bundle E cluster rkeConfig secretName =
     sbind (ToResources E (installer E cluster rkeConfig secretName)) (\<lambda>resources.
     sbind (SafeConcatName E MaxHelmReleaseNameLength [pc_Name cluster, ''managed'', ''system'', ''agent'']) (\<lambda>bundleName.
       Inr (OBundle \<lparr>bd_Namespace = pv_FleetWorkspaceName cluster, bd_Name = bundleName, bd_DefaultNamespace = System,
              bd_Helm = None, bd_Options = no_options, bd_Resources = resources, bd_Targets = [agent_target cluster],
              bd_Summary = no_summary\<rparr>)))"

definition systemagent_OnChange :: "('w, 'z) sysagent_env_scheme \<Rightarrow> provisioned_cluster \<Rightarrow> 'w \<Rightarrow> go_error + applied_object list" where
  "systemagent_OnChange E cluster w =
     (case pv_RKEConfig cluster of
        None \<Rightarrow> Inr []
      | Some rkeConfig \<Rightarrow>
          if y_SystemAgentUpgradeImage E = '''' then Inr []
          else if pv_FleetWorkspaceName cluster = '''' then Inl ErrSkip
          else if pv_ClusterName cluster = ''local'' \<and> pc_Namespace cluster = ClustersLocalNamespace then
            sbind (y_TokenGet E (pv_ClusterName cluster) ''default-token'' w) (\<lambda>token.
              if token = '''' then Inl (ErrOther (''token not yet generated for '' @ pv_ClusterName cluster @ ''/default-token''))
              else
                (case aggregation_secret E token of (secretName, secret) \<Rightarrow>
                   sbind (agent_bundle E cluster rkeConfig secretName) (\<lambda>b. Inr [secret, b])))
          else sbind (agent_bundle E cluster rkeConfig ''stv-aggregation'') (\<lambda>b. Inr [b]))"

section \<open>The chart of the system upgrade controller\<close>

definition suc_chart_name :: "'z libs_scheme \<Rightarrow> string \<Rightarrow> go_error + string" where
  "suc_chart_name E clusterName = SafeConcatName E 48 [clusterName, ''managed'', ''system-upgrade-controller'']"

definition suc_values :: "string \<Rightarrow> bool \<Rightarrow> config" where
  "suc_values registry pspEnabled =
     [(''global'', JObj [(''cattle'', JObj [(''systemDefaultRegistry'', JStr registry), (''psp'', JObj [(''enabled'', JBool pspEnabled)])])])]"

definition OnChangeInstallSUC :: "('w, 'z) sysagent_env_scheme \<Rightarrow> provisioned_cluster \<Rightarrow> go_error + applied_object list" where
  "OnChangeInstallSUC E cluster =
     (if pv_RKEConfig cluster = None then Inr []
      else if pv_FleetWorkspaceName cluster = '''' then Inr []
      else
        sbind (q_NewVersion E (pv_KubernetesVersion cluster)) (\<lambda>currentVersion.
        sbind (suc_chart_name E (pc_Name cluster)) (\<lambda>chartName.
          Inr [OChart \<lparr>mc_Namespace = pv_FleetWorkspaceName cluster, mc_Name = chartName, mc_DefaultNamespace = System,
                 mc_RepoName = ''rancher-charts'', mc_Chart = ''system-upgrade-controller'', mc_Version = y_ChartVersion E,
                 mc_ReleaseName = '''',
                 mc_Values = Some (suc_values (GetPrivateRepoURLFromCluster E cluster) (LessThan E currentVersion Kubernetes125)),
                 mc_Targets = [agent_target cluster], mc_Options = no_options\<rparr>])))"

section \<open>The bundle of a chart\<close>

fun chart_resources :: "('w, 'z) sysagent_env_scheme \<Rightarrow> string \<Rightarrow> tar_entry list \<Rightarrow> go_error + bundle_resource list" where
  "chart_resources E chart [] = Inr []"
| "chart_resources E chart (next # entries) =
     (if \<not> te_Regular next then chart_resources E chart entries
      else
        sbind (lib_gzip E (te_Content next)) (\<lambda>buf.
        sbind (chart_resources E chart entries) (\<lambda>rest.
          Inr (\<lparr>br_Name = TrimPrefix (te_Name next) (chart @ ''/''), br_Content = b64_encode buf, br_Encoding = ''base64+gz''\<rparr> # rest))))"

text \<open>
  Files of one name keep their order here; the source leaves it open. An archive that ends in
  an error gives the error of the first file that cannot be read or written.
\<close>

definition chart_bundle :: "('w, 'z) sysagent_env_scheme \<Rightarrow> ManagedChart \<Rightarrow> 'w \<Rightarrow> go_error + fleet_bundle" where
  "chart_bundle E mcc w =
     sbind (y_Chart E (mc_RepoName mcc) (mc_Chart mcc) (mc_Version mcc) w) (\<lambda>(entries, readErr).
     sbind (SafeConcatName E MaxHelmReleaseNameLength [''mcc'', mc_Name mcc]) (\<lambda>bundleName.
     sbind (chart_resources E (mc_Chart mcc) entries) (\<lambda>resources.
       case readErr of
         Some e \<Rightarrow> Inl e
       | None \<Rightarrow>
           Inr \<lparr>bd_Namespace = mc_Namespace mcc, bd_Name = bundleName, bd_DefaultNamespace = mc_DefaultNamespace mcc,
                bd_Helm = Some \<lparr>ho_ReleaseName = y_Limit E (mc_ReleaseName mcc) MaxHelmReleaseNameLength,
                                ho_Version = mc_Version mcc, ho_Values = mc_Values mcc\<rparr>,
                bd_Options = mc_Options mcc, bd_Resources = sort_key br_Name resources, bd_Targets = mc_Targets mcc,
                bd_Summary = no_summary\<rparr>)))"

definition chart_updateStatus :: "('w, 'z) sysagent_env_scheme \<Rightarrow> bundle_summary \<Rightarrow> fleet_bundle \<Rightarrow> 'w \<Rightarrow> bundle_summary \<times> err" where
  "chart_updateStatus E status b w =
     (case y_BundleGet E (bd_Namespace b) (bd_Name b) w of
        Inl e \<Rightarrow> if is_NotFound e then (status, None) else (status, Some e)
      | Inr found \<Rightarrow> (bd_Summary found, None))"

definition chart_OnChange ::
  "('w, 'z) sysagent_env_scheme \<Rightarrow> ManagedChart \<Rightarrow> bundle_summary \<Rightarrow> 'w \<Rightarrow> applied_object list \<times> bundle_summary \<times> err" where
  "chart_OnChange E mcc status w =
     (case chart_bundle E mcc w of
        Inl e \<Rightarrow> ([], status, Some e)
      | Inr b \<Rightarrow> ([OBundle b], chart_updateStatus E status b w))"

text \<open>The charts that a change of their repository queues again.\<close>

definition OnRepoChange :: "go_error + ManagedChart list \<Rightarrow> go_error + (string \<times> string) list" where
  "OnRepoChange mccs = sbind mccs (\<lambda>ms. Inr (map (\<lambda>mcc. (mc_Namespace mcc, mc_Name mcc)) ms))"

section \<open>The condition the planner reads\<close>

definition suc_report :: "('w, 'z) sysagent_env_scheme \<Rightarrow> string \<Rightarrow> string option \<Rightarrow> string \<Rightarrow> RKEControlPlaneStatus \<Rightarrow> RKEControlPlaneStatus" where
  "suc_report E reason message st status =
     (let A = lib_Cond E; t = SystemUpgradeControllerReady;
          c1 = c_SetReason A t reason (st_Conditions status);
          c2 = (case message of None \<Rightarrow> c1 | Some m \<Rightarrow> c_SetMessage A t m c1) in
      status\<lparr>st_Conditions := c_SetStatus A t st c2\<rparr>)"

definition suc_waiting :: "('w, 'z) sysagent_env_scheme \<Rightarrow> string \<Rightarrow> RKEControlPlaneStatus \<Rightarrow> RKEControlPlaneStatus \<times> err" where
  "suc_waiting E reason status = (suc_report E reason (Some '''') ''Unknown'' status, None)"

text \<open>The nested value \<open>global.cattle.psp\<close>, each level an object.\<close>

fun as_object :: "json option \<Rightarrow> config option" where
  "as_object (Some (JObj o')) = Some o'"
| "as_object _ = None"

definition psp_section :: "config \<Rightarrow> config option" where
  "psp_section data =
     (case as_object (map_of data ''global'') of
        None \<Rightarrow> None
      | Some global \<Rightarrow>
          (case as_object (map_of global ''cattle'') of
             None \<Rightarrow> None
           | Some cattle \<Rightarrow> as_object (map_of cattle ''psp'')))"

definition suc_verdict ::
  "('w, 'z) sysagent_env_scheme \<Rightarrow> RKEControlPlane \<Rightarrow> config \<Rightarrow> RKEControlPlaneStatus \<Rightarrow> RKEControlPlaneStatus \<times> err" where
  "suc_verdict E obj psp status =
     (case q_NewVersion E (sp_KubernetesVersion (cp_Spec obj)) of
        Inl e \<Rightarrow> (status, Some e)
      | Inr currentVersion \<Rightarrow>
          (case map_of psp ''enabled'' of
             Some (JBool enabled) \<Rightarrow>
               if \<not> LessThan E currentVersion Kubernetes125 \<and> enabled
               then (suc_report E ''system-upgrade-controller is deployed with podsecuritypolicy enabled'' None ''False'' status, None)
               else
                 (case y_MarshalSUC E enabled of
                    Inl e \<Rightarrow> (status, Some e)
                  | Inr metadata \<Rightarrow>
                      let A = lib_Cond E; t = SystemUpgradeControllerReady in
                      (status\<lparr>st_Conditions := c_SetStatus A t ''True''
                          (c_SetReason A t '''' (c_SetMessage A t (b64_encode metadata) (st_Conditions status)))\<rparr>, None))
           | _ \<Rightarrow> suc_waiting E ''waiting for system-upgrade-controller bundle update'' status))"

definition suc_rollout ::
  "('w, 'z) sysagent_env_scheme \<Rightarrow> RKEControlPlane \<Rightarrow> fleet_bundle \<Rightarrow> RKEControlPlaneStatus \<Rightarrow> RKEControlPlaneStatus \<times> err" where
  "suc_rollout E obj b status =
     (let s = bd_Summary b in
      if bs_Ready s \<noteq> bs_DesiredReady s \<or> bs_DesiredReady s = 0 then
        (case bs_NonReady s of
           msg # _ \<Rightarrow>
             if bs_ErrApplied s \<noteq> 0
             then suc_waiting E (''error encountered waiting for system-upgrade-controller bundle roll out: '' @ msg) status
             else suc_waiting E ''waiting for system-upgrade-controller bundle roll out'' status
         | [] \<Rightarrow> suc_waiting E ''waiting for system-upgrade-controller bundle roll out'' status)
      else
        (case Option.bind (bd_Helm b) ho_Values of
           None \<Rightarrow> suc_waiting E ''waiting for system-upgrade-controller bundle values availability'' status
         | Some data \<Rightarrow>
             (case psp_section data of
                None \<Rightarrow> suc_waiting E ''waiting for system-upgrade-controller bundle update'' status
              | Some psp \<Rightarrow> suc_verdict E obj psp status)))"

definition suc_bundle_name :: "'z libs_scheme \<Rightarrow> string \<Rightarrow> go_error + string" where
  "suc_bundle_name E clusterName =
     sbind (suc_chart_name E clusterName) (\<lambda>n. SafeConcatName E MaxHelmReleaseNameLength [''mcc'', n])"

definition syncSystemUpgradeControllerStatus ::
  "('w, 'z) sysagent_env_scheme \<Rightarrow> RKEControlPlane \<Rightarrow> RKEControlPlaneStatus \<Rightarrow> 'w \<Rightarrow> RKEControlPlaneStatus \<times> err" where
  "syncSystemUpgradeControllerStatus E obj status w =
     (case y_ProvClusterGet E (cp_Namespace obj) (cp_Name obj) w of
        Inl e \<Rightarrow> (status, Some e)
      | Inr cluster \<Rightarrow>
          if pv_FleetWorkspaceName cluster = ''''
          then (status, Some (ErrOther ''unable to sync system upgrade controller status, status.FleetWorkspaceName was blank''))
          else
            (case suc_bundle_name E (cp_Name obj) of
               Inl p \<Rightarrow> (status, Some p)
             | Inr bundleName \<Rightarrow>
                 (case y_BundleGet E (pv_FleetWorkspaceName cluster) bundleName w of
                    Inl e \<Rightarrow>
                      if is_NotFound e
                      then (suc_report E (''unable to find bundle '' @ bundleName @ '': '' @ Error e) (Some '''') ''False'' status, None)
                      else (status, Some e)
                  | Inr b \<Rightarrow> suc_rollout E obj b status)))"

end
