(* ===== verification/System_Agent_Correct.thy ===== *)
theory System_Agent_Correct
  imports System_Agent
begin

text \<open>
  The condition on the system upgrade controller between the controller that writes it and the
  planner that reads it: the planner lets an upgrade past Kubernetes 1.25 go on exactly when the
  controller's bundle is rolled out without pod security policies, and the chart that is
  installed for a version leads there.
\<close>

section \<open>Laws\<close>

definition message_laws :: "cond_api \<Rightarrow> bool" where
  "message_laws A \<longleftrightarrow>
     (\<forall>t v cs. c_GetMessage A t (c_SetMessage A t v cs) = v) \<and>
     (\<forall>t v cs. c_GetMessage A t (c_SetReason A t v cs) = c_GetMessage A t cs) \<and>
     (\<forall>t v cs. c_GetMessage A t (c_SetStatus A t v cs) = c_GetMessage A t cs)"

lemma list_message_laws [simp]: "message_laws list_conditions"
  by (simp add: message_laws_def list_conditions_def cond_message_def set_cond_message_def set_cond_reason_def set_cond_status_def)

definition suc_codec :: "('w, 'z) sysagent_env_scheme \<Rightarrow> bool" where
  "suc_codec E \<longleftrightarrow> (\<forall>b d. y_MarshalSUC E b = Inr d \<longrightarrow> d \<noteq> '''' \<and> q_UnmarshalSUC E d = Inr b)"

lemma b64_encode_nonempty: "s \<noteq> '''' \<Longrightarrow> b64_encode s \<noteq> ''''"
  using b64_encode_inj [of s "''''"] by (auto simp: b64_encode.simps)

lemma PSPsDisabled_encoded:
  assumes "suc_codec E" "y_MarshalSUC E b = Inr d"
  shows "systemUpgradeControllerPSPsDisabled E (b64_encode d) = Inr (\<not> b)"
  using assms b64_encode_nonempty [of d] by (simp add: suc_codec_def systemUpgradeControllerPSPsDisabled_def b64_decode_encode)

section \<open>The gate\<close>

text \<open>An upgrade across 1.25: the wanted version has passed it, the oldest kubelet has not.\<close>

definition crossing :: "('w, 'z) planner_env_scheme \<Rightarrow> semver \<Rightarrow> semver \<Rightarrow> bool" where
  "crossing E wanted oldest \<longleftrightarrow> \<not> LessThan E wanted Kubernetes125 \<and> LessThan E oldest Kubernetes125"

definition gate_open :: "('w, 'z) planner_env_scheme \<Rightarrow> RKEControlPlaneStatus \<Rightarrow> bool" where
  "gate_open E status \<longleftrightarrow>
     (let cs = st_Conditions status; A = lib_Cond E; t = SystemUpgradeControllerReady in
      c_GetStatus A t cs \<notin> {'''', ''False'', ''Unknown''} \<and> systemUpgradeControllerPSPsDisabled E (c_GetMessage A t cs) = Inr True)"

lemma block_iff:
  assumes "crossing E wanted oldest"
  shows "blockProgressForSUCPSPIf125 E msg status (Some wanted) (Some oldest) = None \<longleftrightarrow> gate_open E status"
  using assms
  by (auto simp: blockProgressForSUCPSPIf125_def crossing_def gate_open_def Let_def c_IsFalse_def c_IsUnknown_def
      SystemUpgradeControllerReady_def split: sum.splits)

lemma report_closed:
  assumes "conditions_laws (lib_Cond E)" "st = ''False'' \<or> st = ''Unknown''"
  shows "\<not> gate_open E (suc_report E reason message st status)"
  using assms by (auto simp: gate_open_def suc_report_def Let_def conditions_laws_def)

lemma waiting_closed:
  assumes "conditions_laws (lib_Cond E)" "suc_waiting E reason status = (status', r)"
  shows "\<not> gate_open E status'"
  using assms report_closed [of E "''Unknown''"] by (auto simp: suc_waiting_def)

lemma verdict_gate:
  assumes laws: "conditions_laws (lib_Cond E)" "message_laws (lib_Cond E)" "suc_codec E"
    and run: "suc_verdict E obj psp status = (status', None)"
  shows "gate_open E status' \<longleftrightarrow> map_of psp ''enabled'' = Some (JBool False)"
proof (cases "\<exists>enabled. map_of psp ''enabled'' = Some (JBool enabled)")
  case False
  with run have "\<exists>reason r. suc_waiting E reason status = (status', r)"
    by (auto simp: suc_verdict_def split: sum.splits option.splits json.splits)
  with waiting_closed [OF laws(1)] False show ?thesis by blast
next
  case True
  then obtain enabled where enabled: "map_of psp ''enabled'' = Some (JBool enabled)" by blast
  consider (blocked) reason where enabled "status' = suc_report E reason None ''False'' status"
    | (ready) d where "y_MarshalSUC E enabled = Inr d"
        "st_Conditions status' = c_SetStatus (lib_Cond E) SystemUpgradeControllerReady ''True''
          (c_SetReason (lib_Cond E) SystemUpgradeControllerReady ''''
            (c_SetMessage (lib_Cond E) SystemUpgradeControllerReady (b64_encode d) (st_Conditions status)))"
    using run enabled by (auto simp: suc_verdict_def Let_def split: sum.splits if_splits)
  then show ?thesis
  proof cases
    case blocked
    with report_closed [OF laws(1), of "''False''" reason None status] enabled show ?thesis by simp
  next
    case ready
    then have "gate_open E status' \<longleftrightarrow> \<not> enabled"
      using laws PSPsDisabled_encoded [OF laws(3) ready(1)] by (simp add: gate_open_def Let_def conditions_laws_def message_laws_def)
    with enabled show ?thesis by simp
  qed
qed

definition rolled_out :: "fleet_bundle \<Rightarrow> bool" where
  "rolled_out b \<longleftrightarrow> bs_Ready (bd_Summary b) = bs_DesiredReady (bd_Summary b) \<and> bs_DesiredReady (bd_Summary b) \<noteq> 0"

definition without_psps :: "fleet_bundle \<Rightarrow> bool" where
  "without_psps b \<longleftrightarrow>
     (\<exists>data psp. Option.bind (bd_Helm b) ho_Values = Some data \<and> psp_section data = Some psp \<and>
        map_of psp ''enabled'' = Some (JBool False))"

lemma rollout_gate:
  assumes "conditions_laws (lib_Cond E)" "message_laws (lib_Cond E)" "suc_codec E"
    and "suc_rollout E obj b status = (status', None)"
  shows "gate_open E status' \<longleftrightarrow> rolled_out b \<and> without_psps b"
proof (cases "rolled_out b")
  case False
  with assms(4) have "\<exists>reason r. suc_waiting E reason status = (status', r)"
    by (auto simp: suc_rollout_def rolled_out_def Let_def split: list.splits if_splits)
  with waiting_closed [OF assms(1)] False show ?thesis by blast
next
  case True
  then have run: "suc_rollout E obj b status =
      (case Option.bind (bd_Helm b) ho_Values of
         None \<Rightarrow> suc_waiting E ''waiting for system-upgrade-controller bundle values availability'' status
       | Some data \<Rightarrow>
           (case psp_section data of
              None \<Rightarrow> suc_waiting E ''waiting for system-upgrade-controller bundle update'' status
            | Some psp \<Rightarrow> suc_verdict E obj psp status))" by (simp add: suc_rollout_def rolled_out_def)
  show ?thesis
  proof (cases "\<exists>data psp. Option.bind (bd_Helm b) ho_Values = Some data \<and> psp_section data = Some psp")
    case psp: True
    then obtain data psp where d: "Option.bind (bd_Helm b) ho_Values = Some data" "psp_section data = Some psp" by blast
    with run assms(4) have "suc_verdict E obj psp status = (status', None)" by simp
    from verdict_gate [OF assms(1-3) this] d True show ?thesis by (simp add: without_psps_def)
  next
    case False
    with run assms(4) have "\<exists>reason r. suc_waiting E reason status = (status', r)" by (auto split: option.splits) metis+
    with waiting_closed [OF assms(1)] False show ?thesis by (auto simp: without_psps_def)
  qed
qed

text \<open>The bundle that the controller finds for a control plane.\<close>

definition suc_bundle :: "('w, 'z) sysagent_env_scheme \<Rightarrow> RKEControlPlane \<Rightarrow> 'w \<Rightarrow> fleet_bundle \<Rightarrow> bool" where
  "suc_bundle E obj w b \<longleftrightarrow>
     (\<exists>cluster n. y_ProvClusterGet E (cp_Namespace obj) (cp_Name obj) w = Inr cluster \<and> suc_bundle_name E (cp_Name obj) = Inr n \<and>
        y_BundleGet E (pv_FleetWorkspaceName cluster) n w = Inr b)"

lemma suc_bundle_unique: "suc_bundle E obj w b \<Longrightarrow> suc_bundle E obj w b' \<Longrightarrow> b = b'"
  by (auto simp: suc_bundle_def)

lemma sync_gate:
  assumes "conditions_laws (lib_Cond E)" "message_laws (lib_Cond E)" "suc_codec E"
    and "syncSystemUpgradeControllerStatus E obj status w = (status', None)"
  shows "gate_open E status' \<longleftrightarrow> (\<exists>b. suc_bundle E obj w b \<and> rolled_out b \<and> without_psps b)"
proof -
  consider (missing) reason where "status' = suc_report E reason (Some '''') ''False'' status" "\<And>b. \<not> suc_bundle E obj w b"
    | (found) b where "suc_bundle E obj w b" "suc_rollout E obj b status = (status', None)"
    using assms(4)
    by (auto simp: syncSystemUpgradeControllerStatus_def suc_bundle_def split: sum.splits if_splits)
  then show ?thesis
  proof cases
    case missing
    with report_closed [OF assms(1), of "''False''"] show ?thesis by simp
  next
    case found
    with rollout_gate [OF assms(1-3) found(2)] suc_bundle_unique [OF found(1)] show ?thesis by blast
  qed
qed

text \<open>
  C36. The gate before Kubernetes 1.25 says what it is meant to: with the status that the
  controller writes without an error, the planner lets an upgrade across 1.25 go on exactly
  when the bundle of the system upgrade controller exists, is rolled out completely to at
  least one target, and carries values that turn pod security policies off. This holds
  whatever version the control plane had when the status was written.
\<close>

theorem upgrade_gate_exact:
  assumes "conditions_laws (lib_Cond E)" "message_laws (lib_Cond E)" "suc_codec E"
    and "syncSystemUpgradeControllerStatus E obj status w = (status', None)" "crossing E wanted oldest"
  shows "blockProgressForSUCPSPIf125 E msg status' (Some wanted) (Some oldest) = None \<longleftrightarrow>
    (\<exists>b. suc_bundle E obj w b \<and> rolled_out b \<and> without_psps b)"
  using block_iff [OF assms(5)] sync_gate [OF assms(1-4)] by simp

section \<open>From the chart to the gate\<close>

lemma suc_values_psps: "psp_section (suc_values registry enabled) = Some [(''enabled'', JBool enabled)]"
  by (simp add: psp_section_def suc_values_def)

lemma chart_bundle_parts:
  assumes "chart_OnChange E mcc st w = ([OBundle b], r)"
  shows "bd_Namespace b = mc_Namespace mcc" "SafeConcatName E MaxHelmReleaseNameLength [''mcc'', mc_Name mcc] = Inr (bd_Name b)"
    "Option.bind (bd_Helm b) ho_Values = mc_Values mcc"
  using assms by (auto simp: chart_OnChange_def chart_bundle_def sbind_eq_Inr_iff split: sum.splits option.splits prod.splits)

text \<open>
  C37. The chart that is installed for a cluster leads to the gate: the bundle that is made of the
  chart of a cluster is the one whose state is written to the cluster's control plane. Once it is
  rolled out, the planner lets an upgrade across 1.25 go on exactly when the chart was made
  for a version from 1.25 on; for an older one the upgrade waits for the new chart.
\<close>

theorem chart_opens_gate:
  assumes laws: "conditions_laws (lib_Cond E)" "message_laws (lib_Cond E)" "suc_codec E"
    and chart: "OnChangeInstallSUC E cluster = Inr [OChart mcc]" "q_NewVersion E (pv_KubernetesVersion cluster) = Inr v"
    and deployed: "chart_OnChange E mcc st w = ([OBundle b], r)"
      "y_BundleGet E (bd_Namespace b) (bd_Name b) w' = Inr (b\<lparr>bd_Summary := summary\<rparr>)" "rolled_out (b\<lparr>bd_Summary := summary\<rparr>)"
    and same: "y_ProvClusterGet E (cp_Namespace obj) (cp_Name obj) w' = Inr cluster" "cp_Name obj = pc_Name cluster"
    and sync: "syncSystemUpgradeControllerStatus E obj status w' = (status', None)" "crossing E wanted oldest"
  shows "blockProgressForSUCPSPIf125 E msg status' (Some wanted) (Some oldest) = None \<longleftrightarrow> \<not> LessThan E v Kubernetes125"
proof -
  let ?b = "b\<lparr>bd_Summary := summary\<rparr>"
  from chart have mcc: "mc_Namespace mcc = pv_FleetWorkspaceName cluster" "suc_chart_name E (pc_Name cluster) = Inr (mc_Name mcc)"
    "mc_Values mcc = Some (suc_values (GetPrivateRepoURLFromCluster E cluster) (LessThan E v Kubernetes125))"
    by (auto simp: OnChangeInstallSUC_def sbind_eq_Inr_iff split: if_splits)
  note b = chart_bundle_parts [OF deployed(1)]
  have "suc_bundle_name E (cp_Name obj) = Inr (bd_Name b)" using b(2) mcc(2) same(2) by (simp add: suc_bundle_name_def)
  with deployed(2) same(1) b(1) mcc(1) have found: "suc_bundle E obj w' ?b" by (auto simp: suc_bundle_def)
  have "without_psps ?b \<longleftrightarrow> \<not> LessThan E v Kubernetes125"
    using b(3) mcc(3) by (simp add: without_psps_def suc_values_psps)
  with found deployed(3) suc_bundle_unique [OF found] sync_gate [OF laws sync(1)] block_iff [OF sync(2)] show ?thesis by blast
qed

section \<open>A concrete rollout\<close>

definition demo_prov :: provisioned_cluster where
  "demo_prov =
     \<lparr>pc_Namespace = ''fleet-default'', pc_Name = cp_Name demo_cp, pc_APIVersion = ''provisioning.cattle.io/v1'', pc_Kind = ''Cluster'',
      pc_UID = ''u1'', pv_RKEConfig = Some \<lparr>rc_MachineGlobalConfig = [], rc_MachineSelectorConfig = []\<rparr>,
      pv_KubernetesVersion = ''v1.27.6+rke2r1'', pv_AgentEnvVars = [], pv_RedeploySystemAgentGeneration = 0,
      pv_FleetWorkspaceName = ''fleet-default'', pv_ClusterName = ''c-m-1''\<rparr>"

definition demo_chart :: ManagedChart where
  "demo_chart =
     \<lparr>mc_Namespace = ''fleet-default'', mc_Name = cp_Name demo_cp @ ''-managed-system-upgrade-controller'', mc_DefaultNamespace = System,
      mc_RepoName = ''rancher-charts'', mc_Chart = ''system-upgrade-controller'', mc_Version = ''102.1.0'', mc_ReleaseName = '''',
      mc_Values = Some (suc_values (k_SystemDefaultRegistry demo_planner) False), mc_Targets = [agent_target demo_prov], mc_Options = no_options\<rparr>"

definition demo_bundle :: "bundle_summary \<Rightarrow> fleet_bundle" where
  "demo_bundle s =
     \<lparr>bd_Namespace = ''fleet-default'', bd_Name = ''mcc-'' @ mc_Name demo_chart, bd_DefaultNamespace = System,
      bd_Helm = Some \<lparr>ho_ReleaseName = '''', ho_Version = ''102.1.0'', ho_Values = mc_Values demo_chart\<rparr>, bd_Options = no_options,
      bd_Resources = [\<lparr>br_Name = ''Chart.yaml'', br_Content = b64_encode ''zname: suc'', br_Encoding = ''base64+gz''\<rparr>],
      bd_Targets = mc_Targets demo_chart, bd_Summary = s\<rparr>"

definition demo_summary :: bundle_summary where
  "demo_summary = \<lparr>bs_Ready = 1, bs_DesiredReady = 1, bs_ErrApplied = 0, bs_NonReady = []\<rparr>"

definition demo_sys :: "demo_world sysagent_env" where
  "demo_sys = planner_env.extend (demo_planner\<lparr>q_UnmarshalSUC := (\<lambda>s. Inr (s = ''t''))\<rparr>)
     \<lparr>y_ProvClusterGet = (\<lambda>_ _ _. Inr demo_prov), y_BundleGet = (\<lambda>_ _ _. Inr (demo_bundle demo_summary)), y_TokenGet = (\<lambda>_ _ _. Inr ''tok''),
      y_MarshalSUC = (\<lambda>b. Inr (if b then ''t'' else ''f'')), y_SystemAgentUpgradeImage = ''rancher/system-agent:v0.3'',
      y_WinsAgentUpgradeImage = ''rancher/wins:v0.4'', y_InternalServerURL = ''https://rancher'', y_InternalCAChecksum = ''ca'',
      y_ChartVersion = ''102.1.0'', y_SetGVK = (\<lambda>_. None), y_MarshalObject = (\<lambda>_. Inr ''{}''),
      y_Chart = (\<lambda>_ _ _ _. Inr ([\<lparr>te_Regular = True, te_Name = ''system-upgrade-controller/Chart.yaml'', te_Content = ''name: suc''\<rparr>], None)),
      y_Limit = (\<lambda>s _. s)\<rparr>"

definition v127 :: semver where "v127 = \<lparr>sv_Major = 1, sv_Minor = 27, sv_Patch = 6, sv_Prerelease = ''''\<rparr>"
definition v124 :: semver where "v124 = \<lparr>sv_Major = 1, sv_Minor = 24, sv_Patch = 9, sv_Prerelease = ''''\<rparr>"

lemma demo_sys_laws: "conditions_laws (lib_Cond demo_sys)" "message_laws (lib_Cond demo_sys)" "suc_codec demo_sys"
proof -
  have "lib_Cond demo_sys = list_conditions" by (simp add: demo_sys_def demo_planner_def demo_config_def demo_store_def demo_libs_def
      planner_env.defs config_env.defs store_env.defs libs.defs)
  then show "conditions_laws (lib_Cond demo_sys)" "message_laws (lib_Cond demo_sys)" by simp_all
  show "suc_codec demo_sys" by (simp add: suc_codec_def demo_sys_def demo_planner_def planner_env.defs)
qed

lemma demo_crossing: "crossing demo_sys v127 v124"
  unfolding crossing_def by code_simp

lemma demo_sync: "\<exists>st. syncSystemUpgradeControllerStatus demo_sys demo_cp demo_status Map.empty = (st, None)"
proof -
  have "snd (syncSystemUpgradeControllerStatus demo_sys demo_cp demo_status Map.empty) = None" by code_simp
  then show ?thesis by (metis prod.collapse)
qed

theorem upgrade_gate_exact_witness:
  "\<exists>st. syncSystemUpgradeControllerStatus demo_sys demo_cp demo_status Map.empty = (st, None) \<and>
     (blockProgressForSUCPSPIf125 demo_sys ''m'' st (Some v127) (Some v124) = None \<longleftrightarrow>
       (\<exists>b. suc_bundle demo_sys demo_cp Map.empty b \<and> rolled_out b \<and> without_psps b))"
proof -
  obtain st where st: "syncSystemUpgradeControllerStatus demo_sys demo_cp demo_status Map.empty = (st, None)" using demo_sync by blast
  from upgrade_gate_exact [OF demo_sys_laws st demo_crossing] st show ?thesis by blast
qed

theorem chart_opens_gate_witness:
  "\<exists>st. syncSystemUpgradeControllerStatus demo_sys demo_cp demo_status Map.empty = (st, None) \<and>
     blockProgressForSUCPSPIf125 demo_sys ''m'' st (Some v127) (Some v124) = None"
proof -
  obtain st where st: "syncSystemUpgradeControllerStatus demo_sys demo_cp demo_status Map.empty = (st, None)" using demo_sync by blast
  have chart: "OnChangeInstallSUC demo_sys demo_prov = Inr [OChart demo_chart]" by code_simp
  have v: "q_NewVersion demo_sys (pv_KubernetesVersion demo_prov) = Inr v127" by code_simp
  have run: "fst (chart_OnChange demo_sys demo_chart no_summary Map.empty) = [OBundle (demo_bundle no_summary)]" by code_simp
  then obtain r where deployed: "chart_OnChange demo_sys demo_chart no_summary Map.empty = ([OBundle (demo_bundle no_summary)], r)"
    by (metis prod.collapse)
  have upd: "(demo_bundle no_summary)\<lparr>bd_Summary := demo_summary\<rparr> = demo_bundle demo_summary" by (simp add: demo_bundle_def)
  have get: "y_BundleGet demo_sys ns n w = Inr (demo_bundle demo_summary)" "y_ProvClusterGet demo_sys ns n w = Inr demo_prov" for ns n w
    by (simp_all add: demo_sys_def planner_env.defs)
  have out: "rolled_out ((demo_bundle no_summary)\<lparr>bd_Summary := demo_summary\<rparr>)"
    by (simp add: rolled_out_def demo_summary_def)
  have same: "cp_Name demo_cp = pc_Name demo_prov" by (simp add: demo_prov_def)
  have new: "\<not> LessThan demo_sys v127 Kubernetes125" using demo_crossing by (simp add: crossing_def)
  from chart_opens_gate [OF demo_sys_laws chart v deployed _ out get(2) same st demo_crossing] new st get(1) upd show ?thesis
    by metis
qed

end
