(* ===== verification/Machine_Args.thy ===== *)
theory Machine_Args
  imports Controller_Env
begin

text \<open>
  What the controller that provisions machines asks for: the arguments, the environment and the
  files of the job that creates or removes a server (\<open>controllers/capr/machineprovision/args.go\<close> and
  \<open>template.go\<close>, with the secrets that \<open>controller.go\<close> builds for them).

  An infrastructure machine is an unstructured object; its content and its metadata are one
  value, so a change of the content shows in both. Of the status the conditions are kept
  apart, as the library reads them; the other keys, and the keys of the spec, are a sorted list.
  A spec that is absent is an empty one. A JSON number is a \<open>float64\<close>; an integer of the
  decoder of Kubernetes is not.
\<close>

section \<open>Data\<close>

record gvk =
  gv_Group :: string
  gv_Version :: string
  gv_Kind :: string

record infra_object =
  io_GVK :: gvk
  io_Namespace :: string
  io_Name :: string
  io_Labels :: smap
  io_Annotations :: smap
  io_OwnerReferences :: "owner_ref list"
  io_DeletionTimestamp :: "string option"
  io_Spec :: config
  io_Status :: config
  io_Conditions :: "cond list"

text \<open>The addresses of the status are written by another controller.\<close>

record RKEMachineStatus =
  ms_Conditions :: "cond list"
  ms_JobName :: string
  ms_Ready :: bool
  ms_DriverHash :: string
  ms_DriverURL :: string
  ms_CloudCredentialSecretName :: string
  ms_FailureReason :: string
  ms_FailureMessage :: string

record data_secret =
  ds_Namespace :: string
  ds_Name :: string
  ds_Type :: string
  ds_Data :: "(string \<times> string) list"

record driverArgs =
  da_Status :: RKEMachineStatus
  da_DriverName :: string
  da_ImageName :: string
  da_CapiMachineName :: string
  da_MachineName :: string
  da_MachineNamespace :: string
  da_MachineGVK :: gvk
  da_ImagePullPolicy :: string
  da_EnvSecret :: data_secret
  da_FilesSecret :: "data_secret option"
  da_CertsSecret :: "data_secret option"
  da_StateSecretName :: string
  da_BootstrapSecretName :: string
  da_BootstrapRequired :: bool
  da_Args :: "string list"
  da_BackoffLimit :: int

record prov_machine = cluster_machine +
  m_DataSecretName :: "string option"

record node_driver =
  dr_Name :: string
  dr_URL :: string
  dr_Checksum :: string

record job_volume =
  jv_Name :: string
  jv_SecretName :: string
  jv_Items :: "(string \<times> string) list"
  jv_DefaultMode :: int

record volume_mount =
  vm_Name :: string
  vm_MountPath :: string
  vm_SubPath :: string

record prov_job =
  pj_Namespace :: string
  pj_Name :: string
  pj_Labels :: smap
  pj_BackoffLimit :: int
  pj_Volumes :: "job_volume list"
  pj_Image :: string
  pj_ImagePullPolicy :: string
  pj_Args :: "string list"
  pj_EnvFrom :: string
  pj_VolumeMounts :: "volume_mount list"
  pj_ServiceAccountName :: string

datatype prov_object =
    PSecret "data_secret option"
  | PServiceAccount string string
  | PRole string string "string list" "string list" "string list"
  | PRoleBinding string string "string \<times> string" string
  | PJob prov_job

text \<open>
  The clients and caches, the settings, the environment and the files of the server. A job is
  read as \<open>job_object\<close> of the controller's theory; here only what its arguments need.
\<close>

record 'w args_env = "'w planner_env" +
  p_NodeDriverGet :: "string \<Rightarrow> 'w \<Rightarrow> go_error + node_driver"
  p_MachineGet :: "string \<Rightarrow> string \<Rightarrow> 'w \<Rightarrow> go_error + prov_machine"
  p_ClusterGet :: "string \<Rightarrow> string \<Rightarrow> 'w \<Rightarrow> go_error + (string \<times> string option)"
  p_BootstrapGet :: "objref \<Rightarrow> string \<Rightarrow> 'w \<Rightarrow> go_error + config"
  p_SecretGet :: "string \<Rightarrow> string \<Rightarrow> 'w \<Rightarrow> go_error + (string \<times> string) list"
  p_Convert :: "config \<Rightarrow> go_error + config"
  p_Getenv :: "string \<Rightarrow> string"
  p_Stat :: "string \<Rightarrow> err"
  p_ReadFile :: "string \<Rightarrow> go_error + string"
  p_UIPath :: string
  p_ServerURL :: string
  p_MachineProvisionImage :: string
  p_MachineProvisionImagePullPolicy :: string
  p_WhitelistEnvironmentVars :: string
  p_CACerts :: string
  p_InternalCACerts :: string

definition InfraMachineGroup :: string where "InfraMachineGroup = ''rke.cattle.io/infra-machine-group''"
definition InfraMachineVersion :: string where "InfraMachineVersion = ''rke.cattle.io/infra-machine-version''"
definition InfraMachineKind :: string where "InfraMachineKind = ''rke.cattle.io/infra-machine-kind''"
definition InfraMachineName :: string where "InfraMachineName = ''rke.cattle.io/infra-machine-name''"
definition InfraJobRemove :: string where "InfraJobRemove = ''rke.cattle.io/infra-remove''"
definition CapiMachineName :: string where "CapiMachineName = ''rke.cattle.io/capi-machine-name''"
definition pathToMachineFiles :: string where "pathToMachineFiles = ''/path/to/machine/files''"
definition sslCertDir :: string where "sslCertDir = ''/etc/rancher/ssl''"
definition awsClusterTagPrefix :: string where "awsClusterTagPrefix = ''kubernetes.io/cluster/''"
definition HostnameLengthLimitAnnotation :: string where "HostnameLengthLimitAnnotation = ''rke.cattle.io/hostname-length-limit''"
definition MinimumHostnameLengthLimit :: int where "MinimumHostnameLengthLimit = 10"
definition MaximumHostnameLengthLimit :: int where "MaximumHostnameLengthLimit = 63"
definition DockerMachineDriverPrefix :: string where "DockerMachineDriverPrefix = ''docker-machine-driver-''"

lemmas infra_labels =
  InfraMachineGroup_def InfraMachineVersion_def InfraMachineKind_def InfraMachineName_def InfraJobRemove_def CapiMachineName_def

section \<open>The arguments of the driver\<close>

definition spec_string :: "('w, 'z) config_env_scheme \<Rightarrow> infra_object \<Rightarrow> string \<Rightarrow> string" where
  "spec_string E infra k = k_ToString E (cfg_get (io_Spec infra) k)"

definition status_string :: "('w, 'z) config_env_scheme \<Rightarrow> infra_object \<Rightarrow> string \<Rightarrow> string" where
  "status_string E infra k = k_ToString E (cfg_get (io_Status infra) k)"

definition envNameOverride :: "string \<Rightarrow> string" where
  "envNameOverride driver =
     (case map_of [(''amazonec2'', ''AWS''), (''rackspace'', ''OS''), (''openstack'', ''OS''), (''vmwarevsphere'', ''VSPHERE''),
                   (''vmwarefusion'', ''FUSION''), (''vmwarevcloudair'', ''VCLOUDAIR'')] driver of
        Some n \<Rightarrow> n
      | None \<Rightarrow> driver)"

text \<open>\<open>regExHyphen.ReplaceAllString\<close>: a separator between a lower-case letter and an upper-case one.\<close>

fun regExHyphen :: "char \<Rightarrow> string \<Rightarrow> string" where
  "regExHyphen sep (a # b # s) =
     (if CHR ''a'' \<le> a \<and> a \<le> CHR ''z'' \<and> CHR ''A'' \<le> b \<and> b \<le> CHR ''Z''
      then a # sep # b # regExHyphen sep s else a # regExHyphen sep (b # s))"
| "regExHyphen sep s = s"

definition addAwsClusterOwnedTag :: "('w, 'z) config_env_scheme \<Rightarrow> config \<Rightarrow> string \<Rightarrow> config" where
  "addAwsClusterOwnedTag E args clusterID =
     (let tagValue = awsClusterTagPrefix @ clusterID @ '',owned'' in
      case map_of args ''tags'' of
        None \<Rightarrow> gm_put ''tags'' (JStr tagValue) args
      | Some tags \<Rightarrow>
          let tagString = k_ToString E tags in
          if tagString = '''' then gm_put ''tags'' (JStr tagValue) args
          else if \<not> Contains tagString awsClusterTagPrefix then gm_put ''tags'' (JStr (tagString @ '','' @ tagValue)) args
          else args)"

definition machine_arg :: "string \<Rightarrow> string \<times> json \<Rightarrow> string list" where
  "machine_arg driverName kv =
     (case kv of (k, v) \<Rightarrow>
        let dmField = ''--'' @ driverName @ ''-'' @ ToLower (regExHyphen CHR ''-'' k) in
        if k = ''providerID'' then []
        else (case v of
                JNum n \<Rightarrow> [dmField @ ''='' @ n]
              | JStr s \<Rightarrow> if s \<noteq> '''' then [dmField @ ''='' @ s] else []
              | JBool b \<Rightarrow> if b then [dmField] else []
              | JArr vs \<Rightarrow> map (\<lambda>s. dmField @ ''='' @ s) (concat (map (\<lambda>x. case x of JStr s \<Rightarrow> [s] | _ \<Rightarrow> []) vs))
              | _ \<Rightarrow> []))"

text \<open>The arguments, and the map of them as it is changed in place.\<close>

definition toArgs :: "('w, 'z) config_env_scheme \<Rightarrow> string \<Rightarrow> config \<Rightarrow> string \<Rightarrow> string list \<times> config" where
  "toArgs E driverName args clusterID =
     (let args' = (if driverName = ''amazonec2'' then addAwsClusterOwnedTag E args clusterID else args);
          cmd = concat (map (machine_arg driverName) args') @
                (if driverName = ''amazonec2'' \<and> k_ToString E (cfg_get args' ''securityGroup'') \<noteq> ''rancher-nodes'' \<and>
                    cfg_get args' ''securityGroupReadonly'' = JNull
                 then [''--amazonec2-security-group-readonly''] else []) in
      (sort cmd, args'))"

definition getNodeDriverName :: "gvk \<Rightarrow> string" where
  "getNodeDriverName typeMeta = ToLower (TrimSuffix (gv_Kind typeMeta) ''Machine'')"

definition hashFile :: "('w, 'z) args_env_scheme \<Rightarrow> string \<Rightarrow> go_error + string" where
  "hashFile E path = sbind (p_ReadFile E path) (\<lambda>content. Inr (lib_sha256_hex E content))"

definition getDriverDownloadURL :: "('w, 'z) args_env_scheme \<Rightarrow> node_driver \<Rightarrow> go_error + (string \<times> string)" where
  "getDriverDownloadURL E nd =
     (if p_Getenv E ''CATTLE_DEV_MODE'' \<noteq> '''' then Inr (dr_URL nd, dr_Checksum nd)
      else
        let driverName = (if HasPrefix (dr_Name nd) DockerMachineDriverPrefix then dr_Name nd else DockerMachineDriverPrefix @ dr_Name nd);
            path = (case filter (\<lambda>e. e \<noteq> '''') [p_UIPath E, ''assets'', driverName] of [] \<Rightarrow> '''' | es \<Rightarrow> Clean (Join es ''/'')) in
        if p_Stat E path \<noteq> None then Inr (dr_URL nd, dr_Checksum nd)
        else sbind (hashFile E path) (\<lambda>hash. Inr (p_ServerURL E @ ''/assets/'' @ driverName, hash)))"

definition hashName :: "'z libs_scheme \<Rightarrow> string \<Rightarrow> string" where
  "hashName E name = take 32 (lib_sha256_hex E name)"

definition getWhitelistedEnvVars :: "('w, 'z) args_env_scheme \<Rightarrow> (string \<times> string) list" where
  "getWhitelistedEnvVars E =
     foldl (\<lambda>m v. if p_Getenv E v \<noteq> '''' then gm_put v (p_Getenv E v) m else m) []
       (map TrimSpace (Split (p_WhitelistEnvironmentVars E) '',''))"

definition GetMachineProvisionImagePullPolicy :: "('w, 'z) args_env_scheme \<Rightarrow> string" where
  "GetMachineProvisionImagePullPolicy E =
     (let p = p_MachineProvisionImagePullPolicy E in
      if List.member [''Always'', ''IfNotPresent'', ''Never''] p then p else ''Always'')"

definition PrefixPrivateRegistry :: "('w, 'z) config_env_scheme \<Rightarrow> string \<Rightarrow> string" where
  "PrefixPrivateRegistry E img = (if k_SystemDefaultRegistry E = '''' then img else k_SystemDefaultRegistry E @ ''/'' @ img)"

section \<open>Names\<close>

definition hostname_limit :: "infra_object \<Rightarrow> int" where
  "hostname_limit infra =
     (let limitAnno = gets (io_Annotations infra) HostnameLengthLimitAnnotation in
      if limitAnno = '''' then MaximumHostnameLengthLimit
      else (case Atoi limitAnno of
              Inl _ \<Rightarrow> MaximumHostnameLengthLimit
            | Inr l \<Rightarrow> if l < MinimumHostnameLengthLimit \<or> l > MaximumHostnameLengthLimit then MaximumHostnameLengthLimit else l))"

definition getHostname :: "'z libs_scheme \<Rightarrow> infra_object \<Rightarrow> go_error + string" where
  "getHostname E infra = SafeConcatName E (hostname_limit infra) [ReplaceAll (io_Name infra) ''.'' ''-'']"

definition getInstanceName :: "'z libs_scheme \<Rightarrow> infra_object \<Rightarrow> string" where
  "getInstanceName E infra = lib_SafeConcatName E [ReplaceAll (io_Name infra) ''.'' ''-'']"

definition GetJobName :: "'z libs_scheme \<Rightarrow> string \<Rightarrow> string" where
  "GetJobName E name = lib_SafeConcatName E [name, ''machine'', ''provision'']"

section \<open>Secrets\<close>

definition SSHKeyFields :: "string \<Rightarrow> bool" where
  "SSHKeyFields f \<longleftrightarrow> List.member [''sshKeyContents'', ''sshKey'', ''privateKeyFile''] f"

definition SchemaToDriverFields :: "string \<Rightarrow> (string \<times> string) list option" where
  "SchemaToDriverFields driver = map_of
     [(''aliyunecs'', [(''sshKeyContents'', ''sshKeypath'')]),
      (''amazonec2'', [(''sshKeyContents'', ''sshKeypath''), (''userdata'', ''userdata'')]),
      (''azure'', [(''customData'', ''customData'')]),
      (''digitalocean'', [(''sshKeyContents'', ''sshKeyPath''), (''userdata'', ''userdata'')]),
      (''exoscale'', [(''sshKey'', ''sshKey''), (''userdata'', ''userdata'')]),
      (''openstack'', [(''cacert'', ''cacert''), (''privateKeyFile'', ''privateKeyFile''), (''userDataFile'', ''userDataFile'')]),
      (''otc'', [(''privateKeyFile'', ''privateKeyFile'')]),
      (''packet'', [(''userdata'', ''userdata'')]),
      (''pod'', [(''userdata'', ''userdata'')]),
      (''vmwarevsphere'', [(''cloudConfig'', ''cloud-config'')]),
      (''google'', [(''authEncodedJson'', ''authEncodedJson'')])] driver"

text \<open>A field that holds a file moves to the secret and leaves its path.\<close>

definition move_file :: "string \<times> string \<Rightarrow> (string \<times> string) list \<times> config \<Rightarrow> (string \<times> string) list \<times> config" where
  "move_file field acc =
     (case (field, acc) of ((schemaField, driverField), (secretData, config)) \<Rightarrow>
        (case map_of config schemaField of
           Some (JStr fileContents) \<Rightarrow>
             let config' = gm_del schemaField config in
             if fileContents = '''' then (secretData, config')
             else
               let fileName = (if SSHKeyFields schemaField then ''id_rsa'' else driverField);
                   contents = (if HasSuffix fileContents [CHR 0x0A] then fileContents else fileContents @ [CHR 0x0A]) in
               (gm_put fileName contents secretData, gm_put driverField (JStr (pathToMachineFiles @ ''/'' @ fileName)) config')
         | _ \<Rightarrow> (secretData, config)))"

definition constructFilesSecret :: "string \<Rightarrow> config \<Rightarrow> data_secret option \<times> config" where
  "constructFilesSecret driver config =
     (case SchemaToDriverFields driver of
        None \<Rightarrow> (None, config)
      | Some aliased \<Rightarrow>
          (case fold move_file aliased ([], config) of
             (secretData, config') \<Rightarrow> (Some \<lparr>ds_Namespace = '''', ds_Name = '''', ds_Type = '''', ds_Data = secretData\<rparr>, config')))"

definition constructCertsSecret :: "('w, 'z) args_env_scheme \<Rightarrow> string \<Rightarrow> string \<Rightarrow> 'w \<Rightarrow> go_error + data_secret option" where
  "constructCertsSecret E machineName machineNamespace w =
     (let d1 = (if p_CACerts E \<noteq> '''' then gm_put ''tls.crt'' (p_CACerts E) [] else []);
          d2 = (if p_InternalCACerts E \<noteq> '''' then gm_put ''internal-tls.crt'' (p_InternalCACerts E) d1 else d1);
          found = (\<lambda>certs. Inr (if certs = [] then None
            else Some \<lparr>ds_Namespace = machineNamespace, ds_Name = lib_SafeConcatName E [''machine'', ''certs'', hashName E machineName],
                        ds_Type = '''', ds_Data = certs\<rparr>)) in
      case p_SecretGet E ''cattle-system'' ''tls-additional'' w of
        Inl e \<Rightarrow> if is_NotFound e then found d2 else Inl e
      | Inr extra \<Rightarrow> found (foldl (\<lambda>m (k, v). gm_put k v m) d2 extra))"

definition getBootstrapSecretName :: "('w, 'z) args_env_scheme \<Rightarrow> prov_machine \<Rightarrow> 'w \<Rightarrow> go_error + string" where
  "getBootstrapSecretName E machine w =
     (case m_ConfigRef machine of
        None \<Rightarrow> Inr ''''
      | Some ref \<Rightarrow>
          (case p_BootstrapGet E ref (m_Namespace machine) w of
             Inl e \<Rightarrow> if is_NotFound e then Inr '''' else Inl e
           | Inr bootstrap \<Rightarrow>
               sbind (p_Convert E bootstrap) (\<lambda>d. Inr (k_ToString E (k_GetValueN E d [''status'', ''dataSecretName''])))))"

text \<open>The machine is never nil here: its lookup has succeeded.\<close>

definition getSecretData ::
  "('w, 'z) args_env_scheme \<Rightarrow> prov_machine \<Rightarrow> infra_object \<Rightarrow> 'w \<Rightarrow> go_error + (string \<times> string \<times> (string \<times> string) list)" where
  "getSecretData E machine infra w =
     (let oldCredential = status_string E infra ''cloudCredentialSecretName'';
          newCredential = k_ToString E (k_GetValueN E (io_Spec infra) [''common'', ''cloudCredentialSecretName'']);
          credential = (if newCredential = '''' then oldCredential else newCredential) in
      sbind (if credential \<noteq> '''' then GetCloudCredentialSecret E (m_Namespace machine) credential w else Inr []) (\<lambda>secrets.
      sbind (getBootstrapSecretName E machine w) (\<lambda>bootstrapName. Inr (bootstrapName, credential, secrets))))"

definition driver_env :: "'z libs_scheme \<Rightarrow> string \<Rightarrow> (string \<times> string) list \<Rightarrow> (string \<times> string) list \<Rightarrow> (string \<times> string) list" where
  "driver_env E driver secrets env =
     foldl (\<lambda>m (k, v). gm_put (ToUpper (envNameOverride driver @ ''_'' @ regExHyphen CHR ''_'' (snd (lib_kv_RSplit E k ''-'')))) v m)
       env secrets"

text \<open>Where the driver comes from. Only a removal does without the driver object.\<close>

definition driver_source ::
  "('w, 'z) args_env_scheme \<Rightarrow> infra_object \<Rightarrow> string \<Rightarrow> bool \<Rightarrow> 'w \<Rightarrow> go_error + (string \<times> string)" where
  "driver_source E infra driver create w =
     (case p_NodeDriverGet E driver w of
        Inl e \<Rightarrow>
          if \<not> create \<and> is_NotFound e then Inr (status_string E infra ''driverURL'', status_string E infra ''driverHash'') else Inl e
      | Inr nd \<Rightarrow> if HasPrefix (dr_URL nd) ''local://'' then Inr ('''', '''') else getDriverDownloadURL E nd)"

definition create_command ::
  "('w, 'z) args_env_scheme \<Rightarrow> infra_object \<Rightarrow> config \<Rightarrow> string \<Rightarrow> 'w \<Rightarrow> go_error + (string list \<times> config)" where
  "create_command E infra args driver w =
     sbind (getHostname E infra) (\<lambda>hostname.
     sbind (p_ClusterGet E (io_Namespace infra) (gets (io_Labels infra) CAPIClusterNameLabel) w) (\<lambda>(clusterID, _).
       case toArgs E driver args clusterID of (rendered, args') \<Rightarrow>
         Inr ([''create'', ''--driver='' @ driver, ''--custom-install-script=/run/secrets/machine/value''] @
              (if hostname \<noteq> getInstanceName E infra then [''--hostname-override='' @ hostname] else []) @ rendered, args')))"

text \<open>
  The arguments of a job; the spec of the machine is changed on the way, by the files that
  move to a secret and the tag of the cluster.
\<close>

definition getArgsEnvAndStatus ::
  "('w, 'z) args_env_scheme \<Rightarrow> infra_object \<Rightarrow> string \<Rightarrow> bool \<Rightarrow> 'w \<Rightarrow> go_error + (driverArgs \<times> infra_object)" where
  "getArgsEnvAndStatus E infra driver create w =
     sbind (driver_source E infra driver create w) (\<lambda>(url, hash).
     let machineName = gets (io_Labels infra) CapiMachineName in
     sbind (p_MachineGet E (io_Namespace infra) machineName w) (\<lambda>machine.
     sbind (getSecretData E machine infra w) (\<lambda>(bootstrapName, credential, secrets).
     let secretName = MachineStateSecretName E (io_Name infra);
         cmd = [''--driver-download-url='' @ url, ''--driver-hash='' @ hash, ''--secret-namespace='' @ io_Namespace infra,
                ''--secret-name='' @ secretName];
         (filesSecret, args) = constructFilesSecret driver (io_Spec infra) in
     sbind (if create then create_command E infra args driver w else Inr ([''rm'', ''-y'', ''--update-config''], args)) (\<lambda>(verb, spec).
     sbind (constructCertsSecret E (io_Name infra) (io_Namespace infra) w) (\<lambda>certsSecret.
       Inr (\<lparr>da_Status = \<lparr>ms_Conditions = [], ms_JobName = '''', ms_Ready = (spec_string E infra ''providerID'' \<noteq> ''''),
                ms_DriverHash = hash, ms_DriverURL = url, ms_CloudCredentialSecretName = credential, ms_FailureReason = '''',
                ms_FailureMessage = ''''\<rparr>,
             da_DriverName = driver, da_ImageName = PrefixPrivateRegistry E (p_MachineProvisionImage E),
             da_CapiMachineName = machineName, da_MachineName = io_Name infra, da_MachineNamespace = io_Namespace infra,
             da_MachineGVK = io_GVK infra, da_ImagePullPolicy = GetMachineProvisionImagePullPolicy E,
             da_EnvSecret = \<lparr>ds_Namespace = io_Namespace infra,
                ds_Name = lib_SafeConcatName E [io_Name infra, ''machine'', ''driver'', ''secret''], ds_Type = '''',
                ds_Data = driver_env E driver secrets (getWhitelistedEnvVars E)\<rparr>,
             da_FilesSecret = filesSecret, da_CertsSecret = certsSecret, da_StateSecretName = secretName,
             da_BootstrapSecretName = bootstrapName, da_BootstrapRequired = create,
             da_Args = cmd @ verb @ [getInstanceName E infra], da_BackoffLimit = (if create then 0 else 3)\<rparr>,
            infra\<lparr>io_Spec := spec\<rparr>))))))"

section \<open>The objects of a job\<close>

definition named_files :: "'z libs_scheme \<Rightarrow> driverArgs \<Rightarrow> data_secret option" where
  "named_files E args =
     map_option (\<lambda>s. if ds_Name s = '''' then s\<lparr>ds_Name := GetJobName E (da_MachineName args), ds_Namespace := da_MachineNamespace args\<rparr>
                     else s) (da_FilesSecret args)"

definition job_volumes :: "'z libs_scheme \<Rightarrow> driverArgs \<Rightarrow> job_volume list" where
  "job_volumes E args =
     (if da_BootstrapRequired args
      then [\<lparr>jv_Name = ''bootstrap'', jv_SecretName = da_BootstrapSecretName args, jv_Items = [], jv_DefaultMode = 511\<rparr>] else []) @
     (case named_files E args of
        None \<Rightarrow> []
      | Some s \<Rightarrow> [\<lparr>jv_Name = ''machine-files'', jv_SecretName = ds_Name s, jv_Items = map (\<lambda>f. (f, f)) (sort (map fst (ds_Data s))),
                     jv_DefaultMode = 420\<rparr>]) @
     (case da_CertsSecret args of
        None \<Rightarrow> []
      | Some s \<Rightarrow> [\<lparr>jv_Name = ''machine-certs'', jv_SecretName = ds_Name s, jv_Items = [], jv_DefaultMode = 420\<rparr>])"

definition job_mounts :: "driverArgs \<Rightarrow> volume_mount list" where
  "job_mounts args = sort_key vm_MountPath
     ((if da_BootstrapRequired args then [\<lparr>vm_Name = ''bootstrap'', vm_MountPath = ''/run/secrets/machine'', vm_SubPath = ''''\<rparr>] else []) @
      (if da_FilesSecret args \<noteq> None then [\<lparr>vm_Name = ''machine-files'', vm_MountPath = pathToMachineFiles, vm_SubPath = ''''\<rparr>] else []) @
      (case da_CertsSecret args of
         None \<Rightarrow> []
       | Some s \<Rightarrow> map (\<lambda>(key, _). \<lparr>vm_Name = ''machine-certs'', vm_MountPath = sslCertDir @ ''/'' @ key, vm_SubPath = key\<rparr>) (ds_Data s)))"

definition job_labels :: "driverArgs \<Rightarrow> smap" where
  "job_labels args =
     [InfraMachineGroup \<mapsto> gv_Group (da_MachineGVK args), InfraMachineVersion \<mapsto> gv_Version (da_MachineGVK args),
      InfraMachineKind \<mapsto> gv_Kind (da_MachineGVK args), InfraMachineName \<mapsto> da_MachineName args,
      InfraJobRemove \<mapsto> (if \<not> da_BootstrapRequired args then ''true'' else ''false''), CapiMachineName \<mapsto> da_CapiMachineName args]"

definition machine_state_secret :: "driverArgs \<Rightarrow> data_secret" where
  "machine_state_secret args = \<lparr>ds_Namespace = da_MachineNamespace args, ds_Name = da_StateSecretName args, ds_Type = ''rke.cattle.io/machine-state'',
     ds_Data = []\<rparr>"

definition provision_job :: "'z libs_scheme \<Rightarrow> driverArgs \<Rightarrow> prov_job" where
  "provision_job E args =
     \<lparr>pj_Namespace = da_MachineNamespace args, pj_Name = GetJobName E (da_MachineName args), pj_Labels = job_labels args,
      pj_BackoffLimit = da_BackoffLimit args, pj_Volumes = job_volumes E args, pj_Image = da_ImageName args,
      pj_ImagePullPolicy = da_ImagePullPolicy args, pj_Args = da_Args args, pj_EnvFrom = ds_Name (da_EnvSecret args),
      pj_VolumeMounts = job_mounts args, pj_ServiceAccountName = GetJobName E (da_MachineName args)\<rparr>"

definition objects :: "'z libs_scheme \<Rightarrow> bool \<Rightarrow> driverArgs \<Rightarrow> prov_object list" where
  "objects E ready args =
     (if ready then [PSecret (Some (machine_state_secret args))]
      else
        let saName = GetJobName E (da_MachineName args); ns = da_MachineNamespace args in
        [PSecret (Some (da_EnvSecret args)), PSecret (Some (machine_state_secret args)), PServiceAccount ns saName,
         PRole ns saName [''get'', ''update''] [''secrets''] [da_StateSecretName args],
         PRoleBinding ns saName (saName, ns) saName,
         PSecret (named_files E args), PSecret (da_CertsSecret args),
         PRoleBinding ns (lib_SafeConcatName E [saName, ''extension'']) (saName, ns) ''rke2-machine-provisioner'',
         PJob (provision_job E args)])"

end
