(* ===== verification/Machine_Provision.thy ===== *)
theory Machine_Provision
  imports Machine_Args
begin

text \<open>
  The controller that provisions machines (\<open>controllers/capr/machineprovision/controller.go\<close>): it runs a job that
  creates the server of an infrastructure machine, follows it, and on deletion runs a job that removes
  the server before it lets the machine go.
\<close>

section \<open>Data\<close>

record job_object =
  jo_Namespace :: string
  jo_Name :: string
  jo_TemplateLabels :: smap
  jo_Selector :: string
  jo_Conditions :: "cond list"
  jo_CompletionTime :: "string option"

text \<open>A container that has terminated has an exit code and a message.\<close>

record job_pod =
  jp_Namespace :: string
  jp_Labels :: smap
  jp_CreationTimestamp :: int
  jp_Phase :: string
  jp_Terminated :: "(int \<times> string) option list"

record 'w provision_env = "'w args_env" +
  p_Accessor :: "infra_object \<Rightarrow> err"
  p_Equals :: "cond \<Rightarrow> cond \<Rightarrow> bool"
  p_MachineSetGet :: "string \<Rightarrow> string \<Rightarrow> 'w \<Rightarrow> go_error + string"
  p_NamespaceGet :: "string \<Rightarrow> 'w \<Rightarrow> go_error + string option"
  p_CAPIClusterGet :: "string \<Rightarrow> string \<Rightarrow> 'w \<Rightarrow> go_error + capi_cluster"
  p_IsPaused :: "capi_cluster \<Rightarrow> infra_object \<Rightarrow> bool"
  p_InfraGet :: "gvk \<Rightarrow> string \<Rightarrow> string \<Rightarrow> 'w \<Rightarrow> go_error + infra_object"
  p_InfraUpdate :: "infra_object \<Rightarrow> ('w, infra_object) go"
  p_InfraUpdateStatus :: "infra_object \<Rightarrow> ('w, infra_object) go"
  p_Enqueue :: "gvk \<Rightarrow> string \<Rightarrow> string \<Rightarrow> ('w, unit) go"
  p_EnqueueAfter :: "gvk \<Rightarrow> string \<Rightarrow> string \<Rightarrow> int \<Rightarrow> ('w, unit) go"
  p_Apply :: "infra_object \<Rightarrow> prov_object list \<Rightarrow> ('w, unit) go"
  p_JobGet :: "string \<Rightarrow> string \<Rightarrow> 'w \<Rightarrow> go_error + job_object"
  p_JobList :: "string \<Rightarrow> gvk \<Rightarrow> string \<Rightarrow> 'w \<Rightarrow> go_error + job_object list"
  p_Selector :: "string \<Rightarrow> go_error + string"
  p_PodList :: "string \<Rightarrow> string \<Rightarrow> 'w \<Rightarrow> go_error + job_pod list"
  p_MachineDelete :: "string \<Rightarrow> string \<Rightarrow> ('w, unit) go"

definition createJobConditionType :: string where "createJobConditionType = ''CreateJob''"
definition deleteJobConditionType :: string where "deleteJobConditionType = ''DeleteJob''"
definition forceRemoveMachineAnn :: string where "forceRemoveMachineAnn = ''provisioning.cattle.io/force-machine-remove''"
definition CreateMachineError :: string where "CreateMachineError = ''CreateError''"
definition DeleteMachineError :: string where "DeleteMachineError = ''DeleteError''"

definition no_status :: RKEMachineStatus where
  "no_status = \<lparr>ms_Conditions = [], ms_JobName = '''', ms_Ready = False, ms_DriverHash = '''', ms_DriverURL = '''',
     ms_CloudCredentialSecretName = '''', ms_FailureReason = '''', ms_FailureMessage = ''''\<rparr>"

definition plain_cond :: "string \<Rightarrow> string \<Rightarrow> string \<Rightarrow> string \<Rightarrow> cond" where
  "plain_cond t s r m = \<lparr>cd_Type = t, cd_Status = s, cd_Reason = r, cd_Message = m\<rparr>"

definition validGVK :: "gvk \<Rightarrow> bool" where
  "validGVK g \<longleftrightarrow> gv_Group g = ''rke-machine.cattle.io'' \<and> gv_Version g = ''v1'' \<and> HasSuffix (gv_Kind g) ''Machine'' \<and>
     gv_Kind g \<noteq> ''CustomMachine''"

definition newInfraObject :: "('w, 'z) provision_env_scheme \<Rightarrow> infra_object \<Rightarrow> go_error + infra_object" where
  "newInfraObject E obj = (case p_Accessor E obj of Some e \<Rightarrow> Inl e | None \<Rightarrow> Inr obj)"

definition infra_meta :: "infra_object \<Rightarrow> object_meta" where
  "infra_meta obj = \<lparr>om_Namespace = io_Namespace obj, om_Name = io_Name obj, om_Labels = io_Labels obj,
     om_OwnerReferences = io_OwnerReferences obj, om_Conditions = []\<rparr>"

section \<open>Conditions and status\<close>

definition getCondition :: "infra_object \<Rightarrow> string \<Rightarrow> cond option" where
  "getCondition d conditionType = find (\<lambda>c. cd_Type c = conditionType) (io_Conditions d)"

definition insertOrUpdateCondition :: "('w, 'z) provision_env_scheme \<Rightarrow> cond \<Rightarrow> infra_object \<Rightarrow> infra_object \<times> bool" where
  "insertOrUpdateCondition E desired d =
     (if list_ex (p_Equals E desired) (io_Conditions d) then (d, False)
      else
        let updated = map (\<lambda>c. if cd_Type c = cd_Type desired then desired else c) (io_Conditions d);
            found = list_ex (\<lambda>c. cd_Type c = cd_Type desired) (io_Conditions d) in
        (d\<lparr>io_Conditions := (if found then updated else updated @ [desired])\<rparr>, True))"

text \<open>\<open>convert.EncodeToMap\<close> of a status, its conditions left out: the keys of the struct's tags; empty fields have none.\<close>

definition status_data :: "RKEMachineStatus \<Rightarrow> config" where
  "status_data s =
     filter (\<lambda>(_, v). v \<noteq> JStr '''' \<and> v \<noteq> JBool False)
       [(''jobName'', JStr (ms_JobName s)), (''ready'', JBool (ms_Ready s)), (''driverHash'', JStr (ms_DriverHash s)),
        (''driverUrl'', JStr (ms_DriverURL s)), (''cloudCredentialSecretName'', JStr (ms_CloudCredentialSecretName s)),
        (''failureReason'', JStr (ms_FailureReason s)), (''failureMessage'', JStr (ms_FailureMessage s))]"

fun set_conditions :: "('w, 'z) provision_env_scheme \<Rightarrow> cond list \<Rightarrow> infra_object \<Rightarrow> infra_object \<times> bool" where
  "set_conditions E [] d = (d, False)"
| "set_conditions E (c # cs) d =
     (case insertOrUpdateCondition E c d of
        (d1, b1) \<Rightarrow> (case set_conditions E cs d1 of (d2, b2) \<Rightarrow> (d2, b1 \<or> b2)))"

definition reconcileStatus :: "('w, 'z) provision_env_scheme \<Rightarrow> RKEMachineStatus \<Rightarrow> infra_object \<Rightarrow> infra_object" where
  "reconcileStatus E state d =
     (case set_conditions E (ms_Conditions state) d of
        (d1, conditionsChanged) \<Rightarrow>
          if conditionsChanged \<or> list_ex (\<lambda>(k, v). status_string E d k \<noteq> k_ToString E v) (status_data state)
          then d1\<lparr>io_Status := foldl (\<lambda>m (k, v). gm_put k v m) (io_Status d1) (status_data state)\<rparr>
          else d1)"

section \<open>What a job says\<close>

definition job_verb :: "smap \<Rightarrow> string" where
  "job_verb podLabels = (if gets podLabels InfraJobRemove = ''true'' then ''deleting'' else ''creating'')"

definition ExecutingMachineMessage :: "smap \<Rightarrow> string \<Rightarrow> string" where
  "ExecutingMachineMessage podLabels namespace =
     Sprintf ''%s server [%s/%s] of kind (%s) for machine %s in infrastructure provider''
       [job_verb podLabels, namespace, gets podLabels InfraMachineName, gets podLabels InfraMachineKind, gets podLabels CapiMachineName]"

definition FailedMachineMessage :: "smap \<Rightarrow> string \<Rightarrow> string \<Rightarrow> string \<Rightarrow> string" where
  "FailedMachineMessage podLabels namespace failureReason failureMessage =
     Sprintf ''failed %s server [%s/%s] of kind (%s) for machine %s in infrastructure provider: %s: %s''
       [job_verb podLabels, namespace, gets podLabels InfraMachineName, gets podLabels InfraMachineKind, gets podLabels CapiMachineName,
        failureReason, failureMessage]"

definition finished_status :: "string \<Rightarrow> RKEMachineStatus" where
  "finished_status condType =
     no_status\<lparr>ms_Conditions := [plain_cond condType ''True'' '''' '''', plain_cond ''Ready'' ''True'' '''' '''']\<rparr>"

definition getMachineStatusFromPod :: "job_pod \<Rightarrow> string \<Rightarrow> RKEMachineStatus" where
  "getMachineStatusFromPod pod condType =
     (let reason = (if condType = deleteJobConditionType then DeleteMachineError else CreateMachineError) in
      if jp_Phase pod = ''Succeeded'' then finished_status condType
      else
        (case find (\<lambda>t. case t of Some (code, _) \<Rightarrow> code \<noteq> 0 | None \<Rightarrow> False) (jp_Terminated pod) of
           Some (Some (_, msg)) \<Rightarrow>
             let failureMessage = TrimSpace msg;
                 message = FailedMachineMessage (jp_Labels pod) (jp_Namespace pod) reason failureMessage in
             no_status\<lparr>ms_Conditions := [plain_cond condType ''False'' reason message, plain_cond ''Ready'' ''False'' reason message],
               ms_FailureReason := reason, ms_FailureMessage := failureMessage\<rparr>
         | _ \<Rightarrow> no_status))"

definition last_pod :: "job_pod list \<Rightarrow> job_pod option" where
  "last_pod pods =
     foldl (\<lambda>l pod. case l of
        None \<Rightarrow> Some pod
      | Some p \<Rightarrow> if jp_CreationTimestamp p < jp_CreationTimestamp pod then Some pod else Some p) None pods"

definition getMachineStatus :: "('w, 'z) provision_env_scheme \<Rightarrow> job_object \<Rightarrow> 'w \<Rightarrow> go_error + RKEMachineStatus" where
  "getMachineStatus E job w =
     (let condType = (if gets (jo_TemplateLabels job) InfraJobRemove = ''true'' then deleteJobConditionType else createJobConditionType);
          executing = no_status\<lparr>ms_Conditions :=
            [plain_cond ''Ready'' ''False'' '''' (ExecutingMachineMessage (jo_TemplateLabels job) (jo_Namespace job))]\<rparr> in
      if c_IsTrue (lib_Cond E) ''Complete'' (jo_Conditions job) then Inr (finished_status condType)
      else if c_IsTrue (lib_Cond E) ''Failed'' (jo_Conditions job) then
        sbind (p_Selector E (jo_Selector job)) (\<lambda>sel.
        sbind (p_PodList E (jo_Namespace job) sel w) (\<lambda>pods.
          Inr (case last_pod pods of Some p \<Rightarrow> getMachineStatusFromPod p condType | None \<Rightarrow> executing)))
      else Inr executing)"

definition getJobFromInfraMachine :: "('w, 'z) provision_env_scheme \<Rightarrow> infra_object \<Rightarrow> 'w \<Rightarrow> go_error + job_object" where
  "getJobFromInfraMachine E infra w =
     sbind (p_JobList E (io_Namespace infra) (io_GVK infra) (io_Name infra) w) (\<lambda>jobs.
       case jobs of [] \<Rightarrow> Inl (ErrNotFound (GetJobName E (io_Name infra))) | job # _ \<Rightarrow> Inr job)"

definition shouldCleanupObjects :: "('w, 'z) provision_env_scheme \<Rightarrow> job_object \<Rightarrow> infra_object \<Rightarrow> bool" where
  "shouldCleanupObjects E job d =
     (if jo_CompletionTime job \<noteq> None then True
      else
        (case getCondition d createJobConditionType of
           None \<Rightarrow> False
         | Some c \<Rightarrow>
             (cd_Reason c = CreateMachineError \<or> ToLower (gets (io_Annotations d) forceRemoveMachineAnn) = ''true'') \<and>
             ToLower (gets (jo_TemplateLabels job) InfraJobRemove) = ''true'' \<and> c_IsTrue (lib_Cond E) ''Failed'' (jo_Conditions job)))"

section \<open>Running a job\<close>

text \<open>The status that was derived, whether an earlier run has failed, and the machine as it was changed on the way.\<close>

definition machine_ready :: "('w, 'z) provision_env_scheme \<Rightarrow> infra_object \<Rightarrow> bool" where
  "machine_ready E infra \<longleftrightarrow>
     (case getCondition infra ''Ready'' of
        None \<Rightarrow> False
      | Some c \<Rightarrow> cd_Status c = ''True'' \<and> spec_string E infra ''providerID'' \<noteq> '''')"

definition machine_failed :: "('w, 'z) provision_env_scheme \<Rightarrow> infra_object \<Rightarrow> bool \<Rightarrow> bool" where
  "machine_failed E infra create \<longleftrightarrow>
     status_string E infra ''failureReason'' = (if create then CreateMachineError else DeleteMachineError)"

definition run :: "('w, 'z) provision_env_scheme \<Rightarrow> infra_object \<Rightarrow> bool \<Rightarrow> ('w, RKEMachineStatus \<times> bool \<times> infra_object) go" where
  "run E infra create w =
     (case getArgsEnvAndStatus E infra (getNodeDriverName (io_GVK infra)) create w of
        Inl e \<Rightarrow> (Inl e, w)
      | Inr (dArgs, infra') \<Rightarrow>
          if da_BootstrapSecretName dArgs = '''' \<and> da_BootstrapRequired dArgs then
            bindE (p_EnqueueAfter E (io_GVK infra') (io_Namespace infra') (io_Name infra') 2) (\<lambda>_. retE (no_status, False, infra')) w
          else
            let failure = machine_failed E infra' create in
            bindE (p_Apply E infra' (objects E ((machine_ready E infra' \<or> failure) \<and> create) dArgs)) (\<lambda>_.
              retE (da_Status dArgs, failure, infra')) w)"

text \<open>A result of an update, and one that ends without an update.\<close>

definition updated :: "('w, infra_object) go \<Rightarrow> err \<Rightarrow> ('w, infra_object) handled" where
  "updated upd e w = (case upd w of (Inl e', w') \<Rightarrow> ((None, Some e'), w') | (Inr obj, w') \<Rightarrow> ((Some obj, e), w'))"

definition stop :: "infra_object \<Rightarrow> err \<Rightarrow> ('w, infra_object) handled" where
  "stop obj e w = ((Some obj, e), w)"

definition and_then :: "('w, 'a) go \<Rightarrow> infra_object \<Rightarrow> ('a \<Rightarrow> ('w, infra_object) handled) \<Rightarrow> ('w, infra_object) handled" where
  "and_then m obj f w = (case m w of (Inl e, w') \<Rightarrow> ((Some obj, Some e), w') | (Inr a, w') \<Rightarrow> f a w')"

definition follow_job :: "('w, 'z) provision_env_scheme \<Rightarrow> job_object \<Rightarrow> infra_object \<Rightarrow> ('w, infra_object) go" where
  "follow_job E job infra w =
     (sbind (getMachineStatus E job w) (\<lambda>s. Inr (reconcileStatus E (s\<lparr>ms_JobName := jo_Name job\<rparr>) infra)), w)"

text \<open>The job by its name in the status, and what it says written to the status.\<close>

definition look_at_job :: "('w, 'z) provision_env_scheme \<Rightarrow> infra_object \<Rightarrow> infra_object \<Rightarrow> (infra_object \<Rightarrow> infra_object) \<Rightarrow> err \<Rightarrow>
    ('w, infra_object) handled" where
  "look_at_job E obj d reset e w =
     (case p_JobGet E (io_Namespace d) (status_string E d ''jobName'') w of
        Inl e' \<Rightarrow> if is_NotFound e' then updated (p_InfraUpdateStatus E d) e w else stop obj (Some e') w
      | Inr job \<Rightarrow> and_then (follow_job E job d) obj (\<lambda>d'. updated (p_InfraUpdateStatus E (reset d')) e) w)"

text \<open>A job that is new is announced by its condition; then its state is written to the status.\<close>

definition track_job :: "('w, 'z) provision_env_scheme \<Rightarrow> string \<Rightarrow> string \<Rightarrow> infra_object \<Rightarrow> (infra_object \<Rightarrow> infra_object) \<Rightarrow> err \<Rightarrow>
    infra_object \<Rightarrow> ('w, infra_object) handled" where
  "track_job E condType message obj reset e d =
     (if getCondition d condType = None then
        updated (p_InfraUpdateStatus E (reconcileStatus E
          (no_status\<lparr>ms_Conditions := [plain_cond condType ''Unknown'' '''' message]\<rparr>) d)) e
      else if status_string E d ''jobName'' = '''' then stop obj e
      else look_at_job E obj d reset e)"

section \<open>Removal\<close>

definition reset_failure :: "('w, 'z) provision_env_scheme \<Rightarrow> infra_object \<Rightarrow> infra_object" where
  "reset_failure E infra =
     (if status_string E infra ''failureReason'' = CreateMachineError
      then infra\<lparr>io_Status := gm_put ''failureMessage'' (JStr '''') (gm_put ''failureReason'' (JStr '''') (io_Status infra))\<rparr> else infra)"

definition provision_doRemove :: "('w, 'z) provision_env_scheme \<Rightarrow> infra_object \<Rightarrow> ('w, infra_object) handled" where
  "provision_doRemove E infra =
     and_then (run E infra False) infra (\<lambda>(state, _, infra1).
       let infra2 = reconcileStatus E state infra1 in
       track_job E deleteJobConditionType ''creating machine deletion job'' infra2 (reset_failure E) (Some ErrSkip) infra2)"

definition namespaceIsRemoved :: "('w, 'z) provision_env_scheme \<Rightarrow> infra_object \<Rightarrow> 'w \<Rightarrow> go_error + bool" where
  "namespaceIsRemoved E obj w =
     (case p_Accessor E obj of
        Some e \<Rightarrow> Inl e
      | None \<Rightarrow> sbind (p_NamespaceGet E (io_Namespace obj) w) (\<lambda>deletion. Inr (deletion \<noteq> None)))"

text \<open>Everything that was applied for the machine is cleaned up, and the machine is let go.\<close>

definition clean_up :: "('w, 'z) provision_env_scheme \<Rightarrow> infra_object \<Rightarrow> ('w, infra_object) handled" where
  "clean_up E obj = and_then (p_Apply E obj []) obj (\<lambda>_. stop obj None)"

text \<open>A deletion that finds the create job unfinished.\<close>

definition finish_create :: "('w, 'z) provision_env_scheme \<Rightarrow> infra_object \<Rightarrow> ('w, infra_object) handled" where
  "finish_create E obj w =
     (case getJobFromInfraMachine E obj w of
        Inl e \<Rightarrow> if is_NotFound e then clean_up E obj w else stop obj (Some e) w
      | Inr job \<Rightarrow>
          and_then (run E obj True) obj (\<lambda>(state, _, infra1).
            and_then (follow_job E job (reconcileStatus E state infra1)) obj (\<lambda>infra2.
              updated (p_InfraUpdateStatus E infra2)
                (Some (ErrOther (''cannot delete machine '' @ io_Name obj @ '' because create job has not finished''))))) w)"

definition remove_server :: "('w, 'z) provision_env_scheme \<Rightarrow> infra_object \<Rightarrow> ('w, infra_object) handled" where
  "remove_server E obj w =
     (let clusterName = gets (io_Labels obj) CAPIClusterNameLabel in
      if clusterName = '''' then
        stop obj (Some (ErrOther (''error retrieving the clustername for machine, label key '' @ CAPIClusterNameLabel @
          '' does not appear to exist for dynamic machine '' @ io_Namespace obj @ ''/'' @ io_Name obj))) w
      else
        (case GetOwnerCAPIMachine E (\<lambda>ns n. p_MachineGet E ns n w) (Some (infra_meta obj)) of
           Inl e \<Rightarrow>
             if e \<noteq> ErrOther ''no matching controller owner ref'' \<and> \<not> is_NotFound e then stop obj (Some e) w
             else provision_doRemove E obj w
         | Inr machine \<Rightarrow>
             if m_NodeRef machine = None then provision_doRemove E obj w
             else
               (case p_ClusterGet E (io_Namespace obj) clusterName w of
                  Inl e \<Rightarrow> if \<not> is_NotFound e then stop obj (Some e) w else provision_doRemove E obj w
                | Inr _ \<Rightarrow> provision_doRemove E obj w)))"

definition after_delete_job :: "('w, 'z) provision_env_scheme \<Rightarrow> cond \<Rightarrow> infra_object \<Rightarrow> ('w, infra_object) handled" where
  "after_delete_job E c obj w =
     (case getJobFromInfraMachine E obj w of
        Inl e \<Rightarrow> if is_NotFound e then clean_up E obj w else stop obj (Some e) w
      | Inr job \<Rightarrow>
          if shouldCleanupObjects E job obj then clean_up E obj w
          else if cd_Status c = ''True'' then stop obj (Some ErrSkip) w
          else remove_server E obj w)"

definition provision_OnRemove :: "('w, 'z) provision_env_scheme \<Rightarrow> infra_object \<Rightarrow> ('w, infra_object) handled" where
  "provision_OnRemove E obj w =
     (case namespaceIsRemoved E obj w of
        Inl e \<Rightarrow> stop obj (Some e) w
      | Inr removed \<Rightarrow>
          if removed then stop obj None w
          else
            (case newInfraObject E obj of
               Inl e \<Rightarrow> stop obj (Some e) w
             | Inr infra \<Rightarrow>
                 (case GetOwnerCAPIMachineSet E (\<lambda>ns n. p_MachineSetGet E ns n w) (Some (infra_meta infra)) of
                    Inr _ \<Rightarrow> stop obj None w
                  | Inl _ \<Rightarrow>
                      (case getCondition infra createJobConditionType of
                         None \<Rightarrow> stop obj None w
                       | Some c \<Rightarrow>
                           if cd_Status c = ''Unknown'' then finish_create E infra w
                           else
                             (case getCondition infra deleteJobConditionType of
                                None \<Rightarrow> remove_server E infra w
                              | Some dc \<Rightarrow>
                                  if cd_Status dc \<noteq> ''Unknown'' then after_delete_job E dc infra w else remove_server E infra w)))))"

section \<open>Provisioning\<close>

definition EnqueueAfter :: "('w, 'z) provision_env_scheme \<Rightarrow> infra_object \<Rightarrow> int \<Rightarrow> 'w \<Rightarrow> 'w" where
  "EnqueueAfter E infra seconds w = snd (p_EnqueueAfter E (io_GVK infra) (io_Namespace infra) (io_Name infra) seconds w)"

definition wait_infra :: "('w, 'z) provision_env_scheme \<Rightarrow> infra_object \<Rightarrow> ('w, infra_object) handled" where
  "wait_infra E obj w = stop obj (Some ErrSkip) (EnqueueAfter E obj 10 w)"

definition GetCAPIClusterFromLabel ::
  "('w, 'z) provision_env_scheme \<Rightarrow> ('y) cluster_machine_scheme \<Rightarrow> 'w \<Rightarrow> go_error + capi_cluster" where
  "GetCAPIClusterFromLabel E machine w =
     (let clusterName = gets (m_Labels machine) CAPIClusterNameLabel in
      if clusterName \<noteq> '''' then p_CAPIClusterGet E (m_Namespace machine) clusterName w
      else Inl (ErrOther (CAPIClusterNameLabel @ '' label not present on '' @ m_Kind machine @ '': '' @ m_Namespace machine @ ''/'' @ m_Name machine)))"

definition provision_machine :: "('w, 'z) provision_env_scheme \<Rightarrow> infra_object \<Rightarrow> prov_machine \<Rightarrow> ('w, infra_object) handled" where
  "provision_machine E obj machine =
     and_then (run E obj True) obj (\<lambda>(state, failure, infra1).
     and_then (if failure then p_MachineDelete E (m_Namespace machine) (m_Name machine) else retE ()) obj (\<lambda>_.
       track_job E createJobConditionType ''creating machine provision job'' obj (\<lambda>d. d) None (reconcileStatus E state infra1)))"

definition provision_OnChange :: "('w, 'z) provision_env_scheme \<Rightarrow> infra_object \<Rightarrow> ('w, infra_object) handled" where
  "provision_OnChange E obj w =
     (case newInfraObject E obj of
        Inl e \<Rightarrow> stop obj (Some e) w
      | Inr infra \<Rightarrow>
          if io_DeletionTimestamp infra \<noteq> None then stop obj None w
          else
            (case GetOwnerCAPIMachine E (\<lambda>ns n. p_MachineGet E ns n w) (Some (infra_meta infra)) of
               Inl e \<Rightarrow> if is_NotFound e then wait_infra E infra w else stop obj (Some e) w
             | Inr machine \<Rightarrow>
                 if gets (io_Labels infra) CapiMachineName = ''''
                 then updated (p_InfraUpdate E (infra\<lparr>io_Labels := (io_Labels infra)(CapiMachineName \<mapsto> m_Name machine)\<rparr>)) None w
                 else
                   (case GetCAPIClusterFromLabel E machine w of
                      Inl e \<Rightarrow> if is_NotFound e then wait_infra E infra w else stop obj (Some e) w
                    | Inr capiCluster \<Rightarrow>
                        if p_IsPaused E capiCluster infra \<or> \<not> cc_InfrastructureReady capiCluster \<or> m_DataSecretName machine = None
                        then wait_infra E infra w
                        else provision_machine E infra machine w)))"

text \<open>A job leads back to its machine, which learns the job's name or is looked at again.\<close>

definition OnJobChange :: "('w, 'z) provision_env_scheme \<Rightarrow> job_object option \<Rightarrow> ('w, job_object) handled" where
  "OnJobChange E job w =
     (case job of
        None \<Rightarrow> ((None, None), w)
      | Some job \<Rightarrow>
          let labels = jo_TemplateLabels job; name = gets labels InfraMachineName; kind = gets labels InfraMachineKind;
              gvk = \<lparr>gv_Group = gets labels InfraMachineGroup, gv_Version = gets labels InfraMachineVersion, gv_Kind = kind\<rparr> in
          if name = '''' \<or> kind = '''' then ((Some job, None), w)
          else
            (case p_InfraGet E gvk (jo_Namespace job) name w of
               Inl e \<Rightarrow> ((Some job, if is_NotFound e then None else Some e), w)
             | Inr infraMachine \<Rightarrow>
                 (case newInfraObject E infraMachine of
                    Inl e \<Rightarrow> ((Some job, Some e), w)
                  | Inr infra \<Rightarrow>
                      (case (if status_string E infra ''jobName'' = ''''
                             then bindE (p_InfraUpdateStatus E
                                    (infra\<lparr>io_Status := gm_put ''jobName'' (JStr (jo_Name job)) (io_Status infra)\<rparr>)) (\<lambda>_. retE ())
                             else p_Enqueue E (io_GVK infra) (io_Namespace infra) (io_Name infra)) w of
                         (Inl e, w') \<Rightarrow> ((Some job, Some e), w')
                       | (Inr _, w') \<Rightarrow> ((Some job, None), w')))))"

text \<open>A condition of the outcome of an operation; skipping leaves it.\<close>

definition setCondition :: "('w, 'z) provision_env_scheme \<Rightarrow> infra_object \<Rightarrow> string \<Rightarrow> err \<Rightarrow> ('w, infra_object) handled" where
  "setCondition E obj conditionType e w =
     (if e = Some ErrSkip then stop obj None w
      else
        let desired = (case e of
              None \<Rightarrow> plain_cond conditionType ''True'' '''' ''''
            | Some e' \<Rightarrow> plain_cond conditionType ''False'' ''Error'' (Error e')) in
        (case newInfraObject E obj of
           Inl e' \<Rightarrow> stop obj (Some e') w
         | Inr d \<Rightarrow>
             (case insertOrUpdateCondition E desired d of
                (d1, changed) \<Rightarrow> if \<not> changed then stop obj None w else updated (p_InfraUpdateStatus E d1) e w)))"

end
