(* ===== verification/Idle_Env.thy ===== *)
theory Idle_Env
  imports Planner_Env
begin

text \<open>
  An environment of the planner over an arbitrary world, in which nothing exists and writes
  succeed without effect. The concrete environments of the controllers with a world of their
  own are built on it.
\<close>

definition idle_ToString :: "json \<Rightarrow> string" where
  "idle_ToString v = (case v of JNull \<Rightarrow> '''' | _ \<Rightarrow> TrimSpace (fmt_v v))"

fun idle_GetValueN :: "config \<Rightarrow> string list \<Rightarrow> json" where
  "idle_GetValueN c [] = JObj c"
| "idle_GetValueN c [k] = cfg_get c k"
| "idle_GetValueN c (k # ks) = (case cfg_get c k of JObj c' \<Rightarrow> idle_GetValueN c' ks | _ \<Rightarrow> JNull)"

definition idle_store :: "'w store_env" where
  "idle_store = libs.extend demo_libs
     \<lparr>e_SecretGet = (\<lambda>_ n _. Inl (ErrNotFound n)), e_SecretUpdate = (\<lambda>s w. (Inr s, w)), e_MachineList = (\<lambda>_ _ _. Inr []),
      e_Now = (\<lambda>_. ''2024-01-01T00:00:00Z''), e_MarshalPlan = (\<lambda>_. Inl (ErrOther ''unsupported'')),
      e_UnmarshalPlan = (\<lambda>_. Inl (ErrOther ''unsupported'')), e_UnmarshalProbes = (\<lambda>_. Inr []), e_UnmarshalOutput = (\<lambda>_. Inr Map.empty),
      e_UnmarshalPeriodic = (\<lambda>_. Inr Map.empty), e_UnmarshalConfig = (\<lambda>_. Inr Map.empty), e_UnmarshalDBInfo = (\<lambda>_. Inr []),
      e_DeepEqualPlan = (\<lambda>a b. a = b), e_ParseIP = (\<lambda>_. False), e_URLHostname = (\<lambda>u. Inr u)\<rparr>"

definition idle_config :: "'w config_env" where
  "idle_config = store_env.extend idle_store
     \<lparr>k_SecretCacheGet = (\<lambda>_ n _. Inl (ErrNotFound n)), k_ConfigMapGet = (\<lambda>_ n _. Inl (ErrNotFound n)),
      k_CredentialGet = (\<lambda>_ n _. Inl (ErrNotFound n)), k_NameHex = (\<lambda>s _. s), k_SHA256 = (\<lambda>s. s), k_ToString = idle_ToString,
      k_ToStringSlice = convertInterfaceToStringSlice, k_ToBool = (\<lambda>v. v = JBool True),
      k_ToMap = (\<lambda>v. case v of JObj c \<Rightarrow> Some c | _ \<Rightarrow> None), k_PutValue = (\<lambda>c v ks. gm_put (Join ks ''.'') (JStr v) c),
      k_GetValueN = idle_GetValueN, k_SelectorMatches = (\<lambda>_ _. Inr True), k_SystemDefaultRegistry = '''', k_ImageResolver = (\<lambda>i _. i),
      k_SystemAgentImage = ''rancher/system-agent-installer-'', k_ExtractConfigJSON = (\<lambda>_. Inr []), k_MarshalJSON = (\<lambda>v. Inr (fmt_v v)),
      k_MarshalIndent = (\<lambda>c. Inr (fmt_v (JObj c))), k_UnmarshalStringMap = (\<lambda>_. Inr []), k_UnmarshalTaints = (\<lambda>_. Inr []),
      k_TaintToString = ta_Key, k_ChartYaml = (\<lambda>cs. Inr (Join (map fst cs) '','')), k_RegistrationTokens = (\<lambda>_ _. Inr []),
      k_ManagementCluster = (\<lambda>n _. Inr n), k_ForCluster = (\<lambda>c t _ _. Inr (c @ t))\<rparr>"

definition idle_planner :: "'w planner_env" where
  "idle_planner = config_env.extend idle_config
     \<lparr>q_MachineUpdate = (\<lambda>m w. (Inr m, w)), q_MachineUpdateStatus = (\<lambda>m w. (Inr m, w)), q_ClusterCacheGet = (\<lambda>_ _ _. Inr None),
      q_ClusterUpdate = (\<lambda>c w. (Inr c, w)), q_ClusterUpdateStatus = (\<lambda>c w. (Inr c, w)), q_RetryOnConflict = (\<lambda>f. f),
      q_BootstrapCacheGet = (\<lambda>_ n _. Inl (ErrNotFound n)), q_BootstrapUpdate = (\<lambda>b w. (Inr b, w)),
      q_SnapshotCacheGet = (\<lambda>_ n _. Inl (ErrNotFound n)), q_SecretCreate = (\<lambda>s w. (Inr s, w)), q_RandomToken = (\<lambda>w. (Inr ''token'', w)),
      q_MarkUnknown = q_MarkUnknown demo_planner, q_MarkTrue = q_MarkTrue demo_planner, q_MarkFalse = q_MarkFalse demo_planner,
      q_IsFalse = q_IsFalse demo_planner, q_IsPaused = q_IsPaused demo_planner, q_Summarize = q_Summarize demo_planner,
      q_NewVersion = q_NewVersion demo_planner, q_Compare = q_Compare demo_planner, q_SemverMajor = q_SemverMajor demo_planner,
      q_SameObject = q_SameObject demo_planner, q_Float = q_Float demo_planner, q_DrainJSON = q_DrainJSON demo_planner,
      q_ReleaseData = q_ReleaseData demo_planner, q_SystemPodLabelSelectors = None, q_UnmarshalSUC = q_UnmarshalSUC demo_planner,
      q_UnmarshalSnapshotMap = q_UnmarshalSnapshotMap demo_planner, q_UnmarshalClusterSpec = q_UnmarshalClusterSpec demo_planner,
      q_MergeErrors = q_MergeErrors demo_planner\<rparr>"

lemmas idle_defs = idle_planner_def idle_config_def idle_store_def planner_env.defs config_env.defs store_env.defs libs.defs

end
