(* ===== verification/Provision_Correct.thy ===== *)
theory Provision_Correct
  imports Machine_Provision Idle_Env
begin

text \<open>
  What the provisioning of machines guarantees: a machine whose server may exist is let go only
  after a job has removed the server, along every history of the controller; a job is started only
  when everything it needs is there; host names keep their bound.
\<close>

section \<open>Conditions\<close>

lemma find_replaced:
  "find (\<lambda>c. cd_Type c = t) (map (\<lambda>c. if cd_Type c = cd_Type d then d else c) cs) =
     (if t = cd_Type d then (if list_ex (\<lambda>c. cd_Type c = t) cs then Some d else None) else find (\<lambda>c. cd_Type c = t) cs)"
  by (induction cs) auto

lemma find_append: "find P (xs @ ys) = (case find P xs of Some x \<Rightarrow> Some x | None \<Rightarrow> find P ys)"
  by (induction xs) auto

lemma getCondition_insert:
  "getCondition (fst (insertOrUpdateCondition E c d)) t =
     (if snd (insertOrUpdateCondition E c d) \<and> t = cd_Type c then Some c else getCondition d t)"
proof -
  have none: "find (\<lambda>c. cd_Type c = t) cs = None \<longleftrightarrow> \<not> list_ex (\<lambda>c. cd_Type c = t) cs" for cs
    by (auto simp: find_None_iff list_ex_iff)
  have none': "None = find (\<lambda>c. cd_Type c = t) cs \<longleftrightarrow> \<not> list_ex (\<lambda>c. cd_Type c = t) cs" for cs using none by (metis (full_types))
  show ?thesis
    by (auto simp: insertOrUpdateCondition_def getCondition_def Let_def find_append find_replaced none none' split: option.splits)
qed

text \<open>The deletion job is over, as far as the machine says.\<close>

definition settled :: "infra_object \<Rightarrow> bool" where
  "settled d \<longleftrightarrow> (\<exists>c. getCondition d deleteJobConditionType = Some c \<and> cd_Status c \<noteq> ''Unknown'')"

definition settles :: "cond \<Rightarrow> bool" where
  "settles c \<longleftrightarrow> cd_Type c = deleteJobConditionType \<and> cd_Status c \<noteq> ''Unknown''"

lemma settled_conditions: "io_Conditions d = io_Conditions d' \<Longrightarrow> settled d = settled d'"
  by (simp add: settled_def getCondition_def)

lemma settled_insert: "settled (fst (insertOrUpdateCondition E c d)) \<Longrightarrow> settled d \<or> settles c"
  by (auto simp: settled_def settles_def getCondition_insert split: if_splits)

lemma settled_set_conditions: "settled (fst (set_conditions E cs d)) \<Longrightarrow> settled d \<or> list_ex settles cs"
proof (induction cs arbitrary: d)
  case (Cons c cs)
  then have "settled (fst (set_conditions E cs (fst (insertOrUpdateCondition E c d))))" by (simp split: prod.splits)
  with Cons.IH settled_insert show ?case by fastforce
qed simp

lemma settled_reconcile: "settled (reconcileStatus E s d) \<Longrightarrow> settled d \<or> list_ex settles (ms_Conditions s)"
  using settled_set_conditions [of E "ms_Conditions s" d]
  by (auto simp: reconcileStatus_def settled_def getCondition_def split: prod.splits if_splits)

lemma settled_updates [simp]:
  "settled (d\<lparr>io_Status := st\<rparr>) = settled d" "settled (d\<lparr>io_Spec := sp\<rparr>) = settled d" "settled (d\<lparr>io_Labels := l\<rparr>) = settled d"
  by (simp_all add: settled_def getCondition_def)

lemma settled_reset [simp]: "settled (reset_failure E d) = settled d"
  by (simp add: reset_failure_def)

text \<open>A job that removes the server, and is over.\<close>

definition removal_over :: "('w, 'z) provision_env_scheme \<Rightarrow> job_object \<Rightarrow> bool" where
  "removal_over E job \<longleftrightarrow> gets (jo_TemplateLabels job) InfraJobRemove = ''true'' \<and>
     (c_IsTrue (lib_Cond E) ''Complete'' (jo_Conditions job) \<or> c_IsTrue (lib_Cond E) ''Failed'' (jo_Conditions job))"

lemma pod_settles:
  "list_ex settles (ms_Conditions (getMachineStatusFromPod pod condType)) \<Longrightarrow> condType = deleteJobConditionType"
  by (auto simp: getMachineStatusFromPod_def settles_def Let_def finished_status_def no_status_def plain_cond_def
      deleteJobConditionType_def split: if_splits option.splits)

lemma finished_settles: "list_ex settles (ms_Conditions (finished_status condType)) \<Longrightarrow> condType = deleteJobConditionType"
  by (auto simp: settles_def finished_status_def no_status_def plain_cond_def deleteJobConditionType_def)

lemma status_settles:
  assumes "getMachineStatus E job w = Inr s" "list_ex settles (ms_Conditions s)"
  shows "removal_over E job"
proof -
  have ne: "createJobConditionType \<noteq> deleteJobConditionType" by (simp add: createJobConditionType_def deleteJobConditionType_def)
  let ?exec = "no_status\<lparr>ms_Conditions :=
    [plain_cond ''Ready'' ''False'' '''' (ExecutingMachineMessage (jo_TemplateLabels job) (jo_Namespace job))]\<rparr>"
  have exec: "\<not> list_ex settles (ms_Conditions ?exec)" by (simp add: settles_def plain_cond_def deleteJobConditionType_def)
  let ?t = "if gets (jo_TemplateLabels job) InfraJobRemove = ''true'' then deleteJobConditionType else createJobConditionType"
  have "s \<noteq> ?exec" using exec assms(2) by blast
  then have "(s = finished_status ?t \<or> (\<exists>p. s = getMachineStatusFromPod p ?t)) \<and>
      (c_IsTrue (lib_Cond E) ''Complete'' (jo_Conditions job) \<or> c_IsTrue (lib_Cond E) ''Failed'' (jo_Conditions job))"
    using assms(1)
    by (auto simp: getMachineStatus_def Let_def sbind_eq_Inr_iff split: if_splits option.splits)
  with assms(2) pod_settles finished_settles have "?t = deleteJobConditionType" "c_IsTrue (lib_Cond E) ''Complete'' (jo_Conditions job) \<or>
      c_IsTrue (lib_Cond E) ''Failed'' (jo_Conditions job)" by blast+
  with ne show ?thesis by (auto simp: removal_over_def split: if_splits)
qed

lemma follow_settles:
  assumes "follow_job E job d w = (Inr d', w')" "settled d'"
  shows "w' = w \<and> (settled d \<or> removal_over E job)"
proof -
  obtain s where s: "getMachineStatus E job w = Inr s" "d' = reconcileStatus E (s\<lparr>ms_JobName := jo_Name job\<rparr>) d" "w' = w"
    using assms(1) by (cases "getMachineStatus E job w") (simp_all add: follow_job_def sbind_def)
  from settled_reconcile [of E "s\<lparr>ms_JobName := jo_Name job\<rparr>" d] assms(2) s(2) have "settled d \<or> list_ex settles (ms_Conditions s)"
    by simp
  with status_settles [OF s(1)] s(3) show ?thesis by blast
qed

section \<open>A run of a job\<close>

lemma set_conditions_status [simp]: "io_Status (fst (set_conditions E cs d)) = io_Status d"
proof (induction cs arbitrary: d)
  case (Cons c cs)
  have "io_Status (fst (insertOrUpdateCondition E c d)) = io_Status d" by (simp add: insertOrUpdateCondition_def Let_def)
  with Cons show ?case by (simp split: prod.splits) (metis fst_conv)
qed simp

lemma status_key:
  "k \<notin> fst ` set (status_data s) \<Longrightarrow> map_of (io_Status (reconcileStatus E s d)) k = map_of (io_Status d) k"
proof -
  have fold: "k \<notin> fst ` set xs \<Longrightarrow> map_of (foldl (\<lambda>m (k, v). gm_put k v m) m xs) k = map_of m k" for xs and m :: config
    by (induction xs arbitrary: m) auto
  obtain d1 b where d1: "set_conditions E (ms_Conditions s) d = (d1, b)" by fastforce
  have "io_Status d1 = io_Status d" using set_conditions_status [of E "ms_Conditions s" d] by (simp add: d1)
  then show "k \<notin> fst ` set (status_data s) \<Longrightarrow> ?thesis" by (simp add: reconcileStatus_def d1 fold)
qed

definition same_infra :: "infra_object \<Rightarrow> infra_object \<Rightarrow> bool" where
  "same_infra a b \<longleftrightarrow> io_GVK a = io_GVK b \<and> io_Namespace a = io_Namespace b \<and> io_Name a = io_Name b"

lemma args_parts:
  assumes "getArgsEnvAndStatus E infra driver create w = Inr (dArgs, infra')"
  shows "ms_Conditions (da_Status dArgs) = []" "ms_JobName (da_Status dArgs) = []" "\<exists>sp. infra' = infra\<lparr>io_Spec := sp\<rparr>"
    "\<exists>m. p_MachineGet E (io_Namespace infra) (gets (io_Labels infra) CapiMachineName) w = Inr m"
    "da_BootstrapRequired dArgs = create" "da_MachineName dArgs = io_Name infra"
proof -
  obtain files args where "constructFilesSecret driver (io_Spec infra) = (files, args)" by fastforce
  note run = assms [unfolded getArgsEnvAndStatus_def Let_def this]
  from run show "ms_Conditions (da_Status dArgs) = []" "ms_JobName (da_Status dArgs) = []" "\<exists>sp. infra' = infra\<lparr>io_Spec := sp\<rparr>"
    "\<exists>m. p_MachineGet E (io_Namespace infra) (gets (io_Labels infra) CapiMachineName) w = Inr m"
    "da_BootstrapRequired dArgs = create" "da_MachineName dArgs = io_Name infra"
    by (auto simp: sbind_eq_Inr_iff)
qed

lemma run_parts:
  assumes "run E infra create w = (Inr (state, failure, infra'), w')"
  shows "ms_Conditions state = []" "\<exists>sp. infra' = infra\<lparr>io_Spec := sp\<rparr>" "ms_JobName state = []"
proof -
  obtain dArgs where a: "getArgsEnvAndStatus E infra (getNodeDriverName (io_GVK infra)) create w = Inr (dArgs, infra')"
    and s: "state = no_status \<or> state = da_Status dArgs"
    using assms by (auto simp: run_def bindE_def retE_def Let_def split: sum.splits prod.splits if_splits)
  from s args_parts(1) [OF a] show "ms_Conditions state = []" by (auto simp: no_status_def)
  from args_parts(3) [OF a] show "\<exists>sp. infra' = infra\<lparr>io_Spec := sp\<rparr>" .
  from s args_parts(2) [OF a] show "ms_JobName state = []" by (auto simp: no_status_def)
qed

text \<open>A run leaves the name of the job in the status as it was.\<close>

lemma run_job_name:
  assumes "run E infra create w = (Inr (state, failure, infra'), w')"
  shows "status_string E (reconcileStatus E state infra') ''jobName'' = status_string E infra ''jobName''"
proof -
  have "''jobName'' \<notin> fst ` set (status_data state)" using run_parts(3) [OF assms] by (auto simp: status_data_def)
  moreover have "io_Status infra' = io_Status infra" using run_parts(2) [OF assms] by auto
  ultimately show ?thesis by (simp add: status_string_def cfg_get_def status_key)
qed

lemma run_settled:
  assumes "run E infra create w = (Inr (state, failure, infra'), w')"
  shows "settled (reconcileStatus E state infra') \<Longrightarrow> settled infra"
proof -
  obtain sp where "infra' = infra\<lparr>io_Spec := sp\<rparr>" using run_parts(2) [OF assms] by blast
  then show "settled (reconcileStatus E state infra') \<Longrightarrow> settled infra"
    using settled_reconcile [of E state infra'] run_parts(1) [OF assms] by auto
qed

section \<open>The machine in the API server\<close>

text \<open>
  What is relied on of the API server: only an update of the status changes the conditions of
  the machine, to what was written for it; what is read under its name has its conditions.
\<close>

definition status_store :: "('w, 'z) provision_env_scheme \<Rightarrow> ('w \<Rightarrow> infra_object) \<Rightarrow> bool" where
  "status_store E cur \<longleftrightarrow>
     (\<forall>d r w w'. p_InfraUpdateStatus E d w = (r, w') \<longrightarrow>
        io_Conditions (cur w') = io_Conditions (cur w) \<or> same_infra d (cur w) \<and> io_Conditions (cur w') = io_Conditions d) \<and>
     (\<forall>d w. io_Conditions (cur (snd (p_InfraUpdate E d w))) = io_Conditions (cur w)) \<and>
     (\<forall>d objs w. io_Conditions (cur (snd (p_Apply E d objs w))) = io_Conditions (cur w)) \<and>
     (\<forall>g ns n w. io_Conditions (cur (snd (p_Enqueue E g ns n w))) = io_Conditions (cur w)) \<and>
     (\<forall>g ns n t w. io_Conditions (cur (snd (p_EnqueueAfter E g ns n t w))) = io_Conditions (cur w)) \<and>
     (\<forall>ns n w. io_Conditions (cur (snd (p_MachineDelete E ns n w))) = io_Conditions (cur w)) \<and>
     (\<forall>g ns n w d. p_InfraGet E g ns n w = Inr d \<and> same_infra d (cur w) \<longrightarrow> io_Conditions d = io_Conditions (cur w))"

lemma store_keeps:
  assumes "status_store E cur"
  shows "settled (cur (snd (p_InfraUpdate E d w))) = settled (cur w)" "settled (cur (snd (p_Apply E d objs w))) = settled (cur w)"
    "settled (cur (snd (p_Enqueue E g ns n w))) = settled (cur w)" "settled (cur (snd (p_EnqueueAfter E g ns n t w))) = settled (cur w)"
    "settled (cur (snd (p_MachineDelete E ns n w))) = settled (cur w)"
  using assms by (simp_all add: status_store_def settled_conditions [of "cur (snd _)" "cur w"])

lemma store_update:
  assumes "status_store E cur" "p_InfraUpdateStatus E d w = (r, w')" "settled (cur w')"
  shows "settled (cur w) \<or> same_infra d (cur w) \<and> settled d"
  using assms settled_conditions unfolding status_store_def by metis

lemma updated_settled:
  assumes "status_store E cur" "updated (p_InfraUpdateStatus E d) e w = (r, w')" "settled (cur w')"
  shows "settled (cur w) \<or> settled d"
  using assms store_update [OF assms(1)] by (fastforce simp: updated_def split: prod.splits sum.splits)

lemma run_keeps:
  assumes "status_store E cur"
  shows "settled (cur (snd (run E d create w))) = settled (cur w)"
  using store_keeps [OF assms] by (auto simp: run_def bindE_def retE_def Let_def split: sum.splits prod.splits) (metis snd_conv)+

text \<open>
  The worlds in which a run of a handler looks for its job, and that it has found the machine's
  removal over: the job is the one listed for the kind and name of the machine, or the one
  that the status of the machine names.
\<close>

definition run_worlds :: "('w, 'z) provision_env_scheme \<Rightarrow> infra_object \<Rightarrow> 'w \<Rightarrow> 'w set" where
  "run_worlds E d w = range (\<lambda>create. snd (run E d create w)) \<union> range (\<lambda>(ns, n). snd (p_MachineDelete E ns n (snd (run E d True w))))"

definition saw_removal_over :: "('w, 'z) provision_env_scheme \<Rightarrow> infra_object \<Rightarrow> 'w \<Rightarrow> bool" where
  "saw_removal_over E d w \<longleftrightarrow>
     (\<exists>job. removal_over E job \<and>
        (getJobFromInfraMachine E d w = Inr job \<or>
         status_string E d ''jobName'' \<noteq> [] \<and>
         (\<exists>w1\<in>run_worlds E d w. p_JobGet E (io_Namespace d) (status_string E d ''jobName'') w1 = Inr job)))"

lemma look_settled:
  assumes store: "status_store E cur" and run: "look_at_job E obj d reset e w = (r, w')" "settled (cur w')"
    and reset: "\<And>d. settled (reset d) = settled d"
  shows "settled (cur w) \<or> settled d \<or> (\<exists>job. removal_over E job \<and> p_JobGet E (io_Namespace d) (status_string E d ''jobName'') w = Inr job)"
proof (cases "p_JobGet E (io_Namespace d) (status_string E d ''jobName'') w")
  case (Inl e')
  with run updated_settled [OF store, of d e w r w'] show ?thesis by (auto simp: look_at_job_def stop_def split: if_splits)
next
  case (Inr job)
  obtain x w1 where f: "follow_job E job d w = (x, w1)" by fastforce
  then have w1: "w1 = w" by (auto simp: follow_job_def)
  show ?thesis
  proof (cases x)
    case (Inl e')
    with run f w1 Inr show ?thesis by (auto simp: look_at_job_def and_then_def)
  next
    case d': (Inr d')
    with run f w1 Inr have "updated (p_InfraUpdateStatus E (reset d')) e w = (r, w')" by (simp add: look_at_job_def and_then_def)
    from updated_settled [OF store this run(2)] reset have "settled (cur w) \<or> settled d'" by simp
    with follow_settles [of E job d w d' w1] f d' Inr show ?thesis by blast
  qed
qed

lemma settled_announced:
  "settled (reconcileStatus E (no_status\<lparr>ms_Conditions := [plain_cond t ''Unknown'' '''' m]\<rparr>) d) \<Longrightarrow> settled d"
  using settled_reconcile [of E "no_status\<lparr>ms_Conditions := [plain_cond t ''Unknown'' '''' m]\<rparr>" d]
  by (simp add: settles_def plain_cond_def)

lemma reconcile_frame [simp]: "io_Namespace (reconcileStatus E s d) = io_Namespace d"
proof -
  have ins: "io_Namespace (fst (insertOrUpdateCondition E c d)) = io_Namespace d" for c d
    by (simp add: insertOrUpdateCondition_def Let_def)
  have "io_Namespace (fst (set_conditions E cs d)) = io_Namespace d" for cs
    using ins by (induction cs arbitrary: d) (auto split: prod.splits, metis fst_conv)
  then show ?thesis by (auto simp: reconcileStatus_def split: prod.splits) (metis fst_conv)+
qed

lemma track_settled:
  assumes store: "status_store E cur" and run: "track_job E t m obj reset e d w = (r, w')" "settled (cur w')"
    and reset: "\<And>d. settled (reset d) = settled d"
  shows "settled (cur w) \<or> settled d \<or> status_string E d ''jobName'' \<noteq> [] \<and>
    (\<exists>job. removal_over E job \<and> p_JobGet E (io_Namespace d) (status_string E d ''jobName'') w = Inr job)"
proof -
  let ?a = "reconcileStatus E (no_status\<lparr>ms_Conditions := [plain_cond t ''Unknown'' '''' m]\<rparr>) d"
  consider "updated (p_InfraUpdateStatus E ?a) e w = (r, w')" | "w' = w"
    | "look_at_job E obj d reset e w = (r, w')" "status_string E d ''jobName'' \<noteq> []"
    using run(1) by (auto simp: track_job_def stop_def split: if_splits)
  then show ?thesis
  proof cases
    case 1
    from updated_settled [OF store this run(2)] settled_announced [of E t m d] show ?thesis by blast
  next
    case 2
    with run(2) show ?thesis by simp
  next
    case 3
    from look_settled [OF store 3(1) run(2) reset] 3(2) show ?thesis by blast
  qed
qed

text \<open>A handler that has run the job and then, in a world of its run, follows it.\<close>

lemma tracked_settled:
  assumes store: "status_store E cur" and rn: "run E d create w = (Inr (state, f, d1), w1)"
    and r: "track_job E t m obj reset e (reconcileStatus E state d1) w2 = (r, w')" "settled (cur w')"
    and w2: "w2 \<in> run_worlds E d w" "settled (cur w2) = settled (cur w)" and reset: "\<And>d. settled (reset d) = settled d"
  shows "settled (cur w) \<or> settled d \<or> saw_removal_over E d w"
proof -
  have "io_Namespace (reconcileStatus E state d1) = io_Namespace d" using run_parts(2) [OF rn] by auto
  with track_settled [OF store r reset] run_settled [OF rn] run_job_name [OF rn] w2 show ?thesis
    unfolding saw_removal_over_def by auto
qed

lemma doRemove_settled:
  assumes store: "status_store E cur" and r: "provision_doRemove E d w = (r, w')" "settled (cur w')"
  shows "settled (cur w) \<or> settled d \<or> saw_removal_over E d w"
proof -
  obtain x w1 where run: "run E d False w = (x, w1)" by fastforce
  then have w1: "w1 \<in> run_worlds E d w" "settled (cur w1) = settled (cur w)"
    using run_keeps [OF store, of d False w] by (auto simp: run_worlds_def intro!: rev_image_eqI [of False])
  show ?thesis
  proof (cases x)
    case (Inl e)
    with r run w1 show ?thesis by (auto simp: provision_doRemove_def and_then_def)
  next
    case (Inr y)
    obtain state f d1 where y: "y = (state, f, d1)" by (metis prod_cases3)
    note rn = run [unfolded Inr y]
    with r have "track_job E deleteJobConditionType ''creating machine deletion job'' (reconcileStatus E state d1) (reset_failure E)
        (Some ErrSkip) (reconcileStatus E state d1) w1 = (r, w')" by (simp add: provision_doRemove_def and_then_def Let_def)
    from tracked_settled [OF store rn this r(2) w1] show ?thesis by simp
  qed
qed

lemma provision_settled:
  assumes store: "status_store E cur" and r: "provision_machine E d machine w = (r, w')" "settled (cur w')"
  shows "settled (cur w) \<or> settled d \<or> saw_removal_over E d w"
proof -
  obtain x w1 where run: "run E d True w = (x, w1)" by fastforce
  then have w1: "w1 \<in> run_worlds E d w" "settled (cur w1) = settled (cur w)"
    using run_keeps [OF store, of d True w] by (auto simp: run_worlds_def intro!: rev_image_eqI [of True])
  show ?thesis
  proof (cases x)
    case (Inl e)
    with r run w1 show ?thesis by (auto simp: provision_machine_def and_then_def)
  next
    case (Inr y)
    obtain state f d1 where y: "y = (state, f, d1)" by (metis prod_cases3)
    note rn = run [unfolded Inr y]
    obtain z w2 where del: "(if f then p_MachineDelete E (m_Namespace machine) (m_Name machine) else retE ()) w1 = (z, w2)" by fastforce
    have w2: "w2 \<in> run_worlds E d w" "settled (cur w2) = settled (cur w)"
      using w1 del run store_keeps(5) [OF store, of "m_Namespace machine" "m_Name machine" w1]
      by (auto simp: run_worlds_def retE_def split: if_splits intro!: rev_image_eqI [of "(m_Namespace machine, m_Name machine)"])
    show ?thesis
    proof (cases z)
      case (Inl e)
      with r rn del w2 show ?thesis by (auto simp: provision_machine_def and_then_def)
    next
      case (Inr u)
      with r rn del have "track_job E createJobConditionType ''creating machine provision job'' d (\<lambda>d. d) None
          (reconcileStatus E state d1) w2 = (r, w')" by (simp add: provision_machine_def and_then_def)
      from tracked_settled [OF store rn this r(2) w2] show ?thesis by simp
    qed
  qed
qed

lemma clean_up_settled:
  "status_store E cur \<Longrightarrow> clean_up E d w = (r, w') \<Longrightarrow> settled (cur w') = settled (cur w)"
  using store_keeps(2) [of E cur d "[]" w] by (auto simp: clean_up_def and_then_def stop_def split: prod.splits sum.splits)

lemma finish_create_settled:
  assumes store: "status_store E cur" and r: "finish_create E d w = (r, w')" "settled (cur w')"
  shows "settled (cur w) \<or> settled d \<or> saw_removal_over E d w"
proof (cases "getJobFromInfraMachine E d w")
  case (Inl e)
  with r clean_up_settled [OF store, of d w r w'] show ?thesis by (auto simp: finish_create_def stop_def split: if_splits)
next
  case (Inr job)
  obtain x w1 where run: "run E d True w = (x, w1)" by fastforce
  then have w1: "settled (cur w1) = settled (cur w)" using run_keeps [OF store, of d True w] by simp
  show ?thesis
  proof (cases "\<exists>state f d1 d2. x = Inr (state, f, d1) \<and> follow_job E job (reconcileStatus E state d1) w1 = (Inr d2, w1)")
    case True
    then obtain state f d1 d2 where x: "x = Inr (state, f, d1)" and f: "follow_job E job (reconcileStatus E state d1) w1 = (Inr d2, w1)"
      by blast
    note rn = run [unfolded x]
    obtain e where "updated (p_InfraUpdateStatus E d2) e w1 = (r, w')"
      using r rn f Inr by (auto simp: finish_create_def and_then_def)
    from updated_settled [OF store this r(2)] w1 have "settled (cur w) \<or> settled d2" by simp
    with follow_settles [OF f] run_settled [OF rn] Inr show ?thesis unfolding saw_removal_over_def by blast
  next
    case False
    have "w' = w1" using r run Inr False
      by (auto simp: finish_create_def and_then_def follow_job_def split: sum.splits prod.splits)
    with r(2) w1 show ?thesis by simp
  qed
qed

lemma remove_server_cases:
  "remove_server E d w = (r, w') \<Longrightarrow> (w' = w \<and> snd r \<noteq> None) \<or> provision_doRemove E d w = (r, w')"
  by (auto simp: remove_server_def stop_def Let_def split: sum.splits if_splits)

lemma OnRemove_settled:
  assumes store: "status_store E cur" and r: "provision_OnRemove E d w = (r, w')" "settled (cur w')"
  shows "settled (cur w) \<or> settled d \<or> saw_removal_over E d w"
proof -
  consider "w' = w" | "finish_create E d w = (r, w')" | "remove_server E d w = (r, w')" | "clean_up E d w = (r, w')"
    using r(1)
    by (auto simp: provision_OnRemove_def stop_def newInfraObject_def after_delete_job_def split: sum.splits if_splits option.splits)
  then show ?thesis
  proof cases
    case 1
    with r(2) show ?thesis by simp
  next
    case 2
    from finish_create_settled [OF store this r(2)] show ?thesis .
  next
    case 3
    from remove_server_cases [OF this] doRemove_settled [OF store _ r(2)] r(2) show ?thesis by blast
  next
    case 4
    from clean_up_settled [OF store this] r(2) show ?thesis by simp
  qed
qed

lemma OnChange_settled:
  assumes store: "status_store E cur" and r: "provision_OnChange E d w = (r, w')" "settled (cur w')"
  shows "settled (cur w) \<or> settled d \<or> saw_removal_over E d w"
proof -
  consider "w' = w" | "wait_infra E d w = (r, w')" | d' where "updated (p_InfraUpdate E d') None w = (r, w')"
    | machine where "provision_machine E d machine w = (r, w')"
    using r(1) by (auto simp: provision_OnChange_def stop_def newInfraObject_def split: sum.splits if_splits option.splits)
  then show ?thesis
  proof cases
    case 1
    with r(2) show ?thesis by simp
  next
    case 2
    with r(2) store_keeps(4) [OF store] show ?thesis by (auto simp: wait_infra_def stop_def EnqueueAfter_def)
  next
    case 3
    then have "w' = snd (p_InfraUpdate E d' w)" by (auto simp: updated_def split: prod.splits sum.splits)
    with r(2) store_keeps(1) [OF store] show ?thesis by simp
  next
    case 4
    from provision_settled [OF store this r(2)] show ?thesis .
  qed
qed

lemma OnJobChange_settled:
  assumes store: "status_store E cur" and r: "OnJobChange E job w = (r, w')" "settled (cur w')"
  shows "settled (cur w)"
proof -
  consider "w' = w" | g ns n where "w' = snd (p_Enqueue E g ns n w)"
    | g ns n d st x where "p_InfraGet E g ns n w = Inr d" "p_InfraUpdateStatus E (d\<lparr>io_Status := st\<rparr>) w = (x, w')"
    using r(1)
    by (auto simp: OnJobChange_def newInfraObject_def Let_def bindE_def retE_def split: option.splits sum.splits if_splits prod.splits)
      (metis snd_conv)+
  then show ?thesis
  proof cases
    case 1
    with r(2) show ?thesis by simp
  next
    case 2
    with r(2) store_keeps(3) [OF store] show ?thesis by simp
  next
    case 3
    from store_update [OF store 3(2) r(2)] have "settled (cur w) \<or> same_infra d (cur w) \<and> settled d" by (simp add: same_infra_def)
    moreover have "io_Conditions d = io_Conditions (cur w)" if "same_infra d (cur w)"
      using 3(1) store that unfolding status_store_def by blast
    ultimately show ?thesis using settled_conditions by blast
  qed
qed

section \<open>Letting a machine go\<close>

definition no_job :: "('w, 'z) provision_env_scheme \<Rightarrow> infra_object \<Rightarrow> 'w \<Rightarrow> bool" where
  "no_job E d w \<longleftrightarrow> (\<exists>e. getJobFromInfraMachine E d w = Inl e \<and> is_NotFound e)"

lemma track_waits: "e \<noteq> None \<Longrightarrow> snd (fst (track_job E t m obj reset e d w)) \<noteq> None"
  by (auto simp: track_job_def look_at_job_def updated_def stop_def and_then_def split: sum.splits prod.splits)

lemma doRemove_waits: "snd (fst (provision_doRemove E d w)) \<noteq> None"
  using track_waits [of "Some ErrSkip"] by (auto simp: provision_doRemove_def and_then_def Let_def split: sum.splits prod.splits)

lemma remove_server_waits: "remove_server E d w \<noteq> ((r, None), w')"
  using remove_server_cases [of E d w "(r, None)" w'] doRemove_waits [of E d w] by auto

lemma clean_up_clears: "clean_up E d w = ((r, None), w') \<Longrightarrow> p_Apply E d [] w = (Inr (), w')"
  by (auto simp: clean_up_def and_then_def stop_def split: prod.splits sum.splits)

lemma finish_create_releases:
  "finish_create E d w = ((r, None), w') \<Longrightarrow> no_job E d w \<and> p_Apply E d [] w = (Inr (), w')"
  using clean_up_clears [of E d w r w']
  by (auto simp: finish_create_def no_job_def stop_def and_then_def updated_def split: sum.splits if_splits prod.splits)

lemma after_delete_releases:
  assumes "after_delete_job E dc d w = ((r, None), w')"
  shows "p_Apply E d [] w = (Inr (), w') \<and>
    (no_job E d w \<or> (\<exists>job. getJobFromInfraMachine E d w = Inr job \<and> shouldCleanupObjects E job d))"
  using assms clean_up_clears [of E d w r w'] remove_server_waits [of E d w]
  by (auto simp: after_delete_job_def no_job_def stop_def split: sum.splits if_splits)

text \<open>A failed removal is accepted when the server was never created properly, or by force.\<close>

definition given_up :: "('w, 'z) provision_env_scheme \<Rightarrow> infra_object \<Rightarrow> job_object \<Rightarrow> bool" where
  "given_up E d job \<longleftrightarrow>
     ToLower (gets (jo_TemplateLabels job) InfraJobRemove) = ''true'' \<and> c_IsTrue (lib_Cond E) ''Failed'' (jo_Conditions job) \<and>
     ((\<exists>c. getCondition d createJobConditionType = Some c \<and> cd_Reason c = CreateMachineError) \<or>
      ToLower (gets (io_Annotations d) forceRemoveMachineAnn) = ''true'')"

lemma cleanup_iff: "shouldCleanupObjects E job d \<Longrightarrow> jo_CompletionTime job \<noteq> None \<or> given_up E d job"
  by (auto simp: shouldCleanupObjects_def given_up_def split: if_splits option.splits)

text \<open>
  C24. A machine is let go safely: when the handler of a deletion returns without an error for a
  machine whose creation has been tried, in a namespace that stays and without a machine set as its
  owner, then either the creation is not recorded as finished and no job of the machine is found
  any more, or the deletion is
  recorded as finished and its job is gone, has completed, or has failed where that is accepted.
  In each case everything that was applied for the machine has been cleaned up.
\<close>

theorem machine_released_safely:
  assumes "provision_OnRemove E d w = ((r, None), w')" "p_NamespaceGet E (io_Namespace d) w = Inr None"
    and "GetOwnerCAPIMachineSet E (\<lambda>ns n. p_MachineSetGet E ns n w) (Some (infra_meta d)) = Inl e"
    and "getCondition d createJobConditionType = Some c"
  shows "p_Apply E d [] w = (Inr (), w') \<and>
    (cd_Status c = ''Unknown'' \<and> no_job E d w \<or>
     cd_Status c \<noteq> ''Unknown'' \<and> settled d \<and>
       (no_job E d w \<or>
        (\<exists>job. getJobFromInfraMachine E d w = Inr job \<and> (jo_CompletionTime job \<noteq> None \<or> given_up E d job))))"
proof -
  have access: "p_Accessor E d = None" using assms(1,2)
    by (auto simp: provision_OnRemove_def namespaceIsRemoved_def stop_def split: option.splits)
  consider "cd_Status c = ''Unknown''" "finish_create E d w = ((r, None), w')"
    | dc where "cd_Status c \<noteq> ''Unknown''" "getCondition d deleteJobConditionType = Some dc" "cd_Status dc \<noteq> ''Unknown''"
        "after_delete_job E dc d w = ((r, None), w')"
    using assms access remove_server_waits [of E d w]
    by (auto simp: provision_OnRemove_def namespaceIsRemoved_def newInfraObject_def sbind_def split: if_splits option.splits)
  then show ?thesis
  proof cases
    case 1
    with finish_create_releases [OF 1(2)] show ?thesis by simp
  next
    case 2
    then have "settled d" by (auto simp: settled_def)
    with 2(1) after_delete_releases [OF 2(4)] cleanup_iff show ?thesis by blast
  qed
qed

text \<open>
  The history of a machine: the controller's handlers, run on the machine as it is, and anything
  else that leaves the condition of the deletion alone. The flag says that a handler has
  found the job that removes the server of this machine, and that it was over.
\<close>

inductive provision_history :: "('w, 'z) provision_env_scheme \<Rightarrow> ('w \<Rightarrow> infra_object) \<Rightarrow> 'w \<Rightarrow> bool \<Rightarrow> bool" for E cur where
  start: "getCondition (cur w) deleteJobConditionType = None \<Longrightarrow> provision_history E cur w False"
| change: "provision_history E cur w over \<Longrightarrow> provision_OnChange E (cur w) w = (r, w') \<Longrightarrow>
    provision_history E cur w' (over \<or> saw_removal_over E (cur w) w)"
| remove: "provision_history E cur w over \<Longrightarrow> provision_OnRemove E (cur w) w = (r, w') \<Longrightarrow>
    provision_history E cur w' (over \<or> saw_removal_over E (cur w) w)"
| job: "provision_history E cur w over \<Longrightarrow> OnJobChange E j w = (r', w') \<Longrightarrow> provision_history E cur w' over"
| other: "provision_history E cur w over \<Longrightarrow>
    getCondition (cur w') deleteJobConditionType = getCondition (cur w) deleteJobConditionType \<Longrightarrow> provision_history E cur w' over"

lemma history_settled:
  assumes "provision_history E cur w over" "status_store E cur"
  shows "settled (cur w) \<longrightarrow> over"
  using assms
proof (induction rule: provision_history.induct)
  case (change w over r w')
  with OnChange_settled [of E cur "cur w" w r w'] show ?case by blast
next
  case (remove w over r w')
  with OnRemove_settled [of E cur "cur w" w r w'] show ?case by blast
next
  case (job w over j r' w')
  with OnJobChange_settled [of E cur j w r' w'] show ?case by blast
qed (auto simp: settled_def)

text \<open>
  C23. No server is left behind: along every history of a machine, when the handler of its deletion
  lets it go although its creation was over, in a namespace that stays and without a machine
  set as its owner, then an earlier run of a handler has found the machine's removal job over,
  completed or failed: a job with the label of removals that was read under the job name in the
  status of the machine, or is the first one listed for its kind and name.
\<close>

theorem released_after_removal:
  assumes "status_store E cur" "provision_history E cur w over"
    and "provision_OnRemove E (cur w) w = ((r, None), w')" "p_NamespaceGet E (io_Namespace (cur w)) w = Inr None"
    and "GetOwnerCAPIMachineSet E (\<lambda>ns n. p_MachineSetGet E ns n w) (Some (infra_meta (cur w))) = Inl e"
    and "getCondition (cur w) createJobConditionType = Some c" "cd_Status c \<noteq> ''Unknown''"
  shows over
proof -
  have access: "p_Accessor E (cur w) = None" using assms(3,4)
    by (auto simp: provision_OnRemove_def namespaceIsRemoved_def stop_def split: option.splits)
  have "settled (cur w)" using assms(3-7) access remove_server_waits [of E "cur w" w]
    by (auto simp: provision_OnRemove_def namespaceIsRemoved_def newInfraObject_def sbind_def settled_def split: if_splits option.splits)
  with history_settled [OF assms(2,1)] show ?thesis by blast
qed

section \<open>Starting a job\<close>

text \<open>Only an apply changes the jobs.\<close>

definition applied_view :: "('w, 'z) provision_env_scheme \<Rightarrow> ('w \<Rightarrow> 'v) \<Rightarrow> bool" where
  "applied_view E jobs \<longleftrightarrow>
     (\<forall>d w. jobs (snd (p_InfraUpdate E d w)) = jobs w) \<and> (\<forall>d w. jobs (snd (p_InfraUpdateStatus E d w)) = jobs w) \<and>
     (\<forall>g ns n t w. jobs (snd (p_EnqueueAfter E g ns n t w)) = jobs w) \<and> (\<forall>ns n w. jobs (snd (p_MachineDelete E ns n w)) = jobs w)"

lemma updated_view:
  "applied_view E jobs \<Longrightarrow> jobs (snd (updated (p_InfraUpdateStatus E d) e w)) = jobs w"
  "applied_view E jobs \<Longrightarrow> jobs (snd (updated (p_InfraUpdate E d) e w)) = jobs w"
  unfolding applied_view_def updated_def by (auto split: prod.split sum.split) (metis snd_conv)+

lemma track_view: "applied_view E jobs \<Longrightarrow> jobs (snd (track_job E t m obj reset e d w)) = jobs w"
  using updated_view(1) [of E jobs]
  by (auto simp: track_job_def look_at_job_def stop_def and_then_def follow_job_def split: sum.splits)

lemma run_view:
  assumes "applied_view E jobs" "jobs (snd (run E d create w)) \<noteq> jobs w"
  shows "\<exists>dArgs d'. getArgsEnvAndStatus E d (getNodeDriverName (io_GVK d)) create w = Inr (dArgs, d') \<and>
    (create \<longrightarrow> da_BootstrapSecretName dArgs \<noteq> '''') \<and>
    snd (run E d create w) =
      snd (p_Apply E d' (objects E ((machine_ready E d' \<or> machine_failed E d' create) \<and> create) dArgs) w)"
proof (cases "getArgsEnvAndStatus E d (getNodeDriverName (io_GVK d)) create w")
  case (Inl e)
  with assms(2) show ?thesis by (simp add: run_def)
next
  case (Inr y)
  obtain dArgs d' where y: "y = (dArgs, d')" by fastforce
  have "da_BootstrapRequired dArgs = create" by (rule args_parts(5) [OF Inr [unfolded y]])
  moreover have q: "jobs w1 = jobs w" if "p_EnqueueAfter E g ns n t w = (x, w1)" for g ns n t x w1
    using assms(1) that unfolding applied_view_def by (metis snd_conv)
  ultimately show ?thesis using assms(2) Inr y
    by (auto simp: run_def Let_def bindE_def retE_def split: if_splits prod.splits sum.splits dest: q)
qed

lemma provision_view:
  assumes "applied_view E jobs"
  shows "jobs (snd (provision_machine E d machine w)) = jobs (snd (run E d True w))"
proof -
  have "jobs (snd ((if f then p_MachineDelete E ns n else retE ()) w)) = jobs w" for f ns n w
    using assms by (simp add: applied_view_def retE_def)
  then show ?thesis using track_view [OF assms]
    by (auto simp: provision_machine_def and_then_def split: sum.splits prod.splits) (metis snd_conv)+
qed

lemma objects_jobs:
  "PJob job \<in> set (objects E ready dArgs) \<longleftrightarrow> \<not> ready \<and> job = provision_job E dArgs"
  by (auto simp: objects_def Let_def)

lemma create_job:
  assumes "da_BootstrapRequired dArgs"
  shows "gets (pj_Labels (provision_job E dArgs)) InfraJobRemove = ''false''"
    "\<exists>v\<in>set (pj_Volumes (provision_job E dArgs)). jv_SecretName v = da_BootstrapSecretName dArgs"
  using assms by (auto simp: provision_job_def job_labels_def job_volumes_def infra_labels gets_def)

text \<open>
  C25. A server is created only when it is due: when the handler of a machine changes the jobs, the
  machine is not being deleted, its CAPI machine owns it and has its bootstrap data, and its
  cluster is there, not paused and has its infrastructure ready. What it applies holds a job
  exactly when the machine is neither ready nor has failed, and that job is one that creates the
  machine's server with the bootstrap secret of the CAPI machine.
\<close>

theorem server_created_when_due:
  assumes view: "applied_view E jobs" and run: "provision_OnChange E d w = (r, w')" "jobs w' \<noteq> jobs w"
  shows "io_DeletionTimestamp d = None \<and>
    (\<exists>machine cluster dArgs d' objs.
       GetOwnerCAPIMachine E (\<lambda>ns n. p_MachineGet E ns n w) (Some (infra_meta d)) = Inr machine \<and> m_DataSecretName machine \<noteq> None \<and>
       GetCAPIClusterFromLabel E machine w = Inr cluster \<and> \<not> p_IsPaused E cluster d \<and> cc_InfrastructureReady cluster \<and>
       getArgsEnvAndStatus E d (getNodeDriverName (io_GVK d)) True w = Inr (dArgs, d') \<and>
       jobs w' = jobs (snd (p_Apply E d' objs w)) \<and>
       (\<forall>job. PJob job \<in> set objs \<longleftrightarrow>
          \<not> machine_ready E d' \<and> \<not> machine_failed E d' True \<and> job = provision_job E dArgs) \<and>
       gets (pj_Labels (provision_job E dArgs)) InfraJobRemove = ''false'' \<and> da_BootstrapSecretName dArgs \<noteq> '''' \<and>
       (\<exists>v\<in>set (pj_Volumes (provision_job E dArgs)). jv_SecretName v = da_BootstrapSecretName dArgs))"
proof -
  have "jobs (snd (wait_infra E d w)) = jobs w" using view by (simp add: wait_infra_def stop_def EnqueueAfter_def applied_view_def)
  then obtain machine cluster where m: "io_DeletionTimestamp d = None"
    "GetOwnerCAPIMachine E (\<lambda>ns n. p_MachineGet E ns n w) (Some (infra_meta d)) = Inr machine" "m_DataSecretName machine \<noteq> None"
    "GetCAPIClusterFromLabel E machine w = Inr cluster" "\<not> p_IsPaused E cluster d" "cc_InfrastructureReady cluster"
    "provision_machine E d machine w = (r, w')"
    using run updated_view(2) [OF view]
    by (auto simp: provision_OnChange_def stop_def newInfraObject_def split: option.splits sum.splits if_splits) (metis snd_conv)+
  with provision_view [OF view, of d machine w] run(2) have changed: "jobs w' = jobs (snd (run E d True w))"
    "jobs (snd (run E d True w)) \<noteq> jobs w" by auto
  from run_view [OF view changed(2)] obtain dArgs d' where a: "getArgsEnvAndStatus E d (getNodeDriverName (io_GVK d)) True w = Inr (dArgs, d')"
    "da_BootstrapSecretName dArgs \<noteq> ''''"
    "snd (run E d True w) = snd (p_Apply E d' (objects E (machine_ready E d' \<or> machine_failed E d' True) dArgs) w)" by auto
  have req: "da_BootstrapRequired dArgs" using args_parts(5) [OF a(1)] by simp
  let ?objs = "objects E (machine_ready E d' \<or> machine_failed E d' True) dArgs"
  have objs: "\<forall>job. PJob job \<in> set ?objs \<longleftrightarrow> \<not> machine_ready E d' \<and> \<not> machine_failed E d' True \<and> job = provision_job E dArgs"
    by (auto simp: objects_jobs)
  show ?thesis
    by (rule conjI [OF m(1)], rule exI [of _ machine], rule exI [of _ cluster], rule exI [of _ dArgs], rule exI [of _ d'], rule exI [of _ ?objs])
      (use m a changed(1) create_job [OF req, of E] objs in simp)
qed

section \<open>Names\<close>

lemma limit_range: "MinimumHostnameLengthLimit \<le> hostname_limit d" "hostname_limit d \<le> MaximumHostnameLengthLimit"
  by (auto simp: hostname_limit_def Let_def MinimumHostnameLengthLimit_def MaximumHostnameLengthLimit_def split: sum.splits)

lemma SafeConcatName_chars:
  assumes "SafeConcatName E n xs = Inr s"
  shows "set s \<subseteq> set (Join xs ''-'') \<union> {CHR ''-''} \<union> set (lib_sha256_hex E (Join xs ''-''))"
  using assms set_take_subset
  by (fastforce simp: SafeConcatName_def Let_def slice_to_Inr split: if_splits sum.splits)

lemma ReplaceAll_single: "c \<noteq> d \<Longrightarrow> c \<notin> set (ReplaceAll s [c] [d])"
proof (induction s "[c]" "[d]" rule: ReplaceAll.induct)
  case (1 s)
  have absent: "Cut s [c] = None \<Longrightarrow> c \<notin> set s" for s by (induction s) (auto simp: HasPrefix_def split: if_splits option.splits)
  have before: "Cut s [c] = Some (a, b) \<Longrightarrow> c \<notin> set a" for s a b
    by (induction s arbitrary: a b) (auto simp: HasPrefix_def split: if_splits option.splits)
  show ?case using 1 absent before by (subst ReplaceAll.simps) (auto split: option.splits)
qed

text \<open>
  C40. Host names keep their bound: for every machine there is a host name, of at most the length
  that an annotation between 10 and 63 asks for and of at most 63 otherwise, and it has no dot.
  The digest is relied on to be 64 hexadecimal digits.
\<close>

theorem hostname_bounded:
  assumes "sha256_hex_length E" "\<forall>s. CHR ''.'' \<notin> set (lib_sha256_hex E s)"
  shows "\<exists>h. getHostname E d = Inr h \<and> length h \<le> 63 \<and> CHR ''.'' \<notin> set h \<and>
    (\<forall>l. Atoi (gets (io_Annotations d) HostnameLengthLimitAnnotation) = Inr l \<and> 10 \<le> l \<and> l \<le> 63 \<longrightarrow> int (length h) \<le> l)"
proof -
  let ?n = "ReplaceAll (io_Name d) ''.'' ''-''"
  have range: "10 \<le> hostname_limit d" "hostname_limit d \<le> 63"
    using limit_range [of d] by (simp_all add: MinimumHostnameLengthLimit_def MaximumHostnameLengthLimit_def)
  then obtain h where h: "getHostname E d = Inr h"
    using SafeConcatName_no_panic [OF assms(1), of "hostname_limit d" "[?n]"] by (auto simp: getHostname_def)
  then have le: "int (length h) \<le> hostname_limit d"
    using SafeConcatName_le [OF assms(1), of "hostname_limit d"] range by (simp add: getHostname_def)
  have "CHR ''.'' \<notin> set h"
    using SafeConcatName_chars [of E "hostname_limit d" "[?n]" h] h assms(2) ReplaceAll_single [of "CHR ''.''" "CHR ''-''" "io_Name d"]
    by (auto simp: getHostname_def)
  moreover have "hostname_limit d = l"
    if "Atoi (gets (io_Annotations d) HostnameLengthLimitAnnotation) = Inr l" "10 \<le> l" "l \<le> 63" for l
  proof -
    have "gets (io_Annotations d) HostnameLengthLimitAnnotation \<noteq> ''''" using that(1) by (auto simp: Atoi_def undec1_def)
    with that show ?thesis by (simp add: hostname_limit_def MinimumHostnameLengthLimit_def MaximumHostnameLengthLimit_def)
  qed
  ultimately show ?thesis using h le range by (intro exI [of _ h]) auto
qed

section \<open>Two losses\<close>

text \<open>
  The URL of the driver is saved under \<open>driverUrl\<close> and looked for under \<open>driverURL\<close>: a removal without the
  driver object does not find what was saved for it.
\<close>

lemma saved_driver_url_lost:
  assumes "k_ToString E JNull = ''''" "map_of (io_Status d) ''driverURL'' = None" "p_NodeDriverGet E driver w = Inl (ErrNotFound n)"
  shows "\<exists>hash. driver_source E (reconcileStatus E s d) driver False w = Inr ('''', hash)"
proof -
  have "''driverURL'' \<notin> fst ` set (status_data s)" by (auto simp: status_data_def)
  from status_key [OF this, of E d] assms show ?thesis by (simp add: driver_source_def status_string_def cfg_get_def)
qed

text \<open>Without its CAPI machine the server of a machine is not removed, although the deletion goes on for that case.\<close>

lemma lost_machine_blocks_removal:
  assumes "p_MachineGet E (io_Namespace d) (gets (io_Labels d) CapiMachineName) w = Inl e"
  shows "\<exists>e'. provision_doRemove E d w = ((Some d, Some e'), w)"
proof -
  obtain e' where "getArgsEnvAndStatus E d (getNodeDriverName (io_GVK d)) False w = Inl e'"
    using args_parts(4) [of E d _ False w] assms
    by (cases "getArgsEnvAndStatus E d (getNodeDriverName (io_GVK d)) False w") force+
  then show ?thesis by (simp add: provision_doRemove_def and_then_def run_def)
qed

section \<open>A concrete machine\<close>

record site =
  si_Infra :: infra_object
  si_Job :: "job_object option"

fun job_of :: "prov_object list \<Rightarrow> prov_job option" where
  "job_of [] = None"
| "job_of (PJob j # _) = Some j"
| "job_of (_ # os) = job_of os"

definition site_apply :: "prov_object list \<Rightarrow> site \<Rightarrow> site" where
  "site_apply objs w =
     w\<lparr>si_Job := (case job_of objs of
        None \<Rightarrow> None
      | Some j \<Rightarrow>
          let new = \<lparr>jo_Namespace = pj_Namespace j, jo_Name = pj_Name j, jo_TemplateLabels = pj_Labels j, jo_Selector = '''', jo_Conditions = [],
                     jo_CompletionTime = None\<rparr> in
          (case si_Job w of
             None \<Rightarrow> Some new
           | Some old \<Rightarrow> if gets (jo_TemplateLabels old) InfraJobRemove = gets (pj_Labels j) InfraJobRemove then Some old else Some new))\<rparr>"

definition site_update :: "infra_object \<Rightarrow> (site, infra_object) go" where
  "site_update d w =
     (if same_infra d (si_Infra w)
      then (Inr d, w\<lparr>si_Infra := (si_Infra w)\<lparr>io_Status := io_Status d, io_Conditions := io_Conditions d\<rparr>\<rparr>)
      else (Inl (ErrNotFound (io_Name d)), w))"

definition site_machine :: prov_machine where
  "site_machine = cluster_machine.extend (cluster_machine_of ''c'' ((demo_machine ''m1'')\<lparr>m_Labels := [CAPIClusterNameLabel \<mapsto> ''c'']\<rparr>))
     \<lparr>m_DataSecretName = Some ''boot''\<rparr>"

definition site_env :: "site provision_env" where
  "site_env = args_env.extend (planner_env.extend idle_planner
     \<lparr>p_NodeDriverGet = (\<lambda>n _. Inr \<lparr>dr_Name = n, dr_URL = ''local://'', dr_Checksum = ''''\<rparr>), p_MachineGet = (\<lambda>_ _ _. Inr site_machine),
      p_ClusterGet = (\<lambda>_ _ _. Inr (''c-m-1'', None)),
      p_BootstrapGet = (\<lambda>_ _ _. Inr [(''status'', JObj [(''dataSecretName'', JStr ''boot'')])]),
      p_SecretGet = (\<lambda>_ n _. Inl (ErrNotFound n)), p_Convert = Inr, p_Getenv = (\<lambda>_. ''''), p_Stat = (\<lambda>_. None), p_ReadFile = Inr,
      p_UIPath = '''', p_ServerURL = '''', p_MachineProvisionImage = ''rancher/machine'', p_MachineProvisionImagePullPolicy = '''',
      p_WhitelistEnvironmentVars = '''', p_CACerts = '''', p_InternalCACerts = ''''\<rparr>)
     \<lparr>p_Accessor = (\<lambda>_. None), p_Equals = (=), p_MachineSetGet = (\<lambda>_ n _. Inl (ErrNotFound n)), p_NamespaceGet = (\<lambda>_ _. Inr None),
      p_CAPIClusterGet = (\<lambda>_ _ _. Inr demo_cluster), p_IsPaused = (\<lambda>_ _. False), p_InfraGet = (\<lambda>_ _ _ w. Inr (si_Infra w)),
      p_InfraUpdate = (\<lambda>d w. (Inr d, w)), p_InfraUpdateStatus = site_update, p_Enqueue = (\<lambda>_ _ _ w. (Inr (), w)),
      p_EnqueueAfter = (\<lambda>_ _ _ _ w. (Inr (), w)), p_Apply = (\<lambda>_ objs w. (Inr (), site_apply objs w)),
      p_JobGet = (\<lambda>_ n w. case si_Job w of Some j \<Rightarrow> if jo_Name j = n then Inr j else Inl (ErrNotFound n) | None \<Rightarrow> Inl (ErrNotFound n)),
      p_JobList = (\<lambda>_ _ _ w. Inr (case si_Job w of None \<Rightarrow> [] | Some j \<Rightarrow> [j])), p_Selector = Inr, p_PodList = (\<lambda>_ _ _. Inr []),
      p_MachineDelete = (\<lambda>_ _ w. (Inr (), w))\<rparr>"

definition site_infra :: "cond list \<Rightarrow> string option \<Rightarrow> infra_object" where
  "site_infra cs del = \<lparr>io_GVK = \<lparr>gv_Group = ''rke-machine.cattle.io'', gv_Version = ''v1'', gv_Kind = ''DigitaloceanMachine''\<rparr>,
     io_Namespace = ''fleet-default'', io_Name = ''pool1.a'', io_Labels = [CapiMachineName \<mapsto> ''m1'', CAPIClusterNameLabel \<mapsto> ''c''],
     io_Annotations = Map.empty,
     io_OwnerReferences = [\<lparr>ow_APIVersion = ''cluster.x-k8s.io/v1beta1'', ow_Kind = ''Machine'', ow_Name = ''m1'', ow_Controller = True\<rparr>],
     io_DeletionTimestamp = del, io_Spec = [(''image'', JStr ''ubuntu''), (''sshKeyContents'', JStr ''key'')], io_Status = [], io_Conditions = cs\<rparr>"

text \<open>A deletion: the removal job is announced, it completes, this is recorded, and the machine is let go.\<close>

definition site_job :: job_object where
  "site_job = \<lparr>jo_Namespace = ''fleet-default'', jo_Name = ''job'', jo_TemplateLabels = [InfraJobRemove \<mapsto> ''true''], jo_Selector = '''',
     jo_Conditions = [plain_cond ''Complete'' ''True'' '''' ''''], jo_CompletionTime = Some ''now''\<rparr>"

definition site_at :: "cond list \<Rightarrow> config \<Rightarrow> job_object option \<Rightarrow> site" where
  "site_at cs st job = \<lparr>si_Infra = (site_infra (plain_cond createJobConditionType ''True'' '''' '''' # cs) (Some ''now''))\<lparr>io_Status := st\<rparr>,
     si_Job = job\<rparr>"

definition announced :: cond where
  "announced = plain_cond deleteJobConditionType ''Unknown'' '''' ''creating machine deletion job''"

definition site_new :: site where "site_new = site_at [] [] None"
definition site_done :: site where "site_done = site_at [announced] [(''jobName'', JStr ''job'')] (Some site_job)"
definition site_end :: site where
  "site_end = site_at [plain_cond deleteJobConditionType ''True'' '''' ''''] [(''jobName'', JStr ''job'')] (Some site_job)"

lemma site_store: "status_store site_env si_Infra"
  by (auto simp: status_store_def site_env_def args_env.defs planner_env.defs site_update_def site_apply_def split: if_splits)

lemma site_steps:
  "getCondition (si_Infra (snd (provision_OnRemove site_env (si_Infra site_new) site_new))) deleteJobConditionType = Some announced"
  "getCondition (si_Infra (snd (provision_OnRemove site_env (si_Infra site_done) site_done))) deleteJobConditionType =
     getCondition (si_Infra site_end) deleteJobConditionType"
  by code_simp+

lemma site_history: "\<exists>over. provision_history site_env si_Infra site_end over"
proof -
  have "provision_history site_env si_Infra site_new False"
    by (rule provision_history.start) (simp add: site_new_def site_at_def site_infra_def getCondition_def plain_cond_def
        createJobConditionType_def deleteJobConditionType_def)
  from provision_history.remove [OF this surjective_pairing] obtain b
    where h: "provision_history site_env si_Infra (snd (provision_OnRemove site_env (si_Infra site_new) site_new)) b" by blast
  have "getCondition (si_Infra site_done) deleteJobConditionType = Some announced"
    by (simp add: site_done_def site_at_def site_infra_def getCondition_def announced_def plain_cond_def createJobConditionType_def
        deleteJobConditionType_def)
  with site_steps(1) provision_history.other [OF h] have "provision_history site_env si_Infra site_done b" by metis
  from provision_history.remove [OF this surjective_pairing] provision_history.other site_steps(2) show ?thesis by metis
qed

lemma site_end_facts:
  "snd (fst (provision_OnRemove site_env (si_Infra site_end) site_end)) = None"
  "p_NamespaceGet site_env (io_Namespace (si_Infra site_end)) site_end = Inr None"
  "\<exists>e. GetOwnerCAPIMachineSet site_env (\<lambda>ns n. p_MachineSetGet site_env ns n site_end) (Some (infra_meta (si_Infra site_end))) = Inl e"
  "getCondition (si_Infra site_end) createJobConditionType = Some (plain_cond createJobConditionType ''True'' '''' '''')"
proof -
  show "snd (fst (provision_OnRemove site_env (si_Infra site_end) site_end)) = None" by code_simp
  show "p_NamespaceGet site_env (io_Namespace (si_Infra site_end)) site_end = Inr None"
    by (simp add: site_env_def args_env.defs planner_env.defs)
  have "(case GetOwnerCAPIMachineSet site_env (\<lambda>ns n. p_MachineSetGet site_env ns n site_end) (Some (infra_meta (si_Infra site_end))) of
      Inl _ \<Rightarrow> True | Inr _ \<Rightarrow> False)" by code_simp
  then show "\<exists>e. GetOwnerCAPIMachineSet site_env (\<lambda>ns n. p_MachineSetGet site_env ns n site_end) (Some (infra_meta (si_Infra site_end))) = Inl e"
    by (auto split: sum.splits)
  show "getCondition (si_Infra site_end) createJobConditionType = Some (plain_cond createJobConditionType ''True'' '''' '''')"
    by (simp add: site_end_def site_at_def site_infra_def getCondition_def plain_cond_def)
qed

lemma site_release: "\<exists>r w'. provision_OnRemove site_env (si_Infra site_end) site_end = ((r, None), w')"
  using site_end_facts(1) by (metis prod.collapse)

theorem machine_released_safely_witness:
  "settled (si_Infra site_end) \<and> (\<exists>job. getJobFromInfraMachine site_env (si_Infra site_end) site_end = Inr job \<and> jo_CompletionTime job \<noteq> None)"
proof -
  obtain r w' where r: "provision_OnRemove site_env (si_Infra site_end) site_end = ((r, None), w')" using site_release by blast
  obtain e where e: "GetOwnerCAPIMachineSet site_env (\<lambda>ns n. p_MachineSetGet site_env ns n site_end) (Some (infra_meta (si_Infra site_end))) = Inl e"
    using site_end_facts(3) by blast
  have c: "cd_Status (plain_cond createJobConditionType ''True'' '''' '''') \<noteq> ''Unknown''" by (simp add: plain_cond_def)
  have job: "getJobFromInfraMachine site_env (si_Infra site_end) site_end = Inr site_job"
    by (simp add: getJobFromInfraMachine_def site_env_def args_env.defs planner_env.defs site_end_def site_at_def sbind_def)
  from machine_released_safely [OF r site_end_facts(2) e site_end_facts(4)] c have "settled (si_Infra site_end)" by blast
  with job show ?thesis by (simp add: site_job_def)
qed

theorem released_after_removal_witness:
  "provision_history site_env si_Infra site_end True \<and> (\<exists>r w'. provision_OnRemove site_env (si_Infra site_end) site_end = ((r, None), w'))"
proof -
  obtain over where h: "provision_history site_env si_Infra site_end over" using site_history by blast
  obtain r w' where r: "provision_OnRemove site_env (si_Infra site_end) site_end = ((r, None), w')" using site_release by blast
  obtain e where e: "GetOwnerCAPIMachineSet site_env (\<lambda>ns n. p_MachineSetGet site_env ns n site_end) (Some (infra_meta (si_Infra site_end))) = Inl e"
    using site_end_facts(3) by blast
  have "over" by (rule released_after_removal [OF site_store h r site_end_facts(2) e site_end_facts(4)]) (simp add: plain_cond_def)
  with h r show ?thesis by auto
qed

text \<open>A machine that is new: its job is started.\<close>

definition site_fresh :: site where
  "site_fresh = \<lparr>si_Infra = site_infra [] None, si_Job = None\<rparr>"

theorem server_created_when_due_witness:
  "\<exists>machine. m_DataSecretName machine \<noteq> None \<and>
     GetOwnerCAPIMachine site_env (\<lambda>ns n. p_MachineGet site_env ns n site_fresh) (Some (infra_meta (si_Infra site_fresh))) = Inr machine"
proof -
  have view: "applied_view site_env si_Job"
    by (simp add: applied_view_def site_env_def args_env.defs planner_env.defs site_update_def)
  have "map_option jo_Name (si_Job (snd (provision_OnChange site_env (si_Infra site_fresh) site_fresh))) = Some ''pool1.a-machine-provision''"
    by code_simp
  then have "si_Job (snd (provision_OnChange site_env (si_Infra site_fresh) site_fresh)) \<noteq> si_Job site_fresh" by (auto simp: site_fresh_def)
  from server_created_when_due [OF view surjective_pairing this] show ?thesis by blast
qed

theorem hostname_bounded_witness:
  "\<exists>h. getHostname site_env (si_Infra site_fresh) = Inr h \<and> length h \<le> 63 \<and> CHR ''.'' \<notin> set h"
proof -
  have "sha256_hex_length site_env" "\<forall>s. CHR ''.'' \<notin> set (lib_sha256_hex site_env s)"
    by (simp_all add: sha256_hex_length_def site_env_def args_env.defs idle_defs demo_libs_def)
  from hostname_bounded [OF this, of "si_Infra site_fresh"] show ?thesis by blast
qed

end
