(* ===== verification/Node_Taints.thy ===== *)
theory Node_Taints
  imports S3_Args "HOL-Library.AList" "HOL-Library.Multiset"
begin

text \<open>
  Taints as they are written, compared and merged (\<open>pkg/taints/utils.go\<close>), and the controller that
  brings the taints of a node to the ones wanted for it
  (\<open>controllers/managementuser/nodesyncer/nodetaints.go\<close>, with the search of a node in \<open>pkg/node/node.go\<close>). A Go map is
  an association list with distinct keys; where the source ranges over one, the order is a
  parameter. RKE's type of taints has the fields of Kubernetes' own and is not kept apart. A nil
  slice and an empty one are the same list.
\<close>

section \<open>Taints\<close>

record timed_taint = taint +
  ta_TimeAdded :: "string option"

definition GetTaintsString :: "('z) taint_scheme \<Rightarrow> string" where
  "GetTaintsString t = ta_Key t @ ''='' @ ta_Value t @ '':'' @ ta_Effect t"

definition GetKeyEffectString :: "('z) taint_scheme \<Rightarrow> string" where
  "GetKeyEffectString t = ta_Key t @ '':'' @ ta_Effect t"

definition GetTaintFromString :: "string \<Rightarrow> timed_taint option" where
  "GetTaintFromString taintStr =
     (case Split taintStr ''='' of
        [key, rest] \<Rightarrow>
          (case Split rest '':'' of
             [value, effect] \<Rightarrow> Some \<lparr>ta_Key = key, ta_Value = value, ta_Effect = effect, ta_TimeAdded = None\<rparr>
           | _ \<Rightarrow> None)
      | _ \<Rightarrow> None)"

fun index_loop :: "('a \<Rightarrow> string) \<Rightarrow> nat \<Rightarrow> 'a list \<Rightarrow> (string \<times> nat) list \<Rightarrow> (string \<times> nat) list" where
  "index_loop f i [] rtn = rtn"
| "index_loop f i (t # ts) rtn = index_loop f (Suc i) ts (AList.update (f t) i rtn)"

definition GetTaintSet :: "('z) taint_scheme list \<Rightarrow> (string \<times> nat) list" where
  "GetTaintSet taints = index_loop GetTaintsString 0 taints []"

definition GetKeyEffectTaintSet :: "('z) taint_scheme list \<Rightarrow> (string \<times> nat) list" where
  "GetKeyEffectTaintSet taints = index_loop GetKeyEffectString 0 taints []"

text \<open>The entries of the first set whose key the second does not have, with their taints.\<close>

definition diff_taints :: "'a list \<Rightarrow> (string \<times> nat) list \<Rightarrow> (string \<times> nat) list \<Rightarrow> (nat \<times> 'a) list" where
  "diff_taints taints from other = map (\<lambda>(_, i). (i, taints ! i)) (filter (\<lambda>(k, _). map_of other k = None) from)"

definition GetToDiffTaints ::
  "('z) taint_scheme list \<Rightarrow> ('z) taint_scheme list \<Rightarrow> (nat \<times> ('z) taint_scheme) list \<times> (nat \<times> ('z) taint_scheme) list" where
  "GetToDiffTaints current desired =
     (let currentSet = GetTaintSet current; desiredSet = GetTaintSet desired in
      (diff_taints desired desiredSet currentSet, diff_taints current currentSet desiredSet))"

text \<open>A string that is no taint is a nil pointer, which is read.\<close>

fun GetRKETaintsFromStrings :: "string list \<Rightarrow> go_error + timed_taint list" where
  "GetRKETaintsFromStrings [] = Inr []"
| "GetRKETaintsFromStrings (source # sources) =
     (case GetTaintFromString source of
        None \<Rightarrow> Inl (GoPanic ''nil taint'')
      | Some t \<Rightarrow> sbind (GetRKETaintsFromStrings sources) (\<lambda>ts. Inr (t # ts)))"

definition GetRKETaintsFromTaints :: "timed_taint list \<Rightarrow> timed_taint list" where
  "GetRKETaintsFromTaints sources =
     map (\<lambda>source. \<lparr>ta_Key = ta_Key source, ta_Value = ta_Value source, ta_Effect = ta_Effect source,
        ta_TimeAdded = ta_TimeAdded source\<rparr>) sources"

definition GetStringsFromTaint :: "('z) taint_scheme list \<Rightarrow> string list" where
  "GetStringsFromTaint taints = map GetTaintsString taints"

fun GetTaintsFromStrings :: "string list \<Rightarrow> timed_taint list" where
  "GetTaintsFromStrings [] = []"
| "GetTaintsFromStrings (source # sources) =
     (case GetTaintFromString source of
        None \<Rightarrow> GetTaintsFromStrings sources
      | Some t \<Rightarrow> t # GetTaintsFromStrings sources)"

text \<open>\<open>rng\<close>: the order in which the source ranges over a map.\<close>

definition MergeTaints :: "((string \<times> nat) list \<Rightarrow> (string \<times> nat) list) \<Rightarrow>
  ('z) taint_scheme list \<Rightarrow> ('z) taint_scheme list \<Rightarrow> ('z) taint_scheme list" where
  "MergeTaints rng t1 t2 =
     (let set1 = GetKeyEffectTaintSet t1; set2 = GetKeyEffectTaintSet t2 in
      t2 @ map (\<lambda>(_, i). t1 ! i) (filter (\<lambda>(k, _). map_of set2 k = None) (rng set1)))"

section \<open>The taints of a node\<close>

record core_node =
  nd_Name :: string
  nd_Addresses :: "(string \<times> string) list"
  nd_Taints :: "timed_taint list"

record node_config =
  nc_HostnameOverride :: string
  nc_Address :: string
  nc_InternalAddress :: string

record v3_node =
  vn_Name :: string
  vn_Labels :: smap
  vn_StatusNodeName :: string
  vn_NodeConfig :: "node_config option"
  vn_DeletionTimestamp :: "string option"
  vn_Registered :: bool
  vn_UpdateTaintsFromAPI :: "bool option"
  vn_DesiredNodeTaints :: "timed_taint list"
  vn_InternalTaints :: "timed_taint list"

record 'w nodesync_env =
  ns_NodeGet :: "string \<Rightarrow> 'w \<Rightarrow> go_error + core_node"
  ns_NodeList :: "'w \<Rightarrow> go_error + core_node list"
  ns_NodeUpdate :: "core_node \<Rightarrow> ('w, core_node) go"
  ns_MachineUpdate :: "v3_node \<Rightarrow> ('w, v3_node) go"
  ns_RangeTaints :: "(nat \<times> timed_taint) list \<Rightarrow> (nat \<times> timed_taint) list"

definition LabelNodeName :: string where "LabelNodeName = ''management.cattle.io/nodename''"

definition GetNodeName :: "v3_node \<Rightarrow> string" where
  "GetNodeName machine =
     (if vn_StatusNodeName machine \<noteq> '''' then vn_StatusNodeName machine
      else (case vn_NodeConfig machine of None \<Rightarrow> '''' | Some c \<Rightarrow> nc_HostnameOverride c))"

definition GetNodeInternalAddress :: "core_node \<Rightarrow> string" where
  "GetNodeInternalAddress node = (case map_of (nd_Addresses node) ''InternalIP'' of Some a \<Rightarrow> a | None \<Rightarrow> '''')"

definition IsNodeForNode :: "core_node \<Rightarrow> v3_node \<Rightarrow> bool" where
  "IsNodeForNode node machine =
     (if GetNodeName machine = nd_Name node then True
      else
        let machineAddress =
              (case vn_NodeConfig machine of
                 None \<Rightarrow> ''''
               | Some c \<Rightarrow> if nc_InternalAddress c = '''' then nc_Address c else nc_InternalAddress c) in
        machineAddress \<noteq> '''' \<and> machineAddress = GetNodeInternalAddress node)"

definition GetNodeForMachine :: "('w, 'z) nodesync_env_scheme \<Rightarrow> v3_node \<Rightarrow> 'w \<Rightarrow> go_error + core_node option" where
  "GetNodeForMachine E machine w =
     (let nodeName = gets (vn_Labels machine) LabelNodeName in
      sbind (if nodeName = '''' then Inr []
             else (case ns_NodeGet E nodeName w of
                     Inl e \<Rightarrow> if is_NotFound e then Inr [] else Inl e
                   | Inr node \<Rightarrow> Inr [node])) (\<lambda>named.
      sbind (if named = [] then ns_NodeList E w else Inr named) (\<lambda>nodes.
        Inr (find (\<lambda>n. IsNodeForNode n machine) nodes))))"

definition isDuplicate :: "go_error \<Rightarrow> bool" where
  "isDuplicate e \<longleftrightarrow> Contains (Error e) ''taints must be unique by key and effect pair''"

text \<open>The taints of the node without those to delete, and then those to add.\<close>

definition apply_diff ::
  "((nat \<times> timed_taint) list \<Rightarrow> (nat \<times> timed_taint) list) \<Rightarrow> timed_taint list \<Rightarrow>
   (nat \<times> timed_taint) list \<Rightarrow> (nat \<times> timed_taint) list \<Rightarrow> timed_taint list" where
  "apply_diff rng taints toAdd toDel =
     map snd (filter (\<lambda>(i, _). map_of toDel i = None) (List.enumerate 0 taints)) @ map snd (rng toAdd)"

definition done_taints :: "v3_node \<Rightarrow> v3_node" where
  "done_taints obj = obj\<lparr>vn_DesiredNodeTaints := [], vn_UpdateTaintsFromAPI := None\<rparr>"

definition write_machine :: "('w, 'z) nodesync_env_scheme \<Rightarrow> v3_node \<Rightarrow> 'w \<Rightarrow> (v3_node option \<times> err) \<times> 'w" where
  "write_machine E obj w =
     (case ns_MachineUpdate E obj w of
        (Inl e, w') \<Rightarrow> ((None, Some e), w')
      | (Inr m, w') \<Rightarrow> ((Some m, None), w'))"

definition sync_node_taints :: "('w, 'z) nodesync_env_scheme \<Rightarrow> v3_node \<Rightarrow> core_node \<Rightarrow> 'w \<Rightarrow> (v3_node option \<times> err) \<times> 'w" where
  "sync_node_taints E obj node w =
     (case GetToDiffTaints (nd_Taints node) (vn_DesiredNodeTaints obj) of
        (toAdd, toDel) \<Rightarrow>
          if toAdd = [] \<and> toDel = [] then write_machine E (done_taints obj) w
          else
            let taintList = apply_diff (ns_RangeTaints E) (nd_Taints node) toAdd toDel in
            (case ns_NodeUpdate E (node\<lparr>nd_Taints := taintList\<rparr>) w of
               (Inl e, w1) \<Rightarrow>
                 if isDuplicate e then write_machine E (done_taints obj) w1
                 else ((Some obj, Some (ErrWrap (''failed to update corev1.Node '' @ nd_Name node @ '' from v3.Node '' @ vn_Name obj @ '' in node taint controller'') e)), w1)
             | (Inr _, w1) \<Rightarrow>
                 write_machine E (done_taints
                   (if vn_DesiredNodeTaints obj \<noteq> vn_InternalTaints obj then obj\<lparr>vn_InternalTaints := taintList\<rparr> else obj)) w1))"

definition syncTaints :: "('w, 'z) nodesync_env_scheme \<Rightarrow> v3_node option \<Rightarrow> 'w \<Rightarrow> (v3_node option \<times> err) \<times> 'w" where
  "syncTaints E obj w =
     (case obj of
        None \<Rightarrow> ((None, None), w)
      | Some obj \<Rightarrow>
          if vn_DeletionTimestamp obj \<noteq> None \<or> \<not> vn_Registered obj \<or> vn_UpdateTaintsFromAPI obj = None then ((Some obj, None), w)
          else
            (case GetNodeForMachine E obj w of
               Inl e \<Rightarrow> ((Some obj, Some e), w)
             | Inr None \<Rightarrow> ((Some obj, None), w)
             | Inr (Some node) \<Rightarrow> sync_node_taints E obj node w))"

section \<open>Sets of taints\<close>

text \<open>The index of a list: an entry for every string, at a position that has it.\<close>

definition index_of :: "('a \<Rightarrow> string) \<Rightarrow> 'a list \<Rightarrow> (string \<times> nat) list \<Rightarrow> bool" where
  "index_of f ts ix \<longleftrightarrow>
     distinct (map fst ix) \<and> fst ` set ix = f ` set ts \<and> (\<forall>(k, j)\<in>set ix. j < length ts \<and> f (ts ! j) = k)"

lemma index_of_snoc:
  assumes "index_of f ts ix"
  shows "index_of f (ts @ [t]) (AList.update (f t) (length ts) ix)"
proof -
  have keys: "fst ` set (AList.update (f t) (length ts) ix) = f ` set (ts @ [t])"
    using assms by (simp add: index_of_def dom_update)
  have "j < length (ts @ [t]) \<and> f ((ts @ [t]) ! j) = k" if "(k, j) \<in> set (AList.update (f t) (length ts) ix)" for k j
  proof (cases "(k, j) \<in> set ix")
    case True
    with assms show ?thesis by (auto simp: index_of_def nth_append)
  next
    case False
    with that assms have "map_of (AList.update (f t) (length ts) ix) k = Some j"
      by (simp add: index_of_def distinct_update map_of_eq_Some_iff)
    with False assms have "k = f t" "j = length ts"
      by (auto simp: update_conv' index_of_def map_of_eq_Some_iff split: if_splits)
    then show ?thesis by simp
  qed
  with keys assms show ?thesis by (auto simp: index_of_def distinct_update)
qed

lemma index_loop_ok: "index_of f pre rtn \<Longrightarrow> index_of f (pre @ ts) (index_loop f (length pre) ts rtn)"
proof (induction ts arbitrary: pre rtn)
  case (Cons t ts)
  from Cons.IH [OF index_of_snoc [OF Cons.prems]] show ?case by simp
qed simp

lemma index_ok: "index_of f ts (index_loop f 0 ts [])"
  using index_loop_ok [of f "[]" "[]" ts] by (simp add: index_of_def)

lemma index_lookup: "index_of f ts ix \<Longrightarrow> map_of ix k = None \<longleftrightarrow> k \<notin> f ` set ts"
  by (simp add: index_of_def map_of_eq_None_iff)

text \<open>In a list without repetitions every position is in the index.\<close>

lemma index_position:
  assumes "index_of f ts ix" "distinct (map f ts)" "i < length ts"
  shows "(f (ts ! i), i) \<in> set ix"
proof -
  have "f (ts ! i) \<in> fst ` set ix" using assms(1,3) by (auto simp: index_of_def)
  then obtain j where j: "(f (ts ! i), j) \<in> set ix" by auto
  with assms(1) have "j < length ts" "f (ts ! j) = f (ts ! i)" by (auto simp: index_of_def)
  with assms(2,3) have "j = i" by (metis length_map nth_eq_iff_index_eq nth_map)
  with j show ?thesis by simp
qed

lemma diff_taints_deleted:
  assumes "index_of f ts ix" "index_of f us iy" "distinct (map f ts)" "i < length ts"
  shows "map_of (diff_taints ts ix iy) i = None \<longleftrightarrow> f (ts ! i) \<in> f ` set us"
proof -
  have "i \<in> fst ` set (diff_taints ts ix iy) \<longleftrightarrow> (\<exists>k. (k, i) \<in> set ix \<and> map_of iy k = None)"
    by (force simp: diff_taints_def)
  also have "\<dots> \<longleftrightarrow> map_of iy (f (ts ! i)) = None"
  proof -
    have "k = f (ts ! i)" if "(k, i) \<in> set ix" for k using assms(1) that by (auto simp: index_of_def)
    with index_position [OF assms(1,3,4)] show ?thesis by blast
  qed
  finally have "i \<in> fst ` set (diff_taints ts ix iy) \<longleftrightarrow> f (ts ! i) \<notin> f ` set us" by (simp only: index_lookup [OF assms(2)])
  then show ?thesis by (simp add: map_of_eq_None_iff)
qed

lemma diff_taints_added:
  assumes "index_of f ts ix" "index_of f us iy"
  shows "f ` snd ` set (diff_taints ts ix iy) = f ` set ts - f ` set us" "distinct (map (f \<circ> snd) (diff_taints ts ix iy))"
proof -
  have at: "f (ts ! j) = k" if "(k, j) \<in> set ix" for k j using assms(1) that by (auto simp: index_of_def)
  have eq: "map (f \<circ> snd) (diff_taints ts ix iy) = map fst (filter (\<lambda>(k, _). map_of iy k = None) ix)"
    using at by (auto simp: diff_taints_def)
  have "distinct (map fst (filter (\<lambda>(k, _). map_of iy k = None) ix))"
    using assms(1) by (simp add: index_of_def distinct_map_filter)
  then show "distinct (map (f \<circ> snd) (diff_taints ts ix iy))" by (simp only: eq)
  have keys: "fst ` set (filter (\<lambda>(k, _). map_of iy k = None) ix) = f ` set ts - f ` set us"
  proof -
    have "fst ` set (filter (\<lambda>(k, _). map_of iy k = None) ix) = {k \<in> fst ` set ix. map_of iy k = None}" by force
    also have "\<dots> = f ` set ts - f ` set us" using assms(1) by (auto simp: index_of_def index_lookup [OF assms(2)])
    finally show ?thesis .
  qed
  have "f ` snd ` set (diff_taints ts ix iy) = set (map (f \<circ> snd) (diff_taints ts ix iy))" by (simp add: image_image)
  also have "\<dots> = f ` set ts - f ` set us" unfolding eq set_map by (rule keys)
  finally show "f ` snd ` set (diff_taints ts ix iy) = f ` set ts - f ` set us" .
qed

lemma filter_enumerate:
  "(\<And>i. i < length xs \<Longrightarrow> P (n + i) \<longleftrightarrow> Q (xs ! i)) \<Longrightarrow>
     map snd (filter (\<lambda>(i, _). P i) (List.enumerate n xs)) = filter Q xs"
proof (induction xs arbitrary: n)
  case (Cons x xs)
  have "map snd (filter (\<lambda>(i, _). P i) (List.enumerate (Suc n) xs)) = filter Q xs"
    by (rule Cons.IH) (use Cons.prems [of "Suc _"] in simp)
  with Cons.prems [of 0] show ?case by simp
qed simp

text \<open>
  Merging: of two taints with the same key and effect the one of the second list stays; every
  other taint stays, and none is made up.
\<close>

lemma MergeTaints_keys:
  assumes "\<And>xs. mset (rng xs) = mset xs"
  shows "GetKeyEffectString ` set (MergeTaints rng t1 t2) = GetKeyEffectString ` set t1 \<union> GetKeyEffectString ` set t2"
    and "set (MergeTaints rng t1 t2) \<subseteq> set t2 \<union> {t \<in> set t1. GetKeyEffectString t \<notin> GetKeyEffectString ` set t2}"
proof -
  let ?ix1 = "GetKeyEffectTaintSet t1" and ?ix2 = "GetKeyEffectTaintSet t2"
  note ix = index_ok [of GetKeyEffectString, folded GetKeyEffectTaintSet_def]
  have rng: "set (rng ?ix1) = set ?ix1" using assms by (metis set_mset_mset)
  have at: "i < length t1 \<and> GetKeyEffectString (t1 ! i) = k" if "(k, i) \<in> set ?ix1" for k i
    using ix [of t1] that by (auto simp: index_of_def)
  have keys: "fst ` set ?ix1 = GetKeyEffectString ` set t1" using ix [of t1] by (simp add: index_of_def)
  have merged: "set (MergeTaints rng t1 t2) =
      set t2 \<union> {t1 ! i |k i. (k, i) \<in> set ?ix1 \<and> k \<notin> GetKeyEffectString ` set t2}"
    by (auto simp: MergeTaints_def Let_def rng index_lookup [OF ix [of t2]] image_iff)
  then show "set (MergeTaints rng t1 t2) \<subseteq> set t2 \<union> {t \<in> set t1. GetKeyEffectString t \<notin> GetKeyEffectString ` set t2}"
    using at nth_mem by fastforce
  have "GetKeyEffectString ` {t1 ! i |k i. (k, i) \<in> set ?ix1 \<and> k \<notin> GetKeyEffectString ` set t2} =
      fst ` set ?ix1 - GetKeyEffectString ` set t2" using at by (force simp: image_iff)
  with merged keys show "GetKeyEffectString ` set (MergeTaints rng t1 t2) = GetKeyEffectString ` set t1 \<union> GetKeyEffectString ` set t2"
    by (simp add: image_Un) blast
qed

section \<open>The controller\<close>

definition range_taints_law :: "('w, 'z) nodesync_env_scheme \<Rightarrow> bool" where
  "range_taints_law E \<longleftrightarrow> (\<forall>xs. mset (ns_RangeTaints E xs) = mset xs)"

lemma apply_diff_exact:
  assumes "distinct (map GetTaintsString current)" "\<And>xs. mset (rng xs) = mset xs"
    and "GetToDiffTaints current desired = (toAdd, toDel)"
  shows "apply_diff rng current toAdd toDel =
      filter (\<lambda>t. GetTaintsString t \<in> GetTaintsString ` set desired) current @ map snd (rng toAdd)" (is ?eq)
    and "GetTaintsString ` set (apply_diff rng current toAdd toDel) = GetTaintsString ` set desired" (is ?set)
    and "distinct (map GetTaintsString (apply_diff rng current toAdd toDel))"
proof -
  note ix = index_ok [of GetTaintsString, folded GetTaintSet_def]
  have add: "toAdd = diff_taints desired (GetTaintSet desired) (GetTaintSet current)"
    and del: "toDel = diff_taints current (GetTaintSet current) (GetTaintSet desired)"
    using assms(3) by (simp_all add: GetToDiffTaints_def Let_def)
  have "map snd (filter (\<lambda>(i, _). map_of toDel i = None) (List.enumerate 0 current)) =
      filter (\<lambda>t. GetTaintsString t \<in> GetTaintsString ` set desired) current"
    by (rule filter_enumerate) (use diff_taints_deleted [OF ix [of current] ix [of desired] assms(1)] in \<open>simp add: del\<close>)
  then show eq: ?eq by (simp add: apply_diff_def)
  have rng: "set (rng toAdd) = set toAdd" using assms(2) by (metis set_mset_mset)
  note added = diff_taints_added [OF ix [of desired] ix [of current], folded add]
  have new: "GetTaintsString ` set (map snd (rng toAdd)) = GetTaintsString ` set desired - GetTaintsString ` set current"
    using added(1) by (simp only: set_map rng)
  have "GetTaintsString ` set (filter (\<lambda>t. GetTaintsString t \<in> GetTaintsString ` set desired) current) =
      GetTaintsString ` set current \<inter> GetTaintsString ` set desired" by auto
  with new show ?set unfolding eq set_append image_Un by blast
  have "mset (map (GetTaintsString \<circ> snd) (rng toAdd)) = mset (map (GetTaintsString \<circ> snd) toAdd)" using assms(2) by simp
  with added(2) have "distinct (map (GetTaintsString \<circ> snd) (rng toAdd))" using mset_eq_imp_distinct_iff by blast
  with new assms(1) show "distinct (map GetTaintsString (apply_diff rng current toAdd toDel))"
    unfolding eq map_append distinct_append by (auto simp: distinct_map_filter)
qed

text \<open>The nodes of the API server: a write of a node that succeeds is read back, one of a machine changes no node.\<close>

definition node_store :: "('w, 'z) nodesync_env_scheme \<Rightarrow> ('w \<Rightarrow> string \<Rightarrow> core_node option) \<Rightarrow> bool" where
  "node_store E nodes \<longleftrightarrow>
     (\<forall>n w x w'. ns_NodeUpdate E n w = (Inr x, w') \<longrightarrow> nodes w' (nd_Name n) = Some n) \<and>
     (\<forall>m w. nodes (snd (ns_MachineUpdate E m w)) = nodes w)"

lemma write_machine_nodes: "node_store E nodes \<Longrightarrow> nodes (snd (write_machine E m w)) = nodes w"
proof -
  have "snd (write_machine E m w) = snd (ns_MachineUpdate E m w)" by (simp add: write_machine_def split: prod.split sum.split)
  then show "node_store E nodes \<Longrightarrow> ?thesis" by (simp add: node_store_def)
qed

text \<open>
  C38. A node gets the taints that are wanted for it: when the handler finishes without an error
  for a node whose taints are distinct, and the update was not refused as a duplicate, the
  node has, each once, exactly the taints wanted for it, and the ones it had and keeps are
  the same taints, with the time they were added.
\<close>

theorem node_gets_wanted_taints:
  assumes laws: "node_store E nodes" "range_taints_law E" "\<forall>n e w'. ns_NodeUpdate E n w = (Inl e, w') \<longrightarrow> \<not> isDuplicate e"
    and obj: "vn_DeletionTimestamp obj = None" "vn_Registered obj" "vn_UpdateTaintsFromAPI obj \<noteq> None"
    and node: "GetNodeForMachine E obj w = Inr (Some node)" "nodes w (nd_Name node) = Some node"
      "distinct (map GetTaintsString (nd_Taints node))"
    and run: "syncTaints E (Some obj) w = ((m, None), w')"
  shows "\<exists>node'. nodes w' (nd_Name node) = Some node' \<and>
    GetTaintsString ` set (nd_Taints node') = GetTaintsString ` set (vn_DesiredNodeTaints obj) \<and>
    distinct (map GetTaintsString (nd_Taints node')) \<and>
    (\<forall>t\<in>set (nd_Taints node). GetTaintsString t \<in> GetTaintsString ` set (vn_DesiredNodeTaints obj) \<longrightarrow> t \<in> set (nd_Taints node'))"
proof -
  obtain toAdd toDel where d: "GetToDiffTaints (nd_Taints node) (vn_DesiredNodeTaints obj) = (toAdd, toDel)" by fastforce
  have rng: "mset (ns_RangeTaints E xs) = mset xs" for xs using laws(2) by (simp add: range_taints_law_def)
  let ?new = "apply_diff (ns_RangeTaints E) (nd_Taints node) toAdd toDel"
  note exact = apply_diff_exact [OF node(3) rng d]
  have sync: "sync_node_taints E obj node w = ((m, None), w')" using run obj node(1) by (simp add: syncTaints_def)
  have "\<exists>node'. nodes w' (nd_Name node) = Some node' \<and> nd_Taints node' = ?new"
  proof (cases "toAdd = [] \<and> toDel = []")
    case True
    then have "?new = nd_Taints node" using rng [of "[]"] by (simp add: apply_diff_def filter_enumerate [where Q = "\<lambda>_. True"])
    moreover have "nodes w' = nodes w"
      using sync d True write_machine_nodes [OF laws(1), of "done_taints obj" w] by (simp add: sync_node_taints_def)
    ultimately show ?thesis using node(2) by simp
  next
    case False
    obtain x w1 where upd: "ns_NodeUpdate E (node\<lparr>nd_Taints := ?new\<rparr>) w = (x, w1)" by fastforce
    then obtain n where x: "x = Inr n" using sync d False laws(3) by (cases x) (auto simp: sync_node_taints_def Let_def)
    with sync d False upd have "\<exists>m'. write_machine E m' w1 = ((m, None), w')" by (auto simp: sync_node_taints_def Let_def)
    with write_machine_nodes [OF laws(1)] have "nodes w' = nodes w1" by (metis snd_conv)
    moreover from laws(1) upd x have "nodes w1 (nd_Name (node\<lparr>nd_Taints := ?new\<rparr>)) = Some (node\<lparr>nd_Taints := ?new\<rparr>)"
      unfolding node_store_def by blast
    ultimately show ?thesis by simp
  qed
  then obtain node' where "nodes w' (nd_Name node) = Some node'" "nd_Taints node' = ?new" by blast
  with exact show ?thesis by auto
qed

text \<open>A taint that is written is read back, when its parts do not contain the separators.\<close>

definition plain_taint :: "('z) taint_scheme \<Rightarrow> bool" where
  "plain_taint t \<longleftrightarrow>
     CHR ''='' \<notin> set (ta_Key t) \<and> CHR ''='' \<notin> set (ta_Value t) \<and> CHR ''='' \<notin> set (ta_Effect t) \<and>
     CHR '':'' \<notin> set (ta_Value t) \<and> CHR '':'' \<notin> set (ta_Effect t)"

lemma Cut_absent: "c \<notin> set s \<Longrightarrow> Cut s [c] = None"
  by (induction s) (auto simp: HasPrefix_def)

lemma Split_pair: "c \<notin> set a \<Longrightarrow> c \<notin> set b \<Longrightarrow> Split (a @ c # b) [c] = [a, b]"
  by (simp add: Split.simps [of "a @ c # b"] Split.simps [of b] Cut_single Cut_absent)

lemma taint_roundtrip:
  assumes "plain_taint t"
  shows "GetTaintFromString (GetTaintsString t) =
    Some \<lparr>ta_Key = ta_Key t, ta_Value = ta_Value t, ta_Effect = ta_Effect t, ta_TimeAdded = None\<rparr>"
proof -
  have "Split (GetTaintsString t) ''='' = [ta_Key t, ta_Value t @ '':'' @ ta_Effect t]"
    using assms Split_pair [of "CHR ''=''" "ta_Key t" "ta_Value t @ '':'' @ ta_Effect t"] by (simp add: GetTaintsString_def plain_taint_def)
  moreover have "Split (ta_Value t @ '':'' @ ta_Effect t) '':'' = [ta_Value t, ta_Effect t]"
    using assms Split_pair [of "CHR '':''" "ta_Value t" "ta_Effect t"] by (simp add: plain_taint_def)
  ultimately show ?thesis by (simp add: GetTaintFromString_def)
qed

lemma invalid_taint_panics: "GetRKETaintsFromStrings [''key''] = Inl (GoPanic ''nil taint'')"
  by code_simp

section \<open>A concrete node\<close>

definition demo_taint :: "string \<Rightarrow> string option \<Rightarrow> timed_taint" where
  "demo_taint k t = \<lparr>ta_Key = k, ta_Value = ''v'', ta_Effect = ''NoSchedule'', ta_TimeAdded = t\<rparr>"

definition demo_node :: core_node where
  "demo_node = \<lparr>nd_Name = ''n1'', nd_Addresses = [], nd_Taints = [demo_taint ''a'' (Some ''t0''), demo_taint ''b'' None]\<rparr>"

definition demo_v3 :: v3_node where
  "demo_v3 = \<lparr>vn_Name = ''m1'', vn_Labels = [LabelNodeName \<mapsto> ''n1''], vn_StatusNodeName = ''n1'', vn_NodeConfig = None,
     vn_DeletionTimestamp = None, vn_Registered = True, vn_UpdateTaintsFromAPI = Some True,
     vn_DesiredNodeTaints = [demo_taint ''a'' None, demo_taint ''c'' None], vn_InternalTaints = []\<rparr>"

definition demo_nodesync :: "core_node nodesync_env" where
  "demo_nodesync = \<lparr>ns_NodeGet = (\<lambda>n w. if n = nd_Name w then Inr w else Inl (ErrNotFound n)), ns_NodeList = (\<lambda>w. Inr [w]),
     ns_NodeUpdate = (\<lambda>n w. (Inr n, n)), ns_MachineUpdate = (\<lambda>m w. (Inr m, w)), ns_RangeTaints = rev\<rparr>"

theorem node_gets_wanted_taints_witness:
  "\<exists>m node'. syncTaints demo_nodesync (Some demo_v3) demo_node = ((m, None), node') \<and>
     GetTaintsString ` set (nd_Taints node') = {''a=v:NoSchedule'', ''c=v:NoSchedule''} \<and>
     demo_taint ''a'' (Some ''t0'') \<in> set (nd_Taints node')"
proof -
  define nodes where "nodes = (\<lambda>(w :: core_node) (n :: string). Some w)"
  have laws: "node_store demo_nodesync nodes" "range_taints_law demo_nodesync"
    "\<forall>n e w'. ns_NodeUpdate demo_nodesync n demo_node = (Inl e, w') \<longrightarrow> \<not> isDuplicate e"
    by (simp_all add: node_store_def range_taints_law_def demo_nodesync_def nodes_def)
  have obj: "vn_DeletionTimestamp demo_v3 = None" "vn_Registered demo_v3" "vn_UpdateTaintsFromAPI demo_v3 \<noteq> None"
    by (simp_all add: demo_v3_def)
  have node: "GetNodeForMachine demo_nodesync demo_v3 demo_node = Inr (Some demo_node)" "nodes demo_node (nd_Name demo_node) = Some demo_node"
    "distinct (map GetTaintsString (nd_Taints demo_node))"
    by (code_simp, simp add: nodes_def, code_simp)
  have "snd (fst (syncTaints demo_nodesync (Some demo_v3) demo_node)) = None" by code_simp
  then obtain m w' where run: "syncTaints demo_nodesync (Some demo_v3) demo_node = ((m, None), w')" by (metis prod.collapse)
  have want: "GetTaintsString ` set (vn_DesiredNodeTaints demo_v3) = {''a=v:NoSchedule'', ''c=v:NoSchedule''}"
    by (simp add: demo_v3_def demo_taint_def GetTaintsString_def)
  have had: "demo_taint ''a'' (Some ''t0'') \<in> set (nd_Taints demo_node)" "GetTaintsString (demo_taint ''a'' (Some ''t0'')) = ''a=v:NoSchedule''"
    by (simp_all add: demo_node_def demo_taint_def GetTaintsString_def)
  from node_gets_wanted_taints [OF laws obj node run] run want had show ?thesis unfolding nodes_def by fastforce
qed

end
