(* ===== verification/Custom_Machine.thy ===== *)
theory Custom_Machine
  imports Bootstrap_Correct Node_Taints
begin

text \<open>
  Custom machines: a server that registers itself leaves a request secret, for which the controller creates
  the bootstrap object, the infrastructure machine and the CAPI machine
  (\<open>controllers/capr/unmanaged/controller.go\<close>). What is asked for at registration - roles, addresses, labels,
  taints - is followed to the plan secret and the configuration that the planner renders.
\<close>

section \<open>Data\<close>

record CustomMachine =
  cm_Namespace :: string
  cm_Name :: string
  cm_Labels :: smap
  cm_ProviderID :: string
  cm_Ready :: bool
  cm_Conditions :: "cond list"

datatype custom_object = UBootstrap bootstrap_object | UCustomMachine CustomMachine | UMachine cluster_machine

text \<open>
  The codecs, the caches and clients, the deletion of the request a minute later, and the apply
  with the request as owner. The CAPI machine and cluster are read through the bootstrap's environment.
\<close>

record 'w custom_env = "'w bootstrap_env" +
  u_UnmarshalObject :: "string \<Rightarrow> go_error + config"
  u_MarshalStringMap :: "(string \<times> string) list \<Rightarrow> go_error + string"
  u_MarshalTaints :: "timed_taint list \<Rightarrow> go_error + string"
  u_MachineList :: "string \<Rightarrow> string \<Rightarrow> 'w \<Rightarrow> go_error + cluster_machine list"
  u_MgmtClusterGet :: "string \<Rightarrow> 'w \<Rightarrow> go_error + string"
  u_ClustersByReference :: "string \<Rightarrow> 'w \<Rightarrow> go_error + (string \<times> string) list"
  u_DeleteLater :: "string \<Rightarrow> string \<Rightarrow> 'w \<Rightarrow> 'w"
  u_Apply :: "secret \<Rightarrow> custom_object list \<Rightarrow> ('w, unit) go"
  u_UpdateStatus :: "CustomMachine \<Rightarrow> ('w, CustomMachine) go"

definition MachineRequestType :: string where "MachineRequestType = ''rke.cattle.io/machine-request''"
definition MachineNamespaceLabel :: string where "MachineNamespaceLabel = ''rke.cattle.io/machine-namespace''"
definition RKEAPIVersion :: string where "RKEAPIVersion = ''rke.cattle.io/v1''"
definition MachineControlPlaneLabel :: string where "MachineControlPlaneLabel = ''cluster.x-k8s.io/control-plane''"

lemmas custom_keys =
  ControlPlaneRoleLabel_def EtcdRoleLabel_def WorkerRoleLabel_def MachineIDLabel_def MachineNameLabel_def NodeNameLabel_def
  ClusterNameLabel_def CAPIClusterNameLabel_def MachineControlPlaneLabel_def

section \<open>The objects of a machine\<close>

definition data_string :: "('w, 'z) config_env_scheme \<Rightarrow> config \<Rightarrow> string \<Rightarrow> string" where
  "data_string E d k = k_ToString E (cfg_get d k)"

definition data_bool :: "('w, 'z) config_env_scheme \<Rightarrow> config \<Rightarrow> string \<Rightarrow> bool" where
  "data_bool E d k = k_ToBool E (cfg_get d k)"

definition put_if :: "bool \<Rightarrow> string \<Rightarrow> string \<Rightarrow> smap \<Rightarrow> smap" where
  "put_if b k v m = (if b then m(k \<mapsto> v) else m)"

definition own_labels :: "('w, 'z) config_env_scheme \<Rightarrow> capi_cluster \<Rightarrow> config \<Rightarrow> smap" where
  "own_labels E capiCluster d =
     (put_if (data_string E d ''node-name'' \<noteq> '''') NodeNameLabel (data_string E d ''node-name'')
       (put_if (data_bool E d ''role-worker'') WorkerRoleLabel ''true''
         (put_if (data_bool E d ''role-etcd'') EtcdRoleLabel ''true''
           (put_if (data_bool E d ''role-control-plane'') MachineControlPlaneLabel ''true''
             (put_if (data_bool E d ''role-control-plane'') ControlPlaneRoleLabel ''true'' Map.empty)))))
     (MachineIDLabel \<mapsto> data_string E d ''id'', ClusterNameLabel \<mapsto> cc_Name capiCluster, CAPIClusterNameLabel \<mapsto> cc_Name capiCluster)"

definition own_annotations :: "('w, 'z) config_env_scheme \<Rightarrow> config \<Rightarrow> smap" where
  "own_annotations E d =
     put_if (data_string E d ''internal-address'' \<noteq> '''') InternalAddressAnnotation (data_string E d ''internal-address'')
       (put_if (data_string E d ''address'' \<noteq> '''') AddressAnnotation (data_string E d ''address'') Map.empty)"

text \<open>The labels of the request: into a map of their own, and into those of the objects where they are still free.\<close>

fun label_loop :: "'z libs_scheme \<Rightarrow> string list \<Rightarrow> (string \<times> string) list \<Rightarrow> smap \<Rightarrow> (string \<times> string) list \<times> smap" where
  "label_loop E [] labelsMap labels = (labelsMap, labels)"
| "label_loop E (str # strs) labelsMap labels =
     (case lib_kv_Split E str ''='' of
        (k, v) \<Rightarrow>
          if k = '''' then label_loop E strs labelsMap labels
          else label_loop E strs (gm_put k v labelsMap) (if labels k = None then labels(k \<mapsto> v) else labels))"

definition requested_taints :: "('w, 'z) config_env_scheme \<Rightarrow> config \<Rightarrow> timed_taint list" where
  "requested_taints E d = concat (map (\<lambda>t. GetTaintsFromStrings (Split t '','')) (k_ToStringSlice E (cfg_get d ''taints'')))"

definition bootstrap_for :: "capi_cluster \<Rightarrow> string \<Rightarrow> smap \<Rightarrow> smap \<Rightarrow> bootstrap_object" where
  "bootstrap_for capiCluster machineName labels annotations =
     rke_bootstrap.extend \<lparr>rb_Namespace = cc_Namespace capiCluster, rb_Name = machineName, rb_Annotations = annotations\<rparr>
       \<lparr>rb_Labels = labels, rb_OwnerReferences = [], rb_DeletionTimestamp = None, rb_ClusterName = cc_Name capiCluster\<rparr>"

definition machine_for :: "capi_cluster \<Rightarrow> string \<Rightarrow> smap \<Rightarrow> cluster_machine" where
  "machine_for capiCluster machineName labels =
     (let ref = (\<lambda>kind. \<lparr>or_APIVersion = RKEAPIVersion, or_Kind = kind, or_Namespace = cc_Namespace capiCluster, or_Name = machineName\<rparr>) in
      machine.extend \<lparr>m_Name = machineName, m_Namespace = cc_Namespace capiCluster, m_UID = '''', m_Labels = labels,
         m_Annotations = Map.empty, m_DeletionTimestamp = None, m_ConfigRef = Some (ref ''RKEBootstrap''),
         m_InfrastructureRef = ref ''CustomMachine'', m_NodeRef = None, m_KubeletVersion = None, m_Addresses = [], m_Phase = '''',
         m_FailureReason = None, m_Conditions = []\<rparr>
       \<lparr>m_ClusterName = cc_Name capiCluster, m_APIVersion = '''', m_Kind = ''''\<rparr>)"

text \<open>A value is written as an annotation, encoded, when there is one.\<close>

definition annotate :: "bool \<Rightarrow> go_error + string \<Rightarrow> string \<Rightarrow> smap \<Rightarrow> go_error + smap" where
  "annotate present encoded k m = (if present then sbind encoded (\<lambda>s. Inr (m(k \<mapsto> s))) else Inr m)"

definition createMachineObjects ::
  "('w, 'z) custom_env_scheme \<Rightarrow> capi_cluster \<Rightarrow> string \<Rightarrow> config \<Rightarrow> go_error + custom_object list" where
  "createMachineObjects E capiCluster machineName d =
     (case label_loop E (Split (data_string E d ''labels'') '','') [] (own_labels E capiCluster d) of
        (labelsMap, labels) \<Rightarrow>
          sbind (annotate (labelsMap \<noteq> []) (u_MarshalStringMap E labelsMap) LabelsAnnotation (own_annotations E d)) (\<lambda>annotations1.
          sbind (annotate (requested_taints E d \<noteq> []) (u_MarshalTaints E (requested_taints E d)) TaintsAnnotation annotations1) (\<lambda>annotations.
            Inr [UBootstrap (bootstrap_for capiCluster machineName labels annotations),
                 UCustomMachine \<lparr>cm_Namespace = cc_Namespace capiCluster, cm_Name = machineName, cm_Labels = labels, cm_ProviderID = '''',
                   cm_Ready = False, cm_Conditions = []\<rparr>,
                 UMachine (machine_for capiCluster machineName labels)])))"

section \<open>The request\<close>

definition findMachine :: "('w, 'z) custom_env_scheme \<Rightarrow> capi_cluster \<Rightarrow> string \<Rightarrow> string \<Rightarrow> 'w \<Rightarrow> go_error + string" where
  "findMachine E cluster machineName machineID w =
     (case b_MachineGet E (cc_Namespace cluster) machineName w of
        Inr _ \<Rightarrow> Inr machineName
      | Inl e \<Rightarrow>
          if is_NotFound e then
            sbind (u_MachineList E (cc_Namespace cluster) machineID w) (\<lambda>machines.
              case machines of
                [m] \<Rightarrow> Inr (if m_ClusterName m \<noteq> cc_Name cluster then '''' else m_Name m)
              | _ \<Rightarrow> Inr '''')
          else Inl e)"

definition createMachine :: "('w, 'z) custom_env_scheme \<Rightarrow> capi_cluster \<Rightarrow> secret \<Rightarrow> config \<Rightarrow> ('w, unit) go" where
  "createMachine E capiCluster sec d =
     bindE (liftE (createMachineObjects E capiCluster (s_Name sec) d)) (\<lambda>objs. u_Apply E sec objs)"

definition getCAPICluster :: "('w, 'z) custom_env_scheme \<Rightarrow> secret \<Rightarrow> 'w \<Rightarrow> go_error + capi_cluster option" where
  "getCAPICluster E sec w =
     (case u_MgmtClusterGet E (s_Namespace sec) w of
        Inl e \<Rightarrow> if is_NotFound e then Inr None else Inl e
      | Inr clusterName \<Rightarrow>
          sbind (u_ClustersByReference E clusterName w) (\<lambda>rClusters.
            case rClusters of
              [] \<Rightarrow> Inr None
            | (ns, n) # _ \<Rightarrow> sbind (b_ClusterGet E ns n w) (\<lambda>c. Inr (Some c))))"

text \<open>The request learns the name of its machine.\<close>

definition record_machine :: "('w, 'z) custom_env_scheme \<Rightarrow> capi_cluster \<Rightarrow> string \<Rightarrow> secret \<Rightarrow> ('w, secret) handled" where
  "record_machine E capiCluster machineName sec w =
     (if gets (s_Labels sec) MachineNamespaceLabel \<noteq> cc_Namespace capiCluster \<or> gets (s_Labels sec) MachineNameLabel \<noteq> machineName
      then
        (case e_SecretUpdate E
                (sec\<lparr>s_Labels := (s_Labels sec)(MachineNamespaceLabel \<mapsto> cc_Namespace capiCluster, MachineNameLabel \<mapsto> machineName)\<rparr>) w of
           (Inl e, w') \<Rightarrow> ((None, Some e), w')
         | (Inr s, w') \<Rightarrow> ((Some s, None), w'))
      else ((Some sec, None), w))"

definition onSecretChange :: "('w, 'z) custom_env_scheme \<Rightarrow> secret option \<Rightarrow> ('w, secret) handled" where
  "onSecretChange E sec w0 =
     (case sec of
        None \<Rightarrow> ((None, None), w0)
      | Some sec \<Rightarrow>
          if s_Type sec \<noteq> MachineRequestType then ((Some sec, None), w0)
          else
            let w = u_DeleteLater E (s_Namespace sec) (s_Name sec) w0 in
            (case u_UnmarshalObject E (gets (s_Data sec) ''data'') of
               Inl _ \<Rightarrow> ((Some sec, None), w)
             | Inr d \<Rightarrow>
                 (case getCAPICluster E sec w of
                    Inl e \<Rightarrow> ((Some sec, Some e), w)
                  | Inr None \<Rightarrow> ((Some sec, None), w)
                  | Inr (Some capiCluster) \<Rightarrow>
                      (case findMachine E capiCluster (s_Name sec) (data_string E d ''id'') w of
                         Inl e \<Rightarrow> ((None, Some e), w)
                       | Inr machineName \<Rightarrow>
                           if machineName \<noteq> '''' then record_machine E capiCluster machineName sec w
                           else
                             (case createMachine E capiCluster sec d w of
                                (Inl e, w') \<Rightarrow> ((None, Some e), w')
                              | (Inr _, w') \<Rightarrow> record_machine E capiCluster (s_Name sec) sec w')))))"

definition onUnmanagedMachineOnRemove :: "CustomMachine option \<Rightarrow> ('w, CustomMachine) handled" where
  "onUnmanagedMachineOnRemove customMachine w = ((customMachine, None), w)"

definition onUnmanagedMachineChange :: "('w, 'z) custom_env_scheme \<Rightarrow> CustomMachine option \<Rightarrow> ('w, CustomMachine) handled" where
  "onUnmanagedMachineChange E cm w =
     (let write = (\<lambda>m. case u_UpdateStatus E m w of (Inl e, w') \<Rightarrow> ((None, Some e), w') | (Inr m', w') \<Rightarrow> ((Some m', None), w')) in
      case cm of
        None \<Rightarrow> ((None, None), w)
      | Some m \<Rightarrow>
          let A = lib_Cond E in
          if \<not> c_IsTrue A ''Ready'' (cm_Conditions m)
          then write (m\<lparr>cm_Conditions := c_SetMessage A ''Ready'' '''' (c_SetStatus A ''Ready'' ''True'' (cm_Conditions m))\<rparr>)
          else if \<not> cm_Ready m \<and> cm_ProviderID m \<noteq> '''' then write (m\<lparr>cm_Ready := True\<rparr>)
          else ((Some m, None), w))"

section \<open>What was asked for\<close>

text \<open>The labels of a request: its pieces that have a key.\<close>

definition asked :: "('w, 'z) config_env_scheme \<Rightarrow> config \<Rightarrow> (string \<times> string) list" where
  "asked E d = filter (\<lambda>(k, _). k \<noteq> '''') (map (\<lambda>s. lib_kv_Split E s ''='') (Split (data_string E d ''labels'') '',''))"

lemma label_loop_spec:
  assumes "label_loop E strs m labels = (m', labels')" "sorted_wrt (<) (map fst m)"
  defines "ps \<equiv> filter (\<lambda>(k, _). k \<noteq> '''') (map (\<lambda>s. lib_kv_Split E s ''='') strs)"
  shows "map_of m' = map_of m ++ map_of (rev ps)" "sorted_wrt (<) (map fst m')" "labels' = map_of ps ++ labels"
proof -
  have "label_loop E strs m labels = (m', labels') \<Longrightarrow> sorted_wrt (<) (map fst m) \<Longrightarrow>
    map_of m' = map_of m ++ map_of (rev (filter (\<lambda>(k, _). k \<noteq> '''') (map (\<lambda>s. lib_kv_Split E s ''='') strs))) \<and>
    sorted_wrt (<) (map fst m') \<and>
    labels' = map_of (filter (\<lambda>(k, _). k \<noteq> '''') (map (\<lambda>s. lib_kv_Split E s ''='') strs)) ++ labels"
  proof (induction strs arbitrary: m labels)
    case (Cons str strs)
    obtain k v where kv: "lib_kv_Split E str ''='' = (k, v)" by fastforce
    show ?case
    proof (cases "k = ''''")
      case True
      with Cons kv show ?thesis by simp
    next
      case False
      let ?l = "if labels k = None then labels(k \<mapsto> v) else labels"
      have "label_loop E strs (gm_put k v m) ?l = (m', labels')" using Cons.prems(1) kv False by simp
      from Cons.IH [OF this sorted_gm_put [OF Cons.prems(2)]]
      show ?thesis using kv False by (auto simp: map_add_def fun_eq_iff split: option.splits)
    qed
  qed simp
  with assms(1,2) show "map_of m' = map_of m ++ map_of (rev ps)" "sorted_wrt (<) (map fst m')" "labels' = map_of ps ++ labels"
    unfolding ps_def by blast+
qed

text \<open>What is relied on of JSON: what was encoded is decoded, and an encoding is not empty.\<close>

definition request_codecs :: "('w, 'z) custom_env_scheme \<Rightarrow> bool" where
  "request_codecs E \<longleftrightarrow>
     (\<forall>m s. u_MarshalStringMap E m = Inr s \<longrightarrow> s \<noteq> '''' \<and> k_UnmarshalStringMap E s = Inr m) \<and>
     (\<forall>ts s. u_MarshalTaints E ts = Inr s \<longrightarrow> s \<noteq> '''' \<and> k_UnmarshalTaints E s = Inr (map taint.truncate ts))"

lemma created_parts:
  assumes "createMachineObjects E c n d = Inr objs"
  obtains m labels annotations where
    "label_loop E (Split (data_string E d ''labels'') '','') [] (own_labels E c d) = (m, labels)"
    "m \<noteq> [] \<longrightarrow> (\<exists>s. u_MarshalStringMap E m = Inr s \<and> annotations LabelsAnnotation = Some s)" "m = [] \<longrightarrow> annotations LabelsAnnotation = None"
    "requested_taints E d \<noteq> [] \<longrightarrow> (\<exists>s. u_MarshalTaints E (requested_taints E d) = Inr s \<and> annotations TaintsAnnotation = Some s)"
    "requested_taints E d = [] \<longrightarrow> annotations TaintsAnnotation = None"
    "annotations AddressAnnotation = own_annotations E d AddressAnnotation"
    "annotations InternalAddressAnnotation = own_annotations E d InternalAddressAnnotation"
    "objs = [UBootstrap (bootstrap_for c n labels annotations),
       UCustomMachine \<lparr>cm_Namespace = cc_Namespace c, cm_Name = n, cm_Labels = labels, cm_ProviderID = '''', cm_Ready = False, cm_Conditions = []\<rparr>,
       UMachine (machine_for c n labels)]"
proof -
  obtain m labels where l: "label_loop E (Split (data_string E d ''labels'') '','') [] (own_labels E c d) = (m, labels)" by fastforce
  have ne: "LabelsAnnotation \<noteq> TaintsAnnotation" "AddressAnnotation \<noteq> LabelsAnnotation" "AddressAnnotation \<noteq> TaintsAnnotation"
    "InternalAddressAnnotation \<noteq> LabelsAnnotation" "InternalAddressAnnotation \<noteq> TaintsAnnotation"
    "InternalAddressAnnotation \<noteq> AddressAnnotation" "AddressAnnotation \<noteq> InternalAddressAnnotation"
    by (simp_all add: LabelsAnnotation_def TaintsAnnotation_def AddressAnnotation_def InternalAddressAnnotation_def)
  have own: "own_annotations E d LabelsAnnotation = None" "own_annotations E d TaintsAnnotation = None"
    using ne by (auto simp: own_annotations_def put_if_def)
  obtain a1 a2 where a: "annotate (m \<noteq> []) (u_MarshalStringMap E m) LabelsAnnotation (own_annotations E d) = Inr a1"
    "annotate (requested_taints E d \<noteq> []) (u_MarshalTaints E (requested_taints E d)) TaintsAnnotation a1 = Inr a2"
    and objs: "objs = [UBootstrap (bootstrap_for c n labels a2), UCustomMachine \<lparr>cm_Namespace = cc_Namespace c, cm_Name = n, cm_Labels = labels,
       cm_ProviderID = [], cm_Ready = False, cm_Conditions = []\<rparr>, UMachine (machine_for c n labels)]"
    using assms by (auto simp: createMachineObjects_def l sbind_eq_Inr_iff)
  have an: "(b \<longrightarrow> (\<exists>x. s = Inr x \<and> r = u(k \<mapsto> x))) \<and> (\<not> b \<longrightarrow> r = u)" if "annotate b s k u = Inr r" for b s k u r
    using that by (auto simp: annotate_def sbind_eq_Inr_iff split: if_splits)
  note a1 = an [OF a(1)] and a2 = an [OF a(2)]
  have keep: "a2 k = a1 k" if "k \<noteq> TaintsAnnotation" for k using a2 that by auto
  have keep1: "a1 k = own_annotations E d k" if "k \<noteq> LabelsAnnotation" for k using a1 that by auto
  show ?thesis
  proof (rule that [OF l])
    show "m \<noteq> [] \<longrightarrow> (\<exists>s. u_MarshalStringMap E m = Inr s \<and> a2 LabelsAnnotation = Some s)"
      using a1 keep [OF ne(1)] by (metis fun_upd_same)
    show "m = [] \<longrightarrow> a2 LabelsAnnotation = None" using a1 keep [OF ne(1)] own(1) by simp
    show "requested_taints E d \<noteq> [] \<longrightarrow> (\<exists>s. u_MarshalTaints E (requested_taints E d) = Inr s \<and> a2 TaintsAnnotation = Some s)"
      using a2 by (metis fun_upd_same)
    show "requested_taints E d = [] \<longrightarrow> a2 TaintsAnnotation = None" using a2 keep1 [of TaintsAnnotation] ne(1) own(2) by simp
    show "a2 AddressAnnotation = own_annotations E d AddressAnnotation"
      "a2 InternalAddressAnnotation = own_annotations E d InternalAddressAnnotation" using keep keep1 ne by simp_all
  qed (use objs in simp)
qed

lemma plan_secret_of:
  assumes "GSecret sec \<in> set (assignPlanSecret E machine b)"
  shows "s_Labels sec = [MachineNameLabel \<mapsto> m_Name machine, ClusterNameLabel \<mapsto> rb_ClusterName b] ++ rb_Labels b"
    "s_Annotations sec = rb_Annotations b"
  using assms by (auto simp: assignPlanSecret_def getLabelsAndAnnotationsForPlanSecret_def Let_def)

lemma own_label:
  "own_labels E c d MachineIDLabel = Some (data_string E d ''id'')" "own_labels E c d ClusterNameLabel = Some (cc_Name c)"
  "own_labels E c d EtcdRoleLabel = (if data_bool E d ''role-etcd'' then Some ''true'' else None)"
  "own_labels E c d ControlPlaneRoleLabel = (if data_bool E d ''role-control-plane'' then Some ''true'' else None)"
  "own_labels E c d WorkerRoleLabel = (if data_bool E d ''role-worker'' then Some ''true'' else None)"
  by (simp_all add: own_labels_def put_if_def custom_keys)

lemma own_annotation:
  "(case own_annotations E d AddressAnnotation of None \<Rightarrow> '''' | Some v \<Rightarrow> v) = data_string E d ''address''"
  "(case own_annotations E d InternalAddressAnnotation of None \<Rightarrow> '''' | Some v \<Rightarrow> v) = data_string E d ''internal-address''"
  by (simp_all add: own_annotations_def put_if_def AddressAnnotation_def InternalAddressAnnotation_def)

text \<open>
  C26. What is asked for at registration reaches the planner: for the plan secret that is generated for
  the bootstrap object of a custom machine, and an entry that has its labels and annotations, the entry
  has the machine's ID and its cluster; it has a role exactly when the request asked for it or carried
  its label; it has the addresses; the configuration gets the labels of the request - of two with
  one key the last - and the machine's UID; and its taints begin with those of the request.
\<close>

theorem registration_reaches_plan:
  assumes codecs: "request_codecs E" and created: "createMachineObjects E c n d = Inr objs" "UBootstrap b \<in> set objs"
    and planned: "GSecret sec \<in> set (assignPlanSecret E machine b)"
      "pe_Metadata entry = Some \<lparr>md_Labels = s_Labels sec, md_Annotations = s_Annotations sec\<rparr>"
  shows "entry_label entry MachineIDLabel = data_string E d ''id'' \<and> entry_label entry ClusterNameLabel = cc_Name c \<and>
    (isEtcd entry \<longleftrightarrow> data_bool E d ''role-etcd'' \<or> map_of (asked E d) EtcdRoleLabel = Some ''true'') \<and>
    (isControlPlane entry \<longleftrightarrow> data_bool E d ''role-control-plane'' \<or> map_of (asked E d) ControlPlaneRoleLabel = Some ''true'') \<and>
    (isWorker entry \<longleftrightarrow> data_bool E d ''role-worker'' \<or> map_of (asked E d) WorkerRoleLabel = Some ''true'') \<and>
    entry_annotation entry AddressAnnotation = data_string E d ''address'' \<and>
    entry_annotation entry InternalAddressAnnotation = data_string E d ''internal-address'' \<and>
    (\<exists>m. distinct (map fst m) \<and> map_of m = map_of (rev (asked E d)) \<and>
       addLabels E config entry = Inr (gm_put ''node-label''
         (JStrs (sort (map (\<lambda>(k, v). k @ ''='' @ v) m @ [MachineUIDLabel @ ''='' @ m_UID (pe_Machine entry)]))) config)) \<and>
    (\<exists>ts. getTaints E entry cp = Inr (map taint.truncate (requested_taints E d) @ ts))"
proof -
  obtain m labels annotations where l:
    "label_loop E (Split (data_string E d ''labels'') '','') [] (own_labels E c d) = (m, labels)"
    and m: "m \<noteq> [] \<longrightarrow> (\<exists>s. u_MarshalStringMap E m = Inr s \<and> annotations LabelsAnnotation = Some s)" "m = [] \<longrightarrow> annotations LabelsAnnotation = None"
    and t: "requested_taints E d \<noteq> [] \<longrightarrow> (\<exists>s. u_MarshalTaints E (requested_taints E d) = Inr s \<and> annotations TaintsAnnotation = Some s)"
      "requested_taints E d = [] \<longrightarrow> annotations TaintsAnnotation = None"
    and addr: "annotations AddressAnnotation = own_annotations E d AddressAnnotation"
      "annotations InternalAddressAnnotation = own_annotations E d InternalAddressAnnotation"
    and objs: "objs = [UBootstrap (bootstrap_for c n labels annotations),
       UCustomMachine \<lparr>cm_Namespace = cc_Namespace c, cm_Name = n, cm_Labels = labels, cm_ProviderID = [], cm_Ready = False, cm_Conditions = []\<rparr>,
       UMachine (machine_for c n labels)]"
    by (rule created_parts [OF created(1)])
  have b: "b = bootstrap_for c n labels annotations" using created(2) objs by simp
  note spec = label_loop_spec [OF l, folded asked_def, simplified]
  have md: "s_Annotations sec = annotations"
    "s_Labels sec = [MachineNameLabel \<mapsto> m_Name machine, ClusterNameLabel \<mapsto> cc_Name c] ++ labels"
    using plan_secret_of [OF planned(1)] by (simp_all add: b bootstrap_for_def rke_bootstrap.defs)
  have lab: "entry_label entry k = (case own_labels E c d k of Some v \<Rightarrow> v | None \<Rightarrow> (case map_of (asked E d) k of Some v \<Rightarrow> v | None \<Rightarrow> ''''))"
    if "k \<noteq> MachineNameLabel" "k \<noteq> ClusterNameLabel \<or> own_labels E c d k \<noteq> None" for k
    using that spec(3) by (auto simp: entry_label_def planned(2) md gets_def map_add_def split: option.splits)
  have ann: "entry_annotation entry k = (case annotations k of None \<Rightarrow> '''' | Some v \<Rightarrow> v)" for k
    by (simp add: entry_annotation_def planned(2) md gets_def)
  have ne: "MachineIDLabel \<noteq> MachineNameLabel" "ClusterNameLabel \<noteq> MachineNameLabel" "EtcdRoleLabel \<noteq> MachineNameLabel"
    "ControlPlaneRoleLabel \<noteq> MachineNameLabel" "WorkerRoleLabel \<noteq> MachineNameLabel" "MachineIDLabel \<noteq> ClusterNameLabel"
    "EtcdRoleLabel \<noteq> ClusterNameLabel" "ControlPlaneRoleLabel \<noteq> ClusterNameLabel" "WorkerRoleLabel \<noteq> ClusterNameLabel"
    by (simp_all add: custom_keys)
  have ids: "entry_label entry MachineIDLabel = data_string E d ''id''" "entry_label entry ClusterNameLabel = cc_Name c"
    by (simp_all add: lab ne own_label)
  have roles: "isEtcd entry \<longleftrightarrow> data_bool E d ''role-etcd'' \<or> map_of (asked E d) EtcdRoleLabel = Some ''true''"
    "isControlPlane entry \<longleftrightarrow> data_bool E d ''role-control-plane'' \<or> map_of (asked E d) ControlPlaneRoleLabel = Some ''true''"
    "isWorker entry \<longleftrightarrow> data_bool E d ''role-worker'' \<or> map_of (asked E d) WorkerRoleLabel = Some ''true''"
    using lab [of EtcdRoleLabel] lab [of ControlPlaneRoleLabel] lab [of WorkerRoleLabel]
    by (auto simp: isEtcd_def isControlPlane_def isWorker_def own_label ne split: option.splits)
  have addrs: "entry_annotation entry AddressAnnotation = data_string E d ''address''"
    "entry_annotation entry InternalAddressAnnotation = data_string E d ''internal-address''"
    by (simp_all only: ann addr own_annotation)
  have "addLabels E config entry = Inr (gm_put ''node-label''
      (JStrs (sort (map (\<lambda>(k, v). k @ ''='' @ v) m @ [MachineUIDLabel @ ''='' @ m_UID (pe_Machine entry)]))) config)"
    using m codecs by (cases "m = []") (auto simp: addLabels_def ann request_codecs_def Let_def sbind_def)
  moreover have "distinct (map fst m)" using spec(2) by (simp add: strict_sorted_iff)
  moreover have "\<exists>ts. getTaints E entry cp = Inr (map taint.truncate (requested_taints E d) @ ts)"
    using t codecs by (cases "requested_taints E d = []") (auto simp: getTaints_def ann request_codecs_def Let_def sbind_def)
  ultimately show ?thesis using ids roles addrs spec(1) by blast
qed

section \<open>A concrete registration\<close>

definition demo_request :: config where
  "demo_request = [(''address'', JStr ''1.2.3.4''), (''id'', JStr ''abc''), (''labels'', JStr ''zone=a,rke.cattle.io/init-node=true,zone=b''),
     (''role-etcd'', JBool True), (''taints'', JArr [JStr ''k=v:NoSchedule'', JStr ''bad''])]"

definition demo_label_map :: "(string \<times> string) list" where
  "demo_label_map = [(''rke.cattle.io/init-node'', ''true''), (''zone'', ''b'')]"

definition demo_taints :: "timed_taint list" where
  "demo_taints = [\<lparr>ta_Key = ''k'', ta_Value = ''v'', ta_Effect = ''NoSchedule'', ta_TimeAdded = None\<rparr>]"

definition demo_custom :: "demo_world custom_env" where
  "demo_custom = bootstrap_env.extend
     (demo_bootstrap_env\<lparr>k_ToString := (\<lambda>v. case v of JStr s \<Rightarrow> s | _ \<Rightarrow> ''''), k_UnmarshalStringMap := (\<lambda>_. Inr demo_label_map),
        k_UnmarshalTaints := (\<lambda>_. Inr (map taint.truncate demo_taints))\<rparr>)
     \<lparr>u_UnmarshalObject = (\<lambda>_. Inr demo_request),
      u_MarshalStringMap = (\<lambda>m. if m = demo_label_map then Inr ''labels'' else Inl (ErrOther ''unsupported'')),
      u_MarshalTaints = (\<lambda>ts. if ts = demo_taints then Inr ''taints'' else Inl (ErrOther ''unsupported'')),
      u_MachineList = (\<lambda>_ _ _. Inr []), u_MgmtClusterGet = (\<lambda>n _. Inr n), u_ClustersByReference = (\<lambda>_ _. Inr [(''fleet-default'', ''c'')]),
      u_DeleteLater = (\<lambda>_ _ w. w), u_Apply = (\<lambda>_ _ w. (Inr (), w)), u_UpdateStatus = (\<lambda>m w. (Inr m, w))\<rparr>"

definition demo_registered :: "bootstrap_object \<Rightarrow> planEntry" where
  "demo_registered b =
     (case getLabelsAndAnnotationsForPlanSecret b (cluster_machine_of ''c'' (demo_machine ''m1'')) of
        (labels, annotations) \<Rightarrow>
          \<lparr>pe_Machine = demo_machine ''m1'', pe_Plan = None, pe_Metadata = Some \<lparr>md_Labels = labels, md_Annotations = annotations\<rparr>\<rparr>)"

lemma demo_request_codecs: "request_codecs demo_custom"
  by (simp add: request_codecs_def demo_custom_def bootstrap_env.defs demo_bootstrap_env_def planner_env.defs)

lemma demo_created: "\<exists>b objs. createMachineObjects demo_custom demo_cluster ''m1'' demo_request = Inr objs \<and> UBootstrap b \<in> set objs"
proof -
  have "(case createMachineObjects demo_custom demo_cluster ''m1'' demo_request of Inr (UBootstrap _ # _) \<Rightarrow> True | _ \<Rightarrow> False)" by code_simp
  then show ?thesis by (auto split: sum.splits list.splits custom_object.splits intro: exI)
qed

theorem registration_reaches_plan_witness:
  "\<exists>b objs. createMachineObjects demo_custom demo_cluster ''m1'' demo_request = Inr objs \<and> UBootstrap b \<in> set objs \<and>
     isEtcd (demo_registered b) \<and> \<not> isWorker (demo_registered b) \<and> entry_label (demo_registered b) MachineIDLabel = ''abc'' \<and>
     (\<exists>ts. getTaints demo_custom (demo_registered b) demo_cp = Inr (map taint.truncate demo_taints @ ts))"
proof -
  obtain b objs where c: "createMachineObjects demo_custom demo_cluster ''m1'' demo_request = Inr objs" "UBootstrap b \<in> set objs"
    using demo_created by blast
  let ?m = "cluster_machine_of ''c'' (demo_machine ''m1'')"
  obtain la an where g: "getLabelsAndAnnotationsForPlanSecret b ?m = (la, an)" by fastforce
  let ?sec = "\<lparr>s_Namespace = rb_Namespace b, s_Name = PlanSecretFromBootstrapName demo_custom (rb_Name b), s_Type = SecretTypeMachinePlan,
    s_Labels = la, s_Annotations = an, s_Data = Map.empty\<rparr>"
  have sec: "GSecret ?sec \<in> set (assignPlanSecret demo_custom ?m b)"
    "pe_Metadata (demo_registered b) = Some \<lparr>md_Labels = s_Labels ?sec, md_Annotations = s_Annotations ?sec\<rparr>"
    by (simp_all add: assignPlanSecret_def demo_registered_def g Let_def)
  have req: "data_string demo_custom demo_request ''id'' = ''abc''" "data_bool demo_custom demo_request ''role-etcd''"
    "\<not> data_bool demo_custom demo_request ''role-worker''" "map_of (asked demo_custom demo_request) WorkerRoleLabel \<noteq> Some ''true''"
    "requested_taints demo_custom demo_request = demo_taints" by code_simp+
  from registration_reaches_plan [OF demo_request_codecs c sec, where config = "[]" and cp = demo_cp] req c show ?thesis by auto
qed

text \<open>
  A request can carry labels that the planner keeps for itself: here the label of the init node
  comes with a machine that joins.
\<close>

lemma request_claims_init_node:
  "\<exists>b objs. createMachineObjects demo_custom demo_cluster ''m1'' demo_request = Inr objs \<and> UBootstrap b \<in> set objs \<and>
     isInitNode (demo_registered b)"
proof -
  have "(case createMachineObjects demo_custom demo_cluster ''m1'' demo_request of Inr (UBootstrap b # _) \<Rightarrow> isInitNode (demo_registered b) | _ \<Rightarrow> False)"
    by code_simp
  then show ?thesis by (auto split: sum.splits list.splits custom_object.splits)
qed

end
