(* ===== verification/Node_Lookup.thy ===== *)
theory Node_Lookup
  imports Bootstrap_Correct Provision_Correct
begin

text \<open>
  The lookup of the node of a machine (\<open>controllers/capr/machinenodelookup/controller.go\<close>): when the node that carries the
  machine's UID is up, its provider ID and its addresses are written to the infrastructure machine,
  which ends the provisioning of the machine.
\<close>

section \<open>Data\<close>

record lookup_node =
  ln_ProviderID :: string
  ln_Addresses :: "(string \<times> string) list"
  ln_Conditions :: "cond list"

record lookup_machine = cluster_machine +
  m_ProviderID :: "string option"

text \<open>
  The cache of machines, the conversion of an object to data, the parser of an API version, the nodes of the cluster behind its REST
  configuration, and the queue of the bootstrap objects. The configuration itself is made by the
  kubeconfig manager, another package.
\<close>

record 'w lookup_env = "'w provision_env" +
  l_MachineGet :: "string \<Rightarrow> string \<Rightarrow> 'w \<Rightarrow> go_error + lookup_machine"
  l_Convert :: "infra_object \<Rightarrow> go_error + infra_object"
  l_FromAPIVersionAndKind :: "string \<Rightarrow> string \<Rightarrow> gvk"
  l_GetRESTConfig :: "string \<Rightarrow> string \<Rightarrow> 'w \<Rightarrow> go_error + string"
  l_NewForConfig :: "string \<Rightarrow> go_error + string"
  l_NodeList :: "string \<Rightarrow> string \<times> string \<Rightarrow> 'w \<Rightarrow> go_error + lookup_node list"
  l_EnqueueAfter :: "string \<Rightarrow> string \<Rightarrow> int \<Rightarrow> 'w \<Rightarrow> 'w"

definition nodeErrorEnqueueTime :: int where "nodeErrorEnqueueTime = 15"

section \<open>The handler\<close>

definition infra_is_ready :: "infra_object \<Rightarrow> bool" where
  "infra_is_ready d = (case getCondition d ''Ready'' of None \<Rightarrow> False | Some c \<Rightarrow> ToLower (cd_Status c) = ''true'')"

definition addresses_json :: "(string \<times> string) list \<Rightarrow> json" where
  "addresses_json as = JArr (map (\<lambda>(t, a). JObj [(''address'', JStr a), (''type'', JStr t)]) as)"

text \<open>The addresses go to the status, then the provider ID to the spec of what the server returned.\<close>

definition write_node :: "('w, 'z) lookup_env_scheme \<Rightarrow> infra_object \<Rightarrow> lookup_node \<Rightarrow> 'w \<Rightarrow> err \<times> 'w" where
  "write_node E infra node w =
     (case l_Convert E infra of
        Inl e \<Rightarrow> (Some e, w)
      | Inr obj \<Rightarrow>
          (case p_InfraUpdateStatus E (obj\<lparr>io_Status := gm_put ''addresses'' (addresses_json (ln_Addresses node)) (io_Status obj)\<rparr>) w of
             (Inl e, w1) \<Rightarrow> (Some e, w1)
           | (Inr newObj, w1) \<Rightarrow>
               (case l_Convert E newObj of
                  Inl e \<Rightarrow> (Some e, w1)
                | Inr obj2 \<Rightarrow>
                    (case p_InfraUpdate E (obj2\<lparr>io_Spec := gm_put ''providerID'' (JStr (ln_ProviderID node)) (io_Spec obj2)\<rparr>) w1 of
                       (Inl e, w2) \<Rightarrow> (Some e, w2)
                     | (Inr _, w2) \<Rightarrow> (None, w2)))))"

text \<open>The node with the machine's UID, when it has a provider ID and is ready.\<close>

definition ready_node :: "('w, 'z) lookup_env_scheme \<Rightarrow> string \<Rightarrow> lookup_machine \<Rightarrow> 'w \<Rightarrow> lookup_node option" where
  "ready_node E clientset machine w =
     (case l_NodeList E clientset (MachineUIDLabel, m_UID machine) w of
        Inl _ \<Rightarrow> None
      | Inr [] \<Rightarrow> None
      | Inr (node # _) \<Rightarrow>
          if ln_ProviderID node = '''' \<or> \<not> c_IsTrue (lib_Cond E) ''Ready'' (ln_Conditions node) then None else Some node)"

definition lookup_node_of :: "('w, 'z) lookup_env_scheme \<Rightarrow> bootstrap_object \<Rightarrow> lookup_machine \<Rightarrow> infra_object \<Rightarrow> infra_object \<Rightarrow> 'w \<Rightarrow> err \<times> 'w" where
  "lookup_node_of E bootstrap machine infra d w =
     (let later = (None, l_EnqueueAfter E (rb_Namespace bootstrap) (rb_Name bootstrap) nodeErrorEnqueueTime w) in
      if \<not> infra_is_ready d then later
      else
        (case sbind (p_ClusterGet E (m_Namespace machine) (m_ClusterName machine) w) (\<lambda>_.
              sbind (l_GetRESTConfig E (m_Namespace machine) (m_ClusterName machine) w) (l_NewForConfig E)) of
           Inl e \<Rightarrow> (Some e, w)
         | Inr clientset \<Rightarrow>
             (case ready_node E clientset machine w of
                None \<Rightarrow> later
              | Some node \<Rightarrow>
                  if spec_string E d ''providerID'' \<noteq> ln_ProviderID node then write_node E infra node w else (None, w))))"

definition associateMachineWithNode ::
  "('w, 'z) lookup_env_scheme \<Rightarrow> (bootstrap_object \<times> bootstrap_status) option \<Rightarrow> 'w \<Rightarrow> err \<times> 'w" where
  "associateMachineWithNode E bs w =
     (case bs of
        None \<Rightarrow> (None, w)
      | Some (bootstrap, status) \<Rightarrow>
          if rb_DeletionTimestamp bootstrap \<noteq> None \<or> \<not> bs_Ready status \<or> bs_DataSecretName status = None \<or> bs_DataSecretName status = Some ''''
          then (None, w)
          else
            (case GetMachineByOwner (\<lambda>ns n. l_MachineGet E ns n w) (bootstrap_meta bootstrap) of
               Inl e \<Rightarrow> (Some (if e = ErrOther ''no machine owner ref'' then ErrSkip else e), w)
             | Inr machine \<Rightarrow>
                 if m_ProviderID machine \<noteq> None \<and> m_ProviderID machine \<noteq> Some '''' then (None, w)
                 else
                   (case p_InfraGet E (l_FromAPIVersionAndKind E (or_APIVersion (m_InfrastructureRef machine)) (or_Kind (m_InfrastructureRef machine)))
                           (m_Namespace machine) (or_Name (m_InfrastructureRef machine)) w of
                      Inl e \<Rightarrow> (if is_NotFound e then None else Some e, w)
                    | Inr infra \<Rightarrow>
                        (case l_Convert E infra of
                           Inl e \<Rightarrow> (Some e, w)
                         | Inr d \<Rightarrow> lookup_node_of E bootstrap machine infra d w))))"

section \<open>Where a provider ID comes from\<close>

text \<open>Of the API server: an update of the status leaves the spec, an update of the machine writes it or fails.\<close>

definition spec_store :: "('w, 'z) lookup_env_scheme \<Rightarrow> ('w \<Rightarrow> infra_object) \<Rightarrow> bool" where
  "spec_store E cur \<longleftrightarrow>
     (\<forall>d w. io_Spec (cur (snd (p_InfraUpdateStatus E d w))) = io_Spec (cur w)) \<and>
     (\<forall>d w. io_Spec (cur (snd (p_InfraUpdate E d w))) = io_Spec (cur w) \<or>
            same_infra d (cur w) \<and> io_Spec (cur (snd (p_InfraUpdate E d w))) = io_Spec d) \<and>
     (\<forall>ns n t w. cur (l_EnqueueAfter E ns n t w) = cur w)"

lemma write_node_spec:
  assumes store: "spec_store E cur" and run: "write_node E infra node w = (e, w')" and diff: "io_Spec (cur w') \<noteq> io_Spec (cur w)"
  shows "map_of (io_Spec (cur w')) ''providerID'' = Some (JStr (ln_ProviderID node))"
proof -
  let ?st = "\<lambda>obj. p_InfraUpdateStatus E (obj\<lparr>io_Status := gm_put ''addresses'' (addresses_json (ln_Addresses node)) (io_Status obj)\<rparr>) w"
  let ?new = "\<lambda>obj. obj\<lparr>io_Spec := gm_put ''providerID'' (JStr (ln_ProviderID node)) (io_Spec obj)\<rparr>"
  from store have kept: "io_Spec (cur (snd (?st obj))) = io_Spec (cur w)" for obj by (simp add: spec_store_def)
  have kept': "io_Spec (cur w1) = io_Spec (cur w)" if "?st obj = (r, w1)" for obj r w1 using kept [of obj] that by simp
  obtain obj obj2 where w': "w' = snd (p_InfraUpdate E (?new obj2) (snd (?st obj)))"
    using run diff kept' by (auto simp: write_node_def split: sum.splits prod.splits) (metis snd_conv)+
  from store have "io_Spec (cur w') = io_Spec (cur (snd (?st obj))) \<or> io_Spec (cur w') = io_Spec (?new obj2)"
    unfolding w' spec_store_def by blast
  with diff kept show ?thesis by simp
qed

text \<open>
  C27. The spec of an infrastructure machine changes only when its bootstrap object is live
  and ready, its machine has no provider ID yet, the infrastructure machine is marked ready, and the first
  node of the cluster that carries the UID of the machine is ready and has a provider ID; what is
  then stored is the provider ID of that node.
\<close>

theorem provider_id_from_ready_node:
  assumes "spec_store E cur" "associateMachineWithNode E bs w = (e, w')" "io_Spec (cur w') \<noteq> io_Spec (cur w)"
  shows "\<exists>bootstrap status machine infra d clientset node nodes.
     bs = Some (bootstrap, status) \<and> rb_DeletionTimestamp bootstrap = None \<and> bs_Ready status \<and>
     GetMachineByOwner (\<lambda>ns n. l_MachineGet E ns n w) (bootstrap_meta bootstrap) = Inr machine \<and>
     (m_ProviderID machine = None \<or> m_ProviderID machine = Some '''') \<and>
     p_InfraGet E (l_FromAPIVersionAndKind E (or_APIVersion (m_InfrastructureRef machine)) (or_Kind (m_InfrastructureRef machine)))
       (m_Namespace machine) (or_Name (m_InfrastructureRef machine)) w = Inr infra \<and>
     l_Convert E infra = Inr d \<and> infra_is_ready d \<and>
     l_NodeList E clientset (MachineUIDLabel, m_UID machine) w = Inr (node # nodes) \<and>
     ln_ProviderID node \<noteq> '''' \<and> c_IsTrue (lib_Cond E) ''Ready'' (ln_Conditions node) \<and>
     map_of (io_Spec (cur w')) ''providerID'' = Some (JStr (ln_ProviderID node))"
proof -
  have later: "cur (l_EnqueueAfter E ns n t w) = cur w" for ns n t using assms(1) by (simp add: spec_store_def)
  obtain bootstrap status machine infra d where live: "bs = Some (bootstrap, status)" "rb_DeletionTimestamp bootstrap = None" "bs_Ready status"
      "GetMachineByOwner (\<lambda>ns n. l_MachineGet E ns n w) (bootstrap_meta bootstrap) = Inr machine"
      "m_ProviderID machine = None \<or> m_ProviderID machine = Some ''''"
      "p_InfraGet E (l_FromAPIVersionAndKind E (or_APIVersion (m_InfrastructureRef machine)) (or_Kind (m_InfrastructureRef machine)))
        (m_Namespace machine) (or_Name (m_InfrastructureRef machine)) w = Inr infra"
      "l_Convert E infra = Inr d" and run: "lookup_node_of E bootstrap machine infra d w = (e, w')"
    using assms(2,3) by (auto simp: associateMachineWithNode_def split: option.splits sum.splits if_splits)
  obtain clientset node where ready: "infra_is_ready d" "ready_node E clientset machine w = Some node"
      and wr: "write_node E infra node w = (e, w')"
    using run assms(3) later by (auto simp: lookup_node_of_def Let_def split: option.splits sum.splits if_splits)
  from ready(2) obtain nodes where "l_NodeList E clientset (MachineUIDLabel, m_UID machine) w = Inr (node # nodes)"
      "ln_ProviderID node \<noteq> ''''" "c_IsTrue (lib_Cond E) ''Ready'' (ln_Conditions node)"
    by (auto simp: ready_node_def split: sum.splits list.splits if_splits)
  with live ready(1) write_node_spec [OF assms(1) wr assms(3)] show ?thesis by blast
qed

section \<open>A concrete lookup\<close>

definition found_node :: lookup_node where
  "found_node = \<lparr>ln_ProviderID = ''digitalocean://7'', ln_Addresses = [(''InternalIP'', ''10.0.0.7'')],
     ln_Conditions = [plain_cond ''Ready'' ''True'' '''' '''']\<rparr>"

definition looked_up :: lookup_machine where
  "looked_up = cluster_machine.extend (cluster_machine_of ''c'' (demo_machine ''m1'')) \<lparr>m_ProviderID = None\<rparr>"

definition lookup_site :: "infra_object lookup_env" where
  "lookup_site = provision_env.extend (args_env.extend (planner_env.extend idle_planner
     \<lparr>p_NodeDriverGet = (\<lambda>n _. Inl (ErrNotFound n)), p_MachineGet = (\<lambda>_ n _. Inl (ErrNotFound n)),
      p_ClusterGet = (\<lambda>_ _ _. Inr (''c-m-1'', None)), p_BootstrapGet = (\<lambda>_ n _. Inl (ErrNotFound n)),
      p_SecretGet = (\<lambda>_ n _. Inl (ErrNotFound n)), p_Convert = Inr, p_Getenv = (\<lambda>_. ''''), p_Stat = (\<lambda>_. None), p_ReadFile = Inr,
      p_UIPath = '''', p_ServerURL = '''', p_MachineProvisionImage = '''', p_MachineProvisionImagePullPolicy = '''',
      p_WhitelistEnvironmentVars = '''', p_CACerts = '''', p_InternalCACerts = ''''\<rparr>)
     \<lparr>p_Accessor = (\<lambda>_. None), p_Equals = (=), p_MachineSetGet = (\<lambda>_ n _. Inl (ErrNotFound n)), p_NamespaceGet = (\<lambda>_ _. Inr None),
      p_CAPIClusterGet = (\<lambda>_ _ _. Inr demo_cluster), p_IsPaused = (\<lambda>_ _. False), p_InfraGet = (\<lambda>_ _ _ w. Inr w),
      p_InfraUpdate = (\<lambda>d w. (Inr d, if same_infra d w then w\<lparr>io_Spec := io_Spec d\<rparr> else w)),
      p_InfraUpdateStatus = (\<lambda>d w. (Inr d, if same_infra d w then w\<lparr>io_Status := io_Status d\<rparr> else w)),
      p_Enqueue = (\<lambda>_ _ _ w. (Inr (), w)), p_EnqueueAfter = (\<lambda>_ _ _ _ w. (Inr (), w)), p_Apply = (\<lambda>_ _ w. (Inr (), w)),
      p_JobGet = (\<lambda>_ n _. Inl (ErrNotFound n)), p_JobList = (\<lambda>_ _ _ _. Inr []), p_Selector = Inr, p_PodList = (\<lambda>_ _ _. Inr []),
      p_MachineDelete = (\<lambda>_ _ w. (Inr (), w))\<rparr>)
     \<lparr>l_MachineGet = (\<lambda>_ _ _. Inr looked_up), l_Convert = Inr,
      l_FromAPIVersionAndKind = (\<lambda>a k. \<lparr>gv_Group = a, gv_Version = ''v1'', gv_Kind = k\<rparr>), l_GetRESTConfig = (\<lambda>_ n _. Inr n),
      l_NewForConfig = Inr, l_NodeList = (\<lambda>_ _ _. Inr [found_node]), l_EnqueueAfter = (\<lambda>_ _ _ w. w)\<rparr>"

definition found_infra :: infra_object where
  "found_infra = site_infra [plain_cond ''Ready'' ''True'' '''' ''''] None"

definition found_bootstrap :: "(bootstrap_object \<times> bootstrap_status) option" where
  "found_bootstrap = Some (demo_bootstrap\<lparr>rb_DeletionTimestamp := None\<rparr>, \<lparr>bs_DataSecretName = Some ''boot'', bs_Ready = True\<rparr>)"

lemma lookup_site_store: "spec_store lookup_site (\<lambda>w. w)"
  by (simp add: spec_store_def lookup_site_def provision_env.defs args_env.defs planner_env.defs)

lemma lookup_site_spec:
  "map_of (io_Spec (snd (associateMachineWithNode lookup_site found_bootstrap found_infra))) ''providerID'' = Some (JStr ''digitalocean://7'')"
  by code_simp

lemma found_infra_spec: "map_of (io_Spec found_infra) ''providerID'' = None"
  by (simp add: found_infra_def site_infra_def)

theorem provider_id_from_ready_node_witness:
  "\<exists>d. infra_is_ready d \<and> map_of (io_Spec (snd (associateMachineWithNode lookup_site found_bootstrap found_infra))) ''providerID'' =
     Some (JStr ''digitalocean://7'')"
proof -
  have "io_Spec (snd (associateMachineWithNode lookup_site found_bootstrap found_infra)) \<noteq> io_Spec found_infra"
  proof
    assume "io_Spec (snd (associateMachineWithNode lookup_site found_bootstrap found_infra)) = io_Spec found_infra"
    from lookup_site_spec [unfolded this] show False by (simp add: found_infra_spec)
  qed
  from provider_id_from_ready_node [OF lookup_site_store surjective_pairing this] obtain d where "infra_is_ready d"
    by (elim exE conjE)
  with lookup_site_spec show ?thesis by (intro exI conjI)
qed

end
