(* ===== verification/Cluster_Objects.thy ===== *)
theory Cluster_Objects
  imports Machine_Args Plan_Secret
begin

text \<open>
  The objects of a provisioning cluster (\<open>controllers/provisioningv2/provisioningcluster/template.go\<close>): from a cluster of
  Rancher come the control plane that the planner reads, the CAPI cluster, and for every machine
  pool a machine deployment with its machine template. The types are those of
  \<open>apis/provisioning.cattle.io/v1\<close>; fields that no modelled code reads are left out. The networking of a
  cluster is a pointer: \<open>None\<close> is nil.
\<close>

section \<open>Data\<close>

record RKECommonNodeConfig =
  cn_Labels :: "(string \<times> string) list"
  cn_Taints :: "taint list"
  cn_CloudCredentialSecretName :: string

record RKEMachinePool =
  mp_Common :: RKECommonNodeConfig
  mp_Paused :: bool
  mp_EtcdRole :: bool
  mp_ControlPlaneRole :: bool
  mp_WorkerRole :: bool
  mp_DrainBeforeDelete :: bool
  mp_DrainBeforeDeleteTimeout :: "int option"
  mp_NodeConfig :: "objref option"
  mp_Name :: string
  mp_Quantity :: "int option"
  mp_RollingUpdate :: "(string option \<times> string option) option"
  mp_MachineDeploymentLabels :: "(string \<times> string) list"
  mp_MachineDeploymentAnnotations :: "(string \<times> string) list"
  mp_NodeStartupTimeout :: "int option"
  mp_UnhealthyNodeTimeout :: "int option"
  mp_MaxUnhealthy :: "string option"
  mp_UnhealthyRange :: "string option"
  mp_MachineOS :: string
  mp_DynamicSchemaSpec :: string
  mp_HostnameLengthLimit :: int

record RKEConfig =
  rk_UpgradeStrategy :: ClusterUpgradeStrategy
  rk_ChartValues :: config
  rk_MachineGlobalConfig :: config
  rk_MachineSelectorConfig :: "RKESystemConfig list"
  rk_MachineSelectorFiles :: "RKEProvisioningFiles list"
  rk_AdditionalManifest :: string
  rk_Registries :: "Registry option"
  rk_ETCD :: "ETCD option"
  rk_Networking :: "string option"
  rk_ProvisionGeneration :: int
  rk_ETCDSnapshotCreate :: "ETCDSnapshotCreate option"
  rk_ETCDSnapshotRestore :: "ETCDSnapshotRestore option"
  rk_RotateCertificates :: "RotateCertificates option"
  rk_RotateEncryptionKeys :: "RotateEncryptionKeys option"
  rk_MachinePools :: "RKEMachinePool list"
  rk_DefaultHostnameLengthLimit :: int
  rk_InfrastructureRef :: "objref option"

text \<open>The customisations of the two agents are only compared and copied, as JSON.\<close>

record ClusterSpec =
  cs_CloudCredentialSecretName :: string
  cs_KubernetesVersion :: string
  cs_RKEConfig :: "RKEConfig option"
  cs_LocalClusterAuthEndpointEnabled :: bool
  cs_AgentEnvVars :: "(string \<times> string) list"
  cs_ClusterAgentDeploymentCustomization :: "json option"
  cs_DefaultPodSecurityAdmissionConfigurationTemplateName :: string
  cs_DefaultPodSecurityPolicyTemplateName :: string
  cs_FleetAgentDeploymentCustomization :: "json option"

record ClusterStatus =
  ct_ClusterName :: string
  ct_Conditions :: "cond list"

record rancher_cluster =
  cl_Namespace :: string
  cl_Name :: string
  cl_UID :: string
  cl_Labels :: smap
  cl_Finalizers :: "string list"
  cl_DeletionTimestamp :: "string option"
  cl_Spec :: ClusterSpec
  cl_Status :: ClusterStatus

record machine_config =
  mc_Namespace :: string
  mc_Name :: string
  mc_GVKText :: string
  mc_OwnerReferences :: "object_owner list"
  mc_Data :: config

record machine_template =
  mt_Kind :: string
  mt_APIVersion :: string
  mt_Annotations :: smap
  mt_Name :: string
  mt_Namespace :: string
  mt_Labels :: smap
  mt_ClusterName :: string
  mt_Spec :: config

record machine_deployment =
  md_Namespace :: string
  md_Name :: string
  md_Labels :: smap
  md_Annotations :: smap
  md_ClusterName :: string
  md_Replicas :: "int option"
  md_MaxSurge :: "string option"
  md_MaxUnavailable :: "string option"
  md_TemplateLabels :: smap
  md_TemplateAnnotations :: smap
  md_ConfigRef :: objref
  md_InfrastructureRef :: objref
  md_NodeDrainTimeout :: "int option"
  md_Paused :: bool

record health_check =
  hc_Namespace :: string
  hc_Name :: string
  hc_ClusterName :: string
  hc_Selector :: "string \<times> string"
  hc_UnhealthyConditions :: "(string \<times> string \<times> int) list"
  hc_MaxUnhealthy :: "string option"
  hc_UnhealthyRange :: "string option"
  hc_NodeStartupTimeout :: "int option"

record control_plane_object =
  gc_Namespace :: string
  gc_Name :: string
  gc_Labels :: smap
  gc_Annotations :: smap
  gc_Spec :: RKEControlPlaneSpec

record capi_object =
  gk_Namespace :: string
  gk_Name :: string
  gk_OwnerReferences :: "object_owner list"
  gk_InfrastructureRef :: objref
  gk_ControlPlaneRef :: objref

datatype cluster_object =
    ORKECluster string string
  | OControlPlane control_plane_object
  | OCAPICluster capi_object
  | OBootstrapTemplate string string smap string
  | OMachineTemplate machine_template
  | OMachineDeployment machine_deployment
  | OHealthCheck health_check

text \<open>
  The clients, the codecs, \<open>meta.Accessor\<close> and \<open>data.Convert\<close> of a machine configuration, the parser of an API
  version and its inverse. \<open>v_UnmarshalSchema\<close> gives the names of the resource fields of a dynamic
  schema. \<open>v_MCM\<close>: the feature that makes the caches of dynamic schemas and management clusters exist.
  The comparisons are \<open>equality.Semantic.DeepEqual\<close> at the types it is called with.
\<close>

record mgmt_cluster =
  mg_Name :: string
  mg_Conditions :: "cond list"

record 'w cluster_env = "'w planner_env" +
  v_ConfigGet :: "gvk \<Rightarrow> string \<Rightarrow> string \<Rightarrow> 'w \<Rightarrow> go_error + machine_config"
  v_ConfigUpdate :: "machine_config \<Rightarrow> ('w, unit) go"
  v_Accessor :: "machine_config \<Rightarrow> err"
  v_Convert :: "machine_config \<Rightarrow> go_error + config"
  v_FromAPIVersionAndKind :: "string \<Rightarrow> string \<Rightarrow> gvk"
  v_GroupVersion :: "gvk \<Rightarrow> string"
  v_UnmarshalSchema :: "string \<Rightarrow> go_error + string list"
  v_SchemaGet :: "string \<Rightarrow> 'w \<Rightarrow> go_error + string list"
  v_MarshalSchema :: "string list \<Rightarrow> go_error + string"
  v_EncodeToMap :: "RKECommonNodeConfig \<Rightarrow> go_error + config"
  v_MarshalSpec :: "config \<Rightarrow> string"
  v_MarshalLabels :: "(string \<times> string) list \<Rightarrow> go_error + string"
  v_MarshalTaints :: "taint list \<Rightarrow> go_error + string"
  v_MarshalClusterSpec :: "ClusterSpec \<Rightarrow> go_error + string"
  v_UnmarshalClusterSpec :: "string \<Rightarrow> go_error + ClusterSpec"
  v_MCM :: bool
  v_ClusterUpdate :: "rancher_cluster \<Rightarrow> ('w, rancher_cluster) go"
  v_ClusterUpdateStatus :: "rancher_cluster \<Rightarrow> ('w, rancher_cluster) go"
  v_ClusterIndex :: "string \<Rightarrow> 'w \<Rightarrow> go_error + rancher_cluster list"
  v_Enqueue :: "string \<Rightarrow> string \<Rightarrow> 'w \<Rightarrow> 'w"
  v_CAPIClusterGet :: "string \<Rightarrow> string \<Rightarrow> 'w \<Rightarrow> go_error + capi_cluster"
  v_ControlPlaneGet :: "string \<Rightarrow> string \<Rightarrow> 'w \<Rightarrow> go_error + RKEControlPlane"
  v_MgmtGet :: "string \<Rightarrow> 'w \<Rightarrow> go_error + mgmt_cluster"
  v_MgmtUpdate :: "mgmt_cluster \<Rightarrow> ('w, mgmt_cluster) go"
  v_SameMap :: "config \<Rightarrow> config \<Rightarrow> bool"
  v_SameSelectorConfig :: "RKESystemConfig list \<Rightarrow> RKESystemConfig list \<Rightarrow> bool"
  v_SameRegistry :: "Registry option \<Rightarrow> Registry option \<Rightarrow> bool"
  v_SameStrategy :: "ClusterUpgradeStrategy \<Rightarrow> ClusterUpgradeStrategy \<Rightarrow> bool"
  v_SameAgent :: "json option \<Rightarrow> json option \<Rightarrow> bool"
  v_SameRestore :: "ETCDSnapshotRestore option \<Rightarrow> ETCDSnapshotRestore option \<Rightarrow> bool"

definition DefaultMachineConfigAPIVersion :: string where "DefaultMachineConfigAPIVersion = ''rke-machine-config.cattle.io/v1''"
definition RKEMachineAPIVersion :: string where "RKEMachineAPIVersion = ''rke-machine.cattle.io/v1''"
definition MachineTemplateClonedFromGroupVersionAnn :: string where
  "MachineTemplateClonedFromGroupVersionAnn = ''rke.cattle.io/cloned-from-group-version''"
definition MachineTemplateClonedFromKindAnn :: string where "MachineTemplateClonedFromKindAnn = ''rke.cattle.io/cloned-from-kind''"
definition MachineTemplateClonedFromNameAnn :: string where "MachineTemplateClonedFromNameAnn = ''rke.cattle.io/cloned-from-name''"
definition MachineTemplateHashLabel :: string where "MachineTemplateHashLabel = ''rke.cattle.io/machine-template-hash''"
definition RKEMachinePoolNameLabel :: string where "RKEMachinePoolNameLabel = ''rke.cattle.io/rke-machine-pool-name''"
definition DefaultMachineOS :: string where "DefaultMachineOS = ''linux''"

text \<open>Constants of the libraries.\<close>

definition LabelPrune :: string where "LabelPrune = ''objectset.rio.cattle.io/prune''"
definition MachineDeploymentNameLabel :: string where "MachineDeploymentNameLabel = ''cluster.x-k8s.io/deployment-name''"
definition ControlPlaneMachineLabel :: string where "ControlPlaneMachineLabel = ''cluster.x-k8s.io/control-plane''"

section \<open>Machine templates\<close>

definition pruneBySchema :: "config \<Rightarrow> string list \<Rightarrow> config" where
  "pruneBySchema data resourceFields = filter (\<lambda>(k, _). k \<in> set resourceFields) data"

fun owner_check :: "rancher_cluster \<Rightarrow> machine_config \<Rightarrow> object_owner list \<Rightarrow> (err, unit) sum" where
  "owner_check cluster m [] = Inr ()"
| "owner_check cluster m (owner # rest) =
     (let at = ''can not use '' @ mc_Namespace m @ ''/'' @ mc_Name m @ '' ['' @ mc_GVKText m @ ''] because it is already owned by '' in
      if ow_Kind owner = ''Cluster'' \<and> ow_APIVersion owner = ''provisioning.cattle.io/v1''
      then Inl (if ow_Name owner \<noteq> cl_Name cluster then Some (ErrOther (at @ ''cluster '' @ ow_Name owner)) else None)
      else if ow_Controller owner then Inl (Some (ErrOther (at @ ow_Kind owner @ '' '' @ ow_Name owner)))
      else owner_check cluster m rest)"

definition takeOwnership :: "('w, 'z) cluster_env_scheme \<Rightarrow> rancher_cluster \<Rightarrow> machine_config \<Rightarrow> ('w, unit) go" where
  "takeOwnership E cluster nodeConfig w =
     (case v_Accessor E nodeConfig of
        Some e \<Rightarrow> (Inl e, w)
      | None \<Rightarrow>
          (case owner_check cluster nodeConfig (mc_OwnerReferences nodeConfig) of
             Inl (Some e) \<Rightarrow> (Inl e, w)
           | Inl None \<Rightarrow> (Inr (), w)
           | Inr _ \<Rightarrow>
               v_ConfigUpdate E (nodeConfig\<lparr>mc_OwnerReferences := mc_OwnerReferences nodeConfig @
                 [\<lparr>ow_APIVersion = ''provisioning.cattle.io/v1'', ow_Kind = ''Cluster'', ow_Name = cl_Name cluster, ow_Controller = True,
                   ow_UID = cl_UID cluster, ow_BlockOwnerDeletion = True\<rparr>]\<rparr>) w))"

definition createMachineTemplateHash :: "('w, 'z) cluster_env_scheme \<Rightarrow> string \<Rightarrow> config \<Rightarrow> string" where
  "createMachineTemplateHash E name spec =
     take 8 (lib_sha256_hex E (name @ v_MarshalSpec E (PruneEmpty (filter (\<lambda>(k, _). k \<noteq> ''common'') spec))))"

definition pool_credential :: "rancher_cluster \<Rightarrow> RKEMachinePool \<Rightarrow> string" where
  "pool_credential cluster pool =
     (if cn_CloudCredentialSecretName (mp_Common pool) \<noteq> '''' then cn_CloudCredentialSecretName (mp_Common pool)
      else cs_CloudCredentialSecretName (cl_Spec cluster))"

definition template_object ::
  "('w, 'z) cluster_env_scheme \<Rightarrow> string \<Rightarrow> rancher_cluster \<Rightarrow> gvk \<Rightarrow> string \<Rightarrow> string \<Rightarrow> config \<Rightarrow> machine_template" where
  "template_object E poolName cluster g kind configName spec =
     (let mtHash = createMachineTemplateHash E poolName spec in
      \<lparr>mt_Kind = TrimSuffix kind ''Config'' @ ''MachineTemplate'', mt_APIVersion = RKEMachineAPIVersion,
       mt_Annotations = [MachineTemplateClonedFromGroupVersionAnn \<mapsto> v_GroupVersion E g, MachineTemplateClonedFromKindAnn \<mapsto> gv_Kind g,
                         MachineTemplateClonedFromNameAnn \<mapsto> configName],
       mt_Name = lib_SafeConcatName E [poolName, mtHash], mt_Namespace = cl_Namespace cluster,
       mt_Labels = [LabelPrune \<mapsto> ''false'', MachineTemplateHashLabel \<mapsto> mtHash], mt_ClusterName = cl_Name cluster, mt_Spec = spec\<rparr>)"

text \<open>The configuration of the pool with its schema applied, and the common part of the pool put in.\<close>

definition template_spec ::
  "('w, 'z) cluster_env_scheme \<Rightarrow> rancher_cluster \<Rightarrow> RKEMachinePool \<Rightarrow> machine_config \<Rightarrow> 'w \<Rightarrow> go_error + config" where
  "template_spec E cluster pool nodeConfig w =
     sbind (v_Convert E nodeConfig) (\<lambda>machinePoolData.
     sbind (if mp_DynamicSchemaSpec pool = '''' then Inl ErrSkip else v_UnmarshalSchema E (mp_DynamicSchemaSpec pool)) (\<lambda>fields.
     sbind (v_EncodeToMap E (mp_Common pool)) (\<lambda>commonData.
       let secretName = pool_credential cluster pool;
           withCommon = (\<lambda>c. Inr (gm_put ''common'' (JObj c) (pruneBySchema machinePoolData fields))) in
       if secretName = '''' then withCommon commonData
       else sbind (GetCloudCredentialSecret E (cl_Namespace cluster) secretName w) (\<lambda>_.
              withCommon (gm_put ''cloudCredentialSecretName'' (JStr secretName) commonData)))))"

definition toMachineTemplate ::
  "('w, 'z) cluster_env_scheme \<Rightarrow> string \<Rightarrow> rancher_cluster \<Rightarrow> RKEMachinePool \<Rightarrow> objref \<Rightarrow> ('w, machine_template) go" where
  "toMachineTemplate E machinePoolName cluster machinePool nc w =
     (let g = v_FromAPIVersionAndKind E (if or_APIVersion nc = '''' then DefaultMachineConfigAPIVersion else or_APIVersion nc) (or_Kind nc) in
      case v_ConfigGet E g (cl_Namespace cluster) (or_Name nc) w of
        Inl e \<Rightarrow> (Inl e, w)
      | Inr nodeConfig \<Rightarrow>
          (case takeOwnership E cluster nodeConfig w of
             (Inl e, w1) \<Rightarrow> (Inl e, w1)
           | (Inr _, w1) \<Rightarrow>
               (sbind (template_spec E cluster machinePool nodeConfig w1) (\<lambda>spec.
                  Inr (template_object E machinePoolName cluster g (or_Kind nc) (or_Name nc) spec)), w1)))"

section \<open>Machine deployments\<close>

definition accepted_limit :: "int \<Rightarrow> int" where
  "accepted_limit limit = (if limit < MinimumHostnameLengthLimit \<or> limit > MaximumHostnameLengthLimit then 0 else limit)"

definition populateHostnameLengthLimitAnnotation :: "RKEMachinePool \<Rightarrow> RKEConfig \<Rightarrow> smap \<Rightarrow> smap" where
  "populateHostnameLengthLimitAnnotation mp rke annotations =
     (let hostnameLimit = (if accepted_limit (mp_HostnameLengthLimit mp) = 0 then accepted_limit (rk_DefaultHostnameLengthLimit rke)
                           else accepted_limit (mp_HostnameLengthLimit mp)) in
      if hostnameLimit \<noteq> 0 then annotations(HostnameLengthLimitAnnotation \<mapsto> Itoa hostnameLimit) else annotations)"

text \<open>What makes the generation of the objects fail at a pool, given the names of the pools before it.\<close>

definition check_pool :: "string set \<Rightarrow> RKEMachinePool \<Rightarrow> go_error + objref" where
  "check_pool seen pool =
     (case mp_NodeConfig pool of
        None \<Rightarrow> Inl (ErrOther (''invalid machinePool ['' @ mp_Name pool @ ''] missing name or valid config''))
      | Some nc \<Rightarrow>
          if mp_Name pool = '''' \<or> or_Name nc = '''' \<or> or_Kind nc = ''''
          then Inl (ErrOther (''invalid machinePool ['' @ mp_Name pool @ ''] missing name or valid config''))
          else if \<not> mp_EtcdRole pool \<and> \<not> mp_ControlPlaneRole pool \<and> \<not> mp_WorkerRole pool
          then Inl (ErrOther (''at least one role of etcd, control-plane or worker must be assigned to machinePool ['' @ mp_Name pool @ '']''))
          else if mp_Name pool \<in> seen then Inl (ErrOther (''duplicate machinePool name ['' @ mp_Name pool @ ''] used''))
          else Inr nc)"

definition pool_infrastructure ::
  "('w, 'z) cluster_env_scheme \<Rightarrow> rancher_cluster \<Rightarrow> RKEMachinePool \<Rightarrow> objref \<Rightarrow> ('w, cluster_object list \<times> objref) go" where
  "pool_infrastructure E cluster pool nc =
     (if or_APIVersion nc = '''' \<or> or_APIVersion nc = ''rke-machine-config.cattle.io/v1''
      then bindE (toMachineTemplate E (lib_SafeConcatName E [cl_Name cluster, mp_Name pool]) cluster pool nc) (\<lambda>t.
        retE ([OMachineTemplate t],
              \<lparr>or_APIVersion = mt_APIVersion t, or_Kind = mt_Kind t, or_Namespace = mt_Namespace t, or_Name = mt_Name t\<rparr>))
      else retE ([], nc))"

definition pool_os :: "RKEMachinePool \<Rightarrow> string" where
  "pool_os pool = (if mp_MachineOS pool = '''' then DefaultMachineOS else mp_MachineOS pool)"

definition deployment_labels :: "RKEMachinePool \<Rightarrow> smap" where
  "deployment_labels pool =
     map_of (cn_Labels (mp_Common pool)) ++ (map_of (mp_MachineDeploymentLabels pool))(CattleOSLabel \<mapsto> pool_os pool)"

definition role_labels :: "RKEMachinePool \<Rightarrow> smap" where
  "role_labels pool =
     (if mp_EtcdRole pool then [EtcdRoleLabel \<mapsto> ''true''] else Map.empty) ++
     (if mp_ControlPlaneRole pool then [ControlPlaneRoleLabel \<mapsto> ''true'', ControlPlaneMachineLabel \<mapsto> ''true''] else Map.empty) ++
     (if mp_WorkerRole pool then [WorkerRoleLabel \<mapsto> ''true''] else Map.empty)"

definition template_labels :: "rancher_cluster \<Rightarrow> RKEMachinePool \<Rightarrow> string \<Rightarrow> smap" where
  "template_labels cluster pool deploymentName =
     [CAPIClusterNameLabel \<mapsto> cl_Name cluster, ClusterNameLabel \<mapsto> cl_Name cluster, MachineDeploymentNameLabel \<mapsto> deploymentName,
      RKEMachinePoolNameLabel \<mapsto> mp_Name pool] ++ role_labels pool ++ [CattleOSLabel \<mapsto> pool_os pool] ++ map_of (cn_Labels (mp_Common pool))"

definition assign :: "bool \<Rightarrow> go_error + string \<Rightarrow> string \<Rightarrow> smap \<Rightarrow> go_error + smap" where
  "assign present encoded key labels = (if present then sbind encoded (\<lambda>data. Inr (labels(key \<mapsto> data))) else Inr labels)"

definition template_annotations :: "('w, 'z) cluster_env_scheme \<Rightarrow> RKEConfig \<Rightarrow> RKEMachinePool \<Rightarrow> go_error + smap" where
  "template_annotations E rke pool =
     sbind (assign (cn_Labels (mp_Common pool) \<noteq> []) (v_MarshalLabels E (cn_Labels (mp_Common pool))) LabelsAnnotation
       (populateHostnameLengthLimitAnnotation pool rke (if mp_DrainBeforeDelete pool then Map.empty else [ExcludeNodeDrainingAnnotation \<mapsto> ''true'']))) (\<lambda>a.
     assign (cn_Taints (mp_Common pool) \<noteq> []) (v_MarshalTaints E (cn_Taints (mp_Common pool))) TaintsAnnotation a)"

definition bootstrap_name :: "'z libs_scheme \<Rightarrow> rancher_cluster \<Rightarrow> string" where
  "bootstrap_name E cluster = lib_SafeConcatName E [cl_Name cluster, ''bootstrap'', ''template'']"

definition deployment_of ::
  "('w, 'z) cluster_env_scheme \<Rightarrow> rancher_cluster \<Rightarrow> RKEMachinePool \<Rightarrow> objref \<Rightarrow> smap \<Rightarrow> machine_deployment" where
  "deployment_of E cluster pool infraRef annotations =
     (let name = lib_SafeConcatName E [cl_Name cluster, mp_Name pool] in
      \<lparr>md_Namespace = cl_Namespace cluster, md_Name = name, md_Labels = deployment_labels pool,
       md_Annotations = map_of (mp_MachineDeploymentAnnotations pool), md_ClusterName = cl_Name cluster, md_Replicas = mp_Quantity pool,
       md_MaxSurge = (case mp_RollingUpdate pool of None \<Rightarrow> None | Some (_, surge) \<Rightarrow> surge),
       md_MaxUnavailable = (case mp_RollingUpdate pool of None \<Rightarrow> None | Some (unavailable, _) \<Rightarrow> unavailable),
       md_TemplateLabels = template_labels cluster pool name, md_TemplateAnnotations = annotations,
       md_ConfigRef = \<lparr>or_APIVersion = ''rke.cattle.io/v1'', or_Kind = ''RKEBootstrapTemplate'', or_Namespace = cl_Namespace cluster,
         or_Name = bootstrap_name E cluster\<rparr>,
       md_InfrastructureRef = infraRef, md_NodeDrainTimeout = mp_DrainBeforeDeleteTimeout pool, md_Paused = mp_Paused pool\<rparr>)"

definition deploymentHealthChecks :: "machine_deployment \<Rightarrow> RKEMachinePool \<Rightarrow> int \<Rightarrow> health_check" where
  "deploymentHealthChecks d pool timeout =
     \<lparr>hc_Namespace = md_Namespace d, hc_Name = md_Name d, hc_ClusterName = md_ClusterName d,
      hc_Selector = (MachineDeploymentNameLabel, md_Name d),
      hc_UnhealthyConditions = [(''Ready'', ''Unknown'', timeout), (''Ready'', ''False'', timeout)],
      hc_MaxUnhealthy = mp_MaxUnhealthy pool, hc_UnhealthyRange = mp_UnhealthyRange pool, hc_NodeStartupTimeout = mp_NodeStartupTimeout pool\<rparr>"

definition health_checks :: "machine_deployment \<Rightarrow> RKEMachinePool \<Rightarrow> cluster_object list" where
  "health_checks d pool =
     (case mp_UnhealthyNodeTimeout pool of
        None \<Rightarrow> []
      | Some t \<Rightarrow> if t > 0 then [OHealthCheck (deploymentHealthChecks d pool t)] else [])"

fun pool_loop ::
  "('w, 'z) cluster_env_scheme \<Rightarrow> rancher_cluster \<Rightarrow> RKEConfig \<Rightarrow> string set \<Rightarrow> RKEMachinePool list \<Rightarrow> ('w, cluster_object list) go" where
  "pool_loop E cluster rke seen [] = retE []"
| "pool_loop E cluster rke seen (pool # pools) =
     (if mp_Quantity pool = Some 0 then pool_loop E cluster rke seen pools
      else
        bindE (liftE (check_pool seen pool)) (\<lambda>nc.
        bindE (pool_infrastructure E cluster pool nc) (\<lambda>(templates, infraRef).
        bindE (liftE (template_annotations E rke pool)) (\<lambda>annotations.
        bindE (pool_loop E cluster rke (insert (mp_Name pool) seen) pools) (\<lambda>rest.
          let d = deployment_of E cluster pool infraRef annotations in
          retE (templates @ [OMachineDeployment d] @ health_checks d pool @ rest))))))"

definition machineDeployments :: "('w, 'z) cluster_env_scheme \<Rightarrow> rancher_cluster \<Rightarrow> RKEConfig \<Rightarrow> ('w, cluster_object list) go" where
  "machineDeployments E cluster rke =
     (if \<not> v_MCM E then retE []
      else bindE (pool_loop E cluster rke {} (rk_MachinePools rke)) (\<lambda>objs.
        retE ((if rk_MachinePools rke \<noteq> []
               then [OBootstrapTemplate (cl_Namespace cluster) (bootstrap_name E cluster) [ClusterNameLabel \<mapsto> cl_Name cluster] (cl_Name cluster)]
               else []) @ objs)))"

section \<open>The control plane and the CAPI cluster\<close>

text \<open>The requests for operations are not part of the specification that snapshots carry.\<close>

definition filtered_spec :: "ClusterSpec \<Rightarrow> ClusterSpec" where
  "filtered_spec spec =
     spec\<lparr>cs_RKEConfig := map_option (\<lambda>r. r\<lparr>rk_ETCDSnapshotRestore := None, rk_ETCDSnapshotCreate := None, rk_RotateEncryptionKeys := None,
        rk_RotateCertificates := None\<rparr>) (cs_RKEConfig spec)\<rparr>"

definition control_plane_spec :: "rancher_cluster \<Rightarrow> RKEConfig \<Rightarrow> RKEControlPlaneSpec" where
  "control_plane_spec cluster r =
     \<lparr>sp_UpgradeStrategy = rk_UpgradeStrategy r, sp_AdditionalManifest = rk_AdditionalManifest r, sp_ETCD = rk_ETCD r,
      sp_StackPreference = rk_Networking r, sp_ProvisionGeneration = rk_ProvisionGeneration r,
      sp_AgentEnvVars = cs_AgentEnvVars (cl_Spec cluster), sp_LocalClusterAuthEndpointEnabled = cs_LocalClusterAuthEndpointEnabled (cl_Spec cluster),
      sp_ETCDSnapshotCreate = rk_ETCDSnapshotCreate r, sp_ETCDSnapshotRestore = rk_ETCDSnapshotRestore r,
      sp_RotateCertificates = rk_RotateCertificates r, sp_RotateEncryptionKeys = rk_RotateEncryptionKeys r,
      sp_KubernetesVersion = cs_KubernetesVersion (cl_Spec cluster), sp_ClusterName = cl_Name cluster,
      sp_ManagementClusterName = ct_ClusterName (cl_Status cluster), sp_UnmanagedConfig = False,
      sp_MachineGlobalConfig = rk_MachineGlobalConfig r, sp_MachineSelectorConfig = rk_MachineSelectorConfig r,
      sp_MachineSelectorFiles = rk_MachineSelectorFiles r, sp_ChartValues = rk_ChartValues r, sp_Registries = rk_Registries r\<rparr>"

definition rkeControlPlane :: "('w, 'z) cluster_env_scheme \<Rightarrow> rancher_cluster \<Rightarrow> RKEConfig \<Rightarrow> go_error + control_plane_object" where
  "rkeControlPlane E cluster rke =
     sbind (CompressInterface E (v_MarshalClusterSpec E) (filtered_spec (cl_Spec cluster))) (\<lambda>b64GZCluster.
       Inr \<lparr>gc_Namespace = cl_Namespace cluster, gc_Name = cl_Name cluster,
            gc_Labels = [InitNodeMachineIDLabel \<mapsto> gets (cl_Labels cluster) InitNodeMachineIDLabel],
            gc_Annotations = [ClusterSpecAnnotation \<mapsto> b64GZCluster], gc_Spec = control_plane_spec cluster rke\<rparr>)"

definition getInfraRef :: "rancher_cluster \<Rightarrow> objref" where
  "getInfraRef cluster = \<lparr>or_APIVersion = ''rke.cattle.io/v1'', or_Kind = ''RKECluster'', or_Namespace = '''', or_Name = cl_Name cluster\<rparr>"

definition capiCluster :: "rancher_cluster \<Rightarrow> control_plane_object \<Rightarrow> objref \<Rightarrow> capi_object" where
  "capiCluster cluster cp infraRef =
     \<lparr>gk_Namespace = cl_Namespace cluster, gk_Name = cl_Name cluster,
      gk_OwnerReferences = [\<lparr>ow_APIVersion = ''provisioning.cattle.io/v1'', ow_Kind = ''Cluster'', ow_Name = cl_Name cluster, ow_Controller = True,
        ow_UID = cl_UID cluster, ow_BlockOwnerDeletion = True\<rparr>],
      gk_InfrastructureRef = infraRef,
      gk_ControlPlaneRef = \<lparr>or_APIVersion = ''rke.cattle.io/v1'', or_Kind = ''RKEControlPlane'', or_Namespace = gc_Namespace cp, or_Name = gc_Name cp\<rparr>\<rparr>"

definition cluster_objects :: "('w, 'z) cluster_env_scheme \<Rightarrow> rancher_cluster \<Rightarrow> RKEConfig \<Rightarrow> ('w, cluster_object list) go" where
  "cluster_objects E cluster rke =
     (if cl_DeletionTimestamp cluster \<noteq> None then retE []
      else
        let (own, infraRef) = (case rk_InfrastructureRef rke of
              None \<Rightarrow> ([ORKECluster (cl_Namespace cluster) (cl_Name cluster)], getInfraRef cluster)
            | Some ref \<Rightarrow> ([], ref)) in
        bindE (liftE (rkeControlPlane E cluster rke)) (\<lambda>cp.
        bindE (machineDeployments E cluster rke) (\<lambda>deployments.
          retE (own @ [OControlPlane cp, OCAPICluster (capiCluster cluster cp infraRef)] @ deployments))))"

end
