(* ===== verification/Cluster_Controller.thy ===== *)
theory Cluster_Controller
  imports Cluster_Objects
begin

text \<open>
  The controller of provisioning clusters (\<open>controllers/provisioningv2/provisioningcluster/controller.go\<close>): it fills in the
  schemas of the machine pools, restores the configuration of a cluster from a snapshot before the
  planner is told to restore, generates the objects of the cluster and copies conditions between
  the control plane, the cluster and its management cluster.
\<close>

section \<open>The configuration of a snapshot\<close>

definition findSnapshotClusterSpec :: "('w, 'z) cluster_env_scheme \<Rightarrow> string \<Rightarrow> string \<Rightarrow> 'w \<Rightarrow> go_error + ClusterSpec" where
  "findSnapshotClusterSpec E ns name w =
     (case q_SnapshotCacheGet E ns name w of
        Inl e \<Rightarrow> Inl (ErrWrap (''error retrieving etcdsnapshot '' @ ns @ ''/'' @ name) e)
      | Inr snapshot \<Rightarrow> ParseSnapshotClusterSpecOrError E (q_UnmarshalSnapshotMap E) (v_UnmarshalClusterSpec E) (Some snapshot))"

text \<open>A field is copied when it differs, and the change is noted.\<close>

definition restore_field ::
  "('a \<Rightarrow> 'a \<Rightarrow> bool) \<Rightarrow> ('r \<Rightarrow> 'a) \<Rightarrow> (('a \<Rightarrow> 'a) \<Rightarrow> 'r \<Rightarrow> 'r) \<Rightarrow> 'r \<Rightarrow> 'r \<times> bool \<Rightarrow> 'r \<times> bool" where
  "restore_field same get upd desired cur =
     (if same (get (fst cur)) (get desired) then cur else (upd (\<lambda>_. get desired) (fst cur), True))"

text \<open>
  The networking is compared as a pointer. The two specifications share no memory, one being a
  deep copy and the other just decoded, so the pointers are equal only when both are nil.
\<close>

definition same_pointer :: "string option \<Rightarrow> string option \<Rightarrow> bool" where
  "same_pointer a b \<longleftrightarrow> a = None \<and> b = None"

definition restore_rke :: "('w, 'z) cluster_env_scheme \<Rightarrow> RKEConfig \<Rightarrow> RKEConfig \<Rightarrow> RKEConfig \<times> bool" where
  "restore_rke E desired cur =
     restore_field same_pointer rk_Networking rk_Networking_update desired
     (restore_field (=) rk_AdditionalManifest rk_AdditionalManifest_update desired
     (restore_field (v_SameStrategy E) rk_UpgradeStrategy rk_UpgradeStrategy_update desired
     (restore_field (v_SameRegistry E) rk_Registries rk_Registries_update desired
     (restore_field (v_SameMap E) rk_ChartValues rk_ChartValues_update desired
     (restore_field (v_SameSelectorConfig E) rk_MachineSelectorConfig rk_MachineSelectorConfig_update desired
     (restore_field (v_SameMap E) rk_MachineGlobalConfig rk_MachineGlobalConfig_update desired (cur, False)))))))"

definition restore_top :: "('w, 'z) cluster_env_scheme \<Rightarrow> ClusterSpec \<Rightarrow> ClusterSpec \<times> bool \<Rightarrow> ClusterSpec \<times> bool" where
  "restore_top E desired cur =
     restore_field (v_SameAgent E) cs_FleetAgentDeploymentCustomization cs_FleetAgentDeploymentCustomization_update desired
     (restore_field (v_SameAgent E) cs_ClusterAgentDeploymentCustomization cs_ClusterAgentDeploymentCustomization_update desired
     (restore_field (=) cs_DefaultPodSecurityAdmissionConfigurationTemplateName
        cs_DefaultPodSecurityAdmissionConfigurationTemplateName_update desired
     (restore_field (=) cs_DefaultPodSecurityPolicyTemplateName cs_DefaultPodSecurityPolicyTemplateName_update desired
     (restore_field (=) cs_KubernetesVersion cs_KubernetesVersion_update desired cur))))"

definition reconcileClusterSpecEtcdRestore ::
  "('w, 'z) cluster_env_scheme \<Rightarrow> ClusterSpec \<Rightarrow> ClusterSpec \<Rightarrow> go_error + (ClusterSpec \<times> bool)" where
  "reconcileClusterSpecEtcdRestore E spec desired =
     (case (cs_RKEConfig spec, cs_RKEConfig desired) of
        (Some r, Some rd) \<Rightarrow>
          (case restore_rke E rd r of (r', changed) \<Rightarrow> Inr (restore_top E desired (spec\<lparr>cs_RKEConfig := Some r'\<rparr>, changed)))
      | _ \<Rightarrow> Inl (GoPanic ''nil pointer dereference''))"

definition restoreRKEConfigKubernetesVersion :: string where "restoreRKEConfigKubernetesVersion = ''kubernetesVersion''"
definition restoreRKEConfigAll :: string where "restoreRKEConfigAll = ''all''"
definition restoreRKEConfigNone :: string where "restoreRKEConfigNone = ''none''"

text \<open>After an update the handler waits for the caches.\<close>

definition update_and_skip :: "('w, 'z) cluster_env_scheme \<Rightarrow> rancher_cluster \<Rightarrow> 'w \<Rightarrow> err \<times> 'w" where
  "update_and_skip E cluster w =
     (case v_ClusterUpdate E cluster w of (Inl e, w1) \<Rightarrow> (Some e, w1) | (Inr _, w1) \<Rightarrow> (Some ErrSkip, w1))"

definition wants_config :: "RKEConfig \<Rightarrow> ETCDSnapshotRestore option" where
  "wants_config rke =
     (case rk_ETCDSnapshotRestore rke of
        None \<Rightarrow> None
      | Some r \<Rightarrow> if sr_Name r \<noteq> '''' \<and> sr_RestoreRKEConfig r \<noteq> '''' \<and> sr_RestoreRKEConfig r \<noteq> restoreRKEConfigNone then Some r else None)"

definition restore_config ::
  "('w, 'z) cluster_env_scheme \<Rightarrow> rancher_cluster \<Rightarrow> RKEConfig \<Rightarrow> RKEControlPlane \<Rightarrow> 'w \<Rightarrow> err \<times> 'w" where
  "restore_config E obj rke rkeCP w =
     (case wants_config rke of
        None \<Rightarrow> (None, w)
      | Some r \<Rightarrow>
          if v_SameRestore E (st_ETCDSnapshotRestore (cp_Status rkeCP)) (Some r) then (None, w)
          else
            (case findSnapshotClusterSpec E (cl_Namespace obj) (sr_Name r) w of
               Inl e \<Rightarrow> (Some e, w)
             | Inr clusterSpec \<Rightarrow>
                 if sr_RestoreRKEConfig r = restoreRKEConfigKubernetesVersion then
                   (if cs_KubernetesVersion (cl_Spec obj) \<noteq> cs_KubernetesVersion clusterSpec
                    then update_and_skip E (obj\<lparr>cl_Spec := (cl_Spec obj)\<lparr>cs_KubernetesVersion := cs_KubernetesVersion clusterSpec\<rparr>\<rparr>) w
                    else (None, w))
                 else if sr_RestoreRKEConfig r = restoreRKEConfigAll then
                   (case reconcileClusterSpecEtcdRestore E (cl_Spec obj) clusterSpec of
                      Inl e \<Rightarrow> (Some e, w)
                    | Inr (spec, changed) \<Rightarrow> if changed then update_and_skip E (obj\<lparr>cl_Spec := spec\<rparr>) w else (None, w))
                 else (None, w)))"

section \<open>Conditions and lookups\<close>

definition reconcileCondition :: "cond_api \<Rightarrow> cond list \<Rightarrow> string \<Rightarrow> cond list \<Rightarrow> string \<Rightarrow> cond list \<times> bool" where
  "reconcileCondition A to toCondition from fromCondition =
     (if c_GetStatus A fromCondition from \<noteq> c_GetStatus A toCondition to \<or> c_GetReason A fromCondition from \<noteq> c_GetReason A toCondition to \<or>
         c_GetMessage A fromCondition from \<noteq> c_GetMessage A toCondition to
      then (c_SetMessage A toCondition (c_GetMessage A fromCondition from)
             (c_SetReason A toCondition (c_GetReason A fromCondition from)
               (c_SetStatus A toCondition (c_GetStatus A fromCondition from) to)), True)
      else (to, False))"

definition getRKEControlPlaneForCluster :: "('w, 'z) cluster_env_scheme \<Rightarrow> rancher_cluster \<Rightarrow> 'w \<Rightarrow> go_error + RKEControlPlane option" where
  "getRKEControlPlaneForCluster E cluster w =
     (case v_CAPIClusterGet E (cl_Namespace cluster) (cl_Name cluster) w of
        Inl e \<Rightarrow> if is_NotFound e then Inr None else Inl e
      | Inr capi \<Rightarrow>
          (case cc_ControlPlaneRef capi of
             None \<Rightarrow> Inr None
           | Some ref \<Rightarrow>
               if or_Kind ref \<noteq> ''RKEControlPlane'' then Inr None
               else
                 (case v_ControlPlaneGet E (or_Namespace ref) (or_Name ref) w of
                    Inl e \<Rightarrow> if is_NotFound e \<and> cl_DeletionTimestamp cluster \<noteq> None then Inr None else Inl e
                  | Inr cp \<Rightarrow> Inr (Some cp))))"

definition retrieveMgmtClusterFromCache :: "('w, 'z) cluster_env_scheme \<Rightarrow> rancher_cluster \<Rightarrow> 'w \<Rightarrow> go_error + mgmt_cluster" where
  "retrieveMgmtClusterFromCache E cluster w =
     (if \<not> v_MCM E then Inl (ErrOther ''management cluster cache was nil'') else v_MgmtGet E (ct_ClusterName (cl_Status cluster)) w)"

text \<open>The conditions of the control plane, and of the management cluster once the cluster is stable.\<close>

definition status_conditions :: "cond_api \<Rightarrow> cond list \<Rightarrow> mgmt_cluster option \<Rightarrow> cond list \<Rightarrow> cond list" where
  "status_conditions A cp mgmt cs =
     (let cs1 = fst (reconcileCondition A cs ''Updated'' cp ''Ready'');
          cs2 = fst (reconcileCondition A cs1 ''Provisioned'' cp ''Ready'') in
      if \<not> c_IsTrue A ''Stable'' cp then fst (reconcileCondition A cs2 ''Ready'' cp ''Ready'')
      else (case mgmt of None \<Rightarrow> cs2 | Some m \<Rightarrow> fst (reconcileCondition A cs2 ''Ready'' (mg_Conditions m) ''Ready'')))"

definition mgmt_conditions :: "cond_api \<Rightarrow> cond list \<Rightarrow> cond list \<Rightarrow> cond list" where
  "mgmt_conditions A cp cs =
     fst (reconcileCondition A (fst (reconcileCondition A cs ''Updated'' cp ''Ready'')) ''Provisioned'' cp ''Provisioned'')"

definition report_control_plane ::
  "('w, 'z) cluster_env_scheme \<Rightarrow> RKEControlPlane \<Rightarrow> mgmt_cluster option \<Rightarrow> ClusterStatus \<Rightarrow> 'w \<Rightarrow> (ClusterStatus \<times> err) \<times> 'w" where
  "report_control_plane E rkeCP mgmt status w =
     (let A = lib_Cond E; cp = st_Conditions (cp_Status rkeCP);
          status1 = status\<lparr>ct_Conditions := status_conditions A cp mgmt (ct_Conditions status)\<rparr> in
      case mgmt of
        None \<Rightarrow> ((status1, None), w)
      | Some m \<Rightarrow>
          (case v_MgmtUpdate E (m\<lparr>mg_Conditions := mgmt_conditions A cp (mg_Conditions m)\<rparr>) w of
             (Inl e, w1) \<Rightarrow> ((status1, Some e), w1)
           | (Inr _, w1) \<Rightarrow> ((status1, None), w1)))"

section \<open>The handlers\<close>

definition generate ::
  "('w, 'z) cluster_env_scheme \<Rightarrow> rancher_cluster \<Rightarrow> RKEConfig \<Rightarrow> ClusterStatus \<Rightarrow> 'w \<Rightarrow> (cluster_object list \<times> ClusterStatus \<times> err) \<times> 'w" where
  "generate E obj rke status w =
     (case cluster_objects E obj rke w of
        (Inl e, w1) \<Rightarrow> (([], status, Some e), w1)
      | (Inr objs, w1) \<Rightarrow> ((objs, status, None), w1))"

definition OnRancherClusterChange ::
  "('w, 'z) cluster_env_scheme \<Rightarrow> rancher_cluster \<Rightarrow> ClusterStatus \<Rightarrow> 'w \<Rightarrow> (cluster_object list \<times> ClusterStatus \<times> err) \<times> 'w" where
  "OnRancherClusterChange E obj status w =
     (case cs_RKEConfig (cl_Spec obj) of
        None \<Rightarrow> (([], status, None), w)
      | Some rke \<Rightarrow>
          if ct_ClusterName (cl_Status obj) = '''' \<or> cl_DeletionTimestamp obj \<noteq> None then (([], status, None), w)
          else if cs_KubernetesVersion (cl_Spec obj) = ''''
          then (([], status, Some (ErrOther (''kubernetesVersion not set on '' @ cl_Namespace obj @ ''/'' @ cl_Name obj))), w)
          else if cl_Finalizers obj = [] then (([], status, Some ErrSkip), w)
          else
            (case getRKEControlPlaneForCluster E obj w of
               Inl e \<Rightarrow> (([], status, Some e), w)
             | Inr None \<Rightarrow> generate E obj rke status w
             | Inr (Some rkeCP) \<Rightarrow>
                 (case restore_config E obj rke rkeCP w of
                    (Some e, w1) \<Rightarrow> (([], status, Some e), w1)
                  | (None, w1) \<Rightarrow>
                      (case report_control_plane E rkeCP
                              (case retrieveMgmtClusterFromCache E obj w of Inl _ \<Rightarrow> None | Inr m \<Rightarrow> Some m) status w1 of
                         ((status1, Some e), w2) \<Rightarrow> (([], status1, Some e), w2)
                       | ((status1, None), w2) \<Rightarrow> generate E obj rke status1 w2))))"

definition has_schema :: "('w, 'z) cluster_env_scheme \<Rightarrow> RKEMachinePool \<Rightarrow> bool" where
  "has_schema E pool \<longleftrightarrow> mp_DynamicSchemaSpec pool \<noteq> '''' \<and> (case v_UnmarshalSchema E (mp_DynamicSchemaSpec pool) of Inl _ \<Rightarrow> False | Inr _ \<Rightarrow> True)"

definition foreign_config :: "objref \<Rightarrow> bool" where
  "foreign_config nc \<longleftrightarrow> or_APIVersion nc \<noteq> DefaultMachineConfigAPIVersion \<and> or_APIVersion nc \<noteq> ''''"

definition lacks_schema :: "('w, 'z) cluster_env_scheme \<Rightarrow> RKEMachinePool \<Rightarrow> bool" where
  "lacks_schema E pool \<longleftrightarrow>
     \<not> has_schema E pool \<and> (case mp_NodeConfig pool of None \<Rightarrow> False | Some nc \<Rightarrow> \<not> foreign_config nc)"

definition fill_schema :: "('w, 'z) cluster_env_scheme \<Rightarrow> 'w \<Rightarrow> RKEMachinePool \<Rightarrow> go_error + RKEMachinePool" where
  "fill_schema E w pool =
     (if has_schema E pool then Inr pool
      else
        (case mp_NodeConfig pool of
           None \<Rightarrow> Inl (ErrOther ''machine pool node config must not be nil'')
         | Some nc \<Rightarrow>
             if foreign_config nc then Inr pool
             else if \<not> v_MCM E then Inl (GoPanic ''nil pointer dereference'')
             else sbind (v_SchemaGet E (ToLower (or_Kind nc)) w) (\<lambda>ds.
                  sbind (v_MarshalSchema E ds) (\<lambda>specJSON. Inr (pool\<lparr>mp_DynamicSchemaSpec := specJSON\<rparr>)))))"

fun fill_schemas :: "('w, 'z) cluster_env_scheme \<Rightarrow> 'w \<Rightarrow> RKEMachinePool list \<Rightarrow> go_error + RKEMachinePool list" where
  "fill_schemas E w [] = Inr []"
| "fill_schemas E w (pool # pools) = sbind (fill_schema E w pool) (\<lambda>p. sbind (fill_schemas E w pools) (\<lambda>ps. Inr (p # ps)))"

text \<open>From the first pool that lacks its schema on, the pools are filled in; those before it are left.\<close>

definition cluster_OnChange :: "('w, 'z) cluster_env_scheme \<Rightarrow> rancher_cluster option \<Rightarrow> ('w, rancher_cluster option) go" where
  "cluster_OnChange E cluster w =
     (case cluster of
        None \<Rightarrow> (Inr None, w)
      | Some c \<Rightarrow>
          (case cs_RKEConfig (cl_Spec c) of
             None \<Rightarrow> (Inr (Some c), w)
           | Some rke \<Rightarrow>
               if cl_DeletionTimestamp c \<noteq> None then (Inr (Some c), w)
               else
                 let before = takeWhile (\<lambda>p. \<not> lacks_schema E p) (rk_MachinePools rke);
                     from = dropWhile (\<lambda>p. \<not> lacks_schema E p) (rk_MachinePools rke) in
                 if from = [] then (Inr (Some c), w)
                 else
                   (case fill_schemas E w from of
                      Inl e \<Rightarrow> (Inl e, w)
                    | Inr filled \<Rightarrow>
                        bindE (v_ClusterUpdate E (c\<lparr>cl_Spec := (cl_Spec c)\<lparr>cs_RKEConfig := Some (rke\<lparr>rk_MachinePools := before @ filled\<rparr>)\<rparr>\<rparr>))
                          (\<lambda>c'. retE (Some c')) w)))"

text \<open>The removal waits for the control plane, except where the management cluster is gone.\<close>

definition remove_status :: "('w, 'z) cluster_env_scheme \<Rightarrow> rancher_cluster \<Rightarrow> cond list \<Rightarrow> 'w \<Rightarrow> err \<times> 'w" where
  "remove_status E cluster cp w =
     (case reconcileCondition (lib_Cond E) (ct_Conditions (cl_Status cluster)) ''Removed'' cp ''Removed'' of
        (cs, True) \<Rightarrow>
          (case v_ClusterUpdateStatus E (cluster\<lparr>cl_Status := (cl_Status cluster)\<lparr>ct_Conditions := cs\<rparr>\<rparr>) w of
             (Inl e, w1) \<Rightarrow> (Some e, w1)
           | (Inr _, w1) \<Rightarrow> (Some ErrSkip, w1))
      | (_, False) \<Rightarrow> (Some ErrSkip, w))"

definition cluster_OnRemove :: "('w, 'z) cluster_env_scheme \<Rightarrow> rancher_cluster option \<Rightarrow> 'w \<Rightarrow> err \<times> 'w" where
  "cluster_OnRemove E cluster w =
     (case cluster of
        None \<Rightarrow> (None, w)
      | Some c \<Rightarrow>
          if cs_RKEConfig (cl_Spec c) = None \<or> ct_ClusterName (cl_Status c) = '''' then (None, w)
          else
            (case getRKEControlPlaneForCluster E c w of
               Inl e \<Rightarrow> (Some e, w)
             | Inr None \<Rightarrow> (None, w)
             | Inr (Some rkeCP) \<Rightarrow>
                 let cp = st_Conditions (cp_Status rkeCP) in
                 (case retrieveMgmtClusterFromCache E c w of
                    Inl e \<Rightarrow> if is_NotFound e then (None, w) else remove_status E c cp w
                  | Inr m \<Rightarrow>
                      (case reconcileCondition (lib_Cond E) (mg_Conditions m) ''Removed'' cp ''Removed'' of
                         (_, False) \<Rightarrow> remove_status E c cp w
                       | (cs, True) \<Rightarrow>
                           (case v_MgmtUpdate E (m\<lparr>mg_Conditions := cs\<rparr>) w of
                              (Inl e, w1) \<Rightarrow> (if is_NotFound e then None else Some e, w1)
                            | (Inr _, w1) \<Rightarrow> remove_status E c cp w1)))))"

section \<open>Machine configurations lead back to clusters\<close>

definition toInfraRefKey :: "objref \<Rightarrow> string \<Rightarrow> string" where
  "toInfraRefKey ref ns =
     (if or_APIVersion ref = '''' then DefaultMachineConfigAPIVersion else or_APIVersion ref) @ ''/'' @ or_Kind ref @ ''/'' @ ns @ ''/'' @ or_Name ref"

definition byNodeInfraIndex :: "rancher_cluster \<Rightarrow> string list" where
  "byNodeInfraIndex obj =
     (case cs_RKEConfig (cl_Spec obj) of
        None \<Rightarrow> []
      | Some rke \<Rightarrow>
          if ct_ClusterName (cl_Status obj) = '''' then []
          else map (\<lambda>nc. toInfraRefKey nc (cl_Namespace obj)) (List.map_filter mp_NodeConfig (rk_MachinePools rke)))"

definition matchRKENodeGroup :: "('w, 'z) cluster_env_scheme \<Rightarrow> gvk \<Rightarrow> bool" where
  "matchRKENodeGroup E g \<longleftrightarrow> v_GroupVersion E g = DefaultMachineConfigAPIVersion \<and> HasSuffix (gv_Kind g) ''Config''"

definition infraWatch :: "('w, 'z) cluster_env_scheme \<Rightarrow> (objref \<times> err) option \<Rightarrow> 'w \<Rightarrow> err \<times> 'w" where
  "infraWatch E obj w =
     (case obj of
        None \<Rightarrow> (None, w)
      | Some (_, Some e) \<Rightarrow> (Some e, w)
      | Some (ref, None) \<Rightarrow>
          (case v_ClusterIndex E (toInfraRefKey ref (or_Namespace ref)) w of
             Inl e \<Rightarrow> (Some e, w)
           | Inr clusters \<Rightarrow> (None, fold (\<lambda>c. v_Enqueue E (cl_Namespace c) (cl_Name c)) clusters w)))"

end
