(* ===== verification/Cluster_Correct.thy ===== *)
theory Cluster_Correct
  imports Cluster_Controller Idle_Env
begin

text \<open>
  What the controller of provisioning clusters guarantees: the planner is told to restore a snapshot
  only when the configuration of the snapshot is in place, a snapshot gives back the configuration
  it was taken with, machine pools become machine deployments with their roles, and schemas are
  filled in once.
\<close>

section \<open>Restoring the configuration\<close>

text \<open>The comparison of the library holds for equal values.\<close>

definition comparisons_reflexive :: "('w, 'z) cluster_env_scheme \<Rightarrow> bool" where
  "comparisons_reflexive E \<longleftrightarrow>
     (\<forall>x. v_SameMap E x x) \<and> (\<forall>x. v_SameSelectorConfig E x x) \<and> (\<forall>x. v_SameRegistry E x x) \<and> (\<forall>x. v_SameStrategy E x x) \<and>
     (\<forall>x. v_SameAgent E x x)"

text \<open>The fields that a restore takes from the snapshot, and those of the pools and operations, which it leaves.\<close>

definition same_rke :: "('w, 'z) cluster_env_scheme \<Rightarrow> RKEConfig \<Rightarrow> RKEConfig \<Rightarrow> bool" where
  "same_rke E a b \<longleftrightarrow>
     v_SameMap E (rk_MachineGlobalConfig a) (rk_MachineGlobalConfig b) \<and> v_SameSelectorConfig E (rk_MachineSelectorConfig a) (rk_MachineSelectorConfig b) \<and>
     v_SameMap E (rk_ChartValues a) (rk_ChartValues b) \<and> v_SameRegistry E (rk_Registries a) (rk_Registries b) \<and>
     v_SameStrategy E (rk_UpgradeStrategy a) (rk_UpgradeStrategy b) \<and> rk_AdditionalManifest a = rk_AdditionalManifest b \<and>
     rk_Networking a = rk_Networking b"

definition same_top :: "('w, 'z) cluster_env_scheme \<Rightarrow> ClusterSpec \<Rightarrow> ClusterSpec \<Rightarrow> bool" where
  "same_top E a b \<longleftrightarrow>
     cs_KubernetesVersion a = cs_KubernetesVersion b \<and>
     cs_DefaultPodSecurityPolicyTemplateName a = cs_DefaultPodSecurityPolicyTemplateName b \<and>
     cs_DefaultPodSecurityAdmissionConfigurationTemplateName a = cs_DefaultPodSecurityAdmissionConfigurationTemplateName b \<and>
     v_SameAgent E (cs_ClusterAgentDeploymentCustomization a) (cs_ClusterAgentDeploymentCustomization b) \<and>
     v_SameAgent E (cs_FleetAgentDeploymentCustomization a) (cs_FleetAgentDeploymentCustomization b)"

definition kept_rke :: "RKEConfig \<Rightarrow> RKEConfig \<Rightarrow> bool" where
  "kept_rke a b \<longleftrightarrow>
     rk_MachinePools a = rk_MachinePools b \<and> rk_ETCD a = rk_ETCD b \<and> rk_MachineSelectorFiles a = rk_MachineSelectorFiles b \<and>
     rk_ProvisionGeneration a = rk_ProvisionGeneration b \<and> rk_ETCDSnapshotRestore a = rk_ETCDSnapshotRestore b \<and>
     rk_ETCDSnapshotCreate a = rk_ETCDSnapshotCreate b \<and> rk_RotateCertificates a = rk_RotateCertificates b \<and>
     rk_RotateEncryptionKeys a = rk_RotateEncryptionKeys b \<and> rk_InfrastructureRef a = rk_InfrastructureRef b \<and>
     rk_DefaultHostnameLengthLimit a = rk_DefaultHostnameLengthLimit b"

definition kept_top :: "ClusterSpec \<Rightarrow> ClusterSpec \<Rightarrow> bool" where
  "kept_top a b \<longleftrightarrow>
     cs_CloudCredentialSecretName a = cs_CloudCredentialSecretName b \<and>
     cs_LocalClusterAuthEndpointEnabled a = cs_LocalClusterAuthEndpointEnabled b \<and> cs_AgentEnvVars a = cs_AgentEnvVars b"

lemma restore_field_fst:
  "fst (restore_field same get upd desired cur) = (if same (get (fst cur)) (get desired) then fst cur else upd (\<lambda>_. get desired) (fst cur))"
  by (simp add: restore_field_def)

lemma restore_field_snd: "snd (restore_field same get upd desired cur) \<longleftrightarrow> snd cur \<or> \<not> same (get (fst cur)) (get desired)"
  by (simp add: restore_field_def)

lemma restore_rke_result:
  assumes "comparisons_reflexive E"
  shows "same_rke E (fst (restore_rke E rd r)) rd" "kept_rke (fst (restore_rke E rd r)) r"
  using assms
  by (simp_all add: restore_rke_def restore_field_fst same_rke_def kept_rke_def comparisons_reflexive_def same_pointer_def)

lemma restore_rke_unchanged:
  "\<not> snd (restore_rke E rd r) \<Longrightarrow> fst (restore_rke E rd r) = r \<and> same_rke E r rd \<and> rk_Networking r = None \<and> rk_Networking rd = None"
  by (simp add: restore_rke_def restore_field_snd restore_field_fst same_rke_def same_pointer_def)

lemma restore_top_result:
  "comparisons_reflexive E \<Longrightarrow> same_top E (fst (restore_top E d cur)) d"
  "cs_RKEConfig (fst (restore_top E d cur)) = cs_RKEConfig (fst cur)"
  "kept_top (fst (restore_top E d cur)) (fst cur)"
  by (simp_all add: kept_top_def restore_top_def restore_field_fst same_top_def comparisons_reflexive_def)

lemma restore_top_unchanged: "\<not> snd (restore_top E d cur) \<Longrightarrow> restore_top E d cur = cur \<and> \<not> snd cur \<and> same_top E (fst cur) d"
  by (auto simp: restore_top_def restore_field_def same_top_def split: if_splits)

lemma reconcile_unchanged:
  assumes "reconcileClusterSpecEtcdRestore E spec d = Inr (spec', False)" "cs_RKEConfig spec = Some r"
  shows "\<exists>rd. cs_RKEConfig d = Some rd \<and> same_rke E r rd \<and> same_top E spec d \<and> rk_Networking r = None"
proof -
  obtain rd where rd: "cs_RKEConfig d = Some rd"
    using assms by (auto simp: reconcileClusterSpecEtcdRestore_def split: option.splits)
  let ?q = "restore_rke E rd r"
  have top: "restore_top E d (spec\<lparr>cs_RKEConfig := Some (fst ?q)\<rparr>, snd ?q) = (spec', False)"
    using assms rd by (simp add: reconcileClusterSpecEtcdRestore_def split: prod.splits)
  from restore_top_unchanged [of E d "(spec\<lparr>cs_RKEConfig := Some (fst ?q)\<rparr>, snd ?q)"] top
  have "\<not> snd ?q" "same_top E (spec\<lparr>cs_RKEConfig := Some (fst ?q)\<rparr>) d" by auto
  with restore_rke_unchanged [of E rd r] rd show ?thesis by (simp add: same_top_def)
qed

lemma restore_config_passes:
  assumes "restore_config E obj rke cp w = (None, w')" "cs_RKEConfig (cl_Spec obj) = Some rke"
    and r: "rk_ETCDSnapshotRestore rke = Some r" "sr_Name r \<noteq> ''''" "\<not> v_SameRestore E (st_ETCDSnapshotRestore (cp_Status cp)) (Some r)"
  shows "sr_RestoreRKEConfig r = restoreRKEConfigKubernetesVersion \<Longrightarrow>
      \<exists>spec. findSnapshotClusterSpec E (cl_Namespace obj) (sr_Name r) w = Inr spec \<and>
        cs_KubernetesVersion (cl_Spec obj) = cs_KubernetesVersion spec"
    "sr_RestoreRKEConfig r = restoreRKEConfigAll \<Longrightarrow>
      \<exists>spec rd. findSnapshotClusterSpec E (cl_Namespace obj) (sr_Name r) w = Inr spec \<and> cs_RKEConfig spec = Some rd \<and>
        same_rke E rke rd \<and> same_top E (cl_Spec obj) spec"
proof -
  have modes: "restoreRKEConfigKubernetesVersion \<noteq> ''''" "restoreRKEConfigAll \<noteq> ''''" "restoreRKEConfigKubernetesVersion \<noteq> restoreRKEConfigNone"
    "restoreRKEConfigAll \<noteq> restoreRKEConfigNone" "restoreRKEConfigAll \<noteq> restoreRKEConfigKubernetesVersion"
    by (simp_all add: restoreRKEConfigKubernetesVersion_def restoreRKEConfigAll_def restoreRKEConfigNone_def)
  have skip: "update_and_skip E c w \<noteq> (None, w')" for c by (auto simp: update_and_skip_def split: prod.splits sum.splits)
  note unfold = restore_config_def wants_config_def modes
  {
    assume m: "sr_RestoreRKEConfig r = restoreRKEConfigKubernetesVersion"
    then show "\<exists>spec. findSnapshotClusterSpec E (cl_Namespace obj) (sr_Name r) w = Inr spec \<and>
        cs_KubernetesVersion (cl_Spec obj) = cs_KubernetesVersion spec"
      using assms(1) r skip by (auto simp: unfold split: sum.splits if_splits)
  next
    assume m: "sr_RestoreRKEConfig r = restoreRKEConfigAll"
    then obtain spec spec' where "findSnapshotClusterSpec E (cl_Namespace obj) (sr_Name r) w = Inr spec"
        "reconcileClusterSpecEtcdRestore E (cl_Spec obj) spec = Inr (spec', False)"
      using assms(1) r skip by (auto simp: unfold split: sum.splits if_splits prod.splits)
    with reconcile_unchanged assms(2)
    show "\<exists>spec rd. findSnapshotClusterSpec E (cl_Namespace obj) (sr_Name r) w = Inr spec \<and> cs_RKEConfig spec = Some rd \<and>
        same_rke E rke rd \<and> same_top E (cl_Spec obj) spec" by blast
  }
qed

lemma objects_control_plane:
  assumes "cluster_objects E obj rke w = (Inr objs, w')" "OControlPlane g \<in> set objs"
  shows "gc_Spec g = control_plane_spec obj rke"
proof -
  have loop: "OControlPlane g \<notin> set os" if "pool_loop E obj rke seen pools v = (Inr os, v')" for seen pools v os v'
    using that
    by (induction pools arbitrary: seen v os)
      (auto simp: bindE_eq_Inr_iff pool_infrastructure_def health_checks_def Let_def split: if_splits option.splits)
  then have "OControlPlane g \<notin> set ds" if "machineDeployments E obj rke v = (Inr ds, v')" for v ds v'
    using that by (auto simp: machineDeployments_def bindE_eq_Inr_iff split: if_splits)
  with assms show ?thesis
    by (auto simp: cluster_objects_def bindE_eq_Inr_iff rkeControlPlane_def sbind_eq_Inr_iff split: if_splits option.splits)
qed

text \<open>
  C28. The planner is asked for a restore only when the configuration is in place: when the handler
  generates a control plane that requests the restore of a snapshot, with the version or the
  whole configuration of the cluster to be restored along, and the existing control plane has
  not recorded this restore yet, then the specification in the snapshot could be read and the
  generated control plane agrees with it - in the version, or in every field a restore
  covers.
\<close>

theorem restore_waits_for_config:
  assumes "OnRancherClusterChange E obj status w = ((objs, status', None), w')" "OControlPlane g \<in> set objs"
    and "getRKEControlPlaneForCluster E obj w = Inr (Some cp)" "sp_ETCDSnapshotRestore (gc_Spec g) = Some r" "sr_Name r \<noteq> ''''"
    and "\<not> v_SameRestore E (st_ETCDSnapshotRestore (cp_Status cp)) (Some r)"
  shows "(sr_RestoreRKEConfig r = restoreRKEConfigKubernetesVersion \<longrightarrow>
      (\<exists>spec. findSnapshotClusterSpec E (cl_Namespace obj) (sr_Name r) w = Inr spec \<and>
         sp_KubernetesVersion (gc_Spec g) = cs_KubernetesVersion spec)) \<and>
    (sr_RestoreRKEConfig r = restoreRKEConfigAll \<longrightarrow>
      (\<exists>spec rd. findSnapshotClusterSpec E (cl_Namespace obj) (sr_Name r) w = Inr spec \<and> cs_RKEConfig spec = Some rd \<and>
         sp_KubernetesVersion (gc_Spec g) = cs_KubernetesVersion spec \<and>
         v_SameMap E (sp_MachineGlobalConfig (gc_Spec g)) (rk_MachineGlobalConfig rd) \<and>
         v_SameSelectorConfig E (sp_MachineSelectorConfig (gc_Spec g)) (rk_MachineSelectorConfig rd) \<and>
         v_SameMap E (sp_ChartValues (gc_Spec g)) (rk_ChartValues rd) \<and> v_SameRegistry E (sp_Registries (gc_Spec g)) (rk_Registries rd) \<and>
         v_SameStrategy E (sp_UpgradeStrategy (gc_Spec g)) (rk_UpgradeStrategy rd) \<and>
         sp_AdditionalManifest (gc_Spec g) = rk_AdditionalManifest rd \<and> sp_StackPreference (gc_Spec g) = rk_Networking rd))"
proof -
  have "objs \<noteq> []" using assms(2) by auto
  then obtain rke status1 w1 w2 where rke: "cs_RKEConfig (cl_Spec obj) = Some rke" and passes: "restore_config E obj rke cp w = (None, w1)"
      and gen: "generate E obj rke status1 w2 = ((objs, status', None), w')"
    using assms(1,3) by (auto simp: OnRancherClusterChange_def split: option.splits if_splits prod.splits)
  from gen have "cluster_objects E obj rke w2 = (Inr objs, w')" by (auto simp: generate_def split: prod.splits sum.splits)
  from objects_control_plane [OF this assms(2)] have g: "gc_Spec g = control_plane_spec obj rke" .
  then have r: "rk_ETCDSnapshotRestore rke = Some r" using assms(4) by (simp add: control_plane_spec_def)
  from restore_config_passes [OF passes rke r assms(5,6)] show ?thesis
    by (auto simp: g control_plane_spec_def same_rke_def same_top_def)
qed

text \<open>
  A cluster that has its networking set never gets that far: two pointers that share no memory
  are compared, the configuration counts as changed on every run, and the handler ends with an
  update of the cluster and the wait for it, whatever the cluster already agrees with.
\<close>

lemma networking_blocks_restore:
  assumes "cs_RKEConfig (cl_Spec obj) = Some rke" "rk_Networking rke \<noteq> None" "getRKEControlPlaneForCluster E obj w = Inr (Some cp)"
    and "rk_ETCDSnapshotRestore rke = Some r" "sr_Name r \<noteq> ''''" "sr_RestoreRKEConfig r = restoreRKEConfigAll"
    and "\<not> v_SameRestore E (st_ETCDSnapshotRestore (cp_Status cp)) (Some r)"
    and "ct_ClusterName (cl_Status obj) \<noteq> ''''" "cl_DeletionTimestamp obj = None"
  shows "\<exists>e w'. OnRancherClusterChange E obj status w = (([], status, Some e), w')"
proof -
  have "\<nexists>w'. restore_config E obj rke cp w = (None, w')"
  proof
    assume "\<exists>w'. restore_config E obj rke cp w = (None, w')"
    then obtain w' where pass: "restore_config E obj rke cp w = (None, w')" ..
    have skip: "update_and_skip E c w \<noteq> (None, w')" for c by (auto simp: update_and_skip_def split: prod.splits sum.splits)
    obtain spec spec' where "reconcileClusterSpecEtcdRestore E (cl_Spec obj) spec = Inr (spec', False)"
      using pass assms(4-7) skip
      by (auto simp: restore_config_def wants_config_def restoreRKEConfigAll_def restoreRKEConfigNone_def
          restoreRKEConfigKubernetesVersion_def split: sum.splits if_splits prod.splits)
    from reconcile_unchanged [OF this assms(1)] assms(2) show False by blast
  qed
  then obtain e w' where "restore_config E obj rke cp w = (Some e, w')"
    by (cases "restore_config E obj rke cp w") (metis option.exhaust)
  with assms(1,3,8,9) show ?thesis by (auto simp: OnRancherClusterChange_def)
qed

section \<open>From a snapshot back to the cluster\<close>

text \<open>What the codecs promise: a cluster specification and a compressed text are read as they were written.\<close>

definition spec_codecs :: "('w, 'z) cluster_env_scheme \<Rightarrow> bool" where
  "spec_codecs E \<longleftrightarrow>
     (\<forall>x y. lib_gzip E x = Inr y \<longrightarrow> y \<noteq> [] \<and> lib_gunzip E y = Inr x) \<and>
     (\<forall>s x. v_MarshalClusterSpec E s = Inr x \<longrightarrow> v_UnmarshalClusterSpec E x = Inr s)"

text \<open>A snapshot whose metadata carry the specification that a control plane is annotated with.\<close>

definition taken_with :: "('w, 'z) cluster_env_scheme \<Rightarrow> ETCDSnapshot \<Rightarrow> control_plane_object \<Rightarrow> bool" where
  "taken_with E sn g \<longleftrightarrow>
     es_FileMetadata sn \<noteq> '''' \<and>
     (\<exists>b md. b64_decode (es_FileMetadata sn) = Inr b \<and> q_UnmarshalSnapshotMap E b = Inr md \<and>
        md ''provisioning-cluster-spec'' = gc_Annotations g ClusterSpecAnnotation)"

lemma snapshot_spec_found:
  assumes "spec_codecs E" "rkeControlPlane E cluster rke = Inr g" "q_SnapshotCacheGet E ns name w = Inr sn" "taken_with E sn g"
  shows "findSnapshotClusterSpec E ns name w = Inr (filtered_spec (cl_Spec cluster))"
proof -
  obtain z where z: "CompressInterface E (v_MarshalClusterSpec E) (filtered_spec (cl_Spec cluster)) = Inr z"
      "gc_Annotations g ClusterSpecAnnotation = Some z"
    using assms(2) by (auto simp: rkeControlPlane_def sbind_eq_Inr_iff)
  have "DecompressInterface E (v_UnmarshalClusterSpec E) z = Inr (filtered_spec (cl_Spec cluster))"
    using assms(1) by (intro Decompress_Compress [OF _ _ z(1)]) (auto simp: spec_codecs_def)
  with assms(3,4) z(2) show ?thesis
    by (auto simp: findSnapshotClusterSpec_def ParseSnapshotClusterSpecOrError_def DecompressClusterSpec_def taken_with_def Let_def)
qed

text \<open>
  C29. A snapshot gives the configuration back: whatever the specification of a cluster has become
  since a snapshot was taken that carries the annotation of its control plane, the
  specification in the snapshot can be read, and restoring it succeeds and brings every field
  that a restore covers back to the value it had; machine pools, etcd settings, the requests
  for operations, the cloud credential, the authorised endpoint and the agent's environment stay
  as they are now.
\<close>

theorem snapshot_restores_config:
  assumes "spec_codecs E" "comparisons_reflexive E" "rkeControlPlane E cluster rke = Inr g" "cs_RKEConfig (cl_Spec cluster) = Some rke"
    and "q_SnapshotCacheGet E ns name w = Inr sn" "taken_with E sn g" "cs_RKEConfig now = Some r"
  shows "\<exists>spec restored changed r'.
     findSnapshotClusterSpec E ns name w = Inr spec \<and> reconcileClusterSpecEtcdRestore E now spec = Inr (restored, changed) \<and>
     same_top E restored (cl_Spec cluster) \<and> kept_top restored now \<and>
     cs_RKEConfig restored = Some r' \<and> same_rke E r' rke \<and> kept_rke r' r"
proof -
  let ?d = "filtered_spec (cl_Spec cluster)"
  let ?rd = "rke\<lparr>rk_ETCDSnapshotRestore := None, rk_ETCDSnapshotCreate := None, rk_RotateEncryptionKeys := None, rk_RotateCertificates := None\<rparr>"
  let ?q = "restore_rke E ?rd r"
  let ?t = "restore_top E ?d (now\<lparr>cs_RKEConfig := Some (fst ?q)\<rparr>, snd ?q)"
  have d: "cs_RKEConfig ?d = Some ?rd" using assms(4) by (simp add: filtered_spec_def)
  have run: "reconcileClusterSpecEtcdRestore E now ?d = Inr (fst ?t, snd ?t)"
    using assms(7) d by (simp add: reconcileClusterSpecEtcdRestore_def split: prod.splits)
  have "same_top E (fst ?t) (cl_Spec cluster)"
    using restore_top_result(1) [OF assms(2), of ?d "(now\<lparr>cs_RKEConfig := Some (fst ?q)\<rparr>, snd ?q)"] by (simp add: same_top_def filtered_spec_def)
  moreover have "same_rke E (fst ?q) rke" "kept_rke (fst ?q) r"
    using restore_rke_result [OF assms(2), of ?rd r] by (simp_all add: same_rke_def)
  moreover have "cs_RKEConfig (fst ?t) = Some (fst ?q)" by (simp add: restore_top_result(2))
  moreover have "kept_top (fst ?t) now" using restore_top_result(3) [of E ?d "(now\<lparr>cs_RKEConfig := Some (fst ?q)\<rparr>, snd ?q)"]
    by (simp add: kept_top_def)
  ultimately show ?thesis using snapshot_spec_found [OF assms(1,3,5,6)] run by blast
qed

section \<open>Machine pools\<close>

definition live_pools :: "RKEConfig \<Rightarrow> RKEMachinePool list" where
  "live_pools rke = filter (\<lambda>p. mp_Quantity p \<noteq> Some 0) (rk_MachinePools rke)"

fun deployments :: "cluster_object list \<Rightarrow> machine_deployment list" where
  "deployments [] = []"
| "deployments (OMachineDeployment d # os) = d # deployments os"
| "deployments (_ # os) = deployments os"

lemma deployments_append [simp]: "deployments (xs @ ys) = deployments xs @ deployments ys"
  by (induction xs rule: deployments.induct) auto

lemma deployments_health [simp]: "deployments (health_checks d p) = []"
  by (simp add: health_checks_def split: option.splits)

lemma deployment_of_simps [simp]:
  "md_Name (deployment_of E c p ref a) = lib_SafeConcatName E [cl_Name c, mp_Name p]" "md_ClusterName (deployment_of E c p ref a) = cl_Name c"
  "md_Replicas (deployment_of E c p ref a) = mp_Quantity p" "md_TemplateAnnotations (deployment_of E c p ref a) = a"
  "md_InfrastructureRef (deployment_of E c p ref a) = ref"
  by (simp_all add: deployment_of_def Let_def)

text \<open>A role label of the template, unless the labels of the pool say otherwise.\<close>

definition role_of :: "RKEMachinePool \<Rightarrow> machine_deployment \<Rightarrow> string \<Rightarrow> bool \<Rightarrow> bool" where
  "role_of p d l role \<longleftrightarrow>
     md_TemplateLabels d l = (case map_of (cn_Labels (mp_Common p)) l of Some v \<Rightarrow> Some v | None \<Rightarrow> if role then Some ''true'' else None)"

definition deploys :: "('w, 'z) cluster_env_scheme \<Rightarrow> rancher_cluster \<Rightarrow> cluster_object list \<Rightarrow> RKEMachinePool \<Rightarrow> machine_deployment \<Rightarrow> bool" where
  "deploys E cluster objs p d \<longleftrightarrow>
     md_Name d = lib_SafeConcatName E [cl_Name cluster, mp_Name p] \<and> md_ClusterName d = cl_Name cluster \<and> md_Replicas d = mp_Quantity p \<and>
     role_of p d EtcdRoleLabel (mp_EtcdRole p) \<and> role_of p d ControlPlaneRoleLabel (mp_ControlPlaneRole p) \<and>
     role_of p d WorkerRoleLabel (mp_WorkerRole p) \<and>
     (cn_Labels (mp_Common p) \<noteq> [] \<longrightarrow> map_option Inr (md_TemplateAnnotations d LabelsAnnotation) = Some (v_MarshalLabels E (cn_Labels (mp_Common p)))) \<and>
     (cn_Taints (mp_Common p) \<noteq> [] \<longrightarrow> map_option Inr (md_TemplateAnnotations d TaintsAnnotation) = Some (v_MarshalTaints E (cn_Taints (mp_Common p)))) \<and>
     (\<exists>nc. mp_NodeConfig p = Some nc \<and>
        (if foreign_config nc then md_InfrastructureRef d = nc
         else \<exists>t. OMachineTemplate t \<in> set objs \<and> mt_Name t = or_Name (md_InfrastructureRef d) \<and> mt_Kind t = or_Kind (md_InfrastructureRef d) \<and>
                  mt_Namespace t = or_Namespace (md_InfrastructureRef d)))"

lemma deploys_mono: "deploys E c objs p d \<Longrightarrow> set objs \<subseteq> set objs' \<Longrightarrow> deploys E c objs' p d"
  unfolding deploys_def by (auto split: if_splits)

lemma role_labels_of:
  "role_of p (deployment_of E c p ref a) EtcdRoleLabel (mp_EtcdRole p)"
  "role_of p (deployment_of E c p ref a) ControlPlaneRoleLabel (mp_ControlPlaneRole p)"
  "role_of p (deployment_of E c p ref a) WorkerRoleLabel (mp_WorkerRole p)"
  by (auto simp: role_of_def deployment_of_def template_labels_def role_labels_def Let_def map_add_def EtcdRoleLabel_def
      ControlPlaneRoleLabel_def WorkerRoleLabel_def CAPIClusterNameLabel_def ClusterNameLabel_def MachineDeploymentNameLabel_def
      RKEMachinePoolNameLabel_def CattleOSLabel_def ControlPlaneMachineLabel_def split: option.splits)

lemma template_annotations_of:
  assumes "template_annotations E rke p = Inr a"
  shows "cn_Labels (mp_Common p) \<noteq> [] \<Longrightarrow> map_option Inr (a LabelsAnnotation) = Some (v_MarshalLabels E (cn_Labels (mp_Common p)))"
    "cn_Taints (mp_Common p) \<noteq> [] \<Longrightarrow> map_option Inr (a TaintsAnnotation) = Some (v_MarshalTaints E (cn_Taints (mp_Common p)))"
proof -
  have ne: "LabelsAnnotation \<noteq> TaintsAnnotation" by (simp add: LabelsAnnotation_def TaintsAnnotation_def)
  show "cn_Labels (mp_Common p) \<noteq> [] \<Longrightarrow> map_option Inr (a LabelsAnnotation) = Some (v_MarshalLabels E (cn_Labels (mp_Common p)))"
    "cn_Taints (mp_Common p) \<noteq> [] \<Longrightarrow> map_option Inr (a TaintsAnnotation) = Some (v_MarshalTaints E (cn_Taints (mp_Common p)))"
    using assms ne by (auto simp: template_annotations_def assign_def sbind_eq_Inr_iff split: if_splits)
qed

lemma check_pool_ok:
  "check_pool seen p = Inr nc \<Longrightarrow> mp_NodeConfig p = Some nc \<and> mp_Name p \<notin> seen \<and> mp_Name p \<noteq> '''' \<and>
     (mp_EtcdRole p \<or> mp_ControlPlaneRole p \<or> mp_WorkerRole p)"
  by (auto simp: check_pool_def split: option.splits if_splits)

lemma pool_deployed:
  assumes "check_pool seen p = Inr nc" "pool_infrastructure E c p nc w = (Inr (ts, ref), w')" "template_annotations E rke p = Inr a"
  shows "deploys E c ts p (deployment_of E c p ref a)" "deployments ts = []"
proof -
  have "if foreign_config nc then ref = nc else \<exists>t. OMachineTemplate t \<in> set ts \<and> mt_Name t = or_Name ref \<and> mt_Kind t = or_Kind ref \<and>
      mt_Namespace t = or_Namespace ref"
    using assms(2)
    by (auto simp: pool_infrastructure_def foreign_config_def DefaultMachineConfigAPIVersion_def bindE_eq_Inr_iff split: if_splits)
  with check_pool_ok [OF assms(1)] template_annotations_of [OF assms(3)]
  show "deploys E c ts p (deployment_of E c p ref a)" unfolding deploys_def by (simp add: role_labels_of)
  show "deployments ts = []" using assms(2) by (auto simp: pool_infrastructure_def bindE_eq_Inr_iff split: if_splits)
qed

lemma pool_loop_deploys:
  assumes "pool_loop E c rke seen pools w = (Inr objs, w')"
  shows "let live = filter (\<lambda>p. mp_Quantity p \<noteq> Some 0) pools in
     distinct (map mp_Name live) \<and> set (map mp_Name live) \<inter> seen = {} \<and>
     list_all (\<lambda>p. mp_Name p \<noteq> '''' \<and> (mp_EtcdRole p \<or> mp_ControlPlaneRole p \<or> mp_WorkerRole p)) live \<and>
     list_all2 (deploys E c objs) live (deployments objs)"
  using assms
proof (induction pools arbitrary: seen w objs)
  case (Cons p pools)
  show ?case
  proof (cases "mp_Quantity p = Some 0")
    case True
    with Cons show ?thesis by simp
  next
    case False
    with Cons.prems obtain nc ts ref a rest w1 where step: "check_pool seen p = Inr nc" "pool_infrastructure E c p nc w = (Inr (ts, ref), w1)"
        "template_annotations E rke p = Inr a" "pool_loop E c rke (insert (mp_Name p) seen) pools w1 = (Inr rest, w')"
        "objs = ts @ [OMachineDeployment (deployment_of E c p ref a)] @ health_checks (deployment_of E c p ref a) p @ rest"
      by (auto simp: bindE_eq_Inr_iff Let_def)
    note ih = Cons.IH [OF step(4)]
    have "list_all2 (deploys E c objs) (filter (\<lambda>p. mp_Quantity p \<noteq> Some 0) pools) (deployments rest)"
      using ih step(5) by (auto simp: Let_def elim!: list_all2_mono deploys_mono)
    moreover have "deploys E c objs p (deployment_of E c p ref a)"
      using pool_deployed(1) [OF step(1-3)] step(5) by (auto elim!: deploys_mono)
    ultimately show ?thesis
      using False ih check_pool_ok [OF step(1)] pool_deployed(2) [OF step(1-3)] step(5) by (simp add: Let_def)
  qed
qed simp

text \<open>
  C30. Machine pools become machine deployments: when the objects of a cluster are generated, the
  pools that are not scaled to zero have names of their own and at least one role each, and there is
  exactly one machine deployment for each of them, in their order. It has the pool's replicas; its
  machines get the labels of exactly the pool's roles, unless labels of the pool override
  them, and the pool's labels and taints as the annotations that the planner reads; and it refers
  to a machine template that is generated with it, or to the given one.
\<close>

theorem pools_become_deployments:
  assumes "cluster_objects E cluster rke w = (Inr objs, w')" "cl_DeletionTimestamp cluster = None" "v_MCM E"
  shows "distinct (map mp_Name (live_pools rke)) \<and>
    list_all (\<lambda>p. mp_EtcdRole p \<or> mp_ControlPlaneRole p \<or> mp_WorkerRole p) (live_pools rke) \<and>
    list_all2 (deploys E cluster objs) (live_pools rke) (deployments objs)"
proof -
  obtain ds where run: "machineDeployments E cluster rke w = (Inr ds, w')" and objs: "deployments objs = deployments ds" "\<forall>x\<in>set ds. x \<in> set objs"
    using assms(1,2) by (auto simp: cluster_objects_def bindE_eq_Inr_iff split: option.splits)
  from run assms(3) obtain os v where loop: "pool_loop E cluster rke {} (rk_MachinePools rke) w = (Inr os, v)"
      and ds: "deployments ds = deployments os" "\<forall>x\<in>set os. x \<in> set ds"
    by (auto simp: machineDeployments_def bindE_eq_Inr_iff split: if_splits)
  note found = pool_loop_deploys [OF loop, folded live_pools_def, unfolded Let_def]
  then have "list_all2 (deploys E cluster objs) (live_pools rke) (deployments os)"
    using objs(2) ds(2) by (auto elim!: list_all2_mono deploys_mono)
  with found objs(1) ds(1) show ?thesis by (auto simp: list_all_iff)
qed

section \<open>Schemas\<close>

text \<open>What is written as a schema can be read, and is not empty.\<close>

definition schema_codec :: "('w, 'z) cluster_env_scheme \<Rightarrow> bool" where
  "schema_codec E \<longleftrightarrow> (\<forall>ds s. v_MarshalSchema E ds = Inr s \<longrightarrow> s \<noteq> '''' \<and> (\<exists>spec. v_UnmarshalSchema E s = Inr spec))"

lemma fill_schema_filled:
  assumes "schema_codec E" "fill_schema E w p = Inr p'"
  shows "\<not> lacks_schema E p'"
  using assms
  by (auto simp: fill_schema_def lacks_schema_def has_schema_def schema_codec_def sbind_eq_Inr_iff split: if_splits option.splits sum.splits)
    (metis sum.distinct(1))+

lemma fill_schemas_filled:
  assumes "schema_codec E" "fill_schemas E w ps = Inr ps'"
  shows "\<forall>p\<in>set ps'. \<not> lacks_schema E p"
  using assms(2) fill_schema_filled [OF assms(1)] by (induction ps arbitrary: ps') (auto simp: sbind_eq_Inr_iff)

text \<open>
  C31. Schemas are filled in once: what the handler asks to be stored for a cluster is a cluster
  that the handler leaves alone from then on, in every later world. So it does not update a
  cluster over and over.
\<close>

theorem schemas_filled_once:
  assumes "schema_codec E" "cluster_OnChange E (Some c) w = (r, w')" "w' \<noteq> w"
  shows "\<exists>c'. w' = snd (v_ClusterUpdate E c' w) \<and> (\<forall>v. cluster_OnChange E (Some c') v = (Inr (Some c'), v))"
proof -
  obtain rke filled where rke: "cs_RKEConfig (cl_Spec c) = Some rke" "cl_DeletionTimestamp c = None"
    and fill: "fill_schemas E w (dropWhile (\<lambda>p. \<not> lacks_schema E p) (rk_MachinePools rke)) = Inr filled"
    and run: "w' = snd (v_ClusterUpdate E (c\<lparr>cl_Spec := (cl_Spec c)\<lparr>cs_RKEConfig :=
        Some (rke\<lparr>rk_MachinePools := takeWhile (\<lambda>p. \<not> lacks_schema E p) (rk_MachinePools rke) @ filled\<rparr>)\<rparr>\<rparr>) w)"
    using assms(2,3)
    by (auto simp: cluster_OnChange_def Let_def bindE_def split: option.splits if_splits sum.splits prod.splits)
  let ?pools = "takeWhile (\<lambda>p. \<not> lacks_schema E p) (rk_MachinePools rke) @ filled"
  have "\<forall>p\<in>set ?pools. \<not> lacks_schema E p" using fill_schemas_filled [OF assms(1) fill] by (auto dest: set_takeWhileD)
  then have "dropWhile (\<lambda>p. \<not> lacks_schema E p) ?pools = []" by (simp only: dropWhile_eq_Nil_conv)
  with rke run show ?thesis by (auto simp: cluster_OnChange_def Let_def)
qed

section \<open>A concrete cluster\<close>

text \<open>A text codec for specifications of the shape used here: the version is written, the rest is fixed.\<close>

definition town_rke :: RKEConfig where
  "town_rke = \<lparr>rk_UpgradeStrategy = sp_UpgradeStrategy (cp_Spec demo_cp), rk_ChartValues = [], rk_MachineGlobalConfig = [], rk_MachineSelectorConfig = [],
     rk_MachineSelectorFiles = [], rk_AdditionalManifest = '''', rk_Registries = None, rk_ETCD = None, rk_Networking = None,
     rk_ProvisionGeneration = 0, rk_ETCDSnapshotCreate = None, rk_ETCDSnapshotRestore = None, rk_RotateCertificates = None,
     rk_RotateEncryptionKeys = None, rk_MachinePools = [], rk_DefaultHostnameLengthLimit = 0, rk_InfrastructureRef = None\<rparr>"

definition town_spec :: "string \<Rightarrow> RKEConfig \<Rightarrow> ClusterSpec" where
  "town_spec v rke = \<lparr>cs_CloudCredentialSecretName = '''', cs_KubernetesVersion = v, cs_RKEConfig = Some rke,
     cs_LocalClusterAuthEndpointEnabled = False, cs_AgentEnvVars = [], cs_ClusterAgentDeploymentCustomization = None,
     cs_DefaultPodSecurityAdmissionConfigurationTemplateName = '''', cs_DefaultPodSecurityPolicyTemplateName = '''',
     cs_FleetAgentDeploymentCustomization = None\<rparr>"

definition town :: "RKEConfig \<Rightarrow> rancher_cluster" where
  "town rke = \<lparr>cl_Namespace = ''fleet-default'', cl_Name = ''town'', cl_UID = ''u'', cl_Labels = Map.empty, cl_Finalizers = [''f''],
     cl_DeletionTimestamp = None, cl_Spec = town_spec ''v1.27.6+rke2r1'' rke, cl_Status = \<lparr>ct_ClusterName = ''c-m-1'', ct_Conditions = []\<rparr>\<rparr>"

definition town_pool :: RKEMachinePool where
  "town_pool = \<lparr>mp_Common = \<lparr>cn_Labels = [], cn_Taints = [], cn_CloudCredentialSecretName = ''''\<rparr>, mp_Paused = False, mp_EtcdRole = True,
     mp_ControlPlaneRole = False, mp_WorkerRole = False, mp_DrainBeforeDelete = False, mp_DrainBeforeDeleteTimeout = None,
     mp_NodeConfig = Some \<lparr>or_APIVersion = '''', or_Kind = ''DigitaloceanConfig'', or_Namespace = '''', or_Name = ''nc''\<rparr>, mp_Name = ''pool1'',
     mp_Quantity = Some 3, mp_RollingUpdate = None, mp_MachineDeploymentLabels = [], mp_MachineDeploymentAnnotations = [],
     mp_NodeStartupTimeout = None, mp_UnhealthyNodeTimeout = None, mp_MaxUnhealthy = None, mp_UnhealthyRange = None, mp_MachineOS = '''',
     mp_DynamicSchemaSpec = ''image'', mp_HostnameLengthLimit = 0\<rparr>"

definition town_restore :: ETCDSnapshotRestore where
  "town_restore = \<lparr>sr_Name = ''snap'', sr_Generation = 1, sr_RestoreRKEConfig = ''all''\<rparr>"

definition town_snapshot :: ETCDSnapshot where
  "town_snapshot = \<lparr>es_Namespace = ''fleet-default'', es_Name = ''snap'', es_Labels = Map.empty, es_FileName = ''snap'',
     es_FileMetadata = b64_encode ''md'', es_S3 = None\<rparr>"

definition town_text :: "ClusterSpec \<Rightarrow> go_error + string" where
  "town_text s = (if s = town_spec ''v1.27.6+rke2r1'' town_rke then Inr ''spec'' else Inl (ErrOther ''unsupported''))"

definition town_capi :: capi_cluster where
  "town_capi = demo_cluster\<lparr>cc_ControlPlaneRef := Some \<lparr>or_APIVersion = ''rke.cattle.io/v1'', or_Kind = ''RKEControlPlane'',
     or_Namespace = ''fleet-default'', or_Name = ''town''\<rparr>\<rparr>"

text \<open>The world counts the updates of the cluster.\<close>

definition town_env :: "nat cluster_env" where
  "town_env = planner_env.extend (idle_planner\<lparr>q_SnapshotCacheGet := (\<lambda>_ _ _. Inr town_snapshot),
      q_UnmarshalSnapshotMap := (\<lambda>_. Inr [''provisioning-cluster-spec'' \<mapsto> b64_encode ''zspec''])\<rparr>)
     \<lparr>v_ConfigGet = (\<lambda>_ ns n _. Inr \<lparr>mc_Namespace = ns, mc_Name = n, mc_GVKText = '''', mc_OwnerReferences = [], mc_Data = [(''image'', JStr ''ubuntu'')]\<rparr>),
      v_ConfigUpdate = (\<lambda>_ w. (Inr (), w)), v_Accessor = (\<lambda>_. None), v_Convert = (\<lambda>m. Inr (mc_Data m)),
      v_FromAPIVersionAndKind = (\<lambda>a k. \<lparr>gv_Group = a, gv_Version = ''v1'', gv_Kind = k\<rparr>), v_GroupVersion = gv_Group,
      v_UnmarshalSchema = (\<lambda>s. Inr [s]), v_SchemaGet = (\<lambda>_ _. Inr [''image'']), v_MarshalSchema = (\<lambda>_. Inr ''image''),
      v_EncodeToMap = (\<lambda>_. Inr []), v_MarshalSpec = (\<lambda>c. fmt_v (JObj c)), v_MarshalLabels = (\<lambda>l. Inr (Join (map fst l) '','')),
      v_MarshalTaints = (\<lambda>t. Inr (Join (map ta_Key t) '','')), v_MarshalClusterSpec = town_text,
      v_UnmarshalClusterSpec = (\<lambda>_. Inr (town_spec ''v1.27.6+rke2r1'' town_rke)), v_MCM = True,
      v_ClusterUpdate = (\<lambda>c w. (Inr c, w + 1)), v_ClusterUpdateStatus = (\<lambda>c w. (Inr c, w)), v_ClusterIndex = (\<lambda>_ _. Inr []),
      v_Enqueue = (\<lambda>_ _ w. w), v_CAPIClusterGet = (\<lambda>_ _ _. Inr town_capi), v_ControlPlaneGet = (\<lambda>_ _ _. Inr demo_cp),
      v_MgmtGet = (\<lambda>n _. Inr \<lparr>mg_Name = n, mg_Conditions = []\<rparr>), v_MgmtUpdate = (\<lambda>m w. (Inr m, w)), v_SameMap = (=),
      v_SameSelectorConfig = (=), v_SameRegistry = (=), v_SameStrategy = (=), v_SameAgent = (=), v_SameRestore = (=)\<rparr>"

lemma town_laws: "spec_codecs town_env" "comparisons_reflexive town_env" "schema_codec town_env"
  by (auto simp: spec_codecs_def comparisons_reflexive_def schema_codec_def town_env_def planner_env.defs idle_defs demo_libs_def town_text_def
      split: if_splits)

definition town_asked :: RKEConfig where "town_asked = town_rke\<lparr>rk_ETCDSnapshotRestore := Some town_restore\<rparr>"

lemma town_env_simps [simp]:
  "q_SnapshotCacheGet town_env = (\<lambda>_ _ _. Inr town_snapshot)"
  "q_UnmarshalSnapshotMap town_env = (\<lambda>_. Inr [''provisioning-cluster-spec'' \<mapsto> b64_encode ''zspec''])"
  "v_MarshalClusterSpec town_env = town_text" "v_MCM town_env" "v_SameMap town_env = (=)" "v_SameSelectorConfig town_env = (=)"
  "v_SameRegistry town_env = (=)" "v_SameStrategy town_env = (=)" "v_SameAgent town_env = (=)" "v_SameRestore town_env = (=)"
  "v_CAPIClusterGet town_env = (\<lambda>_ _ _. Inr town_capi)" "v_ControlPlaneGet town_env = (\<lambda>_ _ _. Inr demo_cp)"
  "v_MgmtGet town_env = (\<lambda>n _. Inr \<lparr>mg_Name = n, mg_Conditions = []\<rparr>)" "v_MgmtUpdate town_env = (\<lambda>m w. (Inr m, w))"
  "lib_gzip town_env = lib_gzip demo_libs"
  by (simp_all add: town_env_def planner_env.defs idle_defs)

lemmas town_defs = town_def town_spec_def town_asked_def town_rke_def town_restore_def restoreRKEConfigAll_def restoreRKEConfigNone_def
  restoreRKEConfigKubernetesVersion_def

lemma town_control_plane:
  "\<exists>g. rkeControlPlane town_env (town town_asked) town_asked = Inr g \<and> gc_Spec g = control_plane_spec (town town_asked) town_asked \<and>
     taken_with town_env town_snapshot g"
proof -
  have "b64_encode ''md'' \<noteq> ''''" by code_simp
  then show ?thesis
    by (simp add: rkeControlPlane_def CompressInterface_def town_text_def filtered_spec_def town_defs demo_libs_def taken_with_def town_snapshot_def
        b64_decode_encode del: b64_encode.simps)
qed

lemma town_found: "findSnapshotClusterSpec town_env ns n w = Inr (town_spec ''v1.27.6+rke2r1'' town_rke)"
proof -
  obtain g where g: "rkeControlPlane town_env (town town_asked) town_asked = Inr g" "taken_with town_env town_snapshot g"
    using town_control_plane by blast
  have "q_SnapshotCacheGet town_env ns n w = Inr town_snapshot" by simp
  from snapshot_spec_found [OF town_laws(1) g(1) this g(2)] show ?thesis by (simp add: filtered_spec_def town_defs)
qed

lemma town_pass: "restore_config town_env (town town_asked) town_asked demo_cp w = (None, w)"
  by (simp add: restore_config_def wants_config_def town_found reconcileClusterSpecEtcdRestore_def restore_rke_def restore_top_def
      restore_field_def same_pointer_def town_defs)

lemma town_generated:
  "\<exists>g objs status' w'. OnRancherClusterChange town_env (town town_asked) (cl_Status (town town_asked)) 0 = ((objs, status', None), w') \<and>
     OControlPlane g \<in> set objs \<and> gc_Spec g = control_plane_spec (town town_asked) town_asked"
proof -
  obtain g where g: "rkeControlPlane town_env (town town_asked) town_asked = Inr g" "gc_Spec g = control_plane_spec (town town_asked) town_asked"
    using town_control_plane by blast
  have fields: "cs_RKEConfig (cl_Spec (town town_asked)) = Some town_asked" "ct_ClusterName (cl_Status (town town_asked)) \<noteq> ''''"
    "cl_DeletionTimestamp (town town_asked) = None" "cs_KubernetesVersion (cl_Spec (town town_asked)) \<noteq> ''''" "cl_Finalizers (town town_asked) \<noteq> []"
    "rk_InfrastructureRef town_asked = None" "rk_MachinePools town_asked = []"
    by (simp_all add: town_defs)
  have "getRKEControlPlaneForCluster town_env (town town_asked) 0 = Inr (Some demo_cp)"
    by (simp add: getRKEControlPlaneForCluster_def town_capi_def)
  with g fields town_pass show ?thesis
    by (auto simp: OnRancherClusterChange_def report_control_plane_def retrieveMgmtClusterFromCache_def generate_def cluster_objects_def
        machineDeployments_def bindE_def Let_def)
qed

theorem restore_waits_for_config_witness:
  "\<exists>spec rd. findSnapshotClusterSpec town_env ''fleet-default'' ''snap'' 0 = Inr spec \<and> cs_RKEConfig spec = Some rd \<and>
     sp_KubernetesVersion (control_plane_spec (town town_asked) town_asked) = cs_KubernetesVersion spec \<and>
     sp_StackPreference (control_plane_spec (town town_asked) town_asked) = rk_Networking rd"
proof -
  obtain g objs status' w' where run: "OnRancherClusterChange town_env (town town_asked) (cl_Status (town town_asked)) 0 = ((objs, status', None), w')"
      "OControlPlane g \<in> set objs" and g: "gc_Spec g = control_plane_spec (town town_asked) town_asked"
    using town_generated by blast
  have cp: "getRKEControlPlaneForCluster town_env (town town_asked) 0 = Inr (Some demo_cp)"
    by (simp add: getRKEControlPlaneForCluster_def town_capi_def)
  have r: "sp_ETCDSnapshotRestore (gc_Spec g) = Some town_restore" by (simp add: g control_plane_spec_def town_asked_def)
  have n: "sr_Name town_restore \<noteq> ''''" "\<not> v_SameRestore town_env (st_ETCDSnapshotRestore (cp_Status demo_cp)) (Some town_restore)"
    "sr_RestoreRKEConfig town_restore = restoreRKEConfigAll" "cl_Namespace (town town_asked) = ''fleet-default''" "sr_Name town_restore = ''snap''"
    by (simp_all add: town_defs demo_cp_def demo_status_def)
  from restore_waits_for_config [OF run cp r n(1,2)] n(3-5) show ?thesis by (auto simp: g)
qed

theorem snapshot_restores_config_witness:
  "\<exists>spec restored changed. findSnapshotClusterSpec town_env ''fleet-default'' ''snap'' 0 = Inr spec \<and>
     reconcileClusterSpecEtcdRestore town_env (town_spec ''v1.28.0+rke2r1'' town_rke) spec = Inr (restored, changed) \<and>
     cs_KubernetesVersion restored = ''v1.27.6+rke2r1''"
proof -
  obtain g where g: "rkeControlPlane town_env (town town_asked) town_asked = Inr g" "taken_with town_env town_snapshot g"
    using town_control_plane by blast
  have c: "cs_RKEConfig (cl_Spec (town town_asked)) = Some town_asked" "cs_RKEConfig (town_spec ''v1.28.0+rke2r1'' town_rke) = Some town_rke"
    "q_SnapshotCacheGet town_env ''fleet-default'' ''snap'' 0 = Inr town_snapshot" "cs_KubernetesVersion (cl_Spec (town town_asked)) = ''v1.27.6+rke2r1''"
    by (simp_all add: town_defs)
  from snapshot_restores_config [OF town_laws(1,2) g(1) c(1,3) g(2) c(2)] c(4) show ?thesis by (auto simp: same_top_def)
qed

definition town_pooled :: RKEConfig where "town_pooled = town_rke\<lparr>rk_MachinePools := [town_pool]\<rparr>"

lemma town_pooled_loop: "\<exists>objs. pool_loop town_env (town town_rke) town_pooled {} [town_pool] 0 = (Inr objs, 0)"
proof -
  have "(case pool_loop town_env (town town_rke) town_pooled {} [town_pool] 0 of (Inr _, w) \<Rightarrow> w = 0 | _ \<Rightarrow> False)" by code_simp
  then show ?thesis by (auto split: prod.splits sum.splits)
qed

theorem pools_become_deployments_witness:
  "\<exists>objs d. cluster_objects town_env (town town_rke) town_pooled 0 = (Inr objs, 0) \<and> deployments objs = [d] \<and>
     md_Name d = ''town-pool1'' \<and> role_of town_pool d EtcdRoleLabel True \<and> role_of town_pool d WorkerRoleLabel False"
proof -
  obtain os where loop: "pool_loop town_env (town town_rke) town_pooled {} [town_pool] 0 = (Inr os, 0)" using town_pooled_loop by blast
  have "\<exists>g. rkeControlPlane town_env (town town_rke) town_pooled = Inr g"
    by (simp add: rkeControlPlane_def CompressInterface_def town_text_def filtered_spec_def town_def town_spec_def town_rke_def demo_libs_def)
  then obtain g where "rkeControlPlane town_env (town town_rke) town_pooled = Inr g" ..
  moreover have "cl_DeletionTimestamp (town town_rke) = None" "rk_InfrastructureRef town_pooled = None" "rk_MachinePools town_pooled = [town_pool]"
    by (simp_all add: town_def town_pooled_def town_rke_def)
  ultimately obtain objs where run: "cluster_objects town_env (town town_rke) town_pooled 0 = (Inr objs, 0)"
    using loop by (simp add: cluster_objects_def machineDeployments_def bindE_def Let_def del: pool_loop.simps)
  have live: "live_pools town_pooled = [town_pool]" by (simp add: live_pools_def town_pooled_def town_pool_def)
  have "cl_DeletionTimestamp (town town_rke) = None" "v_MCM town_env" by (simp_all add: town_def)
  from pools_become_deployments [OF run this] live obtain d where d: "deployments objs = [d]" "deploys town_env (town town_rke) objs town_pool d"
    by (auto simp: list_all2_Cons1)
  moreover have "lib_SafeConcatName town_env [''town'', ''pool1''] = ''town-pool1''"
    by (simp add: town_env_def planner_env.defs idle_defs demo_libs_def)
  ultimately show ?thesis using run by (auto simp: deploys_def town_def town_pool_def)
qed

theorem schemas_filled_once_witness:
  "\<exists>c'. 1 = snd (v_ClusterUpdate town_env c' 0) \<and> cluster_OnChange town_env (Some c') 5 = (Inr (Some c'), 5)"
proof -
  let ?c = "town (town_rke\<lparr>rk_MachinePools := [town_pool\<lparr>mp_DynamicSchemaSpec := ''''\<rparr>]\<rparr>)"
  have "snd (cluster_OnChange town_env (Some ?c) 0) = 1" by code_simp
  then have "snd (cluster_OnChange town_env (Some ?c) 0) \<noteq> 0" "snd (cluster_OnChange town_env (Some ?c) 0) = 1" by simp_all
  with schemas_filled_once [OF town_laws(3) surjective_pairing this(1)] show ?thesis by auto
qed

end
