(* ===== verification/Spec2Isabelle.thy ===== *)
theory Spec2Isabelle
  imports Restore_Run Drain_Correct Plan_Secret_Correct Bootstrap_Correct Controllers_Correct Backpopulate_Pass System_Agent_Correct Provision_Correct
    Custom_Machine Node_Lookup Cluster_Correct
begin

text \<open>
  A verification development of CAPR, the part of Rancher that provisions RKE2 and K3s clusters
  through Cluster API (\<open>src/pkg/capr\<close>, \<open>src/pkg/controllers/capr\<close>, \<open>src/pkg/apis/rke.cattle.io/v1\<close>), with the
  controllers outside it that share its objects.

  \<^bold>\<open>The program.\<close> For every cluster there is an RKEControlPlane object, a CAPI cluster, which a controller
  generates from the provisioning cluster of Rancher, a CAPI
  machine per node and, per machine, a plan secret. The planner is run on every change of these
  objects. One pass (\<open>Process\<close>) loads the machines and plan secrets of the cluster into a plan,
  and then, in this order: takes an etcd snapshot, restores one, waits for the upgrade
  controller, rotates certificates, rotates the encryption keys, and finally reconciles the
  machines tier by tier: the init node, the other etcd machines, the control plane, the workers.
  Each step may change the status, write plan secrets and return an error or a wait, which ends
  the pass. An agent on the machine reads the plan secret, applies the plan and writes back
  checksums, outputs and probe results. Around the planner run controllers that share these
  objects with it: the planner's own turns the outcome of a pass into the status; the controller
  of plan secrets records a plan as applied when the agent has reported its checksum, which is
  what the planner reads as in sync; the drain controller answers the planner's requests to
  drain and uncordon a node; the bootstrap controller creates the plan secret with its service
  account and holds an etcd machine back until its member has left. A machine comes to be in one of
  two ways: the provisioning controller runs a job of the node driver that creates a server, and
  another that removes it, or an agent on an existing server registers it as a custom machine; the
  node lookup then takes the provider ID from the node. The controller of the system agent installs
  the upgrade controller, whose state gates upgrades in the planner; the snapshots that the nodes list
  become objects, from which a restore is chosen; taints that are asked for reach the nodes.

  \<^bold>\<open>Modelling.\<close> A Go struct is a record, an enumeration a datatype with the source's values and
  a constructor for any other string, a map of strings a partial function (an association list
  where the order in which the source sorts or iterates matters), \<open>int\<close> values that only count
  are \<open>int\<close>, the checksums and the join-URL hash are words of their width. A fallible call is a
  sum \<open>go_error + 'a\<close>, a call with effects on the planner's state \<open>'s \<Rightarrow> (go_error + 'a) \<times> 's\<close>
  (\<open>go\<close>, \<open>bindE\<close>, \<open>liftE\<close> of \<open>Go_Prelude\<close>), a step on the status returns status and error as the
  source does (\<open>statusE\<close>, \<open>thenS\<close>, \<open>tryS\<close> of \<open>Planner_Env\<close>). A panic is the error \<open>GoPanic\<close> and is never
  handled. The state is \<open>pstate\<close>: a world of an arbitrary type, which the clients of the API
  server read and write, and the loaded plan; an entry shares its metadata with the plan, so an
  operation on an entry writes it back (\<open>on_entry\<close>). Code outside \<open>src/\<close> is a field of the
  environment records \<open>libs\<close>, \<open>store_env\<close>, \<open>config_env\<close>, \<open>planner_env\<close> and those of the controllers that
  extend them (\<open>drain_env\<close>, \<open>plansecret_env\<close>, \<open>bootstrap_env\<close>, \<open>controller_env\<close>, \<open>backpop_env\<close>, \<open>sysagent_env\<close>, \<open>nodesync_env\<close>,
  \<open>args_env\<close>, \<open>provision_env\<close>, \<open>custom_env\<close>, \<open>lookup_env\<close>, \<open>cluster_env\<close>): the generated clients and
  caches, JSON and YAML codecs, hashes, semantic versions, conditions, the clock, random tokens.
  No field is assumed to do anything: a theorem that needs a law names it (\<open>update_echoes\<close>,
  \<open>plan_codec\<close>, \<open>unique_names\<close>, \<open>conditions_laws\<close>, \<open>status_store\<close>, \<open>request_codecs\<close>, \<open>spec_codecs\<close>). The concrete environments \<open>demo_libs\<close>, \<open>demo_store\<close>,
  \<open>demo_config\<close>, \<open>demo_planner\<close>, \<open>live_planner\<close> and \<open>idle_planner\<close> satisfy these laws and run the code in witnesses.
  Loops are recursion over the list that the source iterates over; no fuel is needed.

  \<^bold>\<open>Theories.\<close>
  \<^item> \<open>Go_Prelude\<close>, \<open>Go_Strconv\<close>: errors, monads, maps, strings, base64, \<open>strconv\<close>, \<open>strings\<close>.
  \<^item> \<open>Capr_Types\<close>: the API types and label keys. \<open>Capr_Common\<close>: \<open>pkg/capr/common.go\<close>.
  \<^item> \<open>Plan_Entry\<close>: \<open>planentry.go\<close>, \<open>errors.go\<close>, \<open>messages.go\<close>; \<open>collect\<close> is exact and independent of map order.
  \<^item> \<open>Plan_Store\<close>, \<open>Plan_Store_Correct\<close>: \<open>store.go\<close>; the locales \<open>entry_op\<close> and \<open>role_keeping_op\<close> state
    what every operation on an entry keeps of the plan and are interpreted on the store's
    operations; what a plan update writes, when a plan has failed, what loading returns.
  \<^item> \<open>Init_Node\<close>: \<open>initnode.go\<close>; an election never makes a second init node, and succeeds only with
    a single viable one. A control plane that pins its init node by machine ID gets less: the
    machine with the ID is marked, and only etcd machines lose their marks for it. The theorems
    on an election, on a pass over the tiers, on a whole pass and on the applied spec cover
    both cases (\<open>init_node_elected\<close>, \<open>in_some_tier\<close>); two examples show the second mark.
  \<^item> \<open>Planner_Args\<close>, \<open>S3_Args\<close>, \<open>Node_Config\<close>, \<open>Node_Config_Correct\<close>, \<open>Node_Plan\<close>: \<open>filter.go\<close>, \<open>s3args.go\<close>,
    \<open>config.go\<close>, \<open>registry.go\<close>, \<open>manifests.go\<close>, \<open>agent.go\<close>, \<open>defaultplan.go\<close>, \<open>idempotent.go\<close>, \<open>instructions.go\<close>,
    \<open>probe.go\<close> and the rendering half of \<open>planner.go\<close>: the desired plan of a machine.
  \<^item> \<open>Planner_Env\<close>, \<open>Planner_Drain\<close>, \<open>Planner_Join\<close>, \<open>Planner_Reconcile\<close>, \<open>Planner_Tiers\<close>,
    \<open>Planner_Tiers_Correct\<close>: \<open>drain.go\<close> and the reconciling half of \<open>planner.go\<close>: which machines may be
    disrupted, what a tier and a pass over all tiers guarantee.
  \<^item> \<open>Etcd_Create\<close>, \<open>Etcd_Restore\<close>, \<open>Cert_Rotation\<close>, \<open>Key_Rotation\<close>: \<open>etcdcreate.go\<close>, \<open>etcdrestore.go\<close>,
    \<open>certificaterotation.go\<close>, \<open>encryptionkeyrotation.go\<close>: the operations that take many passes.
  \<^item> \<open>Phases_Correct\<close>, \<open>Restore_Run\<close>, \<open>Operations_Correct\<close>: these operations as state machines. The
    locales \<open>phase_machine\<close>, \<open>phase_passes\<close> and \<open>phase_by_phase\<close> hold what is shared (a rank that every
    step lowers, a bound on the changes of phase, that no phase is skipped) and are interpreted on
    restore, snapshot and key rotation.
  \<^item> \<open>Planner_Process\<close>, \<open>Process_Correct\<close>: \<open>Process\<close> and what a pass without error means.
  \<^item> \<open>Controller_Env\<close>: the objects as the controllers see them. \<open>Planner_Controller\<close>, \<open>Controllers_Correct\<close>:
    \<open>planner/controller.go\<close>, \<open>rkecontrolplane/controlplane.go\<close>, \<open>rkecluster/controller.go\<close>; a spec counts as applied only
    after a pass that found the cluster up, a control plane goes after its machines.
  \<^item> \<open>Plan_Secret\<close>, \<open>Plan_Secret_Correct\<close>: \<open>plansecret/plansecret.go\<close>; the history of a plan secret as an inductive
    relation of planner, agent and controller: in sync means applied, and applied comes in sync.
  \<^item> \<open>Machine_Drain\<close>, \<open>Drain_Correct\<close>: \<open>machinedrain/machinedrain.go\<close>; the drain handshake of planner and
    controller completes and leaves the secret as it was, and its done marker is never early.
  \<^item> \<open>Bootstrap\<close>, \<open>Bootstrap_Correct\<close>: \<open>bootstrap/controller.go\<close>, \<open>etcdmgmt/saferemoval.go\<close>; an etcd machine of
    a living cluster is released only when nobody is joined to it and its member is gone, the plan service account reaches its own secret only.
  \<^item> \<open>Snapshot_Backpopulate\<close>, \<open>Backpopulate_Store\<close>, \<open>Backpopulate_Correct\<close>, \<open>Backpopulate_Pass\<close>:
    \<open>managementuser/snapshotbackpopulate/snapshotbackpopulate.go\<close>; a pass makes the snapshot objects those of the
    config map, a second pass changes nothing, and together with the controller of plan secrets
    it deletes an object only after it was found absent from the config map.
  \<^item> \<open>System_Agent\<close>, \<open>System_Agent_Correct\<close>: \<open>managesystemagent\<close> and \<open>managedchart\<close>; the planner lets an
    upgrade across 1.25 go on exactly when the upgrade controller is there without pod security policies.
  \<^item> \<open>Node_Taints\<close>: \<open>pkg/taints/utils.go\<close>, \<open>nodesyncer/nodetaints.go\<close>; a node gets exactly the wanted taints.
  \<^item> \<open>Machine_Args\<close>, \<open>Machine_Provision\<close>, \<open>Provision_Correct\<close>: \<open>machineprovision/args.go\<close>, \<open>template.go\<close>,
    \<open>controller.go\<close>; the histories of a machine as an inductive relation: after a creation it is let go
    only once its own removal job was found over; a server is created only when it is due; host names keep their bound.
    \<open>Idle_Env\<close>: an environment for witnesses over any world.
  \<^item> \<open>Custom_Machine\<close>: \<open>unmanaged/controller.go\<close>; what an agent asks for at registration is what the planner
    reads from the plan secret, through the bootstrap controller.
  \<^item> \<open>Node_Lookup\<close>: \<open>machinenodelookup/controller.go\<close>; a provider ID comes from a ready node of a ready machine.
  \<^item> \<open>Cluster_Objects\<close>, \<open>Cluster_Controller\<close>, \<open>Cluster_Correct\<close>: \<open>provisioningv2/provisioningcluster\<close>; the planner is asked for a
    restore only when the configuration of the snapshot is in place, a snapshot gives the
    configuration back, machine pools become machine deployments, schemas are filled in once.

  \<^bold>\<open>Not modelled.\<close> The generated clients and types (\<open>pkg/generated\<close>, \<open>zz_generated\<close> files) have no
  logic of their own. Of the controllers of \<open>controllers/capr\<close>, the one that generates the schemas of the machine
  kinds is left out: provisioning does not read what it writes. The scripts
  that install the agent (\<open>pkg/capr/installer\<close>), the server that hands them out
  (\<open>pkg/capr/configserver\<close>) and the token secret of a service account are
  parameters of the bootstrap controller. The controllers that create or import the management cluster of a
  provisioning cluster (\<open>controllers/provisioningv2/cluster\<close>) are not modelled: the others only read its name
  and its conditions. The parts of Rancher outside provisioning (authentication, RBAC, the norman
  API and its stores, monitoring, Helm catalogs, RKE1 provisioning, the UI's schemas) keep state
  of their own and do not call the planner. Logging, metrics and the registration of handlers are
  left out everywhere. Time is a value read from the world; that passes over one cluster do not
  overlap is the source's lock and is taken for granted.
\<close>

end
